(* ===== verification/Prelude.thy ===== *)
theory Prelude
  imports Complex_Main "HOL-Library.Word" "HOL-Library.Monad_Syntax" "HOL-Library.Multiset"
begin

text \<open>
  Shared vocabulary of the development: the C constructs the client uses, as far as the
  language and its standard library define them.

  \<^item> Undefined behaviour. A C function is a HOL function into \<open>'a option\<close>; \<open>None\<close> is undefined
    behaviour (a null pointer handed to \<open>strcmp\<close>, a write past a buffer, a conversion of a
    \<open>double\<close> that does not fit, the read of an uninitialised variable). A C return code is an
    \<open>int\<close> inside the \<open>Some\<close>, so an error return and undefined behaviour stay apart.
  \<^item> \<open>double\<close>. Finite doubles are rationals, and NaN and the infinities are kept as values.
  \<^item> Character arrays. An array of \<open>n\<close> bytes is the list of its bytes before the first NUL;
    a list of length \<open>n\<close> is an array without terminator (what \<open>strncpy\<close> can leave behind).
  \<^item> Loops with an early \<open>return\<close> are \<open>loop_ret\<close>.
\<close>

named_theorems c_defs \<open>definitions of C library functions and macros\<close>
named_theorems loop_rules \<open>invariant rules for loops\<close>

type_synonym u8 = "8 word"
type_synonym u16 = "16 word"
type_synonym u32 = "32 word"
type_synonym u64 = "64 word"

section \<open>Loops with an early return\<close>

text \<open>
  \<open>loop_ret f xs s\<close> runs the body \<open>f\<close> on each element; a body that yields a non-zero code
  returns from the enclosing function with that code.
\<close>

fun loop_ret :: "('a \<Rightarrow> 's \<Rightarrow> (int \<times> 's) option) \<Rightarrow> 'a list \<Rightarrow> 's \<Rightarrow> (int \<times> 's) option" where
  "loop_ret f [] s = Some (0, s)"
| "loop_ret f (x # xs) s =
     do {
       (r, s) \<leftarrow> f x s;
       if r \<noteq> 0 then Some (r, s) else loop_ret f xs s
     }"

lemma loop_ret_invariant [loop_rules]:
  assumes "loop_ret f xs s = Some (r, s')" and "P s"
    and "\<And>x t q t'. x \<in> set xs \<Longrightarrow> P t \<Longrightarrow> f x t = Some (q, t') \<Longrightarrow> P t'"
  shows "P s'"
  using assms
proof (induction xs arbitrary: s)
  case (Cons x xs)
  from Cons.prems(1) obtain q t where q: "f x s = Some (q, t)"
    by (auto simp: bind_eq_Some_conv)
  have "P t" using Cons.prems(2) Cons.prems(3)[of x s q t] q by simp
  show ?case
  proof (cases "q = 0")
    case True
    then have "loop_ret f xs t = Some (r, s')" using Cons.prems(1) q by simp
    then show ?thesis using \<open>P t\<close> Cons.prems(3) by (rule Cons.IH) auto
  qed (use Cons.prems(1) q \<open>P t\<close> in auto)
qed simp

text \<open>A loop that comes to its end ran every body with code 0; the invariant may use that.\<close>

lemma loop_ret_invariant0 [loop_rules]:
  assumes "loop_ret f xs s = Some (0, s')" and "P s"
    and "\<And>x t t'. x \<in> set xs \<Longrightarrow> P t \<Longrightarrow> f x t = Some (0, t') \<Longrightarrow> P t'"
  shows "P s'"
  using assms
proof (induction xs arbitrary: s)
  case (Cons x xs)
  from Cons.prems(1) obtain t where t: "f x s = Some (0, t)" "loop_ret f xs t = Some (0, s')"
    by (auto simp: bind_eq_Some_conv split: if_splits)
  then show ?case using Cons.prems(2,3) by (intro Cons.IH[of t]) auto
qed simp

lemma loop_ret_append:
  "loop_ret f (xs @ ys) s =
     do { (r, s) \<leftarrow> loop_ret f xs s; if r \<noteq> 0 then Some (r, s) else loop_ret f ys s }"
proof (induction xs arbitrary: s)
  case (Cons x xs)
  then show ?case by (cases "f x s") (auto split: prod.splits)
qed simp

text \<open>A loop has no undefined behaviour when no body has, under an invariant.\<close>

lemma loop_ret_defined [loop_rules]:
  assumes "P s" and "\<And>x t. x \<in> set xs \<Longrightarrow> P t \<Longrightarrow> \<exists>q t'. f x t = Some (q, t') \<and> P t'"
  shows "\<exists>r s'. loop_ret f xs s = Some (r, s') \<and> P s'"
  using assms
proof (induction xs arbitrary: s)
  case (Cons x xs)
  obtain q t where "f x s = Some (q, t)" "P t"
    using Cons.prems(1) Cons.prems(2)[of x s] by auto
  moreover have "\<exists>r s'. loop_ret f xs t = Some (r, s') \<and> P s'"
    using \<open>P t\<close> Cons.prems(2) by (intro Cons.IH) auto
  ultimately show ?case by auto
qed simp

text \<open>Lists in groups of three: the induction rule is what matters.\<close>

fun in_threes :: "'a list \<Rightarrow> 'a list list" where
  "in_threes (a # b # c # xs) = [a, b, c] # in_threes xs"
| "in_threes [] = []"
| "in_threes [a] = [[a]]"
| "in_threes [a, b] = [[a, b]]"

text \<open>Elimination rules for the steps of a \<open>do\<close> block that came to an end, by the number of
  components the step binds.\<close>

named_theorems bindE \<open>elimination rules for option binds\<close>

lemma bind_SomeE:
  assumes "Option.bind x f = Some r" obtains a where "x = Some a" "f a = Some r"
  using assms by (auto simp: bind_eq_Some_conv)

lemma bind_Some4E [bindE]:
  assumes "Option.bind x (\<lambda>(a, b, c, d). f a b c d) = Some r"
  obtains a b c d where "x = Some (a, b, c, d)" "f a b c d = Some r"
  using assms by (auto simp: bind_eq_Some_conv)

lemma bind_Some3E [bindE]:
  assumes "Option.bind x (\<lambda>(a, b, c). f a b c) = Some r"
  obtains a b c where "x = Some (a, b, c)" "f a b c = Some r"
  using assms by (auto simp: bind_eq_Some_conv)

lemma bind_Some2E [bindE]:
  assumes "Option.bind x (\<lambda>(a, b). f a b) = Some r"
  obtains a b where "x = Some (a, b)" "f a b = Some r"
  using assms by (auto simp: bind_eq_Some_conv)

lemma case3E [bindE]:
  assumes "(case x of (a, b, c) \<Rightarrow> f a b c) = Some r"
  obtains a b c where "x = (a, b, c)" "f a b c = Some r"
  using assms by (auto split: prod.splits)

lemma case2E [bindE]:
  assumes "(case x of (a, b) \<Rightarrow> f a b) = Some r"
  obtains a b where "x = (a, b)" "f a b = Some r"
  using assms by (auto split: prod.splits)

lemmas [bindE] = bind_SomeE

section \<open>The type double and its conversions\<close>

datatype dbl = NaN | PInf | NInf | Fin rat

text \<open>\<open>!d\<close> and \<open>(bool)d\<close>: only zero is false, NaN is true.\<close>

definition dbl_true :: "dbl \<Rightarrow> bool" where
  "dbl_true d \<longleftrightarrow> d \<noteq> Fin 0"

definition dbl_ge :: "dbl \<Rightarrow> rat \<Rightarrow> bool" where
  "dbl_ge d q = (case d of Fin r \<Rightarrow> q \<le> r | PInf \<Rightarrow> True | _ \<Rightarrow> False)"

definition trunc_rat :: "rat \<Rightarrow> int" where
  "trunc_rat q = (if q < 0 then \<lceil>q\<rceil> else \<lfloor>q\<rfloor>)"

text \<open>Conversion to an unsigned integer type: undefined unless the truncated value fits.\<close>

definition dbl_to_word :: "dbl \<Rightarrow> 'a::len word option" where
  "dbl_to_word d = (case d of
     Fin q \<Rightarrow> if 0 \<le> trunc_rat q \<and> trunc_rat q < 2 ^ LENGTH('a)
              then Some (word_of_int (trunc_rat q)) else None
   | _ \<Rightarrow> None)"

text \<open>Conversion to a signed integer type of \<open>n\<close> bits, the value as an \<open>int\<close>.\<close>

definition dbl_to_int :: "nat \<Rightarrow> dbl \<Rightarrow> int option" where
  "dbl_to_int n d = (case d of
     Fin q \<Rightarrow> if - (2 ^ (n - 1)) \<le> trunc_rat q \<and> trunc_rat q < 2 ^ (n - 1)
              then Some (trunc_rat q) else None
   | _ \<Rightarrow> None)"

lemma trunc_rat_of_int [simp]: "trunc_rat (of_int n) = n"
  by (simp add: trunc_rat_def)

lemma trunc_rat_simps [simp]:
  "trunc_rat 0 = 0" "trunc_rat 1 = 1" "trunc_rat (numeral k) = numeral k"
  "trunc_rat (- numeral k) = - numeral k"
  by (simp_all add: trunc_rat_def)

lemma dbl_to_word_numeral [simp]:
  "dbl_to_word (Fin (numeral k)) =
     (if numeral k < (2 :: int) ^ LENGTH('a) then Some (numeral k :: 'a::len word) else None)"
  by (simp add: dbl_to_word_def)

lemma dbl_to_word_small [simp]:
  "dbl_to_word (Fin 0) = Some 0" "dbl_to_word (Fin 1) = Some 1"
  by (simp_all add: dbl_to_word_def)

lemma dbl_to_word_NaN [simp]: "dbl_to_word NaN = None"
  by (simp add: dbl_to_word_def)

lemma dbl_to_word_Some:
  "dbl_to_word d = Some w \<longleftrightarrow>
     (\<exists>q. d = Fin q \<and> 0 \<le> trunc_rat q \<and> trunc_rat q < 2 ^ LENGTH('a) \<and>
          (w :: 'a::len word) = word_of_int (trunc_rat q))"
  by (auto simp: dbl_to_word_def split: dbl.splits if_splits)

section \<open>Character arrays\<close>

text \<open>\<open>strcpy\<close> into an array of \<open>n\<close> bytes: undefined if the string and its NUL do not fit.\<close>

definition strcpy :: "nat \<Rightarrow> string option \<Rightarrow> string option" where
  "strcpy n src = do { s \<leftarrow> src; if length s < n then Some s else None }"

text \<open>\<open>strncpy (dst, src, k)\<close>: at most \<open>k\<close> bytes, no terminator when the source is longer.\<close>

definition strncpy :: "nat \<Rightarrow> string option \<Rightarrow> string option" where
  "strncpy k src = map_option (take k) src"

text \<open>\<open>snprintf (dst, n, "%s", src)\<close>: truncated, always terminated.\<close>

definition snprintf_s :: "nat \<Rightarrow> string \<Rightarrow> string" where
  "snprintf_s n src = take (n - 1) src"

text \<open>Reading an array of \<open>n\<close> bytes as a C string: undefined without a terminator.\<close>

definition cstr :: "nat \<Rightarrow> string \<Rightarrow> string option" where
  "cstr n buf = (if length buf < n then Some buf else None)"

text \<open>\<open>strcmp (a, b) == 0\<close>; a null pointer is undefined behaviour.\<close>

definition streq :: "string option \<Rightarrow> string \<Rightarrow> bool option" where
  "streq a b = map_option (\<lambda>s. s = b) a"

lemmas [c_defs] = strcpy_def strncpy_def snprintf_s_def cstr_def streq_def

lemma strcpy_length: "strcpy n src = Some s \<Longrightarrow> length s < n"
  by (auto simp: strcpy_def bind_eq_Some_conv split: if_splits)

section \<open>Decimal numbers: printf and scanf\<close>

definition digit_char :: "nat \<Rightarrow> char" where
  "digit_char n = char_of (48 + n)"

definition digit_val :: "char \<Rightarrow> nat option" where
  "digit_val c = (let v = of_char c in if 48 \<le> v \<and> v \<le> 57 then Some (v - 48) else None)"

text \<open>What \<open>%u\<close>, \<open>%hu\<close> and \<open>%lu\<close> print.\<close>

fun dec :: "nat \<Rightarrow> string" where
  "dec n = (if n < 10 then [digit_char n] else dec (n div 10) @ [digit_char (n mod 10)])"

declare dec.simps [simp del]

fun scan_digits :: "nat \<Rightarrow> string \<Rightarrow> nat" where
  "scan_digits acc [] = acc"
| "scan_digits acc (c # cs) =
     (case digit_val c of None \<Rightarrow> acc | Some d \<Rightarrow> scan_digits (10 * acc + d) cs)"

text \<open>The outcome of a \<open>sscanf\<close> with one conversion: the return value is 1, 0 or EOF; a value
  that its object cannot hold is undefined behaviour.\<close>

datatype scan = ScanVal nat | ScanFail | ScanEOF | ScanRange

definition is_ws :: "char \<Rightarrow> bool" where
  "is_ws c \<longleftrightarrow> c \<in> set [CHR '' '', CHR 0x09, CHR 0x0A, CHR 0x0B, CHR 0x0C, CHR 0x0D]"

definition scan_num :: "nat \<Rightarrow> bool \<Rightarrow> string \<Rightarrow> scan" where
  "scan_num w neg s =
     (case s of [] \<Rightarrow> ScanFail
      | c # cs \<Rightarrow>
         (case digit_val c of None \<Rightarrow> ScanFail
          | Some d \<Rightarrow> let n = scan_digits d cs in
              if int n < 2 ^ w \<and> (\<not> neg \<or> n = 0) then ScanVal n else ScanRange))"

text \<open>\<open>%u\<close> for an unsigned object of \<open>w\<close> bits, after white space and an optional sign.\<close>

definition scan_unsigned :: "nat \<Rightarrow> string \<Rightarrow> scan" where
  "scan_unsigned w s =
     (case dropWhile is_ws s of [] \<Rightarrow> ScanEOF
      | c # cs \<Rightarrow> if c = CHR ''-'' then scan_num w True cs
                 else if c = CHR ''+'' then scan_num w False cs
                 else scan_num w False (c # cs))"

text \<open>A literal of the format, then one unsigned conversion.\<close>

fun scan_lit :: "string \<Rightarrow> nat \<Rightarrow> string \<Rightarrow> scan" where
  "scan_lit [] w s = scan_unsigned w s"
| "scan_lit (c # cs) w [] = ScanEOF"
| "scan_lit (c # cs) w (d # ds) = (if c = d then scan_lit cs w ds else ScanFail)"

lemmas [c_defs] = scan_num_def scan_unsigned_def digit_val_def is_ws_def

lemma digit_val_digit_char [simp]: "n < 10 \<Longrightarrow> digit_val (digit_char n) = Some n"
  by (simp add: digit_val_def digit_char_def)

lemma digit_char_not [simp]:
  assumes "n < 10"
  shows "\<not> is_ws (digit_char n)" "digit_char n \<noteq> CHR ''-''" "digit_char n \<noteq> CHR ''+''"
proof -
  have "of_char (digit_char n) = 48 + n" using assms by (simp add: digit_char_def)
  then have "digit_char n \<noteq> c" if "of_char c < (48 :: nat)" for c
    using that by auto
  then show "\<not> is_ws (digit_char n)" "digit_char n \<noteq> CHR ''-''" "digit_char n \<noteq> CHR ''+''"
    by (auto simp: is_ws_def)
qed

lemma dec_digits: "\<exists>d ds. dec n = digit_char d # ds \<and> d < 10"
proof (induction n rule: dec.induct)
  case (1 n)
  then show ?case by (cases "n < 10") (auto simp: dec.simps[of n])
qed

lemma scan_digits_dec:
  "\<exists>k. \<forall>acc. scan_digits acc (dec n) = acc * 10 ^ k + n"
proof (induction n rule: dec.induct)
  case (1 n)
  have app: "scan_digits acc (dec m @ [digit_char d]) = 10 * scan_digits acc (dec m) + d"
    if "d < 10" for acc m d
  proof -
    have "scan_digits acc (xs @ [digit_char d]) = 10 * scan_digits acc xs + d"
      if "\<forall>c \<in> set xs. digit_val c \<noteq> None" for xs
      using that \<open>d < 10\<close> by (induction xs arbitrary: acc) auto
    moreover have "\<forall>c \<in> set (dec m). digit_val c \<noteq> None"
    proof (induction m rule: dec.induct)
      case (1 m)
      then show ?case by (cases "m < 10") (auto simp: dec.simps[of m])
    qed
    ultimately show ?thesis by blast
  qed
  show ?case
  proof (cases "n < 10")
    case True
    then show ?thesis by (intro exI[of _ 1]) (simp add: dec.simps[of n])
  next
    case False
    then obtain k where k: "\<forall>acc. scan_digits acc (dec (n div 10)) = acc * 10 ^ k + n div 10"
      using 1 by blast
    show ?thesis
      using False k app[of "n mod 10" _ "n div 10"]
      by (intro exI[of _ "Suc k"]) (simp add: dec.simps[of n])
  qed
qed

text \<open>A printed number scans back to itself.\<close>

lemma scan_dec: "n < 2 ^ w \<Longrightarrow> scan_unsigned w (dec n) = ScanVal n"
proof -
  assume n: "n < 2 ^ w"
  obtain d ds where d: "dec n = digit_char d # ds" "d < 10" using dec_digits by blast
  obtain k where "\<forall>acc. scan_digits acc (dec n) = acc * 10 ^ k + n"
    using scan_digits_dec by blast
  then have "scan_digits 0 (dec n) = n" by simp
  then have "scan_digits d ds = n" using d by simp
  moreover have "int n < 2 ^ w" using n by (metis of_nat_less_iff of_nat_numeral of_nat_power)
  ultimately show ?thesis using d by (simp add: scan_unsigned_def scan_num_def Let_def)
qed

lemma scan_lit_append: "scan_lit lit w (lit @ s) = scan_unsigned w s"
  by (induction lit) auto

end
