(* ===== verification/Base64.thy ===== *)
theory Base64
  imports Prelude
begin

unbundle bit_operations_syntax

text \<open>
  \<open>base64.c\<close>: the encoder and the decoder through which a script reaches the device. Both are
  the state machines of the source: the encoder keeps the phase \<open>s\<close> and the last byte \<open>l\<close>; the
  decoder writes into a caller's array, and a write outside the array is \<open>None\<close>. The lemmas
  show the round trip and that the arrays sized by the macros of \<open>base64.h\<close> suffice.
\<close>

section \<open>Tables and sizes\<close>

definition BASE64_PAD :: char where
  "BASE64_PAD = CHR ''=''"

definition base64en :: string where
  "base64en = ''ABCDEFGHIJKLMNOPQRSTUVWXYZabcdefghijklmnopqrstuvwxyz0123456789+/''"

definition base64de :: "u8 list" where
  "base64de =
    [255, 255, 255, 255, 255, 255, 255, 255,
     255, 255, 255, 255, 255, 255, 255, 255,
     255, 255, 255, 255, 255, 255, 255, 255,
     255, 255, 255, 255, 255, 255, 255, 255,
     255, 255, 255, 255, 255, 255, 255, 255,
     255, 255, 255, 62, 255, 255, 255, 63,
     52, 53, 54, 55, 56, 57, 58, 59,
     60, 61, 255, 255, 255, 255, 255, 255,
     255, 0, 1, 2, 3, 4, 5, 6,
     7, 8, 9, 10, 11, 12, 13, 14,
     15, 16, 17, 18, 19, 20, 21, 22,
     23, 24, 25, 255, 255, 255, 255, 255,
     255, 26, 27, 28, 29, 30, 31, 32,
     33, 34, 35, 36, 37, 38, 39, 40,
     41, 42, 43, 44, 45, 46, 47, 48,
     49, 50, 51, 255, 255, 255, 255, 255]"

definition BASE64_ENCODE_OUT_SIZE :: "nat \<Rightarrow> nat" where
  "BASE64_ENCODE_OUT_SIZE s = ((s + 2) div 3) * 4 + 1"

definition BASE64_DECODE_OUT_SIZE :: "nat \<Rightarrow> nat" where
  "BASE64_DECODE_OUT_SIZE s = (s div 4) * 3"

section \<open>Encoding\<close>

definition en :: "u8 \<Rightarrow> char" where
  "en k = base64en ! unat k"

text \<open>One turn of the loop: phase, last byte and output so far.\<close>

definition encode_step :: "nat \<times> u8 \<times> string \<Rightarrow> u8 \<Rightarrow> nat \<times> u8 \<times> string" where
  "encode_step st c = (case st of (s, l, out) \<Rightarrow>
     if s = 0 then (1, c, out @ [en (drop_bit 2 c AND 0x3F)])
     else if s = 1 then
       (2, c, out @ [en (push_bit 4 (l AND 0x3) OR (drop_bit 4 c AND 0xF))])
     else
       (0, c, out @ [en (push_bit 2 (l AND 0xF) OR (drop_bit 6 c AND 0x3)), en (c AND 0x3F)]))"

definition encode_finish :: "nat \<times> u8 \<times> string \<Rightarrow> string" where
  "encode_finish st = (case st of (s, l, out) \<Rightarrow>
     if s = 1 then out @ [en (push_bit 4 (l AND 0x3)), BASE64_PAD, BASE64_PAD]
     else if s = 2 then out @ [en (push_bit 2 (l AND 0xF)), BASE64_PAD]
     else out)"

text \<open>The characters written before the terminating NUL; the C function returns their number.\<close>

definition base64_encode :: "u8 list \<Rightarrow> string" where
  "base64_encode inp = encode_finish (foldl encode_step (0, 0, []) inp)"

section \<open>Decoding\<close>

definition put :: "u8 list \<Rightarrow> nat \<Rightarrow> u8 \<Rightarrow> u8 list option" where
  "put out j v = (if j < length out then Some (out[j := v]) else None)"

definition put_or :: "u8 list \<Rightarrow> nat \<Rightarrow> u8 \<Rightarrow> u8 list option" where
  "put_or out j v = (if j < length out then Some (out[j := out ! j OR v]) else None)"

text \<open>The switch on \<open>i & 3\<close> for a code \<open>c\<close> of the table.\<close>

definition decode_write :: "nat \<Rightarrow> u8 \<Rightarrow> nat \<Rightarrow> u8 list \<Rightarrow> (nat \<times> u8 list) option" where
  "decode_write ph c j out =
     (if ph = 0 then do { out \<leftarrow> put out j (push_bit 2 c AND 0xFF); Some (j, out) }
      else if ph = 1 then do {
        out \<leftarrow> put_or out j (drop_bit 4 c AND 0x3);
        out \<leftarrow> put out (j + 1) (push_bit 4 (c AND 0xF));
        Some (j + 1, out) }
      else if ph = 2 then do {
        out \<leftarrow> put_or out j (drop_bit 2 c AND 0xF);
        out \<leftarrow> put out (j + 1) (push_bit 6 (c AND 0x3));
        Some (j + 1, out) }
      else do { out \<leftarrow> put_or out j c; Some (j + 1, out) })"

text \<open>The loop: the index \<open>i\<close>, the write position \<open>j\<close>, the output array and what is left of
  the input. The result is the returned length and the array.\<close>

fun decode_loop :: "nat \<Rightarrow> nat \<Rightarrow> u8 list \<Rightarrow> string \<Rightarrow> (nat \<times> u8 list) option" where
  "decode_loop i j out [] = Some (j, out)"
| "decode_loop i j out (ch # inp) =
     (if ch = BASE64_PAD then Some (j, out)
      else if of_char ch < (43 :: nat) \<or> of_char ch > (122 :: nat) then Some (0, out)
      else let c = base64de ! of_char ch in
        if c = 255 then Some (0, out)
        else do { (j, out) \<leftarrow> decode_write (i mod 4) c j out; decode_loop (i + 1) j out inp })"

definition base64_decode :: "string \<Rightarrow> u8 list \<Rightarrow> (nat \<times> u8 list) option" where
  "base64_decode inp out =
     (if length inp mod 4 \<noteq> 0 then Some (0, out) else decode_loop 0 0 out inp)"

section \<open>Lemmas\<close>

text \<open>A byte's bits, one at a time.\<close>

lemma u8_bit_eqI: "(\<And>n. n \<in> {0, 1, 2, 3, 4, 5, 6, 7} \<Longrightarrow> bit x n = bit y n) \<Longrightarrow> x = (y :: u8)"
proof (rule bit_word_eqI)
  fix n
  assume *: "\<And>n. n \<in> {0, 1, 2, 3, 4, 5, 6, 7} \<Longrightarrow> bit x n = bit y n" and "n < LENGTH(8)"
  then have "n < 8" by simp
  then have "n \<in> {0, 1, 2, 3, 4, 5, 6, 7}" unfolding insert_iff by arith
  then show "bit x n = bit y n" by (rule *)
qed

lemma bit_lits:
  "bit (0x3 :: u8) n \<longleftrightarrow> n < 2" "bit (0xF :: u8) n \<longleftrightarrow> n < 4"
  "bit (0x3F :: u8) n \<longleftrightarrow> n < 6" "bit (0xFF :: u8) n \<longleftrightarrow> n < 8"
proof -
  have m: "(0x3 :: u8) = mask 2" "(0xF :: u8) = mask 4" "(0x3F :: u8) = mask 6" "(0xFF :: u8) = mask 8"
    by (simp_all add: mask_eq_exp_minus_1)
  show "bit (0x3 :: u8) n \<longleftrightarrow> n < 2" "bit (0xF :: u8) n \<longleftrightarrow> n < 4"
    "bit (0x3F :: u8) n \<longleftrightarrow> n < 6" "bit (0xFF :: u8) n \<longleftrightarrow> n < 8"
    unfolding m bit_mask_iff by auto
qed

lemmas u8_bits = bit_and_iff bit_or_iff bit_push_bit_iff bit_drop_bit_eq bit_lits

text \<open>The bytes of a group, put together again from its six-bit codes.\<close>

lemma join_byte1: "push_bit 2 (drop_bit 2 a AND 0x3F) AND 0xFF OR
    (drop_bit 4 (push_bit 4 (a AND 0x3) OR (drop_bit 4 b AND 0xF)) AND 0x3) = a" for a b :: u8
  by (rule u8_bit_eqI) (auto simp: u8_bits, simp_all add: numeral_2_eq_2 numeral_3_eq_3)

lemma join_byte2: "push_bit 4 ((push_bit 4 (a AND 0x3) OR (drop_bit 4 b AND 0xF)) AND 0xF) OR
    (drop_bit 2 (push_bit 2 (b AND 0xF) OR (drop_bit 6 c AND 0x3)) AND 0xF) = b" for a b c :: u8
  by (rule u8_bit_eqI) (auto simp: u8_bits)

lemma join_byte3: "push_bit 6 ((push_bit 2 (b AND 0xF) OR (drop_bit 6 c AND 0x3)) AND 0x3) OR
    (c AND 0x3F) = c" for b c :: u8
  by (rule u8_bit_eqI) (auto simp: u8_bits)

lemma join_tail1: "push_bit 2 (drop_bit 2 a AND 0x3F) AND 0xFF OR
    (drop_bit 4 (push_bit 4 (a AND 0x3)) AND 0x3) = a" for a :: u8
  by (rule u8_bit_eqI) (auto simp: u8_bits, simp_all add: numeral_2_eq_2 numeral_3_eq_3)

lemma join_tail2: "push_bit 4 ((push_bit 4 (a AND 0x3) OR (drop_bit 4 b AND 0xF)) AND 0xF) OR
    (drop_bit 2 (push_bit 2 (b AND 0xF)) AND 0xF) = b" for a b :: u8
  by (rule u8_bit_eqI) (auto simp: u8_bits)

lemma code_lt_64:
  fixes a b :: u8
  shows "unat (drop_bit 2 a AND 0x3F) < 64" "unat (a AND 0x3F) < 64"
    "unat (push_bit 4 (a AND 0x3) OR (drop_bit 4 b AND 0xF)) < 64"
    "unat (push_bit 2 (a AND 0xF) OR (drop_bit 6 b AND 0x3)) < 64"
    "unat (push_bit 4 (a AND 0x3)) < 64" "unat (push_bit 2 (a AND 0xF)) < 64"
proof -
  have lt: "unat w < 64" if "w AND 0x3F = w" for w :: u8
  proof -
    have "w \<le> 0x3F" using that by (metis word_and_le1)
    then show ?thesis by (simp add: word_le_nat_alt)
  qed
  show "unat (drop_bit 2 a AND 0x3F) < 64" "unat (a AND 0x3F) < 64"
    "unat (push_bit 4 (a AND 0x3) OR (drop_bit 4 b AND 0xF)) < 64"
    "unat (push_bit 2 (a AND 0xF) OR (drop_bit 6 b AND 0x3)) < 64"
    "unat (push_bit 4 (a AND 0x3)) < 64" "unat (push_bit 2 (a AND 0xF)) < 64"
    by (rule lt, rule u8_bit_eqI, force simp: u8_bits)+
qed

definition decodes :: "char \<Rightarrow> nat \<Rightarrow> bool" where
  "decodes ch k \<longleftrightarrow> ch \<noteq> BASE64_PAD \<and> 43 \<le> (of_char ch :: nat) \<and> (of_char ch :: nat) \<le> 122 \<and>
     base64de ! of_char ch = of_nat k \<and> base64de ! of_char ch \<noteq> 255"

lemma table_inverse: "\<forall>k \<in> set [0..<64]. decodes (base64en ! k) k"
  by code_simp

lemma en_code:
  assumes "unat k < 64"
  shows "en k \<noteq> BASE64_PAD" "\<not> of_char (en k) < (43 :: nat)" "\<not> of_char (en k) > (122 :: nat)"
    "base64de ! of_char (en k) = k" "k \<noteq> 255"
proof -
  have "decodes (en k) (unat k)" using table_inverse assms by (auto simp: en_def)
  then show "en k \<noteq> BASE64_PAD" "\<not> of_char (en k) < (43 :: nat)" "\<not> of_char (en k) > (122 :: nat)"
    "base64de ! of_char (en k) = k" "k \<noteq> 255"
    by (auto simp: decodes_def)
qed

lemma decode_loop_en:
  "unat k < 64 \<Longrightarrow> decode_loop i j out (en k # inp) =
     do { (j, out) \<leftarrow> decode_write (i mod 4) k j out; decode_loop (i + 1) j out inp }"
  by (simp add: en_code)

lemma decode_loop_pad: "decode_loop i j out (BASE64_PAD # inp) = Some (j, out)"
  by simp

text \<open>The encoder works in groups of three bytes; between groups the last byte is not read.\<close>

lemma encode_step_out:
  "encode_step (s, l, out) c =
     (let (s', l', new) = encode_step (s, l, []) c in (s', l', out @ new))"
  by (simp add: encode_step_def)

lemma foldl_encode_out:
  "foldl encode_step (s, l, out) xs =
     (let (s', l', new) = foldl encode_step (s, l, []) xs in (s', l', out @ new))"
proof (induction xs arbitrary: s l out)
  case (Cons x xs)
  obtain s1 l1 n1 where e: "encode_step (s, l, []) x = (s1, l1, n1)" by (metis prod_cases3)
  show ?case
    using Cons.IH[of s1 l1 "out @ n1"] Cons.IH[of s1 l1 n1] encode_step_out[of s l out x] e
    by (simp add: Let_def split: prod.splits)
qed simp

definition encode_from :: "u8 \<Rightarrow> u8 list \<Rightarrow> string" where
  "encode_from l xs = encode_finish (foldl encode_step (0, l, []) xs)"

lemma encode_from_simps:
  "encode_from l [] = []"
  "encode_from l [a] = [en (drop_bit 2 a AND 0x3F), en (push_bit 4 (a AND 0x3)), BASE64_PAD, BASE64_PAD]"
  "encode_from l [a, b] = [en (drop_bit 2 a AND 0x3F),
     en (push_bit 4 (a AND 0x3) OR (drop_bit 4 b AND 0xF)), en (push_bit 2 (b AND 0xF)), BASE64_PAD]"
  "encode_from l (a # b # c # xs) =
     [en (drop_bit 2 a AND 0x3F), en (push_bit 4 (a AND 0x3) OR (drop_bit 4 b AND 0xF)),
      en (push_bit 2 (b AND 0xF) OR (drop_bit 6 c AND 0x3)), en (c AND 0x3F)] @ encode_from c xs"
proof -
  show "encode_from l (a # b # c # xs) =
     [en (drop_bit 2 a AND 0x3F), en (push_bit 4 (a AND 0x3) OR (drop_bit 4 b AND 0xF)),
      en (push_bit 2 (b AND 0xF) OR (drop_bit 6 c AND 0x3)), en (c AND 0x3F)] @ encode_from c xs"
    unfolding encode_from_def
    by (subst foldl_Cons)+
      (simp add: encode_step_def foldl_encode_out[of 0 c "_ # _"] encode_finish_def split: prod.splits)
qed (simp_all add: encode_from_def encode_step_def encode_finish_def)

lemma length_encode_from: "length (encode_from l xs) = (length xs + 2) div 3 * 4"
proof (induction xs arbitrary: l rule: in_threes.induct)
  case (1 a b c xs)
  then show ?case by (simp add: encode_from_simps) presburger
qed (simp_all add: encode_from_simps)

text \<open>Two, three and four codes in a row, for a group that starts at \<open>i\<close>.\<close>

lemma decode_two:
  assumes "i mod 4 = 0" "j + 1 < length out" "unat w < 64" "unat x < 64"
    and "push_bit 2 w AND 0xFF OR (drop_bit 4 x AND 0x3) = a"
  shows "decode_loop i j out (en w # en x # inp) =
    decode_loop (i + 2) (j + 1) (out[j := a, j + 1 := push_bit 4 (x AND 0xF)]) inp"
proof -
  have "Suc i mod 4 = 1" using assms(1) by presburger
  then show ?thesis
    using assms by (simp add: decode_loop_en decode_write_def put_def put_or_def del: decode_loop.simps)
qed

lemma decode_third:
  assumes "i mod 4 = 2" "j + 1 < length out" "unat y < 64"
    and "out ! j OR (drop_bit 2 y AND 0xF) = b"
  shows "decode_loop i j out (en y # inp) =
    decode_loop (i + 1) (j + 1) (out[j := b, j + 1 := push_bit 6 (y AND 0x3)]) inp"
  using assms by (simp add: decode_loop_en decode_write_def put_def put_or_def del: decode_loop.simps)

lemma decode_fourth:
  assumes "i mod 4 = 3" "j < length out" "unat z < 64" and "out ! j OR z = c"
  shows "decode_loop i j out (en z # inp) = decode_loop (i + 1) (j + 1) (out[j := c]) inp"
  using assms by (simp add: decode_loop_en decode_write_def put_or_def del: decode_loop.simps)

text \<open>One group of four characters restores its three bytes; a padded group its one or two.\<close>

lemma decode_group:
  fixes a b c :: u8
  assumes "i mod 4 = 0" and "j + 2 < length out"
  shows "decode_loop i j out (encode_from l (a # b # c # xs)) =
    decode_loop (i + 4) (j + 3) (out[j := a, j + 1 := b, j + 2 := c]) (encode_from c xs)"
proof -
  have m: "(i + 2) mod 4 = 2" "(i + 2 + 1) mod 4 = 3" using assms(1) by presburger+
  have n: "i + 2 + 1 + 1 = i + 4" "j + 1 + 1 = j + 2" "j + 2 + 1 = j + 3" by simp_all
  show ?thesis
    unfolding encode_from_simps append.simps
    apply (subst decode_two[OF assms(1) _ code_lt_64(1,3) join_byte1])
    using assms(2) apply simp
    apply (subst decode_third[OF m(1) _ code_lt_64(4), where b = b])
    using assms(2) apply simp
    using assms(2) join_byte2[of a b c] apply simp
    apply (subst decode_fourth[OF m(2) _ code_lt_64(2), where c = c])
    using assms(2) apply simp
    using assms(2) join_byte3[of b c] apply (simp add: n)
    unfolding n by (simp add: list_update_overwrite list_update_swap)
qed

lemma decode_tail1:
  fixes a :: u8
  assumes "i mod 4 = 0" and "j + 1 < length out"
  shows "\<exists>v. decode_loop i j out (encode_from l [a]) = Some (j + 1, out[j := a, j + 1 := v])"
  unfolding encode_from_simps
  by (subst decode_two[OF assms code_lt_64(1,5) join_tail1]) (auto simp: decode_loop_pad)

lemma decode_tail2:
  fixes a b :: u8
  assumes "i mod 4 = 0" and "j + 2 < length out"
  shows "\<exists>v. decode_loop i j out (encode_from l [a, b]) =
    Some (j + 2, out[j := a, j + 1 := b, j + 2 := v])"
proof -
  have m: "(i + 2) mod 4 = 2" using assms(1) by presburger
  have n: "j + 1 + 1 = j + 2" by simp
  show ?thesis
    unfolding encode_from_simps
    apply (subst decode_two[OF assms(1) _ code_lt_64(1,3) join_byte1])
    using assms(2) apply simp
    apply (subst decode_third[OF m _ code_lt_64(6), where b = b])
    using assms(2) apply simp
    using assms(2) join_tail2[of a b] apply simp
    unfolding n decode_loop_pad by (auto simp: list_update_overwrite)
qed

lemma take_update3:
  assumes "j + 2 < length out"
  shows "take (j + 3) (out[j := a, j + 1 := b, j + 2 := c]) = take j out @ [a, b, c]"
proof -
  have "take (j + 3) (out[j := a, j + 1 := b, j + 2 := c]) =
      (take (j + 3) out)[j := a, j + 1 := b, j + 2 := c]"
    by (simp add: take_update_swap)
  also have "take (j + 3) out = take j out @ [out ! j, out ! (j + 1), out ! (j + 2)]"
    using assms by (simp add: numeral_3_eq_3 take_Suc_conv_app_nth)
  finally show ?thesis using assms by (simp add: list_update_append)
qed

lemma decode_encode_from:
  assumes "i mod 4 = 0" and "j + (length xs + 2) div 3 * 3 \<le> length out"
  shows "\<exists>out'. decode_loop i j out (encode_from l xs) = Some (j + length xs, out') \<and>
           length out' = length out \<and> take (j + length xs) out' = take j out @ xs"
  using assms
proof (induction xs arbitrary: i j out l rule: in_threes.induct)
  case (1 a b c xs)
  have "(length (a # b # c # xs) + 2) div 3 * 3 = 3 + (length xs + 2) div 3 * 3"
    by simp presburger
  then have j: "j + 2 < length out" "j + 3 + (length xs + 2) div 3 * 3 \<le> length out"
    using 1(3) by linarith+
  let ?o = "out[j := a, j + 1 := b, j + 2 := c]"
  obtain out' where "decode_loop (i + 4) (j + 3) ?o (encode_from c xs) = Some (j + 3 + length xs, out')"
    "length out' = length out" "take (j + 3 + length xs) out' = take (j + 3) ?o @ xs"
    using 1(1)[of "i + 4" "j + 3" ?o c] 1(2) j by auto
  moreover have len: "j + length (a # b # c # xs) = j + 3 + length xs" by simp
  ultimately show ?case
    unfolding decode_group[OF 1(2) j(1)] len using take_update3[OF j(1), of a b c] by simp
next
  case 2
  then show ?case by (simp add: encode_from_simps)
next
  case (3 a)
  then obtain v where "decode_loop i j out (encode_from l [a]) = Some (j + 1, out[j := a, j + 1 := v])"
    using decode_tail1[of i j out l a] by auto
  then show ?case using 3 by (simp add: take_Suc_conv_app_nth)
next
  case (4 a b)
  then obtain v where "decode_loop i j out (encode_from l [a, b]) =
      Some (j + 2, out[j := a, j + 1 := b, j + 2 := v])"
    using decode_tail2[of i j out l a b] by auto
  then show ?case using 4 by (simp add: take_Suc_conv_app_nth)
qed

text \<open>Where the decoder writes: in the group of the current character.\<close>

definition decode_pos :: "nat \<Rightarrow> nat \<Rightarrow> bool" where
  "decode_pos i j \<longleftrightarrow> j = 3 * (i div 4) + (i mod 4 - 1)"

lemma decode_write_pos:
  assumes "decode_pos i j" and "3 * (i div 4) + 2 < length out"
  shows "\<exists>j' out'. decode_write (i mod 4) c j out = Some (j', out') \<and>
           length out' = length out \<and> decode_pos (i + 1) j'"
proof -
  have "i mod 4 < 4" by simp
  then consider "i mod 4 = 0" | "i mod 4 = 1" | "i mod 4 = 2" | "i mod 4 = 3" by arith
  then show ?thesis
  proof cases
    case 1
    then have "(i + 1) div 4 = i div 4" "(i + 1) mod 4 = 1" by presburger+
    then show ?thesis using assms 1 by (simp add: decode_write_def put_def decode_pos_def)
  next
    case 2
    then have "(i + 1) div 4 = i div 4" "(i + 1) mod 4 = 2" by presburger+
    then show ?thesis using assms 2 by (simp add: decode_write_def put_def put_or_def decode_pos_def)
  next
    case 3
    then have "(i + 1) div 4 = i div 4" "(i + 1) mod 4 = 3" by presburger+
    then show ?thesis using assms 3 by (simp add: decode_write_def put_def put_or_def decode_pos_def)
  next
    case 4
    then have "(i + 1) div 4 = i div 4 + 1" "(i + 1) mod 4 = 0" by presburger+
    then show ?thesis using assms 4 by (simp add: decode_write_def put_or_def decode_pos_def)
  qed
qed

lemma decode_loop_in_bounds:
  assumes "decode_pos i j" and "(i + length inp) mod 4 = 0"
    and "BASE64_DECODE_OUT_SIZE (i + length inp) \<le> length out"
  shows "\<exists>n out'. decode_loop i j out inp = Some (n, out') \<and> length out' = length out \<and>
           n \<le> BASE64_DECODE_OUT_SIZE (i + length inp)"
  using assms
proof (induction inp arbitrary: i j out)
  case Nil
  then show ?case by (auto simp: decode_pos_def BASE64_DECODE_OUT_SIZE_def)
next
  case (Cons ch inp)
  have "i div 4 < (i + length (ch # inp)) div 4" using Cons.prems(2) by simp presburger
  then have "3 * (i div 4) + 2 < BASE64_DECODE_OUT_SIZE (i + length (ch # inp))"
    by (simp add: BASE64_DECODE_OUT_SIZE_def)
  then have pos: "3 * (i div 4) + 2 < length out" and
    j: "j \<le> BASE64_DECODE_OUT_SIZE (i + length (ch # inp))"
    using Cons.prems by (auto simp: decode_pos_def)
  obtain j' out' where "decode_write (i mod 4) (base64de ! of_char ch) j out = Some (j', out')"
    "length out' = length out" "decode_pos (i + 1) j'"
    using decode_write_pos[OF Cons.prems(1) pos] by blast
  then show ?case using Cons.IH[of "i + 1" j' out'] Cons.prems j by (auto simp: Let_def)
qed

section \<open>Properties\<close>

text \<open>C28. Round trip: decoding an encoded byte sequence into an array of the size the macro
  \<open>BASE64_DECODE_OUT_SIZE\<close> prescribes returns its length and leaves exactly these bytes at the
  start of the array.\<close>

theorem base64_roundtrip:
  assumes "BASE64_DECODE_OUT_SIZE (length (base64_encode xs)) \<le> length out"
  shows "\<exists>out'. base64_decode (base64_encode xs) out = Some (length xs, out') \<and>
           take (length xs) out' = xs"
proof -
  have len: "length (base64_encode xs) = (length xs + 2) div 3 * 4"
    using length_encode_from[of 0 xs] by (simp add: base64_encode_def encode_from_def)
  then have "0 + (length xs + 2) div 3 * 3 \<le> length out"
    using assms by (simp add: BASE64_DECODE_OUT_SIZE_def)
  then obtain out' where "decode_loop 0 0 out (encode_from 0 xs) = Some (0 + length xs, out')"
    "take (0 + length xs) out' = take 0 out @ xs"
    using decode_encode_from[of 0 0 xs out 0] by auto
  then show ?thesis
    using len by (auto simp: base64_decode_def base64_encode_def encode_from_def)
qed

theorem base64_roundtrip_witness:
  "\<exists>out'. base64_decode (base64_encode [112, 105, 110, 103]) (replicate 6 0) = Some (4, out') \<and>
     take 4 out' = [112, 105, 110, 103]"
proof -
  have "BASE64_DECODE_OUT_SIZE (length (base64_encode [112, 105, 110, 103])) \<le>
      length (replicate 6 (0 :: u8))"
    by code_simp
  from base64_roundtrip[OF this] show ?thesis by (simp add: numeral_eq_Suc)
qed

text \<open>Memory safety of decoding: for every input, also a malformed one, the decoder writes
  only inside an array of \<open>BASE64_DECODE_OUT_SIZE\<close> bytes, keeps the array's length and returns a
  length that fits it; an input whose length is no multiple of four is refused with 0.\<close>

theorem base64_decode_in_bounds:
  assumes "BASE64_DECODE_OUT_SIZE (length inp) \<le> length out"
  shows "\<exists>n out'. base64_decode inp out = Some (n, out') \<and> length out' = length out \<and>
           n \<le> BASE64_DECODE_OUT_SIZE (length inp) \<and> (length inp mod 4 \<noteq> 0 \<longrightarrow> n = 0)"
  using decode_loop_in_bounds[of 0 0 inp out] assms
  by (auto simp: base64_decode_def decode_pos_def)

theorem base64_decode_in_bounds_witness:
  "\<exists>n out'. base64_decode ''cGlu!A=='' (replicate 6 0) = Some (n, out') \<and> length out' = 6 \<and> n \<le> 6"
proof -
  have "BASE64_DECODE_OUT_SIZE (length ''cGlu!A=='') \<le> length (replicate 6 (0 :: u8))"
    by (simp add: BASE64_DECODE_OUT_SIZE_def)
  from base64_decode_in_bounds[OF this] show ?thesis by (auto simp: BASE64_DECODE_OUT_SIZE_def)
qed

end
