(* ===== verification/Uc_Log.thy ===== *)
theory Uc_Log
  imports Prelude
begin

text \<open>
  The log of the client (\<open>ucentral-log.c\<close>). A line at or above the level of its component goes to the
  registered callback, which sends it to the controller and may log on its own; a flag per
  thread keeps it from calling back into itself. Component numbers are plain integers, as the
  functions check them. \<open>out\<close> is what the callback was handed.
\<close>

section \<open>State and operations\<close>

definition UC_LOG_COMPONENT_MAX :: int where "UC_LOG_COMPONENT_MAX = 4"

record log_state =
  comp_sv :: "int list"
  cb_registered :: bool
  is_recursion :: bool
  log_out :: "(string \<times> int) list"

definition log_init :: log_state where
  "log_init = \<lparr>comp_sv = [0, 0, 0, 0], cb_registered = False, is_recursion = False, log_out = []\<rparr>"

definition severity_get :: "log_state \<Rightarrow> int \<Rightarrow> int" where
  "severity_get s c = (if c \<ge> 0 \<and> c < UC_LOG_COMPONENT_MAX then comp_sv s ! nat c - 1 else - 1)"

definition uc_log_severity_set :: "int \<Rightarrow> int \<Rightarrow> log_state \<Rightarrow> log_state" where
  "uc_log_severity_set c sv s =
     (if c \<ge> 0 \<and> c < UC_LOG_COMPONENT_MAX then s\<lparr>comp_sv := (comp_sv s)[nat c := sv + 1]\<rparr> else s)"

definition uc_log_send_cb_register :: "log_state \<Rightarrow> log_state" where
  "uc_log_send_cb_register s = s\<lparr>cb_registered := True\<rparr>"

definition comp2str :: "string option list" where
  "comp2str = [None, Some ''uc-proto'', Some ''uc-plat'', Some ''uc-client'']"

definition uc_comp2str :: "int \<Rightarrow> string" where
  "uc_comp2str c =
     (if c < 0 \<or> c \<ge> int (length comp2str) then ''unknown''
      else case comp2str ! nat c of None \<Rightarrow> ''unknown'' | Some x \<Rightarrow> x)"

text \<open>The buffer of 4096 bytes: the component, then the formatted text in what is left.\<close>

definition log_line :: "int \<Rightarrow> string \<Rightarrow> string" where
  "log_line c text =
     (let p = uc_comp2str c @ '': ''; n = length p in take 4095 p @ take (4096 - n - 1) text)"

type_synonym log_call = "int \<times> int \<times> string"

definition log_enabled :: "log_state \<Rightarrow> log_call \<Rightarrow> bool" where
  "log_enabled s = (\<lambda>(c, sv, text). \<not> sv < 0 \<and> cb_registered s \<and> \<not> severity_get s c < sv)"

text \<open>Calls of \<open>uc_log\<close> in a row. \<open>cb\<close> says which calls the callback makes while it handles a line; they
  run with the flag set. Nothing bounds the nesting but the flag, so the function is partial.\<close>

partial_function (option) uc_log ::
  "(string \<Rightarrow> int \<Rightarrow> log_call list) \<Rightarrow> log_call list \<Rightarrow> log_state \<Rightarrow> log_state option" where
  "uc_log cb calls s =
     (case calls of
        [] \<Rightarrow> Some s
      | l # rest \<Rightarrow>
          if is_recursion s \<or> \<not> log_enabled s l then uc_log cb rest s
          else do {
            let line = log_line (fst l) (snd (snd l));
            let sv = fst (snd l);
            s \<leftarrow> uc_log cb (cb line sv) (s\<lparr>is_recursion := True, log_out := log_out s @ [(line, sv)]\<rparr>);
            uc_log cb rest (s\<lparr>is_recursion := False\<rparr>)
          })"

declare uc_log.simps [code]

section \<open>Properties\<close>

lemma uc_log_nested: "is_recursion s \<Longrightarrow> uc_log cb calls s = Some s"
  by (induction calls) (simp_all add: uc_log.simps)

text \<open>Logging ends and reports each line once. Whatever the callback logs on its own, a call of the
  log returns; the callback gets exactly the enabled lines, in order, each once and with its
  severity, and the flag is down again.\<close>

theorem uc_log_exact:
  assumes "\<not> is_recursion s"
  shows "uc_log cb calls s = Some (s\<lparr>log_out := log_out s @
    map (\<lambda>(c, sv, text). (log_line c text, sv)) (filter (log_enabled s) calls)\<rparr>)"
  using assms
proof (induction calls arbitrary: s)
  case Nil
  then show ?case by (simp add: uc_log.simps)
next
  case (Cons l calls)
  obtain c sv m where l: "l = (c, sv, m)" by (cases l)
  let ?s = "s\<lparr>log_out := log_out s @ [(log_line c m, sv)]\<rparr>"
  have en: "log_enabled ?s = log_enabled s" by (rule ext) (simp add: log_enabled_def severity_get_def split: prod.split)
  show ?case
  proof (cases "log_enabled s l")
    case True
    have up: "s\<lparr>log_out := out, is_recursion := False\<rparr> = s\<lparr>log_out := out\<rparr>" for out
      using Cons.prems by (cases s) simp
    have "uc_log cb (l # calls) s = uc_log cb calls ?s"
      using True l Cons.prems by (subst uc_log.simps) (simp add: uc_log_nested up)
    then show ?thesis using Cons.IH[of ?s] Cons.prems True l by (simp add: en)
  next
    case False
    then show ?thesis using Cons by (subst uc_log.simps) simp
  qed
qed

theorem uc_log_exact_witness:
  "uc_log (\<lambda>line sv. [(1, 3, line)]) [(1, 3, ''lost''), (1, 6, ''detail'')]
     (uc_log_severity_set 1 3 (uc_log_send_cb_register log_init)) =
   Some ((uc_log_severity_set 1 3 (uc_log_send_cb_register log_init))\<lparr>log_out := [(''uc-proto: lost'', 3)]\<rparr>)"
proof -
  let ?s = "uc_log_severity_set 1 3 (uc_log_send_cb_register log_init)"
  have "\<not> is_recursion ?s" by code_simp
  moreover have "map (\<lambda>(c, sv, text). (log_line c text, sv)) (filter (log_enabled ?s) [(1, 3, ''lost''), (1, 6, ''detail'')]) =
      [(''uc-proto: lost'', 3)]" "log_out ?s = []" by code_simp+
  ultimately show ?thesis using uc_log_exact[of ?s "\<lambda>line sv. [(1, 3, line)]" "[(1, 3, ''lost''), (1, 6, ''detail'')]"] by simp
qed

text \<open>A component is silent until its level is set, and its level is then what was set.\<close>

theorem uc_log_levels:
  assumes "length (comp_sv s) = 4" "0 \<le> c" "c < 4" "0 \<le> sv"
  shows "log_enabled (uc_log_severity_set c lv (uc_log_send_cb_register s)) (c, sv, m) = (sv \<le> lv) \<and>
    \<not> log_enabled (uc_log_send_cb_register log_init) (c, sv, m)"
proof -
  have "nat c < 4" "[0, 0, 0, 0] ! nat c = (0 :: int)" using assms(2,3) by (auto simp: numeral_eq_Suc nth_Cons')
  then show ?thesis
    using assms by (auto simp: log_enabled_def severity_get_def uc_log_severity_set_def uc_log_send_cb_register_def
        UC_LOG_COMPONENT_MAX_def log_init_def)
qed

theorem uc_log_levels_witness:
  "log_enabled (uc_log_severity_set 1 3 (uc_log_send_cb_register log_init)) (1, 2, ''x'') \<and>
   \<not> log_enabled (uc_log_send_cb_register log_init) (1, 2, ''x'')"
  using uc_log_levels[of log_init 1 2 3 "''x''"] by (simp add: log_init_def)

end
