(* ===== verification/Tx_Queue.thy ===== *)
theory Tx_Queue
  imports Prelude
begin

text \<open>
  The transmit queue of \<open>ucentral-client.c\<close>: a singly linked list with a head and a tail pointer and
  a separate slot for the connect message. The nodes live in a store from addresses to nodes,
  because appending writes through the tail pointer; an address that is not allocated, or was
  freed, makes an access undefined (\<open>None\<close>). The abstract queue is a list of messages and an
  optional connect message; \<open>txq_rep\<close> relates the two, the locale \<open>message_queue\<close> states what the
  sender relies on, and the interpretation shows that the linked list provides it.
\<close>

section \<open>State\<close>

record txq =
  txq_next :: "nat option"
  txq_len :: nat
  txq_data :: string

text \<open>\<open>brk\<close> is the next unused address, so that allocated nodes never share one. \<open>calls\<close> counts the
  calls of \<open>calloc\<close>; which of them succeed is a parameter of the operations that allocate.\<close>

record txq_state =
  mem :: "nat \<rightharpoonup> txq"
  brk :: nat
  calls :: nat
  txqhead :: "nat option"
  txqtail :: "nat option"
  txconnect :: "nat option"

definition txq_init :: txq_state where
  "txq_init = \<lparr>mem = Map.empty, brk = 0, calls = 0, txqhead = None, txqtail = None, txconnect = None\<rparr>"

section \<open>Operations\<close>

text \<open>The loops follow \<open>txq_next\<close>; a cyclic list would keep them running, so they are partial.\<close>

partial_function (option) txq_free :: "nat option \<Rightarrow> txq_state \<Rightarrow> txq_state option" where
  "txq_free p s =
     (case p of None \<Rightarrow> Some s
      | Some a \<Rightarrow> do { n \<leftarrow> mem s a; txq_free (txq_next n) (s\<lparr>mem := (mem s)(a := None)\<rparr>) })"

declare txq_free.simps [code]

definition txq_enqueue :: "nat \<Rightarrow> txq_state \<Rightarrow> txq_state option" where
  "txq_enqueue msg s =
     (case txqtail s of
        Some t \<Rightarrow> do {
          n \<leftarrow> mem s t;
          Some (s\<lparr>mem := (mem s)(t \<mapsto> n\<lparr>txq_next := Some msg\<rparr>), txqtail := Some msg\<rparr>)
        }
      | None \<Rightarrow> Some (s\<lparr>txqhead := Some msg, txqtail := Some msg\<rparr>))"

definition txq_pull :: "txq_state \<Rightarrow> nat option \<times> txq_state" where
  "txq_pull s = (txqhead s, s\<lparr>txqhead := None, txqtail := None\<rparr>)"

definition txq_connect_pull :: "txq_state \<Rightarrow> nat option \<times> txq_state" where
  "txq_connect_pull s = (txconnect s, s\<lparr>txconnect := None\<rparr>)"

text \<open>A node for a message of the protocol; \<open>pre\<close> is the room the websocket library wants before the
  data (\<open>LWS_PRE\<close>).\<close>

definition txq_new :: "(nat \<Rightarrow> bool) \<Rightarrow> nat \<Rightarrow> string \<Rightarrow> txq_state \<Rightarrow> nat option \<times> txq_state" where
  "txq_new calloc pre d s =
     (let s' = s\<lparr>calls := Suc (calls s)\<rparr> in
      if calloc (calls s)
      then (Some (brk s), s'\<lparr>mem := (mem s)(brk s \<mapsto> \<lparr>txq_next = None, txq_len = pre + length d, txq_data = d\<rparr>),
                             brk := Suc (brk s)\<rparr>)
      else (None, s'))"

definition txq_msg_proto_cb :: "(nat \<Rightarrow> bool) \<Rightarrow> nat \<Rightarrow> string \<Rightarrow> txq_state \<Rightarrow> txq_state option" where
  "txq_msg_proto_cb calloc pre d s =
     (let (msg, s) = txq_new calloc pre d s in
      case msg of None \<Rightarrow> Some s | Some m \<Rightarrow> txq_enqueue m s)"

text \<open>\<open>free\<close> of a null pointer does nothing.\<close>

definition txq_connect_msg_proto_cb :: "(nat \<Rightarrow> bool) \<Rightarrow> nat \<Rightarrow> string \<Rightarrow> txq_state \<Rightarrow> txq_state option" where
  "txq_connect_msg_proto_cb calloc pre d s =
     (let (msg, s) = txq_new calloc pre d s in
      case msg of None \<Rightarrow> Some s
      | Some m \<Rightarrow>
          (case txconnect s of
             None \<Rightarrow> Some (s\<lparr>txconnect := Some m\<rparr>)
           | Some c \<Rightarrow> do { _ \<leftarrow> mem s c; Some (s\<lparr>mem := (mem s)(c := None), txconnect := Some m\<rparr>) }))"

text \<open>The loop over a pulled list when the socket is writable: each message is taken off, written and
  freed. The list of what was handed to the writer is the second result.\<close>

partial_function (option) txq_drain ::
  "nat \<Rightarrow> nat option \<Rightarrow> txq_state \<Rightarrow> string list \<Rightarrow> (string list \<times> txq_state) option" where
  "txq_drain pre p s out =
     (case p of None \<Rightarrow> Some (out, s)
      | Some a \<Rightarrow> do {
          m \<leftarrow> mem s a;
          txq_drain pre (txq_next m) (s\<lparr>mem := (mem s)(a := None)\<rparr>) (out @ [take (txq_len m - pre) (txq_data m)])
        })"

declare txq_drain.simps [code]

definition txq_writeable :: "nat \<Rightarrow> txq_state \<Rightarrow> (string list \<times> txq_state) option" where
  "txq_writeable pre s =
     (let (q, s) = txq_pull s; (c, s) = txq_connect_pull s in
      case c of
        None \<Rightarrow> txq_drain pre q s []
      | Some a \<Rightarrow> do {
          n \<leftarrow> mem s a;
          txq_drain pre (Some a) (s\<lparr>mem := (mem s)(a \<mapsto> n\<lparr>txq_next := q\<rparr>)\<rparr>) []
        })"

section \<open>Representation\<close>

fun chain :: "(nat \<rightharpoonup> txq) \<Rightarrow> nat option \<Rightarrow> nat list \<Rightarrow> bool" where
  "chain h p [] \<longleftrightarrow> p = None"
| "chain h p (a # as) \<longleftrightarrow> p = Some a \<and> (case h a of None \<Rightarrow> False | Some n \<Rightarrow> chain h (txq_next n) as)"

text \<open>The message of a node, if its length field covers exactly its data.\<close>

definition holds :: "nat \<Rightarrow> (nat \<rightharpoonup> txq) \<Rightarrow> nat \<Rightarrow> string \<Rightarrow> bool" where
  "holds pre h a d \<longleftrightarrow> (case h a of None \<Rightarrow> False | Some n \<Rightarrow> txq_data n = d \<and> txq_len n = pre + length d)"

definition slot_ok :: "nat \<Rightarrow> (nat \<rightharpoonup> txq) \<Rightarrow> nat option \<Rightarrow> string option \<Rightarrow> bool" where
  "slot_ok pre h c d \<longleftrightarrow> rel_option (holds pre h) c d"

text \<open>The nodes form the queue from head to tail, the connect node is separate, and nothing else is
  allocated.\<close>

definition txq_rep_at ::
  "nat \<Rightarrow> nat list \<Rightarrow> txq_state \<Rightarrow> string list \<Rightarrow> string option \<Rightarrow> bool" where
  "txq_rep_at pre as s ms c \<longleftrightarrow>
     chain (mem s) (txqhead s) as \<and> list_all2 (holds pre (mem s)) as ms \<and>
     txqtail s = (if as = [] then None else Some (last as)) \<and>
     slot_ok pre (mem s) (txconnect s) c \<and>
     distinct (as @ (case txconnect s of None \<Rightarrow> [] | Some a \<Rightarrow> [a])) \<and>
     dom (mem s) = set as \<union> set_option (txconnect s) \<and> dom (mem s) \<subseteq> {..<brk s}"

definition txq_rep :: "nat \<Rightarrow> txq_state \<Rightarrow> string list \<Rightarrow> string option \<Rightarrow> bool" where
  "txq_rep pre s ms c \<longleftrightarrow> (\<exists>as. txq_rep_at pre as s ms c)"

lemma chain_frame: "a \<notin> set as \<Longrightarrow> chain (h(a := x)) p as = chain h p as"
  by (induction as arbitrary: p) (auto split: option.splits)

lemma holds_frame: "a \<noteq> b \<Longrightarrow> holds pre (h(a := x)) b d = holds pre h b d"
  by (simp add: holds_def)

lemma holds_next: "holds pre (h(a \<mapsto> n\<lparr>txq_next := q\<rparr>)) b d = holds pre h b d" if "h a = Some n"
  using that by (simp add: holds_def)

lemma holds_list_frame:
  "a \<notin> set as \<Longrightarrow> list_all2 (holds pre (h(a := x))) as ms = list_all2 (holds pre h) as ms"
  by (rule list.rel_cong) (auto simp: holds_def)

lemma slot_frame: "c \<noteq> Some a \<Longrightarrow> slot_ok pre (h(a := x)) c d = slot_ok pre h c d"
  unfolding slot_ok_def by (intro option.rel_cong) (auto simp: holds_def)

lemma chain_snoc:
  assumes "chain h p as" "distinct as" "as \<noteq> []" "h (last as) = Some n"
    and "h m = Some k" "txq_next k = None" "m \<notin> set as"
  shows "chain (h(last as \<mapsto> n\<lparr>txq_next := Some m\<rparr>)) p (as @ [m])"
  using assms(1-4,7)
proof (induction as arbitrary: p)
  case (Cons a as)
  show ?case
  proof (cases "as = []")
    case True
    then show ?thesis using Cons.prems assms(5,6) by simp
  next
    case False
    then obtain x where x: "h a = Some x" "chain h (txq_next x) as"
      using Cons.prems(1) by (auto split: option.splits)
    moreover have "a \<noteq> last as" using Cons.prems(2) False by auto
    ultimately show ?thesis using Cons.IH[of "txq_next x"] Cons.prems False by simp
  qed
qed simp

lemma rep_calls [simp]: "txq_rep_at pre as (s\<lparr>calls := n\<rparr>) ms c = txq_rep_at pre as s ms c"
  by (simp add: txq_rep_at_def)

text \<open>A new node extends the store; the lists that were there are not disturbed.\<close>

lemma new_rep:
  assumes "txq_rep_at pre as s ms c" "txq_new calloc pre d s = (msg, s')"
  obtains "msg = None" "txq_rep_at pre as s' ms c" "\<not> calloc (calls s)"
  | a where "calloc (calls s)" "msg = Some a" "a \<notin> dom (mem s)" "mem s' = (mem s)(a \<mapsto> \<lparr>txq_next = None, txq_len = pre + length d, txq_data = d\<rparr>)"
    "txqhead s' = txqhead s" "txqtail s' = txqtail s" "txconnect s' = txconnect s" "insert a (dom (mem s)) \<subseteq> {..<brk s'}"
proof (cases "calloc (calls s)")
  case False
  then show ?thesis using assms that(1) by (auto simp: txq_new_def)
next
  case True
  have "dom (mem s) \<subseteq> {..<brk s}" using assms(1) unfolding txq_rep_at_def by (elim conjE)
  then have "brk s \<notin> dom (mem s)" "insert (brk s) (dom (mem s)) \<subseteq> {..<Suc (brk s)}" by auto
  then show ?thesis
    using assms(2) True by (intro that(2)[of "brk s"]) (auto simp: txq_new_def Let_def)
qed

lemma msg_cb_rep:
  assumes r: "txq_rep_at pre as s ms c"
  shows "\<exists>s' as'. txq_msg_proto_cb calloc pre d s = Some s' \<and>
    txq_rep_at pre as' s' (if calloc (calls s) then ms @ [d] else ms) c"
proof -
  obtain msg s1 where new: "txq_new calloc pre d s = (msg, s1)" by force
  from r new show ?thesis
  proof (cases rule: new_rep)
    case 1
    then show ?thesis using new by (auto simp: txq_msg_proto_cb_def)
  next
    case (2 a)
    note rep = r[unfolded txq_rep_at_def]
    let ?n = "\<lparr>txq_next = None, txq_len = pre + length d, txq_data = d\<rparr>"
    have fresh: "a \<notin> set as" "txconnect s \<noteq> Some a" using rep 2(3) by auto
    show ?thesis
    proof (cases "as = []")
      case True
      then have "txq_msg_proto_cb calloc pre d s = Some (s1\<lparr>txqhead := Some a, txqtail := Some a\<rparr>)"
        using new 2 rep by (simp add: txq_msg_proto_cb_def txq_enqueue_def)
      moreover have "txq_rep_at pre [a] (s1\<lparr>txqhead := Some a, txqtail := Some a\<rparr>) (ms @ [d]) c"
        using True rep 2 fresh unfolding txq_rep_at_def
        by (auto simp: slot_frame holds_def split: option.splits)
      ultimately show ?thesis using 2(1) by auto
    next
      case False
      then obtain n where n: "mem s (last as) = Some n" using rep by (metis UnCI domD last_in_set)
      have la: "last as \<noteq> a" using fresh False by auto
      let ?s2 = "s1\<lparr>mem := (mem s1)(last as \<mapsto> n\<lparr>txq_next := Some a\<rparr>), txqtail := Some a\<rparr>"
      have "txq_msg_proto_cb calloc pre d s = Some ?s2"
        using new 2 rep False n la by (simp add: txq_msg_proto_cb_def txq_enqueue_def)
      moreover have "chain (mem s1) (txqhead s) as"
        using rep 2(4) fresh by (simp add: chain_frame)
      then have "chain (mem ?s2) (txqhead s) (as @ [a])"
        using rep False n la fresh 2(4) by (simp add: chain_snoc)
      moreover have h: "holds pre (mem ?s2) = holds pre (mem s1)"
        using n la 2(4) by (intro ext) (simp add: holds_next)
      have "list_all2 (holds pre (mem ?s2)) (as @ [a]) (ms @ [d])"
        using rep 2(4) fresh unfolding h by (auto intro!: list_all2_appendI simp: holds_list_frame holds_def)
      moreover have "slot_ok pre (mem ?s2) (txconnect s) c"
        using rep 2(4) fresh(2) unfolding slot_ok_def h by (auto simp: slot_frame[unfolded slot_ok_def])
      moreover have "dom (mem ?s2) = insert a (dom (mem s))" using n 2(4) by auto
      ultimately have "txq_rep_at pre (as @ [a]) ?s2 (ms @ [d]) c"
        using rep 2 fresh unfolding txq_rep_at_def by (auto split: option.splits)
      then show ?thesis
        using \<open>txq_msg_proto_cb calloc pre d s = Some ?s2\<close> 2(1) by auto
    qed
  qed
qed

lemma connect_cb_rep:
  assumes r: "txq_rep_at pre as s ms c"
  shows "\<exists>s'. txq_connect_msg_proto_cb calloc pre d s = Some s' \<and>
    txq_rep_at pre as s' ms (if calloc (calls s) then Some d else c)"
proof -
  obtain msg s1 where new: "txq_new calloc pre d s = (msg, s1)" by force
  from r new show ?thesis
  proof (cases rule: new_rep)
    case 1
    then show ?thesis using new by (auto simp: txq_connect_msg_proto_cb_def)
  next
    case (2 a)
    note rep = r[unfolded txq_rep_at_def]
    have fresh: "a \<notin> set as" "txconnect s \<noteq> Some a" using rep 2(3) by auto
    let ?h = "case txconnect s of None \<Rightarrow> mem s1 | Some b \<Rightarrow> (mem s1)(b := None)"
    let ?s2 = "s1\<lparr>mem := ?h, txconnect := Some a\<rparr>"
    have "\<exists>n. mem s b = Some n" if "txconnect s = Some b" for b
    proof -
      have "b \<in> dom (mem s)" using rep that by simp
      then show ?thesis by blast
    qed
    then have def: "txq_connect_msg_proto_cb calloc pre d s = Some ?s2"
      using new 2 fresh by (fastforce simp: txq_connect_msg_proto_cb_def split: option.splits)
    have dm: "dom ?h = insert a (set as)" using rep 2(4) fresh by (auto split: option.splits)
    have "chain ?h (txqhead s) as" "list_all2 (holds pre ?h) as ms"
      using rep 2(4) fresh by (auto simp: chain_frame holds_list_frame split: option.splits)
    moreover have "slot_ok pre ?h (Some a) (Some d)"
      using fresh 2(4) by (auto simp: slot_ok_def holds_def split: option.splits)
    ultimately have "txq_rep_at pre as ?s2 ms (Some d)"
      using rep 2 fresh dm unfolding txq_rep_at_def by auto
    then show ?thesis using def 2(1) by auto
  qed
qed

lemma restrict_upd_None: "(\<lambda>b. if b = a then None else h b) |` A = h |` (A - {a})"
  by (auto simp: restrict_map_def)

lemmas freed_simps = chain_frame[unfolded fun_upd_def] holds_list_frame[unfolded fun_upd_def] restrict_upd_None

text \<open>The loops end: they visit the nodes of the chain in order and leave the rest of the store.\<close>

lemma drain_chain:
  assumes "chain (mem s) p as" "list_all2 (holds pre (mem s)) as ms" "distinct as"
  shows "txq_drain pre p s out = Some (out @ ms, s\<lparr>mem := mem s |` (- set as)\<rparr>)"
  using assms
proof (induction as arbitrary: p s out ms)
  case Nil
  then show ?case by (simp add: txq_drain.simps)
next
  case (Cons a as)
  then obtain m ms' n where ms: "ms = m # ms'" and n: "mem s a = Some n" "chain (mem s) (txq_next n) as"
    "holds pre (mem s) a m" "list_all2 (holds pre (mem s)) as ms'"
    by (auto simp: list_all2_Cons1 split: option.splits)
  let ?s = "s\<lparr>mem := (mem s)(a := None)\<rparr>"
  have "txq_drain pre p s out = txq_drain pre (txq_next n) ?s (out @ [m])"
    using Cons.prems(1) n by (subst txq_drain.simps) (simp add: holds_def)
  also have "\<dots> = Some ((out @ [m]) @ ms', ?s\<lparr>mem := mem ?s |` (- set as)\<rparr>)"
    using Cons.IH[of ?s "txq_next n" ms' "out @ [m]"] Cons.prems(3) n
    by (simp add: freed_simps)
  also have "mem ?s |` (- set as) = mem s |` (- set (a # as))"
    by (auto simp: restrict_map_def)
  finally show ?case using ms by simp
qed

lemma free_chain:
  assumes "chain (mem s) p as" "distinct as"
  shows "txq_free p s = Some (s\<lparr>mem := mem s |` (- set as)\<rparr>)"
  using assms
proof (induction as arbitrary: p s)
  case Nil
  then show ?case by (simp add: txq_free.simps)
next
  case (Cons a as)
  then obtain n where n: "mem s a = Some n" "chain (mem s) (txq_next n) as" by (auto split: option.splits)
  let ?s = "s\<lparr>mem := (mem s)(a := None)\<rparr>"
  have "txq_free p s = txq_free (txq_next n) ?s"
    using Cons.prems(1) n by (subst txq_free.simps) simp
  also have "\<dots> = Some (?s\<lparr>mem := mem ?s |` (- set as)\<rparr>)"
    using Cons.IH[of ?s "txq_next n"] Cons.prems(2) n by (simp add: freed_simps)
  also have "mem ?s |` (- set as) = mem s |` (- set (a # as))"
    by (auto simp: restrict_map_def)
  finally show ?case by simp
qed

lemma writeable_rep:
  assumes r: "txq_rep_at pre as s ms c"
  shows "\<exists>s'. txq_writeable pre s = Some ((case c of None \<Rightarrow> [] | Some m \<Rightarrow> [m]) @ ms, s') \<and>
    calls s' = calls s \<and> txq_rep_at pre [] s' [] None"
proof -
  note rep = r[unfolded txq_rep_at_def]
  let ?s0 = "s\<lparr>txqhead := None, txqtail := None, txconnect := None\<rparr>"
  have empty: "txq_rep_at pre [] (?s0\<lparr>mem := h |` (- (set as \<union> set_option (txconnect s)))\<rparr>) [] None"
    if "dom h = dom (mem s)" for h
    using rep that by (auto simp: txq_rep_at_def slot_ok_def)
  show ?thesis
  proof (cases "txconnect s")
    case None
    then have "c = None" using rep by (simp add: slot_ok_def)
    moreover have "txq_writeable pre s = Some ([] @ ms, ?s0\<lparr>mem := mem ?s0 |` (- set as)\<rparr>)"
      using rep None drain_chain[of ?s0 "txqhead s" as pre ms "[]"]
      by (simp add: txq_writeable_def txq_pull_def txq_connect_pull_def)
    ultimately show ?thesis using empty[of "mem s"] None by simp
  next
    case (Some a)
    then obtain m n where c: "c = Some m" and n: "mem s a = Some n" "holds pre (mem s) a m"
      using rep by (auto simp: slot_ok_def holds_def option_rel_Some1 split: option.splits)
    let ?h = "(mem s)(a \<mapsto> n\<lparr>txq_next := txqhead s\<rparr>)"
    have a: "a \<notin> set as" using rep Some by auto
    have "txq_writeable pre s = txq_drain pre (Some a) (?s0\<lparr>mem := ?h\<rparr>) []"
      using Some n by (simp add: txq_writeable_def txq_pull_def txq_connect_pull_def)
    also have "\<dots> = Some ([] @ (m # ms), (?s0\<lparr>mem := ?h\<rparr>)\<lparr>mem := ?h |` (- set (a # as))\<rparr>)"
      using drain_chain[of "?s0\<lparr>mem := ?h\<rparr>" "Some a" "a # as" pre "m # ms" "[]"] rep n a
      by (simp add: chain_frame holds_list_frame holds_next)
    finally show ?thesis using empty[of ?h] c n Some by (auto simp: insert_absorb)
  qed
qed

section \<open>What the sender relies on\<close>

text \<open>The operations of the threads on the queue: the protocol queues a message or replaces the connect
  message, the service thread empties the queue. Each runs under the queue's mutex, so a run
  is a sequence of them.\<close>

datatype tx_op = Send string | Connect string | Writeable

text \<open>The reference queue. Each time the socket is writable one chunk goes out: the connect message
  if there is one, then the messages in the order they came. A message for which there is no
  memory is dropped.\<close>

fun spec_run ::
  "(nat \<Rightarrow> bool) \<Rightarrow> tx_op list \<Rightarrow> nat \<Rightarrow> string list \<Rightarrow> string option \<Rightarrow>
   (string option \<times> string list) list \<times> string list \<times> string option" where
  "spec_run calloc [] k ms c = ([], ms, c)"
| "spec_run calloc (Send m # ops) k ms c =
     spec_run calloc ops (Suc k) (if calloc k then ms @ [m] else ms) c"
| "spec_run calloc (Connect m # ops) k ms c =
     spec_run calloc ops (Suc k) ms (if calloc k then Some m else c)"
| "spec_run calloc (Writeable # ops) k ms c =
     (let (chunks, r) = spec_run calloc ops k [] None in ((c, ms) # chunks, r))"

definition chunk_out :: "string option \<times> string list \<Rightarrow> string list" where
  "chunk_out = (\<lambda>(c, ms). (case c of None \<Rightarrow> [] | Some m \<Rightarrow> [m]) @ ms)"

fun accepted :: "(nat \<Rightarrow> bool) \<Rightarrow> tx_op list \<Rightarrow> nat \<Rightarrow> string list" where
  "accepted calloc [] k = []"
| "accepted calloc (Send m # ops) k = (if calloc k then [m] else []) @ accepted calloc ops (Suc k)"
| "accepted calloc (Connect m # ops) k = accepted calloc ops (Suc k)"
| "accepted calloc (Writeable # ops) k = accepted calloc ops k"

lemma spec_fifo:
  "spec_run calloc ops k ms c = (chunks, ms', c') \<Longrightarrow>
   concat (map snd chunks) @ ms' = ms @ accepted calloc ops k"
  by (induction calloc ops k ms c arbitrary: chunks ms' c' rule: spec_run.induct)
     (auto split: prod.splits if_splits)

text \<open>A run of an implementation, given by its three operations.\<close>

fun tx_run ::
  "(string \<Rightarrow> 'q \<Rightarrow> 'q option) \<Rightarrow> (string \<Rightarrow> 'q \<Rightarrow> 'q option) \<Rightarrow> ('q \<Rightarrow> (string list \<times> 'q) option) \<Rightarrow>
   tx_op list \<Rightarrow> 'q \<Rightarrow> (string list \<times> 'q) option" where
  "tx_run send connect flush [] q = Some ([], q)"
| "tx_run send connect flush (Send m # ops) q = do { q \<leftarrow> send m q; tx_run send connect flush ops q }"
| "tx_run send connect flush (Connect m # ops) q = do { q \<leftarrow> connect m q; tx_run send connect flush ops q }"
| "tx_run send connect flush (Writeable # ops) q =
     do { (out, q) \<leftarrow> flush q; (out', q) \<leftarrow> tx_run send connect flush ops q; Some (out @ out', q) }"

locale message_queue =
  fixes rep :: "'q \<Rightarrow> string list \<Rightarrow> string option \<Rightarrow> bool"
    and calloc :: "nat \<Rightarrow> bool"
    and used :: "'q \<Rightarrow> nat"
    and send connect :: "string \<Rightarrow> 'q \<Rightarrow> 'q option"
    and flush :: "'q \<Rightarrow> (string list \<times> 'q) option"
  assumes send_rep: "rep q ms c \<Longrightarrow> \<exists>q'. send m q = Some q' \<and> used q' = Suc (used q) \<and>
      rep q' (if calloc (used q) then ms @ [m] else ms) c"
    and connect_rep: "rep q ms c \<Longrightarrow> \<exists>q'. connect m q = Some q' \<and> used q' = Suc (used q) \<and>
      rep q' ms (if calloc (used q) then Some m else c)"
    and flush_rep: "rep q ms c \<Longrightarrow> \<exists>q'. flush q = Some (chunk_out (c, ms), q') \<and> used q' = used q \<and> rep q' [] None"
begin

lemma run_refines:
  assumes "rep q ms c" "spec_run calloc ops (used q) ms c = (chunks, ms', c')"
  shows "\<exists>q'. tx_run send connect flush ops q = Some (concat (map chunk_out chunks), q') \<and> rep q' ms' c'"
  using assms
proof (induction ops arbitrary: q ms c chunks)
  case (Cons p ops)
  show ?case
  proof (cases p)
    case (Send m)
    then show ?thesis using send_rep[OF Cons.prems(1), of m] Cons.IH Cons.prems(2) by fastforce
  next
    case (Connect m)
    then show ?thesis using connect_rep[OF Cons.prems(1), of m] Cons.IH Cons.prems(2) by fastforce
  next
    case Writeable
    then show ?thesis
      using flush_rep[OF Cons.prems(1)] Cons.IH Cons.prems(2) by (fastforce split: prod.splits)
  qed
qed simp

end

lemma new_calls: "txq_new calloc pre d s = (msg, s') \<Longrightarrow> calls s' = Suc (calls s)"
  by (auto simp: txq_new_def Let_def split: if_splits)

lemma msg_cb_calls:
  "txq_msg_proto_cb calloc pre d s = Some s' \<Longrightarrow> calls s' = Suc (calls s)"
  "txq_connect_msg_proto_cb calloc pre d s = Some s' \<Longrightarrow> calls s' = Suc (calls s)"
  unfolding txq_msg_proto_cb_def txq_connect_msg_proto_cb_def txq_enqueue_def
  by (auto elim!: bindE dest!: new_calls split: option.splits)

interpretation tx: message_queue "txq_rep pre" calloc calls "txq_msg_proto_cb calloc pre"
  "txq_connect_msg_proto_cb calloc pre" "txq_writeable pre" for pre calloc
proof
  fix q ms c m
  assume "txq_rep pre q ms c"
  then obtain as where r: "txq_rep_at pre as q ms c" by (auto simp: txq_rep_def)
  show "\<exists>q'. txq_msg_proto_cb calloc pre m q = Some q' \<and> calls q' = Suc (calls q) \<and>
      txq_rep pre q' (if calloc (calls q) then ms @ [m] else ms) c"
    using msg_cb_rep[OF r, of calloc m] by (auto simp: txq_rep_def dest: msg_cb_calls)
  show "\<exists>q'. txq_connect_msg_proto_cb calloc pre m q = Some q' \<and> calls q' = Suc (calls q) \<and>
      txq_rep pre q' ms (if calloc (calls q) then Some m else c)"
    using connect_cb_rep[OF r, of calloc m] by (auto simp: txq_rep_def dest: msg_cb_calls)
  show "\<exists>q'. txq_writeable pre q = Some (chunk_out (c, ms), q') \<and> calls q' = calls q \<and> txq_rep pre q' [] None"
    using writeable_rep[OF r] by (auto simp: txq_rep_def chunk_out_def)
qed

lemma txq_init_rep: "txq_rep pre txq_init [] None"
  by (auto simp: txq_rep_def txq_rep_at_def txq_init_def slot_ok_def intro!: exI[of _ "[]"])

text \<open>C4. The transmit queue is the reference queue. Whatever the threads do, no access through the
  list's pointers is undefined and every loop over it ends; what is written is what the
  reference queue writes, the connect message of a chunk first; and the messages written and
  still waiting are those that were accepted, each once and in their order.\<close>

theorem tx_queue_refines:
  "case spec_run calloc ops 0 [] None of (chunks, ms, c) \<Rightarrow>
     (\<exists>s'. tx_run (txq_msg_proto_cb calloc pre) (txq_connect_msg_proto_cb calloc pre) (txq_writeable pre) ops txq_init
         = Some (concat (map chunk_out chunks), s') \<and> txq_rep pre s' ms c) \<and>
     concat (map snd chunks) @ ms = accepted calloc ops 0"
proof -
  obtain chunks ms c where r: "spec_run calloc ops 0 [] None = (chunks, ms, c)" by (cases "spec_run calloc ops 0 [] None")
  have "calls txq_init = 0" by (simp add: txq_init_def)
  then show ?thesis
    using tx.run_refines[OF txq_init_rep, where calloc = calloc and ops = ops and pre = pre] spec_fifo[OF r] r by simp
qed

text \<open>At exit the queue is freed without touching a node twice; the one node that can stay
  allocated is a connect message that was never written.\<close>

theorem txq_exit_frees:
  assumes "txq_rep pre s ms c"
  shows "\<exists>s'. txq_free (fst (txq_pull s)) (snd (txq_pull s)) = Some s' \<and>
    dom (mem s') = set_option (txconnect s') \<and> (c = None \<longrightarrow> mem s' = Map.empty)"
proof -
  obtain as where "txq_rep_at pre as s ms c" using assms by (auto simp: txq_rep_def)
  note rep = this[unfolded txq_rep_at_def]
  let ?s = "s\<lparr>txqhead := None, txqtail := None\<rparr>"
  have "txq_free (txqhead s) ?s = Some (?s\<lparr>mem := mem s |` (- set as)\<rparr>)"
    using free_chain[of ?s "txqhead s" as] rep by simp
  moreover have d: "dom (mem s |` (- set as)) = set_option (txconnect s)" using rep by (auto split: option.splits)
  moreover have "mem s |` (- set as) = Map.empty" if "c = None"
  proof -
    have "txconnect s = None" using that rep by (simp add: slot_ok_def)
    then have "dom (mem s |` (- set as)) = {}" unfolding d by simp
    then show ?thesis by (simp only: dom_eq_empty_conv)
  qed
  ultimately show ?thesis by (simp add: txq_pull_def)
qed

theorem txq_exit_frees_witness:
  "\<exists>s s'. txq_msg_proto_cb (\<lambda>_. True) 16 ''hello'' txq_init = Some s \<and>
     txq_free (fst (txq_pull s)) (snd (txq_pull s)) = Some s' \<and> mem s' = Map.empty"
  using tx.send_rep[OF txq_init_rep, of "\<lambda>_. True" 16 "''hello''"] txq_exit_frees[of 16 _ "[''hello'']" None]
  by (fastforce simp: txq_init_def)

end
