(* ===== verification/Json_Api.thy ===== *)
theory Json_Api
  imports Prelude
begin

text \<open>
  The JSON library the client is built on (cJSON), as the client sees it.

  \<^item> Reading. The library is a parameter: a record of the functions the client calls on a parsed
    document, over a type \<open>'j\<close> of nodes. A null pointer is \<open>None\<close>; the accessors below say what
    the library documents for it (null again, false, NaN, no children). No law is assumed of
    the functions, so what is proved of the parser holds for every document.
  \<^item> Writing. A message under construction is a \<open>jdoc\<close>: what the client asked the library to build.
    Each node is one allocating call; a call that fails makes the client drop the message.
  \<^item> \<open>json\<close> is a plain document type with the documented behaviour; examples are evaluated on it.
\<close>

section \<open>Reading documents\<close>

record 'j cjson =
  obj_item :: "'j \<Rightarrow> string \<Rightarrow> 'j option"
  obj_item_nocase :: "'j \<Rightarrow> string \<Rightarrow> 'j option"
  string_value :: "'j \<Rightarrow> string option"
  number_value :: "'j \<Rightarrow> dbl"
  is_true :: "'j \<Rightarrow> bool"
  is_bool :: "'j \<Rightarrow> bool"
  is_number :: "'j \<Rightarrow> bool"
  is_string :: "'j \<Rightarrow> bool"
  is_array :: "'j \<Rightarrow> bool"
  is_object :: "'j \<Rightarrow> bool"
  children :: "'j \<Rightarrow> 'j list"

definition cJSON_GetObjectItemCaseSensitive :: "'j cjson \<Rightarrow> 'j option \<Rightarrow> string \<Rightarrow> 'j option" where
  "cJSON_GetObjectItemCaseSensitive J ob name = do { j \<leftarrow> ob; obj_item J j name }"

definition cJSON_GetObjectItem :: "'j cjson \<Rightarrow> 'j option \<Rightarrow> string \<Rightarrow> 'j option" where
  "cJSON_GetObjectItem J ob name = do { j \<leftarrow> ob; obj_item_nocase J j name }"

definition cJSON_GetStringValue :: "'j cjson \<Rightarrow> 'j option \<Rightarrow> string option" where
  "cJSON_GetStringValue J ob = do { j \<leftarrow> ob; string_value J j }"

definition cJSON_GetNumberValue :: "'j cjson \<Rightarrow> 'j option \<Rightarrow> dbl" where
  "cJSON_GetNumberValue J ob = (case ob of None \<Rightarrow> NaN | Some j \<Rightarrow> number_value J j)"

definition cJSON_IsTrue :: "'j cjson \<Rightarrow> 'j option \<Rightarrow> bool" where
  "cJSON_IsTrue J ob = (case ob of None \<Rightarrow> False | Some j \<Rightarrow> is_true J j)"

definition cJSON_IsBool :: "'j cjson \<Rightarrow> 'j option \<Rightarrow> bool" where
  "cJSON_IsBool J ob = (case ob of None \<Rightarrow> False | Some j \<Rightarrow> is_bool J j)"

definition cJSON_IsNumber :: "'j cjson \<Rightarrow> 'j option \<Rightarrow> bool" where
  "cJSON_IsNumber J ob = (case ob of None \<Rightarrow> False | Some j \<Rightarrow> is_number J j)"

definition cJSON_IsString :: "'j cjson \<Rightarrow> 'j option \<Rightarrow> bool" where
  "cJSON_IsString J ob = (case ob of None \<Rightarrow> False | Some j \<Rightarrow> is_string J j)"

definition cJSON_IsArray :: "'j cjson \<Rightarrow> 'j option \<Rightarrow> bool" where
  "cJSON_IsArray J ob = (case ob of None \<Rightarrow> False | Some j \<Rightarrow> is_array J j)"

definition cJSON_IsObject :: "'j cjson \<Rightarrow> 'j option \<Rightarrow> bool" where
  "cJSON_IsObject J ob = (case ob of None \<Rightarrow> False | Some j \<Rightarrow> is_object J j)"

text \<open>The elements \<open>cJSON_ArrayForEach\<close> visits, and access by position.\<close>

definition cJSON_Array :: "'j cjson \<Rightarrow> 'j option \<Rightarrow> 'j list" where
  "cJSON_Array J ob = (case ob of None \<Rightarrow> [] | Some j \<Rightarrow> children J j)"

definition cJSON_GetArraySize :: "'j cjson \<Rightarrow> 'j option \<Rightarrow> nat" where
  "cJSON_GetArraySize J ob = length (cJSON_Array J ob)"

definition cJSON_GetArrayItem :: "'j cjson \<Rightarrow> 'j option \<Rightarrow> nat \<Rightarrow> 'j option" where
  "cJSON_GetArrayItem J ob i =
     (if i < length (cJSON_Array J ob) then Some (cJSON_Array J ob ! i) else None)"

lemmas cjson_access = cJSON_GetObjectItemCaseSensitive_def cJSON_GetObjectItem_def
  cJSON_GetStringValue_def cJSON_GetNumberValue_def cJSON_IsTrue_def cJSON_IsBool_def
  cJSON_IsNumber_def cJSON_IsString_def cJSON_IsArray_def cJSON_IsObject_def cJSON_Array_def
  cJSON_GetArraySize_def cJSON_GetArrayItem_def

section \<open>Building documents\<close>

datatype jdoc =
    DStr "string option"
  | DNum dbl
  | DRaw string
  | DBool bool
  | DArr "jdoc list"
  | DObj "(string \<times> jdoc) list"

definition dnum :: "int \<Rightarrow> jdoc" where
  "dnum n = DNum (Fin (of_int n))"

text \<open>The library calls that build a document, in order: for each whether it can succeed at all
  (a string from a null pointer cannot).\<close>

fun jcalls :: "jdoc \<Rightarrow> bool list" where
  "jcalls (DStr s) = [s \<noteq> None]"
| "jcalls (DNum _) = [True]"
| "jcalls (DRaw _) = [True]"
| "jcalls (DBool _) = [True]"
| "jcalls (DArr ds) = True # concat (map jcalls ds)"
| "jcalls (DObj fs) = True # concat (map (\<lambda>(_, d). jcalls d) fs)"

text \<open>The calls from number \<open>t\<close> on: the first failure ends the construction.\<close>

fun run_calls :: "(nat \<Rightarrow> bool) \<Rightarrow> bool list \<Rightarrow> nat \<Rightarrow> bool \<times> nat" where
  "run_calls alloc [] t = (True, t)"
| "run_calls alloc (ok # cs) t =
     (if ok \<and> alloc t then run_calls alloc cs (Suc t) else (False, Suc t))"

definition well_formed :: "jdoc \<Rightarrow> bool" where
  "well_formed d \<longleftrightarrow> False \<notin> set (jcalls d)"

lemma run_calls_ok:
  "run_calls alloc cs t = (True, t') \<Longrightarrow> False \<notin> set cs \<and> t' = t + length cs"
  by (induction cs arbitrary: t) (fastforce split: if_splits)+

lemma run_calls_all:
  "False \<notin> set cs \<Longrightarrow> \<forall>i. alloc i \<Longrightarrow> run_calls alloc cs t = (True, t + length cs)"
  by (induction cs arbitrary: t) auto

lemma run_calls_mono: "t \<le> snd (run_calls alloc cs t)"
  by (induction alloc cs t rule: run_calls.induct) auto

text \<open>Lookup in a document that was built, for the statements about messages.\<close>

fun dget :: "jdoc \<Rightarrow> string \<Rightarrow> jdoc option" where
  "dget (DObj fs) k = map_of fs k"
| "dget _ k = None"

section \<open>A document type for examples\<close>

datatype json =
    JNull
  | JBool bool
  | JNum rat
  | JStr string
  | JArr "json list"
  | JObj "(string \<times> json) list"

definition ascii_lower :: "char \<Rightarrow> char" where
  "ascii_lower c = (let v = of_char c :: nat in if 65 \<le> v \<and> v \<le> 90 then char_of (v + 32) else c)"

fun json_item :: "json \<Rightarrow> string \<Rightarrow> json option" where
  "json_item (JObj fs) k = map_of fs k"
| "json_item _ k = None"

fun json_item_nocase :: "json \<Rightarrow> string \<Rightarrow> json option" where
  "json_item_nocase (JObj fs) k =
     map_option snd (List.find (\<lambda>(n, _). map ascii_lower n = map ascii_lower k) fs)"
| "json_item_nocase _ k = None"

definition json_api :: "json cjson" where
  "json_api = \<lparr>
     obj_item = json_item,
     obj_item_nocase = json_item_nocase,
     string_value = (\<lambda>j. case j of JStr s \<Rightarrow> Some s | _ \<Rightarrow> None),
     number_value = (\<lambda>j. case j of JNum q \<Rightarrow> Fin q | _ \<Rightarrow> NaN),
     is_true = (\<lambda>j. j = JBool True),
     is_bool = (\<lambda>j. case j of JBool _ \<Rightarrow> True | _ \<Rightarrow> False),
     is_number = (\<lambda>j. case j of JNum _ \<Rightarrow> True | _ \<Rightarrow> False),
     is_string = (\<lambda>j. case j of JStr _ \<Rightarrow> True | _ \<Rightarrow> False),
     is_array = (\<lambda>j. case j of JArr _ \<Rightarrow> True | _ \<Rightarrow> False),
     is_object = (\<lambda>j. case j of JObj _ \<Rightarrow> True | _ \<Rightarrow> False),
     children = (\<lambda>j. case j of JArr js \<Rightarrow> js | JObj fs \<Rightarrow> map snd fs | _ \<Rightarrow> [])\<rparr>"

lemma json_api_simps [simp]:
  "obj_item json_api (JObj fs) k = map_of fs k"
  "obj_item_nocase json_api = json_item_nocase"
  "string_value json_api (JStr s) = Some s"
  "number_value json_api (JNum q) = Fin q"
  "number_value json_api (JStr s) = NaN"
  "is_true json_api (JBool b) = b"
  "is_bool json_api (JBool b)"
  "is_number json_api (JNum q)"
  "is_string json_api (JStr s)"
  "is_array json_api (JArr js)"
  "is_object json_api (JObj fs)"
  "children json_api (JArr js) = js"
  "children json_api (JObj fs) = map snd fs"
  by (simp_all add: json_api_def)

end
