(* ===== verification/Bitmap.thy ===== *)
theory Bitmap
  imports Prelude
begin

unbundle bit_operations_syntax

text \<open>
  The bitmaps of \<open>include/bitmap.h\<close>: an array of 32-bit words, one bit per port or VLAN. The
  macros index the array without a check, so an access beyond its words is undefined
  behaviour (\<open>None\<close>). The scanning macros are the loops of the source; the library shows that
  they visit exactly the set bits, in ascending order, once each, and that a bitmap is a
  finite set of bit numbers (locale \<open>bit_set\<close>), which is how the configuration code uses it.
\<close>

section \<open>The macros\<close>

type_synonym bitmap = "u32 list"

definition BITS_TO_UINT32 :: "nat \<Rightarrow> nat" where
  "BITS_TO_UINT32 nr = (nr + 32 - 1) div 32"

definition BITMAP_SET_BIT :: "bitmap \<Rightarrow> nat \<Rightarrow> bitmap option" where
  "BITMAP_SET_BIT A k =
     (if k div 32 < length A
      then Some (A[k div 32 := A ! (k div 32) OR push_bit (k mod 32) 1]) else None)"

definition BITMAP_CLEAR_BIT :: "bitmap \<Rightarrow> nat \<Rightarrow> bitmap option" where
  "BITMAP_CLEAR_BIT A k =
     (if k div 32 < length A
      then Some (A[k div 32 := A ! (k div 32) AND NOT (push_bit (k mod 32) 1)]) else None)"

definition BITMAP_TEST_BIT :: "bitmap \<Rightarrow> nat \<Rightarrow> bool option" where
  "BITMAP_TEST_BIT A k =
     (if k div 32 < length A
      then Some (A ! (k div 32) AND push_bit (k mod 32) 1 \<noteq> 0) else None)"

text \<open>\<open>BITMAP_CLEAR\<close> and \<open>BITMAP_FILL\<close> write whole words.\<close>

definition BITMAP_FILL :: "bitmap \<Rightarrow> nat \<Rightarrow> bool \<Rightarrow> bitmap option" where
  "BITMAP_FILL A s value =
     (if BITS_TO_UINT32 s \<le> length A
      then Some (replicate (BITS_TO_UINT32 s) (if value then - 1 else 0) @ drop (BITS_TO_UINT32 s) A)
      else None)"

definition BITMAP_CLEAR :: "bitmap \<Rightarrow> nat \<Rightarrow> bitmap option" where
  "BITMAP_CLEAR A s = BITMAP_FILL A s False"

text \<open>An array declared for \<open>n\<close> bits and cleared.\<close>

definition bitmap_zero :: "nat \<Rightarrow> bitmap" where
  "bitmap_zero n = replicate (BITS_TO_UINT32 n) 0"

text \<open>The search loop of \<open>BITMAP_FIND_NEXT_BIT_SET\<close>: the counter runs from 0 and stops at the
  first set bit that is not below \<open>bit\<close>.\<close>

function find_bit :: "bitmap \<Rightarrow> nat \<Rightarrow> nat \<Rightarrow> nat \<Rightarrow> nat option" where
  "find_bit A len b it =
     (if it < len
      then do {
        t \<leftarrow> BITMAP_TEST_BIT A it;
        if t \<and> b \<le> it then Some it else find_bit A len b (Suc it)
      }
      else Some it)"
  by pat_completeness auto
termination
  by (relation "measure (\<lambda>(A, len, b, it). len - it)") auto

declare find_bit.simps [simp del]

definition BITMAP_FIND_NEXT_BIT_SET :: "bitmap \<Rightarrow> nat \<Rightarrow> nat \<Rightarrow> nat option" where
  "BITMAP_FIND_NEXT_BIT_SET A len b = find_bit A len b 0"

definition BITMAP_FIND_FIRST_BIT_SET :: "bitmap \<Rightarrow> nat \<Rightarrow> nat option" where
  "BITMAP_FIND_FIRST_BIT_SET A len = find_bit A len 0 0"

lemma find_bit_stop:
  "find_bit A len b it = Some r \<Longrightarrow> it \<le> r \<and> (r < len \<longrightarrow> b \<le> r)"
proof (induction A len b it rule: find_bit.induct)
  case (1 A len b it)
  then show ?case
    by (subst (asm) find_bit.simps) (fastforce simp: bind_eq_Some_conv split: if_splits)
qed

text \<open>\<open>BITMAP_FOR_EACH_BIT_SET\<close> from a current bit on: the bits its body runs for.\<close>

function for_each_from :: "bitmap \<Rightarrow> nat \<Rightarrow> nat \<Rightarrow> nat list option" where
  "for_each_from A len b =
     (if b < len
      then do {
        nxt \<leftarrow> BITMAP_FIND_NEXT_BIT_SET A len (b + 1);
        rest \<leftarrow> for_each_from A len nxt;
        Some (b # rest)
      }
      else Some [])"
  by pat_completeness auto
termination
proof (relation "measure (\<lambda>(A, len, b). len - b)")
  fix A :: bitmap and len b nxt :: nat
  assume "b < len" "BITMAP_FIND_NEXT_BIT_SET A len (b + 1) = Some nxt"
  then have "nxt < len \<longrightarrow> b + 1 \<le> nxt"
    unfolding BITMAP_FIND_NEXT_BIT_SET_def by (auto dest: find_bit_stop)
  then show "((A, len, nxt), (A, len, b)) \<in> measure (\<lambda>(A, len, b). len - b)"
    using \<open>b < len\<close> by auto
qed simp

declare for_each_from.simps [simp del]

definition BITMAP_FOR_EACH_BIT_SET :: "bitmap \<Rightarrow> nat \<Rightarrow> nat list option" where
  "BITMAP_FOR_EACH_BIT_SET A len =
     do { first \<leftarrow> BITMAP_FIND_FIRST_BIT_SET A len; for_each_from A len first }"

section \<open>A bitmap is a set of bit numbers\<close>

definition bm_test :: "bitmap \<Rightarrow> nat \<Rightarrow> bool" where
  "bm_test A k \<longleftrightarrow> BITMAP_TEST_BIT A k = Some True"

definition bm_set :: "bitmap \<Rightarrow> nat set" where
  "bm_set A = {k. bm_test A k}"

lemma bit_one_shl: "bit (push_bit m 1 :: u32) n \<longleftrightarrow> m = n \<and> n < 32"
  by (auto simp: bit_push_bit_iff bit_1_iff simp del: push_bit_of_1)

lemma and_one_shl: "(w AND push_bit n 1 \<noteq> 0) \<longleftrightarrow> n < 32 \<and> bit w n" for w :: u32
  unfolding bit_eq_iff by (auto simp: bit_and_iff bit_one_shl simp del: push_bit_of_1)

lemma test_bit_eq:
  "BITMAP_TEST_BIT A k = (if k < 32 * length A then Some (bm_test A k) else None)"
  by (auto simp: BITMAP_TEST_BIT_def bm_test_def div_less_iff_less_mult less_mult_imp_div_less
      mult.commute)

lemma bm_test_iff: "bm_test A k \<longleftrightarrow> k < 32 * length A \<and> bit (A ! (k div 32)) (k mod 32)"
  by (auto simp: bm_test_def BITMAP_TEST_BIT_def and_one_shl div_less_iff_less_mult
      less_mult_imp_div_less mult.commute simp del: push_bit_of_1 split: if_splits)

lemma set_bit_Some:
  "BITMAP_SET_BIT A k = Some B \<longleftrightarrow>
     k < 32 * length A \<and> B = A[k div 32 := A ! (k div 32) OR push_bit (k mod 32) 1]"
  by (auto simp: BITMAP_SET_BIT_def div_less_iff_less_mult less_mult_imp_div_less mult.commute)

lemma clear_bit_Some:
  "BITMAP_CLEAR_BIT A k = Some B \<longleftrightarrow>
     k < 32 * length A \<and> B = A[k div 32 := A ! (k div 32) AND NOT (push_bit (k mod 32) 1)]"
  by (auto simp: BITMAP_CLEAR_BIT_def div_less_iff_less_mult less_mult_imp_div_less mult.commute)

lemma same_bit: "j = (k :: nat) \<longleftrightarrow> j div 32 = k div 32 \<and> j mod 32 = k mod 32"
  by (metis div_mult_mod_eq)

lemma bm_test_set_bit:
  assumes "BITMAP_SET_BIT A k = Some B"
  shows "bm_test B j \<longleftrightarrow> j = k \<or> bm_test A j"
proof -
  have "k div 32 < length A" using assms by (auto simp: BITMAP_SET_BIT_def split: if_splits)
  moreover have "j mod 32 < 32" "j < 32 * length A \<longleftrightarrow> j div 32 < length A"
    by (auto simp: div_less_iff_less_mult mult.commute)
  ultimately show ?thesis
    using assms unfolding set_bit_Some
    by (auto simp: bm_test_iff bit_or_iff bit_one_shl nth_list_update same_bit[of j k]
        simp del: push_bit_of_1 split: if_splits)
qed

lemma bm_test_clear_bit:
  assumes "BITMAP_CLEAR_BIT A k = Some B"
  shows "bm_test B j \<longleftrightarrow> j \<noteq> k \<and> bm_test A j"
proof -
  have "k div 32 < length A" using assms by (auto simp: BITMAP_CLEAR_BIT_def split: if_splits)
  moreover have "j mod 32 < 32" "j < 32 * length A \<longleftrightarrow> j div 32 < length A"
    by (auto simp: div_less_iff_less_mult mult.commute)
  ultimately show ?thesis
    using assms unfolding clear_bit_Some
    by (auto simp: bm_test_iff bit_and_iff bit_not_iff bit_one_shl nth_list_update
        same_bit[of j k] simp del: push_bit_of_1 split: if_splits)
qed

lemma length_set_bit: "BITMAP_SET_BIT A k = Some B \<Longrightarrow> length B = length A"
  by (auto simp: set_bit_Some)

lemma length_clear_bit: "BITMAP_CLEAR_BIT A k = Some B \<Longrightarrow> length B = length A"
  by (auto simp: clear_bit_Some)

lemma bm_set_bitmap_zero [simp]: "bm_set (bitmap_zero n) = {}"
  by (auto simp: bm_set_def bm_test_iff bitmap_zero_def)

lemma length_bitmap_zero [simp]: "length (bitmap_zero n) = BITS_TO_UINT32 n"
  by (simp add: bitmap_zero_def)

lemma bitmap_clear_zero: "BITMAP_CLEAR (bitmap_zero n) n = Some (bitmap_zero n)"
  by (simp add: BITMAP_CLEAR_def BITMAP_FILL_def bitmap_zero_def)

text \<open>What a client relies on: an array of \<open>cap\<close> bits, where each operation on a bit below
  \<open>cap\<close> is defined and acts on the set of bits.\<close>

locale bit_set =
  fixes cap :: "'b \<Rightarrow> nat"
    and bits :: "'b \<Rightarrow> nat set"
    and put :: "'b \<Rightarrow> nat \<Rightarrow> 'b option"
    and del :: "'b \<Rightarrow> nat \<Rightarrow> 'b option"
    and look :: "'b \<Rightarrow> nat \<Rightarrow> bool option"
  assumes put_defined: "(put b k \<noteq> None) \<longleftrightarrow> k < cap b"
    and put_bits: "put b k = Some c \<Longrightarrow> bits c = insert k (bits b)"
    and put_cap: "put b k = Some c \<Longrightarrow> cap c = cap b"
    and del_bits: "del b k = Some c \<Longrightarrow> bits c = bits b - {k}"
    and del_cap: "del b k = Some c \<Longrightarrow> cap c = cap b"
    and look_bits: "k < cap b \<Longrightarrow> look b k = Some (k \<in> bits b)"
    and look_defined: "\<not> k < cap b \<Longrightarrow> look b k = None"
    and bits_cap: "bits b \<subseteq> {..<cap b}"
begin

text \<open>Setting the bits of a list one after the other.\<close>

fun put_all :: "nat list \<Rightarrow> 'b \<Rightarrow> 'b option" where
  "put_all [] b = Some b"
| "put_all (k # ks) b = do { b \<leftarrow> put b k; put_all ks b }"

lemma put_all_bits: "put_all ks b = Some c \<Longrightarrow> bits c = set ks \<union> bits b"
  by (induction ks arbitrary: b) (auto simp: bind_eq_Some_conv dest: put_bits)

lemma put_all_cap: "put_all ks b = Some c \<Longrightarrow> cap c = cap b"
  by (induction ks arbitrary: b) (auto simp: bind_eq_Some_conv dest: put_cap)

lemma put_all_defined: "(\<exists>c. put_all ks b = Some c) \<longleftrightarrow> set ks \<subseteq> {..<cap b}"
proof (induction ks arbitrary: b)
  case (Cons k ks)
  show ?case
  proof (cases "k < cap b")
    case True
    then obtain c where c: "put b k = Some c" using put_defined[of b k] by auto
    then show ?thesis using Cons.IH[of c] put_cap[OF c] True by auto
  next
    case False
    then have "put b k = None" using put_defined[of b k] by auto
    then show ?thesis using False by auto
  qed
qed simp

lemma put_look: "put b k = Some c \<Longrightarrow> look c k = Some True"
  using put_defined[of b k] look_bits[of k c] put_bits put_cap by fastforce

end

interpretation bm: bit_set "\<lambda>A. 32 * length A" bm_set BITMAP_SET_BIT BITMAP_CLEAR_BIT BITMAP_TEST_BIT
proof unfold_locales
  show "(BITMAP_SET_BIT b k \<noteq> None) \<longleftrightarrow> k < 32 * length b" for b k
    using set_bit_Some[of b k] by auto
  show "bm_set b \<subseteq> {..<32 * length b}" for b by (auto simp: bm_set_def bm_test_iff)
qed (auto simp: bm_set_def test_bit_eq bm_test_set_bit bm_test_clear_bit
       dest: length_set_bit length_clear_bit)

section \<open>The scanning loops\<close>

lemma find_bit_eq:
  assumes "len \<le> 32 * length A" "it \<le> len"
  shows "find_bit A len b it =
    Some (case filter (\<lambda>k. bm_test A k \<and> b \<le> k) [it..<len] of [] \<Rightarrow> len | k # _ \<Rightarrow> k)"
  using assms
proof (induction A len b it rule: find_bit.induct)
  case (1 A len b it)
  show ?case
  proof (cases "it < len")
    case True
    then have "[it..<len] = it # [Suc it..<len]" by (simp add: upt_rec)
    then show ?thesis
      using 1 True by (subst find_bit.simps) (auto simp: test_bit_eq)
  next
    case False
    then show ?thesis using 1 by (subst find_bit.simps) auto
  qed
qed

lemma filter_upt_split:
  assumes "filter P [b..<n] = k # ks"
  shows "b \<le> k" "k < n" "P k" "ks = filter P [Suc k..<n]" "filter P [k..<n] = k # ks"
proof -
  have "b \<le> k \<and> k < n \<and> P k \<and> ks = filter P [Suc k..<n] \<and> filter P [k..<n] = k # ks"
    using assms
  proof (induction "n - b" arbitrary: b)
    case (Suc m)
    then have "b < n" by simp
    then have u: "[b..<n] = b # [Suc b..<n]" by (simp add: upt_rec)
    show ?case
    proof (cases "P b")
      case True
      then show ?thesis using Suc.prems u \<open>b < n\<close> by auto
    next
      case False
      then have "filter P [Suc b..<n] = k # ks" using Suc.prems u by simp
      moreover have "m = n - Suc b" using Suc.hyps(2) by simp
      ultimately show ?thesis using Suc.hyps(1)[of "Suc b"] by simp
    qed
  qed simp
  then show "b \<le> k" "k < n" "P k" "ks = filter P [Suc k..<n]" "filter P [k..<n] = k # ks" by auto
qed

lemma first_of_filter:
  fixes n b :: nat and P :: "nat \<Rightarrow> bool"
  defines "m \<equiv> case filter P [b..<n] of [] \<Rightarrow> n | k # _ \<Rightarrow> k"
  shows "(m < n \<longrightarrow> P m) \<and> filter P [m..<n] = filter P [b..<n]"
proof (cases "filter P [b..<n]")
  case (Cons k ks)
  show ?thesis using filter_upt_split[OF Cons] Cons by (simp add: m_def)
qed (simp add: m_def)

lemma filter_upt_from_0:
  "b \<le> n \<Longrightarrow> filter (\<lambda>k. P k \<and> b \<le> k) [0..<n] = filter P [b..<n]"
proof -
  assume "b \<le> n"
  then have "[0..<n] = [0..<b] @ [b..<n]"
    by (metis le0 le_add_diff_inverse upt_add_eq_append)
  then show ?thesis by (auto simp: filter_empty_conv intro!: filter_cong)
qed

lemma for_each_from_eq:
  assumes "len \<le> 32 * length A" and "b < len \<Longrightarrow> bm_test A b"
  shows "for_each_from A len b = Some (filter (bm_test A) [b..<len])"
  using assms
proof (induction A len b rule: for_each_from.induct)
  case (1 A len b)
  show ?case
  proof (cases "b < len")
    case True
    let ?rest = "filter (bm_test A) [b + 1..<len]"
    have nx: "BITMAP_FIND_NEXT_BIT_SET A len (b + 1) =
        Some (case ?rest of [] \<Rightarrow> len | k # _ \<Rightarrow> k)" (is "_ = Some ?n")
      using True 1 find_bit_eq[of len A 0 "b + 1"] filter_upt_from_0[of "b + 1" len "bm_test A"]
      unfolding BITMAP_FIND_NEXT_BIT_SET_def by simp
    have "(?n < len \<longrightarrow> bm_test A ?n) \<and> filter (bm_test A) [?n..<len] = ?rest"
      by (rule first_of_filter)
    then have "for_each_from A len ?n = Some ?rest"
      using 1(1)[OF True nx] 1(2) by simp
    then show ?thesis
      using True nx 1(3) by (subst for_each_from.simps) (simp add: upt_rec[of b len])
  qed (subst for_each_from.simps, simp)
qed

lemma for_each_bits_list:
  assumes "len \<le> 32 * length A"
  shows "BITMAP_FOR_EACH_BIT_SET A len = Some (filter (bm_test A) [0..<len])"
proof -
  let ?n = "case filter (bm_test A) [0..<len] of [] \<Rightarrow> len | k # _ \<Rightarrow> k"
  have first: "BITMAP_FIND_FIRST_BIT_SET A len = Some ?n"
    using find_bit_eq[OF assms, of 0 0] by (simp add: BITMAP_FIND_FIRST_BIT_SET_def)
  have "(?n < len \<longrightarrow> bm_test A ?n) \<and> filter (bm_test A) [?n..<len] = filter (bm_test A) [0..<len]"
    by (rule first_of_filter)
  then show ?thesis
    unfolding BITMAP_FOR_EACH_BIT_SET_def first using for_each_from_eq[OF assms] by simp
qed

text \<open>C38. The scanning macro \<open>BITMAP_FOR_EACH_BIT_SET\<close> terminates, stays inside the array and runs
  its body exactly once for every set bit below the bound, in ascending order.\<close>

theorem for_each_bits:
  assumes "len \<le> 32 * length A"
  shows "BITMAP_FOR_EACH_BIT_SET A len = Some (filter (bm_test A) [0..<len])"
  by (rule for_each_bits_list[OF assms])

theorem for_each_bits_witness:
  "BITMAP_FOR_EACH_BIT_SET [5, 1] 64 = Some [0, 2, 32]"
proof -
  have "filter (bm_test [5, 1]) [0..<64] = [0, 2, 32]" by code_simp
  then show ?thesis using for_each_bits[of 64 "[5, 1]"] by simp
qed

end
