(* ===== verification/Router_Utils.thy ===== *)
theory Router_Utils
  imports Prelude
begin

text \<open>
  The routing table of \<open>router-utils.c\<close> and \<open>include/router-utils.h\<close>: an array of
  \<open>max\<close> nodes of which the first \<open>len\<close> are in use. The order of the keys, prefix length
  first and then the address, is the order \<open>qsort\<close> and the comparison of two tables rely on;
  it is made the \<open>linorder\<close> of the type of keys. \<open>qsort\<close> is a parameter: the C standard
  leaves the order of equal elements open, so the clients rely on the laws of locale
  \<open>c_qsort\<close> only.
\<close>

section \<open>Keys, destinations and nodes\<close>

datatype fib_key = FibKey (prefix: u32) (prefix_len: int)

datatype fib_info =
    ROUTE_BLACKHOLE
  | ROUTE_UNREACHABLE
  | ROUTE_CONNECTED u16
  | ROUTE_NH u16 u32
  | ROUTE_BROADCAST u16

record fib_node =
  node_key :: fib_key
  node_info :: fib_info

text \<open>The value of the enumeration member \<open>type\<close>.\<close>

fun fib_type :: "fib_info \<Rightarrow> nat" where
  "fib_type ROUTE_BLACKHOLE = 0"
| "fib_type ROUTE_UNREACHABLE = 1"
| "fib_type (ROUTE_CONNECTED _) = 2"
| "fib_type (ROUTE_NH _ _) = 3"
| "fib_type (ROUTE_BROADCAST _) = 4"

definition ucentral_router_fib_key_cmp :: "fib_key \<Rightarrow> fib_key \<Rightarrow> int" where
  "ucentral_router_fib_key_cmp a b =
     (if prefix_len a > prefix_len b then 1
      else if prefix_len a < prefix_len b then - 1
      else if prefix a > prefix b then 1
      else if prefix a < prefix b then - 1
      else 0)"

definition ucentral_router_fib_info_cmp :: "fib_info \<Rightarrow> fib_info \<Rightarrow> int" where
  "ucentral_router_fib_info_cmp a b =
     (if fib_type a > fib_type b then 1
      else if fib_type a < fib_type b then - 1
      else (case (a, b) of
          (ROUTE_CONNECTED v, ROUTE_CONNECTED w) \<Rightarrow> if v > w then 1 else if v < w then - 1 else 0
        | (ROUTE_BROADCAST v, ROUTE_BROADCAST w) \<Rightarrow> if v > w then 1 else if v < w then - 1 else 0
        | (ROUTE_NH v g, ROUTE_NH w h) \<Rightarrow>
            if v > w then 1 else if v < w then - 1
            else if g > h then 1 else if g < h then - 1 else 0
        | _ \<Rightarrow> 0))"

instantiation fib_key :: linorder
begin

definition less_eq_fib_key :: "fib_key \<Rightarrow> fib_key \<Rightarrow> bool" where
  "a \<le> b \<longleftrightarrow> ucentral_router_fib_key_cmp a b \<le> 0"

definition less_fib_key :: "fib_key \<Rightarrow> fib_key \<Rightarrow> bool" where
  "a < b \<longleftrightarrow> ucentral_router_fib_key_cmp a b < 0"

instance
proof
  fix x y z :: fib_key
  show "x < y \<longleftrightarrow> x \<le> y \<and> \<not> y \<le> x"
    by (auto simp: less_eq_fib_key_def less_fib_key_def ucentral_router_fib_key_cmp_def)
  show "x \<le> x" by (simp add: less_eq_fib_key_def ucentral_router_fib_key_cmp_def)
  show "x \<le> z" if "x \<le> y" "y \<le> z"
    using that by (auto simp: less_eq_fib_key_def ucentral_router_fib_key_cmp_def split: if_splits)
  show "x = y" if "x \<le> y" "y \<le> x"
    using that by (cases x; cases y)
      (auto simp: less_eq_fib_key_def ucentral_router_fib_key_cmp_def split: if_splits)
  show "x \<le> y \<or> y \<le> x"
    by (auto simp: less_eq_fib_key_def ucentral_router_fib_key_cmp_def)
qed

end

lemma key_cmp_order:
  "ucentral_router_fib_key_cmp a b = 0 \<longleftrightarrow> a = b"
  "ucentral_router_fib_key_cmp a b < 0 \<longleftrightarrow> a < b"
  "ucentral_router_fib_key_cmp a b > 0 \<longleftrightarrow> b < a"
  "ucentral_router_fib_key_cmp a b \<le> 0 \<longleftrightarrow> a \<le> b"
  by (cases a; cases b; auto simp: less_fib_key_def less_eq_fib_key_def
      ucentral_router_fib_key_cmp_def)+

lemma info_cmp_eq [simp]: "ucentral_router_fib_info_cmp a b = 0 \<longleftrightarrow> a = b"
  by (cases a; cases b) (auto simp: ucentral_router_fib_info_cmp_def)

section \<open>The table\<close>

record ucentral_router =
  arr :: "fib_node list"
  rlen :: nat
  rmax :: nat
  sorted_flag :: bool

text \<open>The zeroed node \<open>calloc\<close> provides.\<close>

definition node_zero :: fib_node where
  "node_zero = \<lparr>node_key = FibKey 0 0, node_info = ROUTE_BLACKHOLE\<rparr>"

text \<open>\<open>ok\<close> tells whether the allocation succeeds; a null \<open>arr\<close> is the empty list.\<close>

definition ucentral_router_fib_db_alloc ::
  "bool \<Rightarrow> ucentral_router \<Rightarrow> nat \<Rightarrow> int \<times> ucentral_router" where
  "ucentral_router_fib_db_alloc ok db mx =
     (if ok
      then (0, \<lparr>arr = replicate mx node_zero, rlen = 0, rmax = mx, sorted_flag = True\<rparr>)
      else (- 1, db\<lparr>arr := []\<rparr>))"

definition ucentral_router_fib_db_free :: "ucentral_router \<Rightarrow> ucentral_router" where
  "ucentral_router_fib_db_free db = \<lparr>arr = [], rlen = 0, rmax = 0, sorted_flag = False\<rparr>"

definition ucentral_router_fib_db_copy ::
  "bool \<Rightarrow> ucentral_router \<Rightarrow> ucentral_router \<Rightarrow> (int \<times> ucentral_router) option" where
  "ucentral_router_fib_db_copy ok src dst =
     (let (ret, dst) = ucentral_router_fib_db_alloc ok dst (rmax src) in
      if ret \<noteq> 0 then Some (ret, dst)
      else if rlen src \<le> length (arr src) \<and> rlen src \<le> length (arr dst)
      then Some (0, dst\<lparr>arr := take (rlen src) (arr src) @ drop (rlen src) (arr dst),
                        rlen := rlen src, sorted_flag := sorted_flag src\<rparr>)
      else None)"

definition fib_node_key_cmp_cb :: "fib_node \<Rightarrow> fib_node \<Rightarrow> int" where
  "fib_node_key_cmp_cb a b = ucentral_router_fib_key_cmp (node_key a) (node_key b)"

type_synonym qsort_fn = "(fib_node \<Rightarrow> fib_node \<Rightarrow> int) \<Rightarrow> fib_node list \<Rightarrow> fib_node list"

definition ucentral_router_fib_db_sort :: "qsort_fn \<Rightarrow> ucentral_router \<Rightarrow> ucentral_router" where
  "ucentral_router_fib_db_sort qsort r =
     r\<lparr>arr := qsort fib_node_key_cmp_cb (take (rlen r) (arr r)) @ drop (rlen r) (arr r),
       sorted_flag := True\<rparr>"

definition ucentral_router_fib_db_append ::
  "ucentral_router \<Rightarrow> fib_node \<Rightarrow> (int \<times> ucentral_router) option" where
  "ucentral_router_fib_db_append r n =
     (if rlen r = rmax r then Some (- 1, r)
      else if rlen r < length (arr r)
      then Some (0, r\<lparr>arr := (arr r)[rlen r := n], rlen := rlen r + 1, sorted_flag := False\<rparr>)
      else None)"

section \<open>Well-formed tables and their content\<close>

definition router_wf :: "ucentral_router \<Rightarrow> bool" where
  "router_wf r \<longleftrightarrow> length (arr r) = rmax r \<and> rlen r \<le> rmax r"

text \<open>The nodes in use, and the flag's promise.\<close>

definition used :: "ucentral_router \<Rightarrow> fib_node list" where
  "used r = take (rlen r) (arr r)"

definition sorted_ok :: "ucentral_router \<Rightarrow> bool" where
  "sorted_ok r \<longleftrightarrow> (sorted_flag r \<longrightarrow> sorted (map node_key (used r)))"

text \<open>The table as a finite map from prefixes to destinations.\<close>

definition table :: "fib_node list \<Rightarrow> fib_key \<rightharpoonup> fib_info" where
  "table ns = map_of (map (\<lambda>n. (node_key n, node_info n)) ns)"

lemma table_simps [simp]:
  "table [] = Map.empty"
  "table (n # ns) = (table ns)(node_key n \<mapsto> node_info n)"
  by (simp_all add: table_def)

lemma table_None: "table ns k = None \<longleftrightarrow> k \<notin> node_key ` set ns"
  by (induction ns) auto

lemma table_mset:
  assumes "mset ns = mset ms" "distinct (map node_key ms)"
  shows "table ns = table ms"
proof -
  have "distinct (map node_key ns)"
    using assms by (metis mset_eq_imp_distinct_iff mset_map)
  then show ?thesis
    using assms unfolding table_def
    by (intro map_of_inject_set[THEN iffD2])
       (auto simp: comp_def image_image dest: mset_eq_setD)
qed

lemma alloc_wf: "ucentral_router_fib_db_alloc True db mx = (ret, r) \<Longrightarrow>
    ret = 0 \<and> router_wf r \<and> used r = [] \<and> sorted_ok r \<and> rmax r = mx"
  by (auto simp: ucentral_router_fib_db_alloc_def router_wf_def used_def sorted_ok_def)

lemma free_wf: "router_wf (ucentral_router_fib_db_free r)"
  by (simp add: ucentral_router_fib_db_free_def router_wf_def)

lemma copy_wf:
  assumes "router_wf src"
  shows "\<exists>r. ucentral_router_fib_db_copy True src dst = Some (0, r) \<and> router_wf r \<and>
    used r = used src \<and> rmax r = rmax src \<and> sorted_flag r = sorted_flag src"
  using assms
  by (auto simp: ucentral_router_fib_db_copy_def ucentral_router_fib_db_alloc_def router_wf_def
      used_def)

lemma append_wf:
  assumes "router_wf r" "rlen r < rmax r"
  shows "\<exists>s. ucentral_router_fib_db_append r n = Some (0, s) \<and> router_wf s \<and>
    used s = used r @ [n] \<and> rmax s = rmax r \<and> rlen s = rlen r + 1 \<and> sorted_ok s"
  using assms
  by (auto simp: ucentral_router_fib_db_append_def router_wf_def used_def sorted_ok_def
      take_Suc_conv_app_nth)

lemma append_full:
  "rlen r = rmax r \<Longrightarrow> ucentral_router_fib_db_append r n = Some (- 1, r)"
  by (simp add: ucentral_router_fib_db_append_def)

section \<open>Sorting\<close>

text \<open>What the C library promises of \<open>qsort\<close>: for a comparison that is a total preorder the
  result is a permutation of the array in ascending order.\<close>

definition total_cmp :: "('a \<Rightarrow> 'a \<Rightarrow> int) \<Rightarrow> bool" where
  "total_cmp cmp \<longleftrightarrow>
     (\<forall>a b. cmp a b \<le> 0 \<or> cmp b a \<le> 0) \<and>
     (\<forall>a b c. cmp a b \<le> 0 \<longrightarrow> cmp b c \<le> 0 \<longrightarrow> cmp a c \<le> 0)"

locale c_qsort =
  fixes qsort :: qsort_fn
  assumes qsort_perm: "total_cmp cmp \<Longrightarrow> mset (qsort cmp xs) = mset xs"
    and qsort_sorted: "total_cmp cmp \<Longrightarrow> sorted_wrt (\<lambda>a b. cmp a b \<le> 0) (qsort cmp xs)"

lemma total_key_cmp: "total_cmp fib_node_key_cmp_cb"
  unfolding total_cmp_def fib_node_key_cmp_cb_def key_cmp_order by auto

context c_qsort
begin

lemma sort_used:
  assumes "router_wf r"
  defines "s \<equiv> ucentral_router_fib_db_sort qsort r"
  shows "router_wf s" "mset (used s) = mset (used r)" "sorted (map node_key (used s))"
    "sorted_flag s" "rlen s = rlen r" "rmax s = rmax r"
proof -
  let ?xs = "take (rlen r) (arr r)"
  have m: "mset (qsort fib_node_key_cmp_cb ?xs) = mset ?xs"
    by (rule qsort_perm[OF total_key_cmp])
  then have l: "length (qsort fib_node_key_cmp_cb ?xs) = rlen r"
    using assms(1) mset_eq_length[OF m] by (simp add: router_wf_def)
  have u: "used s = qsort fib_node_key_cmp_cb ?xs"
    using l by (simp add: used_def s_def ucentral_router_fib_db_sort_def)
  show "router_wf s" using assms(1) l
    by (simp add: router_wf_def s_def ucentral_router_fib_db_sort_def)
  show "mset (used s) = mset (used r)" using m u by (simp add: used_def)
  show "sorted (map node_key (used s))"
    using qsort_sorted[OF total_key_cmp] unfolding u
    by (simp add: sorted_wrt_map fib_node_key_cmp_cb_def key_cmp_order)
qed (simp_all add: s_def ucentral_router_fib_db_sort_def)

lemma sort_distinct:
  assumes "router_wf r" "distinct (map node_key (used r))"
  shows "distinct (map node_key (used (ucentral_router_fib_db_sort qsort r)))"
proof -
  have "mset (map node_key (used (ucentral_router_fib_db_sort qsort r))) =
      mset (map node_key (used r))"
    unfolding mset_map sort_used(2)[OF assms(1)] by (rule refl)
  then show ?thesis using assms(2) mset_eq_imp_distinct_iff by blast
qed

lemma sort_table:
  assumes "router_wf r" "distinct (map node_key (used r))"
  shows "table (used (ucentral_router_fib_db_sort qsort r)) = table (used r)"
  by (rule table_mset[OF sort_used(2)[OF assms(1)] assms(2)])

end

text \<open>A sort that keeps the laws: insertion sort.\<close>

fun insert_cmp :: "('a \<Rightarrow> 'a \<Rightarrow> int) \<Rightarrow> 'a \<Rightarrow> 'a list \<Rightarrow> 'a list" where
  "insert_cmp cmp x [] = [x]"
| "insert_cmp cmp x (y # ys) = (if cmp x y \<le> 0 then x # y # ys else y # insert_cmp cmp x ys)"

definition isort_cmp :: "('a \<Rightarrow> 'a \<Rightarrow> int) \<Rightarrow> 'a list \<Rightarrow> 'a list" where
  "isort_cmp cmp xs = foldr (insert_cmp cmp) xs []"

lemma mset_insert_cmp [simp]: "mset (insert_cmp cmp x ys) = add_mset x (mset ys)"
  by (induction ys) auto

lemma set_insert_cmp [simp]: "set (insert_cmp cmp x ys) = insert x (set ys)"
  by (induction ys) auto

lemma sorted_insert_cmp:
  assumes "total_cmp cmp" "sorted_wrt (\<lambda>a b. cmp a b \<le> 0) ys"
  shows "sorted_wrt (\<lambda>a b. cmp a b \<le> 0) (insert_cmp cmp x ys)"
  using assms(2)
proof (induction ys)
  case (Cons y ys)
  then show ?case using assms(1) unfolding total_cmp_def by (auto split: if_splits)
qed simp

interpretation isort: c_qsort isort_cmp
proof unfold_locales
  show "mset (isort_cmp cmp xs) = mset xs" for cmp :: "fib_node \<Rightarrow> fib_node \<Rightarrow> int" and xs
    unfolding isort_cmp_def by (induction xs) auto
  show "sorted_wrt (\<lambda>a b. cmp a b \<le> 0) (isort_cmp cmp xs)"
    if "total_cmp cmp" for cmp :: "fib_node \<Rightarrow> fib_node \<Rightarrow> int" and xs
    using that unfolding isort_cmp_def by (induction xs) (auto simp: sorted_insert_cmp)
qed

end
