(* ===== verification/Plat_Types.thy ===== *)
theory Plat_Types
  imports Bitmap Router_Utils
begin

text \<open>
  The data of \<open>include/ucentral-platform.h\<close>: the constants, the port naming macros, the
  structures of a parsed configuration and the interface every platform provides. A fixed
  array is a function on indices with its bound checked where it is used; a zeroed structure
  (\<open>calloc\<close>, \<open>= {0}\<close>) is the \<open>_zero\<close> value of its record; a linked list is a list, the head
  first, so \<open>UCENTRAL_LIST_PUSH_MEMBER\<close> is \<open>Cons\<close>. The platform is a parameter: a record of
  functions over a type \<open>'p\<close> of platform states.
\<close>

section \<open>Constants and port names\<close>

definition MAX_VLANS :: nat where "MAX_VLANS = 4096"
definition MAX_NUM_OF_PORTS :: nat where "MAX_NUM_OF_PORTS = 100"
definition FIRST_VLAN :: nat where "FIRST_VLAN = 1"
definition PORT_MAX_NAME_LEN :: nat where "PORT_MAX_NAME_LEN = 32"
definition RADIUS_CFG_DEFAULT_PORT :: u16 where "RADIUS_CFG_DEFAULT_PORT = 1812"
definition RADIUS_CFG_DEFAULT_PRIO :: u8 where "RADIUS_CFG_DEFAULT_PRIO = 1"
definition METRICS_WIRED_CLIENTS_MAX_NUM :: u32 where "METRICS_WIRED_CLIENTS_MAX_NUM = 2000"

lemmas plat_consts = MAX_VLANS_def MAX_NUM_OF_PORTS_def FIRST_VLAN_def PORT_MAX_NAME_LEN_def

definition PID_TO_NAME :: "nat \<Rightarrow> string" where
  "PID_TO_NAME p = ''Ethernet'' @ dec p"

definition NAME_TO_PID :: "string \<Rightarrow> scan" where
  "NAME_TO_PID name = scan_lit ''Ethernet'' 16 name"

definition VLAN_TO_NAME :: "nat \<Rightarrow> string" where
  "VLAN_TO_NAME v = ''Vlan'' @ dec v"

definition NAME_TO_VLAN :: "string \<Rightarrow> scan" where
  "NAME_TO_VLAN name = scan_lit ''Vlan'' 16 name"

text \<open>An identifier read into an uninitialised variable: defined only when the scan converts.\<close>

definition scanned :: "scan \<Rightarrow> nat option" where
  "scanned s = (case s of ScanVal n \<Rightarrow> Some n | _ \<Rightarrow> None)"

lemma length_dec_le: "n < 10 ^ k \<Longrightarrow> 0 < k \<Longrightarrow> length (dec n) \<le> k"
proof (induction k arbitrary: n)
  case (Suc k)
  show ?case
  proof (cases "n < 10")
    case False
    then have "0 < k" using Suc.prems by (cases k) auto
    moreover have "n div 10 < 10 ^ k" using Suc.prems by (simp add: less_mult_imp_div_less mult.commute)
    ultimately show ?thesis using Suc.IH False by (simp add: dec.simps[of n])
  qed (simp add: dec.simps[of n])
qed simp

text \<open>Port and VLAN names round trip: the name printed for an identifier of 16 bits scans back
  to it, and fits the name array of the structures with its terminator.\<close>

theorem port_name_roundtrip:
  assumes "p < 2 ^ 16"
  shows "NAME_TO_PID (PID_TO_NAME p) = ScanVal p \<and> NAME_TO_VLAN (VLAN_TO_NAME p) = ScanVal p \<and>
    length (PID_TO_NAME p) < PORT_MAX_NAME_LEN"
proof -
  have "length (dec p) \<le> 5" using assms by (intro length_dec_le) auto
  then show ?thesis
    using assms
    unfolding NAME_TO_PID_def PID_TO_NAME_def NAME_TO_VLAN_def VLAN_TO_NAME_def scan_lit_append
    by (simp add: scan_dec PORT_MAX_NAME_LEN_def)
qed

theorem port_name_roundtrip_witness:
  "(48 :: nat) < 2 ^ 16 \<and> NAME_TO_PID (PID_TO_NAME 48) = ScanVal 48 \<and> PID_TO_NAME 48 = ''Ethernet48''"
proof -
  have "PID_TO_NAME 48 = ''Ethernet48''" by code_simp
  then show ?thesis using port_name_roundtrip[of 48] by simp
qed

section \<open>A parsed configuration\<close>

datatype control_mode = FORCE_AUTHORIZED | FORCE_UNAUTHORIZED | CONTROL_AUTO
datatype host_mode = MULTI_AUTH | MULTI_DOMAIN | MULTI_HOST | SINGLE_HOST
datatype igmp_version = IGMP_VERSION_1 | IGMP_VERSION_2 | IGMP_VERSION_3

record port_poe =
  is_admin_mode_up :: bool
  poe_do_reset :: bool
  detection_mode :: string
  is_detection_mode_set :: bool
  power_limit :: u32
  is_power_limit_set :: bool
  poe_priority :: string
  is_priority_set :: bool

record port_ieee8021x =
  auth_fail_vid :: u16
  guest_vid :: u16
  control_mode :: control_mode
  host_mode :: host_mode
  is_authenticator :: bool

record plat_port =
  pt_name :: string
  pt_speed :: u32
  pt_fp_id :: nat
  pt_duplex :: u8
  pt_state :: u8
  pt_reset :: u8
  pt_poe :: port_poe
  pt_ieee8021x :: port_ieee8021x

record plat_ipv4 =
  subnet :: u32
  subnet_len :: int
  ipv4_exist :: bool

record plat_dhcp_relay =
  server_address :: u32
  circ_id :: string
  relay_enabled :: bool

record igmp_group =
  group_addr :: u32
  egress_ports_list :: "string list"

record plat_igmp =
  igmp_exist :: bool
  snooping_enabled :: bool
  querier_enabled :: bool
  fast_leave_enabled :: bool
  query_interval :: u32
  last_member_query_interval :: u32
  max_response_time :: u32
  igmp_version :: igmp_version
  groups :: "igmp_group list"

record vlan_member =
  member_name :: string
  member_fp_id :: nat
  tagged :: bool

record plat_port_vlan =
  members :: "vlan_member list"
  vlan_ipv4 :: plat_ipv4
  vlan_relay :: plat_dhcp_relay
  vlan_igmp :: plat_igmp
  vlan_id :: nat

record plat_syslog_cfg =
  log_port :: int
  log_size :: int
  log_priority :: int
  log_is_tcp :: int
  log_host :: string

record plat_enabled_service_cfg =
  ssh_enabled :: bool
  telnet_enabled :: bool
  http_enabled :: bool

record metrics_state =
  state_enabled :: bool
  lldp_enabled :: bool
  clients_enabled :: bool
  state_interval :: u64
  max_mac_count :: u32
  public_ip_lookup :: string

record plat_metrics_cfg =
  telemetry_enabled :: bool
  telemetry_interval :: u64
  healthcheck_enabled :: bool
  healthcheck_interval :: u64
  m_state :: metrics_state

record plat_unit =
  power_mgmt :: string
  is_power_mgmt_set :: bool
  usage_threshold :: u8
  is_usage_threshold_set :: bool
  system_password :: string
  password_changed :: bool
  mc_flood_control :: bool
  querier_enable :: bool

datatype stp_mode = STP_NONE | STP_STP | STP_RST | STP_MST | STP_PVST | STP_RPVST

record plat_stp_instance_cfg =
  stp_enabled :: bool
  forward_delay :: u16
  hello_time :: u16
  max_age :: u16
  stp_priority :: u16

record plat_radius_host =
  hostname :: string
  passkey :: string
  auth_port :: u16
  radius_priority :: u8

record plat_ieee8021x_dac_host =
  dac_hostname :: string
  dac_passkey :: string

record port_isolation_session =
  session_id :: u64
  uplink :: "string list"
  downlink :: "string list"

record plat_cfg =
  unit_cfg :: plat_unit
  ports :: "nat \<Rightarrow> plat_port"
  ports_to_cfg :: bitmap
  vlans :: "nat \<Rightarrow> plat_port_vlan"
  vlans_to_cfg :: bitmap
  metrics_cfg :: plat_metrics_cfg
  log_cfg :: "plat_syslog_cfg option"
  log_cfg_cnt :: int
  services_cfg :: plat_enabled_service_cfg
  portsl2 :: "nat \<Rightarrow> plat_ipv4"
  router :: ucentral_router
  stp_mode :: stp_mode
  stp_instances :: "nat \<Rightarrow> plat_stp_instance_cfg"
  radius_hosts_list :: "plat_radius_host list"
  is_auth_ctrl_enabled :: bool
  das_dac_list :: "plat_ieee8021x_dac_host list"
  sessions :: "port_isolation_session list"
  sessions_num :: nat

section \<open>Zeroed structures\<close>

definition port_zero :: plat_port where
  "port_zero = \<lparr>pt_name = [], pt_speed = 0, pt_fp_id = 0, pt_duplex = 0, pt_state = 0, pt_reset = 0,
     pt_poe = \<lparr>is_admin_mode_up = False, poe_do_reset = False, detection_mode = [],
       is_detection_mode_set = False, power_limit = 0, is_power_limit_set = False,
       poe_priority = [], is_priority_set = False\<rparr>,
     pt_ieee8021x = \<lparr>auth_fail_vid = 0, guest_vid = 0, control_mode = FORCE_AUTHORIZED,
       host_mode = MULTI_AUTH, is_authenticator = False\<rparr>\<rparr>"

definition ipv4_zero :: plat_ipv4 where
  "ipv4_zero = \<lparr>subnet = 0, subnet_len = 0, ipv4_exist = False\<rparr>"

definition igmp_zero :: plat_igmp where
  "igmp_zero = \<lparr>igmp_exist = False, snooping_enabled = False, querier_enabled = False,
     fast_leave_enabled = False, query_interval = 0, last_member_query_interval = 0,
     max_response_time = 0, igmp_version = IGMP_VERSION_1, groups = []\<rparr>"

definition vlan_zero :: plat_port_vlan where
  "vlan_zero = \<lparr>members = [], vlan_ipv4 = ipv4_zero,
     vlan_relay = \<lparr>server_address = 0, circ_id = [], relay_enabled = False\<rparr>,
     vlan_igmp = igmp_zero, vlan_id = 0\<rparr>"

definition syslog_zero :: plat_syslog_cfg where
  "syslog_zero = \<lparr>log_port = 0, log_size = 0, log_priority = 0, log_is_tcp = 0, log_host = []\<rparr>"

definition metrics_state_zero :: metrics_state where
  "metrics_state_zero = \<lparr>state_enabled = False, lldp_enabled = False, clients_enabled = False,
     state_interval = 0, max_mac_count = 0, public_ip_lookup = []\<rparr>"

definition metrics_zero :: plat_metrics_cfg where
  "metrics_zero = \<lparr>telemetry_enabled = False, telemetry_interval = 0, healthcheck_enabled = False,
     healthcheck_interval = 0, m_state = metrics_state_zero\<rparr>"

definition cfg_zero :: plat_cfg where
  "cfg_zero = \<lparr>
     unit_cfg = \<lparr>power_mgmt = [], is_power_mgmt_set = False, usage_threshold = 0,
       is_usage_threshold_set = False, system_password = [], password_changed = False,
       mc_flood_control = False, querier_enable = False\<rparr>,
     ports = (\<lambda>_. port_zero), ports_to_cfg = bitmap_zero MAX_NUM_OF_PORTS,
     vlans = (\<lambda>_. vlan_zero), vlans_to_cfg = bitmap_zero MAX_VLANS,
     metrics_cfg = metrics_zero, log_cfg = None, log_cfg_cnt = 0,
     services_cfg = \<lparr>ssh_enabled = False, telnet_enabled = False, http_enabled = False\<rparr>,
     portsl2 = (\<lambda>_. ipv4_zero),
     router = \<lparr>arr = [], rlen = 0, rmax = 0, sorted_flag = False\<rparr>,
     stp_mode = STP_NONE,
     stp_instances = (\<lambda>_. \<lparr>stp_enabled = False, forward_delay = 0, hello_time = 0, max_age = 0,
                           stp_priority = 0\<rparr>),
     radius_hosts_list = [], is_auth_ctrl_enabled = False, das_dac_list = [], sessions = [], sessions_num = 0\<rparr>"

section \<open>The platform interface\<close>

record plat_rtty_cfg =
  rtty_id :: string
  rtty_passwd :: string
  rtty_serial :: string
  rtty_server :: string
  rtty_token :: string
  rtty_user :: string
  rtty_port :: u16
  rtty_timeout :: u16

record plat_platform_info =
  pi_platform :: string
  pi_hwsku :: string

datatype script_type = SCRIPT_NA | SCRIPT_SHELL | SCRIPT_DIAGNOSTICS

text \<open>A script request: the type, the encoded script, the timeout, and the context the result is
  reported with (request identifier and upload address).\<close>

record plat_run_script =
  scr_type :: script_type
  scr_base64 :: "string option"
  scr_timeout :: int
  scr_id :: u64
  scr_uri :: "string option"

record plat_reboot_cause =
  rc_cause :: int
  rc_ts :: u64
  rc_desc :: string

text \<open>An output parameter is part of the result; what a failed call leaves in it is up to the
  platform.\<close>

record 'p plat_api =
  plat_port_num_get :: "'p \<Rightarrow> int \<times> u16 \<times> 'p"
  plat_port_list_get :: "nat \<Rightarrow> 'p \<Rightarrow> int \<times> string list \<times> 'p"
  plat_info_get :: "'p \<Rightarrow> int \<times> plat_platform_info \<times> 'p"
  plat_saved_config_id_get :: "'p \<Rightarrow> int \<times> u64 \<times> 'p"
  plat_reboot :: "'p \<Rightarrow> int \<times> 'p"
  plat_config_apply :: "plat_cfg \<Rightarrow> u32 \<Rightarrow> 'p \<Rightarrow> int \<times> 'p"
  plat_config_save :: "u64 \<Rightarrow> 'p \<Rightarrow> int \<times> 'p"
  plat_config_restore :: "'p \<Rightarrow> int \<times> 'p"
  plat_config_destroy :: "plat_cfg \<Rightarrow> 'p \<Rightarrow> 'p"
  plat_metrics_save :: "plat_metrics_cfg \<Rightarrow> 'p \<Rightarrow> int \<times> 'p"
  plat_metrics_restore :: "'p \<Rightarrow> int \<times> plat_metrics_cfg \<times> 'p"
  plat_factory_default :: "'p \<Rightarrow> int \<times> 'p"
  plat_rtty :: "plat_rtty_cfg \<Rightarrow> 'p \<Rightarrow> int \<times> 'p"
  plat_upgrade :: "string \<Rightarrow> string option \<Rightarrow> 'p \<Rightarrow> int \<times> 'p"
  plat_log_flush :: "'p \<Rightarrow> 'p"
  plat_log_pop_concatenate :: "'p \<Rightarrow> string option \<times> 'p"
  plat_health_poll :: "int \<Rightarrow> 'p \<Rightarrow> 'p"
  plat_health_poll_stop :: "'p \<Rightarrow> 'p"
  plat_telemetry_poll :: "int \<Rightarrow> 'p \<Rightarrow> 'p"
  plat_telemetry_poll_stop :: "'p \<Rightarrow> 'p"
  plat_state_poll :: "int \<Rightarrow> 'p \<Rightarrow> 'p"
  plat_state_poll_stop :: "'p \<Rightarrow> 'p"
  plat_upgrade_poll :: "int \<Rightarrow> 'p \<Rightarrow> 'p"
  plat_upgrade_poll_stop :: "'p \<Rightarrow> 'p"
  plat_run_script :: "plat_run_script \<Rightarrow> 'p \<Rightarrow> int \<times> 'p"
  plat_reboot_cause_get :: "'p \<Rightarrow> int \<times> plat_reboot_cause \<times> 'p"
  plat_event_subscribe :: "'p \<Rightarrow> int \<times> 'p"
  plat_event_unsubscribe :: "'p \<Rightarrow> 'p"

end
