(* ===== verification/Plat_Example.thy ===== *)
theory Plat_Example
  imports Plat_Types
begin

text \<open>
  The example platform (\<open>platform/example-platform/plat-example.c\<close>): the stubs a port starts from.
  Every operation reports success and does nothing. An output parameter a stub does not write
  keeps what the caller had there: zero for the static and zero-initialised ones, the content
  of the stack for the saved configuration identifier, kept here as the platform's state.
\<close>

record example_state =
  stack_u64 :: u64

definition ex_ok :: "'p \<Rightarrow> int \<times> 'p" where
  "ex_ok p = (0, p)"

definition ex_plat_info_get :: "'p \<Rightarrow> int \<times> plat_platform_info \<times> 'p" where
  "ex_plat_info_get p =
     (0, \<lparr>pi_platform = snprintf_s 96 ''Example Platform'',
          pi_hwsku = snprintf_s 96 ''example-platform-sku''\<rparr>, p)"

definition ex_plat_saved_config_id_get :: "example_state \<Rightarrow> int \<times> u64 \<times> example_state" where
  "ex_plat_saved_config_id_get p = (0, stack_u64 p, p)"

definition example_api :: "example_state plat_api" where
  "example_api = \<lparr>
     plat_port_num_get = (\<lambda>p. (0, 0, p)),
     plat_port_list_get = (\<lambda>_ p. (0, [], p)),
     plat_info_get = ex_plat_info_get,
     plat_saved_config_id_get = ex_plat_saved_config_id_get,
     plat_reboot = ex_ok,
     plat_config_apply = (\<lambda>_ _. ex_ok),
     plat_config_save = (\<lambda>_. ex_ok),
     plat_config_restore = ex_ok,
     plat_config_destroy = (\<lambda>_ p. p),
     plat_metrics_save = (\<lambda>_. ex_ok),
     plat_metrics_restore = (\<lambda>p. (0, metrics_zero, p)),
     plat_factory_default = ex_ok,
     plat_rtty = (\<lambda>_. ex_ok),
     plat_upgrade = (\<lambda>_ _. ex_ok),
     plat_log_flush = (\<lambda>p. p),
     plat_log_pop_concatenate = (\<lambda>p. (None, p)),
     plat_health_poll = (\<lambda>_ p. p),
     plat_health_poll_stop = (\<lambda>p. p),
     plat_telemetry_poll = (\<lambda>_ p. p),
     plat_telemetry_poll_stop = (\<lambda>p. p),
     plat_state_poll = (\<lambda>_ p. p),
     plat_state_poll_stop = (\<lambda>p. p),
     plat_upgrade_poll = (\<lambda>_ p. p),
     plat_upgrade_poll_stop = (\<lambda>p. p),
     plat_run_script = (\<lambda>_. ex_ok),
     plat_reboot_cause_get = (\<lambda>p. (0, \<lparr>rc_cause = 0, rc_ts = 0, rc_desc = []\<rparr>, p)),
     plat_event_subscribe = ex_ok,
     plat_event_unsubscribe = (\<lambda>p. p)\<rparr>"

text \<open>The example platform with three ports, for the examples of the other theories.\<close>

definition three_ports_api :: "example_state plat_api" where
  "three_ports_api = example_api\<lparr>
     plat_port_num_get := (\<lambda>p. (0, 3, p)),
     plat_port_list_get := (\<lambda>_ p. (0, [''Ethernet0'', ''Ethernet1'', ''Ethernet2''], p))\<rparr>"

end
