(* ===== verification/Proto_Msgs.thy ===== *)
theory Proto_Msgs
  imports Json_Api Plat_Example
begin

text \<open>
  The state of \<open>proto.c\<close> and the messages it sends. The static variables of the file and the
  global \<open>ucentral_metrics\<close> are the fields of \<open>proto_state\<close>; \<open>env\<close> bundles what the file calls
  but does not contain (the JSON library, the platform, libc's address parsers, the allocator)
  and the client's identity. A message is built by library calls that may each fail; the
  message goes out only when all of them succeeded (\<open>send_doc\<close>).
\<close>

section \<open>Environment and state\<close>

text \<open>\<open>alloc t\<close>: the \<open>t\<close>-th allocating call succeeds. \<open>inet_net_pton\<close> writes only the
  bytes its prefix covers, so it takes the old content of the address; it yields the number of
  prefix bits or -1, and the address. \<open>inet_pton\<close> succeeds with an address. \<open>junk\<close> is the content of
  uninitialised stack storage. \<open>version_file\<close> and
  \<open>schema_file\<close> are the parsed version files, if they can be read; \<open>now\<close> is \<open>time (NULL)\<close>. The \<open>est_\<close>
  and \<open>cert_\<close> fields are what the enrolment client and the file system answer to a renewal of
  the certificate.\<close>

record ('j, 'p) env =
  cj :: "'j cjson"
  api :: "'p plat_api"
  alloc :: "nat \<Rightarrow> bool"
  inet_net_pton :: "string \<Rightarrow> u32 \<Rightarrow> int \<times> u32"
  inet_pton :: "string \<Rightarrow> u32 option"
  cjson_parse :: "string \<Rightarrow> 'j option"
  cl_serial :: "string option"
  cl_firmware :: string
  version_file :: "jdoc option"
  schema_file :: "jdoc option"
  now :: int
  junk :: u32
  est_server_of :: "string option"
  est_reenroll :: "int \<times> string"
  cert_fopen :: bool
  cert_fwrite :: "string \<Rightarrow> nat"

text \<open>\<open>sent\<close> and \<open>connect_sent\<close> are the messages handed to the two send callbacks, the last one
  at the end; \<open>uploads\<close> the addresses script output was posted to; \<open>operational_cert\<close> the content
  of the certificate file; \<open>restart_alarm\<close> the seconds of a pending restart.\<close>

record 'p proto_state =
  plat :: 'p
  ticks :: nat
  port_list :: "string list"
  port_list_num :: nat
  password :: "string option"
  uuid_active :: int
  uuid_latest :: int
  state_compress :: bool
  last_operation :: int
  metrics :: plat_metrics_cfg
  sent :: "jdoc list"
  connect_sent :: "jdoc list"
  uploads :: "string list"
  operational_cert :: string
  restart_alarm :: "nat option"

text \<open>One allocating call; the client reaches the platform through \<open>with_plat\<close>.\<close>

definition try_alloc :: "('j, 'p) env \<Rightarrow> 'p proto_state \<Rightarrow> bool \<times> 'p proto_state" where
  "try_alloc E s = (alloc E (ticks s), s\<lparr>ticks := Suc (ticks s)\<rparr>)"

definition with_plat :: "('p \<Rightarrow> 'r \<times> 'p) \<Rightarrow> 'p proto_state \<Rightarrow> 'r \<times> 'p proto_state" where
  "with_plat f s = (let (r, p) = f (plat s) in (r, s\<lparr>plat := p\<rparr>))"

definition on_plat :: "('p \<Rightarrow> 'p) \<Rightarrow> 'p proto_state \<Rightarrow> 'p proto_state" where
  "on_plat f s = s\<lparr>plat := f (plat s)\<rparr>"

section \<open>Building and sending\<close>

definition build :: "('j, 'p) env \<Rightarrow> jdoc \<Rightarrow> 'p proto_state \<Rightarrow> bool \<times> 'p proto_state" where
  "build E d s = (let (ok, t) = run_calls (alloc E) (jcalls d) (ticks s) in (ok, s\<lparr>ticks := t\<rparr>))"

text \<open>\<open>send_blob\<close>: rendering may fail; then nothing is sent.\<close>

definition send_blob :: "('j, 'p) env \<Rightarrow> jdoc \<Rightarrow> 'p proto_state \<Rightarrow> 'p proto_state" where
  "send_blob E d s =
     (let (ok, s) = try_alloc E s in if ok then s\<lparr>sent := sent s @ [d]\<rparr> else s)"

definition send_connect_blob :: "('j, 'p) env \<Rightarrow> jdoc \<Rightarrow> 'p proto_state \<Rightarrow> 'p proto_state" where
  "send_connect_blob E d s =
     (let (ok, s) = try_alloc E s in
      if ok then s\<lparr>connect_sent := connect_sent s @ [d]\<rparr> else s)"

text \<open>The common shape of the message functions: build, then send; an error path drops the blob.\<close>

definition send_doc :: "('j, 'p) env \<Rightarrow> jdoc \<Rightarrow> 'p proto_state \<Rightarrow> 'p proto_state" where
  "send_doc E d s = (let (ok, s) = build E d s in if ok then send_blob E d s else s)"

text \<open>\<open>proto_new_blob\<close> with the members that are later added to its \<open>params\<close>.\<close>

definition proto_new_blob :: "string \<Rightarrow> (string \<times> jdoc) list \<Rightarrow> jdoc" where
  "proto_new_blob method params =
     DObj [(''jsonrpc'', DStr (Some ''2.0'')), (''method'', DStr (Some method)),
           (''params'', DObj params)]"

text \<open>\<open>result_new_blob\<close> with the members that are later added to its \<open>result\<close>.\<close>

definition result_new_blob :: "('j, 'p) env \<Rightarrow> dbl \<Rightarrow> int \<Rightarrow> (string \<times> jdoc) list \<Rightarrow> jdoc" where
  "result_new_blob E rid uuid result =
     DObj [(''jsonrpc'', DStr (Some ''2.0'')), (''id'', DNum rid),
           (''result'', DObj ([(''serial'', DStr (cl_serial E)), (''uuid'', dnum uuid)] @ result))]"

definition dbl_of_u32 :: "u32 \<Rightarrow> dbl" where
  "dbl_of_u32 w = Fin (of_nat (unat w))"

section \<open>Messages\<close>

definition LOG_ERR :: int where "LOG_ERR = 3"

definition log_send :: "('j, 'p) env \<Rightarrow> string \<Rightarrow> int \<Rightarrow> 'p proto_state \<Rightarrow> 'p proto_state" where
  "log_send E message severity =
     send_doc E (proto_new_blob ''log''
       [(''serial'', DStr (cl_serial E)), (''log'', DStr (Some message)),
        (''severity'', dnum severity)])"

definition configure_reply ::
  "('j, 'p) env \<Rightarrow> u32 \<Rightarrow> string \<Rightarrow> int \<Rightarrow> dbl \<Rightarrow> 'p proto_state \<Rightarrow> 'p proto_state" where
  "configure_reply E error text uuid rid =
     send_doc E (result_new_blob E rid uuid
       [(''status'', DObj [(''text'', DStr (Some text)), (''error'', dnum (uint error))])])"

definition action_reply ::
  "('j, 'p) env \<Rightarrow> u32 \<Rightarrow> string \<Rightarrow> u32 \<Rightarrow> u32 \<Rightarrow> 'p proto_state \<Rightarrow> 'p proto_state" where
  "action_reply E error text retcode rid s =
     send_doc E (result_new_blob E (dbl_of_u32 rid) (uuid_active s)
       [(''status'', DObj [(''error'', dnum (uint error)), (''text'', DStr (Some text)),
                           (''resultCode'', dnum (uint retcode))])]) s"

definition script_reply ::
  "('j, 'p) env \<Rightarrow> u32 \<Rightarrow> string option \<Rightarrow> u32 \<Rightarrow> 'p proto_state \<Rightarrow> 'p proto_state" where
  "script_reply E error text rid s =
     send_doc E (result_new_blob E (dbl_of_u32 rid) (uuid_active s)
       [(''status'', DObj [(''error'', dnum (uint error)), (''result'', DStr text)])]) s"

definition ping_send :: "('j, 'p) env \<Rightarrow> 'p proto_state \<Rightarrow> 'p proto_state" where
  "ping_send E s =
     send_doc E (proto_new_blob ''ping''
       ([(''serial'', DStr (cl_serial E))] @
        (if uuid_active s \<noteq> uuid_latest s
         then [(''uuid'', dnum (uuid_active s)), (''uuid'', dnum (uuid_latest s))]
         else [(''uuid'', dnum (uuid_latest s))]))) s"

text \<open>\<open>msg\<close> has the \<open>HEALTHCHEK_MESSAGE_MAX_COUNT\<close> texts of the report.\<close>

record plat_health_info =
  sanity :: int
  msg :: "string list"

text \<open>The array of the texts is not checked: without it a report that has no text still goes out,
  one that has texts is dropped at the first.\<close>

definition health_doc ::
  "('j, 'p) env \<Rightarrow> plat_health_info \<Rightarrow> int \<Rightarrow> (string \<times> jdoc) list \<Rightarrow> jdoc" where
  "health_doc E health uuid data =
     proto_new_blob ''healthcheck''
       [(''serial'', DStr (cl_serial E)), (''uuid'', dnum uuid),
        (''sanity'', dnum (sanity health)), (''data'', DObj data)]"

definition health_send :: "('j, 'p) env \<Rightarrow> plat_health_info \<Rightarrow> 'p proto_state \<Rightarrow> 'p proto_state" where
  "health_send E health s =
     (let msgs = filter (\<lambda>m. m \<noteq> []) (take 10 (msg health));
          (ok, s) = build E (health_doc E health (uuid_active s) []) s
      in if \<not> ok then s
         else
           let (ok, s) = try_alloc E s in
           if \<not> ok then
             (if msgs = [] then send_blob E (health_doc E health (uuid_active s) []) s
              else snd (try_alloc E s))
           else
             let texts = map (\<lambda>m. DStr (Some m)) msgs;
                 (ok, t) = run_calls (alloc E) (concat (map jcalls texts)) (ticks s);
                 s = s\<lparr>ticks := t\<rparr>
             in if ok then send_blob E (health_doc E health (uuid_active s) [(''messages'', DArr texts)]) s
                else s)"

definition deviceupdate_send :: "('j, 'p) env \<Rightarrow> string option \<Rightarrow> 'p proto_state \<Rightarrow> 'p proto_state" where
  "deviceupdate_send E updated_pass s =
     (case updated_pass of None \<Rightarrow> s
      | Some pass \<Rightarrow>
          send_doc E (proto_new_blob ''deviceupdate''
            [(''serial'', DStr (cl_serial E)), (''currentPassword'', DStr (Some pass))]) s)"

text \<open>The member \<open>data\<close> of an event: a time stamp, the type and the payload.\<close>

definition event_doc ::
  "('j, 'p) env \<Rightarrow> jdoc \<Rightarrow> string \<Rightarrow> (string \<times> jdoc) list \<Rightarrow> jdoc" where
  "event_doc E ts type payload =
     proto_new_blob ''event''
       [(''serial'', DStr (cl_serial E)),
        (''data'', DObj [(''event'',
           DArr [ts, DObj [(''type'', DStr (Some type)), (''payload'', DObj payload)]])])]"

definition event_firmware_upgrade_send ::
  "('j, 'p) env \<Rightarrow> string \<Rightarrow> int \<Rightarrow> string option \<Rightarrow> 'p proto_state \<Rightarrow> 'p proto_state" where
  "event_firmware_upgrade_send E operation percentage text =
     send_doc E (event_doc E (dnum (now E)) ''firmware_upgrade_status''
       ([(''operation'', DStr (Some operation))] @
        (if percentage \<ge> 0 then [(''percentage'', dnum percentage)] else []) @
        (case text of None \<Rightarrow> [] | Some t \<Rightarrow> [(''text'', DStr (Some t))])))"

section \<open>Events of the platform\<close>

record plat_alarm =
  al_id :: "string option"
  al_resource :: "string option"
  al_text :: "string option"
  al_time_created :: u64
  al_type_id :: "string option"
  al_severity :: int

text \<open>\<open>%ju\<close> of the severity, an \<open>int\<close> converted to the widest unsigned type.\<close>

definition alarm_plat_cb :: "('j, 'p) env \<Rightarrow> plat_alarm \<Rightarrow> 'p proto_state \<Rightarrow> 'p proto_state" where
  "alarm_plat_cb E a =
     send_doc E (proto_new_blob ''alarm''
       [(''serial'', DStr (cl_serial E)),
        (''data'', DObj
          [(''id'', DStr (al_id a)), (''resource'', DStr (al_resource a)),
           (''text'', DStr (al_text a)),
           (''time_created'', DStr (Some (dec (unat (al_time_created a))))),
           (''type_id'', DStr (al_type_id a)),
           (''severity'', DStr (Some (dec (nat (al_severity a mod 2 ^ 64)))))])])"

text \<open>\<open>%lld\<close> of a signed number.\<close>

definition sdec :: "int \<Rightarrow> string" where
  "sdec n = (if n < 0 then CHR ''-'' # dec (nat (- n)) else dec (nat n))"

definition linkstatus_plat_cb ::
  "('j, 'p) env \<Rightarrow> int \<Rightarrow> string option \<Rightarrow> int \<Rightarrow> 'p proto_state \<Rightarrow> 'p proto_state" where
  "linkstatus_plat_cb E timestamp ifname up =
     send_doc E (event_doc E (DRaw (sdec timestamp))
       (if up \<noteq> 0 then ''wired.carrier-up'' else ''wired.carrier-down'')
       [(''name'', DStr ifname)])"

datatype poe_linkstatus =
  POE_DISABLED | POE_SEARCHING | POE_DELIVERING_POWER | POE_OVERLOAD | POE_FAULT

fun poe_status_type :: "poe_linkstatus \<Rightarrow> string" where
  "poe_status_type POE_DISABLED = ''wired.poe.status.disabled''"
| "poe_status_type POE_SEARCHING = ''wired.poe.status.searching''"
| "poe_status_type POE_DELIVERING_POWER = ''wired.poe.status.delivering_power''"
| "poe_status_type POE_OVERLOAD = ''wired.poe.status.overload''"
| "poe_status_type POE_FAULT = ''wired.poe.status.fault''"

definition poe_linkstatus_plat_cb ::
  "('j, 'p) env \<Rightarrow> int \<Rightarrow> string option \<Rightarrow> poe_linkstatus \<Rightarrow> 'p proto_state \<Rightarrow> 'p proto_state" where
  "poe_linkstatus_plat_cb E timestamp ifname status =
     send_doc E (event_doc E (DRaw (sdec timestamp)) (poe_status_type status)
       [(''name'', DStr ifname)])"

text \<open>The fault codes by their number in the enumeration; other codes, 0 (no error) included, are
  not reported.\<close>

definition poe_fault_names :: "string list" where
  "poe_fault_names =
     [''ovlo'', ''mps_absent'', ''short'', ''overload'', ''power_denied'', ''thermal_shutdown'',
      ''startup_failure'', ''uvlo'', ''hw_pin_disable'', ''port_undefined'', ''internal_hw_fault'',
      ''user_setting'', ''non_standard_pd'', ''underload'', ''pwr_budget_exceeded'',
      ''oor_capacitor_value'', ''class_error'']"

definition poe_fault_type :: "nat \<Rightarrow> string option" where
  "poe_fault_type code =
     (if 1 \<le> code \<and> code \<le> length poe_fault_names
      then Some (''wired.poe.fault.'' @ poe_fault_names ! (code - 1)) else None)"

text \<open>For a code that is not reported the blob has been built up to the event object when it is
  dropped.\<close>

definition event_skeleton :: "('j, 'p) env \<Rightarrow> jdoc \<Rightarrow> jdoc" where
  "event_skeleton E ts =
     proto_new_blob ''event''
       [(''serial'', DStr (cl_serial E)), (''data'', DObj [(''event'', DArr [ts, DObj []])])]"

definition poe_link_faultcode_plat_cb ::
  "('j, 'p) env \<Rightarrow> int \<Rightarrow> string option \<Rightarrow> nat \<Rightarrow> 'p proto_state \<Rightarrow> 'p proto_state" where
  "poe_link_faultcode_plat_cb E timestamp ifname code s =
     (case poe_fault_type code of
        None \<Rightarrow> snd (build E (event_skeleton E (DRaw (sdec timestamp))) s)
      | Some type \<Rightarrow>
          send_doc E (event_doc E (DRaw (sdec timestamp)) type [(''name'', DStr ifname)]) s)"

definition reboot_cause_type :: "int \<Rightarrow> string option" where
  "reboot_cause_type c =
     (if c = 0 then Some ''device.reboot''
      else if c = 1 then Some ''device.powerloss''
      else if c = 2 then Some ''device.crash''
      else if c = 3 then Some ''device.reboot-cause-unavailable''
      else None)"

text \<open>The time stamp is unsigned and printed with a signed conversion of the same width.\<close>

definition device_rebootcause_send :: "('j, 'p) env \<Rightarrow> 'p proto_state \<Rightarrow> 'p proto_state" where
  "device_rebootcause_send E s =
     (let ((ret, cause), s) = with_plat (\<lambda>p. let (r, c, p) = plat_reboot_cause_get (api E) p in ((r, c), p)) s;
          ts = DRaw (sdec (sint (rc_ts cause)))
      in if ret \<noteq> 0 then s
         else (case reboot_cause_type (rc_cause cause) of
             None \<Rightarrow> snd (build E (event_skeleton E ts) s)
           | Some type \<Rightarrow>
               send_doc E (event_doc E ts type [(''description'', DStr (Some (rc_desc cause)))]) s))"

section \<open>Replies\<close>

text \<open>The error code of a reply: the member \<open>result.status.error\<close>. Other messages have none.\<close>

definition reply_error :: "jdoc \<Rightarrow> jdoc option" where
  "reply_error d = do { r \<leftarrow> dget d ''result''; st \<leftarrow> dget r ''status''; dget st ''error'' }"

lemma reply_error_proto [simp]: "reply_error (proto_new_blob method ps) = None"
  by (simp add: reply_error_def proto_new_blob_def)

lemma reply_error_result [simp]:
  "reply_error (result_new_blob E rid uuid [(''status'', DObj fs)]) = map_of fs ''error''"
  by (simp add: reply_error_def result_new_blob_def)

definition is_reply :: "jdoc \<Rightarrow> bool" where
  "is_reply d \<longleftrightarrow> reply_error d \<noteq> None"

section \<open>Messages are sent whole or not at all\<close>

text \<open>What a message function may change: the allocation counter and the outbox.\<close>

definition only_sends :: "jdoc list \<Rightarrow> 'p proto_state \<Rightarrow> 'p proto_state \<Rightarrow> bool" where
  "only_sends ds s s' \<longleftrightarrow> (\<exists>t. s' = s\<lparr>ticks := t, sent := sent s @ ds\<rparr>)"

lemma only_sends_refl [intro]: "only_sends [] s s"
  unfolding only_sends_def by (intro exI[of _ "ticks s"]) simp

lemma only_sends_trans:
  "only_sends ds s s' \<Longrightarrow> only_sends es s' s'' \<Longrightarrow> only_sends (ds @ es) s s''"
  by (auto simp: only_sends_def)

lemma only_sends_fields:
  assumes "only_sends ds s s'"
  shows "plat s' = plat s" "port_list s' = port_list s" "port_list_num s' = port_list_num s"
    "password s' = password s" "uuid_active s' = uuid_active s" "uuid_latest s' = uuid_latest s"
    "state_compress s' = state_compress s" "last_operation s' = last_operation s"
    "metrics s' = metrics s" "sent s' = sent s @ ds" "connect_sent s' = connect_sent s"
    "operational_cert s' = operational_cert s" "restart_alarm s' = restart_alarm s"
  using assms by (auto simp: only_sends_def)

lemma build_ticks: "\<exists>t. snd (build E d s) = s\<lparr>ticks := t\<rparr>"
  by (auto simp: build_def split: prod.splits)

lemma build_only_sends: "only_sends [] s (snd (build E d s))"
  using build_ticks[of E d s] by (auto simp: only_sends_def)

lemma try_alloc_only_sends: "only_sends [] s (snd (try_alloc E s))"
  by (auto simp: try_alloc_def only_sends_def)

lemma send_blob_only_sends:
  "only_sends [] s (send_blob E d s) \<or> only_sends [d] s (send_blob E d s)"
  by (cases "alloc E (ticks s)") (auto simp: send_blob_def try_alloc_def only_sends_def)

lemma send_doc_cases:
  obtains (dropped) "only_sends [] s (send_doc E d s)"
  | (complete) "well_formed d" "only_sends [d] s (send_doc E d s)"
proof (cases "run_calls (alloc E) (jcalls d) (ticks s)")
  case (Pair ok t)
  show ?thesis
  proof (cases "ok \<and> alloc E t")
    case True
    then have "send_doc E d s = s\<lparr>ticks := Suc t, sent := sent s @ [d]\<rparr>" "well_formed d"
      using Pair run_calls_ok[of "alloc E" "jcalls d" "ticks s" t]
      by (auto simp: send_doc_def build_def send_blob_def try_alloc_def well_formed_def)
    then show ?thesis using complete unfolding only_sends_def by metis
  next
    case False
    have "\<exists>t'. send_doc E d s = s\<lparr>ticks := t'\<rparr>"
      using False Pair by (auto simp: send_doc_def build_def send_blob_def try_alloc_def)
    then show ?thesis using dropped by (auto simp: only_sends_def)
  qed
qed

lemma send_doc_some: "\<exists>ds. set ds \<subseteq> {d} \<and> length ds \<le> 1 \<and> only_sends ds s (send_doc E d s)"
proof (cases rule: send_doc_cases[of s E d])
  case complete
  then show ?thesis by (intro exI[of _ "[d]"]) simp
qed (intro exI[of _ "[]"], simp)

lemma send_doc_delivers:
  "well_formed d \<Longrightarrow> \<forall>i. alloc E i \<Longrightarrow> only_sends [d] s (send_doc E d s)"
  by (auto simp: send_doc_def build_def send_blob_def try_alloc_def only_sends_def run_calls_all
      well_formed_def)

text \<open>The messages whose text and serial are there can be delivered.\<close>

named_theorems jdoc_wf \<open>well-formed documents\<close>

lemma well_formed_simps [jdoc_wf]:
  "well_formed (DStr x) \<longleftrightarrow> x \<noteq> None" "well_formed (DNum n)" "well_formed (DRaw r)"
  "well_formed (DArr ds) \<longleftrightarrow> (\<forall>d \<in> set ds. well_formed d)"
  "well_formed (DObj fs) \<longleftrightarrow> (\<forall>(k, d) \<in> set fs. well_formed d)"
  by (auto simp: well_formed_def)

lemma blob_wf [jdoc_wf]:
  "well_formed (proto_new_blob method ps) \<longleftrightarrow> (\<forall>(k, d) \<in> set ps. well_formed d)"
  "well_formed (result_new_blob E rid uuid rs) \<longleftrightarrow>
     cl_serial E \<noteq> None \<and> (\<forall>(k, d) \<in> set rs. well_formed d)"
  "well_formed (dnum n)"
  by (auto simp: proto_new_blob_def result_new_blob_def dnum_def jdoc_wf)

definition reply_doc :: "('j, 'p) env \<Rightarrow> u32 \<Rightarrow> string \<Rightarrow> u32 \<Rightarrow> u32 \<Rightarrow> 'p proto_state \<Rightarrow> jdoc" where
  "reply_doc E error text retcode rid s =
     result_new_blob E (dbl_of_u32 rid) (uuid_active s)
       [(''status'', DObj [(''error'', dnum (uint error)), (''text'', DStr (Some text)),
                           (''resultCode'', dnum (uint retcode))])]"

text \<open>Messages are atomic. Whatever allocations fail on the way, a reply to the controller is
  either handed over complete or not at all, and building it changes nothing else of the
  state; with memory available and the serial number known it is handed over.\<close>

theorem action_reply_atomic:
  "(only_sends [] s (action_reply E err txt rc rid s) \<or>
    only_sends [reply_doc E err txt rc rid s] s (action_reply E err txt rc rid s)) \<and>
   (cl_serial E \<noteq> None \<longrightarrow> (\<forall>i. alloc E i) \<longrightarrow>
    only_sends [reply_doc E err txt rc rid s] s (action_reply E err txt rc rid s))"
proof (intro conjI impI)
  have "action_reply E err txt rc rid s = send_doc E (reply_doc E err txt rc rid s) s"
    by (simp add: action_reply_def reply_doc_def)
  then show "only_sends [] s (action_reply E err txt rc rid s) \<or>
    only_sends [reply_doc E err txt rc rid s] s (action_reply E err txt rc rid s)"
    by (metis send_doc_cases)
  assume "cl_serial E \<noteq> None" "\<forall>i. alloc E i"
  then show "only_sends [reply_doc E err txt rc rid s] s (action_reply E err txt rc rid s)"
    unfolding action_reply_def reply_doc_def
    by (intro send_doc_delivers) (simp_all add: jdoc_wf)
qed

text \<open>An environment and a state for examples: the three-port platform with memory available.\<close>

definition demo_env :: "(json, example_state) env" where
  "demo_env = \<lparr>cj = json_api, api = three_ports_api, alloc = (\<lambda>_. True),
     inet_net_pton = (\<lambda>s old. if s = ''10.0.0.0/8'' then (8, 10) else (- 1, old)),
     inet_pton = (\<lambda>s. if s = ''10.0.0.1'' then Some 16777226 else None),
     cjson_parse = (\<lambda>_. None), cl_serial = Some ''24fe9a0f48f0'', cl_firmware = ''v1'',
     version_file = None, schema_file = None, now = 0, junk = 0,
     est_server_of = Some ''est.example.org'', est_reenroll = (0, ''cert''),
     cert_fopen = True, cert_fwrite = length\<rparr>"

definition demo_state :: "example_state proto_state" where
  "demo_state = \<lparr>plat = \<lparr>stack_u64 = 0\<rparr>, ticks = 0, port_list = [], port_list_num = 0,
     password = None, uuid_active = 1, uuid_latest = 1, state_compress = True, last_operation = 0,
     metrics = metrics_zero, sent = [], connect_sent = [], uploads = [], operational_cert = [],
     restart_alarm = None\<rparr>"

theorem action_reply_atomic_witness:
  "only_sends [reply_doc demo_env 0 ''ok'' 0 7 demo_state] demo_state
     (action_reply demo_env 0 ''ok'' 0 7 demo_state)"
  using action_reply_atomic[of demo_state demo_env 0 "''ok''" 0 7] by (simp add: demo_env_def)

end
