(* ===== verification/Proto_Tables.thy ===== *)
theory Proto_Tables
  imports Proto_Msgs
begin

text \<open>
  The conversion tables at the head of \<open>proto.c\<close>, the cached port list and the selection of
  ports by name, which all parts of the configuration parser use.
\<close>

section \<open>Conversions\<close>

text \<open>A table lookup leaves the output as it was when nothing matches.\<close>

definition proto_port_duplex_to_num :: "string \<Rightarrow> u8 \<Rightarrow> int \<times> u8" where
  "proto_port_duplex_to_num str duplex =
     (case map_of [(''full'', 1), (''half'', 0)] str of Some d \<Rightarrow> (0, d) | None \<Rightarrow> (1, duplex))"

definition speed_table :: "(dbl \<times> u32) list" where
  "speed_table = [(Fin 10, 0), (Fin 100, 1), (Fin 1000, 2), (Fin 2500, 3), (Fin 5000, 4),
                  (Fin 10000, 5), (Fin 25000, 6), (Fin 100000, 8)]"

definition proto_port_speed_to_num :: "dbl \<Rightarrow> u32 \<Rightarrow> int \<times> u32" where
  "proto_port_speed_to_num val speed =
     (case map_of speed_table val of Some x \<Rightarrow> (0, x) | None \<Rightarrow> (1, speed))"

definition proto_port_state_to_num :: "bool \<Rightarrow> u8" where
  "proto_port_state_to_num enabled = (if enabled then 1 else 0)"

definition PORT_ID_SELECT_ALL_PORTS :: nat where
  "PORT_ID_SELECT_ALL_PORTS = 255"

text \<open>The result of \<open>sscanf\<close> is tested for zero only: an input that ends too early yields EOF, which
  counts as a success, and the identifier that was never written is then read.\<close>

definition proto_port_name_to_num :: "string option \<Rightarrow> nat \<Rightarrow> (int \<times> nat) option" where
  "proto_port_name_to_num str fp_id =
     do {
       s \<leftarrow> str;
       if s = ''Ethernet*'' \<or> s = ''eth*'' then Some (0, PORT_ID_SELECT_ALL_PORTS)
       else (case scan_lit ''Ethernet'' 32 s of
               ScanVal n \<Rightarrow> Some (0, unat (of_nat n :: u16))
             | ScanFail \<Rightarrow> Some (1, fp_id)
             | ScanEOF \<Rightarrow> None
             | ScanRange \<Rightarrow> None)
     }"

text \<open>\<open>None\<close>: the name is a null pointer.\<close>

definition proto_vlan_tagged_to_num :: "string option \<Rightarrow> (int \<times> bool) option" where
  "proto_vlan_tagged_to_num str =
     do {
       s \<leftarrow> str;
       Some (if s = ''tagged'' then (0, True) else if s = ''un-tagged'' then (0, False)
             else (1, False))
     }"

definition stp_table :: "(string \<times> stp_mode) list" where
  "stp_table = [(''none'', STP_NONE), (''stp'', STP_STP), (''rstp'', STP_RST), (''mstp'', STP_MST),
                (''pvstp'', STP_PVST), (''rpvstp'', STP_RPVST)]"

definition proto_stp_mode_to_num :: "string option \<Rightarrow> stp_mode \<Rightarrow> int \<times> stp_mode" where
  "proto_stp_mode_to_num str mode =
     (case str of None \<Rightarrow> (1, mode)
      | Some s \<Rightarrow> (case map_of stp_table s of Some m \<Rightarrow> (0, m) | None \<Rightarrow> (1, mode)))"

section \<open>The cached port list\<close>

text \<open>\<open>n\<close> nodes are allocated one by one; a failure ends the loop with the nodes so far.\<close>

fun alloc_nodes :: "('j, 'p) env \<Rightarrow> nat \<Rightarrow> 'p proto_state \<Rightarrow> bool \<times> nat \<times> 'p proto_state" where
  "alloc_nodes E 0 s = (True, 0, s)"
| "alloc_nodes E (Suc n) s =
     (let (ok, s) = try_alloc E s in
      if \<not> ok then (False, 0, s)
      else let (ok, k, s) = alloc_nodes E n s in (ok, Suc k, s))"

definition ENOMEM :: int where "ENOMEM = 12"

text \<open>The list is fetched once. When a node cannot be allocated the nodes allocated so far, still
  nameless, stay in the cache.\<close>

definition get_port_list :: "('j, 'p) env \<Rightarrow> 'p proto_state \<Rightarrow> int \<times> 'p proto_state" where
  "get_port_list E s =
     (if port_list s \<noteq> [] then (0, s)
      else
        let (r, s) = with_plat (\<lambda>p. let (r, n, p) = plat_port_num_get (api E) p in ((r, n), p)) s;
            s = s\<lparr>port_list_num := unat (snd r)\<rparr>
        in if fst r \<noteq> 0 then (fst r, s)
           else
             let (ok, k, s) = alloc_nodes E (port_list_num s) s in
             if \<not> ok then (- ENOMEM, s\<lparr>port_list := replicate k []\<rparr>)
             else
               let (r, s) = with_plat
                     (\<lambda>p. let (r, ns, p) = plat_port_list_get (api E) (port_list_num s) p in ((r, ns), p)) s
               in if fst r \<noteq> 0 then (fst r, s\<lparr>port_list := []\<rparr>)
                  else (0, s\<lparr>port_list := take k (snd r @ replicate k [])\<rparr>))"

definition num_of_active_ports :: "'p proto_state \<Rightarrow> nat" where
  "num_of_active_ports s = (if port_list s \<noteq> [] then port_list_num s else 0)"

section \<open>Selecting ports\<close>

text \<open>The bits of the named ports; a name that does not scan leaves the identifier uninitialised.\<close>

fun set_pids :: "string list \<Rightarrow> bitmap \<Rightarrow> bitmap option" where
  "set_pids [] b = Some b"
| "set_pids (n # ns) b =
     do { pid \<leftarrow> scanned (NAME_TO_PID n); b \<leftarrow> BITMAP_SET_BIT b pid; set_pids ns b }"

text \<open>The loop over the requested names. The wildcard selects every port and ends the loop.\<close>

fun select_loop ::
  "'j cjson \<Rightarrow> bitmap \<Rightarrow> string list \<Rightarrow> nat \<Rightarrow> 'j list \<Rightarrow> bitmap \<Rightarrow> nat \<Rightarrow> (int \<times> bitmap \<times> nat) option" where
  "select_loop J avail names active [] bmap n = Some (0, bmap, n)"
| "select_loop J avail names active (p # ps) bmap n =
     do {
       (ret, fp) \<leftarrow> proto_port_name_to_num (cJSON_GetStringValue J (Some p)) 0;
       if ret \<noteq> 0 then Some (- 1, bmap, n)
       else if fp = PORT_ID_SELECT_ALL_PORTS then
         do { bmap \<leftarrow> set_pids names bmap; Some (0, bmap, active) }
       else if MAX_NUM_OF_PORTS \<le> fp then Some (- 1, bmap, n)
       else do {
         present \<leftarrow> BITMAP_TEST_BIT avail fp;
         if \<not> present then Some (- 1, bmap, n)
         else do {
           bmap \<leftarrow> BITMAP_SET_BIT bmap fp;
           select_loop J avail names active ps bmap (n + 1)
         }
       }
     }"

text \<open>The result: return code, selected bits, their number, state. When the port list cannot be
  fetched the outputs keep their old values.\<close>

definition cfg_ethernet_select_ports_parse ::
  "('j, 'p) env \<Rightarrow> 'j option \<Rightarrow> bitmap \<Rightarrow> nat \<Rightarrow> 'p proto_state
     \<Rightarrow> (int \<times> bitmap \<times> nat \<times> 'p proto_state) option" where
  "cfg_ethernet_select_ports_parse E select_ports bmap selected s =
     (let (ret, s) = get_port_list E s in
      if ret \<noteq> 0 then Some (- 1, bmap, selected, s)
      else do {
        bmap \<leftarrow> BITMAP_CLEAR bmap MAX_NUM_OF_PORTS;
        avail \<leftarrow> set_pids (port_list s) (bitmap_zero MAX_NUM_OF_PORTS);
        (ret, bmap, n) \<leftarrow> select_loop (cj E) avail (port_list s) (num_of_active_ports s)
                            (cJSON_Array (cj E) select_ports) bmap 0;
        Some (ret, bmap, n, s)
      })"

section \<open>What fetching the list may change\<close>

text \<open>The part of the state the configuration parser may touch: the platform, the allocation
  counter, the port list and the outbox.\<close>

definition parser_frame :: "'p proto_state \<Rightarrow> 'p proto_state \<Rightarrow> bool" where
  "parser_frame s s' \<longleftrightarrow>
     uuid_active s' = uuid_active s \<and> uuid_latest s' = uuid_latest s \<and> metrics s' = metrics s \<and>
     state_compress s' = state_compress s \<and> password s' = password s \<and>
     last_operation s' = last_operation s \<and> connect_sent s' = connect_sent s"

lemma parser_frame_refl [simp, intro]: "parser_frame s s"
  by (simp add: parser_frame_def)

lemma parser_frame_trans: "parser_frame s s' \<Longrightarrow> parser_frame s' s'' \<Longrightarrow> parser_frame s s''"
  by (simp add: parser_frame_def)

lemma only_sends_frame: "only_sends ds s s' \<Longrightarrow> parser_frame s s'"
  by (auto simp: parser_frame_def only_sends_fields)

lemma try_alloc_frame:
  "try_alloc E s = (ok, s') \<Longrightarrow> parser_frame s s' \<and> sent s' = sent s \<and> port_list s' = port_list s"
  by (auto simp: try_alloc_def parser_frame_def)

lemma with_plat_frame:
  "with_plat f s = (r, s') \<Longrightarrow> parser_frame s s' \<and> sent s' = sent s \<and> port_list s' = port_list s"
  by (auto simp: with_plat_def parser_frame_def split: prod.splits)

lemma alloc_nodes_frame:
  "alloc_nodes E n s = (ok, k, s') \<Longrightarrow> parser_frame s s' \<and> sent s' = sent s"
proof (induction n arbitrary: s ok k)
  case (Suc n)
  then show ?case
    by (auto split: prod.splits if_splits dest!: try_alloc_frame Suc.IH intro: parser_frame_trans)
qed simp

lemma get_port_list_frame:
  assumes "get_port_list E s = (ret, s')"
  shows "parser_frame s s' \<and> sent s' = sent s"
  using assms
  by (auto simp: get_port_list_def Let_def parser_frame_def split: prod.splits if_splits
      dest!: with_plat_frame alloc_nodes_frame)

lemma send_doc_frame: "parser_frame s (send_doc E d s)"
  by (rule send_doc_cases[of s E d]) (auto intro: only_sends_frame)

lemma log_send_frame: "parser_frame s (log_send E m sev s)"
  unfolding log_send_def by (rule send_doc_frame)

section \<open>The selection is exact\<close>

definition pids :: "string list \<Rightarrow> nat set" where
  "pids names = {p. \<exists>n \<in> set names. NAME_TO_PID n = ScanVal p}"

lemma pids_simps [simp]: "pids [] = {}"
  by (simp add: pids_def)

lemma scanned_Some [simp]: "scanned x = Some p \<longleftrightarrow> x = ScanVal p"
  by (cases x) (auto simp: scanned_def)

lemma set_pids_bits:
  "set_pids ns b = Some c \<Longrightarrow> bm_set c = pids ns \<union> bm_set b \<and> length c = length b"
proof (induction ns arbitrary: b)
  case (Cons n ns)
  then obtain p b' where p: "NAME_TO_PID n = ScanVal p" "BITMAP_SET_BIT b p = Some b'"
    "set_pids ns b' = Some c" by (auto simp: bind_eq_Some_conv)
  have "bm_set c = pids ns \<union> bm_set b'" "length c = length b'" using Cons.IH[OF p(3)] by auto
  moreover have "bm_set b' = insert p (bm_set b)" "length b' = length b"
    using bm.put_bits[OF p(2)] length_set_bit[OF p(2)] by auto
  moreover have "pids (n # ns) = insert p (pids ns)" using p(1) by (auto simp: pids_def)
  ultimately show ?case by auto
qed simp

text \<open>The port an element of \<open>select-ports\<close> names.\<close>

definition names_port :: "'j cjson \<Rightarrow> 'j \<Rightarrow> nat \<Rightarrow> bool" where
  "names_port J p q \<longleftrightarrow> proto_port_name_to_num (cJSON_GetStringValue J (Some p)) 0 = Some (0, q)"

definition selection :: "'j cjson \<Rightarrow> string list \<Rightarrow> 'j list \<Rightarrow> nat set" where
  "selection J names ps =
     (if \<exists>p \<in> set ps. names_port J p PORT_ID_SELECT_ALL_PORTS then pids names
      else {q. \<exists>p \<in> set ps. names_port J p q})"

lemma selection_Cons:
  assumes "names_port J p q" "q \<noteq> PORT_ID_SELECT_ALL_PORTS" "q \<in> pids names"
  shows "selection J names (p # ps) = insert q (selection J names ps)"
proof -
  have p: "names_port J p r \<longleftrightarrow> r = q" for r using assms(1) by (auto simp: names_port_def)
  have "PORT_ID_SELECT_ALL_PORTS \<noteq> q" using assms(2) by simp
  then show ?thesis
    using assms(3) by (cases "\<exists>p \<in> set ps. names_port J p PORT_ID_SELECT_ALL_PORTS")
      (simp_all add: selection_def p insert_absorb, blast)
qed

lemma select_loop_exact:
  assumes "select_loop J avail names active ps bmap n = Some (0, b, k)" "bm_set avail = pids names"
  shows "bm_set b = selection J names ps \<union> bm_set bmap \<and> selection J names ps \<subseteq> pids names \<and>
    length b = length bmap"
  using assms
proof (induction J avail names active ps bmap n rule: select_loop.induct)
  case (1 J avail names active bmap n)
  then show ?case by (simp add: selection_def)
next
  case (2 J avail names active p ps bmap n)
  obtain fp where fp: "proto_port_name_to_num (cJSON_GetStringValue J (Some p)) 0 = Some (0, fp)"
    using 2(2) by (auto simp: bind_eq_Some_conv split: if_splits)
  then have np: "names_port J p fp" by (simp add: names_port_def)
  show ?case
  proof (cases "fp = PORT_ID_SELECT_ALL_PORTS")
    case True
    then have "selection J names (p # ps) = pids names" using np by (auto simp: selection_def)
    moreover have "set_pids names bmap = Some b"
      using 2(2) fp True by (auto simp: bind_eq_Some_conv)
    ultimately show ?thesis using set_pids_bits by blast
  next
    case False
    obtain b' where b': "BITMAP_TEST_BIT avail fp = Some True" "BITMAP_SET_BIT bmap fp = Some b'"
      "select_loop J avail names active ps b' (n + 1) = Some (0, b, k)" "\<not> MAX_NUM_OF_PORTS \<le> fp"
      using 2(2) fp False by (auto simp: bind_eq_Some_conv split: if_splits)
    have "fp \<in> pids names" 
      using b'(1) 2(3) unfolding bm_set_def bm_test_def by blast
    then show ?thesis
      using 2(1)[OF fp refl _ False b'(4,1) _ b'(2,3) 2(3)] selection_Cons[OF np False]
        bm.put_bits[OF b'(2)] length_set_bit[OF b'(2)] by auto
  qed
qed

lemma select_ports_bits:
  assumes "cfg_ethernet_select_ports_parse E sp bm n s = Some (0, b, k, s')"
    and "length bm = BITS_TO_UINT32 MAX_NUM_OF_PORTS"
  shows "bm_set b = selection (cj E) (port_list s') (cJSON_Array (cj E) sp) \<and>
    bm_set b \<subseteq> pids (port_list s') \<and> length b = BITS_TO_UINT32 MAX_NUM_OF_PORTS"
proof -
  let ?z = "bitmap_zero MAX_NUM_OF_PORTS"
  have "BITMAP_CLEAR bm MAX_NUM_OF_PORTS = Some ?z"
    using assms(2) by (simp add: BITMAP_CLEAR_def BITMAP_FILL_def bitmap_zero_def)
  moreover obtain s1 where "get_port_list E s = (0, s1)"
    using assms(1) by (cases "get_port_list E s") (auto simp: cfg_ethernet_select_ports_parse_def split: if_splits)
  ultimately obtain avail where "set_pids (port_list s') ?z = Some avail"
    and loop: "select_loop (cj E) avail (port_list s') (num_of_active_ports s')
         (cJSON_Array (cj E) sp) ?z 0 = Some (0, b, k)"
    using assms(1) unfolding cfg_ethernet_select_ports_parse_def by (auto simp: bind_eq_Some_conv)
  then have "bm_set avail = pids (port_list s')" using set_pids_bits by fastforce
  then show ?thesis using select_loop_exact[OF loop] by auto
qed

text \<open>Port selection is exact and safe. When \<open>select-ports\<close> is accepted, the bitmap holds exactly
  the ports that were named, or every port of the platform when a wildcard was among them, and
  never a port the platform does not have.\<close>

theorem select_ports_exact:
  assumes "cfg_ethernet_select_ports_parse E sp bm n s = Some (0, b, k, s')"
    and "length bm = BITS_TO_UINT32 MAX_NUM_OF_PORTS"
  shows "bm_set b = selection (cj E) (port_list s') (cJSON_Array (cj E) sp) \<and>
    bm_set b \<subseteq> pids (port_list s') \<and> length b = BITS_TO_UINT32 MAX_NUM_OF_PORTS"
  by (rule select_ports_bits[OF assms])

theorem select_ports_exact_witness:
  "\<exists>b k s. cfg_ethernet_select_ports_parse demo_env
       (Some (JArr [JStr ''Ethernet1'', JStr ''Ethernet2''])) (bitmap_zero MAX_NUM_OF_PORTS) 0 demo_state
     = Some (0, b, k, s) \<and> bm_set b = selection json_api (port_list s)
       [JStr ''Ethernet1'', JStr ''Ethernet2'']"
proof -
  let ?r = "cfg_ethernet_select_ports_parse demo_env
       (Some (JArr [JStr ''Ethernet1'', JStr ''Ethernet2''])) (bitmap_zero MAX_NUM_OF_PORTS) 0 demo_state"
  have "map_option fst ?r = Some 0" by code_simp
  then obtain b k s where r: "?r = Some (0, b, k, s)" by auto
  have "cj demo_env = json_api" by (simp add: demo_env_def)
  then show ?thesis
    using r select_ports_exact[OF r] by (auto simp: cJSON_Array_def)
qed

end
