(* ===== verification/Cfg_Ports.thy ===== *)
theory Cfg_Ports
  imports Proto_Tables
begin

text \<open>
  The port part of the configuration parser of \<open>proto.c\<close>: PoE, 802.1X and the \<open>ethernet\<close>
  array. A parse function returns the C return code together with the structure it filled, in
  the state in which an early return leaves it; \<open>None\<close> is undefined behaviour.
\<close>

abbreviation item :: "'j cjson \<Rightarrow> 'j option \<Rightarrow> string \<Rightarrow> 'j option" where
  "item \<equiv> cJSON_GetObjectItemCaseSensitive"

section \<open>PoE and 802.1X of a port\<close>

definition cfg_ethernet_poe_parse :: "'j cjson \<Rightarrow> 'j option \<Rightarrow> port_poe \<Rightarrow> (int \<times> port_poe) option" where
  "cfg_ethernet_poe_parse J poe p =
     (let admin_mode = item J poe ''admin-mode'';
          do_reset = item J poe ''do-reset'';
          detection = item J poe ''detection'';
          limit = item J poe ''power-limit'';
          priority = item J poe ''priority''
      in
      if admin_mode \<noteq> None \<and> \<not> cJSON_IsBool J admin_mode then Some (- 1, p)
      else do {
        let p = (if admin_mode \<noteq> None then p\<lparr>is_admin_mode_up := cJSON_IsTrue J admin_mode\<rparr> else p);
        if do_reset \<noteq> None \<and> \<not> cJSON_IsBool J do_reset then Some (- 1, p)
        else do {
          let p = (if do_reset \<noteq> None then p\<lparr>poe_do_reset := cJSON_IsTrue J do_reset\<rparr> else p);
          if detection \<noteq> None \<and> cJSON_GetStringValue J detection = None then Some (- 1, p)
          else do {
            p \<leftarrow> (if detection \<noteq> None
                 then do { m \<leftarrow> strcpy 32 (cJSON_GetStringValue J detection);
                           Some (p\<lparr>detection_mode := m, is_detection_mode_set := True\<rparr>) }
                 else Some p);
            if limit \<noteq> None \<and> \<not> cJSON_IsNumber J limit then Some (- 1, p)
            else do {
              p \<leftarrow> (if limit \<noteq> None
                   then do { w \<leftarrow> dbl_to_word (cJSON_GetNumberValue J limit);
                             Some (p\<lparr>power_limit := w, is_power_limit_set := True\<rparr>) }
                   else Some p);
              if priority \<noteq> None \<and> cJSON_GetStringValue J priority = None then Some (- 1, p)
              else do {
                p \<leftarrow> (if priority \<noteq> None
                     then do { m \<leftarrow> strcpy 32 (cJSON_GetStringValue J priority);
                               Some (p\<lparr>poe_priority := m, is_priority_set := True\<rparr>) }
                     else Some p);
                Some (0, p)
              }
            }
          }
        }
      })"

fun control_mode_of :: "string \<Rightarrow> control_mode option" where
  "control_mode_of s =
     (if s = ''force-authorized'' then Some FORCE_AUTHORIZED
      else if s = ''force-unauthorized'' then Some FORCE_UNAUTHORIZED
      else if s = ''auto'' then Some CONTROL_AUTO
      else None)"

fun host_mode_of :: "string \<Rightarrow> host_mode option" where
  "host_mode_of s =
     (if s = ''multi-auth'' then Some MULTI_AUTH
      else if s = ''multi-domain'' then Some MULTI_DOMAIN
      else if s = ''multi-host'' then Some MULTI_HOST
      else if s = ''single-host'' then Some SINGLE_HOST
      else None)"

text \<open>A mode option: \<open>Inl\<close> is an error, \<open>Inr None\<close> an absent option.\<close>

definition mode_option :: "'j cjson \<Rightarrow> 'j option \<Rightarrow> (string \<Rightarrow> 'm option) \<Rightarrow> unit + 'm option" where
  "mode_option J ob parse =
     (if ob = None then Inr None
      else (case cJSON_GetStringValue J ob of
              None \<Rightarrow> Inl ()
            | Some s \<Rightarrow> (case parse s of None \<Rightarrow> Inl () | Some m \<Rightarrow> Inr (Some m))))"

text \<open>A VLAN option of a port: \<open>Inl\<close> for a wrong type.\<close>

definition vid_option :: "'j cjson \<Rightarrow> 'j option \<Rightarrow> u16 \<Rightarrow> (unit + u16) option" where
  "vid_option J ob old =
     (if ob = None then Some (Inr old)
      else if \<not> cJSON_IsNumber J ob then Some (Inl ())
      else do { v \<leftarrow> dbl_to_word (cJSON_GetNumberValue J ob); Some (Inr v) })"

definition cfg_ethernet_ieee8021x_parse ::
  "'j cjson \<Rightarrow> 'j option \<Rightarrow> port_ieee8021x \<Rightarrow> (int \<times> port_ieee8021x) option" where
  "cfg_ethernet_ieee8021x_parse J ieee8021x p =
     (let authenticator = item J ieee8021x ''is-authenticator'';
          authentication_mode = item J ieee8021x ''authentication-mode'';
          hmode = item J ieee8021x ''host-mode'';
          guest = item J ieee8021x ''guest-vlan'';
          auth_fail = item J ieee8021x ''unauthenticated-vlan'';
          p = \<lparr>auth_fail_vid = 0, guest_vid = 0, control_mode = FORCE_AUTHORIZED,
               host_mode = MULTI_AUTH, is_authenticator = False\<rparr>
      in
      if authenticator \<noteq> None \<and> \<not> cJSON_IsBool J authenticator then Some (- 1, p)
      else
        let p = (if authenticator \<noteq> None then p\<lparr>is_authenticator := cJSON_IsTrue J authenticator\<rparr> else p)
        in case mode_option J authentication_mode control_mode_of of
             Inl _ \<Rightarrow> Some (- 1, p)
           | Inr cm \<Rightarrow>
               let p = (case cm of None \<Rightarrow> p | Some m \<Rightarrow> p\<lparr>control_mode := m\<rparr>)
               in case mode_option J hmode host_mode_of of
                    Inl _ \<Rightarrow> Some (- 1, p)
                  | Inr hm \<Rightarrow>
                      let p = (case hm of None \<Rightarrow> p | Some m \<Rightarrow> p\<lparr>host_mode := m\<rparr>)
                      in do {
                        g \<leftarrow> vid_option J guest 0;
                        (case g of Inl _ \<Rightarrow> Some (- 1, p)
                         | Inr g \<Rightarrow> do {
                             let p = p\<lparr>guest_vid := g\<rparr>;
                             f \<leftarrow> vid_option J auth_fail 0;
                             (case f of Inl _ \<Rightarrow> Some (- 1, p)
                              | Inr f \<Rightarrow> Some (0, p\<lparr>auth_fail_vid := f\<rparr>))
                           })
                      })"

section \<open>The ethernet array\<close>

text \<open>The selected ports get the parsed settings, each with its own name and identifier.\<close>

fun assign_ports :: "plat_port \<Rightarrow> nat list \<Rightarrow> plat_cfg \<Rightarrow> plat_cfg option" where
  "assign_ports tmp [] cfg = Some cfg"
| "assign_ports tmp (i # is) cfg =
     do {
       name \<leftarrow> strcpy PORT_MAX_NAME_LEN (Some (PID_TO_NAME i));
       bm \<leftarrow> BITMAP_SET_BIT (ports_to_cfg cfg) i;
       if i < MAX_NUM_OF_PORTS
       then assign_ports tmp is
              (cfg\<lparr>ports := (ports cfg)(i := tmp\<lparr>pt_name := name, pt_fp_id := i\<rparr>), ports_to_cfg := bm\<rparr>)
       else None
     }"

text \<open>The speed is tested for zero only: a missing one is NaN and passes.\<close>

definition cfg_ethernet_one ::
  "('j, 'p) env \<Rightarrow> 'j \<Rightarrow> plat_cfg \<times> 'p proto_state \<Rightarrow> (int \<times> plat_cfg \<times> 'p proto_state) option" where
  "cfg_ethernet_one E eth = (\<lambda>(cfg, s).
     let J = cj E;
         select_ports = item J (Some eth) ''select-ports'';
         enabled = cJSON_IsTrue J (item J (Some eth) ''enabled'');
         duplex = cJSON_GetStringValue J (item J (Some eth) ''duplex'');
         speed = cJSON_GetNumberValue J (item J (Some eth) ''speed'');
         poe = item J (Some eth) ''poe'';
         ieee8021x = item J (Some eth) ''ieee8021x''
     in
     case duplex of
       None \<Rightarrow> Some (- 1, cfg, s)
     | Some dup \<Rightarrow>
         if \<not> dbl_true speed \<or> select_ports = None then Some (- 1, cfg, s)
         else if poe \<noteq> None \<and> \<not> cJSON_IsObject J poe then Some (- 1, cfg, s)
         else do {
           (ret, pp) \<leftarrow> (if poe \<noteq> None then cfg_ethernet_poe_parse J poe (pt_poe port_zero)
                        else Some (0, pt_poe port_zero));
           if ret \<noteq> 0 then Some (- 1, cfg, s)
           else if ieee8021x \<noteq> None \<and> \<not> cJSON_IsObject J ieee8021x then Some (- 1, cfg, s)
           else do {
             (ret, px) \<leftarrow> (if ieee8021x \<noteq> None
                          then cfg_ethernet_ieee8021x_parse J ieee8021x (pt_ieee8021x port_zero)
                          else Some (0, pt_ieee8021x port_zero));
             if ret \<noteq> 0 then Some (- 1, cfg, s)
             else do {
               let tmp = port_zero\<lparr>pt_poe := pp, pt_ieee8021x := px,
                           pt_duplex := snd (proto_port_duplex_to_num dup 0),
                           pt_state := proto_port_state_to_num enabled,
                           pt_speed := snd (proto_port_speed_to_num speed 0)\<rparr>;
               (ret, bm, n, s) \<leftarrow> cfg_ethernet_select_ports_parse E select_ports
                                    (bitmap_zero MAX_NUM_OF_PORTS) 0 s;
               if ret \<noteq> 0 \<or> n = 0 then Some (- 1, cfg, s)
               else do {
                 is \<leftarrow> BITMAP_FOR_EACH_BIT_SET bm MAX_NUM_OF_PORTS;
                 cfg \<leftarrow> assign_ports tmp is cfg;
                 Some (0, cfg, s)
               }
             }
           }
         })"

definition cfg_ethernet_parse ::
  "('j, 'p) env \<Rightarrow> 'j option \<Rightarrow> plat_cfg \<times> 'p proto_state \<Rightarrow> (int \<times> plat_cfg \<times> 'p proto_state) option" where
  "cfg_ethernet_parse E ethernet = loop_ret (cfg_ethernet_one E) (cJSON_Array (cj E) ethernet)"

end
