(* ===== verification/Cfg_Vlans.thy ===== *)
theory Cfg_Vlans
  imports Cfg_Ports
begin

text \<open>
  The \<open>interfaces\<close> part of the configuration parser of \<open>proto.c\<close>: VLAN identifiers, subnets,
  IGMP snooping and static multicast groups, DHCP relay, VLAN membership, and the routed port.
\<close>

section \<open>VLAN identifier and subnet\<close>

text \<open>The error message converts the value as well, so an identifier that does not fit 16 bits is
  undefined behaviour on both paths; NaN (no identifier) passes both tests.\<close>

definition cfg_interface2vid :: "'j cjson \<Rightarrow> 'j option \<Rightarrow> nat option" where
  "cfg_interface2vid J iface =
     (let v = cJSON_GetNumberValue J (item J (item J iface ''vlan'') ''id'') in
      do {
        w \<leftarrow> (dbl_to_word v :: u16 option);
        if \<not> dbl_true v \<or> dbl_ge v 4096 then Some MAX_VLANS
        else Some (unat w)
      })"

definition cfg_interface_parse_ipv4 ::
  "('j, 'p) env \<Rightarrow> 'j option \<Rightarrow> plat_ipv4 \<Rightarrow> int \<times> plat_ipv4" where
  "cfg_interface_parse_ipv4 E subnet_list ip =
     (let J = cj E; sn = cJSON_GetArrayItem J subnet_list 0 in
      case cJSON_GetStringValue J (item J sn ''prefix'') of
        None \<Rightarrow> (0, ip)
      | Some str \<Rightarrow>
          let (len, a) = inet_net_pton E str 0;
              ip = ip\<lparr>subnet := a, subnet_len := len\<rparr>
          in if len = - 1 then (- 1, ip) else (0, ip\<lparr>ipv4_exist := True\<rparr>))"

section \<open>Multicast\<close>

definition igmp_default :: plat_igmp where
  "igmp_default = \<lparr>igmp_exist = False, snooping_enabled = True, querier_enabled = False,
     fast_leave_enabled = False, query_interval = 60, last_member_query_interval = 60,
     max_response_time = 10, igmp_version = IGMP_VERSION_3, groups = []\<rparr>"

definition bool_field :: "'j cjson \<Rightarrow> 'j option \<Rightarrow> bool \<Rightarrow> bool" where
  "bool_field J f old = (if f \<noteq> None \<and> cJSON_IsBool J f then cJSON_IsTrue J f else old)"

definition u32_field :: "'j cjson \<Rightarrow> 'j option \<Rightarrow> u32 \<Rightarrow> u32 option" where
  "u32_field J f old =
     (if f \<noteq> None \<and> cJSON_IsNumber J f then dbl_to_word (cJSON_GetNumberValue J f) else Some old)"

text \<open>\<open>Inl\<close>: the version is not 1, 2 or 3.\<close>

definition igmp_version_field :: "'j cjson \<Rightarrow> 'j option \<Rightarrow> (unit + igmp_version) option" where
  "igmp_version_field J f =
     (if f \<noteq> None \<and> cJSON_IsNumber J f
      then do {
        v \<leftarrow> (dbl_to_word (cJSON_GetNumberValue J f) :: u32 option);
        Some (if v = 1 then Inr IGMP_VERSION_1 else if v = 2 then Inr IGMP_VERSION_2
              else if v = 3 then Inr IGMP_VERSION_3 else Inl ())
      }
      else Some (Inr IGMP_VERSION_3))"

text \<open>The egress ports of a group; each node is allocated before its name is checked.\<close>

fun egress_ports ::
  "('j, 'p) env \<Rightarrow> 'j list \<Rightarrow> string list \<Rightarrow> 'p proto_state \<Rightarrow> int \<times> string list \<times> 'p proto_state" where
  "egress_ports E [] acc s = (0, acc, s)"
| "egress_ports E (p # ps) acc s =
     (let (ok, s) = try_alloc E s in
      if \<not> ok then (- 1, acc, s)
      else case (cJSON_IsString (cj E) (Some p), strncpy PORT_MAX_NAME_LEN (cJSON_GetStringValue (cj E) (Some p))) of
             (True, Some name) \<Rightarrow> egress_ports E ps (name # acc) s
           | _ \<Rightarrow> (- 1, acc, s))"

fun mcast_groups ::
  "('j, 'p) env \<Rightarrow> 'j list \<Rightarrow> 'p proto_state \<Rightarrow> int \<times> igmp_group list \<times> 'p proto_state" where
  "mcast_groups E [] s = (0, [], s)"
| "mcast_groups E (g # gs) s =
     (let J = cj E; addr = item J (Some g) ''address''; ps = item J (Some g) ''egress-ports'' in
      if addr = None \<or> \<not> cJSON_IsString J addr \<or> ps = None \<or> \<not> cJSON_IsArray J ps then (- 1, [], s)
      else case Option.bind (cJSON_GetStringValue J addr) (inet_pton E) of
             None \<Rightarrow> (- 1, [], s)
           | Some a \<Rightarrow>
               let (r, names, s) = egress_ports E (cJSON_Array J ps) [] s in
               if r \<noteq> 0 then (- 1, [], s)
               else let (r, rest, s) = mcast_groups E gs s in
                    (r, \<lparr>group_addr = a, egress_ports_list = names\<rparr> # rest, s))"

definition mcast_static_groups ::
  "('j, 'p) env \<Rightarrow> 'j option \<Rightarrow> 'p proto_state \<Rightarrow> int \<times> igmp_group list \<times> 'p proto_state" where
  "mcast_static_groups E field s =
     (if field = None \<or> \<not> cJSON_IsArray (cj E) field then (0, [], s)
      else let (ok, s) = try_alloc E s in
           if \<not> ok then (- 1, [], s) else mcast_groups E (cJSON_Array (cj E) field) s)"

text \<open>Nothing is stored in the VLAN on an error path.\<close>

definition cfg_vlan_interface_parse_multicast ::
  "('j, 'p) env \<Rightarrow> 'j option \<Rightarrow> plat_igmp \<Rightarrow> 'p proto_state \<Rightarrow> (int \<times> plat_igmp \<times> 'p proto_state) option" where
  "cfg_vlan_interface_parse_multicast E multicast old s =
     (let J = cj E; igmp = item J multicast ''igmp'' in
      if igmp = None then Some (0, old, s)
      else do {
        v \<leftarrow> igmp_version_field J (item J igmp ''version'');
        (case v of
           Inl _ \<Rightarrow> Some (- 1, old, s)
         | Inr v \<Rightarrow> do {
             qi \<leftarrow> u32_field J (item J igmp ''query-interval'') 60;
             lm \<leftarrow> u32_field J (item J igmp ''last-member-query-interval'') 60;
             mr \<leftarrow> u32_field J (item J igmp ''max-response-time'') 10;
             let info = igmp_default\<lparr>igmp_version := v,
                   snooping_enabled := bool_field J (item J igmp ''snooping-enable'') True,
                   querier_enabled := bool_field J (item J igmp ''querier-enable'') False,
                   fast_leave_enabled := bool_field J (item J igmp ''fast-leave-enable'') False,
                   query_interval := qi, last_member_query_interval := lm, max_response_time := mr\<rparr>;
             let (r, gs, s) = mcast_static_groups E (item J igmp ''static-mcast-groups'') s;
             if r \<noteq> 0 then Some (- 1, old, s)
             else Some (0, info\<lparr>groups := gs, igmp_exist := snooping_enabled info \<or> querier_enabled info\<rparr>, s)
           })
      })"

section \<open>Routed port\<close>

definition cfg_port_interface_parse ::
  "('j, 'p) env \<Rightarrow> 'j \<Rightarrow> plat_cfg \<times> 'p proto_state \<Rightarrow> (int \<times> plat_cfg \<times> 'p proto_state) option" where
  "cfg_port_interface_parse E iface = (\<lambda>(cfg, s).
     let J = cj E; ethernet = item J (Some iface) ''ethernet'' in
     if item J (Some iface) ''vlan'' \<noteq> None then Some (- 1, cfg, s)
     else if cJSON_GetArraySize J ethernet \<noteq> 1 then Some (- 1, cfg, s)
     else do {
       let eth = cJSON_GetArrayItem J ethernet 0;
       (ret, bm, n, s) \<leftarrow> cfg_ethernet_select_ports_parse E
             (cJSON_GetObjectItem J eth ''select-ports'') (bitmap_zero MAX_NUM_OF_PORTS) 0 s;
       if ret \<noteq> 0 \<or> n \<noteq> 1 then Some (- 1, cfg, s)
       else if item J (Some iface) ''ipv4'' = None then Some (0, cfg, s)
       else do {
         i \<leftarrow> BITMAP_FIND_FIRST_BIT_SET bm MAX_NUM_OF_PORTS;
         let subnet_list = item J (item J (Some iface) ''ipv4'') ''subnet'';
         if subnet_list = None then Some (0, cfg, s)
         else if \<not> i < MAX_NUM_OF_PORTS then None
         else
           let (ret, ip) = cfg_interface_parse_ipv4 E subnet_list (portsl2 cfg i) in
           Some (if ret \<noteq> 0 then - 1 else 0, cfg\<lparr>portsl2 := (portsl2 cfg)(i := ip)\<rparr>, s)
       }
     })"

section \<open>VLAN\<close>

text \<open>The members of one \<open>ethernet\<close> element are pushed in ascending port order.\<close>

fun push_members ::
  "('j, 'p) env \<Rightarrow> bool \<Rightarrow> nat list \<Rightarrow> vlan_member list \<Rightarrow> 'p proto_state
     \<Rightarrow> int \<times> vlan_member list \<times> 'p proto_state" where
  "push_members E tag [] ms s = (0, ms, s)"
| "push_members E tag (i # is) ms s =
     (let (ok, s) = try_alloc E s in
      if \<not> ok then (- 1, ms, s)
      else push_members E tag is (\<lparr>member_name = PID_TO_NAME i, member_fp_id = i, tagged = tag\<rparr> # ms) s)"

definition upd_vlan :: "nat \<Rightarrow> (plat_port_vlan \<Rightarrow> plat_port_vlan) \<Rightarrow> plat_cfg \<Rightarrow> plat_cfg" where
  "upd_vlan vid f cfg = cfg\<lparr>vlans := (vlans cfg)(vid := f (vlans cfg vid))\<rparr>"

definition vlan_ethernet_one ::
  "('j, 'p) env \<Rightarrow> nat \<Rightarrow> 'j \<Rightarrow> plat_cfg \<times> 'p proto_state \<Rightarrow> (int \<times> plat_cfg \<times> 'p proto_state) option" where
  "vlan_ethernet_one E vid eth = (\<lambda>(cfg, s). do {
     let J = cj E;
     (ret, bm, n, s) \<leftarrow> cfg_ethernet_select_ports_parse E
           (cJSON_GetObjectItem J (Some eth) ''select-ports'') (bitmap_zero MAX_NUM_OF_PORTS) 0 s;
     if ret \<noteq> 0 \<or> n = 0 then Some (- 1, cfg, s)
     else do {
       (ret, tag) \<leftarrow> proto_vlan_tagged_to_num (cJSON_GetStringValue J (item J (Some eth) ''vlan-tag''));
       if ret \<noteq> 0 then Some (- 1, cfg, s)
       else do {
         is \<leftarrow> BITMAP_FOR_EACH_BIT_SET bm MAX_NUM_OF_PORTS;
         let (ret, ms, s) = push_members E tag is (members (vlans cfg vid)) s;
         Some (ret, upd_vlan vid (\<lambda>v. v\<lparr>members := ms\<rparr>) cfg, s)
       }
     }
   })"

definition circuit_id :: "string \<Rightarrow> string" where
  "circuit_id fmt = (if fmt = ''{VLAN-ID}'' then ''%p''
                     else if fmt = ''{Interface}'' then ''%i'' else ''%h:%p'')"

text \<open>The relay part: server and circuit identifier are both required.\<close>

definition vlan_dhcp_parse ::
  "('j, 'p) env \<Rightarrow> 'j option \<Rightarrow> plat_dhcp_relay \<Rightarrow> int \<times> plat_dhcp_relay" where
  "vlan_dhcp_parse E dhcp r =
     (let J = cj E in
      case (cJSON_GetStringValue J (item J dhcp ''relay-server''),
            cJSON_GetStringValue J (item J dhcp ''circuit-id-format'')) of
        (Some srv, Some fmt) \<Rightarrow>
          let (n, a) = inet_net_pton E srv (server_address r);
              r = r\<lparr>server_address := a\<rparr>
          in if n \<le> 0 then (- 1, r) else (0, r\<lparr>circ_id := circuit_id fmt, relay_enabled := True\<rparr>)
      | _ \<Rightarrow> (- 1, r))"

definition vlan_ipv4_parse ::
  "('j, 'p) env \<Rightarrow> 'j option \<Rightarrow> nat \<Rightarrow> plat_cfg \<times> 'p proto_state \<Rightarrow> (int \<times> plat_cfg \<times> 'p proto_state) option" where
  "vlan_ipv4_parse E ipv4 vid = (\<lambda>(cfg, s).
     let J = cj E;
         subnet_list = item J ipv4 ''subnet'';
         multicast = item J ipv4 ''multicast'';
         dhcp = item J ipv4 ''dhcp'';
         (ret, ip) = (if subnet_list = None then (0, vlan_ipv4 (vlans cfg vid))
                      else cfg_interface_parse_ipv4 E subnet_list (vlan_ipv4 (vlans cfg vid)));
         cfg = upd_vlan vid (\<lambda>v. v\<lparr>vlan_ipv4 := ip\<rparr>) cfg
     in if ret \<noteq> 0 then Some (- 1, cfg, s)
        else do {
          (ret, ig, s) \<leftarrow> (if multicast = None then Some (0, vlan_igmp (vlans cfg vid), s)
                          else cfg_vlan_interface_parse_multicast E multicast (vlan_igmp (vlans cfg vid)) s);
          let cfg = upd_vlan vid (\<lambda>v. v\<lparr>vlan_igmp := ig\<rparr>) cfg;
          if ret \<noteq> 0 then Some (ret, cfg, s)
          else if dhcp = None then Some (0, cfg, s)
          else
            let (ret, r) = vlan_dhcp_parse E dhcp (vlan_relay (vlans cfg vid)) in
            Some (ret, upd_vlan vid (\<lambda>v. v\<lparr>vlan_relay := r\<rparr>) cfg, s)
        })"

definition cfg_vlan_interface_parse ::
  "('j, 'p) env \<Rightarrow> 'j \<Rightarrow> plat_cfg \<times> 'p proto_state \<Rightarrow> (int \<times> plat_cfg \<times> 'p proto_state) option" where
  "cfg_vlan_interface_parse E iface = (\<lambda>(cfg, s).
     let J = cj E in
     if item J (Some iface) ''vlan'' = None then Some (- 1, cfg, s)
     else do {
       vid \<leftarrow> cfg_interface2vid J (Some iface);
       if vid = MAX_VLANS then Some (- 1, cfg, s)
       else do {
         bm \<leftarrow> BITMAP_SET_BIT (vlans_to_cfg cfg) vid;
         let cfg = cfg\<lparr>vlans_to_cfg := bm\<rparr>;
         (ret, cfg, s) \<leftarrow> loop_ret (vlan_ethernet_one E vid)
                           (cJSON_Array J (item J (Some iface) ''ethernet'')) (cfg, s);
         if ret \<noteq> 0 then Some (- 1, cfg, s)
         else do {
           let cfg = upd_vlan vid (\<lambda>v. v\<lparr>vlan_ipv4 := (vlan_ipv4 v)\<lparr>ipv4_exist := False\<rparr>,
                                         vlan_relay := (vlan_relay v)\<lparr>relay_enabled := False\<rparr>\<rparr>) cfg;
           let ipv4 = item J (Some iface) ''ipv4'';
           if ipv4 = None then Some (0, cfg, s)
           else vlan_ipv4_parse E ipv4 vid (cfg, s)
         }
       }
     })"

text \<open>An interface is a VLAN or a routed port; anything else is an error.\<close>

definition cfg_interface_one ::
  "('j, 'p) env \<Rightarrow> 'j \<Rightarrow> plat_cfg \<times> 'p proto_state \<Rightarrow> (int \<times> plat_cfg \<times> 'p proto_state) option" where
  "cfg_interface_one E iface cs =
     do {
       (ret, cs) \<leftarrow> cfg_vlan_interface_parse E iface cs;
       if ret = 0 then Some (0, cs)
       else do {
         (ret, cs) \<leftarrow> cfg_port_interface_parse E iface cs;
         if ret = 0 then Some (0, cs) else Some (- 1, cs)
       }
     }"

definition cfg_interfaces_parse ::
  "('j, 'p) env \<Rightarrow> 'j option \<Rightarrow> plat_cfg \<times> 'p proto_state \<Rightarrow> (int \<times> plat_cfg \<times> 'p proto_state) option" where
  "cfg_interfaces_parse E interfaces = loop_ret (cfg_interface_one E) (cJSON_Array (cj E) interfaces)"

end
