(* ===== verification/Cfg_Switch.thy ===== *)
theory Cfg_Switch
  imports Cfg_Vlans
begin

text \<open>
  The switch-wide parts of the configuration parser of \<open>proto.c\<close>: services, RADIUS hosts,
  spanning tree instances, port isolation sessions, static routes, metrics and unit settings.
\<close>

section \<open>Services\<close>

text \<open>A number of the syslog settings, converted to a 32-bit \<open>int\<close>; \<open>Inl\<close> for a wrong type.\<close>

definition log_number :: "'j cjson \<Rightarrow> 'j option \<Rightarrow> int \<Rightarrow> (unit + int) option" where
  "log_number J ob dflt =
     (if ob = None then Some (Inr dflt)
      else if \<not> cJSON_IsNumber J ob then Some (Inl ())
      else do { v \<leftarrow> dbl_to_int 32 (cJSON_GetNumberValue J ob); Some (Inr v) })"

definition cfg_service_log_parse ::
  "'j cjson \<Rightarrow> 'j option \<Rightarrow> plat_syslog_cfg \<Rightarrow> (int \<times> plat_syslog_cfg) option" where
  "cfg_service_log_parse J sv l =
     (let port = item J sv ''port''; priority = item J sv ''priority''; size = item J sv ''size'';
          host = item J sv ''host''; proto = item J sv ''proto''
      in
      if \<not> cJSON_IsNumber J port then Some (- 1, l)
      else do {
        n \<leftarrow> dbl_to_int 32 (cJSON_GetNumberValue J port);
        let l = l\<lparr>log_port := n, log_priority := 7\<rparr>;
        pr \<leftarrow> log_number J priority 7;
        (case pr of Inl _ \<Rightarrow> Some (- 1, l)
         | Inr pr \<Rightarrow> do {
             let l = l\<lparr>log_priority := pr, log_size := 1000\<rparr>;
             sz \<leftarrow> log_number J size 1000;
             (case sz of Inl _ \<Rightarrow> Some (- 1, l)
              | Inr sz \<Rightarrow>
                  let l = l\<lparr>log_size := sz\<rparr> in
                  if proto \<noteq> None \<and> (cJSON_GetStringValue J proto \<noteq> Some ''udp'' \<and>
                       cJSON_GetStringValue J proto \<noteq> Some ''tcp'' \<or> \<not> cJSON_IsString J proto)
                  then Some (- 1, l)
                  else
                    let l = (if proto = None then l
                             else l\<lparr>log_is_tcp := if cJSON_GetStringValue J proto = Some ''tcp'' then 1 else 0\<rparr>)
                    in if host = None then Some (0, l)
                       else if \<not> cJSON_IsString J host then Some (- 1, l)
                       else do {
                         h \<leftarrow> cJSON_GetStringValue J host;
                         Some (0, l\<lparr>log_host := snprintf_s 64 h\<rparr>)
                       })
           })
      })"

text \<open>A service switch: the value, or \<open>None\<close> for a wrong type.\<close>

definition service_enable :: "'j cjson \<Rightarrow> 'j option \<Rightarrow> bool option" where
  "service_enable J sv =
     (if sv = None then Some False
      else if \<not> cJSON_IsObject J sv then None
      else
        let enable = item J sv ''enable'' in
        if enable \<noteq> None \<and> \<not> cJSON_IsBool J enable then None else Some (cJSON_IsTrue J enable))"

definition services_switches :: "'j cjson \<Rightarrow> 'j option \<Rightarrow> plat_cfg \<Rightarrow> int \<times> plat_cfg" where
  "services_switches J services cfg =
     (let cfg = cfg\<lparr>services_cfg := \<lparr>ssh_enabled = False, telnet_enabled = False, http_enabled = False\<rparr>\<rparr> in
      case service_enable J (item J services ''ssh'') of
        None \<Rightarrow> (- 1, cfg)
      | Some ssh \<Rightarrow>
          let cfg = cfg\<lparr>services_cfg := (services_cfg cfg)\<lparr>ssh_enabled := ssh\<rparr>\<rparr> in
          (case service_enable J (item J services ''telnet'') of
             None \<Rightarrow> (- 1, cfg)
           | Some telnet \<Rightarrow>
               let cfg = cfg\<lparr>services_cfg := (services_cfg cfg)\<lparr>telnet_enabled := telnet\<rparr>\<rparr> in
               (case service_enable J (item J services ''http'') of
                  None \<Rightarrow> (- 1, cfg)
                | Some http \<Rightarrow>
                    (0, cfg\<lparr>services_cfg := (services_cfg cfg)\<lparr>http_enabled := http\<rparr>\<rparr>))))"

definition cfg_services_parse ::
  "('j, 'p) env \<Rightarrow> 'j option \<Rightarrow> plat_cfg \<Rightarrow> 'p proto_state \<Rightarrow> (int \<times> plat_cfg \<times> 'p proto_state) option" where
  "cfg_services_parse E services cfg s =
     (let J = cj E; log = item J services ''log'' in
      if log = None then
        let (ret, cfg) = services_switches J services cfg in Some (ret, cfg, s)
      else if \<not> cJSON_IsObject J log then Some (- 1, cfg, s)
      else
        let (ok, s) = try_alloc E s in
        if \<not> ok then Some (- 1, cfg\<lparr>log_cfg := None\<rparr>, s)
        else do {
          (ret, l) \<leftarrow> cfg_service_log_parse J log syslog_zero;
          let cfg = cfg\<lparr>log_cfg := Some l\<rparr>;
          if ret \<noteq> 0 then Some (- 1, cfg, s)
          else
            let (ret, cfg) = services_switches J services (cfg\<lparr>log_cfg_cnt := 1\<rparr>) in Some (ret, cfg, s)
        })"

section \<open>RADIUS hosts\<close>

text \<open>The priority of a host is read from its port when a priority is given, as in the source.\<close>

definition radius_host_one ::
  "('j, 'p) env \<Rightarrow> 'j \<Rightarrow> plat_cfg \<times> 'p proto_state \<Rightarrow> (int \<times> plat_cfg \<times> 'p proto_state) option" where
  "radius_host_one E it = (\<lambda>(cfg, s).
     let J = cj E;
         host = item J (Some it) ''server-host'';
         port = item J (Some it) ''server-authentication-port'';
         key = item J (Some it) ''server-key'';
         prio = item J (Some it) ''server-priority''
     in
     if \<not> cJSON_IsObject J (Some it) then Some (- 1, cfg, s)
     else case cJSON_GetStringValue J host of
       None \<Rightarrow> Some (- 1, cfg, s)
     | Some h \<Rightarrow> do {
         p \<leftarrow> (if port = None \<or> \<not> dbl_true (cJSON_GetNumberValue J port)
              then Some RADIUS_CFG_DEFAULT_PORT else dbl_to_word (cJSON_GetNumberValue J port));
         pr \<leftarrow> (if prio = None \<or> \<not> dbl_true (cJSON_GetNumberValue J prio)
               then Some RADIUS_CFG_DEFAULT_PRIO else dbl_to_word (cJSON_GetNumberValue J port));
         let node = \<lparr>hostname = take 63 h,
                     passkey = (case cJSON_GetStringValue J key of None \<Rightarrow> [] | Some k \<Rightarrow> take 63 k),
                     auth_port = p, radius_priority = pr\<rparr>;
         let (ok, s) = try_alloc E s;
         if \<not> ok then Some (- 1, cfg, s)
         else Some (0, cfg\<lparr>radius_hosts_list := node # radius_hosts_list cfg\<rparr>, s)
       })"

definition cfg_switch_ieee8021x_parse ::
  "('j, 'p) env \<Rightarrow> 'j option \<Rightarrow> plat_cfg \<times> 'p proto_state \<Rightarrow> (int \<times> plat_cfg \<times> 'p proto_state) option" where
  "cfg_switch_ieee8021x_parse E sw = (\<lambda>(cfg, s).
     let J = cj E; ieee8021x = item J sw ''ieee8021x'' in
     if ieee8021x = None then Some (0, cfg, s)
     else if \<not> cJSON_IsObject J ieee8021x then Some (- 1, cfg, s)
     else
       let cfg = cfg\<lparr>is_auth_ctrl_enabled := cJSON_IsTrue J (item J ieee8021x ''auth-control-enable'')\<rparr>;
           radius = item J ieee8021x ''radius''
       in if radius \<noteq> None \<and> \<not> cJSON_IsArray J radius then Some (- 1, cfg, s)
          else loop_ret (radius_host_one E) (cJSON_Array J radius) (cfg, s))"

section \<open>Port isolation\<close>

text \<open>The names of an \<open>interface-list\<close>, each copied into a list node.\<close>

fun iface_names ::
  "('j, 'p) env \<Rightarrow> 'j list \<Rightarrow> string list \<Rightarrow> 'p proto_state \<Rightarrow> (int \<times> string list \<times> 'p proto_state) option" where
  "iface_names E [] acc s = Some (0, acc, s)"
| "iface_names E (p # ps) acc s =
     (case cJSON_GetStringValue (cj E) (Some p) of
        None \<Rightarrow> Some (- 1, acc, s)
      | Some n \<Rightarrow>
          let (ok, s) = try_alloc E s in
          if \<not> ok then Some (- 1, acc, s)
          else do { name \<leftarrow> strcpy PORT_MAX_NAME_LEN (Some n); iface_names E ps (name # acc) s })"

definition cfg_ethernet_port_isolation_interface_parse ::
  "('j, 'p) env \<Rightarrow> 'j option \<Rightarrow> 'p proto_state \<Rightarrow> (int \<times> string list \<times> 'p proto_state) option" where
  "cfg_ethernet_port_isolation_interface_parse E iface s =
     (let J = cj E; iface_list = item J iface ''interface-list'' in
      if iface_list = None \<or> \<not> cJSON_IsArray J iface_list \<or> cJSON_GetArraySize J iface_list = 0
      then Some (- 1, [], s)
      else iface_names E (cJSON_Array J iface_list) [] s)"

text \<open>The sessions parsed so far are in \<open>acc\<close>, in order; a repeated identifier is an error.\<close>

fun isolation_sessions ::
  "('j, 'p) env \<Rightarrow> 'j list \<Rightarrow> port_isolation_session list \<Rightarrow> 'p proto_state
     \<Rightarrow> (int \<times> port_isolation_session list \<times> 'p proto_state) option" where
  "isolation_sessions E [] acc s = Some (0, acc, s)"
| "isolation_sessions E (x # xs) acc s =
     (let J = cj E; sid = item J (Some x) ''id'' in
      if sid = None \<or> \<not> cJSON_IsNumber J sid then Some (- 1, acc, s)
      else do {
        i \<leftarrow> dbl_to_word (cJSON_GetNumberValue J sid);
        let up = item J (Some x) ''uplink'';
        let down = item J (Some x) ''downlink'';
        if i \<in> session_id ` set acc then Some (- 1, acc, s)
        else if up = None \<or> \<not> cJSON_IsObject J up then Some (- 1, acc, s)
        else if down = None \<or> \<not> cJSON_IsObject J down then Some (- 1, acc, s)
        else do {
          (ret, us, s) \<leftarrow> cfg_ethernet_port_isolation_interface_parse E up s;
          if ret \<noteq> 0 then Some (- 1, acc, s)
          else do {
            (ret, ds, s) \<leftarrow> cfg_ethernet_port_isolation_interface_parse E down s;
            if ret \<noteq> 0 then Some (- 1, acc, s)
            else isolation_sessions E xs (acc @ [\<lparr>session_id = i, uplink = us, downlink = ds\<rparr>]) s
          }
        }
      })"

text \<open>On an error path the sessions are freed and the configuration is dropped by the caller.\<close>

definition cfg_switch_port_isolation_parse ::
  "('j, 'p) env \<Rightarrow> 'j option \<Rightarrow> plat_cfg \<times> 'p proto_state \<Rightarrow> (int \<times> plat_cfg \<times> 'p proto_state) option" where
  "cfg_switch_port_isolation_parse E isolation = (\<lambda>(cfg, s).
     let J = cj E; ss = item J isolation ''sessions'' in
     if \<not> cJSON_IsObject J isolation then Some (- 1, cfg, s)
     else if ss = None \<or> \<not> cJSON_IsArray J ss then Some (- 1, cfg, s)
     else
       let cfg = cfg\<lparr>sessions_num := sessions_num cfg + length (cJSON_Array J ss)\<rparr> in
       if sessions_num cfg = 0 then Some (0, cfg, s)
       else
         let (ok, s) = try_alloc E s in
         if \<not> ok then Some (- 1, cfg\<lparr>sessions := []\<rparr>, s)
         else do {
           (ret, ss, s) \<leftarrow> isolation_sessions E (cJSON_Array J ss) [] s;
           Some (ret, cfg\<lparr>sessions := ss\<rparr>, s)
         })"

section \<open>Spanning tree\<close>

definition stp_default :: plat_stp_instance_cfg where
  "stp_default = \<lparr>stp_enabled = False, forward_delay = 15, hello_time = 2, max_age = 20,
                  stp_priority = 32768\<rparr>"

text \<open>A number of an instance: converted to \<open>int\<close>, then stored in 16 bits.\<close>

definition stp_number :: "'j cjson \<Rightarrow> 'j option \<Rightarrow> u16 \<Rightarrow> u16 option" where
  "stp_number J ob old =
     (if ob = None then Some old
      else do { v \<leftarrow> dbl_to_int 32 (cJSON_GetNumberValue J ob); Some (word_of_int v) })"

definition stp_instance_one ::
  "'j cjson \<Rightarrow> 'j \<Rightarrow> plat_cfg \<times> bitmap \<Rightarrow> (int \<times> plat_cfg \<times> bitmap) option" where
  "stp_instance_one J it = (\<lambda>(cfg, parsed).
     let ob = item J (Some it) ''id'' in do {
       iid \<leftarrow> (if ob = None then Some 0 else dbl_to_int 32 (cJSON_GetNumberValue J ob));
       if iid < 0 \<or> int MAX_VLANS \<le> iid then Some (- 1, cfg, parsed)
       else do {
         let i = nat iid;
         let old = stp_instances cfg i;
         prio \<leftarrow> stp_number J (item J (Some it) ''priority'') (stp_priority old);
         fwd \<leftarrow> stp_number J (item J (Some it) ''forward_delay'') (forward_delay old);
         hello \<leftarrow> stp_number J (item J (Some it) ''hello_time'') (hello_time old);
         age \<leftarrow> stp_number J (item J (Some it) ''max_age'') (max_age old);
         let en = item J (Some it) ''enabled'';
         dup \<leftarrow> BITMAP_TEST_BIT parsed i;
         if dup then Some (- 1, cfg, parsed)
         else do {
           parsed \<leftarrow> BITMAP_SET_BIT parsed i;
           let inst = \<lparr>stp_enabled = (if en = None then stp_enabled old else cJSON_IsTrue J en),
                       forward_delay = fwd, hello_time = hello, max_age = age, stp_priority = prio\<rparr>;
           Some (0, cfg\<lparr>stp_instances := (stp_instances cfg)(i := inst)\<rparr>, parsed)
         }
       }
     })"

definition cfg_switch_parse ::
  "('j, 'p) env \<Rightarrow> 'j option \<Rightarrow> plat_cfg \<times> 'p proto_state \<Rightarrow> (int \<times> plat_cfg \<times> 'p proto_state) option" where
  "cfg_switch_parse E rt cs =
     (let J = cj E; sw = item J rt ''switch''; loop = item J sw ''loop-detection'';
          protocol = item J loop ''protocol'';
          port_isolation = item J sw ''port-isolation''
      in do {
        (ret, cfg, s) \<leftarrow> cfg_switch_ieee8021x_parse E sw cs;
        if ret \<noteq> 0 then Some (- 1, cfg, s)
        else do {
          let (ret, mode) = (if protocol = None then (0, STP_NONE)
                             else proto_stp_mode_to_num (cJSON_GetStringValue J protocol) (stp_mode cfg));
          let cfg = cfg\<lparr>stp_mode := mode\<rparr>;
          if ret \<noteq> 0 then Some (- 1, cfg, s)
          else do {
            let cfg = cfg\<lparr>stp_instances := (\<lambda>i. if i < MAX_VLANS then stp_default else stp_instances cfg i)\<rparr>;
            (ret, cfg, _) \<leftarrow> loop_ret (stp_instance_one J) (cJSON_Array J (item J loop ''instances''))
                              (cfg, bitmap_zero MAX_VLANS);
            if ret \<noteq> 0 then Some (- 1, cfg, s)
            else if port_isolation = None then Some (0, cfg, s)
            else do {
              (ret, cfg, s) \<leftarrow> cfg_switch_port_isolation_parse E port_isolation (cfg, s);
              Some (if ret \<noteq> 0 then - 1 else 0, cfg, s)
            }
          }
        }
      })"

end
