(* ===== verification/Cfg_Parse.thy ===== *)
theory Cfg_Parse
  imports Cfg_Switch
begin

text \<open>
  Static routes, metrics, unit settings, and \<open>cfg_parse\<close> itself, which puts the parts of the
  configuration parser together. The routes are read in two passes over the document: the
  first counts them, the second fills a table of that size.
\<close>

section \<open>Routes\<close>

text \<open>The address is written over what the variable held before; only the bytes of the prefix are
  written. \<open>Inl\<close> is the return code -1.\<close>

definition route_prefix_obj2node_key ::
  "('j, 'p) env \<Rightarrow> 'j \<Rightarrow> u32 \<Rightarrow> u32 + fib_key" where
  "route_prefix_obj2node_key E ob old =
     (case cJSON_GetStringValue (cj E) (item (cj E) (Some ob) ''prefix'') of
        None \<Rightarrow> Inl old
      | Some str \<Rightarrow>
          let (len, a) = inet_net_pton E str old in
          if len = - 1 then Inl a else Inr (FibKey a len))"

text \<open>One array of routes of the second pass: \<open>info\<close> makes the destination of an element, or fails.
  The state is the table and the address left in the node variable.\<close>

fun add_routes ::
  "('j, 'p) env \<Rightarrow> ('j \<Rightarrow> fib_info option) \<Rightarrow> 'j list \<Rightarrow> ucentral_router \<times> u32
     \<Rightarrow> (int \<times> ucentral_router \<times> u32) option" where
  "add_routes E info [] (r, a) = Some (0, r, a)"
| "add_routes E info (x # xs) (r, a) =
     (case route_prefix_obj2node_key E x a of
        Inl a \<Rightarrow> Some (- 1, r, a)
      | Inr k \<Rightarrow>
          (case info x of
             None \<Rightarrow> Some (- 1, r, prefix k)
           | Some i \<Rightarrow> do {
               (_, r) \<leftarrow> ucentral_router_fib_db_append r \<lparr>node_key = k, node_info = i\<rparr>;
               add_routes E info xs (r, prefix k)
             }))"

definition nexthop_info :: "('j, 'p) env \<Rightarrow> nat \<Rightarrow> 'j \<Rightarrow> fib_info option" where
  "nexthop_info E vid x =
     do {
       str \<leftarrow> cJSON_GetStringValue (cj E) (item (cj E) (Some x) ''nexthop'');
       gw \<leftarrow> inet_pton E str;
       Some (ROUTE_NH (of_nat vid) gw)
     }"

text \<open>The arrays of routes of a document, in the order both passes visit them; an interface without
  a valid VLAN is skipped.\<close>

definition iface_routes :: "('j, 'p) env \<Rightarrow> 'j \<Rightarrow> (('j \<Rightarrow> fib_info option) \<times> 'j list) list option" where
  "iface_routes E iface =
     do {
       let J = cj E;
       vid \<leftarrow> cfg_interface2vid J (Some iface);
       if vid = MAX_VLANS then Some []
       else do {
         let ipv4 = cJSON_GetObjectItem J (Some iface) ''ipv4'';
         Some [(nexthop_info E vid, cJSON_Array J (cJSON_GetObjectItem J ipv4 ''gateway'')),
               (\<lambda>_. Some (ROUTE_BROADCAST (of_nat vid)),
                cJSON_Array J (cJSON_GetObjectItem J ipv4 ''broadcast''))]
       }
     }"

fun ifaces_routes :: "('j, 'p) env \<Rightarrow> 'j list \<Rightarrow> (('j \<Rightarrow> fib_info option) \<times> 'j list) list option" where
  "ifaces_routes E [] = Some []"
| "ifaces_routes E (x # xs) = do { r \<leftarrow> iface_routes E x; rs \<leftarrow> ifaces_routes E xs; Some (r @ rs) }"

definition route_arrays :: "('j, 'p) env \<Rightarrow> 'j option \<Rightarrow> (('j \<Rightarrow> fib_info option) \<times> 'j list) list option" where
  "route_arrays E rt =
     do {
       let J = cj E;
       let globals = cJSON_GetObjectItem J rt ''globals'';
       rs \<leftarrow> ifaces_routes E (cJSON_Array J (cJSON_GetObjectItem J rt ''interfaces''));
       Some ([(\<lambda>_. Some ROUTE_BLACKHOLE, cJSON_Array J (cJSON_GetObjectItem J globals ''ipv4-blackhole'')),
              (\<lambda>_. Some ROUTE_UNREACHABLE, cJSON_Array J (cJSON_GetObjectItem J globals ''ipv4-unreachable''))]
             @ rs)
     }"

text \<open>The first pass, with a null table, only counts.\<close>

definition cfg_process_prefixes_count :: "('j, 'p) env \<Rightarrow> 'j option \<Rightarrow> nat option" where
  "cfg_process_prefixes_count E rt =
     map_option (\<lambda>as. sum_list (map (\<lambda>(_, xs). length xs) as)) (route_arrays E rt)"

fun process_arrays ::
  "('j, 'p) env \<Rightarrow> (('j \<Rightarrow> fib_info option) \<times> 'j list) list \<Rightarrow> ucentral_router \<times> u32
     \<Rightarrow> (int \<times> ucentral_router \<times> u32) option" where
  "process_arrays E [] ra = Some (0, ra)"
| "process_arrays E ((info, xs) # as) ra =
     do {
       (ret, ra) \<leftarrow> add_routes E info xs ra;
       if ret \<noteq> 0 then Some (- 1, ra) else process_arrays E as ra
     }"

text \<open>The second pass: 0 stands for the number of elements, which is not -1.\<close>

definition cfg_process_prefixes ::
  "('j, 'p) env \<Rightarrow> 'j option \<Rightarrow> ucentral_router \<Rightarrow> (int \<times> ucentral_router) option" where
  "cfg_process_prefixes E rt r =
     do {
       as \<leftarrow> route_arrays E rt;
       (ret, r, _) \<leftarrow> process_arrays E as (r, junk E);
       Some (ret, r)
     }"

definition cfg_router_parse ::
  "('j, 'p) env \<Rightarrow> 'j option \<Rightarrow> plat_cfg \<times> 'p proto_state \<Rightarrow> (int \<times> plat_cfg \<times> 'p proto_state) option" where
  "cfg_router_parse E rt = (\<lambda>(cfg, s). do {
     num \<leftarrow> cfg_process_prefixes_count E rt;
     let (ok, s) = try_alloc E s;
     let (ret, r) = ucentral_router_fib_db_alloc ok (router cfg) num;
     let cfg = cfg\<lparr>router := r\<rparr>;
     if ret \<noteq> 0 then Some (ret, cfg, s)
     else do {
       (ret, r) \<leftarrow> cfg_process_prefixes E rt r;
       Some (if ret = - 1 then - 1 else 0, cfg\<lparr>router := r\<rparr>, s)
     }
   })"

section \<open>Metrics\<close>

fun metric_types :: "'j cjson \<Rightarrow> 'j list \<Rightarrow> metrics_state \<Rightarrow> metrics_state" where
  "metric_types J [] m = m"
| "metric_types J (x # xs) m =
     metric_types J xs
       (case cJSON_GetStringValue J (Some x) of
          None \<Rightarrow> m
        | Some t \<Rightarrow>
            let m = (if t = ''clients'' then m\<lparr>clients_enabled := True\<rparr> else m)
            in if t = ''lldp'' then m\<lparr>lldp_enabled := True\<rparr> else m)"

text \<open>The state report is switched off when clients but no LLDP data are asked for; a log message
  goes out then.\<close>

definition cfg_metrics_statistics ::
  "('j, 'p) env \<Rightarrow> 'j option \<Rightarrow> 'p proto_state \<Rightarrow> (metrics_state \<times> 'p proto_state) option" where
  "cfg_metrics_statistics E statistics s =
     (let J = cj E;
          interval = item J statistics ''interval'';
          types = item J statistics ''types'';
          max_mac = item J statistics ''wired-clients-max-num''
      in
      if statistics = None \<or> interval = None \<or> types = None then Some (metrics_state_zero, s)
      else do {
        let m = metric_types J (cJSON_Array J types) metrics_state_zero;
        let v = cJSON_GetNumberValue J interval;
        iv \<leftarrow> dbl_to_word v;
        mac \<leftarrow> (if cJSON_IsNumber J max_mac then dbl_to_word (cJSON_GetNumberValue J max_mac)
               else Some METRICS_WIRED_CLIENTS_MAX_NUM);
        let m = m\<lparr>state_interval := iv, state_enabled := dbl_true v, max_mac_count := mac\<rparr>;
        if state_enabled m \<and> \<not> lldp_enabled m \<and> clients_enabled m
        then Some (metrics_state_zero,
               log_send E ''<configure>:<metrics> holds invalid data, <state> event disabled'' LOG_ERR s)
        else Some (m, s)
      })"

definition cfg_metrics_parse ::
  "('j, 'p) env \<Rightarrow> 'j option \<Rightarrow> plat_cfg \<times> 'p proto_state \<Rightarrow> (int \<times> plat_cfg \<times> 'p proto_state) option" where
  "cfg_metrics_parse E mt = (\<lambda>(cfg, s). do {
     let J = cj E;
     (m, s) \<leftarrow> cfg_metrics_statistics E (item J mt ''statistics'') s;
     let mc = metrics_zero\<lparr>m_state := m\<rparr>;
     let health = item J mt ''health'';
     let interval = item J health ''interval'';
     if health = None \<or> interval = None then Some (0, cfg\<lparr>metrics_cfg := mc\<rparr>, s)
     else do {
       iv \<leftarrow> dbl_to_word (cJSON_GetNumberValue J interval);
       Some (0, cfg\<lparr>metrics_cfg := mc\<lparr>healthcheck_interval := iv,
                      healthcheck_enabled := dbl_true (cJSON_GetNumberValue J interval)\<rparr>\<rparr>, s)
     }
   })"

section \<open>Unit\<close>

definition unit_poe_parse :: "'j cjson \<Rightarrow> 'j option \<Rightarrow> plat_unit \<Rightarrow> plat_unit option" where
  "unit_poe_parse J poe u =
     (let mgmt = item J poe ''power-management''; threshold = item J poe ''usage-threshold'' in
      do {
        u \<leftarrow> (case cJSON_GetStringValue J mgmt of
               None \<Rightarrow> Some u
             | Some m \<Rightarrow> do { m \<leftarrow> strcpy 32 (Some m); Some (u\<lparr>power_mgmt := m, is_power_mgmt_set := True\<rparr>) });
        if cJSON_IsNumber J threshold
        then do { t \<leftarrow> dbl_to_word (cJSON_GetNumberValue J threshold);
                  Some (u\<lparr>usage_threshold := t, is_usage_threshold_set := True\<rparr>) }
        else Some u
      })"

text \<open>The password is copied with \<open>strncpy\<close> over the whole array: 64 bytes and more leave no
  terminator.\<close>

definition cfg_unit_parse :: "'j cjson \<Rightarrow> 'j option \<Rightarrow> plat_cfg \<Rightarrow> (int \<times> plat_cfg) option" where
  "cfg_unit_parse J un cfg =
     (let poe = item J un ''poe'';
          pw = item J un ''system-password'';
          flood_control = item J un ''unknown-multicast-flood-control'';
          querier = item J un ''querier-enable''
      in do {
        u \<leftarrow> (if poe = None then Some (unit_cfg cfg) else unit_poe_parse J poe (unit_cfg cfg));
        u \<leftarrow> (if pw = None then Some u
             else do { p \<leftarrow> strncpy 64 (cJSON_GetStringValue J pw);
                       Some (u\<lparr>system_password := p, password_changed := True\<rparr>) });
        let u = (if flood_control = None then u else u\<lparr>mc_flood_control := cJSON_IsTrue J flood_control\<rparr>);
        let u = (if querier = None then u else u\<lparr>querier_enable := cJSON_IsTrue J querier\<rparr>);
        Some (0, cfg\<lparr>unit_cfg := u\<rparr>)
      })"

section \<open>The whole configuration\<close>

text \<open>Every port of the platform gets its name and identifier, so that ports the configuration does
  not mention are reset.\<close>

fun init_ports :: "string list \<Rightarrow> plat_cfg \<Rightarrow> plat_cfg option" where
  "init_ports [] cfg = Some cfg"
| "init_ports (n # ns) cfg =
     do {
       pid \<leftarrow> scanned (NAME_TO_PID n);
       name \<leftarrow> strcpy PORT_MAX_NAME_LEN (Some n);
       bm \<leftarrow> BITMAP_SET_BIT (ports_to_cfg cfg) pid;
       if pid < MAX_NUM_OF_PORTS
       then init_ports ns
              (cfg\<lparr>ports := (ports cfg)(pid := (ports cfg pid)\<lparr>pt_name := name, pt_fp_id := pid\<rparr>),
                   ports_to_cfg := bm\<rparr>)
       else None
     }"

definition init_vlans :: "plat_cfg \<Rightarrow> plat_cfg" where
  "init_vlans cfg =
     cfg\<lparr>vlans := (\<lambda>i. if FIRST_VLAN \<le> i \<and> i < MAX_VLANS then (vlans cfg i)\<lparr>vlan_id := i\<rparr> else vlans cfg i)\<rparr>"

text \<open>A step of the sequence of section parsers: a code other than 0 gives up the configuration.\<close>

definition parse_step ::
  "(plat_cfg \<times> 'p proto_state \<Rightarrow> (int \<times> plat_cfg \<times> 'p proto_state) option)
     \<Rightarrow> (plat_cfg option \<times> 'p proto_state) option \<Rightarrow> (plat_cfg option \<times> 'p proto_state) option" where
  "parse_step f r =
     do {
       (c, s) \<leftarrow> r;
       (case c of
          None \<Rightarrow> Some (None, s)
        | Some cfg \<Rightarrow> do {
            (ret, cfg, s) \<leftarrow> f (cfg, s);
            Some (if ret \<noteq> 0 then None else Some cfg, s)
          })
     }"

definition public_ip_parse :: "'j cjson \<Rightarrow> 'j option \<Rightarrow> plat_cfg \<Rightarrow> plat_cfg option" where
  "public_ip_parse J config cfg =
     do {
       l \<leftarrow> strcpy 2048 (Some (case cJSON_GetStringValue J (item J config ''public_ip_lookup'') of
                               None \<Rightarrow> [] | Some x \<Rightarrow> x));
       Some (cfg\<lparr>metrics_cfg := (metrics_cfg cfg)\<lparr>m_state := (m_state (metrics_cfg cfg))\<lparr>public_ip_lookup := l\<rparr>\<rparr>\<rparr>)
     }"

text \<open>The sections in the order of the source.\<close>

definition cfg_sections ::
  "('j, 'p) env \<Rightarrow> 'j option \<Rightarrow> plat_cfg \<Rightarrow> 'p proto_state \<Rightarrow> (plat_cfg option \<times> 'p proto_state) option" where
  "cfg_sections E config cfg s =
     (let J = cj E;
          ethernet = item J config ''ethernet'';
          interfaces = item J config ''interfaces'';
          services = item J config ''services'';
          mt = item J config ''metrics'';
          un = item J config ''unit''
      in
      parse_step (\<lambda>(cfg, s). do { cfg \<leftarrow> public_ip_parse J config cfg; Some (0, cfg, s) })
      (parse_step (cfg_router_parse E config)
      (parse_step (\<lambda>(cfg, s). if un = None then Some (0, cfg, s)
                   else do { (ret, cfg) \<leftarrow> cfg_unit_parse J un cfg; Some (ret, cfg, s) })
      (parse_step (\<lambda>(cfg, s). if services = None then Some (0, cfg, s) else cfg_services_parse E services cfg s)
      (parse_step (\<lambda>(cfg, s). if mt = None then Some (0, cfg\<lparr>metrics_cfg := metrics_zero\<rparr>, s)
                   else cfg_metrics_parse E mt (cfg, s))
      (parse_step (cfg_switch_parse E config)
      (parse_step (cfg_interfaces_parse E interfaces)
      (parse_step (cfg_ethernet_parse E ethernet)
      (Some (Some cfg, s))))))))))"

definition cfg_parse ::
  "('j, 'p) env \<Rightarrow> 'j option \<Rightarrow> 'p proto_state \<Rightarrow> (plat_cfg option \<times> 'p proto_state) option" where
  "cfg_parse E config s =
     (let J = cj E;
          ethernet = item J config ''ethernet'';
          interfaces = item J config ''interfaces'';
          services = item J config ''services'';
          mt = item J config ''metrics'';
          un = item J config ''unit''
      in
      if ethernet = None \<or> \<not> cJSON_IsArray J ethernet \<or>
         interfaces = None \<or> \<not> cJSON_IsArray J interfaces \<or>
         (services \<noteq> None \<and> \<not> cJSON_IsObject J services) \<or>
         (mt \<noteq> None \<and> \<not> cJSON_IsObject J mt) \<or>
         (un \<noteq> None \<and> \<not> cJSON_IsObject J un)
      then Some (None, s)
      else
        let (ok, s) = try_alloc E s in
        if \<not> ok then Some (None, s)
        else
          let (ret, s) = get_port_list E s in
          if ret \<noteq> 0 then Some (None, s)
          else do {
            cfg \<leftarrow> init_ports (port_list s) cfg_zero;
            cfg_sections E config (init_vlans cfg) s
          })"

end
