(* ===== verification/Cfg_Wf.thy ===== *)
theory Cfg_Wf
  imports Cfg_Parse
begin

text \<open>
  What an accepted configuration is like. The sections of the parser are followed one by one:
  each keeps the invariant \<open>cfg_inv\<close>, which ties every port the configuration mentions to the
  ports of the platform and every VLAN with members to the VLANs to configure, and none of
  them touches the protocol state beyond the platform, the port list and the outbox.
\<close>

section \<open>The port list during a parse\<close>

text \<open>Once fetched, the list stays.\<close>

definition list_kept :: "'p proto_state \<Rightarrow> 'p proto_state \<Rightarrow> bool" where
  "list_kept s s' \<longleftrightarrow> port_list s = [] \<or> port_list s' = port_list s"

text \<open>No reply goes out while a configuration is parsed.\<close>

definition no_reply :: "'p proto_state \<Rightarrow> 'p proto_state \<Rightarrow> bool" where
  "no_reply s s' \<longleftrightarrow> (\<exists>ds. sent s' = sent s @ ds \<and> filter is_reply ds = [])"

definition parsing :: "'p proto_state \<Rightarrow> 'p proto_state \<Rightarrow> bool" where
  "parsing s s' \<longleftrightarrow> parser_frame s s' \<and> list_kept s s' \<and> no_reply s s'"

lemma no_reply_refl [simp]: "no_reply s s"
  by (simp add: no_reply_def)

lemma no_reply_trans: "no_reply s s' \<Longrightarrow> no_reply s' s'' \<Longrightarrow> no_reply s s''"
  unfolding no_reply_def by fastforce

lemma no_reply_same: "sent s' = sent s \<Longrightarrow> no_reply s s'"
  by (simp add: no_reply_def)

lemma parsing_refl [simp, intro]: "parsing s s"
  by (simp add: parsing_def list_kept_def)

lemma parsing_trans [trans]: "parsing s s' \<Longrightarrow> parsing s' s'' \<Longrightarrow> parsing s s''"
  unfolding parsing_def list_kept_def using no_reply_trans parser_frame_trans by auto

lemma parsing_pids: "parsing s s' \<Longrightarrow> pids (port_list s) \<subseteq> pids (port_list s')"
  by (auto simp: parsing_def list_kept_def)

lemma parsing_try_alloc: "try_alloc E s = (ok, s') \<Longrightarrow> parsing s s'"
  by (auto simp: parsing_def list_kept_def dest: try_alloc_frame intro: no_reply_same)

lemma parsing_get_port_list: "get_port_list E s = (ret, s') \<Longrightarrow> parsing s s'"
  using get_port_list_frame[of E s ret s'] no_reply_same[of s' s]
  by (cases "port_list s = []") (auto simp: parsing_def list_kept_def get_port_list_def)

lemma parsing_only_sends: "only_sends ds s s' \<Longrightarrow> filter is_reply ds = [] \<Longrightarrow> parsing s s'"
  by (simp add: parsing_def list_kept_def no_reply_def only_sends_frame only_sends_fields)

lemma parsing_log_send: "parsing s (log_send E m sev s)"
  unfolding log_send_def
  by (rule send_doc_cases) (auto intro!: parsing_only_sends simp: is_reply_def)

lemma parsing_select:
  "cfg_ethernet_select_ports_parse E sp bm n s = Some (ret, b, k, s') \<Longrightarrow> parsing s s'"
  by (cases "get_port_list E s")
     (auto simp: cfg_ethernet_select_ports_parse_def bind_eq_Some_conv split: if_splits
       dest: parsing_get_port_list)

text \<open>The ports an accepted selection visits.\<close>

lemma select_visits:
  assumes "cfg_ethernet_select_ports_parse E sp bm n s = Some (0, b, k, s')"
    and "length bm = BITS_TO_UINT32 MAX_NUM_OF_PORTS"
    and "BITMAP_FOR_EACH_BIT_SET b MAX_NUM_OF_PORTS = Some is"
  shows "set is \<subseteq> pids (port_list s') \<and> (\<forall>i \<in> set is. i < MAX_NUM_OF_PORTS)"
proof -
  have sub: "bm_set b \<subseteq> pids (port_list s')" and len: "length b = BITS_TO_UINT32 MAX_NUM_OF_PORTS"
    using select_ports_bits[OF assms(1,2)] by auto
  have "MAX_NUM_OF_PORTS \<le> 32 * length b" by (simp add: len BITS_TO_UINT32_def MAX_NUM_OF_PORTS_def)
  then show ?thesis using for_each_bits_list[of MAX_NUM_OF_PORTS b] assms(3) sub by (auto simp: bm_set_def)
qed

section \<open>The invariant\<close>

definition ports_ok :: "string list \<Rightarrow> plat_cfg \<Rightarrow> bool" where
  "ports_ok names cfg \<longleftrightarrow>
     length (ports_to_cfg cfg) = BITS_TO_UINT32 MAX_NUM_OF_PORTS \<and>
     bm_set (ports_to_cfg cfg) \<subseteq> pids names \<and>
     (\<forall>i \<in> bm_set (ports_to_cfg cfg). i < MAX_NUM_OF_PORTS \<and> pt_fp_id (ports cfg i) = i)"

definition member_ok :: "string list \<Rightarrow> vlan_member \<Rightarrow> bool" where
  "member_ok names m \<longleftrightarrow> member_fp_id m \<in> pids names \<and> member_fp_id m < MAX_NUM_OF_PORTS \<and>
     member_name m = PID_TO_NAME (member_fp_id m)"

definition vlans_ok :: "string list \<Rightarrow> plat_cfg \<Rightarrow> bool" where
  "vlans_ok names cfg \<longleftrightarrow>
     length (vlans_to_cfg cfg) = BITS_TO_UINT32 MAX_VLANS \<and>
     (\<forall>v. members (vlans cfg v) \<noteq> [] \<longrightarrow> v \<in> bm_set (vlans_to_cfg cfg)) \<and>
     (\<forall>v. \<forall>m \<in> set (members (vlans cfg v)). member_ok names m) \<and>
     (\<forall>v. v < MAX_VLANS \<longrightarrow> vlan_id (vlans cfg v) = v)"

definition cfg_inv :: "'p proto_state \<Rightarrow> plat_cfg \<times> 'p proto_state \<Rightarrow> bool" where
  "cfg_inv s0 = (\<lambda>(cfg, s). parsing s0 s \<and> ports_ok (port_list s) cfg \<and> vlans_ok (port_list s) cfg)"

text \<open>More ports in the list do no harm.\<close>

lemma ports_ok_mono: "ports_ok ns cfg \<Longrightarrow> pids ns \<subseteq> pids ms \<Longrightarrow> ports_ok ms cfg"
  by (auto simp: ports_ok_def)

lemma vlans_ok_mono: "vlans_ok ns cfg \<Longrightarrow> pids ns \<subseteq> pids ms \<Longrightarrow> vlans_ok ms cfg"
  by (fastforce simp: vlans_ok_def member_ok_def)

lemma cfg_inv_parsing: "cfg_inv s0 (cfg, s) \<Longrightarrow> parsing s s' \<Longrightarrow> cfg_inv s0 (cfg, s')"
  using parsing_pids[of s s']
  by (auto simp: cfg_inv_def intro: ports_ok_mono vlans_ok_mono parsing_trans)

text \<open>Sections that keep ports and VLANs keep the invariant.\<close>

definition same_ports :: "plat_cfg \<Rightarrow> plat_cfg \<Rightarrow> bool" where
  "same_ports cfg cfg' \<longleftrightarrow> ports cfg' = ports cfg \<and> ports_to_cfg cfg' = ports_to_cfg cfg \<and>
     vlans cfg' = vlans cfg \<and> vlans_to_cfg cfg' = vlans_to_cfg cfg"

lemma cfg_inv_frame:
  "cfg_inv s0 (cfg, s) \<Longrightarrow> parsing s s' \<and> same_ports cfg cfg' \<Longrightarrow> cfg_inv s0 (cfg', s')"
  using cfg_inv_parsing[of s0 cfg s s']
  by (simp add: cfg_inv_def ports_ok_def vlans_ok_def same_ports_def)

section \<open>The ethernet section\<close>

lemma assign_ports_ok:
  assumes "assign_ports tmp is cfg = Some cfg'" "ports_ok names cfg" "set is \<subseteq> pids names"
  shows "ports_ok names cfg' \<and> vlans cfg' = vlans cfg \<and> vlans_to_cfg cfg' = vlans_to_cfg cfg"
  using assms
proof (induction tmp "is" cfg rule: assign_ports.induct)
  case (2 tmp i "is" cfg)
  then obtain name bm where st: "BITMAP_SET_BIT (ports_to_cfg cfg) i = Some bm" "i < MAX_NUM_OF_PORTS"
    "strcpy PORT_MAX_NAME_LEN (Some (PID_TO_NAME i)) = Some name"
    "assign_ports tmp is (cfg\<lparr>ports := (ports cfg)(i := tmp\<lparr>pt_name := name, pt_fp_id := i\<rparr>),
        ports_to_cfg := bm\<rparr>) = Some cfg'"
    by (auto simp: bind_eq_Some_conv split: if_splits)
  have "ports_ok names (cfg\<lparr>ports := (ports cfg)(i := tmp\<lparr>pt_name := name, pt_fp_id := i\<rparr>),
        ports_to_cfg := bm\<rparr>)"
    using "2.prems"(2,3) bm.put_bits[OF st(1)] length_set_bit[OF st(1)] st(2)
    by (auto simp: ports_ok_def)
  then show ?case using "2.IH"[OF st(3) st(1,2,4)] "2.prems"(3) by simp
qed simp

text \<open>The end of an ethernet element: select the ports and assign the settings.\<close>

lemma cfg_ethernet_one_inv:
  assumes "cfg_ethernet_one E eth (cfg, s) = Some (ret, cfg', s')" "cfg_inv s0 (cfg, s)"
  shows "cfg_inv s0 (cfg', s')"
proof (cases "ret = 0")
  case False
  have "cfg' = cfg \<and> parsing s s'"
    using assms(1) False unfolding cfg_ethernet_one_def Let_def
    by (auto simp: bind_eq_Some_conv split: option.splits if_splits dest: parsing_select)
  then show ?thesis using assms(2) cfg_inv_parsing by blast
next
  case True
  obtain bm n tmp "is" where st: "cfg_ethernet_select_ports_parse E (item (cj E) (Some eth) ''select-ports'')
        (bitmap_zero MAX_NUM_OF_PORTS) 0 s = Some (0, bm, n, s')"
    "BITMAP_FOR_EACH_BIT_SET bm MAX_NUM_OF_PORTS = Some is" "assign_ports tmp is cfg = Some cfg'"
    using assms(1) True unfolding cfg_ethernet_one_def Let_def
    by (auto simp: bind_eq_Some_conv split: option.splits if_splits)
  have p: "parsing s s'" by (rule parsing_select[OF st(1)])
  have "set is \<subseteq> pids (port_list s')" using select_visits[OF st(1) _ st(2)] by simp
  then show ?thesis
    using assign_ports_ok[OF st(3), of "port_list s'"] cfg_inv_parsing[OF assms(2) p]
    by (auto simp: cfg_inv_def vlans_ok_def)
qed

lemma cfg_ethernet_inv:
  assumes "cfg_ethernet_parse E ob cs = Some (ret, cs')" "cfg_inv s0 cs"
  shows "cfg_inv s0 cs'"
  using assms unfolding cfg_ethernet_parse_def
  by (rule loop_ret_invariant) (auto dest: cfg_ethernet_one_inv)

section \<open>The interfaces section\<close>

lemma parsing_egress: "egress_ports E ps acc s = (r, acc', s') \<Longrightarrow> parsing s s'"
  by (induction E ps acc s rule: egress_ports.induct)
     (auto split: prod.splits if_splits option.splits bool.splits dest!: parsing_try_alloc
       intro: parsing_trans)

lemma parsing_groups: "mcast_groups E gs s = (r, gs', s') \<Longrightarrow> parsing s s'"
proof (induction E gs s arbitrary: r gs' rule: mcast_groups.induct)
  case (2 E g gs s)
  then show ?case
    by (auto simp: Let_def split: prod.splits if_splits option.splits
        dest!: parsing_egress intro: parsing_trans)
qed simp

lemma parsing_static_groups: "mcast_static_groups E ob s = (r, gs, s') \<Longrightarrow> parsing s s'"
  by (auto simp: mcast_static_groups_def split: if_splits prod.splits
      dest!: parsing_try_alloc parsing_groups intro: parsing_trans)

lemma parsing_multicast:
  assumes "cfg_vlan_interface_parse_multicast E ob old s = Some (r, ig, s')"
  shows "parsing s s'"
proof (cases "item (cj E) ob ''igmp''")
  case None
  then show ?thesis using assms by (simp add: cfg_vlan_interface_parse_multicast_def)
next
  case (Some g)
  then obtain v where v: "igmp_version_field (cj E) (item (cj E) (Some g) ''version'') = Some v"
    using assms by (auto simp: cfg_vlan_interface_parse_multicast_def Let_def bind_eq_Some_conv)
  show ?thesis
  proof (cases v)
    case (Inr w)
    obtain q gs t where "mcast_static_groups E (item (cj E) (Some g) ''static-mcast-groups'') s = (q, gs, t)"
      using prod_cases3 by blast
    then show ?thesis
      using Inr assms Some v unfolding cfg_vlan_interface_parse_multicast_def Let_def
      by (auto simp: bind_eq_Some_conv split: if_splits dest: parsing_static_groups)
  qed (use assms Some v in \<open>simp add: cfg_vlan_interface_parse_multicast_def\<close>)
qed

lemma push_members_ok:
  assumes "push_members E tag is ms s = (r, ms', s')"
    and "set is \<subseteq> pids names" "\<forall>i \<in> set is. i < MAX_NUM_OF_PORTS" "\<forall>m \<in> set ms. member_ok names m"
  shows "parsing s s' \<and> (\<forall>m \<in> set ms'. member_ok names m)"
  using assms
proof (induction E tag "is" ms s rule: push_members.induct)
  case (2 E tag i "is" ms s)
  obtain ok s1 where a: "try_alloc E s = (ok, s1)" by force
  show ?case
  proof (cases ok)
    case True
    then have "parsing s1 s' \<and> (\<forall>m \<in> set ms'. member_ok names m)"
      using "2.prems" a by (intro "2.IH"[OF a[symmetric] refl]) (simp_all add: member_ok_def)
    then show ?thesis using parsing_try_alloc[OF a] parsing_trans by blast
  qed (use 2 a parsing_try_alloc in auto)
qed simp

text \<open>An update of a VLAN to be configured that keeps its identifier and has good members.\<close>

lemma upd_vlan_inv:
  assumes "cfg_inv s0 (cfg, s)" "vid \<in> bm_set (vlans_to_cfg cfg)"
    and "vlan_id (f (vlans cfg vid)) = vlan_id (vlans cfg vid)"
    and "\<forall>m \<in> set (members (f (vlans cfg vid))). member_ok (port_list s) m"
  shows "cfg_inv s0 (upd_vlan vid f cfg, s)"
  using assms by (auto simp: cfg_inv_def upd_vlan_def ports_ok_def vlans_ok_def)

lemma upd_vlan_members_inv:
  assumes "cfg_inv s0 (cfg, s)" "vid \<in> bm_set (vlans_to_cfg cfg)"
    and "\<And>v. vlan_id (f v) = vlan_id v" "\<And>v. members (f v) = members v"
  shows "cfg_inv s0 (upd_vlan vid f cfg, s)"
  using assms by (intro upd_vlan_inv) (auto simp: cfg_inv_def vlans_ok_def)

definition vlan_inv :: "'p proto_state \<Rightarrow> nat \<Rightarrow> plat_cfg \<times> 'p proto_state \<Rightarrow> bool" where
  "vlan_inv s0 vid cs \<longleftrightarrow> cfg_inv s0 cs \<and> vid \<in> bm_set (vlans_to_cfg (fst cs))"

lemma vlans_to_cfg_upd [simp]: "vlans_to_cfg (upd_vlan vid f cfg) = vlans_to_cfg cfg"
  by (simp add: upd_vlan_def)

lemma vlan_ethernet_one_inv:
  assumes "vlan_ethernet_one E vid eth (cfg, s) = Some (ret, cfg', s')" "vlan_inv s0 vid (cfg, s)"
  shows "vlan_inv s0 vid (cfg', s')"
proof -
  obtain r b n s1 where sel: "cfg_ethernet_select_ports_parse E
      (cJSON_GetObjectItem (cj E) (Some eth) ''select-ports'') (bitmap_zero MAX_NUM_OF_PORTS) 0 s
      = Some (r, b, n, s1)"
    using assms(1) by (auto simp: vlan_ethernet_one_def Let_def bind_eq_Some_conv)
  have inv1: "vlan_inv s0 vid (cfg, s1)"
    using assms(2) cfg_inv_parsing[OF _ parsing_select[OF sel]] by (auto simp: vlan_inv_def)
  have "(cfg' = cfg \<and> s' = s1) \<or> (\<exists>tag is ms. r = 0 \<and>
      BITMAP_FOR_EACH_BIT_SET b MAX_NUM_OF_PORTS = Some is \<and>
      push_members E tag is (members (vlans cfg vid)) s1 = (ret, ms, s') \<and>
      cfg' = upd_vlan vid (\<lambda>v. v\<lparr>members := ms\<rparr>) cfg)"
    using assms(1) sel unfolding vlan_ethernet_one_def Let_def prod.case
    by (elim bindE) (auto elim!: bindE split: if_splits, blast+)
  then show ?thesis
  proof (elim disjE exE conjE)
    fix tag "is" ms
    assume 2: "r = 0" "BITMAP_FOR_EACH_BIT_SET b MAX_NUM_OF_PORTS = Some is"
      "push_members E tag is (members (vlans cfg vid)) s1 = (ret, ms, s')"
      "cfg' = upd_vlan vid (\<lambda>v. v\<lparr>members := ms\<rparr>) cfg"
    have v: "set is \<subseteq> pids (port_list s1)" "\<forall>i \<in> set is. i < MAX_NUM_OF_PORTS"
      using select_visits[of E _ "bitmap_zero MAX_NUM_OF_PORTS" 0 s b n s1 "is"] sel 2(1,2) by auto
    have "\<forall>m \<in> set (members (vlans cfg vid)). member_ok (port_list s1) m"
      using inv1 by (auto simp: vlan_inv_def cfg_inv_def vlans_ok_def)
    note P = push_members_ok[OF 2(3) v this]
    have "cfg_inv s0 (upd_vlan vid (\<lambda>v. v\<lparr>members := ms\<rparr>) cfg, s1)"
      using inv1 P by (intro upd_vlan_inv) (auto simp: vlan_inv_def)
    then show ?thesis
      using P inv1 2(4) cfg_inv_parsing by (auto simp: vlan_inv_def)
  qed (use inv1 in simp)
qed

lemma vlan_ipv4_inv:
  assumes "vlan_ipv4_parse E ob vid (cfg, s) = Some (ret, cfg', s')" "vlan_inv s0 vid (cfg, s)"
  shows "vlan_inv s0 vid (cfg', s')"
proof -
  obtain r ip where ip: "(if item (cj E) ob ''subnet'' = None then (0, vlan_ipv4 (vlans cfg vid))
      else cfg_interface_parse_ipv4 E (item (cj E) ob ''subnet'') (vlan_ipv4 (vlans cfg vid))) = (r, ip)"
    by force
  let ?c1 = "upd_vlan vid (\<lambda>v. v\<lparr>vlan_ipv4 := ip\<rparr>) cfg"
  have c1: "vlan_inv s0 vid (?c1, s)"
    using assms(2) by (auto simp: vlan_inv_def intro!: upd_vlan_members_inv)
  have step: "vlan_inv s0 vid (upd_vlan vid f c, t')"
    if "vlan_inv s0 vid (c, t)" "parsing t t'" "\<And>v. vlan_id (f v) = vlan_id v"
      "\<And>v. members (f v) = members v" for c t t' f
    using that cfg_inv_parsing by (auto simp: vlan_inv_def intro!: upd_vlan_members_inv)
  consider "cfg' = ?c1" "s' = s"
    | ig where "parsing s s'" "cfg' = upd_vlan vid (\<lambda>v. v\<lparr>vlan_igmp := ig\<rparr>) ?c1"
    | ig r where "parsing s s'"
      "cfg' = upd_vlan vid (\<lambda>v. v\<lparr>vlan_relay := r\<rparr>) (upd_vlan vid (\<lambda>v. v\<lparr>vlan_igmp := ig\<rparr>) ?c1)"
    using assms(1) unfolding vlan_ipv4_parse_def Let_def
    by (auto simp: ip bind_eq_Some_conv split: if_splits prod.splits dest: parsing_multicast)
  then show ?thesis
  proof cases
    case 3
    show ?thesis unfolding 3(2) by (rule step[OF step[OF c1 3(1)] parsing_refl]) simp_all
  qed (use c1 step[OF c1] in simp_all)
qed

lemma cfg_vlan_interface_inv:
  assumes "cfg_vlan_interface_parse E iface (cfg, s) = Some (ret, cfg', s')" "cfg_inv s0 (cfg, s)"
  shows "cfg_inv s0 (cfg', s')"
proof -
  consider "cfg' = cfg" "s' = s"
    | vid bm r c t where "BITMAP_SET_BIT (vlans_to_cfg cfg) vid = Some bm"
      "loop_ret (vlan_ethernet_one E vid) (cJSON_Array (cj E) (item (cj E) (Some iface) ''ethernet''))
         (cfg\<lparr>vlans_to_cfg := bm\<rparr>, s) = Some (r, c, t)"
      "(cfg' = c \<and> s' = t) \<or>
       (let c' = upd_vlan vid (\<lambda>v. v\<lparr>vlan_ipv4 := (vlan_ipv4 v)\<lparr>ipv4_exist := False\<rparr>,
             vlan_relay := (vlan_relay v)\<lparr>relay_enabled := False\<rparr>\<rparr>) c in
        (cfg' = c' \<and> s' = t) \<or>
        vlan_ipv4_parse E (item (cj E) (Some iface) ''ipv4'') vid (c', t) = Some (ret, cfg', s'))"
    using assms(1) unfolding cfg_vlan_interface_parse_def Let_def
    by (auto simp: bind_eq_Some_conv split: if_splits)
  then show ?thesis
  proof cases
    case 2
    have "vlan_inv s0 vid (cfg\<lparr>vlans_to_cfg := bm\<rparr>, s)"
      using assms(2) bm.put_bits[OF 2(1)] length_set_bit[OF 2(1)]
      by (auto simp: vlan_inv_def cfg_inv_def ports_ok_def vlans_ok_def)
    with 2(2) have ct: "vlan_inv s0 vid (c, t)"
      by (rule loop_ret_invariant) (auto dest: vlan_ethernet_one_inv)
    have "vlan_inv s0 vid (upd_vlan vid f c, t)"
      if "\<And>v. vlan_id (f v) = vlan_id v" "\<And>v. members (f v) = members v" for f
      using ct that by (auto simp: vlan_inv_def intro!: upd_vlan_members_inv)
    then show ?thesis
      using 2(3) ct vlan_ipv4_inv[of E _ vid _ t ret cfg' s' s0] by (auto simp: Let_def vlan_inv_def)
  qed (use assms(2) in simp)
qed

lemma cfg_port_interface_frame:
  assumes "cfg_port_interface_parse E iface (cfg, s) = Some (ret, cfg', s')"
  shows "parsing s s' \<and> same_ports cfg cfg'"
  using assms unfolding cfg_port_interface_parse_def Let_def prod.case
  by (auto elim!: bindE simp: same_ports_def split: if_splits dest!: parsing_select)

lemma cfg_port_interface_inv:
  assumes "cfg_port_interface_parse E iface (cfg, s) = Some (ret, cfg', s')" "cfg_inv s0 (cfg, s)"
  shows "cfg_inv s0 (cfg', s')"
  using assms(2) cfg_port_interface_frame[OF assms(1)] by (rule cfg_inv_frame)

lemma cfg_interfaces_inv:
  assumes "cfg_interfaces_parse E ob cs = Some (ret, cs')" "cfg_inv s0 cs"
  shows "cfg_inv s0 cs'"
proof -
  have "cfg_inv s0 t'" if "cfg_interface_one E x t = Some (q, t')" "cfg_inv s0 t" for x t q t'
    using that unfolding cfg_interface_one_def
    by (cases t; cases t')
       (auto simp: bind_eq_Some_conv split: if_splits
         dest: cfg_vlan_interface_inv cfg_port_interface_inv)
  then show ?thesis
    using assms unfolding cfg_interfaces_parse_def by (auto intro: loop_ret_invariant)
qed

section \<open>The other sections\<close>

definition section_frame :: "plat_cfg \<times> 'p proto_state \<Rightarrow> plat_cfg \<times> 'p proto_state \<Rightarrow> bool" where
  "section_frame cs cs' \<longleftrightarrow> parsing (snd cs) (snd cs') \<and> same_ports (fst cs) (fst cs')"

lemma section_frame_refl [simp]: "section_frame cs cs"
  by (simp add: section_frame_def same_ports_def)

lemma section_frame_trans: "section_frame a b \<Longrightarrow> section_frame b c \<Longrightarrow> section_frame a c"
  by (auto simp: section_frame_def same_ports_def intro: parsing_trans)

lemma section_frame_inv: "cfg_inv s0 cs \<Longrightarrow> section_frame cs cs' \<Longrightarrow> cfg_inv s0 cs'"
  by (cases cs; cases cs') (auto simp: section_frame_def intro: cfg_inv_frame)

lemma section_frame_loop:
  assumes "loop_ret f xs cs = Some (r, cs')" "\<And>x t q t'. f x t = Some (q, t') \<Longrightarrow> section_frame t t'"
  shows "section_frame cs cs'"
  using assms(1)
  by (rule loop_ret_invariant[where P = "section_frame cs"]) (auto dest: assms(2) intro: section_frame_trans)

lemma radius_host_frame: "radius_host_one E x cs = Some (r, cs') \<Longrightarrow> section_frame cs cs'"
  unfolding radius_host_one_def Let_def
  by (cases cs; cases cs')
     (auto elim!: bindE simp: section_frame_def same_ports_def split: if_splits option.splits
       dest!: parsing_try_alloc)

lemma switch_ieee8021x_frame:
  assumes "cfg_switch_ieee8021x_parse E sw (cfg, s) = Some (r, cs')"
  shows "section_frame (cfg, s) cs'"
proof -
  let ?c = "cfg\<lparr>is_auth_ctrl_enabled :=
      cJSON_IsTrue (cj E) (item (cj E) (item (cj E) sw ''ieee8021x'') ''auth-control-enable'')\<rparr>"
  have c: "section_frame (cfg, s) (?c, s)" by (simp add: section_frame_def same_ports_def)
  consider "cs' = (cfg, s)" | "cs' = (?c, s)" | xs where "loop_ret (radius_host_one E) xs (?c, s) = Some (r, cs')"
    using assms unfolding cfg_switch_ieee8021x_parse_def Let_def prod.case
    by (auto simp del: loop_ret.simps split: if_splits)
  then show ?thesis
  proof cases
    case 3
    then have "section_frame (?c, s) cs'" by (rule section_frame_loop) (rule radius_host_frame)
    then show ?thesis by (rule section_frame_trans[OF c])
  qed (use c in simp_all)
qed

lemma stp_instance_same:
  "stp_instance_one J x (cfg, bm) = Some (r, cfg', bm') \<Longrightarrow> same_ports cfg cfg'"
  unfolding stp_instance_one_def Let_def prod.case
  by (auto elim!: bindE simp: same_ports_def split: if_splits)

lemma stp_loop_same:
  assumes "loop_ret (stp_instance_one J) xs (cfg, bm) = Some (r, cfg', bm')"
  shows "same_ports cfg cfg'"
proof -
  have "same_ports cfg (fst (cfg', bm'))"
    using assms
    by (rule loop_ret_invariant[where P = "\<lambda>cs. same_ports cfg (fst cs)"])
       (auto simp: same_ports_def dest!: stp_instance_same)
  then show ?thesis by simp
qed

lemma parsing_iface_names: "iface_names E ps acc s = Some (r, acc', s') \<Longrightarrow> parsing s s'"
proof (induction E ps acc s rule: iface_names.induct)
  case (2 E p ps acc s)
  obtain ok t where "try_alloc E s = (ok, t)" by force
  then show ?case
    using 2 parsing_try_alloc[of E s ok t]
    by (auto elim!: bindE split: option.splits if_splits intro: parsing_trans)
qed simp

lemma parsing_isolation_iface:
  "cfg_ethernet_port_isolation_interface_parse E ob s = Some (r, ns, s') \<Longrightarrow> parsing s s'"
  by (auto simp: cfg_ethernet_port_isolation_interface_parse_def Let_def split: if_splits
      dest: parsing_iface_names)

lemma isolation_sessions_ok:
  assumes "isolation_sessions E xs acc s = Some (r, ss, s')" "distinct (map session_id acc)"
  shows "parsing s s' \<and> distinct (map session_id ss) \<and> (r = 0 \<longrightarrow> length ss = length acc + length xs)"
  using assms
proof (induction xs arbitrary: acc s)
  case 2: (Cons x xs)
  have "(ss = acc \<and> parsing s s' \<and> r \<noteq> 0) \<or>
    (\<exists>i us ds t1 t2. i \<notin> session_id ` set acc \<and>
      cfg_ethernet_port_isolation_interface_parse E (item (cj E) (Some x) ''uplink'') s = Some (0, us, t1) \<and>
      cfg_ethernet_port_isolation_interface_parse E (item (cj E) (Some x) ''downlink'') t1 = Some (0, ds, t2) \<and>
      isolation_sessions E xs (acc @ [\<lparr>session_id = i, uplink = us, downlink = ds\<rparr>]) t2 = Some (r, ss, s'))"
    using "2.prems"(1) unfolding isolation_sessions.simps Let_def
    by (auto elim!: bindE split: if_splits, (blast intro: parsing_isolation_iface parsing_trans)+)
  then show ?case
  proof (elim disjE exE conjE)
    fix i us ds t1 t2
    assume i: "i \<notin> session_id ` set acc"
      and up: "cfg_ethernet_port_isolation_interface_parse E (item (cj E) (Some x) ''uplink'') s = Some (0, us, t1)"
      and down: "cfg_ethernet_port_isolation_interface_parse E (item (cj E) (Some x) ''downlink'') t1 = Some (0, ds, t2)"
      and rest: "isolation_sessions E xs (acc @ [\<lparr>session_id = i, uplink = us, downlink = ds\<rparr>]) t2 = Some (r, ss, s')"
    have "parsing t2 s' \<and> distinct (map session_id ss) \<and> (r = 0 \<longrightarrow> length ss = Suc (length acc) + length xs)"
      using "2.IH"[OF rest] i "2.prems"(2) by auto
    then show ?thesis
      using parsing_trans[OF parsing_isolation_iface[OF up] parsing_isolation_iface[OF down]]
      by (auto intro: parsing_trans)
  qed (use "2.prems"(2) in auto)
qed simp

lemma port_isolation_frame:
  assumes "cfg_switch_port_isolation_parse E ob (cfg, s) = Some (r, cfg', s')"
  shows "section_frame (cfg, s) (cfg', s')"
  using assms unfolding cfg_switch_port_isolation_parse_def Let_def prod.case
  by (auto elim!: bindE simp: section_frame_def same_ports_def split: if_splits
      dest!: parsing_try_alloc isolation_sessions_ok intro: parsing_trans)

lemma switch_frame:
  assumes "cfg_switch_parse E rt (cfg, s) = Some (r, cfg', s')"
  shows "section_frame (cfg, s) (cfg', s')"
proof -
  let ?J = "cj E" let ?sw = "item ?J rt ''switch''" let ?lp = "item ?J ?sw ''loop-detection''"
  obtain r1 c1 t1 where x: "cfg_switch_ieee8021x_parse E ?sw (cfg, s) = Some (r1, c1, t1)"
    using assms unfolding cfg_switch_parse_def Let_def by (elim bindE)
  have a: "section_frame (cfg, s) (c1, t1)" by (rule switch_ieee8021x_frame[OF x])
  obtain q mode where m: "(if item ?J ?lp ''protocol'' = None then (0, STP_NONE)
      else proto_stp_mode_to_num (cJSON_GetStringValue ?J (item ?J ?lp ''protocol'')) (stp_mode c1)) = (q, mode)"
    by force
  let ?c2 = "c1\<lparr>stp_mode := mode\<rparr>"
  let ?c3 = "?c2\<lparr>stp_instances := \<lambda>i. if i < MAX_VLANS then stp_default else stp_instances ?c2 i\<rparr>"
  have "(cfg' = c1 \<and> s' = t1) \<or> (cfg' = ?c2 \<and> s' = t1) \<or>
    (\<exists>q c4 b. loop_ret (stp_instance_one ?J) (cJSON_Array ?J (item ?J ?lp ''instances''))
        (?c3, bitmap_zero MAX_VLANS) = Some (q, c4, b) \<and>
       ((cfg' = c4 \<and> s' = t1) \<or>
        (\<exists>q. cfg_switch_port_isolation_parse E (item ?J ?sw ''port-isolation'') (c4, t1) = Some (q, cfg', s'))))"
    using assms x m unfolding cfg_switch_parse_def Let_def
    by (auto elim!: bindE simp del: loop_ret.simps split: if_splits)
  then have "section_frame (c1, t1) (cfg', s')"
  proof (elim disjE exE conjE)
    fix q c4 b q'
    assume l: "loop_ret (stp_instance_one ?J) (cJSON_Array ?J (item ?J ?lp ''instances''))
        (?c3, bitmap_zero MAX_VLANS) = Some (q, c4, b)"
    have c4: "section_frame (c1, t1) (c4, t1)"
      using stp_loop_same[OF l] by (simp add: section_frame_def same_ports_def)
    show "section_frame (c1, t1) (cfg', s')" if "cfg' = c4" "s' = t1" using c4 that by simp
    show "section_frame (c1, t1) (cfg', s')"
      if "cfg_switch_port_isolation_parse E (item ?J ?sw ''port-isolation'') (c4, t1) = Some (q', cfg', s')"
      using section_frame_trans[OF c4 port_isolation_frame[OF that]] .
  qed (auto simp: section_frame_def same_ports_def)
  then show ?thesis by (rule section_frame_trans[OF a])
qed

lemma metrics_frame:
  assumes "cfg_metrics_parse E ob (cfg, s) = Some (r, cfg', s')"
  shows "section_frame (cfg, s) (cfg', s')"
proof -
  have st: "parsing s t" if "cfg_metrics_statistics E x s = Some (m, t)" for x m t
    using that parsing_log_send unfolding cfg_metrics_statistics_def Let_def
    by (auto elim!: bindE split: if_splits)
  show ?thesis
    using assms unfolding cfg_metrics_parse_def Let_def prod.case
    by (auto elim!: bindE simp: section_frame_def same_ports_def split: if_splits dest!: st)
qed

lemma services_switches_same: "services_switches J sv cfg = (r, cfg') \<Longrightarrow> same_ports cfg cfg'"
  by (auto simp: services_switches_def Let_def same_ports_def split: option.splits)

lemma services_frame:
  assumes "cfg_services_parse E ob cfg s = Some (r, cfg', s')"
  shows "section_frame (cfg, s) (cfg', s')"
  using assms unfolding cfg_services_parse_def Let_def
  by (auto elim!: bindE simp: section_frame_def split: if_splits
      dest!: parsing_try_alloc services_switches_same simp: same_ports_def)

lemma unit_same: "cfg_unit_parse J ob cfg = Some (r, cfg') \<Longrightarrow> same_ports cfg cfg'"
  unfolding cfg_unit_parse_def Let_def
  by (auto elim!: bindE simp: same_ports_def)

lemma router_frame:
  assumes "cfg_router_parse E rt (cfg, s) = Some (r, cfg', s')"
  shows "section_frame (cfg, s) (cfg', s')"
  using assms unfolding cfg_router_parse_def Let_def prod.case
  by (auto elim!: bindE simp: section_frame_def same_ports_def split: if_splits
      dest!: parsing_try_alloc)

lemma public_ip_same: "public_ip_parse J ob cfg = Some cfg' \<Longrightarrow> same_ports cfg cfg'"
  unfolding public_ip_parse_def by (auto elim!: bindE simp: same_ports_def)

section \<open>The whole configuration\<close>

text \<open>What holds after any number of section parsers: the state was only extended, and a
  configuration that is still there satisfies the invariant.\<close>

definition sections_ok :: "'p proto_state \<Rightarrow> (plat_cfg option \<times> 'p proto_state) option \<Rightarrow> bool" where
  "sections_ok s0 r \<longleftrightarrow>
     (\<forall>c s. r = Some (c, s) \<longrightarrow> parsing s0 s \<and> (\<forall>cfg. c = Some cfg \<longrightarrow> cfg_inv s0 (cfg, s)))"

lemma parse_step_ok:
  assumes "sections_ok s0 r"
    and "\<And>cfg s ret cs'. cfg_inv s0 (cfg, s) \<Longrightarrow> f (cfg, s) = Some (ret, cs') \<Longrightarrow> cfg_inv s0 cs'"
  shows "sections_ok s0 (parse_step f r)"
  unfolding sections_ok_def
proof (intro allI impI)
  fix c s
  assume "parse_step f r = Some (c, s)"
  then obtain c0 s1 where r: "r = Some (c0, s1)"
    and f: "(case c0 of None \<Rightarrow> Some (None, s1)
      | Some cfg \<Rightarrow> do { (ret, cfg, s) \<leftarrow> f (cfg, s1); Some (if ret \<noteq> 0 then None else Some cfg, s) }) = Some (c, s)"
    unfolding parse_step_def by (elim bindE)
  show "parsing s0 s \<and> (\<forall>cfg. c = Some cfg \<longrightarrow> cfg_inv s0 (cfg, s))"
  proof (cases c0)
    case None
    then show ?thesis using f r assms(1) by (auto simp: sections_ok_def)
  next
    case (Some cfg)
    then obtain ret cfg' where "f (cfg, s1) = Some (ret, cfg', s)" "c = (if ret \<noteq> 0 then None else Some cfg')"
      using f by (auto elim!: bindE)
    moreover have "cfg_inv s0 (cfg, s1)" using assms(1) r Some by (simp add: sections_ok_def)
    ultimately have "cfg_inv s0 (cfg', s)" using assms(2) by blast
    then show ?thesis using \<open>c = _\<close> by (auto simp: cfg_inv_def split: if_splits)
  qed
qed

lemma section_step:
  assumes "sections_ok s0 r"
    and "\<And>cfg s ret cfg' s'. f (cfg, s) = Some (ret, cfg', s') \<Longrightarrow> section_frame (cfg, s) (cfg', s')"
  shows "sections_ok s0 (parse_step f r)"
proof (rule parse_step_ok[OF assms(1)])
  fix cfg s ret cs'
  assume inv: "cfg_inv s0 (cfg, s)" and f: "f (cfg, s) = Some (ret, cs')"
  obtain cfg' s' where cs': "cs' = (cfg', s')" by force
  show "cfg_inv s0 cs'" using section_frame_inv[OF inv assms(2)] f unfolding cs' by blast
qed

lemma cfg_sections_ok:
  assumes "cfg_inv s0 (cfg, s)"
  shows "sections_ok s0 (cfg_sections E config cfg s)"
proof -
  let ?J = "cj E"
  let ?r1 = "parse_step (cfg_ethernet_parse E (item ?J config ''ethernet'')) (Some (Some cfg, s))"
  let ?r2 = "parse_step (cfg_interfaces_parse E (item ?J config ''interfaces'')) ?r1"
  have "sections_ok s0 (Some (Some cfg, s))" using assms by (simp add: sections_ok_def cfg_inv_def)
  then have "sections_ok s0 ?r1" by (rule parse_step_ok) (rule cfg_ethernet_inv)
  then have "sections_ok s0 ?r2" by (rule parse_step_ok) (rule cfg_interfaces_inv)
  then have r3: "sections_ok s0 (parse_step (cfg_switch_parse E config) ?r2)"
    by (rule section_step) (rule switch_frame)
  show ?thesis
    unfolding cfg_sections_def Let_def
  proof (rule section_step, rule section_step, rule section_step, rule section_step, rule section_step)
    show "sections_ok s0 (parse_step (cfg_switch_parse E config) ?r2)" by (rule r3)
  qed (auto elim!: bindE split: if_splits dest!: public_ip_same unit_same router_frame services_frame
        metrics_frame simp: section_frame_def same_ports_def)
qed

lemma init_ports_ok:
  assumes "init_ports ns cfg = Some cfg'" "ports_ok names cfg" "set ns \<subseteq> set names"
  shows "ports_ok names cfg' \<and> vlans cfg' = vlans cfg \<and> vlans_to_cfg cfg' = vlans_to_cfg cfg"
  using assms
proof (induction ns arbitrary: cfg)
  case (Cons n ns)
  obtain pid name bm where st: "NAME_TO_PID n = ScanVal pid"
    "BITMAP_SET_BIT (ports_to_cfg cfg) pid = Some bm" "pid < MAX_NUM_OF_PORTS"
    "init_ports ns (cfg\<lparr>ports := (ports cfg)(pid := (ports cfg pid)\<lparr>pt_name := name, pt_fp_id := pid\<rparr>),
        ports_to_cfg := bm\<rparr>) = Some cfg'"
    using Cons.prems(1) by (auto elim!: bindE split: if_splits)
  have "pid \<in> pids names" using st(1) Cons.prems(3) by (auto simp: pids_def)
  then have "ports_ok names (cfg\<lparr>ports := (ports cfg)(pid := (ports cfg pid)\<lparr>pt_name := name, pt_fp_id := pid\<rparr>),
        ports_to_cfg := bm\<rparr>)"
    using Cons.prems(2) bm.put_bits[OF st(2)] length_set_bit[OF st(2)] st(3) by (auto simp: ports_ok_def)
  then show ?case using Cons.IH[OF st(4)] Cons.prems(3) by simp
qed simp

lemma cfg_start_inv:
  assumes "init_ports (port_list s) cfg_zero = Some cfg" "parsing s0 s"
  shows "cfg_inv s0 (init_vlans cfg, s)"
proof -
  have "ports_ok (port_list s) cfg_zero" by (simp add: ports_ok_def cfg_zero_def)
  then have "ports_ok (port_list s) cfg \<and> vlans cfg = vlans cfg_zero \<and> vlans_to_cfg cfg = vlans_to_cfg cfg_zero"
    using init_ports_ok[OF assms(1)] by simp
  then show ?thesis
    using assms(2)
    by (auto simp: cfg_inv_def init_vlans_def ports_ok_def vlans_ok_def cfg_zero_def vlan_zero_def FIRST_VLAN_def)
qed

lemma cfg_parse_ok: "sections_ok s (cfg_parse E config s)"
proof -
  obtain ok s1 where a: "try_alloc E s = (ok, s1)" by force
  obtain ret s2 where g: "get_port_list E s1 = (ret, s2)" by force
  have p1: "parsing s s1" by (rule parsing_try_alloc[OF a])
  then have p2: "parsing s s2" using parsing_get_port_list[OF g] by (rule parsing_trans)
  have "sections_ok s (Some (None, t))" if "parsing s t" for t using that by (simp add: sections_ok_def)
  moreover have "sections_ok s (do { cfg \<leftarrow> init_ports (port_list s2) cfg_zero; cfg_sections E config (init_vlans cfg) s2 })"
  proof (cases "init_ports (port_list s2) cfg_zero")
    case (Some cfg)
    then show ?thesis using cfg_sections_ok[OF cfg_start_inv[OF Some p2]] by simp
  qed (simp add: sections_ok_def)
  ultimately show ?thesis
    using p1 p2 unfolding cfg_parse_def Let_def by (simp add: a g)
qed


definition demo_config :: json where
  "demo_config = JObj
     [(''ethernet'', JArr [JObj [(''select-ports'', JArr [JStr ''Ethernet1'']), (''duplex'', JStr ''full''),
                                 (''speed'', JNum 1000), (''enabled'', JBool True)]]),
      (''interfaces'', JArr [JObj [(''vlan'', JObj [(''id'', JNum 10)]),
                                   (''ethernet'', JArr [JObj [(''select-ports'', JArr [JStr ''Ethernet*'']),
                                                              (''vlan-tag'', JStr ''tagged'')]])]])]"

lemma demo_parsed:
  "\<exists>cfg s'. cfg_parse demo_env (Some demo_config) demo_state = Some (Some cfg, s') \<and>
     map (\<lambda>m. (member_name m, member_fp_id m, tagged m)) (members (vlans cfg 10)) =
       [(''Ethernet2'', 2, True), (''Ethernet1'', 1, True), (''Ethernet0'', 0, True)]"
proof -
  have "map_option (map_option (\<lambda>cfg. map (\<lambda>m. (member_name m, member_fp_id m, tagged m)) (members (vlans cfg 10))) o fst)
      (cfg_parse demo_env (Some demo_config) demo_state) =
      Some (Some [(''Ethernet2'', 2, True), (''Ethernet1'', 1, True), (''Ethernet0'', 0, True)])"
    by code_simp
  then show ?thesis by auto
qed


section \<open>Routes: the two passes agree\<close>

definition routes_ok :: "ucentral_router \<Rightarrow> nat \<Rightarrow> bool" where
  "routes_ok r room \<longleftrightarrow> router_wf r \<and> rlen r + room \<le> rmax r"

lemma add_routes_ok:
  assumes "routes_ok r (length xs + room)"
  shows "\<exists>ret r' a'. add_routes E info xs (r, a) = Some (ret, r', a') \<and> router_wf r' \<and> rmax r' = rmax r \<and>
    (ret = 0 \<longrightarrow> routes_ok r' room \<and>
       map node_info (used r') = map node_info (used r) @ map (\<lambda>x. the (info x)) xs)"
  using assms
proof (induction xs arbitrary: r a)
  case Nil
  then show ?case by (simp add: routes_ok_def)
next
  case (Cons x xs)
  show ?case
  proof (cases "route_prefix_obj2node_key E x a")
    case (Inr k)
    show ?thesis
    proof (cases "info x")
      case (Some i)
      let ?n = "\<lparr>node_key = k, node_info = i\<rparr>"
      obtain s where s: "ucentral_router_fib_db_append r ?n = Some (0, s)" "router_wf s"
        "used s = used r @ [?n]" "rmax s = rmax r" "rlen s = rlen r + 1"
        using append_wf[of r ?n] Cons.prems by (auto simp: routes_ok_def)
      then have "routes_ok s (length xs + room)" using Cons.prems by (simp add: routes_ok_def)
      then show ?thesis using Cons.IH[of s "prefix k"] Inr Some s by fastforce
    qed (use Cons.prems Inr in \<open>simp add: routes_ok_def\<close>)
  qed (use Cons.prems in \<open>simp add: routes_ok_def\<close>)
qed

definition route_count :: "(('j \<Rightarrow> fib_info option) \<times> 'j list) list \<Rightarrow> nat" where
  "route_count as = sum_list (map (\<lambda>(_, xs). length xs) as)"

definition route_infos :: "(('j \<Rightarrow> fib_info option) \<times> 'j list) list \<Rightarrow> fib_info list" where
  "route_infos as = concat (map (\<lambda>(info, xs). map (\<lambda>x. the (info x)) xs) as)"

lemma process_arrays_ok:
  assumes "routes_ok r (route_count as)"
  shows "\<exists>ret r' a'. process_arrays E as (r, a) = Some (ret, r', a') \<and> router_wf r' \<and> rmax r' = rmax r \<and>
    (ret = 0 \<longrightarrow> map node_info (used r') = map node_info (used r) @ route_infos as)"
  using assms
proof (induction as arbitrary: r a)
  case Nil
  then show ?case by (simp add: routes_ok_def route_infos_def)
next
  case (Cons p as)
  obtain info xs where p: "p = (info, xs)" by force
  obtain ret r1 a1 where r1: "add_routes E info xs (r, a) = Some (ret, r1, a1)" "router_wf r1"
    "rmax r1 = rmax r" and ok: "ret = 0 \<longrightarrow> routes_ok r1 (route_count as) \<and>
       map node_info (used r1) = map node_info (used r) @ map (\<lambda>x. the (info x)) xs"
    using add_routes_ok[of r xs "route_count as" E info a] Cons.prems p by (auto simp: route_count_def)
  show ?case
  proof (cases "ret = 0")
    case True
    then show ?thesis using Cons.IH[of r1 a1] r1 ok p by (fastforce simp: route_infos_def)
  qed (use r1 p in simp)
qed

lemma used_length: "router_wf r \<Longrightarrow> length (used r) = rlen r"
  by (simp add: used_def router_wf_def)

lemma process_arrays_codes: "process_arrays E as ra = Some (ret, ra') \<Longrightarrow> ret = 0 \<or> ret = - 1"
proof (induction as arbitrary: ra)
  case (Cons p as)
  then show ?case by (cases p) (auto elim!: bindE split: if_splits)
qed simp

text \<open>C25. The route table holds every route of the document. The first pass counts as many routes as
  the second one adds, so no route is dropped for lack of room and none is written past the
  table; an accepted table is full and lists the destinations in the order of the document.\<close>

theorem cfg_router_parse_complete:
  assumes "route_arrays E config = Some as" and "alloc E (ticks s)"
  shows "\<exists>ret cfg' s'. cfg_router_parse E config (cfg, s) = Some (ret, cfg', s') \<and>
    router_wf (router cfg') \<and> rmax (router cfg') = route_count as \<and>
    (ret = 0 \<longrightarrow> map node_info (used (router cfg')) = route_infos as \<and> rlen (router cfg') = route_count as)"
proof -
  obtain r where r: "ucentral_router_fib_db_alloc True (router cfg) (route_count as) = (0, r)"
    "router_wf r" "used r = []" "rmax r = route_count as"
    using alloc_wf[of "router cfg" "route_count as"] by (cases "ucentral_router_fib_db_alloc True (router cfg) (route_count as)") auto
  moreover have "rlen r = 0" using r(1) by (auto simp: ucentral_router_fib_db_alloc_def)
  ultimately obtain ret r' a' where p: "process_arrays E as (r, junk E) = Some (ret, r', a')" "router_wf r'"
    "rmax r' = route_count as" "ret = 0 \<longrightarrow> map node_info (used r') = route_infos as"
    using process_arrays_ok[of r as E "junk E"] by (auto simp: routes_ok_def)
  have codes: "ret = 0 \<or> ret = - 1" by (rule process_arrays_codes[OF p(1)])
  have "length (route_infos as) = route_count as"
    by (induction as) (auto simp: route_infos_def route_count_def)
  then have "ret = 0 \<Longrightarrow> rlen r' = route_count as"
    using p(2-4) used_length[OF p(2)] length_map[of node_info "used r'"] by metis
  then show ?thesis
    using assms p codes r(1)
    by (auto simp: cfg_router_parse_def cfg_process_prefixes_count_def cfg_process_prefixes_def
        try_alloc_def route_count_def)
qed

definition demo_routes :: json where
  "demo_routes = JObj [(''globals'', JObj [(''ipv4-blackhole'',
      JArr [JObj [(''prefix'', JStr ''10.0.0.0/8'')], JObj [(''prefix'', JStr ''10.0.0.0/8'')]])])]"

theorem cfg_router_parse_complete_witness:
  "\<exists>ret cfg' s'. cfg_router_parse demo_env (Some demo_routes) (cfg_zero, demo_state) = Some (ret, cfg', s') \<and>
     router_wf (router cfg') \<and> rmax (router cfg') = 2 \<and> ret = 0 \<and>
     map node_info (used (router cfg')) = [ROUTE_BLACKHOLE, ROUTE_BLACKHOLE]"
proof -
  have "map_option route_infos (route_arrays demo_env (Some demo_routes)) = Some [ROUTE_BLACKHOLE, ROUTE_BLACKHOLE]"
    "map_option route_count (route_arrays demo_env (Some demo_routes)) = Some 2"
    "map_option fst (cfg_router_parse demo_env (Some demo_routes) (cfg_zero, demo_state)) = Some 0"
    by code_simp+
  then obtain as where as: "route_arrays demo_env (Some demo_routes) = Some as"
    "route_infos as = [ROUTE_BLACKHOLE, ROUTE_BLACKHOLE]" "route_count as = 2"
    and z: "map_option fst (cfg_router_parse demo_env (Some demo_routes) (cfg_zero, demo_state)) = Some 0" by auto
  have "alloc demo_env (ticks demo_state)" by (simp add: demo_env_def)
  from cfg_router_parse_complete[OF as(1) this, of cfg_zero] z show ?thesis
    unfolding as(2,3) by auto
qed

section \<open>Identifiers are unique\<close>

text \<open>Port isolation sessions of an accepted configuration have pairwise different identifiers, and
  as many sessions are stored as were given.\<close>

theorem port_isolation_unique:
  assumes "cfg_switch_port_isolation_parse E ob (cfg, s) = Some (0, cfg', s')"
    and "sessions cfg = []" "sessions_num cfg = 0"
  shows "distinct (map session_id (sessions cfg')) \<and> length (sessions cfg') = sessions_num cfg' \<and>
    sessions_num cfg' = cJSON_GetArraySize (cj E) (item (cj E) ob ''sessions'')"
proof -
  let ?xs = "cJSON_Array (cj E) (item (cj E) ob ''sessions'')"
  have "?xs = [] \<and> cfg' = cfg \<or> (\<exists>t ss. isolation_sessions E ?xs [] t = Some (0, ss, s') \<and>
      cfg' = cfg\<lparr>sessions_num := length ?xs, sessions := ss\<rparr>)"
    using assms unfolding cfg_switch_port_isolation_parse_def Let_def prod.case
    by (auto elim!: bindE split: if_splits, blast+)
  then show ?thesis
    using assms(2,3) isolation_sessions_ok[where acc = "[]"] by (fastforce simp: cJSON_GetArraySize_def)
qed

definition demo_isolation :: json where
  "demo_isolation = JObj [(''sessions'', JArr [
     JObj [(''id'', JNum 1), (''uplink'', JObj [(''interface-list'', JArr [JStr ''Ethernet0''])]),
           (''downlink'', JObj [(''interface-list'', JArr [JStr ''Ethernet1''])])],
     JObj [(''id'', JNum 2), (''uplink'', JObj [(''interface-list'', JArr [JStr ''Ethernet0''])]),
           (''downlink'', JObj [(''interface-list'', JArr [JStr ''Ethernet2''])])]])]"

theorem port_isolation_unique_witness:
  "\<exists>cfg' s'. cfg_switch_port_isolation_parse demo_env (Some demo_isolation) (cfg_zero, demo_state)
      = Some (0, cfg', s') \<and> distinct (map session_id (sessions cfg')) \<and> length (sessions cfg') = 2"
proof -
  let ?r = "cfg_switch_port_isolation_parse demo_env (Some demo_isolation) (cfg_zero, demo_state)"
  have "map_option (\<lambda>(r, c, _). (r, sessions_num c)) ?r = Some (0, 2)" by code_simp
  then obtain cfg' s' where r: "?r = Some (0, cfg', s')" "sessions_num cfg' = 2" by auto
  have "sessions cfg_zero = []" "sessions_num cfg_zero = 0" by (simp_all add: cfg_zero_def)
  then show ?thesis using port_isolation_unique[OF r(1)] r by auto
qed

text \<open>The identifier an element of \<open>instances\<close> names.\<close>

definition stp_id :: "'j cjson \<Rightarrow> 'j \<Rightarrow> int option" where
  "stp_id J x = (let ob = item J (Some x) ''id'' in
     if ob = None then Some 0 else dbl_to_int 32 (cJSON_GetNumberValue J ob))"

lemma stp_instance_step:
  assumes "stp_instance_one J x (cfg, bm) = Some (0, cfg', bm')"
  shows "\<exists>i. stp_id J x = Some (int i) \<and> i < MAX_VLANS \<and> i \<notin> bm_set bm \<and> bm_set bm' = insert i (bm_set bm)"
proof -
  obtain i where "stp_id J x = Some i" "\<not> (i < 0 \<or> int MAX_VLANS \<le> i)"
    "BITMAP_TEST_BIT bm (nat i) = Some False" "BITMAP_SET_BIT bm (nat i) = Some bm'"
    using assms unfolding stp_instance_one_def Let_def prod.case stp_id_def
    by (elim bindE) (auto elim!: bindE split: if_splits)
  then show ?thesis
    using bm.put_bits by (intro exI[of _ "nat i"]) (auto simp: bm_set_def bm_test_def)
qed

lemma stp_loop_ids:
  assumes "loop_ret (stp_instance_one J) xs (cfg, bm) = Some (0, cfg', bm')"
  shows "distinct (map (stp_id J) xs) \<and>
    (\<forall>x \<in> set xs. \<exists>i. stp_id J x = Some (int i) \<and> i < MAX_VLANS \<and> i \<notin> bm_set bm)"
  using assms
proof (induction xs arbitrary: cfg bm)
  case (Cons x xs)
  obtain c1 b1 where 1: "stp_instance_one J x (cfg, bm) = Some (0, c1, b1)"
    and rest: "loop_ret (stp_instance_one J) xs (c1, b1) = Some (0, cfg', bm')"
    using Cons.prems by (auto elim!: bindE split: if_splits)
  obtain i where i: "stp_id J x = Some (int i)" "i < MAX_VLANS" "i \<notin> bm_set bm"
    "bm_set b1 = insert i (bm_set bm)"
    using stp_instance_step[OF 1] by blast
  have "distinct (map (stp_id J) xs)"
    "\<forall>y \<in> set xs. \<exists>j. stp_id J y = Some (int j) \<and> j < MAX_VLANS \<and> j \<notin> insert i (bm_set bm)"
    using Cons.IH[OF rest] i(4) by auto
  then show ?case using i by fastforce
qed simp

text \<open>Spanning tree instances: when the list of instances is accepted, the instances are in range
  and no identifier occurs twice.\<close>

theorem stp_instances_unique:
  assumes "loop_ret (stp_instance_one J) xs (cfg, bitmap_zero MAX_VLANS) = Some (0, cfg', bm')"
  shows "distinct (map (stp_id J) xs) \<and> (\<forall>x \<in> set xs. \<exists>i < MAX_VLANS. stp_id J x = Some (int i))"
  using stp_loop_ids[OF assms] by blast

theorem stp_instances_unique_witness:
  "\<exists>cfg' bm'. loop_ret (stp_instance_one json_api) [JObj [(''id'', JNum 1)], JObj [(''id'', JNum 7)]]
       (cfg_zero, bitmap_zero MAX_VLANS) = Some (0, cfg', bm') \<and>
     distinct (map (stp_id json_api) [JObj [(''id'', JNum 1)], JObj [(''id'', JNum 7)]])"
proof -
  let ?r = "loop_ret (stp_instance_one json_api) [JObj [(''id'', JNum 1)], JObj [(''id'', JNum 7)]]
       (cfg_zero, bitmap_zero MAX_VLANS)"
  have "map_option fst ?r = Some 0" by code_simp
  then obtain cfg' bm' where r: "?r = Some (0, cfg', bm')" by auto
  then show ?thesis using stp_instances_unique[OF r] by blast
qed

end
