(* ===== verification/Est_Client.thy ===== *)
theory Est_Client
  imports Prelude
begin

text \<open>
  The enrolment client (\<open>est-client.c\<close>): certificates are requested from a server, converted and saved.
  The cryptographic library and the web client are parameters: \<open>openssl\<close> is a record of the
  library functions the file calls, \<open>http\<close> is what a request delivers, as the pieces handed to
  the write callback and whether the transfer went well. The file system is a map from paths
  to contents. Error codes are the source's; the error text is kept in its buffer of 512 bytes.
\<close>

section \<open>State\<close>

definition EST_SUCCESS :: int where "EST_SUCCESS = 0"
definition EST_ERROR_GENERAL :: int where "EST_ERROR_GENERAL = - 1"
definition EST_ERROR_NETWORK :: int where "EST_ERROR_NETWORK = - 2"
definition EST_ERROR_CRYPTO :: int where "EST_ERROR_CRYPTO = - 3"
definition EST_ERROR_MEMORY :: int where "EST_ERROR_MEMORY = - 4"
definition EST_ERROR_INVALID :: int where "EST_ERROR_INVALID = - 5"

lemmas est_codes = EST_SUCCESS_def EST_ERROR_GENERAL_def EST_ERROR_NETWORK_def EST_ERROR_CRYPTO_def
  EST_ERROR_MEMORY_def EST_ERROR_INVALID_def

text \<open>\<open>d2i_PKCS7\<close> yields the certificates of a container, or \<open>Some None\<close> for a container of another kind or
  without certificates. \<open>sign_request\<close> is \<open>X509_REQ_sign\<close> and the encoding of the request.\<close>

record ('x, 'n, 'k) openssl =
  PEM_read_X509 :: "string \<Rightarrow> 'x option"
  X509_get_issuer_name :: "'x \<Rightarrow> 'n option"
  X509_get_subject_name :: "'x \<Rightarrow> 'n option"
  X509_NAME_oneline :: "'n \<Rightarrow> string option"
  X509_NAME_dup :: "'n \<Rightarrow> 'n option"
  PEM_read_PrivateKey :: "string \<Rightarrow> 'k option"
  X509_REQ_new :: bool
  sign_request :: "'n \<Rightarrow> 'k \<Rightarrow> string option"
  BIO_new :: bool
  i2d_ok :: bool
  b64_write :: "string \<Rightarrow> string"
  d2i_PKCS7 :: "string \<Rightarrow> 'x list option option"
  PEM_write_X509 :: "'x \<Rightarrow> string option"
  malloc_ok :: "nat \<Rightarrow> bool"

type_synonym http = "string \<Rightarrow> string \<Rightarrow> string option \<Rightarrow> (string list \<times> bool) option"

text \<open>Writing a file: whether it can be opened, and how much of the data is written.\<close>

record est_state =
  est_error_msg :: string
  files :: "string \<rightharpoonup> string"
  can_create :: "string \<Rightarrow> bool"
  written :: "string \<Rightarrow> nat"

definition est_set_error :: "string \<Rightarrow> est_state \<Rightarrow> est_state" where
  "est_set_error m s = s\<lparr>est_error_msg := snprintf_s 512 m\<rparr>"

definition est_get_error :: "est_state \<Rightarrow> string" where
  "est_get_error s = (if est_error_msg s = [] then ''Unknown error'' else est_error_msg s)"

section \<open>The server\<close>

definition EST_SERVER_PROD :: string where "EST_SERVER_PROD = ''est.certificates.open-lan.org''"
definition EST_SERVER_QA :: string where "EST_SERVER_QA = ''qaest.certificates.open-lan.org:8001''"

fun strstr :: "string \<Rightarrow> string \<Rightarrow> bool" where
  "strstr [] needle \<longleftrightarrow> needle = []"
| "strstr (c # cs) needle \<longleftrightarrow> take (length needle) (c # cs) = needle \<or> strstr cs needle"

definition est_get_cert_issuer ::
  "('x, 'n, 'k) openssl \<Rightarrow> string \<Rightarrow> est_state \<Rightarrow> string option \<times> est_state" where
  "est_get_cert_issuer C path s =
     (case files s path of
        None \<Rightarrow> (None, est_set_error (''Cannot open certificate: '' @ path) s)
      | Some f \<Rightarrow>
          (case PEM_read_X509 C f of
             None \<Rightarrow> (None, est_set_error ''Failed to parse certificate'' s)
           | Some cert \<Rightarrow>
               (case X509_get_issuer_name C cert of
                  None \<Rightarrow> (None, est_set_error ''Failed to get certificate issuer'' s)
                | Some issuer \<Rightarrow> (X509_NAME_oneline C issuer, s))))"

text \<open>\<open>est_server\<close> is the environment variable of that name.\<close>

definition est_get_server_url ::
  "('x, 'n, 'k) openssl \<Rightarrow> string option \<Rightarrow> string \<Rightarrow> est_state \<Rightarrow> string \<times> est_state" where
  "est_get_server_url C est_server path s =
     (case est_server of
        Some (c # cs) \<Rightarrow> (c # cs, s)
      | _ \<Rightarrow>
          let (issuer, s) = est_get_cert_issuer C path s in
          (case issuer of
             None \<Rightarrow> EST_SERVER_PROD
           | Some i \<Rightarrow>
               if strstr i ''OpenLAN Demo Birth CA'' then EST_SERVER_QA
               else if strstr i ''OpenLAN Birth Issuing CA'' then EST_SERVER_PROD
               else EST_SERVER_PROD, s))"

section \<open>Requests and answers\<close>

definition est_generate_csr ::
  "('x, 'n, 'k) openssl \<Rightarrow> string \<Rightarrow> string \<Rightarrow> est_state \<Rightarrow> (int \<times> string) \<times> est_state" where
  "est_generate_csr C cert_path key_path s =
     (case files s cert_path of
        None \<Rightarrow> ((EST_ERROR_GENERAL, []), est_set_error (''Cannot open certificate: '' @ cert_path) s)
      | Some f \<Rightarrow> (case PEM_read_X509 C f of
        None \<Rightarrow> ((EST_ERROR_CRYPTO, []), est_set_error ''Failed to parse certificate'' s)
      | Some cert \<Rightarrow> (case X509_get_subject_name C cert of
        None \<Rightarrow> ((EST_ERROR_CRYPTO, []), est_set_error ''Failed to get certificate subject'' s)
      | Some subject \<Rightarrow> (case X509_NAME_dup C subject of
        None \<Rightarrow> ((EST_ERROR_MEMORY, []), est_set_error ''Failed to duplicate subject name'' s)
      | Some subject_dup \<Rightarrow> (case files s key_path of
        None \<Rightarrow> ((EST_ERROR_GENERAL, []), est_set_error (''Cannot open private key: '' @ key_path) s)
      | Some k \<Rightarrow> (case PEM_read_PrivateKey C k of
        None \<Rightarrow> ((EST_ERROR_CRYPTO, []), est_set_error ''Failed to parse private key'' s)
      | Some pkey \<Rightarrow>
          if \<not> X509_REQ_new C then ((EST_ERROR_MEMORY, []), est_set_error ''Failed to create CSR'' s)
          else (case sign_request C subject_dup pkey of
            None \<Rightarrow> ((EST_ERROR_CRYPTO, []), est_set_error ''Failed to sign CSR'' s)
          | Some der \<Rightarrow>
              if \<not> BIO_new C then ((EST_ERROR_MEMORY, []), est_set_error ''Failed to create BIO'' s)
              else if \<not> i2d_ok C then ((EST_ERROR_CRYPTO, []), est_set_error ''Failed to write CSR'' s)
              else let csr = b64_write C der in
                if \<not> malloc_ok C (length csr + 1) then ((EST_ERROR_MEMORY, []), est_set_error ''Out of memory'' s)
                else ((EST_SUCCESS, csr), s))))))))"

fun write_certs :: "('x, 'n, 'k) openssl \<Rightarrow> 'x list \<Rightarrow> string option" where
  "write_certs C [] = Some []"
| "write_certs C (c # cs) = do { p \<leftarrow> PEM_write_X509 C c; ps \<leftarrow> write_certs C cs; Some (p @ ps) }"

text \<open>A null answer is \<open>None\<close>.\<close>

definition est_pkcs7_to_pem ::
  "('x, 'n, 'k) openssl \<Rightarrow> string option \<Rightarrow> est_state \<Rightarrow> (int \<times> string) \<times> est_state" where
  "est_pkcs7_to_pem C pkcs7 s =
     (case pkcs7 of
        None \<Rightarrow> ((EST_ERROR_INVALID, []), est_set_error ''Invalid arguments'' s)
      | Some d \<Rightarrow>
          if d = [] then ((EST_ERROR_INVALID, []), est_set_error ''Invalid arguments'' s)
          else (case d2i_PKCS7 C d of
            None \<Rightarrow> ((EST_ERROR_CRYPTO, []), est_set_error ''Failed to parse PKCS#7 data'' s)
          | Some certs \<Rightarrow>
              if certs = None \<or> certs = Some []
              then ((EST_ERROR_CRYPTO, []), est_set_error ''No certificates in PKCS#7'' s)
              else if \<not> BIO_new C then ((EST_ERROR_MEMORY, []), est_set_error ''Failed to create output BIO'' s)
              else (case write_certs C (the certs) of
                None \<Rightarrow> ((EST_ERROR_CRYPTO, []), est_set_error ''Failed to write certificate'' s)
              | Some pem \<Rightarrow>
                  if \<not> malloc_ok C (length pem + 1) then ((EST_ERROR_MEMORY, []), est_set_error ''Out of memory'' s)
                  else ((EST_SUCCESS, pem), s))))"

text \<open>The write callback: the answer grows by the piece, or 0 is returned and the transfer fails.\<close>

definition est_write_callback ::
  "('x, 'n, 'k) openssl \<Rightarrow> string \<Rightarrow> string option \<times> est_state \<Rightarrow> nat \<times> string option \<times> est_state" where
  "est_write_callback C contents = (\<lambda>(mem, s).
     let old = (case mem of None \<Rightarrow> [] | Some d \<Rightarrow> d) in
     if \<not> malloc_ok C (length old + length contents + 1) then (0, mem, est_set_error ''Out of memory'' s)
     else (length contents, Some (old @ contents), s))"

fun est_receive ::
  "('x, 'n, 'k) openssl \<Rightarrow> string list \<Rightarrow> string option \<times> est_state \<Rightarrow> bool \<times> string option \<times> est_state" where
  "est_receive C [] ms = (True, ms)"
| "est_receive C (p # ps) ms =
     (let (n, ms) = est_write_callback C p ms in if n \<noteq> length p then (False, ms) else est_receive C ps ms)"

definition est_http_request ::
  "('x, 'n, 'k) openssl \<Rightarrow> http \<Rightarrow> string \<Rightarrow> string \<Rightarrow> string option \<Rightarrow> est_state \<Rightarrow>
   (int \<times> string option) \<times> est_state" where
  "est_http_request C http url cert post_data s =
     (case http url cert post_data of
        None \<Rightarrow> ((EST_ERROR_GENERAL, None), est_set_error ''Failed to initialize CURL'' s)
      | Some (pieces, ok) \<Rightarrow>
          let (all, response, s) = est_receive C pieces (None, s) in
          if \<not> all \<or> \<not> ok then ((EST_ERROR_NETWORK, None), est_set_error ''CURL error: '' s)
          else ((EST_SUCCESS, response), s))"

definition EST_PATH_SIMPLEENROLL :: string where "EST_PATH_SIMPLEENROLL = ''/.well-known/est/simpleenroll''"
definition EST_PATH_SIMPLEREENROLL :: string where "EST_PATH_SIMPLEREENROLL = ''/.well-known/est/simplereenroll''"
definition EST_PATH_CACERTS :: string where "EST_PATH_CACERTS = ''/.well-known/est/cacerts''"

definition est_url :: "string \<Rightarrow> string \<Rightarrow> string" where
  "est_url server path = snprintf_s 512 (''https://'' @ server @ path)"

text \<open>Enrolment and renewal are the same steps at different paths.\<close>

definition est_enroll_at ::
  "string \<Rightarrow> ('x, 'n, 'k) openssl \<Rightarrow> http \<Rightarrow> string \<Rightarrow> string \<Rightarrow> string \<Rightarrow> est_state \<Rightarrow>
   (int \<times> string) \<times> est_state" where
  "est_enroll_at path C http server cert key s =
     (let ((ret, csr), s) = est_generate_csr C cert key s in
      if ret \<noteq> EST_SUCCESS then ((ret, []), s)
      else
        let ((ret, response), s) = est_http_request C http (est_url server path) cert
              (if csr = [] then None else Some csr) s in
        if ret \<noteq> EST_SUCCESS then ((ret, []), s) else est_pkcs7_to_pem C response s)"

definition est_simple_enroll ::
  "('x, 'n, 'k) openssl \<Rightarrow> http \<Rightarrow> string \<Rightarrow> string \<Rightarrow> string \<Rightarrow> est_state \<Rightarrow> (int \<times> string) \<times> est_state" where
  "est_simple_enroll = est_enroll_at EST_PATH_SIMPLEENROLL"

definition est_simple_reenroll ::
  "('x, 'n, 'k) openssl \<Rightarrow> http \<Rightarrow> string \<Rightarrow> string \<Rightarrow> string \<Rightarrow> est_state \<Rightarrow> (int \<times> string) \<times> est_state" where
  "est_simple_reenroll = est_enroll_at EST_PATH_SIMPLEREENROLL"

definition est_get_cacerts ::
  "('x, 'n, 'k) openssl \<Rightarrow> http \<Rightarrow> string \<Rightarrow> string \<Rightarrow> est_state \<Rightarrow> (int \<times> string) \<times> est_state" where
  "est_get_cacerts C http server cert s =
     (let ((ret, response), s) = est_http_request C http (est_url server EST_PATH_CACERTS) cert None s in
      if ret \<noteq> EST_SUCCESS then ((ret, []), s) else est_pkcs7_to_pem C response s)"

text \<open>Opening the file for writing empties it; what was written before a failure stays.\<close>

definition est_save_cert :: "string \<Rightarrow> string \<Rightarrow> est_state \<Rightarrow> int \<times> est_state" where
  "est_save_cert cert_data path s =
     (if cert_data = [] then (EST_ERROR_INVALID, est_set_error ''Invalid arguments'' s)
      else if \<not> can_create s path then (EST_ERROR_GENERAL, est_set_error (''Cannot create file: '' @ path) s)
      else
        let n = min (written s cert_data) (length cert_data);
            s = s\<lparr>files := (files s)(path \<mapsto> take n cert_data)\<rparr>
        in if n \<noteq> length cert_data
           then (EST_ERROR_GENERAL, est_set_error (''Failed to write to file: '' @ path) s)
           else (EST_SUCCESS, s))"

section \<open>Properties\<close>

lemma est_error_files [simp]:
  "files (est_set_error m s) = files s" "can_create (est_set_error m s) = can_create s"
  "written (est_set_error m s) = written s"
  by (simp_all add: est_set_error_def)

text \<open>The answer is the pieces in a row.\<close>

definition bytes_of :: "string option \<Rightarrow> string" where
  "bytes_of m = (case m of None \<Rightarrow> [] | Some d \<Rightarrow> d)"

lemma bytes_of_simps [simp]: "bytes_of None = []" "bytes_of (Some d) = d"
  by (simp_all add: bytes_of_def)

lemma est_receive_all:
  assumes "est_receive C ps (mem, s) = (all, mem', s')"
  shows "files s' = files s \<and> (all \<longrightarrow> bytes_of mem' = bytes_of mem @ concat ps)"
  using assms
proof (induction ps arbitrary: mem s)
  case (Cons p ps)
  obtain n m t where c: "est_write_callback C p (mem, s) = (n, m, t)" by (cases "est_write_callback C p (mem, s)")
  then have "files t = files s" "n = length p \<Longrightarrow> bytes_of m = bytes_of mem @ p"
    by (auto simp: est_write_callback_def Let_def bytes_of_def split: if_splits option.splits)
  then show ?case using Cons.IH[of m t] Cons.prems c by (auto split: if_splits)
qed simp

lemma est_http_success:
  assumes "est_http_request C http url cert post s = ((ret, resp), s')"
  shows "files s' = files s \<and> (ret = EST_SUCCESS \<longrightarrow>
    (\<exists>ps. http url cert post = Some (ps, True) \<and> bytes_of resp = concat ps))"
  using assms est_receive_all[of C _ None s]
  by (fastforce simp: est_http_request_def est_codes split: option.splits prod.splits if_splits)

lemma est_pem_success:
  assumes "est_pkcs7_to_pem C d s = ((ret, pem), s')"
  shows "files s' = files s \<and> (ret = EST_SUCCESS \<longrightarrow>
    (\<exists>certs. d2i_PKCS7 C (bytes_of d) = Some (Some certs) \<and> certs \<noteq> [] \<and> write_certs C certs = Some pem))"
  using assms by (auto simp: est_pkcs7_to_pem_def est_codes Let_def split: option.splits if_splits)

lemma est_csr_success:
  assumes "est_generate_csr C cert key s = ((ret, csr), s')"
  shows "files s' = files s \<and> (ret = EST_SUCCESS \<longrightarrow>
    (\<exists>f x n n' k pk der. files s cert = Some f \<and> PEM_read_X509 C f = Some x \<and> X509_get_subject_name C x = Some n \<and>
       X509_NAME_dup C n = Some n' \<and> files s key = Some k \<and> PEM_read_PrivateKey C k = Some pk \<and>
       sign_request C n' pk = Some der \<and> csr = b64_write C der))"
  using assms by (auto simp: est_generate_csr_def est_codes Let_def split: option.splits if_splits)

text \<open>None of the requests touches a file; saving writes its own.\<close>

lemma est_server_files: "est_get_server_url C v path s = (server, s') \<Longrightarrow> files s' = files s"
  by (auto simp: est_get_server_url_def est_get_cert_issuer_def Let_def split: option.splits list.splits prod.splits)

lemma est_enroll_files:
  assumes "est_enroll_at path C http server cert key s = ((ret, pem), s')"
  shows "files s' = files s"
proof -
  obtain r1 csr s1 where g: "est_generate_csr C cert key s = ((r1, csr), s1)" by (metis prod.exhaust_sel)
  obtain r2 resp s2 where h: "est_http_request C http (est_url server path) cert (if csr = [] then None else Some csr) s1 =
      ((r2, resp), s2)" by (metis prod.exhaust_sel)
  show ?thesis
    using assms est_csr_success[OF g] est_http_success[OF h] est_pem_success[of C resp s2 ret pem s']
    unfolding est_enroll_at_def g Let_def prod.case h by (auto split: if_splits)
qed

lemma est_cacerts_files:
  assumes "est_get_cacerts C http server cert s = ((ret, pem), s')"
  shows "files s' = files s"
proof -
  obtain r2 resp s2 where h: "est_http_request C http (est_url server EST_PATH_CACERTS) cert None s = ((r2, resp), s2)"
    by (metis prod.exhaust_sel)
  show ?thesis
    using assms est_http_success[OF h] est_pem_success[of C resp s2 ret pem s']
    unfolding est_get_cacerts_def Let_def prod.case h by (auto split: if_splits)
qed

lemma est_save_files:
  assumes "est_save_cert d path s = (ret, s')"
  shows "\<forall>p. p \<noteq> path \<longrightarrow> files s' p = files s p" "files s path \<noteq> None \<or> ret = EST_SUCCESS \<Longrightarrow> files s' path \<noteq> None"
  using assms by (auto simp: est_save_cert_def est_codes Let_def split: if_splits)


text \<open>A library that accepts everything, for examples.\<close>

definition demo_ssl :: "(string, string, string) openssl" where
  "demo_ssl = \<lparr>PEM_read_X509 = Some, X509_get_issuer_name = Some, X509_get_subject_name = Some,
     X509_NAME_oneline = Some, X509_NAME_dup = Some, PEM_read_PrivateKey = Some, X509_REQ_new = True,
     sign_request = (\<lambda>n k. Some (n @ k)), BIO_new = True, i2d_ok = True, b64_write = (\<lambda>d. d),
     d2i_PKCS7 = (\<lambda>d. Some (Some [d])), PEM_write_X509 = Some, malloc_ok = (\<lambda>_. True)\<rparr>"

definition demo_est :: est_state where
  "demo_est = \<lparr>est_error_msg = [],
     files = [''/etc/ucentral/cert.pem'' \<mapsto> ''BIRTH'', ''/etc/ucentral/key.pem'' \<mapsto> ''KEY''],
     can_create = (\<lambda>_. True), written = length\<rparr>"


end
