(* ===== verification/Proto_Handlers.thy ===== *)
theory Proto_Handlers
  imports Cfg_Wf Est_Client
begin

text \<open>
  The JSON-RPC handlers of \<open>proto.c\<close> and their dispatcher. A handler maps the protocol state to
  the state it leaves; \<open>None\<close> is undefined behaviour, which for these functions is a null
  string handed to \<open>strcmp\<close> or a number that does not fit the integer it is converted to.
\<close>

section \<open>Requests\<close>

record 'j rpc =
  rpc_ver :: "'j option"
  rpc_method :: "'j option"
  rpc_error :: "'j option"
  rpc_params :: "'j option"
  rpc_id :: "'j option"

definition rpc_id_value :: "'j cjson \<Rightarrow> 'j rpc \<Rightarrow> dbl" where
  "rpc_id_value J rpc = (if rpc_id rpc = None then Fin 0 else cJSON_GetNumberValue J (rpc_id rpc))"

text \<open>A reply whose identifier is an \<open>uint32_t\<close> parameter: the value is converted on the call.\<close>

definition reply_to ::
  "('j, 'p) env \<Rightarrow> 'j rpc \<Rightarrow> u32 \<Rightarrow> string \<Rightarrow> u32 \<Rightarrow> 'p proto_state \<Rightarrow> 'p proto_state option" where
  "reply_to E rpc error text retcode s =
     do { i \<leftarrow> dbl_to_word (rpc_id_value (cj E) rpc); Some (action_reply E error text retcode i s) }"

text \<open>The reply of \<open>ping\<close>, \<open>rtty\<close> and of methods that are not implemented.\<close>

definition success_doc :: "('j, 'p) env \<Rightarrow> 'j rpc \<Rightarrow> 'p proto_state \<Rightarrow> jdoc" where
  "success_doc E rpc s =
     result_new_blob E (rpc_id_value (cj E) rpc) (uuid_active s)
       [(''status'', DObj [(''text'', DStr (Some ''Success'')), (''error'', dnum 0)])]"

section \<open>configure\<close>

definition CONFIGURE_STATUS_REJECTED :: u32 where "CONFIGURE_STATUS_REJECTED = 2"
definition CONFIGURE_STATUS_APPLIED :: u32 where "CONFIGURE_STATUS_APPLIED = 0"

text \<open>An interval passed as the \<open>int\<close> period of a poll.\<close>

definition poll_period :: "u64 \<Rightarrow> int" where
  "poll_period iv = sint (ucast iv :: 32 word)"

definition call_plat :: "('p \<Rightarrow> int \<times> 'p) \<Rightarrow> 'p proto_state \<Rightarrow> 'p proto_state" where
  "call_plat f s = snd (with_plat f s)"

text \<open>Stopping the polls and starting those the metrics ask for.\<close>

definition apply_metrics :: "('j, 'p) env \<Rightarrow> plat_metrics_cfg \<Rightarrow> 'p proto_state \<Rightarrow> 'p proto_state" where
  "apply_metrics E m s =
     (let s = on_plat (plat_state_poll_stop (api E)) s;
          s = on_plat (plat_health_poll_stop (api E)) s;
          s = on_plat (plat_telemetry_poll_stop (api E)) s;
          s = s\<lparr>metrics := m\<rparr>;
          s = (if state_enabled (m_state m)
               then on_plat (plat_state_poll (api E) (poll_period (state_interval (m_state m)))) s else s);
          s = (if healthcheck_enabled m
               then on_plat (plat_health_poll (api E) (poll_period (healthcheck_interval m))) s else s)
      in if telemetry_enabled m
         then on_plat (plat_telemetry_poll (api E) (poll_period (telemetry_interval m))) s else s)"

text \<open>What follows a successful apply: the identifier, what is saved, the password, the metrics.\<close>

definition configure_commit ::
  "('j, 'p) env \<Rightarrow> plat_cfg \<Rightarrow> 'p proto_state \<Rightarrow> 'p proto_state option" where
  "configure_commit E cfg s =
     (let s = s\<lparr>uuid_active := uuid_latest s\<rparr>;
          s = call_plat (plat_config_save (api E) (word_of_int (uuid_active s))) s;
          s = call_plat (plat_metrics_save (api E) (metrics_cfg cfg)) s
      in do {
        s \<leftarrow> (if password_changed (unit_cfg cfg)
             then do { p \<leftarrow> cstr 64 (system_password (unit_cfg cfg)); Some (deviceupdate_send E (Some p) s) }
             else Some s);
        Some (apply_metrics E (metrics_cfg cfg) s)
      })"

text \<open>Applying a parsed configuration, and the reply with what the platform logged.\<close>

definition configure_apply ::
  "('j, 'p) env \<Rightarrow> plat_cfg \<Rightarrow> dbl \<Rightarrow> 'p proto_state \<Rightarrow> 'p proto_state option" where
  "configure_apply E cfg rid s =
     do {
       let s = on_plat (plat_log_flush (api E)) s;
       i \<leftarrow> dbl_to_word rid;
       let (ret, s) = with_plat (plat_config_apply (api E) cfg i) s;
       s \<leftarrow> (if ret \<noteq> 0 then Some (call_plat (plat_config_restore (api E)) s) else configure_commit E cfg s);
       let s = on_plat (plat_config_destroy (api E) cfg) s;
       let (log_msg, s) = with_plat (plat_log_pop_concatenate (api E)) s;
       Some (configure_reply E (if ret \<noteq> 0 then CONFIGURE_STATUS_REJECTED else CONFIGURE_STATUS_APPLIED)
               (case log_msg of None \<Rightarrow> [] | Some m \<Rightarrow> m) (uuid_latest s) rid s)
     }"

text \<open>The part before parsing: the compression flag and the identifier of the request.\<close>

definition configure_begin :: "'j cjson \<Rightarrow> 'j rpc \<Rightarrow> 'p proto_state \<Rightarrow> 'p proto_state option" where
  "configure_begin J rpc s =
     (let ps = rpc_params rpc; compress = item J ps ''compress'';
          s = (if compress \<noteq> None \<and> cJSON_IsBool J compress
               then s\<lparr>state_compress := cJSON_IsTrue J compress\<rparr> else s)
      in do {
        u \<leftarrow> dbl_to_int 64 (cJSON_GetNumberValue J (item J ps ''uuid''));
        Some (s\<lparr>uuid_latest := u\<rparr>)
      })"

definition configure_handle :: "('j, 'p) env \<Rightarrow> 'j rpc \<Rightarrow> 'p proto_state \<Rightarrow> 'p proto_state option" where
  "configure_handle E rpc s =
     (let J = cj E; ps = rpc_params rpc; rid = rpc_id_value J rpc in
      if item J ps ''uuid'' = None \<or> item J ps ''serial'' = None \<or> item J ps ''config'' = None
      then Some (configure_reply E CONFIGURE_STATUS_REJECTED ''invalid parameters'' 0 rid s)
      else do {
        s \<leftarrow> configure_begin J rpc s;
        (c, s) \<leftarrow> cfg_parse E (item J ps ''config'') s;
        (case c of
           None \<Rightarrow> Some (configure_reply E CONFIGURE_STATUS_REJECTED ''Configure parse failed'' 0 rid s)
         | Some cfg \<Rightarrow> configure_apply E cfg rid s)
      })"

section \<open>reboot, factory, ping, re-enrolment\<close>

text \<open>The shape of \<open>reboot\<close> and \<open>factory\<close>: a platform call and a reply.\<close>

definition plat_action ::
  "('j, 'p) env \<Rightarrow> ('p \<Rightarrow> int \<times> 'p) \<Rightarrow> string \<Rightarrow> string \<Rightarrow> 'j rpc \<Rightarrow> 'p proto_state \<Rightarrow> 'p proto_state option" where
  "plat_action E f failed okay rpc s =
     (if item (cj E) (rpc_params rpc) ''serial'' = None then reply_to E rpc 1 ''invalid parameters'' 1 s
      else
        let (ret, s) = with_plat f s in
        if ret \<noteq> 0 then reply_to E rpc 1 failed 1 s else reply_to E rpc 0 okay 0 s)"

definition reboot_handle :: "('j, 'p) env \<Rightarrow> 'j rpc \<Rightarrow> 'p proto_state \<Rightarrow> 'p proto_state option" where
  "reboot_handle E = plat_action E (plat_reboot (api E)) ''reboot failed'' ''Reboot requested successfully''"

definition factory_handle :: "('j, 'p) env \<Rightarrow> 'j rpc \<Rightarrow> 'p proto_state \<Rightarrow> 'p proto_state option" where
  "factory_handle E = plat_action E (plat_factory_default (api E)) ''factory failed'' ''factory requested successfully''"

text \<open>The file is truncated when it is opened; what could be written stays in it.\<close>

definition reenroll_handle :: "('j, 'p) env \<Rightarrow> 'j rpc \<Rightarrow> 'p proto_state \<Rightarrow> 'p proto_state option" where
  "reenroll_handle E rpc s =
     (if item (cj E) (rpc_params rpc) ''serial'' = None then reply_to E rpc 1 ''invalid parameters'' 1 s
      else if est_server_of E = None then reply_to E rpc 1 ''Failed to detect EST server'' 1 s
      else
        let (ret, cert) = est_reenroll E in
        if ret \<noteq> EST_SUCCESS then reply_to E rpc 1 ''Certificate reenrollment failed'' 1 s
        else if \<not> cert_fopen E then reply_to E rpc 1 ''Failed to save renewed certificate'' 1 s
        else
          let n = cert_fwrite E cert; s = s\<lparr>operational_cert := take n cert\<rparr> in
          if n \<noteq> length cert then reply_to E rpc 1 ''Failed to save renewed certificate'' 1 s
          else reply_to E rpc 0 ''Certificate reenrollment successful, restarting in 10 seconds'' 0
                 (s\<lparr>restart_alarm := Some 10\<rparr>))"

definition ping_handle :: "('j, 'p) env \<Rightarrow> 'j rpc \<Rightarrow> 'p proto_state \<Rightarrow> 'p proto_state" where
  "ping_handle E rpc s = send_doc E (success_doc E rpc s) s"

definition generic_handle :: "('j, 'p) env \<Rightarrow> 'j rpc \<Rightarrow> 'p proto_state \<Rightarrow> 'p proto_state" where
  "generic_handle E rpc s = send_doc E (success_doc E rpc s) s"

section \<open>rtty\<close>

definition rtty_parse ::
  "('j, 'p) env \<Rightarrow> 'j option \<Rightarrow> 'p proto_state \<Rightarrow> (plat_rtty_cfg option \<times> 'p proto_state) option" where
  "rtty_parse E ps s =
     (let J = cj E; g = item J ps in
      if g ''serial'' = None \<or> g ''token'' = None \<or> g ''id'' = None \<or> g ''server'' = None \<or>
         g ''port'' = None \<or> g ''user'' = None \<or> g ''timeout'' = None \<or> g ''password'' = None
      then Some (None, s)
      else
        let (ok, s) = try_alloc E s in
        if \<not> ok then Some (None, s)
        else do {
          i \<leftarrow> strcpy 64 (cJSON_GetStringValue J (g ''id''));
          pw \<leftarrow> strcpy 64 (cJSON_GetStringValue J (g ''password''));
          sr \<leftarrow> strcpy 64 (cJSON_GetStringValue J (g ''serial''));
          sv \<leftarrow> strcpy 64 (cJSON_GetStringValue J (g ''server''));
          tk \<leftarrow> strcpy 64 (cJSON_GetStringValue J (g ''token''));
          us \<leftarrow> strcpy 64 (cJSON_GetStringValue J (g ''user''));
          pt \<leftarrow> dbl_to_word (cJSON_GetNumberValue J (g ''port''));
          tm \<leftarrow> dbl_to_word (cJSON_GetNumberValue J (g ''timeout''));
          Some (Some \<lparr>rtty_id = i, rtty_passwd = pw, rtty_serial = sr, rtty_server = sv,
                      rtty_token = tk, rtty_user = us, rtty_port = pt, rtty_timeout = tm\<rparr>, s)
        })"

text \<open>The success reply is built first and sent last.\<close>

definition rtty_handle :: "('j, 'p) env \<Rightarrow> 'j rpc \<Rightarrow> 'p proto_state \<Rightarrow> 'p proto_state option" where
  "rtty_handle E rpc s =
     (let d = success_doc E rpc s; (ok, s) = build E d s in
      if \<not> ok then Some s
      else do {
        (c, s) \<leftarrow> rtty_parse E (rpc_params rpc) s;
        (case c of
           None \<Rightarrow> reply_to E rpc 1 ''RTTY cmd parse failed'' 1 s
         | Some cfg \<Rightarrow>
             let (ret, s) = with_plat (plat_rtty (api E) cfg) s in
             if ret \<noteq> 0 then reply_to E rpc 1 ''RTTY cmd execution failed'' 1 s
             else Some (send_blob E d s))
      })"

section \<open>upgrade\<close>

text \<open>The states of an upgrade, by their number in \<open>enum upgrade_status\<close>; the return value tells the
  poll whether to go on (0) or to stop (1).\<close>

definition upgrade_status_send ::
  "('j, 'p) env \<Rightarrow> int \<Rightarrow> int \<Rightarrow> 'p proto_state \<Rightarrow> int \<times> 'p proto_state" where
  "upgrade_status_send E operation percentage s =
     (if operation = 0 then
        (0, (event_firmware_upgrade_send E ''idle'' (- 1) None s)\<lparr>last_operation := 0\<rparr>)
      else if operation = 1 then
        (0, (event_firmware_upgrade_send E ''download'' percentage None s)\<lparr>last_operation := 1\<rparr>)
      else if operation = 2 then
        (0, (event_firmware_upgrade_send E ''install'' (- 1) None s)\<lparr>last_operation := 2\<rparr>)
      else if operation = 3 then
        (1, (event_firmware_upgrade_send E ''fail'' (- 1) None s)\<lparr>last_operation := 3\<rparr>)
      else if operation = 4 then
        (let s = (if last_operation s = 1 then event_firmware_upgrade_send E ''install'' (- 1) None s else s);
             s = event_firmware_upgrade_send E ''success'' (- 1) None s
         in (1, call_plat (plat_reboot (api E)) s))
      else (0, s))"

definition upgrade_handle :: "('j, 'p) env \<Rightarrow> 'j rpc \<Rightarrow> 'p proto_state \<Rightarrow> 'p proto_state option" where
  "upgrade_handle E rpc s =
     (let J = cj E; ps = rpc_params rpc; uri = item J ps ''uri''; sign = item J ps ''FWsignature'' in
      if item J ps ''serial'' = None then reply_to E rpc 1 ''invalid parameters'' 1 s
      else case cJSON_GetStringValue J uri of
        None \<Rightarrow> reply_to E rpc 1 ''invalid parameters'' 1 s
      | Some u \<Rightarrow>
          let (ret, s) = with_plat (plat_upgrade (api E) u (cJSON_GetStringValue J sign)) s in
          if ret \<noteq> 0 then reply_to E rpc 1 ''upgrade failed'' 1 s
          else do {
            s \<leftarrow> reply_to E rpc 0 ''upgrade requested successfully'' 0 s;
            Some (on_plat (plat_upgrade_poll (api E) 1) s)
          })"

section \<open>telemetry\<close>

definition telemetry_handle :: "('j, 'p) env \<Rightarrow> 'j rpc \<Rightarrow> 'p proto_state \<Rightarrow> 'p proto_state option" where
  "telemetry_handle E rpc s =
     (let J = cj E; ps = rpc_params rpc; iv = item J ps ''interval'';
          interval = (if iv = None then Fin 0 else cJSON_GetNumberValue J iv)
      in
      if item J ps ''serial'' = None \<or> (dbl_true interval \<and> item J ps ''types'' = None)
      then reply_to E rpc 1 ''invalid parameters'' 1 s
      else do {
        let s = on_plat (plat_telemetry_poll_stop (api E)) s;
        w \<leftarrow> dbl_to_word interval;
        let s = s\<lparr>metrics := (metrics s)\<lparr>telemetry_interval := w, telemetry_enabled := dbl_true interval\<rparr>\<rparr>;
        let s = (if dbl_true interval then on_plat (plat_telemetry_poll (api E) (poll_period w)) s else s);
        reply_to E rpc 0 ''Telemetry configure requested successfully'' 0 s
      })"

section \<open>script\<close>

record plat_run_script_result =
  res_type :: script_type
  res_stdout :: "string option"
  res_exit_status :: int
  res_timeout_exceeded :: bool

text \<open>The callback of a finished script. An upload is attempted for either type; whether it worked
  is only logged.\<close>

definition script_result_cb ::
  "('j, 'p) env \<Rightarrow> int \<Rightarrow> plat_run_script_result \<Rightarrow> u64 \<Rightarrow> string option \<Rightarrow> 'p proto_state \<Rightarrow> 'p proto_state" where
  "script_result_cb E err r cid uri s =
     (if err \<noteq> 0 then action_reply E 1 ''failed to execute script'' 1 (ucast cid) s
      else
        let e = (if res_timeout_exceeded r then 255 else word_of_int (res_exit_status r));
            result = (if uri = None then res_stdout r
                      else if res_timeout_exceeded r then Some ''timed out''
                      else if res_exit_status r \<noteq> 0 then Some ''error'' else Some ''done'');
            s = (case uri of
                   None \<Rightarrow> s
                 | Some u \<Rightarrow> if res_type r = SCRIPT_NA then s else s\<lparr>uploads := uploads s @ [u]\<rparr>)
        in script_reply E e result (ucast cid) s)"

definition script_plat_handle ::
  "('j, 'p) env \<Rightarrow> 'j rpc \<Rightarrow> string option \<Rightarrow> string \<Rightarrow> string option \<Rightarrow> int \<Rightarrow> 'p proto_state \<Rightarrow> 'p proto_state option" where
  "script_plat_handle E rpc script type uri timeout s =
     (if type \<noteq> ''diagnostic'' \<and> \<not> (script \<noteq> None \<and> type = ''shell'')
      then reply_to E rpc 1 ''invalid parameters'' 1 s
      else
        let (ok, s) = try_alloc E s in
        if \<not> ok then Some s
        else do {
          cid \<leftarrow> dbl_to_word (rpc_id_value (cj E) rpc);
          let (uri, s) = (if uri = None then (None, s)
                          else let (ok, s) = try_alloc E s in (if ok then uri else None, s));
          let p = \<lparr>scr_type = (if type = ''diagnostic'' then SCRIPT_DIAGNOSTICS else SCRIPT_SHELL),
                   scr_base64 = script, scr_timeout = timeout, scr_id = cid, scr_uri = uri\<rparr>;
          let (ret, s) = with_plat (plat_run_script (api E) p) s;
          if ret \<noteq> 0 then reply_to E rpc 1 ''failed to start execution'' 1 s
          else if uri = None then Some s
          else do {
            i \<leftarrow> dbl_to_word (rpc_id_value (cj E) rpc);
            Some (script_reply E 0 (Some ''pending'') i s)
          }
        })"

definition script_handle :: "('j, 'p) env \<Rightarrow> 'j rpc \<Rightarrow> 'p proto_state \<Rightarrow> 'p proto_state option" where
  "script_handle E rpc s =
     (let J = cj E; ps = rpc_params rpc;
          timeout = item J ps ''timeout''; uri = item J ps ''uri'';
          serial = cJSON_GetStringValue J (item J ps ''serial'');
          script = cJSON_GetStringValue J (item J ps ''script'')
      in case cJSON_GetStringValue J (item J ps ''type'') of
           None \<Rightarrow> reply_to E rpc 1 ''invalid parameters'' 1 s
         | Some type \<Rightarrow>
             if serial = None \<or> (timeout \<noteq> None \<and> \<not> cJSON_IsNumber J timeout) \<or>
                (uri \<noteq> None \<and> \<not> cJSON_IsString J uri)
             then reply_to E rpc 1 ''invalid parameters'' 1 s
             else do {
               t \<leftarrow> (if timeout = None then Some 0 else dbl_to_int 64 (cJSON_GetNumberValue J timeout));
               script_plat_handle E rpc script type (cJSON_GetStringValue J uri) t s
             })"

section \<open>Dispatch\<close>

definition rpc_of :: "'j cjson \<Rightarrow> 'j \<Rightarrow> 'j rpc" where
  "rpc_of J ob = \<lparr>rpc_ver = item J (Some ob) ''jsonrpc'', rpc_method = item J (Some ob) ''method'',
     rpc_error = item J (Some ob) ''error'', rpc_params = item J (Some ob) ''params'',
     rpc_id = item J (Some ob) ''id''\<rparr>"

definition dispatch :: "('j, 'p) env \<Rightarrow> string \<Rightarrow> 'j rpc \<Rightarrow> 'p proto_state \<Rightarrow> 'p proto_state option" where
  "dispatch E method rpc s =
     (if method = ''configure'' then configure_handle E rpc s
      else if method = ''ping'' then Some (ping_handle E rpc s)
      else if method = ''reboot'' then reboot_handle E rpc s
      else if method = ''reenroll'' then reenroll_handle E rpc s
      else if method = ''factory'' then factory_handle E rpc s
      else if method = ''rtty'' then rtty_handle E rpc s
      else if method = ''upgrade'' then upgrade_handle E rpc s
      else if method = ''telemetry'' then telemetry_handle E rpc s
      else if method = ''script'' then script_handle E rpc s
      else Some (generic_handle E rpc s))"

definition proto_handle_blob :: "('j, 'p) env \<Rightarrow> 'j \<Rightarrow> 'p proto_state \<Rightarrow> 'p proto_state option" where
  "proto_handle_blob E ob s =
     (let J = cj E; rpc = rpc_of J ob; bad = log_send E ''received invalid jsonrpc call'' LOG_ERR s in
      if rpc_ver rpc = None \<or> (rpc_method rpc = None \<and> rpc_error rpc = None) \<or>
         (rpc_method rpc \<noteq> None \<and> rpc_params rpc = None)
      then Some bad
      else do {
        ver \<leftarrow> cJSON_GetStringValue J (rpc_ver rpc);
        if ver \<noteq> ''2.0'' then Some bad
        else if rpc_method rpc = None then Some s
        else do {
          method \<leftarrow> cJSON_GetStringValue J (rpc_method rpc);
          dispatch E method rpc s
        }
      })"

definition proto_handle :: "('j, 'p) env \<Rightarrow> string \<Rightarrow> 'p proto_state \<Rightarrow> 'p proto_state option" where
  "proto_handle E cmd s =
     (case cjson_parse E cmd of None \<Rightarrow> Some s | Some ob \<Rightarrow> proto_handle_blob E ob s)"

definition proto_start :: "('j, 'p) env \<Rightarrow> 'p proto_state \<Rightarrow> 'p proto_state" where
  "proto_start E s = call_plat (plat_event_subscribe (api E)) s"

definition proto_stop :: "('j, 'p) env \<Rightarrow> 'p proto_state \<Rightarrow> 'p proto_state" where
  "proto_stop E s =
     (let s = on_plat (plat_event_unsubscribe (api E)) s;
          s = on_plat (plat_state_poll_stop (api E)) s;
          s = on_plat (plat_health_poll_stop (api E)) s;
          s = on_plat (plat_telemetry_poll_stop (api E)) s
      in on_plat (plat_upgrade_poll_stop (api E)) s)"

end
