(* ===== verification/Handler_Props.thy ===== *)
theory Handler_Props
  imports Proto_Handlers
begin

text \<open>
  What the handlers promise the controller: at most one reply to a request, exactly one when
  memory is available; an identifier and metrics that change only when a configuration was
  applied; and no effect of a request that is not a valid JSON-RPC call.
\<close>

section \<open>Counting replies\<close>

definition can_reply :: "('j, 'p) env \<Rightarrow> bool" where
  "can_reply E \<longleftrightarrow> cl_serial E \<noteq> None \<and> (\<forall>i. alloc E i)"

definition replies :: "'p proto_state \<Rightarrow> 'p proto_state \<Rightarrow> jdoc list" where
  "replies s s' = filter is_reply (drop (length (sent s)) (sent s'))"

text \<open>The outbox only grows, by at most one reply, and by one when a reply can be built.\<close>

definition replied :: "('j, 'p) env \<Rightarrow> 'p proto_state \<Rightarrow> 'p proto_state \<Rightarrow> bool" where
  "replied E s s' \<longleftrightarrow> (\<exists>ds. sent s' = sent s @ ds \<and> length (filter is_reply ds) \<le> 1 \<and>
     (can_reply E \<longrightarrow> length (filter is_reply ds) = 1))"

lemma replied_around:
  assumes "no_reply s t" "replied E t t'" "no_reply t' s'"
  shows "replied E s s'"
  using assms unfolding no_reply_def replied_def by fastforce

lemma replied_before: "no_reply s t \<Longrightarrow> replied E t s' \<Longrightarrow> replied E s s'"
  by (rule replied_around[OF _ _ no_reply_refl])

lemma sent_with_plat [simp]:
  "with_plat f s = (r, s') \<Longrightarrow> sent s' = sent s"
  by (auto simp: with_plat_def split: prod.splits)

lemma sent_on_plat [simp]: "sent (on_plat f s) = sent s"
  by (simp add: on_plat_def)

lemma sent_call_plat [simp]: "sent (call_plat f s) = sent s"
  by (auto simp: call_plat_def with_plat_def split: prod.splits)

lemma sent_apply_metrics [simp]: "sent (apply_metrics E m s) = sent s"
  by (simp add: apply_metrics_def Let_def)

lemma replied_send_doc:
  assumes "is_reply d" "cl_serial E \<noteq> None \<Longrightarrow> well_formed d"
  shows "replied E s (send_doc E d s)"
proof (cases "can_reply E")
  case True
  then have "only_sends [d] s (send_doc E d s)"
    using assms(2) by (intro send_doc_delivers) (auto simp: can_reply_def)
  then show ?thesis using assms(1) by (simp add: replied_def only_sends_fields)
next
  case False
  then show ?thesis
    using assms(1) by (cases rule: send_doc_cases[of s E d]) (auto simp: replied_def only_sends_fields)
qed

lemma replied_action_reply: "replied E s (action_reply E err txt rc rid s)"
  unfolding action_reply_def
  by (rule replied_send_doc) (simp_all add: is_reply_def jdoc_wf)

lemma replied_configure_reply: "replied E s (configure_reply E err txt u rid s)"
  unfolding configure_reply_def
  by (rule replied_send_doc) (simp_all add: is_reply_def jdoc_wf)

lemma replied_reply_to: "reply_to E rpc err txt rc s = Some s' \<Longrightarrow> replied E s s'"
  by (auto elim!: bindE simp: reply_to_def replied_action_reply)

lemma replied_success: "replied E s (send_doc E (success_doc E rpc s') s)"
  unfolding success_doc_def by (rule replied_send_doc) (simp_all add: is_reply_def jdoc_wf)

lemma no_reply_send_doc: "\<not> is_reply d \<Longrightarrow> no_reply s (send_doc E d s)"
  by (cases rule: send_doc_cases[of s E d]) (auto simp: no_reply_def only_sends_fields)

lemma no_reply_deviceupdate: "no_reply s (deviceupdate_send E p s)"
  by (auto simp: deviceupdate_send_def is_reply_def intro: no_reply_send_doc split: option.splits)

section \<open>Identifiers and metrics\<close>

text \<open>The identifiers and the metrics; only a request to configure may change the identifiers.\<close>

definition same_ids :: "'p proto_state \<Rightarrow> 'p proto_state \<Rightarrow> bool" where
  "same_ids s s' \<longleftrightarrow> uuid_active s' = uuid_active s \<and> uuid_latest s' = uuid_latest s"

definition same_metrics :: "'p proto_state \<Rightarrow> 'p proto_state \<Rightarrow> bool" where
  "same_metrics s s' \<longleftrightarrow> metrics s' = metrics s"

lemmas same_defs = same_ids_def same_metrics_def

lemma same_plat [simp]:
  "with_plat f s = (r, s') \<Longrightarrow> same_ids s s' \<and> same_metrics s s'"
  "same_ids s (on_plat g s)" "same_metrics s (on_plat g s)"
  "same_ids s (call_plat h s)" "same_metrics s (call_plat h s)"
  by (auto simp: same_defs with_plat_def on_plat_def call_plat_def split: prod.splits)

lemma same_send_doc [simp]: "same_ids s (send_doc E d s)" "same_metrics s (send_doc E d s)"
  by (cases rule: send_doc_cases[of s E d]; simp add: same_defs only_sends_fields)+

lemma same_trans:
  "same_ids s t \<Longrightarrow> same_ids t u \<Longrightarrow> same_ids s u"
  "same_metrics s t \<Longrightarrow> same_metrics t u \<Longrightarrow> same_metrics s u"
  by (simp_all add: same_defs)

lemma apply_metrics_fields [simp]:
  "same_ids s (apply_metrics E m s)" "metrics (apply_metrics E m s) = m"
  by (auto simp: apply_metrics_def Let_def same_defs on_plat_def)

section \<open>One reply per request\<close>

lemma no_reply_commit:
  assumes "configure_commit E cfg s = Some s'"
  shows "no_reply s s'"
proof -
  let ?t = "call_plat (plat_metrics_save (api E) (metrics_cfg cfg))
      (call_plat (plat_config_save (api E) (word_of_int (uuid_latest s))) (s\<lparr>uuid_active := uuid_latest s\<rparr>))"
  obtain t where "t = ?t \<or> (\<exists>p. t = deviceupdate_send E (Some p) ?t)"
    and s': "s' = apply_metrics E (metrics_cfg cfg) t"
    using assms unfolding configure_commit_def Let_def by (auto elim!: bindE split: if_splits)
  then have "no_reply ?t t" using no_reply_deviceupdate by auto
  then show ?thesis unfolding s' no_reply_def by simp
qed

text \<open>The steps of a request to configure: what the parser returned, what the platform answered.\<close>

lemma configure_apply_steps:
  assumes "configure_apply E cfg rid s = Some s'"
  obtains i ret s1 s2 s3 reason where
    "with_plat (plat_config_apply (api E) cfg i) (on_plat (plat_log_flush (api E)) s) = (ret, s1)"
    "ret \<noteq> 0 \<and> s2 = call_plat (plat_config_restore (api E)) s1 \<or> ret = 0 \<and> configure_commit E cfg s1 = Some s2"
    "no_reply s s3" "same_ids s2 s3" "same_metrics s2 s3"
    "s' = configure_reply E (if ret \<noteq> 0 then CONFIGURE_STATUS_REJECTED else CONFIGURE_STATUS_APPLIED)
        reason (uuid_latest s3) rid s3"
proof -
  let ?s0 = "on_plat (plat_log_flush (api E)) s"
  obtain i ret s1 s2 lm s3 where
    a: "with_plat (plat_config_apply (api E) cfg i) ?s0 = (ret, s1)"
    and b: "(if ret \<noteq> 0 then Some (call_plat (plat_config_restore (api E)) s1)
        else configure_commit E cfg s1) = Some s2"
    and c: "with_plat (plat_log_pop_concatenate (api E)) (on_plat (plat_config_destroy (api E) cfg) s2) = (lm, s3)"
    and s': "s' = configure_reply E (if ret \<noteq> 0 then CONFIGURE_STATUS_REJECTED else CONFIGURE_STATUS_APPLIED)
        (case lm of None \<Rightarrow> [] | Some m \<Rightarrow> m) (uuid_latest s3) rid s3"
    using assms unfolding configure_apply_def Let_def by (elim bindE) simp
  have "no_reply s s1" using sent_with_plat[OF a] by (intro no_reply_same) simp
  moreover have "no_reply s1 s2"
    using b no_reply_commit by (cases "ret = 0") (auto intro: no_reply_same)
  moreover have "no_reply s2 s3" using sent_with_plat[OF c] by (intro no_reply_same) simp
  ultimately have n: "no_reply s s3" using no_reply_trans by blast
  have "same_ids s2 s3" "same_metrics s2 s3"
    using same_plat(1)[OF c] same_plat(2,3)[of s2 "plat_config_destroy (api E) cfg"] same_trans by blast+
  then show ?thesis using that[OF a _ n _ _ s'] b by (auto split: if_splits)
qed

lemma replied_configure_apply:
  assumes "configure_apply E cfg rid s = Some s'"
  shows "replied E s s'"
  using assms by (rule configure_apply_steps) (auto intro: replied_before replied_configure_reply)

lemma configure_handle_steps:
  assumes "configure_handle E rpc s = Some s'"
  obtains (refused) u where "no_reply s u" "same_ids s u" "same_metrics s u"
      "s' = configure_reply E CONFIGURE_STATUS_REJECTED ''invalid parameters'' 0 (rpc_id_value (cj E) rpc) u"
    | (parsed) s1 c s2 where "configure_begin (cj E) rpc s = Some s1"
      "cfg_parse E (item (cj E) (rpc_params rpc) ''config'') s1 = Some (c, s2)"
      "no_reply s s2" "same_ids s1 s2" "same_metrics s s2" "uuid_active s2 = uuid_active s"
      "(case c of None \<Rightarrow> Some (configure_reply E CONFIGURE_STATUS_REJECTED ''Configure parse failed'' 0
          (rpc_id_value (cj E) rpc) s2)
        | Some cfg \<Rightarrow> configure_apply E cfg (rpc_id_value (cj E) rpc) s2) = Some s'"
proof (cases "s' = configure_reply E CONFIGURE_STATUS_REJECTED ''invalid parameters'' 0 (rpc_id_value (cj E) rpc) s")
  case True
  then show ?thesis using refused[of s] by (simp add: same_defs)
next
  case False
  then obtain s1 c s2 where b: "configure_begin (cj E) rpc s = Some s1"
    and p: "cfg_parse E (item (cj E) (rpc_params rpc) ''config'') s1 = Some (c, s2)"
    and r: "(case c of None \<Rightarrow> Some (configure_reply E CONFIGURE_STATUS_REJECTED ''Configure parse failed'' 0
          (rpc_id_value (cj E) rpc) s2)
        | Some cfg \<Rightarrow> configure_apply E cfg (rpc_id_value (cj E) rpc) s2) = Some s'"
    using assms unfolding configure_handle_def Let_def by (auto elim!: bindE split: if_splits)
  have s1: "no_reply s s1" "same_metrics s s1" "uuid_active s1 = uuid_active s"
    using b by (auto simp: configure_begin_def Let_def same_defs elim!: bindE intro!: no_reply_same)
  have "parsing s1 s2" using cfg_parse_ok[of s1 E] p by (auto simp: sections_ok_def)
  then have s2: "no_reply s1 s2" "same_ids s1 s2" "same_metrics s1 s2"
    by (auto simp: parsing_def parser_frame_def same_defs)
  show ?thesis
    using parsed[OF b p no_reply_trans[OF s1(1) s2(1)] s2(2) same_trans(2)[OF s1(2) s2(3)] _ r] s1(3) s2(2)
    by (simp add: same_ids_def)
qed

lemma replied_configure:
  assumes "configure_handle E rpc s = Some s'"
  shows "replied E s s'"
  using assms
proof (cases rule: configure_handle_steps)
  case refused
  then show ?thesis using replied_before replied_configure_reply by blast
next
  case (parsed s1 c s2)
  have "replied E s2 s'"
    using parsed(7) replied_configure_reply replied_configure_apply by (auto split: option.splits)
  with parsed(3) show ?thesis by (rule replied_before)
qed

lemma replied_update:
  assumes "replied E t s'" "sent t = sent s"
  shows "replied E s s'"
  using assms by (simp add: replied_def)

lemma replied_on_plat: "replied E s t \<Longrightarrow> replied E s (on_plat f t)"
  by (simp add: replied_def)

lemma replied_plat_action:
  assumes "plat_action E f m1 m2 rpc s = Some s'"
  shows "replied E s s'"
proof (cases "with_plat f s")
  case (Pair ret s1)
  then show ?thesis
    using assms sent_with_plat[OF Pair]
    by (auto simp: plat_action_def split: if_splits dest!: replied_reply_to elim!: replied_update)
qed

lemma replied_reenroll: "reenroll_handle E rpc s = Some s' \<Longrightarrow> replied E s s'"
  unfolding reenroll_handle_def Let_def
  by (auto elim!: bindE split: if_splits dest!: replied_reply_to elim!: replied_update)

lemma replied_telemetry: "telemetry_handle E rpc s = Some s' \<Longrightarrow> replied E s s'"
  unfolding telemetry_handle_def Let_def
  by (auto elim!: bindE split: if_splits dest!: replied_reply_to elim!: replied_update)

lemma replied_upgrade: "upgrade_handle E rpc s = Some s' \<Longrightarrow> replied E s s'"
  unfolding upgrade_handle_def Let_def
  by (auto elim!: bindE split: if_splits option.splits dest!: replied_reply_to sent_with_plat
      intro!: replied_on_plat elim!: replied_update)

lemma sent_rtty_parse: "rtty_parse E ps s = Some (c, s') \<Longrightarrow> sent s' = sent s"
  unfolding rtty_parse_def Let_def
  by (auto elim!: bindE simp: try_alloc_def split: if_splits)

lemma replied_rtty:
  assumes "rtty_handle E rpc s = Some s'"
  shows "replied E s s'"
proof -
  let ?d = "success_doc E rpc s"
  obtain ok s1 where b: "build E ?d s = (ok, s1)" by force
  then have s1: "sent s1 = sent s" using build_ticks[of E ?d s] by auto
  have ok: "ok" if "can_reply E"
  proof -
    have "well_formed ?d" using that by (simp add: success_doc_def jdoc_wf can_reply_def)
    then show ?thesis
      using that b by (auto simp: build_def well_formed_def can_reply_def run_calls_all)
  qed
  show ?thesis
  proof (cases ok)
    case False
    then show ?thesis using assms b s1 ok by (auto simp: rtty_handle_def replied_def)
  next
    case True
    then obtain c s2 where p: "rtty_parse E (rpc_params rpc) s1 = Some (c, s2)"
      and r: "(case c of None \<Rightarrow> reply_to E rpc 1 ''RTTY cmd parse failed'' 1 s2
        | Some cfg \<Rightarrow> let (ret, s) = with_plat (plat_rtty (api E) cfg) s2 in
            if ret \<noteq> 0 then reply_to E rpc 1 ''RTTY cmd execution failed'' 1 s else Some (send_blob E ?d s)) = Some s'"
      using assms b unfolding rtty_handle_def Let_def by (auto elim!: bindE)
    have last: "replied E t (send_blob E ?d t)" for t
      by (cases "alloc E (ticks t)")
         (auto simp: replied_def send_blob_def try_alloc_def can_reply_def is_reply_def success_doc_def)
    have "sent s2 = sent s" using sent_rtty_parse[OF p] s1 by simp
    then show ?thesis
      using r by (auto simp: Let_def split: option.splits if_splits prod.splits
          dest!: replied_reply_to sent_with_plat elim!: replied_update intro: replied_update[OF last])
  qed
qed

text \<open>A script is answered at once only when it is refused or its output is to be uploaded.\<close>

definition at_most_one :: "'p proto_state \<Rightarrow> 'p proto_state \<Rightarrow> bool" where
  "at_most_one s s' \<longleftrightarrow> (\<exists>ds. sent s' = sent s @ ds \<and> length (filter is_reply ds) \<le> 1)"

lemma replied_at_most_one: "replied E s s' \<Longrightarrow> at_most_one s s'"
  by (auto simp: replied_def at_most_one_def)

lemma at_most_one_send_doc: "at_most_one s (send_doc E d s)"
  by (cases rule: send_doc_cases[of s E d]) (auto simp: at_most_one_def only_sends_fields)

lemma at_most_one_update: "at_most_one t s' \<Longrightarrow> sent t = sent s \<Longrightarrow> at_most_one s s'"
  by (simp add: at_most_one_def)

lemma sent_try_alloc: "try_alloc E s = (ok, s') \<Longrightarrow> sent s' = sent s"
  by (auto simp: try_alloc_def)

lemma at_most_one_script_plat:
  assumes "script_plat_handle E rpc script type uri timeout s = Some s'"
  shows "at_most_one s s'"
proof (cases "type \<noteq> ''diagnostic'' \<and> \<not> (script \<noteq> None \<and> type = ''shell'')")
  case True
  then show ?thesis
    using assms by (auto simp: script_plat_handle_def dest!: replied_reply_to intro: replied_at_most_one)
next
  case ty: False
  obtain ok s1 where a: "try_alloc E s = (ok, s1)" by force
  obtain u s2 where b: "(if uri = None then (None, s1)
      else let (ok, s) = try_alloc E s1 in (if ok then uri else None, s)) = (u, s2)" by force
  have s2: "sent s2 = sent s"
    using a b by (auto simp: try_alloc_def split: if_splits)
  show ?thesis
  proof (cases ok)
    case True
    then obtain cid ret s3 p where w: "with_plat (plat_run_script (api E) p) s2 = (ret, s3)"
      and r: "(if ret \<noteq> 0 then reply_to E rpc 1 ''failed to start execution'' 1 s3
        else if u = None then Some s3
        else do { i \<leftarrow> dbl_to_word (rpc_id_value (cj E) rpc); Some (script_reply E 0 (Some ''pending'') i s3) }) = Some s'"
      using assms ty a b unfolding script_plat_handle_def Let_def
      by (auto elim!: bindE split del: if_split)
    have s3: "sent s3 = sent s" using sent_with_plat[OF w] s2 by simp
    then have "at_most_one s3 s'"
      using r by (auto elim!: bindE split: if_splits dest!: replied_reply_to intro: replied_at_most_one
          simp: script_reply_def at_most_one_send_doc at_most_one_def[of s' s'])
    then show ?thesis using s3 by (rule at_most_one_update)
  qed (use assms ty a sent_try_alloc[OF a] in \<open>auto simp: script_plat_handle_def at_most_one_def\<close>)
qed

lemma at_most_one_script: "script_handle E rpc s = Some s' \<Longrightarrow> at_most_one s s'"
  unfolding script_handle_def Let_def
  by (auto elim!: bindE split: if_splits option.splits dest!: replied_reply_to
      intro: replied_at_most_one at_most_one_script_plat)

lemma dispatch_replied:
  "dispatch E method rpc s = Some s' \<Longrightarrow> method \<noteq> ''script'' \<Longrightarrow> replied E s s'"
  by (auto simp: dispatch_def replied_configure replied_reenroll replied_rtty replied_upgrade
      replied_telemetry reboot_handle_def factory_handle_def replied_plat_action ping_handle_def
      generic_handle_def replied_success split: if_splits)

lemma dispatch_at_most_one:
  assumes "dispatch E method rpc s = Some s'"
  shows "at_most_one s s'"
proof (cases "method = ''script''")
  case True
  then show ?thesis using assms at_most_one_script by (simp add: dispatch_def)
next
  case False
  show ?thesis by (rule replied_at_most_one[OF dispatch_replied[OF assms False]])
qed



section \<open>The outcome of a request to configure\<close>

lemma configure_commit_fields:
  assumes "configure_commit E cfg s = Some s'"
  shows "uuid_active s' = uuid_latest s" "uuid_latest s' = uuid_latest s" "metrics s' = metrics_cfg cfg"
proof -
  let ?t = "call_plat (plat_metrics_save (api E) (metrics_cfg cfg))
      (call_plat (plat_config_save (api E) (word_of_int (uuid_latest s))) (s\<lparr>uuid_active := uuid_latest s\<rparr>))"
  obtain t where t: "t = ?t \<or> (\<exists>p. t = deviceupdate_send E (Some p) ?t)"
    and s': "s' = apply_metrics E (metrics_cfg cfg) t"
    using assms unfolding configure_commit_def Let_def by (auto elim!: bindE split: if_splits)
  have "same_ids (s\<lparr>uuid_active := uuid_latest s\<rparr>) ?t" using same_trans(1) same_plat(4) by blast
  moreover have "same_ids ?t t" using t by (auto simp: deviceupdate_send_def same_ids_def[of ?t ?t])
  moreover have "same_ids t s'" unfolding s' by simp
  ultimately show "uuid_active s' = uuid_latest s" "uuid_latest s' = uuid_latest s"
    by (simp_all add: same_ids_def)
  show "metrics s' = metrics_cfg cfg" unfolding s' by simp
qed

text \<open>The replies sent by a message after a phase without replies.\<close>

lemma replies_after:
  assumes "no_reply s t" "x \<in> set (replies s (send_doc E d t))"
  shows "x = d"
proof -
  obtain ds es where "sent t = sent s @ ds" "filter is_reply ds = []"
    "sent (send_doc E d t) = sent t @ es" "set es \<subseteq> {d}"
    using assms(1) send_doc_some[of d t E] by (auto simp: no_reply_def dest: only_sends_fields)
  then show ?thesis using assms(2) by (auto simp: replies_def)
qed

lemma configure_reply_error:
  assumes "no_reply s t" "x \<in> set (replies s (configure_reply E err txt u rid t))"
  shows "reply_error x = Some (dnum (uint err))"
  using replies_after[OF assms(1)] assms(2) unfolding configure_reply_def by fastforce

lemma configure_reply_same:
  "same_ids s (configure_reply E err txt u rid s)" "same_metrics s (configure_reply E err txt u rid s)"
  unfolding configure_reply_def by simp_all

lemma configure_rejected:
  assumes "no_reply s t" "uuid_active t = uuid_active s" "metrics t = metrics s"
    and "s' = configure_reply E CONFIGURE_STATUS_REJECTED reason u rid t"
  shows "uuid_active s' = uuid_active s \<and> metrics s' = metrics s \<and>
    (\<forall>d \<in> set (replies s s'). reply_error d = Some (dnum 2))"
proof -
  have "reply_error d = Some (dnum 2)" if "d \<in> set (replies s s')" for d
    using configure_reply_error[OF assms(1), of d E CONFIGURE_STATUS_REJECTED] that assms(4)
    by (simp add: CONFIGURE_STATUS_REJECTED_def)
  then show ?thesis
    using configure_reply_same[of t E] assms(2,3) unfolding assms(4) by (simp add: same_defs)
qed

lemma configure_apply_outcome:
  assumes "configure_apply E cfg rid t = Some s'"
    and t: "no_reply s t" "uuid_active t = uuid_active s" "metrics t = metrics s"
  shows "(uuid_active s' = uuid_active s \<and> metrics s' = metrics s \<and>
      (\<forall>d \<in> set (replies s s'). reply_error d = Some (dnum 2))) \<or>
    (\<exists>i p. fst (plat_config_apply (api E) cfg i p) = 0 \<and> uuid_active s' = uuid_latest t \<and>
      uuid_latest s' = uuid_latest t \<and> metrics s' = metrics_cfg cfg \<and>
      (\<forall>d \<in> set (replies s s'). reply_error d = Some (dnum 0)))"
  using assms(1)
proof (rule configure_apply_steps)
  fix i ret t1 t2 t3 reason
  assume a: "with_plat (plat_config_apply (api E) cfg i) (on_plat (plat_log_flush (api E)) t) = (ret, t1)"
    and b: "ret \<noteq> 0 \<and> t2 = call_plat (plat_config_restore (api E)) t1 \<or> ret = 0 \<and> configure_commit E cfg t1 = Some t2"
    and n: "no_reply t t3" and t3: "same_ids t2 t3" "same_metrics t2 t3"
    and s': "s' = configure_reply E (if ret \<noteq> 0 then CONFIGURE_STATUS_REJECTED else CONFIGURE_STATUS_APPLIED)
      reason (uuid_latest t3) rid t3"
  have t1: "same_ids t t1" "same_metrics t t1"
    using same_plat(1)[OF a] same_plat(2,3)[of t] same_trans by blast+
  have nr: "no_reply s t3" using t(1) n by (rule no_reply_trans)
  show ?thesis
  proof (cases "ret = 0")
    case False
    then have "same_ids t1 t2" "same_metrics t1 t2" using b by auto
    then have "uuid_active t3 = uuid_active s" "metrics t3 = metrics s" using t t1 t3 by (simp_all add: same_defs)
    moreover have "s' = configure_reply E CONFIGURE_STATUS_REJECTED reason (uuid_latest t3) rid t3"
      using s' False by simp
    ultimately show ?thesis using configure_rejected[OF nr] by blast
  next
    case True
    have "uuid_active s' = uuid_latest t1" "uuid_latest s' = uuid_latest t1" "metrics s' = metrics_cfg cfg"
      using b True configure_commit_fields[of E cfg t1 t2] t3 configure_reply_same[of t3 E] unfolding s'
      by (auto simp: same_defs)
    moreover have "reply_error d = Some (dnum 0)" if "d \<in> set (replies s s')" for d
      using configure_reply_error[OF nr, of d E CONFIGURE_STATUS_APPLIED] that s' True
      by (simp add: CONFIGURE_STATUS_APPLIED_def)
    moreover have "fst (plat_config_apply (api E) cfg i (plat (on_plat (plat_log_flush (api E)) t))) = 0"
      using a True by (auto simp: with_plat_def split: prod.splits)
    ultimately show ?thesis using t1 by (auto simp: same_ids_def)
  qed
qed

text \<open>C1. A configuration is taken or left. A request to configure either leaves the active
  identifier and the metrics as they were, and a reply then says \<open>rejected\<close>; or the parser
  accepted the document and the platform applied it, the identifier of the request is
  active, the metrics are those of the document, and a reply then says \<open>applied\<close>.\<close>

theorem configure_outcome:
  assumes "configure_handle E rpc s = Some s'"
  shows "(uuid_active s' = uuid_active s \<and> metrics s' = metrics s \<and>
      (\<forall>d \<in> set (replies s s'). reply_error d = Some (dnum 2))) \<or>
    (\<exists>cfg t u i p.
      cfg_parse E (item (cj E) (rpc_params rpc) ''config'') t = Some (Some cfg, u) \<and>
      fst (plat_config_apply (api E) cfg i p) = 0 \<and>
      dbl_to_int 64 (cJSON_GetNumberValue (cj E) (item (cj E) (rpc_params rpc) ''uuid'')) = Some (uuid_active s') \<and>
      uuid_latest s' = uuid_active s' \<and> metrics s' = metrics_cfg cfg \<and>
      (\<forall>d \<in> set (replies s s'). reply_error d = Some (dnum 0)))"
  using assms
proof (cases rule: configure_handle_steps)
  case (refused u)
  then show ?thesis using configure_rejected[OF refused(1) _ _ refused(4)] by (simp add: same_defs)
next
  case (parsed s1 c s2)
  let ?id = "dbl_to_int 64 (cJSON_GetNumberValue (cj E) (item (cj E) (rpc_params rpc) ''uuid''))"
  have u: "?id = Some (uuid_latest s2)"
    using parsed(1,4) by (auto simp: configure_begin_def Let_def same_ids_def elim!: bindE)
  show ?thesis
  proof (cases c)
    case None
    then have s': "s' = configure_reply E CONFIGURE_STATUS_REJECTED ''Configure parse failed'' 0
        (rpc_id_value (cj E) rpc) s2" using parsed(7) by simp
    show ?thesis using configure_rejected[OF parsed(3,6) _ s'] parsed(5) by (simp add: same_defs)
  next
    case (Some cfg)
    then have "configure_apply E cfg (rpc_id_value (cj E) rpc) s2 = Some s'" using parsed(7) by simp
    then show ?thesis
      using configure_apply_outcome[OF _ parsed(3,6), of E cfg] u parsed(2,5) Some
      by (fastforce simp: same_metrics_def)
  qed
qed

definition demo_request :: "string \<Rightarrow> json \<Rightarrow> json" where
  "demo_request method ps = JObj [(''jsonrpc'', JStr ''2.0''), (''method'', JStr method), (''params'', ps), (''id'', JNum 7)]"

definition demo_configure :: "json rpc" where
  "demo_configure = rpc_of json_api (demo_request ''configure''
     (JObj [(''serial'', JStr ''24fe9a0f48f0''), (''uuid'', JNum 5), (''config'', demo_config)]))"

theorem configure_outcome_witness:
  "\<exists>s'. configure_handle demo_env demo_configure demo_state = Some s' \<and>
     uuid_active s' = 5 \<and> uuid_latest s' = 5 \<and> (\<forall>d \<in> set (replies demo_state s'). reply_error d = Some (dnum 0))"
proof -
  let ?r = "configure_handle demo_env demo_configure demo_state"
  have "map_option uuid_active ?r = Some 5" by code_simp
  then obtain s' where r: "?r = Some s'" and u: "uuid_active s' = 5" by auto
  have "uuid_active demo_state \<noteq> 5" by (simp add: demo_state_def)
  then show ?thesis using configure_outcome[OF r] r u by auto
qed

section \<open>Requests that do not configure\<close>

lemma same_ids_reply_to [elim!]:
  assumes "reply_to E rpc err txt rc t = Some s'" "same_ids s t"
  shows "same_ids s s'"
  using assms same_send_doc(1)[of t E]
  by (auto simp: reply_to_def action_reply_def same_ids_def elim!: bindE)

lemma same_ids_refl [simp]: "same_ids s s"
  by (simp add: same_ids_def)

lemma same_ids_upd [simp]:
  "same_ids s (t\<lparr>ticks := n\<rparr>) = same_ids s t" "same_ids s (t\<lparr>metrics := m\<rparr>) = same_ids s t"
  "same_ids s (t\<lparr>operational_cert := c\<rparr>) = same_ids s t" "same_ids s (t\<lparr>restart_alarm := a\<rparr>) = same_ids s t"
  "same_ids s (on_plat g t) = same_ids s t"
  by (simp_all add: same_ids_def on_plat_def)

lemma same_ids_steps:
  "with_plat f t = (r, t') \<Longrightarrow> same_ids s t' = same_ids s t"
  "try_alloc E t = (ok, t') \<Longrightarrow> same_ids s t' = same_ids s t"
  "build E d t = (ok, t') \<Longrightarrow> same_ids s t' = same_ids s t"
  "(case try_alloc E t of (ok, x) \<Rightarrow> (h ok, x)) = (u, t') \<Longrightarrow> same_ids s t' = same_ids s t"
  by (auto simp: with_plat_def try_alloc_def build_def same_ids_def split: prod.splits)

lemma same_ids_rtty_parse:
  "rtty_parse E ps t = Some (c, t') \<Longrightarrow> same_ids s t' = same_ids s t"
  unfolding rtty_parse_def Let_def
  by (auto elim!: bindE simp: same_ids_steps split: if_splits)

lemma same_ids_send [simp]:
  "same_ids s (send_doc E d t) = same_ids s t" "same_ids s (send_blob E d t) = same_ids s t"
  "same_ids s (script_reply E e x i t) = same_ids s t"
  using same_send_doc(1)[of t E]
  by (auto simp: same_ids_def send_blob_def try_alloc_def script_reply_def)

lemma same_ids_handlers:
  "plat_action E f m1 m2 rpc s = Some s' \<Longrightarrow> same_ids s s'"
  "reenroll_handle E rpc s = Some s' \<Longrightarrow> same_ids s s'"
  "rtty_handle E rpc s = Some s' \<Longrightarrow> same_ids s s'"
  "upgrade_handle E rpc s = Some s' \<Longrightarrow> same_ids s s'"
  "telemetry_handle E rpc s = Some s' \<Longrightarrow> same_ids s s'"
  unfolding plat_action_def reenroll_handle_def rtty_handle_def upgrade_handle_def telemetry_handle_def Let_def
  by (auto elim!: bindE simp: same_ids_steps same_ids_rtty_parse split: if_splits option.splits)

lemma same_ids_script_plat: "script_plat_handle E rpc sc ty uri tm s = Some s' \<Longrightarrow> same_ids s s'"
  unfolding script_plat_handle_def Let_def
  by (auto elim!: bindE simp: same_ids_steps split: if_splits)

lemma same_ids_script: "script_handle E rpc s = Some s' \<Longrightarrow> same_ids s s'"
  unfolding script_handle_def Let_def
  by (auto elim!: bindE dest: same_ids_script_plat split: if_splits option.splits)

text \<open>Only a request to configure changes which configuration is latest and which is active.\<close>

theorem only_configure_changes_ids:
  assumes "dispatch E method rpc s = Some s'" "method \<noteq> ''configure''"
  shows "uuid_active s' = uuid_active s \<and> uuid_latest s' = uuid_latest s"
proof -
  have "same_ids s s'"
    using assms unfolding dispatch_def
    by (auto simp: reboot_handle_def factory_handle_def ping_handle_def generic_handle_def
        dest: same_ids_handlers same_ids_script split: if_splits)
  then show ?thesis by (simp add: same_ids_def)
qed

theorem only_configure_changes_ids_witness:
  "\<exists>s'. dispatch demo_env ''reboot'' (rpc_of json_api (demo_request ''reboot'' (JObj [(''serial'', JStr ''24fe9a0f48f0'')])))
      demo_state = Some s' \<and> uuid_active s' = 1 \<and> uuid_latest s' = 1"
proof -
  let ?r = "dispatch demo_env ''reboot'' (rpc_of json_api (demo_request ''reboot'' (JObj [(''serial'', JStr ''24fe9a0f48f0'')])))
      demo_state"
  have "?r \<noteq> None" by code_simp
  then obtain s' where r: "?r = Some s'" by blast
  then show ?thesis using only_configure_changes_ids[OF r] by (simp add: demo_state_def)
qed

section \<open>Calls that are not valid\<close>

text \<open>The conditions the dispatcher sets on a call.\<close>

definition valid_call :: "'j cjson \<Rightarrow> 'j rpc \<Rightarrow> bool" where
  "valid_call J rpc \<longleftrightarrow> cJSON_GetStringValue J (rpc_ver rpc) = Some ''2.0'' \<and>
     (rpc_method rpc \<noteq> None \<and> rpc_params rpc \<noteq> None \<or> rpc_method rpc = None \<and> rpc_error rpc \<noteq> None)"

text \<open>C39. A call that is not valid has no effect but one message to the log of the controller, and an
  error report of the controller has none at all: no reply, no platform call, no state.\<close>

theorem invalid_call_only_logs:
  assumes "proto_handle_blob E ob s = Some s'"
    and "\<not> valid_call (cj E) (rpc_of (cj E) ob) \<or> rpc_method (rpc_of (cj E) ob) = None"
  shows "(s' = s \<or> s' = log_send E ''received invalid jsonrpc call'' LOG_ERR s) \<and>
    (\<exists>ds. only_sends ds s s' \<and> length ds \<le> 1 \<and> filter is_reply ds = [])"
proof -
  have s': "s' = s \<or> s' = log_send E ''received invalid jsonrpc call'' LOG_ERR s"
    using assms by (auto simp: proto_handle_blob_def valid_call_def Let_def elim!: bindE split: if_splits)
  moreover have "\<exists>ds. only_sends ds s s' \<and> length ds \<le> 1 \<and> filter is_reply ds = []"
    using s'
  proof
    assume "s' = s"
    then show ?thesis by (intro exI[of _ "[]"]) auto
  next
    assume l: "s' = log_send E ''received invalid jsonrpc call'' LOG_ERR s"
    obtain ds m ps where "only_sends ds s s'" "length ds \<le> 1" "set ds \<subseteq> {proto_new_blob m ps}"
      using send_doc_some unfolding l log_send_def by blast
    moreover from this(3) have "filter is_reply ds = []" by (auto simp: filter_empty_conv is_reply_def)
    ultimately show ?thesis by blast
  qed
  ultimately show ?thesis by blast
qed

theorem invalid_call_only_logs_witness:
  "\<exists>s'. proto_handle_blob demo_env (JObj [(''method'', JStr ''reboot'')]) demo_state = Some s' \<and>
     (\<exists>ds. only_sends ds demo_state s' \<and> length ds \<le> 1 \<and> filter is_reply ds = [])"
proof -
  let ?r = "proto_handle_blob demo_env (JObj [(''method'', JStr ''reboot'')]) demo_state"
  have "?r \<noteq> None" by code_simp
  then obtain s' where r: "?r = Some s'" by blast
  have "\<not> valid_call (cj demo_env) (rpc_of (cj demo_env) (JObj [(''method'', JStr ''reboot'')]))" by code_simp
  then show ?thesis using invalid_call_only_logs[OF r] r by blast
qed

end
