(* ===== verification/Connect.thy ===== *)
theory Connect
  imports Handler_Props
begin

text \<open>
  \<open>connect_send\<close> of \<open>proto.c\<close>, the first message of a connection. It is built in stages, because
  the platform is asked on the way and because the password is dropped as soon as it is in the
  message; a stage that fails leaves what the earlier ones did.
\<close>

section \<open>The address printed on the label\<close>

definition hex_val :: "char \<Rightarrow> nat option" where
  "hex_val c =
     (let v = of_char c :: nat in
      if 48 \<le> v \<and> v \<le> 57 then Some (v - 48)
      else if 65 \<le> v \<and> v \<le> 70 then Some (v - 55)
      else if 97 \<le> v \<and> v \<le> 102 then Some (v - 87) else None)"

definition hex_digit :: "nat \<Rightarrow> char" where
  "hex_digit n = (if n < 10 then char_of (48 + n) else char_of (87 + n))"

text \<open>One conversion \<open>%2x\<close>: white space, then at most two characters: a sign and a digit, or one or two
  digits. The prefix \<open>0x\<close> alone is no number.\<close>

definition scan_2x :: "string \<Rightarrow> (u32 \<times> string) option" where
  "scan_2x s =
     (case dropWhile is_ws s of
        [] \<Rightarrow> None
      | c # cs \<Rightarrow>
          if c = CHR ''-'' \<or> c = CHR ''+'' then
            (case cs of
               [] \<Rightarrow> None
             | d # ds \<Rightarrow> map_option (\<lambda>v. (if c = CHR ''-'' then - of_nat v else of_nat v, ds)) (hex_val d))
          else
            (case hex_val c of
               None \<Rightarrow> None
             | Some v \<Rightarrow>
                 (case cs of
                    [] \<Rightarrow> Some (of_nat v, [])
                  | d # ds \<Rightarrow>
                      if c = CHR ''0'' \<and> (d = CHR ''x'' \<or> d = CHR ''X'') then None
                      else (case hex_val d of
                              None \<Rightarrow> Some (of_nat v, cs)
                            | Some w \<Rightarrow> Some (of_nat (16 * v + w), ds)))))"

fun scan_2xs :: "nat \<Rightarrow> string \<Rightarrow> u32 list option" where
  "scan_2xs 0 s = Some []"
| "scan_2xs (Suc n) s = do { (v, s) \<leftarrow> scan_2x s; vs \<leftarrow> scan_2xs n s; Some (v # vs) }"

text \<open>What \<open>%02x\<close> prints.\<close>

fun hex :: "nat \<Rightarrow> string" where
  "hex n = (if n < 16 then [hex_digit n] else hex (n div 16) @ [hex_digit (n mod 16)])"

declare hex.simps [simp del]

definition hex02 :: "u32 \<Rightarrow> string" where
  "hex02 w = (let h = hex (unat w) in if length h < 2 then CHR ''0'' # h else h)"

fun colons :: "string list \<Rightarrow> string" where
  "colons [] = []"
| "colons [x] = x"
| "colons (x # xs) = x @ '':'' @ colons xs"

definition label_mac :: "string \<Rightarrow> string option" where
  "label_mac serial = map_option (\<lambda>mac. snprintf_s 32 (colons (map hex02 mac))) (scan_2xs 6 serial)"

section \<open>The message\<close>

text \<open>Library calls in a row, each of which may fail.\<close>

definition calls_ok :: "('j, 'p) env \<Rightarrow> bool list \<Rightarrow> 'p proto_state \<Rightarrow> bool \<times> 'p proto_state" where
  "calls_ok E cs s = (let (ok, t) = run_calls (alloc E) cs (ticks s) in (ok, s\<lparr>ticks := t\<rparr>))"

text \<open>A platform call with an output parameter.\<close>

definition ask :: "('p \<Rightarrow> int \<times> 'a \<times> 'p) \<Rightarrow> 'p \<Rightarrow> (int \<times> 'a) \<times> 'p" where
  "ask f p = (let (r, x, p) = f p in ((r, x), p))"

definition has_serial :: "('j, 'p) env \<Rightarrow> bool" where
  "has_serial E \<longleftrightarrow> cl_serial E \<noteq> None"

text \<open>Restoring the metrics of the last run: only the state and health polls are restarted.\<close>

definition restore_metrics :: "('j, 'p) env \<Rightarrow> 'p proto_state \<Rightarrow> 'p proto_state" where
  "restore_metrics E s =
     (let ((ret, m), s) = with_plat (ask (plat_metrics_restore (api E))) s in
      if ret \<noteq> 0 then s
      else
        let s = s\<lparr>metrics := m\<rparr>;
            s = on_plat (plat_state_poll_stop (api E)) s;
            s = on_plat (plat_health_poll_stop (api E)) s;
            s = (if state_enabled (m_state m)
                 then on_plat (plat_state_poll (api E) (poll_period (state_interval (m_state m)))) s else s)
        in if healthcheck_enabled m
           then on_plat (plat_health_poll (api E) (poll_period (healthcheck_interval m))) s else s)"

definition capabilities_doc :: "('j, 'p) env \<Rightarrow> jdoc \<Rightarrow> plat_platform_info \<Rightarrow> (string \<times> jdoc) list" where
  "capabilities_doc E version pinfo =
     [(''version'', DObj ([(''switch'', version)] @
         (case schema_file E of None \<Rightarrow> [] | Some d \<Rightarrow> [(''schema'', d)]))),
      (''serial'', DStr (cl_serial E)), (''firmware'', DStr (Some (cl_firmware E))),
      (''compatible'', DStr (Some (pi_hwsku pinfo))), (''model'', DStr (Some (pi_platform pinfo))),
      (''platform'', DStr (Some ''switch''))] @
     (case Option.bind (cl_serial E) label_mac of None \<Rightarrow> [] | Some mac \<Rightarrow> [(''label_macaddr'', DStr (Some mac))])"

definition connect_doc ::
  "('j, 'p) env \<Rightarrow> int \<Rightarrow> string option \<Rightarrow> jdoc \<Rightarrow> plat_platform_info \<Rightarrow> jdoc" where
  "connect_doc E uuid pass version pinfo =
     proto_new_blob ''connect''
       ([(''serial'', DStr (cl_serial E)), (''firmware'', DStr (Some (cl_firmware E))), (''uuid'', dnum uuid)] @
        (case pass of None \<Rightarrow> [] | Some p \<Rightarrow> [(''password'', DStr (Some p))]) @
        [(''capabilities'', DObj (capabilities_doc E version pinfo))])"

text \<open>From the platform's description on: the members of the capabilities, the version files (attached,
  which allocates a name), the label.\<close>

definition capability_calls :: "('j, 'p) env \<Rightarrow> bool list" where
  "capability_calls E =
     [True] @ (if schema_file E = None then [] else [True]) @ [True, True, True] @
     (if Option.bind (cl_serial E) label_mac = None then [] else [True])"

definition connect_capabilities ::
  "('j, 'p) env \<Rightarrow> int \<Rightarrow> string option \<Rightarrow> 'p proto_state \<Rightarrow> 'p proto_state" where
  "connect_capabilities E uuid pass s =
     (let ((ret, pinfo), s) = with_plat (ask (plat_info_get (api E))) s;
          (ok, s) = calls_ok E [has_serial E, True] s
      in if \<not> ok then s
         else case version_file E of
           None \<Rightarrow> s
         | Some version \<Rightarrow>
             let (ok, s) = calls_ok E (capability_calls E) s
             in if \<not> ok then s
                else send_connect_blob E (connect_doc E uuid pass version pinfo) (restore_metrics E s))"

definition connect_send :: "('j, 'p) env \<Rightarrow> 'p proto_state \<Rightarrow> 'p proto_state" where
  "connect_send E s =
     (let (ok, s) = build E (proto_new_blob ''connect'' []) s in
      if \<not> ok then s
      else
        let ((ret, u), s) = with_plat (ask (plat_saved_config_id_get (api E))) s;
            s = s\<lparr>uuid_active := (if ret \<noteq> 0 then 1 else sint u)\<rparr>;
            (ok, s) = calls_ok E [has_serial E, True, True] s
        in if \<not> ok then s
           else
             let pass = password s;
                 (ok, s) = calls_ok E (if pass = None then [] else [True]) s
             in if \<not> ok then s
                else
                  let s = s\<lparr>password := None\<rparr>;
                      (ok, s) = calls_ok E [True, True] s
                  in if \<not> ok then s else connect_capabilities E (uuid_active s) pass s)"

section \<open>Properties\<close>

lemma hex_digit_val [simp]: "n < 16 \<Longrightarrow> hex_val (hex_digit n) = Some n"
  by (auto simp: hex_val_def hex_digit_def)

lemma hex_digit_plain:
  assumes "n < 16"
  shows "\<not> is_ws (hex_digit n)" "hex_digit n \<noteq> CHR ''-''" "hex_digit n \<noteq> CHR ''+''"
    "hex_digit n \<noteq> CHR ''x''" "hex_digit n \<noteq> CHR ''X''"
proof -
  have "hex_val c = None" if "is_ws c \<or> c \<in> set ''-+xX''" for c
    using that by (auto simp: is_ws_def hex_val_def)
  then show "\<not> is_ws (hex_digit n)" "hex_digit n \<noteq> CHR ''-''" "hex_digit n \<noteq> CHR ''+''"
    "hex_digit n \<noteq> CHR ''x''" "hex_digit n \<noteq> CHR ''X''"
    using hex_digit_val[OF assms] by force+
qed

text \<open>The two digits of a byte.\<close>

definition byte_hex :: "nat \<Rightarrow> string" where
  "byte_hex b = [hex_digit (b div 16), hex_digit (b mod 16)]"

lemma scan_2x_byte:
  assumes "b < 256"
  shows "scan_2x (byte_hex b @ s) = Some (of_nat b, s)"
proof -
  have "b div 16 < 16" "b mod 16 < 16" using assms by auto
  then show ?thesis
    by (simp add: scan_2x_def byte_hex_def hex_digit_plain)
qed

lemma scan_2xs_bytes:
  "\<forall>b \<in> set bs. b < 256 \<Longrightarrow> scan_2xs (length bs) (concat (map byte_hex bs) @ s) = Some (map of_nat bs)"
  by (induction bs) (simp_all add: scan_2x_byte)

lemma hex02_byte:
  assumes "b < 256"
  shows "hex02 (of_nat b) = byte_hex b"
proof -
  have "unat (of_nat b :: u32) = b" using assms by (simp add: unat_of_nat)
  moreover have "hex_digit 0 = CHR ''0''" by code_simp
  moreover have "b div 16 < 16" using assms by simp
  ultimately show ?thesis
    using assms by (auto simp: hex02_def byte_hex_def Let_def hex.simps[of b] hex.simps[of "b div 16"])
qed

lemma length_colons_bytes: "length (colons (map byte_hex bs)) \<le> 3 * length bs"
  by (induction bs rule: induct_list012) (simp_all add: byte_hex_def)

text \<open>The label address is the serial number. For a serial number of six bytes in hexadecimal the
  address on the label is the same six bytes, separated by colons; nothing is cut off.\<close>

theorem label_mac_of_serial:
  assumes "length bs = 6" "\<forall>b \<in> set bs. b < 256"
  shows "label_mac (concat (map byte_hex bs) @ rest) = Some (colons (map byte_hex bs))"
proof -
  have h: "map hex02 (map of_nat bs) = map byte_hex bs" using assms(2) by (simp add: hex02_byte)
  have "length (colons (map byte_hex bs)) \<le> 31" using length_colons_bytes[of bs] assms(1) by simp
  then show ?thesis
    using scan_2xs_bytes[OF assms(2), of rest] assms(1)
    by (simp add: label_mac_def snprintf_s_def h del: list.map_comp map_map)
qed

theorem label_mac_of_serial_witness: "label_mac ''24fe9a0f48f0'' = Some ''24:fe:9a:0f:48:f0''"
proof -
  have "concat (map byte_hex [36, 254, 154, 15, 72, 240]) @ [] = ''24fe9a0f48f0''" by code_simp
  moreover have "colons (map byte_hex [36, 254, 154, 15, 72, 240]) = ''24:fe:9a:0f:48:f0''" by code_simp
  ultimately show ?thesis using label_mac_of_serial[of "[36, 254, 154, 15, 72, 240]" "[]"] by simp
qed

lemma calls_ok_form: obtains ok t where "calls_ok E cs s = (ok, s\<lparr>ticks := t\<rparr>)"
  by (cases "run_calls (alloc E) cs (ticks s)") (auto simp: calls_ok_def)

lemma with_plat_form: obtains r p where "with_plat f s = (r, s\<lparr>plat := p\<rparr>)"
  by (cases "f (plat s)") (auto simp: with_plat_def)

lemma calls_ok_all: "\<forall>i. alloc E i \<Longrightarrow> False \<notin> set cs \<Longrightarrow> fst (calls_ok E cs s)"
  by (simp add: calls_ok_def run_calls_all)

lemma restore_metrics_fields [simp]:
  "sent (restore_metrics E s) = sent s" "connect_sent (restore_metrics E s) = connect_sent s"
  "password (restore_metrics E s) = password s" "uuid_active (restore_metrics E s) = uuid_active s"
  "uuid_latest (restore_metrics E s) = uuid_latest s"
  by (auto simp: restore_metrics_def Let_def on_plat_def with_plat_def split: prod.splits)

text \<open>A state in which at most one message was added to the connect slot's callback.\<close>

definition connected :: "jdoc set \<Rightarrow> 'p proto_state \<Rightarrow> 'p proto_state \<Rightarrow> bool" where
  "connected D s s' \<longleftrightarrow> sent s' = sent s \<and> uuid_latest s' = uuid_latest s \<and>
     (connect_sent s' = connect_sent s \<or> (\<exists>d \<in> D. connect_sent s' = connect_sent s @ [d]))"

lemma connect_capabilities_outcome:
  fixes s :: "'p proto_state"
  assumes "s' = connect_capabilities E u pass s"
  shows "connected {connect_doc E u pass v i | v i. version_file E = Some v} s s' \<and>
    uuid_active s' = uuid_active s \<and> password s' = password s"
proof -
  obtain r p where w: "with_plat (ask (plat_info_get (api E))) s = (r, s\<lparr>plat := p\<rparr>)" by (rule with_plat_form)
  obtain ok t where c: "calls_ok E [has_serial E, True] (s\<lparr>plat := p\<rparr>) = (ok, s\<lparr>plat := p\<rparr>\<lparr>ticks := t\<rparr>)"
    by (rule calls_ok_form)
  obtain ok2 t2 where c2: "calls_ok E (capability_calls E) (s\<lparr>plat := p\<rparr>\<lparr>ticks := t\<rparr>) = (ok2, s\<lparr>plat := p\<rparr>\<lparr>ticks := t\<rparr>\<lparr>ticks := t2\<rparr>)"
    by (rule calls_ok_form)
  show ?thesis
    using assms unfolding connect_capabilities_def w c Let_def prod.case
    by (cases r; cases "version_file E"; cases ok; cases ok2)
       (simp_all add: c c2 connected_def send_connect_blob_def try_alloc_def, blast)
qed

text \<open>C34. The connect message. It goes only to the slot for connect messages, at most once and whole: it
  carries the identifier of the saved configuration, which becomes the active one, and the
  password that was pending, which is then forgotten. A client without a readable version
  file cannot connect.\<close>

theorem connect_send_outcome:
  fixes s :: "'p proto_state"
  assumes "s' = connect_send E s"
  shows "sent s' = sent s \<and> uuid_latest s' = uuid_latest s \<and>
    (connect_sent s' = connect_sent s \<or>
     (\<exists>v i. version_file E = Some v \<and> password s' = None \<and>
        uuid_active s' = (let (ret, u, p) = plat_saved_config_id_get (api E) (plat s) in if ret \<noteq> 0 then 1 else sint u) \<and>
        connect_sent s' = connect_sent s @ [connect_doc E (uuid_active s') (password s) v i]))"
proof -
  obtain ok0 t0 where b: "build E (proto_new_blob ''connect'' []) s = (ok0, s\<lparr>ticks := t0\<rparr>)"
    using build_ticks[of E "proto_new_blob ''connect'' []" s] by (metis surjective_pairing)
  obtain ret u p where g: "plat_saved_config_id_get (api E) (plat s) = (ret, u, p)"
    by (cases "plat_saved_config_id_get (api E) (plat s)") auto
  let ?s1 = "s\<lparr>ticks := t0, plat := p, uuid_active := (if ret \<noteq> 0 then 1 else sint u)\<rparr>"
  let ?pw = "if password s = None then [] else [True]"
  obtain ok1 t1 where c1: "calls_ok E [has_serial E, True, True] ?s1 = (ok1, ?s1\<lparr>ticks := t1\<rparr>)" by (rule calls_ok_form)
  obtain ok2 t2 where c2: "calls_ok E ?pw (?s1\<lparr>ticks := t1\<rparr>) = (ok2, ?s1\<lparr>ticks := t1\<rparr>\<lparr>ticks := t2\<rparr>)" by (rule calls_ok_form)
  let ?s2 = "?s1\<lparr>ticks := t2, password := None\<rparr>"
  obtain ok3 t3 where c3: "calls_ok E [True, True] ?s2 = (ok3, ?s2\<lparr>ticks := t3\<rparr>)" by (rule calls_ok_form)
  have w: "with_plat (ask (plat_saved_config_id_get (api E))) (s\<lparr>ticks := t0\<rparr>) = ((ret, u), s\<lparr>ticks := t0, plat := p\<rparr>)"
    by (simp add: with_plat_def ask_def g)
  let ?s3 = "?s2\<lparr>ticks := t3\<rparr>"
  have s': "s' = (if \<not> ok0 then s\<lparr>ticks := t0\<rparr> else if \<not> ok1 then ?s1\<lparr>ticks := t1\<rparr> else if \<not> ok2 then ?s1\<lparr>ticks := t2\<rparr>
      else if \<not> ok3 then ?s3 else connect_capabilities E (uuid_active ?s3) (password s) ?s3)"
    using c1 c2 c3 unfolding assms connect_send_def Let_def b prod.case w by simp
  show ?thesis
    using connect_capabilities_outcome[OF refl, of E "uuid_active ?s3" "password s" ?s3] g
    unfolding s' connected_def by auto
qed

theorem connect_send_outcome_witness:
  "\<exists>s' i. s' = connect_send (demo_env\<lparr>version_file := Some (DObj [])\<rparr>) (demo_state\<lparr>password := Some ''secret''\<rparr>) \<and>
     password s' = None \<and> uuid_active s' = 0 \<and>
     connect_sent s' = [connect_doc (demo_env\<lparr>version_file := Some (DObj [])\<rparr>) 0 (Some ''secret'') (DObj []) i]"
proof -
  let ?E = "demo_env\<lparr>version_file := Some (DObj [])\<rparr>" and ?s = "demo_state\<lparr>password := Some ''secret''\<rparr>"
  have "length (connect_sent (connect_send ?E ?s)) = 1" by code_simp
  moreover have "connect_sent ?s = []" "plat ?s = \<lparr>stack_u64 = 0\<rparr>" "api ?E = three_ports_api"
    by (simp_all add: demo_state_def demo_env_def)
  ultimately show ?thesis
    using connect_send_outcome[OF refl, of ?E ?s]
    by (auto simp: three_ports_api_def example_api_def ex_plat_saved_config_id_get_def)
qed

end
