(* ===== verification/State_Report.thy ===== *)
theory State_Report
  imports Handler_Props
begin

text \<open>
  The periodic reports of \<open>proto.c\<close>: \<open>state_fill\<close> and its helpers, \<open>state_send\<close> and \<open>telemetry_send\<close>.

  A report is described by an \<open>fdoc\<close>: the document under construction together with what the code
  does on the way. \<open>FMust\<close> is a step that is undefined unless its condition holds (a \<open>sprintf\<close> into a
  fixed array, an index into a table); \<open>FFail\<close> is an error return; \<open>FOwned\<close> is an object that the error path of its function
  deletes although it is already part of the message, so that a failure inside it is freed a
  second time with the message. \<open>run_fill\<close> walks it with the allocator: \<open>None\<close> is undefined
  behaviour, \<open>False\<close> the error return that drops the message. Nodes are allocated in the order of
  the document, not in the source's order within one object, which only moves the number of a
  failing allocation.
\<close>

section \<open>Documents with checks\<close>

datatype fdoc =
    FDoc jdoc
  | FObj "(string \<times> fdoc) list"
  | FArr "fdoc list"
  | FMust bool
  | FFail
  | FOwned "(string \<times> fdoc) list"

fun run_fill :: "(nat \<Rightarrow> bool) \<Rightarrow> fdoc \<Rightarrow> nat \<Rightarrow> (bool \<times> nat) option"
  and run_fills :: "(nat \<Rightarrow> bool) \<Rightarrow> fdoc list \<Rightarrow> nat \<Rightarrow> (bool \<times> nat) option"
  and run_members :: "(nat \<Rightarrow> bool) \<Rightarrow> (string \<times> fdoc) list \<Rightarrow> nat \<Rightarrow> (bool \<times> nat) option" where
  "run_fill al (FDoc d) t = Some (run_calls al (jcalls d) t)"
| "run_fill al (FObj fs) t = (if al t then run_members al fs (Suc t) else Some (False, Suc t))"
| "run_fill al (FArr ds) t = (if al t then run_fills al ds (Suc t) else Some (False, Suc t))"
| "run_fill al (FMust ok) t = (if ok then Some (True, t) else None)"
| "run_fill al FFail t = Some (False, t)"
| "run_fill al (FOwned fs) t =
     (if al t
      then do { (ok, t) \<leftarrow> run_members al fs (Suc t); if ok then Some (True, t) else None }
      else Some (False, Suc t))"
| "run_fills al [] t = Some (True, t)"
| "run_fills al (d # ds) t =
     do { (ok, t) \<leftarrow> run_fill al d t; if ok then run_fills al ds t else Some (False, t) }"
| "run_members al [] t = Some (True, t)"
| "run_members al ((k, d) # fs) t =
     do { (ok, t) \<leftarrow> run_fill al d t; if ok then run_members al fs t else Some (False, t) }"

text \<open>The document that results when every step succeeds; checks leave nothing in it.\<close>

fun is_must :: "fdoc \<Rightarrow> bool" where
  "is_must (FMust _) = True"
| "is_must FFail = True"
| "is_must _ = False"

fun strip :: "fdoc \<Rightarrow> jdoc" where
  "strip (FDoc d) = d"
| "strip (FObj fs) = DObj (map (\<lambda>(k, d). (k, strip d)) (filter (\<lambda>(k, d). \<not> is_must d) fs))"
| "strip (FArr ds) = DArr (map strip (filter (\<lambda>d. \<not> is_must d) ds))"
| "strip (FMust _) = DArr []"
| "strip FFail = DArr []"
| "strip (FOwned fs) = DObj (map (\<lambda>(k, d). (k, strip d)) (filter (\<lambda>(k, d). \<not> is_must d) fs))"

abbreviation fstr :: "string \<Rightarrow> fdoc" where "fstr x \<equiv> FDoc (DStr (Some x))"
abbreviation fnum :: "int \<Rightarrow> fdoc" where "fnum n \<equiv> FDoc (dnum n)"
abbreviation fword :: "'a::len word \<Rightarrow> fdoc" where "fword w \<equiv> FDoc (dnum (uint w))"
abbreviation must :: "bool \<Rightarrow> string \<times> fdoc" where "must b \<equiv> ([], FMust b)"

definition jobj_u64_set :: "u64 \<Rightarrow> fdoc" where
  "jobj_u64_set u = FDoc (DRaw (dec (unat u)))"

section \<open>The state of the platform\<close>

record plat_port_counters =
  collisions :: u64
  multicast :: u64
  rx_bytes :: u64
  rx_dropped :: u64
  rx_error :: u64
  rx_packets :: u64
  tx_bytes :: u64
  tx_dropped :: u64
  tx_error :: u64
  tx_packets :: u64

record plat_port_lldp_peer_info =
  is_bridge :: bool
  is_router :: bool
  is_wlan_ap :: bool
  is_station :: bool
  lldp_name :: string
  lldp_mac :: string
  lldp_description :: string
  mgmt_ips :: "string list"
  lldp_port :: string

record plat_poe_state =
  max_power_budget :: u64
  power_threshold :: u64
  power_consumed :: u64
  power_status :: string

record plat_poe_port_state =
  poe_status :: string
  fault_status :: string
  output_voltage :: string
  poe_temperature :: string
  output_power :: u32
  output_current :: u32
  class_requested :: u8
  class_assigned :: u8
  cnt_overload :: u64
  cnt_shorted :: u64
  cnt_power_denied :: u64
  cnt_absent :: u64
  cnt_invalid_signature :: u64

record ieee8021x_client =
  auth_method :: string
  mac_addr :: string
  session_time :: u64
  username :: string
  vlan_type :: string
  client_vid :: u16

text \<open>The enumerations are kept as the numbers that index the tables of names.\<close>

record plat_port_transceiver_info =
  vendor_name :: string
  part_number :: string
  serial_number :: string
  revision :: string
  form_factor :: nat
  supported_link_modes :: "nat list"
  temperature :: dbl
  tx_optical_power :: dbl
  rx_optical_power :: dbl
  max_module_power :: dbl

text \<open>\<open>ieee8021x_clients\<close> is empty when the array of the structure is empty or null.\<close>

record plat_port_info =
  stats :: plat_port_counters
  lldp_peer_info :: plat_port_lldp_peer_info
  ieee8021x_clients :: "ieee8021x_client list"
  transceiver_info :: plat_port_transceiver_info
  pi_speed :: u32
  carrier_up :: bool
  pi_duplex :: bool
  has_lldp_peer_info :: bool
  has_transceiver_info :: bool
  pi_name :: string

record plat_system_info =
  localtime :: u64
  uptime :: u64
  ram_buffered :: u64
  ram_cached :: u64
  ram_free :: u64
  ram_total :: u64
  load_average :: "dbl list"

record plat_iee8021x_coa_counters =
  coa_req_received :: u64
  coa_ack_sent :: u64
  coa_nak_sent :: u64
  coa_ignored :: u64
  coa_wrong_attr :: u64
  coa_wrong_attr_value :: u64
  coa_wrong_session_context :: u64
  coa_administratively_prohibited_req :: u64

record plat_gw_address =
  gw_ip :: u32
  gw_metric :: u32
  gw_port :: string
  gw_mac :: string

record plat_learned_mac_addr =
  learned_port :: string
  learned_vid :: int
  learned_mac :: string

record plat_state_info =
  poe_state :: plat_poe_state
  poe_ports_state :: "nat \<Rightarrow> plat_poe_port_state"
  poe_ports_bmap :: bitmap
  port_info :: "plat_port_info list"
  vlan_info :: "plat_port_vlan list"
  learned_mac_list :: "plat_learned_mac_addr list"
  gw_addr_list :: "plat_gw_address list"
  system_info :: plat_system_info
  coa_counters :: plat_iee8021x_coa_counters

section \<open>Interfaces\<close>

text \<open>\<open>inet_ntop\<close> of an address in network byte order, as the bytes lie in memory.\<close>

definition inet_ntop :: "u32 \<Rightarrow> string" where
  "inet_ntop a =
     (let b = (\<lambda>k. dec (unat a div 256 ^ k mod 256)) in b 0 @ ''.'' @ b 1 @ ''.'' @ b 2 @ ''.'' @ b 3)"

definition state_fill_interface_counters :: "plat_port_counters \<Rightarrow> fdoc" where
  "state_fill_interface_counters c = FObj
     [(''collisions'', fword (collisions c)), (''multicast'', fword (multicast c)),
      (''rx_bytes'', fword (rx_bytes c)), (''rx_dropped'', fword (rx_dropped c)),
      (''rx_error'', fword (rx_error c)), (''rx_packets'', fword (rx_packets c)),
      (''tx_bytes'', fword (tx_bytes c)), (''tx_dropped'', fword (tx_dropped c)),
      (''tx_error'', fword (tx_error c)), (''tx_packets'', fword (tx_packets c))]"

definition form_factor_names :: "string list" where
  "form_factor_names = [[], ''SFP'', ''SFP+'', ''SFP28'', ''SFP-DD'', ''QSFP'', ''QSFP+'', ''QSFP28'', ''QSFP-DD'']"

definition link_mode_names :: "string list" where
  "link_mode_names = [[], ''1G'', ''2.5G'', ''4G SR'', ''10G SR'', ''25G SR'', ''40G SR'', ''50G SR'', ''100G SR'']"

text \<open>A read of a table of names: undefined past its end.\<close>

definition table_name :: "string list \<Rightarrow> nat \<Rightarrow> fdoc" where
  "table_name names i = (if i < length names then fstr (names ! i) else FMust False)"

definition state_fill_transceiver_info :: "plat_port_transceiver_info \<Rightarrow> fdoc" where
  "state_fill_transceiver_info i = FObj
     [(''vendor-name'', fstr (vendor_name i)), (''part-number'', fstr (part_number i)),
      (''serial-number'', fstr (serial_number i)), (''revision'', fstr (revision i)),
      (''temperature'', FDoc (DNum (temperature i))), (''tx-optical-power'', FDoc (DNum (tx_optical_power i))),
      (''rx-optical-power'', FDoc (DNum (rx_optical_power i))),
      (''max-module-power'', FDoc (DNum (max_module_power i))),
      (''form-factor'', table_name form_factor_names (form_factor i)),
      (''supported-link-modes'', FArr (map (table_name link_mode_names) (supported_link_modes i)))]"

text \<open>\<open>NAME_TO_PID\<close> writes only when the name scans; \<open>None\<close> is an indeterminate value.\<close>

definition scan_pid :: "nat option \<Rightarrow> string \<Rightarrow> nat option" where
  "scan_pid old name = (case NAME_TO_PID name of ScanVal n \<Rightarrow> Some n | ScanRange \<Rightarrow> None | _ \<Rightarrow> old)"

text \<open>The text of a location in its array of 17 bytes.\<close>

definition location_fits :: "string \<Rightarrow> bool" where
  "location_fits l \<longleftrightarrow> length l < 17"

definition port_interface :: "u64 \<Rightarrow> nat option \<Rightarrow> plat_port_info \<Rightarrow> fdoc" where
  "port_interface up pid p =
     (let location = (case pid of None \<Rightarrow> [] | Some n \<Rightarrow> ''/interfaces/'' @ dec n) in
      FObj
       ([(''clients'', FArr []), (''counters'', state_fill_interface_counters (stats p)),
         (''dns_servers'', FArr []), (''ipv4'', FObj [])] @
        (if has_transceiver_info p
         then [(''transceiver-info'', state_fill_transceiver_info (transceiver_info p))] else []) @
        [(''name'', fstr (pi_name p)), must (pid \<noteq> None \<and> location_fits location),
         (''location'', fstr location), (''uptime'', jobj_u64_set up)]))"

fun port_interfaces :: "u64 \<Rightarrow> nat option \<Rightarrow> plat_port_info list \<Rightarrow> fdoc list" where
  "port_interfaces up pid [] = []"
| "port_interfaces up pid (p # ps) =
     (let pid = scan_pid pid (pi_name p) in port_interface up pid p # port_interfaces up pid ps)"

definition state_fill_vlan_ipv4 :: "plat_port_vlan \<Rightarrow> fdoc" where
  "state_fill_vlan_ipv4 v = FObj
     [(''addresses'', FArr (if ipv4_exist (vlan_ipv4 v) then [fstr (inet_ntop (subnet (vlan_ipv4 v)))] else []))]"

definition state_fill_interface_multicast :: "plat_port_vlan \<Rightarrow> fdoc" where
  "state_fill_interface_multicast v = FObj
     (if \<not> igmp_exist (vlan_igmp v) then []
      else [(''igmp'', FObj [(''enabled-groups'', FArr (map (\<lambda>g. FObj
               [(''address'', fstr (inet_ntop (group_addr g))),
                (''egress-ports'', FArr (map fstr (egress_ports_list g)))]) (groups (vlan_igmp v))))])])"

definition vlan_interface :: "u64 \<Rightarrow> plat_port_vlan \<Rightarrow> fdoc" where
  "vlan_interface up v =
     (let location = ''/SVI/'' @ dec (vlan_id v); vlan_name = ''Vlan'' @ dec (vlan_id v) in
      FObj
       [(''clients'', FArr []), (''counters'', FObj []), (''dns_servers'', FArr []),
        (''ipv4'', state_fill_vlan_ipv4 v), (''multicast'', state_fill_interface_multicast v),
        must (location_fits location \<and> length vlan_name < 9),
        (''name'', fstr vlan_name), (''location'', fstr location), (''uptime'', jobj_u64_set up)])"

definition state_fill_interfaces_data :: "plat_state_info \<Rightarrow> fdoc" where
  "state_fill_interfaces_data st =
     (let up = uptime (system_info st) in
      FArr (port_interfaces up None (port_info st) @ map (vlan_interface up) (vlan_info st)))"

section \<open>Links\<close>

definition state_fill_link_state_poe_data :: "plat_poe_port_state \<Rightarrow> fdoc" where
  "state_fill_link_state_poe_data p = FObj
     [(''counters'', FObj
        [(''overload'', fword (cnt_overload p)), (''short'', fword (cnt_shorted p)),
         (''power-denied'', fword (cnt_power_denied p)), (''absent'', fword (cnt_absent p)),
         (''invalid-signature'', fword (cnt_invalid_signature p))]),
      (''class-requested'', fword (class_requested p)), (''class-assigned'', fword (class_assigned p)),
      (''output-power'', fword (output_power p)), (''output-current'', fword (output_current p)),
      (''output-voltage'', fstr (output_voltage p)), (''temp'', fstr (poe_temperature p)),
      (''status'', fstr (poe_status p)), (''fault-status'', fstr (fault_status p))]"

definition state_fill_link_state_ieee8021x_data :: "plat_port_info \<Rightarrow> (string \<times> fdoc) list" where
  "state_fill_link_state_ieee8021x_data p =
     (if ieee8021x_clients p = [] then []
      else [(''ieee8021x'', FOwned [(''authenticated-clients'', FArr (map (\<lambda>c. FObj
              [(''authenticated-method'', fstr (auth_method c)), (''mac-address'', fstr (mac_addr c)),
               (''session-time'', fword (session_time c)), (''username'', fstr (username c)),
               (''vlan-type'', fstr (vlan_type c)), (''vlan-id'', fword (client_vid c))])
              (ieee8021x_clients p)))])])"

text \<open>The bit of a port with power over Ethernet, and the index into the array of port states.\<close>

definition port_link :: "plat_state_info \<Rightarrow> nat option \<Rightarrow> plat_port_info \<Rightarrow> fdoc" where
  "port_link st pid p =
     (let poe = (case pid of None \<Rightarrow> None | Some n \<Rightarrow> BITMAP_TEST_BIT (poe_ports_bmap st) n) in
      FObj
       ([(''counters'', state_fill_interface_counters (stats p)), (''carrier'', FDoc (DBool (carrier_up p)))] @
        (if \<not> carrier_up p then []
         else [(''speed'', fword (pi_speed p)), (''duplex'', fstr (if pi_duplex p then ''full'' else ''half''))] @
              state_fill_link_state_ieee8021x_data p) @
        [must (poe \<noteq> None)] @
        (if poe = Some True
         then [must (the pid < MAX_NUM_OF_PORTS),
               (''poe'', state_fill_link_state_poe_data (poe_ports_state st (the pid)))]
         else [])))"

fun port_links :: "plat_state_info \<Rightarrow> nat option \<Rightarrow> plat_port_info list \<Rightarrow> (string \<times> fdoc) list" where
  "port_links st pid [] = []"
| "port_links st pid (p # ps) =
     (let pid = scan_pid pid (pi_name p) in (pi_name p, port_link st pid p) # port_links st pid ps)"

definition state_fill_link_state_data :: "plat_state_info \<Rightarrow> fdoc" where
  "state_fill_link_state_data st = FObj [(''upstream'', FObj (port_links st (Some 0) (port_info st)))]"

definition lldp_peer :: "plat_port_lldp_peer_info \<Rightarrow> fdoc" where
  "lldp_peer i = FObj
     ([(''capability'', FArr
         ((if is_bridge i then [fstr ''Bridge''] else []) @ (if is_router i then [fstr ''Router''] else []) @
          (if is_wlan_ap i then [fstr ''Wlan''] else []) @ (if is_station i then [fstr ''Station''] else []))),
       (''description'', fstr (lldp_description i)), (''mac'', fstr (lldp_mac i)),
       (''name'', fstr (lldp_name i)), (''port'', fstr (lldp_port i))] @
      (let ips = takeWhile (\<lambda>ip. ip \<noteq> []) (take 2 (mgmt_ips i)) in
       if ips = [] then [] else [(''management_ips'', FArr (map fstr ips))]))"

definition state_fill_lldp_peers :: "plat_state_info \<Rightarrow> fdoc" where
  "state_fill_lldp_peers st = FObj
     [(''downstream'', FObj []),
      (''upstream'', FObj (map (\<lambda>p. (pi_name p, FArr [lldp_peer (lldp_peer_info p)]))
         (filter has_lldp_peer_info (port_info st))))]"

section \<open>The unit\<close>

definition state_fill_unit_poe_data :: "plat_poe_state \<Rightarrow> fdoc" where
  "state_fill_unit_poe_data p = FObj
     [(''max-power-budget'', jobj_u64_set (max_power_budget p)),
      (''power-consumed'', jobj_u64_set (power_consumed p)),
      (''power-threshold'', jobj_u64_set (power_threshold p)),
      (''power-status'', fstr (power_status p))]"

definition state_fill_unit_ieee8021x_global_counters :: "plat_iee8021x_coa_counters \<Rightarrow> fdoc" where
  "state_fill_unit_ieee8021x_global_counters c = FObj [(''dynamic-authorization'', FObj [(''stats'', FObj
     [(''coa_req_received'', jobj_u64_set (coa_req_received c)),
      (''coa_ack_sent'', jobj_u64_set (coa_ack_sent c)), (''coa_nak_sent'', jobj_u64_set (coa_nak_sent c)),
      (''coa_ignored'', jobj_u64_set (coa_ignored c)), (''coa_wrong_attr'', jobj_u64_set (coa_wrong_attr c)),
      (''coa_wrong_attr_value'', jobj_u64_set (coa_wrong_attr_value c)),
      (''coa_wrong_session_context'', jobj_u64_set (coa_wrong_session_context c)),
      (''administratively_prohibited_req'', jobj_u64_set (coa_administratively_prohibited_req c))])])]"

definition state_fill_unit_data :: "plat_state_info \<Rightarrow> fdoc" where
  "state_fill_unit_data st =
     (let i = system_info st in FObj
       [(''load'', FArr (map (\<lambda>d. FDoc (DNum d)) (take 3 (load_average i)))),
        (''localtime'', jobj_u64_set (localtime i)),
        (''memory'', FObj [(''buffered'', jobj_u64_set (ram_buffered i)), (''cached'', jobj_u64_set (ram_cached i)),
                           (''free'', jobj_u64_set (ram_free i)), (''total'', jobj_u64_set (ram_total i))]),
        (''uptime'', jobj_u64_set (uptime i)),
        (''poe'', state_fill_unit_poe_data (poe_state st)),
        (''ieee8021x'', state_fill_unit_ieee8021x_global_counters (coa_counters st))])"

definition state_fill_default_gateway :: "plat_gw_address list \<Rightarrow> fdoc" where
  "state_fill_default_gateway gws = FArr (map (\<lambda>g. FObj
     [(''metric'', fword (gw_metric g)), (''gw-mac'', fstr (gw_mac g)),
      (''out-port'', fstr (gw_port g)), (''gw-ip'', fstr (inet_ntop (gw_ip g)))]) gws)"

section \<open>The public address\<close>

text \<open>The web client is a parameter: for an address, \<open>None\<close> when it cannot be set up, otherwise the
  pieces of the answer it hands to the callback and whether the transfer went well apart from
  that. The callback refuses a piece of 256 bytes or more; each piece replaces the one before.\<close>

type_synonym web = "string \<Rightarrow> (string list \<times> bool) option"

definition state_fill_pub_ip_curl_cb :: "string \<Rightarrow> string \<Rightarrow> nat \<times> string" where
  "state_fill_pub_ip_curl_cb piece buffer =
     (if length piece \<ge> 256 then (0, buffer) else (length piece, piece))"

fun receive :: "string list \<Rightarrow> string \<Rightarrow> bool \<times> string" where
  "receive [] buffer = (True, buffer)"
| "receive (p # ps) buffer =
     (let (n, b) = state_fill_pub_ip_curl_cb p buffer in if n \<noteq> length p then (False, b) else receive ps b)"

definition state_fill_public_ip :: "web \<Rightarrow> string \<Rightarrow> (string \<times> fdoc) list" where
  "state_fill_public_ip web url =
     (if url = [] then []
      else case web url of
        None \<Rightarrow> [([], FFail)]
      | Some (pieces, ok) \<Rightarrow>
          let (all, pub_ip) = receive pieces [] in
          if \<not> all \<or> \<not> ok then [([], FFail)] else [(''public_ip'', fstr pub_ip)])"

section \<open>The forwarding table\<close>

fun upd_first :: "'k \<Rightarrow> ('v \<Rightarrow> 'v) \<Rightarrow> ('k \<times> 'v) list \<Rightarrow> ('k \<times> 'v) list" where
  "upd_first k f [] = []"
| "upd_first k f ((j, v) # kvs) = (if j = k then (j, f v) # kvs else (j, v) # upd_first k f kvs)"

text \<open>The member of that name, added with the given content when there is none, and then changed.\<close>

definition get_or_add :: "string \<Rightarrow> jdoc \<Rightarrow> (jdoc \<Rightarrow> jdoc) \<Rightarrow> (string \<times> jdoc) list \<Rightarrow> (string \<times> jdoc) list" where
  "get_or_add k new f fs = upd_first k f (if map_of fs k = None then fs @ [(k, new)] else fs)"

fun add_item :: "string \<Rightarrow> jdoc \<Rightarrow> jdoc" where
  "add_item mac (DArr ms) = DArr (ms @ [DStr (Some mac)])"
| "add_item mac d = d"

fun add_vid :: "string \<Rightarrow> string \<Rightarrow> jdoc \<Rightarrow> jdoc" where
  "add_vid key mac (DObj vs) = DObj (get_or_add key (DArr []) (add_item mac) vs)"
| "add_vid key mac d = d"

text \<open>The identifier as \<open>%u\<close> prints it, cut to the array of six bytes.\<close>

definition vid_key :: "int \<Rightarrow> string" where
  "vid_key vid = snprintf_s 6 (dec (nat (vid mod 2 ^ 32)))"

definition add_mac :: "plat_learned_mac_addr \<Rightarrow> (string \<times> jdoc) list \<Rightarrow> (string \<times> jdoc) list" where
  "add_mac e = get_or_add (learned_port e) (DObj []) (add_vid (vid_key (learned_vid e)) (learned_mac e))"

definition mac_overflow :: "u32 \<Rightarrow> plat_learned_mac_addr list \<Rightarrow> bool" where
  "mac_overflow max_count es \<longleftrightarrow> length es > unat max_count \<or> max_count = 0"

definition state_fill_mac_addr_list_data :: "u32 \<Rightarrow> plat_learned_mac_addr list \<Rightarrow> fdoc" where
  "state_fill_mac_addr_list_data max_count es =
     (let overflow = mac_overflow max_count es; num_elem = (if overflow then unat max_count else length es) in
      FDoc (DObj (fold add_mac (take num_elem es) [(''overflow'', DBool overflow)])))"

section \<open>The reports\<close>

definition state_fill :: "web \<Rightarrow> metrics_state \<Rightarrow> plat_state_info \<Rightarrow> fdoc" where
  "state_fill web m st = FObj
     ([(''interfaces'', state_fill_interfaces_data st), (''link-state'', state_fill_link_state_data st)] @
      (if state_enabled m \<and> lldp_enabled m then [(''lldp-peers'', state_fill_lldp_peers st)] else []) @
      (if state_enabled m \<and> clients_enabled m
       then [(''mac-forwarding-table'', state_fill_mac_addr_list_data (max_mac_count m) (learned_mac_list st))]
       else []) @
      [(''unit'', state_fill_unit_data st),
       (''default-gateway'', state_fill_default_gateway (gw_addr_list st))] @
      state_fill_public_ip web (public_ip_lookup m) @ [(''version'', fnum 1)])"

definition fill_send :: "('j, 'p) env \<Rightarrow> fdoc \<Rightarrow> 'p proto_state \<Rightarrow> 'p proto_state option" where
  "fill_send E d s =
     do {
       (ok, t) \<leftarrow> run_fill (alloc E) d (ticks s);
       let s = s\<lparr>ticks := t\<rparr>;
       Some (if ok then send_blob E (strip d) s else s)
     }"

definition fill_blob :: "string \<Rightarrow> (string \<times> fdoc) list \<Rightarrow> fdoc" where
  "fill_blob kind params =
     FObj [(''jsonrpc'', fstr ''2.0''), (''method'', fstr kind), (''params'', FObj params)]"

text \<open>The messages the two functions build.\<close>

definition state_report :: "('j, 'p) env \<Rightarrow> web \<Rightarrow> plat_state_info \<Rightarrow> 'p proto_state \<Rightarrow> fdoc" where
  "state_report E web st s =
     fill_blob ''state''
       [(''serial'', FDoc (DStr (cl_serial E))), (''uuid'', fnum (uuid_latest s)),
        (''state'', state_fill web (m_state (metrics s)) st)]"

definition state_send ::
  "('j, 'p) env \<Rightarrow> web \<Rightarrow> plat_state_info \<Rightarrow> 'p proto_state \<Rightarrow> 'p proto_state option" where
  "state_send E web st s = fill_send E (state_report E web st s) s"

definition telemetry_report :: "('j, 'p) env \<Rightarrow> web \<Rightarrow> plat_state_info \<Rightarrow> 'p proto_state \<Rightarrow> fdoc" where
  "telemetry_report E web st s =
     fill_blob ''telemetry''
       [(''serial'', FDoc (DStr (cl_serial E))),
        (''data'', FObj
          [(''state'', FArr [FArr [fnum (now E),
              FObj [(''uuid'', fnum (uuid_latest s)), (''serial'', FDoc (DStr (cl_serial E))),
                    (''state'', state_fill web (m_state (metrics s)) st)]]]),
           (''timestamp'', fnum (now E))])]"

definition telemetry_send ::
  "('j, 'p) env \<Rightarrow> web \<Rightarrow> plat_state_info \<Rightarrow> 'p proto_state \<Rightarrow> 'p proto_state option" where
  "telemetry_send E web st s = fill_send E (telemetry_report E web st s) s"

lemmas report_defs = state_send_def state_report_def telemetry_send_def telemetry_report_def fill_blob_def

section \<open>Walking a document\<close>

text \<open>No step of the document is undefined, whatever allocations fail.\<close>

fun fill_safe :: "fdoc \<Rightarrow> bool" where
  "fill_safe (FDoc d) = True"
| "fill_safe (FObj fs) = (\<forall>x \<in> set fs. fill_safe (snd x))"
| "fill_safe (FArr ds) = (\<forall>d \<in> set ds. fill_safe d)"
| "fill_safe (FMust b) = b"
| "fill_safe FFail = True"
| "fill_safe (FOwned fs) = False"

text \<open>Every step of the document succeeds when memory is available.\<close>

fun fill_ok :: "fdoc \<Rightarrow> bool" where
  "fill_ok (FDoc d) = well_formed d"
| "fill_ok (FObj fs) = (\<forall>x \<in> set fs. fill_ok (snd x))"
| "fill_ok (FArr ds) = (\<forall>d \<in> set ds. fill_ok d)"
| "fill_ok (FMust b) = b"
| "fill_ok FFail = False"
| "fill_ok (FOwned fs) = (\<forall>x \<in> set fs. fill_ok (snd x))"

lemma run_fill_safe:
  "fill_safe d \<Longrightarrow> run_fill al d t \<noteq> None"
  "\<forall>d \<in> set ds. fill_safe d \<Longrightarrow> run_fills al ds t \<noteq> None"
  "\<forall>x \<in> set fs. fill_safe (snd x) \<Longrightarrow> run_members al fs t \<noteq> None"
  by (induction al d t and al ds t and al fs t rule: run_fill_run_fills_run_members.induct)
     (auto split: if_splits)

lemma run_fill_ok:
  "fill_ok d \<Longrightarrow> \<forall>i. al i \<Longrightarrow> \<exists>t'. run_fill al d t = Some (True, t')"
  "\<forall>d \<in> set ds. fill_ok d \<Longrightarrow> \<forall>i. al i \<Longrightarrow> \<exists>t'. run_fills al ds t = Some (True, t')"
  "\<forall>x \<in> set fs. fill_ok (snd x) \<Longrightarrow> \<forall>i. al i \<Longrightarrow> \<exists>t'. run_members al fs t = Some (True, t')"
  by (induction al d t and al ds t and al fs t rule: run_fill_run_fills_run_members.induct)
     (fastforce simp: run_calls_all well_formed_def)+

lemma fill_send_cases:
  assumes "fill_send E d s = Some s'"
  shows "only_sends [] s s' \<or> only_sends [strip d] s s'"
  using assms send_blob_only_sends[of "s\<lparr>ticks := _\<rparr>" E "strip d"]
  unfolding fill_send_def Let_def by (auto elim!: bindE simp: only_sends_def split: if_splits) blast+

lemma fill_send_safe: "fill_safe d \<Longrightarrow> fill_send E d s \<noteq> None"
  using run_fill_safe(1)[of d "alloc E" "ticks s"] by (auto simp: fill_send_def Let_def)

lemma fill_send_ok:
  assumes "fill_ok d" "\<forall>i. alloc E i"
  shows "\<exists>s'. fill_send E d s = Some s' \<and> only_sends [strip d] s s'"
proof -
  obtain t where "run_fill (alloc E) d (ticks s) = Some (True, t)" using run_fill_ok(1)[OF assms] by blast
  then show ?thesis
    using assms(2) by (auto simp: fill_send_def Let_def send_blob_def try_alloc_def only_sends_def)
qed

section \<open>What a platform may report\<close>

text \<open>Ports under their own names and in range, VLANs in range, transceivers of known kinds, and the
  bit array of its declared size.\<close>

definition port_reportable :: "plat_port_info \<Rightarrow> bool" where
  "port_reportable p \<longleftrightarrow> (\<exists>n < MAX_NUM_OF_PORTS. pi_name p = PID_TO_NAME n) \<and>
     (has_transceiver_info p \<longrightarrow> form_factor (transceiver_info p) < length form_factor_names \<and>
        (\<forall>m \<in> set (supported_link_modes (transceiver_info p)). m < length link_mode_names))"

definition reportable :: "plat_state_info \<Rightarrow> bool" where
  "reportable st \<longleftrightarrow> (\<forall>p \<in> set (port_info st). port_reportable p) \<and>
     (\<forall>v \<in> set (vlan_info st). vlan_id v < MAX_VLANS) \<and>
     length (poe_ports_bmap st) = BITS_TO_UINT32 MAX_NUM_OF_PORTS"

lemma scan_pid_name: "n < MAX_NUM_OF_PORTS \<Longrightarrow> scan_pid old (PID_TO_NAME n) = Some n"
  by (simp add: scan_pid_def NAME_TO_PID_def PID_TO_NAME_def scan_lit_append scan_dec MAX_NUM_OF_PORTS_def)

lemma port_location_fits: "n < MAX_NUM_OF_PORTS \<Longrightarrow> location_fits (''/interfaces/'' @ dec n)"
  using length_dec_le[of n 2] by (simp add: location_fits_def MAX_NUM_OF_PORTS_def)

lemma vlan_location_fits:
  "v < MAX_VLANS \<Longrightarrow> location_fits (''/SVI/'' @ dec v) \<and> length (''Vlan'' @ dec v) < 9"
  using length_dec_le[of v 4] by (simp add: location_fits_def MAX_VLANS_def)

lemmas unit_docs = state_fill_interface_counters_def state_fill_transceiver_info_def
  state_fill_vlan_ipv4_def state_fill_interface_multicast_def vlan_interface_def port_interface_def
  state_fill_link_state_poe_data_def state_fill_lldp_peers_def lldp_peer_def state_fill_unit_poe_data_def
  state_fill_unit_ieee8021x_global_counters_def state_fill_unit_data_def state_fill_default_gateway_def
  jobj_u64_set_def table_name_def

lemma port_interface_ok:
  assumes "port_reportable p" "n < MAX_NUM_OF_PORTS"
  shows "fill_ok (port_interface up (Some n) p)" "fill_safe (port_interface up (Some n) p)"
  using assms port_location_fits[of n]
  by (auto simp: unit_docs jdoc_wf Let_def port_reportable_def)

lemma vlan_interface_ok:
  assumes "vlan_id v < MAX_VLANS"
  shows "fill_ok (vlan_interface up v)" "fill_safe (vlan_interface up v)"
  using vlan_location_fits[OF assms] by (auto simp: unit_docs jdoc_wf Let_def)

lemma port_interfaces_ok:
  assumes "\<forall>p \<in> set ps. port_reportable p"
  shows "\<forall>d \<in> set (port_interfaces up pid ps). fill_ok d \<and> fill_safe d"
  using assms
proof (induction ps arbitrary: pid)
  case (Cons p ps)
  then obtain n where "n < MAX_NUM_OF_PORTS" "scan_pid pid (pi_name p) = Some n"
    by (auto simp: port_reportable_def scan_pid_name)
  then show ?case using Cons by (simp add: port_interface_ok Let_def)
qed simp

text \<open>The links are defined whatever fails, unless an authenticated client is listed.\<close>

lemma well_formed_bool [jdoc_wf]: "well_formed (DBool b)"
  by (simp add: well_formed_def)

lemma port_link_ok:
  assumes "reportable st" "n < MAX_NUM_OF_PORTS"
  shows "fill_ok (port_link st (Some n) p)"
    "carrier_up p \<longrightarrow> ieee8021x_clients p = [] \<Longrightarrow> fill_safe (port_link st (Some n) p)"
proof -
  have "n < 32 * length (poe_ports_bmap st)"
    using assms by (simp add: reportable_def BITS_TO_UINT32_def MAX_NUM_OF_PORTS_def)
  then obtain b where "BITMAP_TEST_BIT (poe_ports_bmap st) n = Some b" by (simp add: test_bit_eq)
  then show "fill_ok (port_link st (Some n) p)"
    "carrier_up p \<longrightarrow> ieee8021x_clients p = [] \<Longrightarrow> fill_safe (port_link st (Some n) p)"
    using assms(2)
    by (auto simp: port_link_def Let_def unit_docs jdoc_wf state_fill_link_state_ieee8021x_data_def)
qed

lemma port_links_ok:
  assumes "reportable st" "\<forall>p \<in> set ps. port_reportable p"
  shows "\<forall>x \<in> set (port_links st pid ps). fill_ok (snd x) \<and>
    ((\<forall>p \<in> set ps. carrier_up p \<longrightarrow> ieee8021x_clients p = []) \<longrightarrow> fill_safe (snd x))"
  using assms(2)
proof (induction ps arbitrary: pid)
  case (Cons p ps)
  then obtain n where n: "n < MAX_NUM_OF_PORTS" "scan_pid pid (pi_name p) = Some n"
    by (auto simp: port_reportable_def scan_pid_name)
  then have "fill_ok (port_link st (Some n) p)"
    "carrier_up p \<longrightarrow> ieee8021x_clients p = [] \<Longrightarrow> fill_safe (port_link st (Some n) p)"
    using port_link_ok[OF assms(1)] by simp_all
  then show ?case using Cons n by (simp add: Let_def)
qed simp

text \<open>The web client answered, or is not asked.\<close>

definition web_ok :: "web \<Rightarrow> string \<Rightarrow> bool" where
  "web_ok web url \<longleftrightarrow> url = [] \<or> (\<exists>ps. web url = Some (ps, True) \<and> (\<forall>p \<in> set ps. length p < 256))"

lemma receive_all: "\<forall>p \<in> set ps. length p < 256 \<Longrightarrow> fst (receive ps b)"
  by (induction ps arbitrary: b) (auto simp: state_fill_pub_ip_curl_cb_def)

lemma public_ip_ok:
  "\<forall>x \<in> set (state_fill_public_ip web url). fill_safe (snd x) \<and> (web_ok web url \<longrightarrow> fill_ok (snd x))"
  using receive_all by (auto simp: state_fill_public_ip_def web_ok_def jdoc_wf Let_def split: option.splits prod.splits) (metis fst_conv)

section \<open>The forwarding table\<close>

lemma upd_first_set:
  assumes "\<forall>x \<in> set fs. P (snd x)" "\<And>d. P d \<Longrightarrow> P (f d)"
  shows "\<forall>x \<in> set (upd_first k f fs). P (snd x)"
  using assms(1)
proof (induction fs)
  case (Cons x fs)
  then show ?case by (cases x) (simp add: assms(2))
qed simp

lemma get_or_add_set:
  assumes "\<forall>x \<in> set fs. P (snd x)" "P new" "\<And>d. P d \<Longrightarrow> P (f d)"
  shows "\<forall>x \<in> set (get_or_add k new f fs). P (snd x)"
  unfolding get_or_add_def using assms by (intro upd_first_set) auto

lemma add_item_wf: "well_formed d \<Longrightarrow> well_formed (add_item mac d)"
  by (cases d) (auto simp: jdoc_wf)

lemma well_formed_obj: "well_formed (DObj fs) \<longleftrightarrow> (\<forall>x \<in> set fs. well_formed (snd x))"
  by (force simp: jdoc_wf)

lemma add_vid_wf:
  assumes "well_formed d"
  shows "well_formed (add_vid key mac d)"
proof (cases d)
  case (DObj vs)
  then show ?thesis
    using assms get_or_add_set[of vs well_formed "DArr []" "add_item mac" key] add_item_wf
    by (simp add: well_formed_obj jdoc_wf(4))
qed (use assms in auto)

lemma fold_add_mac_wf:
  "\<forall>x \<in> set fs. well_formed (snd x) \<Longrightarrow> \<forall>x \<in> set (fold add_mac es fs). well_formed (snd x)"
proof (induction es arbitrary: fs)
  case (Cons e es)
  have "\<forall>x \<in> set (add_mac e fs). well_formed (snd x)"
    unfolding add_mac_def using Cons.prems add_vid_wf
    by (intro get_or_add_set) (auto simp: jdoc_wf)
  then show ?case using Cons.IH by simp
qed simp

lemma mac_table_ok: "fill_ok (state_fill_mac_addr_list_data n es)" "fill_safe (state_fill_mac_addr_list_data n es)"
  using fold_add_mac_wf[of "[(''overflow'', DBool _)]"]
  by (simp_all add: state_fill_mac_addr_list_data_def Let_def well_formed_obj well_formed_bool)

lemma map_of_upd_first: "map_of (upd_first k f fs) j = (if j = k then map_option f (map_of fs k) else map_of fs j)"
  by (induction k f fs rule: upd_first.induct) auto

lemma map_of_get_or_add:
  "map_of (get_or_add k new f fs) j =
     (if j = k then Some (f (case map_of fs k of None \<Rightarrow> new | Some d \<Rightarrow> d)) else map_of fs j)"
  by (auto simp: get_or_add_def map_of_upd_first map_add_def split: option.splits)

text \<open>The addresses listed under a port and a VLAN key.\<close>

fun items :: "jdoc \<Rightarrow> string list" where
  "items (DArr ms) = concat (map (\<lambda>m. case m of DStr (Some x) \<Rightarrow> [x] | _ \<Rightarrow> []) ms)"
| "items _ = []"

definition macs_of :: "(string \<times> jdoc) list \<Rightarrow> string \<Rightarrow> string \<Rightarrow> string list" where
  "macs_of fs port key =
     (case map_of fs port of Some (DObj vs) \<Rightarrow> (case map_of vs key of None \<Rightarrow> [] | Some d \<Rightarrow> items d) | _ \<Rightarrow> [])"

text \<open>All members but the flag are objects of arrays.\<close>

fun is_vids :: "jdoc \<Rightarrow> bool" where
  "is_vids (DObj vs) = (\<forall>x \<in> set vs. case snd x of DArr _ \<Rightarrow> True | _ \<Rightarrow> False)"
| "is_vids _ = False"

definition table_shape :: "(string \<times> jdoc) list \<Rightarrow> bool" where
  "table_shape fs \<longleftrightarrow> (\<exists>b. map_of fs ''overflow'' = Some (DBool b)) \<and>
     (\<forall>p d. p \<noteq> ''overflow'' \<longrightarrow> map_of fs p = Some d \<longrightarrow> is_vids d)"

lemma add_vid_shape:
  assumes "is_vids d"
  shows "is_vids (add_vid key mac d)" 
    "(case add_vid key mac d of DObj vs \<Rightarrow> (case map_of vs k of None \<Rightarrow> [] | Some x \<Rightarrow> items x) | _ \<Rightarrow> []) =
     (case d of DObj vs \<Rightarrow> (case map_of vs k of None \<Rightarrow> [] | Some x \<Rightarrow> items x) | _ \<Rightarrow> []) @ (if k = key then [mac] else [])"
proof -
  obtain vs where d: "d = DObj vs" and vs: "\<forall>x \<in> set vs. case snd x of DArr _ \<Rightarrow> True | _ \<Rightarrow> False"
    using assms by (cases d) auto
  have "case add_item mac x of DArr _ \<Rightarrow> True | _ \<Rightarrow> False" if "case x of DArr _ \<Rightarrow> True | _ \<Rightarrow> False" for x
    using that by (cases x) auto
  then show "is_vids (add_vid key mac d)"
    using get_or_add_set[of vs "\<lambda>x. case x of DArr _ \<Rightarrow> True | _ \<Rightarrow> False" "DArr []" "add_item mac" key] vs d by simp
  have "items (add_item mac x) = items x @ [mac]" if "map_of vs key = Some x" for x
    using that vs map_of_SomeD[of vs key x] by (cases x) fastforce+
  then show "(case add_vid key mac d of DObj vs \<Rightarrow> (case map_of vs k of None \<Rightarrow> [] | Some x \<Rightarrow> items x) | _ \<Rightarrow> []) =
     (case d of DObj vs \<Rightarrow> (case map_of vs k of None \<Rightarrow> [] | Some x \<Rightarrow> items x) | _ \<Rightarrow> []) @ (if k = key then [mac] else [])"
    using d by (auto simp: map_of_get_or_add split: option.splits)
qed

lemma add_mac_shape:
  assumes "table_shape fs"
  shows "table_shape (add_mac e fs)" "map_of (add_mac e fs) ''overflow'' = map_of fs ''overflow''"
    "p \<noteq> ''overflow'' \<Longrightarrow> macs_of (add_mac e fs) p key =
       macs_of fs p key @ (if learned_port e = p \<and> vid_key (learned_vid e) = key then [learned_mac e] else [])"
proof -
  have kept: "is_vids (case map_of fs p of None \<Rightarrow> DObj [] | Some d \<Rightarrow> d)" if "p \<noteq> ''overflow''" for p
    using assms that by (auto simp: table_shape_def split: option.splits)
  show ov: "map_of (add_mac e fs) ''overflow'' = map_of fs ''overflow''"
    using assms by (auto simp: add_mac_def map_of_get_or_add table_shape_def)
  show "table_shape (add_mac e fs)"
    using assms ov kept add_vid_shape(1)
    by (auto simp: table_shape_def add_mac_def map_of_get_or_add split: if_splits)
  show "macs_of (add_mac e fs) p key =
       macs_of fs p key @ (if learned_port e = p \<and> vid_key (learned_vid e) = key then [learned_mac e] else [])"
    if "p \<noteq> ''overflow''"
    using add_vid_shape(2)[OF kept[OF that], where key = "vid_key (learned_vid e)" and mac = "learned_mac e" and k = key]
    by (auto simp: macs_of_def add_mac_def map_of_get_or_add split: option.splits)
qed

lemma fold_add_mac_exact:
  assumes "table_shape fs"
  shows "map_of (fold add_mac es fs) ''overflow'' = map_of fs ''overflow'' \<and>
    (p \<noteq> ''overflow'' \<longrightarrow> macs_of (fold add_mac es fs) p key = macs_of fs p key @
      map learned_mac (filter (\<lambda>e. learned_port e = p \<and> vid_key (learned_vid e) = key) es))"
  using assms
proof (induction es arbitrary: fs)
  case (Cons e es)
  then show ?case using add_mac_shape[OF Cons.prems] Cons.IH[OF add_mac_shape(1)[OF Cons.prems, of e]] by simp
qed simp

text \<open>The forwarding table is exact. The reported table has the first \<open>max_mac_count\<close> learned
  addresses, each under its port and VLAN and in order, none twice and none lost, and says so
  when there were more.\<close>

theorem mac_table_exact:
  "\<exists>fs. strip (state_fill_mac_addr_list_data n es) = DObj fs \<and>
     map_of fs ''overflow'' = Some (DBool (unat n < length es \<or> n = 0)) \<and>
     (p \<noteq> ''overflow'' \<longrightarrow> macs_of fs p key =
       map learned_mac (filter (\<lambda>e. learned_port e = p \<and> vid_key (learned_vid e) = key) (take (unat n) es)))"
proof -
  let ?b = "unat n < length es \<or> n = 0"
  let ?fs = "fold add_mac (take (unat n) es) [(''overflow'', DBool ?b)]"
  have "take (if ?b then unat n else length es) es = take (unat n) es" by auto
  then have "strip (state_fill_mac_addr_list_data n es) = DObj ?fs"
    by (simp add: state_fill_mac_addr_list_data_def mac_overflow_def Let_def)
  moreover have "table_shape [(''overflow'', DBool ?b)]" by (simp add: table_shape_def)
  ultimately show ?thesis using fold_add_mac_exact[of "[(''overflow'', DBool ?b)]"]
    by (intro exI[of _ ?fs]) (simp add: macs_of_def)
qed

theorem mac_table_exact_witness:
  "\<exists>fs. strip (state_fill_mac_addr_list_data 4 [\<lparr>learned_port = ''Ethernet1'', learned_vid = 5, learned_mac = ''00:11:22:33:44:55''\<rparr>]) = DObj fs \<and>
     macs_of fs ''Ethernet1'' (vid_key 5) = [''00:11:22:33:44:55'']"
  using mac_table_exact[of 4 "[\<lparr>learned_port = ''Ethernet1'', learned_vid = 5, learned_mac = ''00:11:22:33:44:55''\<rparr>]"
      "''Ethernet1''" "vid_key 5"]
  by auto

section \<open>Reports are sent whole\<close>

lemma state_fill_ok:
  assumes "reportable st" "web_ok web (public_ip_lookup m)"
  shows "fill_ok (state_fill web m st)"
  using assms port_interfaces_ok[of "port_info st"] vlan_interface_ok(1) port_links_ok[OF assms(1), of "port_info st"]
    public_ip_ok[of web "public_ip_lookup m"] mac_table_ok(1)
  by (auto simp: state_fill_def state_fill_interfaces_data_def state_fill_link_state_data_def Let_def reportable_def
      unit_docs jdoc_wf)

lemma state_fill_safe:
  assumes "reportable st" "\<forall>p \<in> set (port_info st). carrier_up p \<longrightarrow> ieee8021x_clients p = []"
  shows "fill_safe (state_fill web m st)"
  using assms port_interfaces_ok[of "port_info st"] vlan_interface_ok(2) port_links_ok[OF assms(1), of "port_info st"]
    public_ip_ok[of web "public_ip_lookup m"] mac_table_ok(2)
  by (auto simp: state_fill_def state_fill_interfaces_data_def state_fill_link_state_data_def Let_def reportable_def
      unit_docs)

text \<open>The names of the interfaces a report lists.\<close>

fun elements :: "jdoc \<Rightarrow> jdoc list" where
  "elements (DArr ds) = ds"
| "elements _ = []"

definition reported_names :: "jdoc \<Rightarrow> jdoc option list" where
  "reported_names d =
     (case do { ps \<leftarrow> dget d ''params''; st \<leftarrow> dget ps ''state''; dget st ''interfaces'' } of
        None \<Rightarrow> [] | Some is \<Rightarrow> map (\<lambda>i. dget i ''name'') (elements is))"

lemma strip_port_interfaces:
  "map (\<lambda>i. dget (strip i) ''name'') (filter (\<lambda>d. \<not> is_must d) (port_interfaces up pid ps)) =
     map (\<lambda>p. Some (DStr (Some (pi_name p)))) ps"
proof (induction ps arbitrary: pid)
  case (Cons p ps)
  have "dget (strip (port_interface up pid p)) ''name'' = Some (DStr (Some (pi_name p)))"
    "\<not> is_must (port_interface up pid p)" for pid
    by (simp_all add: port_interface_def Let_def unit_docs)
  then show ?case using Cons by (simp add: Let_def)
qed simp

lemma strip_vlan_interfaces:
  "map (\<lambda>i. dget (strip i) ''name'') (filter (\<lambda>d. \<not> is_must d) (map (vlan_interface up) vs)) =
     map (\<lambda>v. Some (DStr (Some (VLAN_TO_NAME (vlan_id v))))) vs"
  by (induction vs) (simp_all add: vlan_interface_def Let_def unit_docs VLAN_TO_NAME_def)

lemma strip_interfaces:
  "dget (strip (state_fill web m st)) ''interfaces'' = Some (strip (state_fill_interfaces_data st))"
  by (simp add: state_fill_def state_fill_interfaces_data_def Let_def)

text \<open>A complete report.\<close>

lemma state_send_complete:
  assumes "can_reply E" "reportable st" "web_ok web (public_ip_lookup (m_state (metrics s)))"
  shows "\<exists>s' d. state_send E web st s = Some s' \<and> only_sends [d] s s' \<and>
    dget (the (dget d ''params'')) ''uuid'' = Some (dnum (uuid_latest s)) \<and>
    reported_names d = map (\<lambda>p. Some (DStr (Some (pi_name p)))) (port_info st) @
      map (\<lambda>v. Some (DStr (Some (VLAN_TO_NAME (vlan_id v))))) (vlan_info st)"
proof -
  let ?d = "fill_blob ''state'' [(''serial'', FDoc (DStr (cl_serial E))), (''uuid'', fnum (uuid_latest s)),
      (''state'', state_fill web (m_state (metrics s)) st)]"
  have "fill_ok ?d"
    using assms(1) state_fill_ok[OF assms(2,3)] by (simp add: fill_blob_def jdoc_wf can_reply_def)
  then obtain s' where s': "state_send E web st s = Some s'" "only_sends [strip ?d] s s'"
    using fill_send_ok[of ?d E s] assms(1) by (auto simp: can_reply_def state_send_def state_report_def)
  have "\<not> is_must (state_fill web (m_state (metrics s)) st)" by (simp add: state_fill_def)
  then have "dget (the (dget (strip ?d) ''params'')) ''uuid'' = Some (dnum (uuid_latest s))"
    and "reported_names (strip ?d) = map (\<lambda>i. dget i ''name'') (elements (strip (state_fill_interfaces_data st)))"
    by (simp_all add: fill_blob_def reported_names_def strip_interfaces)
  moreover have "map (\<lambda>i. dget i ''name'') (elements (strip (state_fill_interfaces_data st))) =
      map (\<lambda>p. Some (DStr (Some (pi_name p)))) (port_info st) @
      map (\<lambda>v. Some (DStr (Some (VLAN_TO_NAME (vlan_id v))))) (vlan_info st)"
    using strip_port_interfaces[of _ None "port_info st"] strip_vlan_interfaces[of _ "vlan_info st"]
    by (simp add: state_fill_interfaces_data_def Let_def comp_def)
  ultimately show ?thesis using s' by auto
qed

text \<open>A state report is complete. When memory is available and the platform reports ports and VLANs
  in range, the report is sent with the latest configuration identifier and lists every port
  of the platform and then every VLAN, by name and in order; nothing else changes.\<close>

theorem state_send_reports:
  assumes "can_reply E" "reportable st" "web_ok web (public_ip_lookup (m_state (metrics s)))"
  shows "\<exists>s' d. state_send E web st s = Some s' \<and> only_sends [d] s s' \<and>
    dget (the (dget d ''params'')) ''uuid'' = Some (dnum (uuid_latest s)) \<and>
    reported_names d = map (\<lambda>p. Some (DStr (Some (pi_name p)))) (port_info st) @
      map (\<lambda>v. Some (DStr (Some (VLAN_TO_NAME (vlan_id v))))) (vlan_info st)"
  by (rule state_send_complete[OF assms])


text \<open>A platform with one port and one VLAN.\<close>

definition demo_counters :: plat_port_counters where
  "demo_counters = \<lparr>collisions = 0, multicast = 0, rx_bytes = 0, rx_dropped = 0, rx_error = 0, rx_packets = 0,
     tx_bytes = 0, tx_dropped = 0, tx_error = 0, tx_packets = 0\<rparr>"

definition demo_port :: "ieee8021x_client list \<Rightarrow> plat_port_info" where
  "demo_port cs = \<lparr>stats = demo_counters,
     lldp_peer_info = \<lparr>is_bridge = False, is_router = False, is_wlan_ap = False, is_station = False, lldp_name = [],
       lldp_mac = [], lldp_description = [], mgmt_ips = [], lldp_port = []\<rparr>,
     ieee8021x_clients = cs,
     transceiver_info = \<lparr>vendor_name = [], part_number = [], serial_number = [], revision = [], form_factor = 0,
       supported_link_modes = [], temperature = Fin 0, tx_optical_power = Fin 0, rx_optical_power = Fin 0,
       max_module_power = Fin 0\<rparr>,
     pi_speed = 1000, carrier_up = True, pi_duplex = True, has_lldp_peer_info = False, has_transceiver_info = False,
     pi_name = ''Ethernet7''\<rparr>"

definition demo_client :: ieee8021x_client where
  "demo_client = \<lparr>auth_method = ''EAP'', mac_addr = [], session_time = 0, username = [], vlan_type = [], client_vid = 1\<rparr>"

definition demo_poe_port :: plat_poe_port_state where
  "demo_poe_port = \<lparr>poe_status = [], fault_status = [], output_voltage = [], poe_temperature = [], output_power = 0,
     output_current = 0, class_requested = 0, class_assigned = 0, cnt_overload = 0, cnt_shorted = 0,
     cnt_power_denied = 0, cnt_absent = 0, cnt_invalid_signature = 0\<rparr>"

definition demo_info :: "ieee8021x_client list \<Rightarrow> plat_state_info" where
  "demo_info cs = \<lparr>poe_state = \<lparr>max_power_budget = 0, power_threshold = 0, power_consumed = 0, power_status = []\<rparr>,
     poe_ports_state = (\<lambda>_. demo_poe_port), poe_ports_bmap = [0, 0, 0, 0],
     port_info = [demo_port cs], vlan_info = [vlan_zero\<lparr>vlan_id := 10\<rparr>], learned_mac_list = [], gw_addr_list = [],
     system_info = \<lparr>localtime = 0, uptime = 0, ram_buffered = 0, ram_cached = 0, ram_free = 0, ram_total = 0,
       load_average = [Fin 0, Fin 0, Fin 0]\<rparr>,
     coa_counters = \<lparr>coa_req_received = 0, coa_ack_sent = 0, coa_nak_sent = 0, coa_ignored = 0, coa_wrong_attr = 0,
       coa_wrong_attr_value = 0, coa_wrong_session_context = 0, coa_administratively_prohibited_req = 0\<rparr>\<rparr>"

lemma demo_reportable: "reportable (demo_info cs)"
proof -
  have "''Ethernet7'' = PID_TO_NAME 7" by code_simp
  then have "port_reportable (demo_port cs)"
    unfolding port_reportable_def demo_port_def by (auto simp: MAX_NUM_OF_PORTS_def intro!: exI[of _ 7])
  then show ?thesis
    by (simp add: reportable_def demo_info_def MAX_VLANS_def BITS_TO_UINT32_def MAX_NUM_OF_PORTS_def)
qed

lemma demo_can_reply: "can_reply demo_env"
  by (simp add: can_reply_def demo_env_def)

theorem state_send_reports_witness:
  "\<exists>s' d. state_send demo_env (\<lambda>_. None) (demo_info [demo_client]) demo_state = Some s' \<and>
    only_sends [d] demo_state s' \<and>
    reported_names d = [Some (DStr (Some ''Ethernet7'')), Some (DStr (Some (VLAN_TO_NAME 10)))]"
  using state_send_reports[OF demo_can_reply demo_reportable, of "\<lambda>_. None" demo_state "[demo_client]"]
  by (fastforce simp: web_ok_def demo_state_def metrics_zero_def metrics_state_zero_def demo_info_def demo_port_def)




end
