(* ===== verification/Client_Setup.thy ===== *)
theory Client_Setup
  imports Est_Client Json_Api
begin

text \<open>
  What \<open>ucentral-client.c\<close> does before the connection: the identity of the device, the certificates
  (\<open>pki2_check_and_enroll\<close>), the address of the gateway and a password that waits to be reported.
  Files and environment variables are parameters or part of the file map of \<open>Est_Client\<close>.
\<close>

section \<open>Environment variables\<close>

definition env_flag :: "string option \<Rightarrow> bool" where
  "env_flag v = (case v of None \<Rightarrow> False | Some x \<Rightarrow> x \<noteq> [] \<and> x \<noteq> ''0'')"

definition gateway_cert_trust :: "string option \<Rightarrow> bool" where
  "gateway_cert_trust = env_flag"

definition redirector_cert_trust :: "string option \<Rightarrow> bool" where
  "redirector_cert_trust = env_flag"

definition redirector_host_get :: "string option \<Rightarrow> string" where
  "redirector_host_get v =
     (case v of Some u \<Rightarrow> snprintf_s 512 u | None \<Rightarrow> ''https://clientauth.one.digicert.com/iot/api/v2/device'')"

section \<open>Identity\<close>

definition NUL :: char where "NUL = CHR 0x00"

text \<open>A character array as a C string.\<close>

definition c_string :: "char list \<Rightarrow> string" where
  "c_string buf = takeWhile (\<lambda>c. c \<noteq> NUL) buf"

record client_config =
  CN :: "char list"
  devid :: string
  ca :: "string option"
  cert :: "string option"
  server :: "string option"
  port :: int

definition client_init :: client_config where
  "client_init = \<lparr>CN = replicate 64 NUL, devid = [], ca = None, cert = None, server = None, port = 15002\<rparr>"

definition serial :: "client_config \<Rightarrow> string" where
  "serial c = c_string (drop 10 (CN c))"

text \<open>The name written into the array of 64 bytes, with room for 63, and lowered from position 10 on.\<close>

definition cn_store :: "string \<Rightarrow> char list \<Rightarrow> char list" where
  "cn_store name buf =
     (let n = take 62 name; b = n @ [NUL] @ drop (length n + 1) buf in
      take 10 b @ map ascii_lower (take 53 (drop 10 b)) @ drop 63 b)"

text \<open>A device identifier: a file of 36 bytes or more is read as 37 bytes, a shorter one as it is; the
  last byte that was read makes room for the terminator. Reading fails when the file is shorter
  than what is asked for.\<close>

definition devid_read :: "string \<Rightarrow> string option" where
  "devid_read content =
     (let size = (if length content < 36 then length content else 37) in
      if size = 0 \<or> length content < size then None else Some (take (size - 1) content))"

text \<open>\<open>common_name\<close> is the subject of the certificate in a file, \<open>devid_file\<close> the content of the identifier's.\<close>

definition client_config_read ::
  "(string \<Rightarrow> string option) \<Rightarrow> string option \<Rightarrow> client_config \<Rightarrow> int \<times> client_config" where
  "client_config_read common_name devid_file c =
     (let cert_for_cn = (case cert c of Some f \<Rightarrow> f | None \<Rightarrow> ''/etc/ucentral/cert.pem'') in
      case common_name cert_for_cn of
        None \<Rightarrow> (- 1, c)
      | Some name \<Rightarrow>
          let c = c\<lparr>CN := cn_store name (CN c)\<rparr> in
          (case devid_file of
             None \<Rightarrow> (- 1, c)
           | Some content \<Rightarrow>
               (case devid_read content of None \<Rightarrow> (- 1, c) | Some d \<Rightarrow> (0, c\<lparr>devid := d\<rparr>))))"

section \<open>A password to report\<close>

definition strncpy_into :: "nat \<Rightarrow> string \<Rightarrow> char list \<Rightarrow> char list" where
  "strncpy_into n src buf =
     (let s = take n (c_string src) in s @ replicate (n - length s) NUL @ drop n buf)"

text \<open>\<open>file\<close> is the content of the credential file if it is there and can be opened; \<open>removable\<close> whether it
  can be deleted; \<open>pass\<close> and \<open>len\<close> are the caller's buffer. The result has the file's new content.\<close>

definition get_updated_pass ::
  "string option \<Rightarrow> bool \<Rightarrow> char list \<Rightarrow> nat \<Rightarrow> (int \<times> char list \<times> nat) \<times> string option" where
  "get_updated_pass file removable pass len =
     (case file of
        None \<Rightarrow> ((- 1, pass, len), None)
      | Some content \<Rightarrow>
          let password = take 64 content; size = length password in
          if size = 64 \<or> size = 0 \<or> len < size then ((- 1, pass, len), Some content)
          else if \<not> removable then ((- 1, pass, len), Some content)
          else ((0, strncpy_into size password pass, size), None))"

section \<open>Certificates\<close>

definition operational_cert_path :: string where "operational_cert_path = ''/etc/ucentral/operational.pem''"
definition operational_ca_path :: string where "operational_ca_path = ''/etc/ucentral/operational.ca''"
definition birth_cert_path :: string where "birth_cert_path = ''/etc/ucentral/cert.pem''"
definition birth_key_path :: string where "birth_key_path = ''/etc/ucentral/key.pem''"
definition birth_ca_path :: string where "birth_ca_path = ''/etc/ucentral/cas.pem''"

definition use_birth :: "client_config \<Rightarrow> client_config" where
  "use_birth c = c\<lparr>cert := Some birth_cert_path, ca := Some birth_ca_path\<rparr>"

definition use_operational :: "client_config \<Rightarrow> client_config" where
  "use_operational c = c\<lparr>cert := Some operational_cert_path, ca := Some operational_ca_path\<rparr>"

definition pki2_check_and_enroll ::
  "('x, 'n, 'k) openssl \<Rightarrow> http \<Rightarrow> string option \<Rightarrow> client_config \<Rightarrow> est_state \<Rightarrow> int \<times> client_config \<times> est_state" where
  "pki2_check_and_enroll C http est_server c s =
     (if files s operational_cert_path \<noteq> None then (0, use_operational c, s)
      else if files s birth_cert_path = None then (- 1, c, s)
      else
        let (server, s) = est_get_server_url C est_server birth_cert_path s;
            ((ret, enrolled), s) = est_simple_enroll C http server birth_cert_path birth_key_path s
        in if ret \<noteq> EST_SUCCESS then (- 1, use_birth c, s)
           else
             let (ret, s) = est_save_cert enrolled operational_cert_path s in
             if ret \<noteq> EST_SUCCESS then (- 1, use_birth c, s)
             else
               let ((ret, ca_certs), s) = est_get_cacerts C http server operational_cert_path s;
                   s = (if ret = EST_SUCCESS then snd (est_save_cert ca_certs operational_ca_path s) else s)
               in (0, use_operational c, s))"

section \<open>The gateway\<close>

text \<open>\<open>strrchr\<close> for the colon: what stands before and after the last one.\<close>

definition split_colon :: "string \<Rightarrow> (string \<times> string) option" where
  "split_colon s =
     (let r = rev s; b = takeWhile (\<lambda>c. c \<noteq> CHR '':'') r; a = dropWhile (\<lambda>c. c \<noteq> CHR '':'') r in
      if a = [] then None else Some (rev (tl a), rev b))"

text \<open>\<open>atoi\<close>: white space, a sign, digits; undefined for a number that is no \<open>int\<close>.\<close>

definition atoi :: "string \<Rightarrow> int option" where
  "atoi s =
     (let t = dropWhile is_ws s;
          neg = (case t of c # _ \<Rightarrow> c = CHR ''-'' | [] \<Rightarrow> False);
          u = (case t of c # cs \<Rightarrow> if c = CHR ''-'' \<or> c = CHR ''+'' then cs else t | [] \<Rightarrow> []);
          n = int (scan_digits 0 u); v = (if neg then - n else n)
      in if - (2 ^ 31) \<le> v \<and> v < 2 ^ 31 then Some v else None)"

text \<open>The conversion of an \<open>int\<close> to the \<open>int16_t\<close> of the structure.\<close>

definition to_int16 :: "int \<Rightarrow> int" where
  "to_int16 n = sint (word_of_int n :: 16 word)"

text \<open>The outer option is undefined behaviour; the inner one is \<open>None\<close> when the client gives up.\<close>

definition gateway_from_env :: "string option \<Rightarrow> client_config \<Rightarrow> client_config option option" where
  "gateway_from_env address c =
     (case address of
        None \<Rightarrow> Some None
      | Some a \<Rightarrow>
          (case split_colon a of
             None \<Rightarrow> Some (Some (c\<lparr>server := Some a\<rparr>))
           | Some (host, rest) \<Rightarrow>
               if host = [] then Some (Some (c\<lparr>server := Some a\<rparr>))
               else do {
                 env_port \<leftarrow> atoi rest;
                 let c = c\<lparr>server := Some host\<rparr>;
                 if env_port = 0 then Some None
                 else Some (Some (if port c = 0 \<or> port c = 15002 then c\<lparr>port := to_int16 env_port\<rparr> else c))
               }))"

section \<open>Start\<close>

text \<open>The part of \<open>main\<close> up to the connection: the identity must be readable, the certificates need not be,
  and a gateway must be given. The inner \<open>None\<close> is the client giving up.\<close>

definition client_start ::
  "('x, 'n, 'k) openssl \<Rightarrow> http \<Rightarrow> (string \<Rightarrow> string option) \<Rightarrow> string option \<Rightarrow> string option \<Rightarrow> string option \<Rightarrow>
   est_state \<Rightarrow> (client_config option \<times> est_state) option" where
  "client_start C http common_name devid_file est_server gateway s =
     (let (ret, c) = client_config_read common_name devid_file client_init in
      if ret \<noteq> 0 then Some (None, s)
      else
        let (_, c, s) = pki2_check_and_enroll C http est_server c s in
        do { g \<leftarrow> gateway_from_env gateway c; Some (g, s) })"

text \<open>The files the connection is set up with.\<close>

definition client_ssl_files :: "client_config \<Rightarrow> est_state \<Rightarrow> string \<times> string option \<times> string" where
  "client_ssl_files c s =
     (case cert c of Some f \<Rightarrow> f | None \<Rightarrow> birth_cert_path,
      if files s birth_key_path \<noteq> None then Some birth_key_path else None,
      case ca c of Some f \<Rightarrow> f | None \<Rightarrow> birth_ca_path)"

section \<open>Properties\<close>

lemma char_of_0: "char_of (0 :: nat) = NUL"
  unfolding NUL_def by code_simp

lemma ascii_lower_NUL: "ascii_lower c = NUL \<longleftrightarrow> c = NUL"
proof
  assume "ascii_lower c = NUL"
  then have "of_char (ascii_lower c) = (0 :: nat)" by (simp add: NUL_def)
  then have "of_char c = (0 :: nat)" by (auto simp: ascii_lower_def Let_def split: if_splits)
  then have "c = char_of (0 :: nat)" by (metis char_of_char)
  then show "c = NUL" by (simp add: char_of_0)
next
  assume "c = NUL"
  then show "ascii_lower c = NUL" by (simp add: ascii_lower_def NUL_def)
qed

lemma c_string_plain: "NUL \<notin> set s \<Longrightarrow> c_string (s @ t) = s @ c_string t"
  by (induction s) (auto simp: c_string_def)

text \<open>The serial number is the end of the certificate's name, in lower case, whenever the name fits
  the array.\<close>

theorem serial_of_name:
  assumes "length (CN c) = 64" "10 \<le> length name" "length name \<le> 62" "NUL \<notin> set name"
  shows "serial (c\<lparr>CN := cn_store name (CN c)\<rparr>) = map ascii_lower (drop 10 name)"
proof -
  let ?k = "53 - length (drop 10 name)"
  have n: "length (drop 10 name) \<le> 52" using assms(3) by simp
  have "drop 10 (cn_store name (CN c)) =
      map ascii_lower (drop 10 name) @ map ascii_lower (take ?k ([NUL] @ drop (length name + 1) (CN c))) @
      drop 53 (drop 10 (name @ [NUL] @ drop (length name + 1) (CN c)))"
    using assms(2,3) n by (simp add: cn_store_def Let_def)
  moreover have "c_string (map ascii_lower (take ?k ([NUL] @ xs)) @ ys) = []" for xs ys
    using n by (cases ?k) (auto simp: c_string_def ascii_lower_NUL)
  moreover have "NUL \<notin> set (map ascii_lower (drop 10 name))"
  proof
    assume "NUL \<in> set (map ascii_lower (drop 10 name))"
    then obtain x where x: "x \<in> set (drop 10 name)" "ascii_lower x = NUL" by auto
    then have "NUL \<in> set (drop 10 name)" by (simp add: ascii_lower_NUL)
    then show False using assms(4) in_set_dropD by fast
  qed
  ultimately show ?thesis by (simp add: serial_def c_string_plain)
qed

theorem serial_of_name_witness:
  "serial (client_init\<lparr>CN := cn_store ''/UID=1/CN=24FE9A0F48F0'' (CN client_init)\<rparr>) = ''24fe9a0f48f0''"
proof -
  have "map ascii_lower (drop 10 ''/UID=1/CN=24FE9A0F48F0'') = ''24fe9a0f48f0''" by code_simp
  then show ?thesis
    using serial_of_name[of client_init "''/UID=1/CN=24FE9A0F48F0''"] by (simp add: client_init_def NUL_def)
qed

text \<open>A device identifier needs a line end. The identifier of 36 characters is read from a file that
  has one more byte; a file with exactly the 36 characters, the documented size, is refused.\<close>

theorem devid_needs_newline:
  assumes "length d = 36"
  shows "devid_read (d @ nl # rest) = Some d \<and> devid_read d = None"
  using assms by (simp add: devid_read_def Let_def)

theorem devid_needs_newline_witness:
  "devid_read (replicate 36 CHR ''1'' @ [CHR 0x0A]) = Some (replicate 36 CHR ''1'') \<and>
   devid_read (replicate 36 CHR ''1'') = None"
  using devid_needs_newline[of "replicate 36 CHR ''1''" "CHR 0x0A" "[]"] by simp

text \<open>A pending password is taken from its file once and is followed in the buffer by whatever the
  buffer held: the string the caller then reports is the password alone only if the byte after
  it happened to be zero.\<close>

theorem updated_pass_string:
  assumes "0 < length pw" "length pw < 64" "length pw \<le> len" "NUL \<notin> set pw"
  shows "\<exists>buf. get_updated_pass (Some pw) True pass len = ((0, buf, length pw), None) \<and>
    c_string buf = pw @ c_string (drop (length pw) pass)"
proof -
  have "c_string pw = pw" using c_string_plain[OF assms(4), of "[]"] by (simp add: c_string_def)
  then show ?thesis using assms by (simp add: get_updated_pass_def strncpy_into_def c_string_plain Let_def)
qed

theorem updated_pass_string_witness:
  "\<exists>buf. get_updated_pass (Some ''new'') True (replicate 64 CHR ''x'') 64 = ((0, buf, 3), None) \<and>
     c_string buf = ''new'' @ replicate 61 CHR ''x''"
proof -
  have "c_string (replicate 61 CHR ''x'') = replicate 61 CHR ''x''" by code_simp
  then show ?thesis
    using updated_pass_string[of "''new''" 64 "replicate 64 CHR ''x''"] by (simp add: NUL_def numeral_3_eq_3)
qed

lemma split_colon_last: "CHR '':'' \<notin> set b \<Longrightarrow> split_colon (a @ '':'' @ b) = Some (a, b)"
  by (simp add: split_colon_def Let_def takeWhile_append dropWhile_append takeWhile_eq_all_conv[THEN iffD2])

lemma digit_char_not_colon: "n < 10 \<Longrightarrow> digit_char n \<noteq> CHR '':''"
  using digit_val_digit_char[of n] by (auto simp: digit_val_def)

lemma dec_no_colon: "CHR '':'' \<notin> set (dec n)"
proof (induction n rule: dec.induct)
  case (1 n)
  then show ?case
    using digit_char_not_colon[of n] digit_char_not_colon[of "n mod 10"] by (auto simp: dec.simps[of n])
qed

lemma atoi_dec:
  assumes "n < 2 ^ 31"
  shows "atoi (dec n) = Some (int n)"
proof -
  obtain d ds where d: "dec n = digit_char d # ds" "d < 10" using dec_digits by blast
  obtain k where "\<forall>acc. scan_digits acc (dec n) = acc * 10 ^ k + n" using scan_digits_dec by blast
  then have "scan_digits 0 (digit_char d # ds) = n" unfolding d(1) by (metis add_0 mult_0)
  moreover have "int n < 2 ^ 31" using assms by (metis of_nat_less_iff of_nat_numeral of_nat_power)
  ultimately show ?thesis using d by (simp add: atoi_def Let_def del: scan_digits.simps)
qed

text \<open>The address of the gateway. A host and a port are taken apart at the last colon, and the port is
  used as the 16-bit signed number of the structure: exact up to 32767, shifted down by 65536
  above.\<close>

theorem gateway_port:
  assumes "host \<noteq> []" "0 < p" "p < 65536" "port c = 15002"
  shows "gateway_from_env (Some (host @ '':'' @ dec p)) c =
    Some (Some (c\<lparr>server := Some host, port := (if p < 32768 then int p else int p - 65536)\<rparr>))"
proof -
  have "atoi (dec p) = Some (int p)" using assms(3) by (intro atoi_dec) simp
  moreover have "to_int16 (int p) = (if p < 32768 then int p else int p - 65536)"
  proof (cases "p < 32768")
    case True
    then show ?thesis unfolding to_int16_def int_word_sint by simp
  next
    case False
    then have "(int p + 32768) mod 65536 = int p - 32768"
      using assms(3) mod_add_self2[of "int p - 32768" 65536] by (simp add: add.commute)
    then show ?thesis using False unfolding to_int16_def int_word_sint by simp
  qed
  ultimately show ?thesis
    using assms split_colon_last[OF dec_no_colon, of host p] by (simp add: gateway_from_env_def Let_def)
qed

theorem gateway_port_witness:
  "gateway_from_env (Some (''gw.example.org'' @ '':'' @ dec 40000)) client_init =
   Some (Some (client_init\<lparr>server := Some ''gw.example.org'', port := - 25536\<rparr>))"
  using gateway_port[of "''gw.example.org''" 40000 client_init] by (simp add: client_init_def)



text \<open>A certificate that could be saved only in part is used from the next start on: the check fails
  and falls back, but what was written stays, and a later check takes the file for a
  certificate without looking into it.\<close>

theorem pki2_partial_certificate:
  assumes "files s operational_cert_path = None" "files s birth_cert_path \<noteq> None"
    and "est_get_server_url C est_server birth_cert_path s = (srv, s1)"
    and "est_simple_enroll C http srv birth_cert_path birth_key_path s1 = ((EST_SUCCESS, pem), s2)"
    and "pem \<noteq> []" "can_create s2 operational_cert_path" "written s2 pem < length pem"
  shows "\<exists>s'. pki2_check_and_enroll C http est_server c s = (- 1, use_birth c, s') \<and>
    files s' operational_cert_path = Some (take (written s2 pem) pem) \<and>
    pki2_check_and_enroll C' http' est_server' c s' = (0, use_operational c, s')"
proof -
  obtain r s3 where v: "est_save_cert pem operational_cert_path s2 = (r, s3)" by force
  then have s3: "r \<noteq> EST_SUCCESS" "files s3 operational_cert_path = Some (take (written s2 pem) pem)"
    using assms(5-7) by (auto simp: est_save_cert_def est_codes Let_def split: if_splits)
  have "pki2_check_and_enroll C http est_server c s = (- 1, use_birth c, s3)"
    using assms(1,2) s3(1) unfolding pki2_check_and_enroll_def assms(3) Let_def prod.case assms(4) v by auto
  then show ?thesis using s3(2) by (simp add: pki2_check_and_enroll_def)
qed

theorem pki2_partial_certificate_witness:
  "\<exists>s'. pki2_check_and_enroll demo_ssl (\<lambda>_ _ _. Some ([''OP''], True)) None client_init (demo_est\<lparr>written := (\<lambda>_. 1)\<rparr>) =
     (- 1, use_birth client_init, s') \<and>
   pki2_check_and_enroll demo_ssl (\<lambda>_ _ _. None) None client_init s' = (0, use_operational client_init, s')"
proof -
  let ?s = "demo_est\<lparr>written := (\<lambda>_. 1)\<rparr>"
  have u: "est_get_server_url demo_ssl None birth_cert_path ?s = (EST_SERVER_PROD, ?s)"
    by (simp add: est_get_server_url_def est_get_cert_issuer_def demo_ssl_def demo_est_def birth_cert_path_def)
  have e: "est_simple_enroll demo_ssl (\<lambda>_ _ _. Some ([''OP''], True)) EST_SERVER_PROD birth_cert_path birth_key_path ?s =
      ((EST_SUCCESS, ''OP''), ?s)"
    by (simp add: est_simple_enroll_def est_enroll_at_def est_generate_csr_def est_http_request_def est_pkcs7_to_pem_def
        est_write_callback_def demo_ssl_def demo_est_def est_codes birth_cert_path_def birth_key_path_def)
  show ?thesis
    using pki2_partial_certificate[OF _ _ u e, of client_init demo_ssl "\<lambda>_ _ _. None" None]
    by (auto simp: demo_est_def operational_cert_path_def birth_cert_path_def)
qed

end
