(* ===== verification/Client_Loop.thy ===== *)
theory Client_Loop
  imports Tx_Queue Connect State_Report Client_Setup "HOL-Library.Sublist"
begin

text \<open>
  The websocket callback and the main loop of \<open>ucentral-client.c\<close>, on top of the protocol and the transmit
  queue. The service thread runs \<open>callback_broker\<close> for each event of the socket and \<open>after_service\<close>
  once per turn; the platform's threads hand messages to the queue in between, each under the
  queue's mutex, so that a run of the client is a sequence of the steps of \<open>client_step\<close>.
  The websocket library is a parameter (\<open>loop_env\<close>): what its calls answer.
\<close>

section \<open>State\<close>

text \<open>\<open>lws_write\<close> and \<open>lws_connect\<close> answer by the number of the call; \<open>render\<close> is the text of a document.\<close>

record loop_env =
  lws_pre :: nat
  calloc :: "nat \<Rightarrow> bool"
  render :: "jdoc \<Rightarrow> string"
  lws_write :: "nat \<Rightarrow> int"
  lws_connect :: "nat \<Rightarrow> bool"
  vhd_zalloc :: bool
  trust_env :: "string option"

text \<open>\<open>produced\<close> and \<open>wire\<close> record what was handed to the queue and what was written, with the answer;
  \<open>reconnect\<close> is the pending connection attempt, in microseconds.\<close>

record 'p client_state =
  proto :: "'p proto_state"
  txs :: txq_state
  websocket :: bool
  conn_successfull :: bool
  vhd :: bool
  attempts :: nat
  reconnect :: "int option"
  writable_wanted :: bool
  cert_accepted :: bool
  pending_pass :: "string option"
  reboot_reason_sent :: bool
  produced :: "string list"
  wire :: "(string \<times> int) list"

definition client_state_init :: "'p proto_state \<Rightarrow> string option \<Rightarrow> 'p client_state" where
  "client_state_init p pass = \<lparr>proto = p, txs = txq_init, websocket = False, conn_successfull = False, vhd = False,
     attempts = 0, reconnect = None, writable_wanted = False, cert_accepted = False, pending_pass = pass,
     reboot_reason_sent = False, produced = [], wire = []\<rparr>"

section \<open>The protocol and the queue\<close>

fun enqueue_all :: "loop_env \<Rightarrow> string list \<Rightarrow> txq_state \<Rightarrow> txq_state option" where
  "enqueue_all L [] q = Some q"
| "enqueue_all L (m # ms) q = do { q \<leftarrow> txq_msg_proto_cb (calloc L) (lws_pre L) m q; enqueue_all L ms q }"

fun connect_all :: "loop_env \<Rightarrow> string list \<Rightarrow> txq_state \<Rightarrow> txq_state option" where
  "connect_all L [] q = Some q"
| "connect_all L (m # ms) q = do { q \<leftarrow> txq_connect_msg_proto_cb (calloc L) (lws_pre L) m q; connect_all L ms q }"

text \<open>A protocol function called by the client: the messages it hands to the two callbacks go to the queue.\<close>

definition with_proto ::
  "loop_env \<Rightarrow> ('p proto_state \<Rightarrow> 'p proto_state option) \<Rightarrow> 'p client_state \<Rightarrow> 'p client_state option" where
  "with_proto L f c =
     do {
       p \<leftarrow> f (proto c);
       let ms = map (render L) (drop (length (sent (proto c))) (sent p));
       let cs = map (render L) (drop (length (connect_sent (proto c))) (connect_sent p));
       q \<leftarrow> enqueue_all L ms (txs c);
       q \<leftarrow> connect_all L cs q;
       Some (c\<lparr>proto := p, txs := q, produced := produced c @ ms\<rparr>)
     }"

section \<open>The websocket\<close>

definition get_reconnect_timeout :: int where
  "get_reconnect_timeout = 5 * 1000000"

definition sul_connect_attempt :: "loop_env \<Rightarrow> 'p client_state \<Rightarrow> 'p client_state" where
  "sul_connect_attempt L c =
     (let c' = c\<lparr>attempts := Suc (attempts c)\<rparr> in
      if lws_connect L (attempts c) then c' else c'\<lparr>reconnect := Some get_reconnect_timeout\<rparr>)"

datatype lws_reason =
    CERT_VERIFICATION | PROTOCOL_INIT | PROTOCOL_DESTROY | POLL_FD | ESTABLISHED | RECEIVE string
  | CONNECTION_ERROR | CLOSED | WRITEABLE | WAIT_CANCELLED | OTHER_REASON

definition closed :: "'p client_state \<Rightarrow> 'p client_state option" where
  "closed c =
     (if \<not> vhd c then None
      else Some (c\<lparr>websocket := False, reconnect := Some get_reconnect_timeout\<rparr>))"

definition write_all :: "loop_env \<Rightarrow> string list \<Rightarrow> 'p client_state \<Rightarrow> 'p client_state" where
  "write_all L ms c =
     (if \<not> websocket c then c
      else c\<lparr>wire := wire c @ map (\<lambda>(i, m). (m, lws_write L i)) (enumerate (length (wire c)) ms)\<rparr>)"

definition callback_broker ::
  "('j, 'p) env \<Rightarrow> loop_env \<Rightarrow> lws_reason \<Rightarrow> 'p client_state \<Rightarrow> 'p client_state option" where
  "callback_broker E L reason c =
     (case reason of
        CERT_VERIFICATION \<Rightarrow> Some (if gateway_cert_trust (trust_env L) then c\<lparr>cert_accepted := True\<rparr> else c)
      | PROTOCOL_INIT \<Rightarrow>
          if \<not> vhd_zalloc L then None else Some (sul_connect_attempt L (c\<lparr>vhd := True\<rparr>))
      | PROTOCOL_DESTROY \<Rightarrow> if \<not> vhd c then None else Some (c\<lparr>reconnect := None\<rparr>)
      | POLL_FD \<Rightarrow> Some c
      | ESTABLISHED \<Rightarrow>
          do {
            c \<leftarrow> with_proto L (\<lambda>p. Some (connect_send E p)) (c\<lparr>websocket := True\<rparr>);
            Some (c\<lparr>conn_successfull := True, writable_wanted := True\<rparr>)
          }
      | RECEIVE cmd \<Rightarrow> with_proto L (proto_handle E cmd) c
      | CONNECTION_ERROR \<Rightarrow> closed (c\<lparr>conn_successfull := False\<rparr>)
      | CLOSED \<Rightarrow> closed c
      | WRITEABLE \<Rightarrow>
          do {
            (ms, q) \<leftarrow> txq_writeable (lws_pre L) (txs c);
            Some (write_all L ms (c\<lparr>txs := q, writable_wanted := False\<rparr>))
          }
      | WAIT_CANCELLED \<Rightarrow> Some (if websocket c then c\<lparr>writable_wanted := True\<rparr> else c)
      | OTHER_REASON \<Rightarrow> Some c)"

text \<open>The scheduled connection attempt comes due.\<close>

definition connect_timer :: "loop_env \<Rightarrow> 'p client_state \<Rightarrow> 'p client_state option" where
  "connect_timer L c =
     (if reconnect c = None then None else Some (sul_connect_attempt L (c\<lparr>reconnect := None\<rparr>)))"

section \<open>The main loop\<close>

definition after_service :: "('j, 'p) env \<Rightarrow> loop_env \<Rightarrow> 'p client_state \<Rightarrow> 'p client_state option" where
  "after_service E L c =
     (if \<not> conn_successfull c then Some c
      else do {
        c \<leftarrow> (case pending_pass c of
               None \<Rightarrow> Some c
             | Some pass \<Rightarrow> do {
                 c \<leftarrow> with_proto L (\<lambda>p. Some (deviceupdate_send E (Some pass) p)) c;
                 Some (c\<lparr>pending_pass := None\<rparr>)
               });
        if reboot_reason_sent c then Some c
        else do {
          c \<leftarrow> with_proto L (\<lambda>p. Some (device_rebootcause_send E p)) c;
          Some (c\<lparr>reboot_reason_sent := True\<rparr>)
        }
      })"

text \<open>What the platform's threads call: the periodic reports, the events, the end of a script, and the
  log callback with a diagnostic of any thread.\<close>

inductive plat_event :: "('j, 'p) env \<Rightarrow> ('p proto_state \<Rightarrow> 'p proto_state option) \<Rightarrow> bool" for E where
  state: "plat_event E (state_send E web st)"
| telemetry: "plat_event E (telemetry_send E web st)"
| health: "plat_event E (\<lambda>s. Some (health_send E h s))"
| alarm: "plat_event E (\<lambda>s. Some (alarm_plat_cb E a s))"
| link: "plat_event E (\<lambda>s. Some (linkstatus_plat_cb E ts name up s))"
| poe_link: "plat_event E (\<lambda>s. Some (poe_linkstatus_plat_cb E ts name status s))"
| poe_fault: "plat_event E (\<lambda>s. Some (poe_link_faultcode_plat_cb E ts name code s))"
| upgrade: "plat_event E (\<lambda>s. Some (snd (upgrade_status_send E op pct s)))"
| diagnostic: "plat_event E (\<lambda>s. Some (log_send E message severity s))"
| script: "plat_event E (\<lambda>s. Some (script_result_cb E err r cid uri s))"

inductive client_step :: "('j, 'p) env \<Rightarrow> loop_env \<Rightarrow> 'p client_state \<Rightarrow> 'p client_state \<Rightarrow> bool" for E L where
  broker: "callback_broker E L reason c = Some c' \<Longrightarrow> client_step E L c c'"
| timer: "connect_timer L c = Some c' \<Longrightarrow> client_step E L c c'"
| turn: "after_service E L c = Some c' \<Longrightarrow> client_step E L c c'"
| event: "plat_event E f \<Longrightarrow> with_proto L f c = Some c' \<Longrightarrow> client_step E L c c'"

inductive client_reach :: "('j, 'p) env \<Rightarrow> loop_env \<Rightarrow> 'p client_state \<Rightarrow> bool" for E L where
  start: "client_reach E L (client_state_init p pass)"
| step: "client_reach E L c \<Longrightarrow> client_step E L c c' \<Longrightarrow> client_reach E L c'"

inductive_cases client_stepE: "client_step E L c c'"

section \<open>The queue through a run\<close>

lemma enqueue_all_rep:
  assumes "txq_rep (lws_pre L) q ms c"
  shows "\<exists>q' ms'. enqueue_all L new q = Some q' \<and> txq_rep (lws_pre L) q' (ms @ ms') c \<and> subseq ms' new"
  using assms
proof (induction new arbitrary: q ms)
  case (Cons m new)
  obtain q1 where q1: "txq_msg_proto_cb (calloc L) (lws_pre L) m q = Some q1"
    "txq_rep (lws_pre L) q1 (if calloc L (calls q) then ms @ [m] else ms) c"
    using tx.send_rep[OF Cons.prems, of "calloc L" m] by blast
  from Cons.IH[OF q1(2)] obtain q' ms' where
    "enqueue_all L new q1 = Some q'" "subseq ms' new"
    "txq_rep (lws_pre L) q' ((if calloc L (calls q) then ms @ [m] else ms) @ ms') c" by blast
  then show ?case
    using q1(1) by (cases "calloc L (calls q)") (auto intro: exI[of _ "m # ms'"])
qed (auto intro!: exI[of _ "[]"])

lemma connect_all_rep:
  assumes "txq_rep (lws_pre L) q ms c"
  shows "\<exists>q' c'. connect_all L new q = Some q' \<and> txq_rep (lws_pre L) q' ms c'"
  using assms
proof (induction new arbitrary: q c)
  case (Cons m new)
  then show ?case using tx.connect_rep[OF Cons.prems, of "calloc L" m] by fastforce
qed auto

text \<open>The messages written are those of the chunks taken from the queue while the socket was open. The
  messages of these chunks, followed by those still waiting, occur in this order among the
  messages the protocol produced.\<close>

definition queue_inv :: "loop_env \<Rightarrow> 'p client_state \<Rightarrow> bool" where
  "queue_inv L c \<longleftrightarrow>
     (\<exists>chunks ms cm. map fst (wire c) = concat (map chunk_out chunks) \<and>
        subseq (concat (map snd chunks) @ ms) (produced c) \<and> txq_rep (lws_pre L) (txs c) ms cm)"

text \<open>A protocol call never leaves the queue in a state where a pointer is undefined.\<close>

lemma with_proto_inv:
  assumes "queue_inv L c" "f (proto c) = Some p"
  shows "\<exists>c'. with_proto L f c = Some c' \<and> queue_inv L c' \<and> wire c' = wire c \<and> websocket c' = websocket c"
proof -
  obtain chunks ms cm where inv: "map fst (wire c) = concat (map chunk_out chunks)"
    "subseq (concat (map snd chunks) @ ms) (produced c)" "txq_rep (lws_pre L) (txs c) ms cm"
    using assms(1) by (auto simp: queue_inv_def)
  define new where "new = map (render L) (drop (length (sent (proto c))) (sent p))"
  define cs where "cs = map (render L) (drop (length (connect_sent (proto c))) (connect_sent p))"
  obtain q1 ms' where q1: "enqueue_all L new (txs c) = Some q1"
    "txq_rep (lws_pre L) q1 (ms @ ms') cm" "subseq ms' new"
    using enqueue_all_rep[OF inv(3), of new] by blast
  obtain q2 cm' where q2: "connect_all L cs q1 = Some q2" "txq_rep (lws_pre L) q2 (ms @ ms') cm'"
    using connect_all_rep[OF q1(2), of cs] by blast
  have "subseq ((concat (map snd chunks) @ ms) @ ms') (produced c @ new)"
    using inv(2) q1(3) by (rule list_emb_append_mono)
  then have "queue_inv L (c\<lparr>proto := p, txs := q2, produced := produced c @ new\<rparr>)"
    unfolding queue_inv_def using inv(1) q2(2) by (auto intro!: exI[of _ chunks])
  moreover have "with_proto L f c = Some (c\<lparr>proto := p, txs := q2, produced := produced c @ new\<rparr>)"
    using assms(2) q1(1) q2(1) by (simp add: with_proto_def new_def cs_def)
  ultimately show ?thesis by simp
qed

lemma with_proto_keeps: "with_proto L f c = Some c' \<Longrightarrow> queue_inv L c \<Longrightarrow> queue_inv L c'"
  by (cases "f (proto c)") (auto simp: with_proto_def dest: with_proto_inv)

lemma queue_inv_cong:
  assumes "queue_inv L c" "wire c' = wire c" "produced c' = produced c" "txs c' = txs c"
  shows "queue_inv L c'"
  using assms by (simp add: queue_inv_def)

lemma write_all_wire:
  "map fst (wire (write_all L ms c)) = map fst (wire c) @ (if websocket c then ms else [])"
  by (simp add: write_all_def comp_def case_prod_unfold map_snd_enumerate[unfolded comp_def])

lemma write_all_frame [simp]:
  "txs (write_all L ms c) = txs c" "produced (write_all L ms c) = produced c" "websocket (write_all L ms c) = websocket c"
  by (simp_all add: write_all_def)

lemma writeable_inv:
  assumes "queue_inv L c"
  shows "\<exists>c' ms cm. callback_broker E L WRITEABLE c = Some c' \<and> queue_inv L c' \<and>
    txq_rep (lws_pre L) (txs c) ms cm \<and> txq_rep (lws_pre L) (txs c') [] None \<and>
    map fst (wire c') = map fst (wire c) @ (if websocket c then chunk_out (cm, ms) else [])"
proof -
  obtain chunks ms cm where inv: "map fst (wire c) = concat (map chunk_out chunks)"
    "subseq (concat (map snd chunks) @ ms) (produced c)" "txq_rep (lws_pre L) (txs c) ms cm"
    using assms by (auto simp: queue_inv_def)
  obtain q where q: "txq_writeable (lws_pre L) (txs c) = Some (chunk_out (cm, ms), q)"
    "txq_rep (lws_pre L) q [] None"
    using tx.flush_rep[OF inv(3)] by blast
  let ?c = "write_all L (chunk_out (cm, ms)) (c\<lparr>txs := q, writable_wanted := False\<rparr>)"
  have w: "map fst (wire ?c) = map fst (wire c) @ (if websocket c then chunk_out (cm, ms) else [])"
    by (simp add: write_all_wire)
  have "subseq (concat (map snd chunks)) (produced c)"
    by (rule subseq_order.trans[OF _ inv(2)]) (simp add: prefix_imp_subseq)
  then have "queue_inv L ?c"
    using inv q(2) w unfolding queue_inv_def
    by (intro exI[of _ "chunks @ (if websocket c then [(cm, ms)] else [])"] exI[of _ "[]"] exI[of _ None]) auto
  moreover have "callback_broker E L WRITEABLE c = Some ?c" using q(1) by (simp add: callback_broker_def)
  ultimately show ?thesis using w inv(3) q(2) by auto
qed

lemma sul_connect_attempt_frame [simp]:
  "wire (sul_connect_attempt L c) = wire c" "produced (sul_connect_attempt L c) = produced c"
  "txs (sul_connect_attempt L c) = txs c" "websocket (sul_connect_attempt L c) = websocket c"
  by (simp_all add: sul_connect_attempt_def Let_def)

lemma broker_inv:
  assumes "callback_broker E L reason c = Some c'" "queue_inv L c"
  shows "queue_inv L c'"
proof (cases reason)
  case ESTABLISHED
  then obtain c1 where c1: "with_proto L (\<lambda>p. Some (connect_send E p)) (c\<lparr>websocket := True\<rparr>) = Some c1"
    and c': "c' = c1\<lparr>conn_successfull := True, writable_wanted := True\<rparr>"
    using assms(1) by (auto simp: callback_broker_def elim!: bindE)
  have "queue_inv L (c\<lparr>websocket := True\<rparr>)" by (rule queue_inv_cong[OF assms(2)]) simp_all
  then have "queue_inv L c1" using c1 by (rule with_proto_keeps[rotated])
  then show ?thesis unfolding c' by (rule queue_inv_cong) simp_all
next
  case (RECEIVE cmd)
  then show ?thesis using assms by (auto simp: callback_broker_def dest: with_proto_keeps)
next
  case WRITEABLE
  then show ?thesis using assms writeable_inv[OF assms(2), of E] by auto
qed (use assms(1) in \<open>auto simp: callback_broker_def closed_def intro: queue_inv_cong[OF assms(2)] split: if_splits\<close>)

lemma turn_inv:
  assumes "after_service E L c = Some c'" "queue_inv L c"
  shows "queue_inv L c'"
proof (cases "conn_successfull c")
  case True
  define mid where "mid = (case pending_pass c of None \<Rightarrow> Some c
     | Some pass \<Rightarrow> do { c \<leftarrow> with_proto L (\<lambda>p. Some (deviceupdate_send E (Some pass) p)) c;
                        Some (c\<lparr>pending_pass := None\<rparr>) })"
  obtain c1 where c1: "mid = Some c1" and rest: "(if reboot_reason_sent c1 then Some c1
      else do { c \<leftarrow> with_proto L (\<lambda>p. Some (device_rebootcause_send E p)) c1;
                Some (c\<lparr>reboot_reason_sent := True\<rparr>) }) = Some c'"
    using assms(1) True unfolding after_service_def mid_def[symmetric] by (auto elim: bindE)
  have "queue_inv L c1"
    using c1 assms(2) unfolding mid_def
    by (auto elim!: bindE dest!: with_proto_keeps intro: queue_inv_cong split: option.splits)
  then show ?thesis
    using rest by (auto elim!: bindE dest!: with_proto_keeps intro: queue_inv_cong split: if_splits)
qed (use assms in \<open>simp add: after_service_def\<close>)

lemma step_inv: "client_step E L c c' \<Longrightarrow> queue_inv L c \<Longrightarrow> queue_inv L c'"
  by (elim client_stepE)
     (auto simp: connect_timer_def dest: broker_inv turn_inv with_proto_keeps
           intro: queue_inv_cong split: if_splits)

lemma reach_inv: "client_reach E L c \<Longrightarrow> queue_inv L c"
proof (induction rule: client_reach.induct)
  case (start p pass)
  show ?case
    unfolding queue_inv_def client_state_init_def using txq_init_rep by (auto intro!: exI[of _ "[]"])
qed (rule step_inv)

text \<open>A connection of the example client: the socket opens and the connect message is queued.\<close>

definition demo_loop :: loop_env where
  "demo_loop = \<lparr>lws_pre = 16, calloc = (\<lambda>_. True), render = (\<lambda>_. ''connect''), lws_write = (\<lambda>_. 7),
     lws_connect = (\<lambda>_. True), vhd_zalloc = True, trust_env = None\<rparr>"

lemma demo_connected:
  "\<exists>c. callback_broker demo_env demo_loop ESTABLISHED (client_state_init demo_state None) = Some c \<and>
     client_reach demo_env demo_loop c \<and> websocket c"
proof -
  let ?i = "client_state_init demo_state None"
  have "queue_inv demo_loop ?i" by (rule reach_inv[OF client_reach.start])
  then have "queue_inv demo_loop (?i\<lparr>websocket := True\<rparr>)" by (rule queue_inv_cong) simp_all
  from with_proto_inv[OF this, of "\<lambda>p. Some (connect_send demo_env p)"]
  obtain c where c: "with_proto demo_loop (\<lambda>p. Some (connect_send demo_env p)) (?i\<lparr>websocket := True\<rparr>) = Some c"
    and w: "websocket c" by auto
  then have b: "callback_broker demo_env demo_loop ESTABLISHED ?i = Some (c\<lparr>conn_successfull := True, writable_wanted := True\<rparr>)"
    by (simp add: callback_broker_def)
  moreover have "client_reach demo_env demo_loop (c\<lparr>conn_successfull := True, writable_wanted := True\<rparr>)"
    by (rule client_reach.step[OF client_reach.start client_step.broker[OF b]])
  ultimately show ?thesis using w by simp
qed



text \<open>C24. In every reachable state with an open websocket, the writable event of the socket is handled
  without an undefined access, writes the waiting connect message and then every waiting
  message in order, and leaves the queue empty.\<close>

theorem writeable_flushes:
  assumes "client_reach E L c" "websocket c"
  shows "\<exists>c' ms cm. callback_broker E L WRITEABLE c = Some c' \<and> txq_rep (lws_pre L) (txs c) ms cm \<and>
    map fst (wire c') = map fst (wire c) @ chunk_out (cm, ms) \<and> txq_rep (lws_pre L) (txs c') [] None"
  using writeable_inv[OF reach_inv[OF assms(1)], of E] assms(2) by auto

theorem writeable_flushes_witness:
  "\<exists>c c'. callback_broker demo_env demo_loop ESTABLISHED (client_state_init demo_state None) = Some c \<and>
     callback_broker demo_env demo_loop WRITEABLE c = Some c' \<and> txq_rep 16 (txs c') [] None"
proof -
  obtain c where c: "callback_broker demo_env demo_loop ESTABLISHED (client_state_init demo_state None) = Some c"
    "client_reach demo_env demo_loop c" "websocket c"
    using demo_connected by blast
  moreover have "lws_pre demo_loop = 16" by (simp add: demo_loop_def)
  ultimately show ?thesis using writeable_flushes[OF c(2,3)] by auto
qed

end
