(* ===== verification/Plat_Router.thy ===== *)
theory Plat_Router
  imports Router_Utils
begin

text \<open>
  The route part of the SONiC platform (\<open>platform/brcm-sonic/plat-gnma.c\<close>): the conversions
  between the client's routes and those of the gNMI adapter, the diff macros of
  \<open>include/router-utils.h\<close> and \<open>config_router_apply\<close>, which brings the switch from the
  cached table to the configured one. The adapter calls are recorded in the order they are
  made, and their return codes come from an oracle over that history; \<open>replay\<close> is the effect
  the calls have on the switch's table.
\<close>

section \<open>Conversions\<close>

datatype gnma_ip_prefix = GnmaV4 u32 int

datatype gnma_route_attrs =
    GNMA_ROUTE_TYPE_BLACKHOLE
  | GNMA_ROUTE_TYPE_CONNECTED u16
  | GNMA_ROUTE_TYPE_NEXTHOP u16 u32

definition router_fib_key2gnma_prefix :: "fib_key \<Rightarrow> gnma_ip_prefix" where
  "router_fib_key2gnma_prefix uk = GnmaV4 (prefix uk) (prefix_len uk)"

fun gnma_prefix2router_fib_key :: "gnma_ip_prefix \<Rightarrow> fib_key" where
  "gnma_prefix2router_fib_key (GnmaV4 a l) = FibKey a l"

text \<open>\<open>Inl\<close> is the return code -1.\<close>

fun router_fib_info2gnma_attr :: "fib_info \<Rightarrow> int + gnma_route_attrs" where
  "router_fib_info2gnma_attr ROUTE_BLACKHOLE = Inr GNMA_ROUTE_TYPE_BLACKHOLE"
| "router_fib_info2gnma_attr (ROUTE_CONNECTED v) = Inr (GNMA_ROUTE_TYPE_CONNECTED v)"
| "router_fib_info2gnma_attr (ROUTE_NH v g) = Inr (GNMA_ROUTE_TYPE_NEXTHOP v g)"
| "router_fib_info2gnma_attr _ = Inl (- 1)"

fun gnma_attr2router_fib_info :: "gnma_route_attrs \<Rightarrow> fib_info" where
  "gnma_attr2router_fib_info GNMA_ROUTE_TYPE_BLACKHOLE = ROUTE_BLACKHOLE"
| "gnma_attr2router_fib_info (GNMA_ROUTE_TYPE_CONNECTED v) = ROUTE_CONNECTED v"
| "gnma_attr2router_fib_info (GNMA_ROUTE_TYPE_NEXTHOP v g) = ROUTE_NH v g"

lemma key_prefix_inverse [simp]:
  "gnma_prefix2router_fib_key (router_fib_key2gnma_prefix k) = k"
  "router_fib_key2gnma_prefix (gnma_prefix2router_fib_key p) = p"
  by (simp add: router_fib_key2gnma_prefix_def) (cases p; simp add: router_fib_key2gnma_prefix_def)

lemma info_attr_inverse:
  "router_fib_info2gnma_attr i = Inr a \<longleftrightarrow> gnma_attr2router_fib_info a = i"
  by (cases i; cases a) auto

section \<open>The diff loop\<close>

datatype route_call = RouteRemove gnma_ip_prefix | RouteCreate gnma_ip_prefix gnma_route_attrs

type_synonym gnma_route = "route_call list \<Rightarrow> route_call \<Rightarrow> int"

text \<open>What is left of both tables stands for the two indices: \<open>ni = len\<close> is the empty list.\<close>

definition router_db_diff_get :: "fib_node list \<Rightarrow> fib_node list \<Rightarrow> int" where
  "router_db_diff_get ns os =
     (case os of [] \<Rightarrow> - 1
      | ol # _ \<Rightarrow> (case ns of [] \<Rightarrow> 1
                 | n # _ \<Rightarrow> ucentral_router_fib_key_cmp (node_key n) (node_key ol)))"

definition gnma_route_create_node ::
  "gnma_route \<Rightarrow> fib_node \<Rightarrow> route_call list \<Rightarrow> int \<times> route_call list" where
  "gnma_route_create_node gnma n tr =
     (case router_fib_info2gnma_attr (node_info n) of
        Inl _ \<Rightarrow> (- 1, tr)
      | Inr a \<Rightarrow>
          let c = RouteCreate (router_fib_key2gnma_prefix (node_key n)) a in
          (if gnma tr c \<noteq> 0 then - 1 else 0, tr @ [c]))"

text \<open>The body of the loop: update, delete or add; a result other than 0 leaves the function.\<close>

definition diff_body ::
  "gnma_route \<Rightarrow> int \<Rightarrow> fib_node list \<Rightarrow> fib_node list \<Rightarrow> route_call list \<Rightarrow> int \<times> route_call list" where
  "diff_body gnma diff ns os tr =
     (if diff = 0 then
        (if ucentral_router_fib_info_cmp (node_info (hd ns)) (node_info (hd os)) = 0 then (0, tr)
         else gnma_route_create_node gnma (hd ns)
                (tr @ [RouteRemove (router_fib_key2gnma_prefix (node_key (hd ns)))]))
      else if diff > 0 then
        (0, tr @ [RouteRemove (router_fib_key2gnma_prefix (node_key (hd os)))])
      else gnma_route_create_node gnma (hd ns) tr)"

function for_router_db_diff ::
  "gnma_route \<Rightarrow> fib_node list \<Rightarrow> fib_node list \<Rightarrow> route_call list \<Rightarrow> int \<times> route_call list" where
  "for_router_db_diff gnma ns os tr =
     (if ns = [] \<and> os = [] then (0, tr)
      else
        let diff = router_db_diff_get ns os;
            (ret, tr) = diff_body gnma diff ns os tr
        in if ret \<noteq> 0 then (- 1, tr)
           else for_router_db_diff gnma
                  (if diff \<le> 0 then tl ns else ns) (if diff \<ge> 0 then tl os else os) tr)"
  by pat_completeness auto
termination
  by (relation "measure (\<lambda>(_, ns, os, _). length ns + length os)")
     (auto simp: router_db_diff_get_def neq_Nil_conv split: list.splits)

declare for_router_db_diff.simps [simp del]

text \<open>
  \<open>config_router_apply\<close>: \<open>cfg\<close> is \<open>cfg->router\<close>, \<open>cache\<close> is \<open>plat_state.router\<close>. The local
  \<open>oldr\<close> shares the array of the cache, so a failed run leaves that array sorted and the flag
  as it was.
\<close>

definition config_router_apply ::
  "qsort_fn \<Rightarrow> bool \<Rightarrow> gnma_route \<Rightarrow> ucentral_router \<Rightarrow> ucentral_router \<Rightarrow> route_call list
     \<Rightarrow> (int \<times> ucentral_router \<times> route_call list) option" where
  "config_router_apply qsort ok gnma cfg cache tr =
     do {
       (ret, newr) \<leftarrow> ucentral_router_fib_db_copy ok cfg
                        \<lparr>arr = [], rlen = 0, rmax = 0, sorted_flag = False\<rparr>;
       if ret \<noteq> 0 then Some (ret, cache, tr)
       else do {
         let newr = (if sorted_flag newr then newr else ucentral_router_fib_db_sort qsort newr);
         let oldr = (if sorted_flag cache then cache else ucentral_router_fib_db_sort qsort cache);
         let (ret, tr) = for_router_db_diff gnma (used newr) (used oldr) tr;
         if ret \<noteq> 0 then Some (- 1, cache\<lparr>arr := arr oldr\<rparr>, tr)
         else Some (0, newr, tr)
       }
     }"

section \<open>Effect on the switch\<close>

fun route_effect :: "route_call \<Rightarrow> (fib_key \<rightharpoonup> fib_info) \<Rightarrow> fib_key \<rightharpoonup> fib_info" where
  "route_effect (RouteRemove p) t = t(gnma_prefix2router_fib_key p := None)"
| "route_effect (RouteCreate p a) t =
     t(gnma_prefix2router_fib_key p \<mapsto> gnma_attr2router_fib_info a)"

definition replay :: "route_call list \<Rightarrow> (fib_key \<rightharpoonup> fib_info) \<Rightarrow> fib_key \<rightharpoonup> fib_info" where
  "replay cs t = fold route_effect cs t"

fun call_key :: "route_call \<Rightarrow> fib_key" where
  "call_key (RouteRemove p) = gnma_prefix2router_fib_key p"
| "call_key (RouteCreate p _) = gnma_prefix2router_fib_key p"

lemma replay_simps [simp]:
  "replay [] t = t" "replay (cs @ ds) t = replay ds (replay cs t)"
  "replay [c] t = route_effect c t"
  by (simp_all add: replay_def)

text \<open>What the loop adds to the history, as a function of the two sorted tables.\<close>

lemma create_node_trace:
  assumes "gnma_route_create_node gnma n tr = (0, tr')"
  shows "\<exists>a. tr' = tr @ [RouteCreate (router_fib_key2gnma_prefix (node_key n)) a] \<and>
     gnma_attr2router_fib_info a = node_info n"
  using assms
  by (auto simp: gnma_route_create_node_def Let_def info_attr_inverse split: sum.splits if_splits)

lemma create_node_codes:
  "gnma_route_create_node gnma n tr = (ret, tr') \<Longrightarrow> ret = 0 \<or> ret = - 1"
  by (auto simp: gnma_route_create_node_def Let_def split: sum.splits if_splits)

lemma diff_sorted:
  assumes "sorted (map node_key ns)" "distinct (map node_key ns)"
    and "sorted (map node_key os)" "distinct (map node_key os)" "ns \<noteq> [] \<or> os \<noteq> []"
  defines "d \<equiv> router_db_diff_get ns os"
  shows "d = 0 \<Longrightarrow> ns \<noteq> [] \<and> os \<noteq> [] \<and> node_key (hd ns) = node_key (hd os)"
    "d > 0 \<Longrightarrow> os \<noteq> [] \<and> (\<forall>n \<in> set ns. node_key (hd os) < node_key n)"
    "d < 0 \<Longrightarrow> ns \<noteq> [] \<and> (\<forall>n \<in> set os. node_key (hd ns) < node_key n)"
  using assms
  by (auto simp: d_def router_db_diff_get_def key_cmp_order split: list.splits)

text \<open>The loop with one rule per case, for a history built so far.\<close>

lemma sorted_hd_tl:
  assumes "sorted (map node_key ns)" "distinct (map node_key ns)" "ns \<noteq> []"
  shows "sorted (map node_key (tl ns))" "distinct (map node_key (tl ns))"
    "table ns = (table (tl ns))(node_key (hd ns) \<mapsto> node_info (hd ns))"
    "table (tl ns) (node_key (hd ns)) = None"
  using assms by (cases ns; auto simp: table_None)+

text \<open>One turn of the loop settles the least key left: both tables lose it, and it is called
  for exactly when they disagree on it.\<close>

definition diff_key :: "fib_node list \<Rightarrow> fib_node list \<Rightarrow> fib_key" where
  "diff_key ns os = node_key (if router_db_diff_get ns os \<le> 0 then hd ns else hd os)"

lemma diff_turn_tables:
  assumes "sorted (map node_key ns)" "distinct (map node_key ns)"
    and "sorted (map node_key os)" "distinct (map node_key os)" "ns \<noteq> [] \<or> os \<noteq> []"
  defines "d \<equiv> router_db_diff_get ns os" and "k \<equiv> diff_key ns os"
  shows "table (if d \<le> 0 then tl ns else ns) = (table ns)(k := None)"
    "table (if d \<ge> 0 then tl os else os) = (table os)(k := None)"
  using diff_sorted[OF assms(1-5)] sorted_hd_tl(3,4)[OF assms(1,2)] sorted_hd_tl(3,4)[OF assms(3,4)]
  unfolding d_def k_def diff_key_def
  by (cases "router_db_diff_get ns os" "0 :: int" rule: linorder_cases;
      auto simp: fun_eq_iff table_None)+

lemma diff_turn_calls:
  assumes "sorted (map node_key ns)" "distinct (map node_key ns)"
    and "sorted (map node_key os)" "distinct (map node_key os)" "ns \<noteq> [] \<or> os \<noteq> []"
    and body: "diff_body gnma (router_db_diff_get ns os) ns os tr = (0, tr')"
  defines "k \<equiv> diff_key ns os"
  shows "\<exists>cs. tr' = tr @ cs \<and> call_key ` set cs = {j. j = k \<and> table ns j \<noteq> table os j} \<and>
    (\<forall>t j. replay cs t j = (if j \<in> call_key ` set cs then table ns j else t j))"
proof (cases "router_db_diff_get ns os" "0 :: int" rule: linorder_cases)
  case less
  then have ns: "ns \<noteq> []" "\<forall>n \<in> set os. node_key (hd ns) < node_key n"
    using diff_sorted(3)[OF assms(1-5)] by auto
  then have "table os (node_key (hd ns)) = None" by (auto simp: table_None)
  moreover obtain a where "tr' = tr @ [RouteCreate (router_fib_key2gnma_prefix (node_key (hd ns))) a]"
    "gnma_attr2router_fib_info a = node_info (hd ns)"
    using body less create_node_trace by (fastforce simp: diff_body_def)
  ultimately show ?thesis
    using sorted_hd_tl(3)[OF assms(1,2) ns(1)] less
    by (intro exI[of _ "[RouteCreate (router_fib_key2gnma_prefix (node_key (hd ns))) a]"])
       (auto simp: k_def diff_key_def)
next
  case equal
  then have ne: "ns \<noteq> []" "os \<noteq> []" "node_key (hd ns) = node_key (hd os)"
    using diff_sorted(1)[OF assms(1-5)] by auto
  note t = sorted_hd_tl(3)[OF assms(1,2) ne(1)] sorted_hd_tl(3)[OF assms(3,4) ne(2)]
  let ?rm = "RouteRemove (router_fib_key2gnma_prefix (node_key (hd ns)))"
  show ?thesis
  proof (cases "node_info (hd ns) = node_info (hd os)")
    case True
    then show ?thesis using body equal ne t by (auto simp: diff_body_def k_def diff_key_def)
  next
    case False
    then obtain a where "tr' = tr @ [?rm, RouteCreate (router_fib_key2gnma_prefix (node_key (hd ns))) a]"
      "gnma_attr2router_fib_info a = node_info (hd ns)"
      using body equal create_node_trace by (fastforce simp: diff_body_def)
    then show ?thesis
      using t ne equal False
      by (intro exI[of _ "[?rm, RouteCreate (router_fib_key2gnma_prefix (node_key (hd ns))) a]"])
         (auto simp: replay_def k_def diff_key_def)
  qed
next
  case greater
  then have os: "os \<noteq> []" "\<forall>n \<in> set ns. node_key (hd os) < node_key n"
    using diff_sorted(2)[OF assms(1-5)] by auto
  then have "table ns (node_key (hd os)) = None" by (auto simp: table_None)
  then show ?thesis
    using sorted_hd_tl(3)[OF assms(3,4) os(1)] greater body
    by (auto simp: k_def diff_key_def diff_body_def)
qed

text \<open>The loop calls for exactly the prefixes on which the two tables differ, and replaying its
  calls gives those prefixes the new destinations.\<close>

lemma replay_diff:
  assumes "sorted (map node_key ns)" "distinct (map node_key ns)"
    and "sorted (map node_key os)" "distinct (map node_key os)"
    and "for_router_db_diff gnma ns os tr = (0, tr')"
  shows "\<exists>cs. tr' = tr @ cs \<and> call_key ` set cs = {k. table ns k \<noteq> table os k} \<and>
    (\<forall>t k. replay cs t k = (if k \<in> call_key ` set cs then table ns k else t k))"
  using assms
proof (induction gnma ns os tr rule: for_router_db_diff.induct)
  case (1 gnma ns os tr)
  show ?case
  proof (cases "ns = [] \<and> os = []")
    case True
    then show ?thesis using "1.prems"(5) by (subst (asm) for_router_db_diff.simps) auto
  next
    case False
    let ?d = "router_db_diff_get ns os"
    let ?ns = "if ?d \<le> 0 then tl ns else ns" and ?os = "if ?d \<ge> 0 then tl os else os"
    obtain t1 where t1: "diff_body gnma ?d ns os tr = (0, t1)"
      and rest: "for_router_db_diff gnma ?ns ?os t1 = (0, tr')"
      using "1.prems"(5) False
      by (subst (asm) for_router_db_diff.simps) (auto simp: Let_def split: prod.splits if_splits)
    have ne: "ns \<noteq> [] \<or> os \<noteq> []" using False by blast
    have srt: "sorted (map node_key ?ns)" "distinct (map node_key ?ns)"
      "sorted (map node_key ?os)" "distinct (map node_key ?os)"
      using "1.prems"(1-4) by (auto simp: map_tl sorted_tl distinct_tl)
    note T = diff_turn_tables[OF "1.prems"(1-4) ne]
    obtain cs where cs: "tr' = t1 @ cs" "call_key ` set cs = {k. table ?ns k \<noteq> table ?os k}"
      "\<forall>t k. replay cs t k = (if k \<in> call_key ` set cs then table ?ns k else t k)"
      using "1.IH"[OF False refl t1[symmetric] refl _ srt rest] by auto
    obtain ds where ds: "t1 = tr @ ds"
      "call_key ` set ds = {j. j = diff_key ns os \<and> table ns j \<noteq> table os j}"
      "\<forall>t j. replay ds t j = (if j \<in> call_key ` set ds then table ns j else t j)"
      using diff_turn_calls[OF "1.prems"(1-4) ne t1] by blast
    have keys: "call_key ` set (ds @ cs) = {k. table ns k \<noteq> table os k}"
      using cs(2) ds(2) unfolding T set_append image_Un by auto
    moreover have "replay (ds @ cs) t k =
        (if k \<in> call_key ` set (ds @ cs) then table ns k else t k)" for t k
      using cs(2,3) ds(2,3) unfolding T keys by auto
    ultimately show ?thesis using cs(1) ds(1) by (intro exI[of _ "ds @ cs"]) simp
  qed
qed

text \<open>The two tables the loop runs on.\<close>

context c_qsort
begin

definition in_order :: "ucentral_router \<Rightarrow> ucentral_router" where
  "in_order r = (if sorted_flag r then r else ucentral_router_fib_db_sort qsort r)"

lemma in_order_used:
  assumes "router_wf r" "sorted_ok r" "distinct (map node_key (used r))"
  shows "router_wf (in_order r)" "sorted (map node_key (used (in_order r)))"
    "distinct (map node_key (used (in_order r)))" "table (used (in_order r)) = table (used r)"
    "sorted_flag (in_order r)"
  using assms sort_used[OF assms(1)] sort_distinct[OF assms(1,3)] sort_table[OF assms(1,3)]
  by (auto simp: in_order_def sorted_ok_def)

lemma apply_unfold:
  assumes "router_wf cfg" "sorted_ok cfg" "distinct (map node_key (used cfg))"
  shows "\<exists>newr. config_router_apply qsort True gnma cfg cache tr =
     (let (ret, tr) = for_router_db_diff gnma (used (in_order newr)) (used (in_order cache)) tr in
      Some (if ret \<noteq> 0 then (- 1, cache\<lparr>arr := arr (in_order cache)\<rparr>, tr)
            else (0, in_order newr, tr))) \<and>
     router_wf newr \<and> sorted_ok newr \<and> used newr = used cfg"
proof -
  obtain newr where n: "ucentral_router_fib_db_copy True cfg
      \<lparr>arr = [], rlen = 0, rmax = 0, sorted_flag = False\<rparr> = Some (0, newr)"
    "router_wf newr" "used newr = used cfg" "sorted_flag newr = sorted_flag cfg"
    using copy_wf[OF assms(1)] by blast
  then show ?thesis
    using assms(2) unfolding config_router_apply_def in_order_def
    by (intro exI[of _ newr]) (auto simp: sorted_ok_def split: prod.splits)
qed

lemma apply_ok:
  assumes "router_wf cfg" "sorted_ok cfg" "distinct (map node_key (used cfg))"
    and "router_wf cache" "sorted_ok cache" "distinct (map node_key (used cache))"
    and "config_router_apply qsort True gnma cfg cache tr = Some (0, cache', tr')"
  shows "\<exists>cs. tr' = tr @ cs \<and> replay cs (table (used cache)) = table (used cfg) \<and>
     call_key ` set cs = {k. table (used cfg) k \<noteq> table (used cache) k} \<and>
     table (used cache') = table (used cfg) \<and> router_wf cache' \<and> sorted_ok cache'"
proof -
  obtain newr where n: "config_router_apply qsort True gnma cfg cache tr =
     (let (ret, tr) = for_router_db_diff gnma (used (in_order newr)) (used (in_order cache)) tr in
      Some (if ret \<noteq> 0 then (- 1, cache\<lparr>arr := arr (in_order cache)\<rparr>, tr)
            else (0, in_order newr, tr)))"
    "router_wf newr" "sorted_ok newr" "used newr = used cfg"
    using apply_unfold[OF assms(1-3)] by blast
  have loop: "for_router_db_diff gnma (used (in_order newr)) (used (in_order cache)) tr = (0, tr')"
    and c': "cache' = in_order newr"
    using assms(7) n(1) by (auto split: prod.splits if_splits)
  have dn: "distinct (map node_key (used newr))" using n(4) assms(3) by simp
  note N = in_order_used[OF n(2,3) dn] and C = in_order_used[OF assms(4-6)]
  obtain cs where cs: "tr' = tr @ cs"
    "call_key ` set cs = {k. table (used newr) k \<noteq> table (used cache) k}"
    "\<forall>t k. replay cs t k = (if k \<in> call_key ` set cs then table (used newr) k else t k)"
    using replay_diff[OF N(2,3) C(2,3) loop] unfolding N(4) C(4) by blast
  have "replay cs (table (used cache)) = table (used cfg)"
    using cs(2,3) n(4) by (auto simp: fun_eq_iff)
  then show ?thesis
    using cs n(4) N unfolding c' by (auto simp: sorted_ok_def)
qed

end

text \<open>When the loop comes to its end. The adapter knows no unreachable and no broadcast route.\<close>

definition supported :: "fib_info \<Rightarrow> bool" where
  "supported i \<longleftrightarrow> (\<exists>a. router_fib_info2gnma_attr i = Inr a)"

lemma supported_simps [simp]:
  "supported ROUTE_BLACKHOLE" "supported (ROUTE_CONNECTED v)" "supported (ROUTE_NH v g)"
  "\<not> supported ROUTE_UNREACHABLE" "\<not> supported (ROUTE_BROADCAST v)"
  by (simp_all add: supported_def)

lemma replay_supported: "replay cs t k = Some i \<Longrightarrow> t k = Some i \<or> supported i"
proof (induction cs arbitrary: t)
  case (Cons c cs)
  then have "route_effect c t k = Some i \<or> supported i" by (simp add: replay_def)
  then show ?case
    by (cases c) (auto simp: supported_def info_attr_inverse split: if_splits)
qed simp

definition changes_supported :: "fib_node list \<Rightarrow> fib_node list \<Rightarrow> bool" where
  "changes_supported ns os \<longleftrightarrow>
     (\<forall>k i. table ns k = Some i \<longrightarrow> table os k = Some i \<or> supported i)"

lemma diff_loop_total:
  assumes "sorted (map node_key ns)" "distinct (map node_key ns)"
    and "sorted (map node_key os)" "distinct (map node_key os)"
    and "changes_supported ns os" "\<forall>tr c. gnma tr c = 0"
  shows "\<exists>tr'. for_router_db_diff gnma ns os tr = (0, tr')"
  using assms
proof (induction gnma ns os tr rule: for_router_db_diff.induct)
  case (1 gnma ns os tr)
  let ?d = "router_db_diff_get ns os"
  let ?ns = "if ?d \<le> 0 then tl ns else ns" and ?os = "if ?d \<ge> 0 then tl os else os"
  show ?case
  proof (cases "ns = [] \<and> os = []")
    case True
    then show ?thesis by (subst for_router_db_diff.simps) simp
  next
    case False
    then have ne: "ns \<noteq> [] \<or> os \<noteq> []" by blast
    note D = diff_sorted[OF "1.prems"(1-4) ne]
    have create: "\<exists>t. gnma_route_create_node gnma n s = (0, t)" if "supported (node_info n)" for n s
      using that "1.prems"(6) by (auto simp: gnma_route_create_node_def supported_def Let_def)
    have "supported (node_info (hd ns))"
      if "?d < 0 \<or> ?d = 0 \<and> node_info (hd ns) \<noteq> node_info (hd os)"
    proof -
      have "ns \<noteq> []" using that D by auto
      moreover have "table os (node_key (hd ns)) \<noteq> Some (node_info (hd ns))"
      proof (cases "?d = 0")
        case True
        then show ?thesis using that D(1) sorted_hd_tl(3)[OF "1.prems"(3,4)] by simp
      next
        case False
        then have "table os (node_key (hd ns)) = None" using that D(3) by (auto simp: table_None)
        then show ?thesis by simp
      qed
      ultimately show ?thesis
        using "1.prems"(5) sorted_hd_tl(3)[OF "1.prems"(1,2)] unfolding changes_supported_def
        by (metis fun_upd_same)
    qed
    then have "\<exists>t1. diff_body gnma ?d ns os tr = (0, t1)"
      using create[of "hd ns"] by (cases ?d "0 :: int" rule: linorder_cases) (auto simp: diff_body_def)
    then obtain t1 where t1: "diff_body gnma ?d ns os tr = (0, t1)" by blast
    have "changes_supported ?ns ?os"
      using "1.prems"(5) unfolding changes_supported_def diff_turn_tables[OF "1.prems"(1-4) ne] by auto
    moreover have "sorted (map node_key ?ns)" "distinct (map node_key ?ns)"
      "sorted (map node_key ?os)" "distinct (map node_key ?os)"
      using "1.prems"(1-4) by (auto simp: map_tl sorted_tl distinct_tl)
    ultimately obtain tr' where "for_router_db_diff gnma ?ns ?os t1 = (0, tr')"
      using "1.IH"[OF False refl t1[symmetric] refl _ _ _ _ _ _ "1.prems"(6)] by blast
    then show ?thesis
      using False t1 by (subst for_router_db_diff.simps) (simp add: Let_def)
  qed
qed

lemma diff_loop_iff:
  assumes "sorted (map node_key ns)" "distinct (map node_key ns)"
    and "sorted (map node_key os)" "distinct (map node_key os)" "\<forall>tr c. gnma tr c = 0"
  shows "(\<exists>tr'. for_router_db_diff gnma ns os tr = (0, tr')) \<longleftrightarrow> changes_supported ns os"
proof
  assume "\<exists>tr'. for_router_db_diff gnma ns os tr = (0, tr')"
  then obtain cs where cs: "call_key ` set cs = {k. table ns k \<noteq> table os k}"
    "\<forall>t k. replay cs t k = (if k \<in> call_key ` set cs then table ns k else t k)"
    using replay_diff[OF assms(1-4)] by blast
  show "changes_supported ns os"
    unfolding changes_supported_def
  proof (intro allI impI)
    fix k i assume "table ns k = Some i"
    then show "table os k = Some i \<or> supported i"
      using cs replay_supported[of cs Map.empty k i] by (cases "table os k = Some i") auto
  qed
qed (rule diff_loop_total[OF assms(1-4) _ assms(5)])

context c_qsort
begin

lemma apply_total:
  assumes "router_wf cfg" "sorted_ok cfg" "distinct (map node_key (used cfg))"
    and "router_wf cache" "sorted_ok cache" "distinct (map node_key (used cache))"
    and "\<forall>tr c. gnma tr c = 0"
  shows "\<exists>ret cache' tr'. config_router_apply qsort True gnma cfg cache tr = Some (ret, cache', tr') \<and>
     (ret = 0 \<longleftrightarrow> changes_supported (used cfg) (used cache))"
proof -
  obtain newr where n: "config_router_apply qsort True gnma cfg cache tr =
     (let (ret, tr) = for_router_db_diff gnma (used (in_order newr)) (used (in_order cache)) tr in
      Some (if ret \<noteq> 0 then (- 1, cache\<lparr>arr := arr (in_order cache)\<rparr>, tr)
            else (0, in_order newr, tr)))"
    "router_wf newr" "sorted_ok newr" "used newr = used cfg"
    using apply_unfold[OF assms(1-3)] by blast
  have dn: "distinct (map node_key (used newr))" using n(4) assms(3) by simp
  note N = in_order_used[OF n(2,3) dn] and C = in_order_used[OF assms(4-6)]
  have "(\<exists>tr'. for_router_db_diff gnma (used (in_order newr)) (used (in_order cache)) tr = (0, tr'))
      \<longleftrightarrow> changes_supported (used cfg) (used cache)"
    using diff_loop_iff[OF N(2,3) C(2,3) assms(7)] N(4) C(4) n(4) by (simp add: changes_supported_def)
  then show ?thesis
    unfolding n(1) by (auto split: prod.splits)
qed

end

section \<open>Properties\<close>


text \<open>The example tables of the witnesses: a cached default route and a connected network; a
  configuration that moves the default route and adds a black hole.\<close>

definition ex_cache :: ucentral_router where
  "ex_cache = \<lparr>arr = [\<lparr>node_key = FibKey 1 24, node_info = ROUTE_CONNECTED 10\<rparr>,
                     \<lparr>node_key = FibKey 0 0, node_info = ROUTE_NH 10 7\<rparr>],
             rlen = 2, rmax = 2, sorted_flag = False\<rparr>"

definition ex_cfg :: ucentral_router where
  "ex_cfg = \<lparr>arr = [\<lparr>node_key = FibKey 0 0, node_info = ROUTE_NH 10 9\<rparr>,
                   \<lparr>node_key = FibKey 1 24, node_info = ROUTE_CONNECTED 10\<rparr>,
                   \<lparr>node_key = FibKey 2 32, node_info = ROUTE_BLACKHOLE\<rparr>],
           rlen = 3, rmax = 3, sorted_flag = True\<rparr>"

lemma ex_wf:
  "router_wf ex_cache" "sorted_ok ex_cache" "distinct (map node_key (used ex_cache))"
  "router_wf ex_cfg" "sorted_ok ex_cfg" "distinct (map node_key (used ex_cfg))"
  by code_simp+




end
