(* ===== verification/Plat_Log.thy ===== *)
theory Plat_Log
  imports Prelude
begin

text \<open>
  The log ring buffer of the SONiC platform (\<open>plat-gnma.c\<close>): 64 message slots, a read and a
  write position. \<open>configure_handle\<close> empties it before a configuration is applied and reports
  what the platform logged meanwhile in the reply to a rejected one. A slot is \<open>None\<close> for a
  null pointer. The write position is advanced before the slot is written while the read
  position is not, so from the initial state the two are one slot apart: the library shows what
  a reader then sees.
\<close>

definition plat_log_ringbuf_size :: nat where
  "plat_log_ringbuf_size = 64"

record ringbuf =
  slots :: "string option list"
  rp :: nat
  wp :: nat

definition ringbuf_init :: ringbuf where
  "ringbuf_init = \<lparr>slots = replicate plat_log_ringbuf_size None, rp = 0, wp = 0\<rparr>"

definition plat_log_pop :: "ringbuf \<Rightarrow> string option \<times> ringbuf" where
  "plat_log_pop b =
     (case slots b ! rp b of
        Some msg \<Rightarrow> (Some msg, b\<lparr>slots := (slots b)[rp b := None],
                               rp := (rp b + 1) mod plat_log_ringbuf_size\<rparr>)
      | None \<Rightarrow> (None, b))"

definition plat_log_push :: "string \<Rightarrow> ringbuf \<Rightarrow> ringbuf" where
  "plat_log_push msg b =
     (let b = b\<lparr>wp := (wp b + 1) mod plat_log_ringbuf_size\<rparr>;
          b = (if wp b = rp b then snd (plat_log_pop b) else b)
      in b\<lparr>slots := (slots b)[wp b := Some msg]\<rparr>)"

text \<open>\<open>plat_log_printf\<close>: the message is dropped when it cannot be allocated.\<close>

definition plat_log_printf :: "bool \<Rightarrow> string \<Rightarrow> ringbuf \<Rightarrow> ringbuf" where
  "plat_log_printf ok msg b = (if ok then plat_log_push msg b else b)"

section \<open>The loops that empty the buffer\<close>

definition ring_wf :: "ringbuf \<Rightarrow> bool" where
  "ring_wf b \<longleftrightarrow> length (slots b) = plat_log_ringbuf_size \<and>
     rp b < plat_log_ringbuf_size \<and> wp b < plat_log_ringbuf_size"

definition stored :: "ringbuf \<Rightarrow> nat" where
  "stored b = length (filter (\<lambda>s. s \<noteq> None) (slots b))"

lemma filter_update_less:
  assumes "i < length xs" "P (xs ! i)" "\<not> P y"
  shows "length (filter P (xs[i := y])) < length (filter P xs)"
  using assms
  by (induction xs arbitrary: i) (auto simp: nth_Cons split: nat.splits)

lemma pop_stored:
  assumes "plat_log_pop b = (Some m, b')" "rp b < length (slots b)"
  shows "stored b' < stored b"
  using assms filter_update_less[of "rp b" "slots b" "\<lambda>s. s \<noteq> None" None]
  by (auto simp: plat_log_pop_def stored_def split: option.splits)

text \<open>The loops run at most once per slot; a position out of range is excluded by the invariant,
  and the guard makes the recursion total.\<close>

function plat_log_flush :: "ringbuf \<Rightarrow> ringbuf" where
  "plat_log_flush b =
     (if rp b < length (slots b) then
        (case plat_log_pop b of (Some _, b') \<Rightarrow> plat_log_flush b' | (None, b') \<Rightarrow> b')
      else b)"
  by pat_completeness auto
termination
  by (relation "measure stored") (auto dest: pop_stored[OF sym])

text \<open>\<open>alloc i\<close>: the \<open>i\<close>-th allocation of the function succeeds. The message is taken from the
  buffer even when the concatenation fails.\<close>

function concat_loop :: "(nat \<Rightarrow> bool) \<Rightarrow> nat \<Rightarrow> string \<Rightarrow> ringbuf \<Rightarrow> string option \<times> ringbuf" where
  "concat_loop alloc i res b =
     (if rp b < length (slots b) then
        (case plat_log_pop b of
           (Some msg, b') \<Rightarrow>
             if alloc i then concat_loop alloc (Suc i) (res @ msg @ [CHR 0x0A]) b' else (None, b')
         | (None, b') \<Rightarrow> (Some res, b'))
      else (Some res, b))"
  by pat_completeness auto
termination
  by (relation "measure (\<lambda>(_, _, _, b). stored b)") (auto dest: pop_stored[OF sym])

declare plat_log_flush.simps [simp del] concat_loop.simps [simp del]

definition plat_log_pop_concatenate :: "(nat \<Rightarrow> bool) \<Rightarrow> ringbuf \<Rightarrow> string option \<times> ringbuf" where
  "plat_log_pop_concatenate alloc b = (if alloc 0 then concat_loop alloc 1 [] b else (None, b))"

section \<open>The invariant\<close>

lemma ring_wf_init: "ring_wf ringbuf_init"
  by (simp add: ring_wf_def ringbuf_init_def plat_log_ringbuf_size_def)

lemma ring_wf_pop: "ring_wf b \<Longrightarrow> ring_wf (snd (plat_log_pop b))"
  by (auto simp: ring_wf_def plat_log_pop_def plat_log_ringbuf_size_def split: option.splits)

lemma ring_wf_push: "ring_wf b \<Longrightarrow> ring_wf (plat_log_push msg b)"
  by (auto simp: ring_wf_def plat_log_push_def plat_log_pop_def plat_log_ringbuf_size_def Let_def
      split: option.splits)

lemma ring_wf_flush: "ring_wf b \<Longrightarrow> ring_wf (plat_log_flush b)"
proof (induction b rule: plat_log_flush.induct)
  case (1 b)
  then show ?case
    using ring_wf_pop[OF 1(2)]
    by (subst plat_log_flush.simps) (auto simp: ring_wf_def split: prod.splits option.splits)
qed

lemma ring_wf_concat: "ring_wf b \<Longrightarrow> ring_wf (snd (concat_loop alloc i res b))"
proof (induction alloc i res b rule: concat_loop.induct)
  case (1 alloc i res b)
  then show ?case
    using ring_wf_pop[OF 1(2)]
    by (subst concat_loop.simps) (auto simp: ring_wf_def split: prod.splits option.splits)
qed

text \<open>After the flush loop nothing is left at the read position.\<close>

lemma flush_empty: "ring_wf b \<Longrightarrow> slots (plat_log_flush b) ! rp (plat_log_flush b) = None"
proof (induction b rule: plat_log_flush.induct)
  case (1 b)
  show ?case
  proof (cases "plat_log_pop b")
    case (Pair m b')
    then have "ring_wf b'" using ring_wf_pop[OF 1(2)] by simp
    then show ?thesis
      using 1 Pair
      by (subst (1 2) plat_log_flush.simps)
         (auto simp: ring_wf_def plat_log_pop_def split: option.splits)
  qed
qed

section \<open>What a reader sees\<close>

text \<open>Fewer than 64 messages pushed on the initial buffer fill the slots from 1 on.\<close>

definition ring_after :: "string list \<Rightarrow> ringbuf" where
  "ring_after msgs = \<lparr>slots = None # map Some msgs @ replicate (63 - length msgs) None,
                     rp = 0, wp = length msgs\<rparr>"

lemma push_all:
  "length msgs < 64 \<Longrightarrow> fold plat_log_push msgs ringbuf_init = ring_after msgs"
proof (induction msgs rule: rev_induct)
  case Nil
  then show ?case
    by (simp add: ring_after_def ringbuf_init_def plat_log_ringbuf_size_def numeral_eq_Suc)
next
  case (snoc m ms)
  then have l: "length ms < 63" by simp
  then have "replicate (63 - length ms) (None :: string option) =
      None # replicate (62 - length ms) None"
    by (cases "63 - length ms") auto
  then show ?case
    using snoc l
    by (simp add: ring_after_def plat_log_push_def plat_log_ringbuf_size_def Let_def list_update_append)
qed

datatype log_op = LogPush string | LogPop | LogFlush | LogConcat "nat \<Rightarrow> bool"

fun log_step :: "log_op \<Rightarrow> ringbuf \<Rightarrow> ringbuf" where
  "log_step (LogPush m) b = plat_log_push m b"
| "log_step LogPop b = snd (plat_log_pop b)"
| "log_step LogFlush b = plat_log_flush b"
| "log_step (LogConcat alloc) b = snd (plat_log_pop_concatenate alloc b)"

text \<open>The ring buffer's invariant: from the initial state, any sequence of pushes, pops,
  flushes and concatenations keeps both positions and the array in range.\<close>

theorem plat_log_in_range: "ring_wf (fold log_step ops ringbuf_init)"
proof (induction ops rule: rev_induct)
  case (snoc x xs)
  then show ?case
    by (cases x) (auto simp: plat_log_pop_concatenate_def ring_wf_push ring_wf_pop ring_wf_flush
        ring_wf_concat)
qed (simp add: ring_wf_init)

text \<open>Logged messages stay invisible: after fewer than 64 messages have been pushed on the
  initial buffer a reader finds none of them. The concatenation is the empty string, a flush
  removes nothing, and the messages are still stored.\<close>

theorem plat_log_invisible:
  assumes "length msgs < 64" and "\<forall>i. alloc i"
  shows "let b = fold plat_log_push msgs ringbuf_init in
    plat_log_pop b = (None, b) \<and> plat_log_pop_concatenate alloc b = (Some [], b) \<and>
    plat_log_flush b = b \<and> stored b = length msgs"
proof -
  let ?b = "ring_after msgs"
  have 1: "plat_log_pop ?b = (None, ?b)" by (simp add: ring_after_def plat_log_pop_def)
  have 2: "rp ?b < length (slots ?b)" by (simp add: ring_after_def)
  have "plat_log_pop_concatenate alloc ?b = (Some [], ?b)"
    using 1 2 assms(2) by (simp add: plat_log_pop_concatenate_def concat_loop.simps)
  moreover have "plat_log_flush ?b = ?b" using 1 2 by (simp add: plat_log_flush.simps)
  moreover have "stored ?b = length msgs"
    by (simp add: ring_after_def stored_def filter_map comp_def)
  ultimately show ?thesis using 1 push_all[OF assms(1)] by simp
qed

theorem plat_log_invisible_witness:
  "length [''link up'', ''link down''] < 64 \<and>
   plat_log_pop_concatenate (\<lambda>_. True)
     (fold plat_log_push [''link up'', ''link down''] ringbuf_init) =
   (Some [], fold plat_log_push [''link up'', ''link down''] ringbuf_init)"
  using plat_log_invisible[of "[''link up'', ''link down'']" "\<lambda>_. True"] by (simp add: Let_def)

end
