(* ===== verification/Plat_Gnma.thy ===== *)
theory Plat_Gnma
  imports Plat_Types Plat_Router Plat_Log
begin

text \<open>
  The state of the SONiC platform (\<open>struct plat_state\<close> of \<open>plat-gnma.c\<close>) and its management
  adapter. The adapter is a parameter: every request that changes the switch is a value of
  \<open>gnma_call\<close>, the requests made so far are kept with their return codes in \<open>hist\<close>, and what the
  adapter answers, to a request or to a query, is a function of that history. An operation of
  the platform is a value of \<open>op\<close>, built from a few combinators that follow the code's early
  returns; \<open>keeps\<close> is the calculus of invariants over them, and the locale \<open>mirror\<close> relates a part
  of the platform's cache to the part of the switch it stands for.
\<close>

section \<open>Requests\<close>

datatype poe_detection =
    DETECTION_2PT_DOT3AF | DETECTION_2PT_DOT3AF_LEG | DETECTION_4PT_DOT3AF | DETECTION_4PT_DOT3AF_LEG
  | DETECTION_DOT3BT | DETECTION_DOT3BT_LEG | DETECTION_LEG

datatype poe_port_priority = POE_LOW | POE_MEDIUM | POE_HIGH | POE_CRITICAL

datatype poe_power_mgmt =
    POE_MGMT_CLASS | POE_MGMT_DYNAMIC | POE_MGMT_DYNAMIC_PRIORITY | POE_MGMT_STATIC | POE_MGMT_STATIC_PRIORITY

datatype gnma_stp_mode = GNMA_STP_MODE_NONE | GNMA_STP_MODE_RPVST | GNMA_STP_MODE_PVST | GNMA_STP_MODE_MST

datatype relay_policy = RELAY_DISCARD | RELAY_APPEND | RELAY_REPLACE

datatype relay_circuit = CIRCUIT_ID_H_P | CIRCUIT_ID_I | CIRCUIT_ID_P

datatype gnma_igmp_version = GNMA_IGMP_NA | GNMA_IGMP igmp_version

record gnma_stp_attr =
  sa_forward_delay :: u16
  sa_hello_time :: u16
  sa_max_age :: u16
  sa_priority :: u16
  sa_enabled :: bool

definition stp_attr_zero :: gnma_stp_attr where
  "stp_attr_zero = \<lparr>sa_forward_delay = 0, sa_hello_time = 0, sa_max_age = 0, sa_priority = 0, sa_enabled = False\<rparr>"

record gnma_igmp_snoop_attr =
  ig_enabled :: bool
  ig_querier :: bool
  ig_fast_leave :: bool
  ig_query_interval :: u32
  ig_last_member :: u32
  ig_max_response :: u32
  ig_version :: gnma_igmp_version

text \<open>What is collected in a \<open>struct gnma_change\<close> and sent as one request.\<close>

datatype change_op = VlanCreate nat | MemberRemove nat string | MemberCreate nat string bool

datatype gnma_call =
    PortAdminState string bool | PortSpeed string string | PortDuplex string bool
  | PaeMode string bool | PortCtrl string control_mode | PortHostMode string host_mode
  | GuestVlan string u16 | UnauthVlan string u16
  | PoeDetection string poe_detection | PoePriority string poe_port_priority
  | PoePowerLimit string bool u32 | PoeAdmin string bool | PoeReset string
  | PoePowerMgmt poe_power_mgmt | PoeThreshold u8
  | StpMode gnma_stp_mode "gnma_stp_attr option" | StpPortsEnable "string list" | StpVid nat gnma_stp_attr
  | VlanRemove nat | ChangeExec "change_op list"
  | ErifDelete nat gnma_ip_prefix | ErifUpdate nat gnma_ip_prefix
  | Portl2Delete string gnma_ip_prefix | Portl2Update string gnma_ip_prefix
  | RelayAdd nat u32 | RelayRemove nat u32 | RelayMaxHop nat u8 | RelayPolicy nat relay_policy
  | RelayCircuit nat relay_circuit
  | IgmpSnooping nat gnma_igmp_snoop_attr | IgmpGroups nat "(u32 \<times> string list) list"
  | AuthControl bool | DacRemove string | DacAdd string string
  | RadiusRemove string | RadiusAdd string string u16 u8
  | RouteCall route_call | PasswordSet string | SyslogClear | SyslogSet "(string \<times> int \<times> string) list"

type_synonym hist = "(gnma_call \<times> int) list"

text \<open>The adapter's answers. A list query tells the names it would report and whether it failed; the
  two bitmaps of a VLAN are its members and its tagged members. \<open>gnma_mem\<close> answers the platform's own
  allocations by number.\<close>

record gnma =
  ans :: "hist \<Rightarrow> gnma_call \<Rightarrow> int"
  gnma_vlan_list_get :: "hist \<Rightarrow> int \<times> bitmap"
  gnma_vlan_member_bmap_get :: "hist \<Rightarrow> int \<times> (nat \<Rightarrow> bitmap \<times> bitmap)"
  gnma_port_list_get :: "hist \<Rightarrow> int \<times> string list"
  gnma_vlan_erif_attr_pref_list_get :: "nat \<Rightarrow> hist \<Rightarrow> int \<times> gnma_ip_prefix option"
  gnma_change_create :: "hist \<Rightarrow> bool"
  gnma_change_add :: "hist \<Rightarrow> change_op list \<Rightarrow> change_op \<Rightarrow> int"
  gnma_radius_hosts_list_get :: "hist \<Rightarrow> int \<times> string list"
  gnma_dac_hosts_list_get :: "hist \<Rightarrow> int \<times> string list"
  gnma_mem :: "nat \<Rightarrow> bool"
  gnma_qsort :: qsort_fn

section \<open>State\<close>

record dhcp_relay =
  policy_act :: relay_policy
  relay_circ :: relay_circuit
  max_hop_cnt :: u8
  helper_address :: u32
  relay_on :: bool

record poe_attrs =
  pa_admin :: bool
  pa_detection :: poe_detection
  pa_limit :: u32
  pa_limit_user :: bool
  pa_priority :: poe_port_priority

record poe_port =
  poe_key :: string
  poe_attrs :: poe_attrs

datatype featsts = FEATSTS_FAIL | FEATSTS_NONE | FEATSTS_OK

text \<open>\<open>dac_keys\<close> is \<open>None\<close> for a null array with a size other than 0.\<close>

record plat_state =
  hist :: hist
  mem_calls :: nat
  plog :: ringbuf
  feat_core :: featsts
  feat_poe :: featsts
  feat_aaa :: featsts
  port_cache :: "nat \<Rightarrow> port_ieee8021x"
  relays :: "nat \<Rightarrow> dhcp_relay"
  poe_mgmt :: poe_power_mgmt
  poe_threshold :: u8
  poe_ports :: "nat \<Rightarrow> poe_port"
  poe_bmap :: bitmap
  auth_control :: bool
  dac_keys :: "string list option"
  radius_keys :: "string list"
  route_cache :: ucentral_router
  stp_cache :: gnma_stp_mode
  stp_mode_attr :: gnma_stp_attr
  stp_vlan_attr :: "nat \<Rightarrow> gnma_stp_attr"
  portsl2_rif :: "nat \<Rightarrow> plat_ipv4"

section \<open>Operations\<close>

text \<open>An operation yields its return code; \<open>None\<close> is undefined behaviour.\<close>

type_synonym op = "plat_state \<Rightarrow> (int \<times> plat_state) option"

text \<open>A request to the switch.\<close>

definition issue :: "gnma \<Rightarrow> (plat_state \<Rightarrow> gnma_call) \<Rightarrow> op" where
  "issue G c s = (let r = ans G (hist s) (c s) in Some (r, s\<lparr>hist := hist s @ [(c s, r)]\<rparr>))"

definition upd :: "(plat_state \<Rightarrow> plat_state) \<Rightarrow> op" where
  "upd f s = Some (0, f s)"

text \<open>Statements in order; the first code other than 0 is returned at once.\<close>

fun seq :: "op list \<Rightarrow> op" where
  "seq [] s = Some (0, s)"
| "seq (f # fs) s = do { (r, s) \<leftarrow> f s; if r \<noteq> 0 then Some (r, s) else seq fs s }"

definition guard :: "(plat_state \<Rightarrow> bool) \<Rightarrow> op \<Rightarrow> op" where
  "guard b f s = (if b s then f s else Some (0, s))"

definition branch :: "(plat_state \<Rightarrow> bool) \<Rightarrow> op \<Rightarrow> op \<Rightarrow> op" where
  "branch b f g s = (if b s then f s else g s)"

text \<open>An operation that reads the state first.\<close>

definition reading :: "(plat_state \<Rightarrow> op) \<Rightarrow> op" where
  "reading f s = f s s"

text \<open>An operation that is undefined unless a condition on its arguments holds.\<close>

definition defined_if :: "bool \<Rightarrow> op \<Rightarrow> op" where
  "defined_if b f s = (if b then f s else None)"

definition fail :: "int \<Rightarrow> op" where
  "fail r s = Some (r, s)"

text \<open>Any failure as -1, and a code that the caller ignores.\<close>

definition as_err :: "op \<Rightarrow> op" where
  "as_err f s = do { (r, s) \<leftarrow> f s; Some (if r \<noteq> 0 then - 1 else 0, s) }"

definition ignore :: "op \<Rightarrow> op" where
  "ignore f s = do { (r, s) \<leftarrow> f s; Some (0, s) }"

text \<open>An allocation of the platform.\<close>

definition alloc_or :: "gnma \<Rightarrow> int \<Rightarrow> op" where
  "alloc_or G r s = Some (if gnma_mem G (mem_calls s) then 0 else r, s\<lparr>mem_calls := Suc (mem_calls s)\<rparr>)"

text \<open>A cached attribute is brought to the switch: if it differs, one request, and the cache follows
  when the request succeeded.\<close>

definition sync :: "gnma \<Rightarrow> (plat_state \<Rightarrow> bool) \<Rightarrow> (plat_state \<Rightarrow> gnma_call) \<Rightarrow> (plat_state \<Rightarrow> plat_state) \<Rightarrow> op" where
  "sync G differs c u = guard differs (seq [issue G c, upd u])"

text \<open>\<open>BITMAP_FOR_EACH_BIT_SET\<close> with a body that may return.\<close>

definition for_bits :: "bitmap \<Rightarrow> nat \<Rightarrow> (nat \<Rightarrow> op) \<Rightarrow> op" where
  "for_bits bm n f s = do { is \<leftarrow> BITMAP_FOR_EACH_BIT_SET bm n; loop_ret f is s }"

text \<open>\<open>CFG_LOG_CRIT\<close>: the message for the reply to the request.\<close>

definition CFG_LOG_CRIT :: "gnma \<Rightarrow> string \<Rightarrow> op" where
  "CFG_LOG_CRIT G msg s =
     Some (0, s\<lparr>plog := plat_log_printf (gnma_mem G (mem_calls s)) msg (plog s), mem_calls := Suc (mem_calls s)\<rparr>)"

section \<open>Invariants\<close>

definition keeps :: "(plat_state \<Rightarrow> bool) \<Rightarrow> op \<Rightarrow> bool" where
  "keeps P f \<longleftrightarrow> (\<forall>s r s'. P s \<longrightarrow> f s = Some (r, s') \<longrightarrow> P s')"

named_theorems keeps_rules \<open>invariants of the operations, one rule per combinator\<close>

lemma keepsI: "(\<And>s r s'. P s \<Longrightarrow> f s = Some (r, s') \<Longrightarrow> P s') \<Longrightarrow> keeps P f"
  unfolding keeps_def by blast

lemma keepsD: "keeps P f \<Longrightarrow> f s = Some (r, s') \<Longrightarrow> P s \<Longrightarrow> P s'"
  unfolding keeps_def by blast

lemma keeps_seq_Nil [keeps_rules]: "keeps P (seq [])"
  by (rule keepsI) simp

lemma keeps_seq_Cons [keeps_rules]:
  assumes "keeps P f" "keeps P (seq fs)"
  shows "keeps P (seq (f # fs))"
proof (rule keepsI)
  fix s r s' assume "P s" "seq (f # fs) s = Some (r, s')"
  then obtain q t where "f s = Some (q, t)" "(if q \<noteq> 0 then Some (q, t) else seq fs t) = Some (r, s')"
    by (auto elim: bindE)
  moreover have "P t" using keepsD[OF assms(1)] calculation(1) \<open>P s\<close> by blast
  ultimately show "P s'" using keepsD[OF assms(2), of t r s'] by (cases "q = 0") auto
qed

lemma keeps_guard [keeps_rules]: "keeps P f \<Longrightarrow> keeps P (guard b f)"
  by (rule keepsI) (auto simp: guard_def split: if_splits dest: keepsD)

lemma keeps_branch [keeps_rules]: "keeps P f \<Longrightarrow> keeps P g \<Longrightarrow> keeps P (branch b f g)"
  by (rule keepsI) (auto simp: branch_def split: if_splits dest: keepsD)

lemma keeps_reading [keeps_rules]: "(\<And>t. keeps P (f t)) \<Longrightarrow> keeps P (reading f)"
  by (rule keepsI) (auto simp: reading_def dest: keepsD)

lemma keeps_defined_if [keeps_rules]: "keeps P f \<Longrightarrow> keeps P (defined_if b f)"
  by (rule keepsI) (auto simp: defined_if_def split: if_splits dest: keepsD)

lemma keeps_fail [keeps_rules]: "keeps P (fail r)"
  by (rule keepsI) (simp add: fail_def)

lemma keeps_as_err [keeps_rules]: "keeps P f \<Longrightarrow> keeps P (as_err f)"
  by (rule keepsI) (auto simp: as_err_def elim!: bindE dest: keepsD)

lemma keeps_ignore [keeps_rules]: "keeps P f \<Longrightarrow> keeps P (ignore f)"
  by (rule keepsI) (auto simp: ignore_def elim!: bindE dest: keepsD)

lemma keeps_loop [keeps_rules]:
  assumes "\<And>x. keeps P (f x)"
  shows "keeps P (loop_ret f xs)"
proof (rule keepsI)
  fix s r s' assume "P s" "loop_ret f xs s = Some (r, s')"
  then show "P s'" using keepsD[OF assms] by (auto intro: loop_ret_invariant)
qed

lemma keeps_for_bits [keeps_rules]:
  assumes "\<And>i. keeps P (f i)"
  shows "keeps P (for_bits bm n f)"
  by (rule keepsI) (auto simp: for_bits_def elim!: bindE intro: keepsD[OF keeps_loop[OF assms]])

text \<open>A query that may be undefined.\<close>

lemma keeps_query [keeps_rules]: "(\<And>a. keeps P (f a)) \<Longrightarrow> keeps P (\<lambda>s. Option.bind (x s) (\<lambda>a. f a s))"
  unfolding keeps_def by (auto elim!: bindE)

lemma keeps_if [keeps_rules]: "(b \<Longrightarrow> keeps P f) \<Longrightarrow> (\<not> b \<Longrightarrow> keeps P g) \<Longrightarrow> keeps P (if b then f else g)"
  by simp

lemma keeps_upd: "(\<And>s. P s \<Longrightarrow> P (f s)) \<Longrightarrow> keeps P (upd f)"
  by (rule keepsI) (auto simp: upd_def)

lemma keeps_issue: "(\<And>s r. P s \<Longrightarrow> P (s\<lparr>hist := hist s @ [(c s, r)]\<rparr>)) \<Longrightarrow> keeps P (issue G c)"
  by (rule keepsI) (auto simp: issue_def Let_def)

section \<open>The cache mirrors the switch\<close>

text \<open>The part of the switch after a history of requests, from what the successful ones do.\<close>

definition switch :: "(gnma_call \<Rightarrow> 'd \<Rightarrow> 'd) \<Rightarrow> hist \<Rightarrow> 'd \<Rightarrow> 'd" where
  "switch eff h d = fold (\<lambda>(c, r) d. if r = 0 then eff c d else d) h d"

definition mirrors ::
  "(plat_state \<Rightarrow> 'd) \<Rightarrow> (gnma_call \<Rightarrow> 'd \<Rightarrow> 'd) \<Rightarrow> (plat_state \<Rightarrow> bool) \<Rightarrow> 'd \<Rightarrow> plat_state \<Rightarrow> bool" where
  "mirrors view eff ok d s \<longleftrightarrow> ok s \<and> view s = switch eff (hist s) d"

lemma switch_snoc [simp]: "switch eff (h @ [(c, r)]) d = (if r = 0 then eff c (switch eff h d) else switch eff h d)"
  by (simp add: switch_def)

locale mirror =
  fixes view :: "plat_state \<Rightarrow> 'd"
    and eff :: "gnma_call \<Rightarrow> 'd \<Rightarrow> 'd"
    and ok :: "plat_state \<Rightarrow> bool"
  assumes view_hist: "view (s\<lparr>hist := h\<rparr>) = view s"
    and ok_hist: "ok (s\<lparr>hist := h\<rparr>) = ok s"
begin

lemma issue_other: "(\<And>s d. eff (c s) d = d) \<Longrightarrow> keeps (mirrors view eff ok d0) (issue G c)"
  by (rule keeps_issue) (simp add: mirrors_def view_hist ok_hist)

lemma upd_other:
  assumes "\<And>s. view (u s) = view s" "\<And>s. ok (u s) = ok s" "\<And>s. hist (u s) = hist s"
  shows "keeps (mirrors view eff ok d0) (upd u)"
  by (rule keeps_upd) (simp add: mirrors_def assms)

lemma sync_mirrors:
  assumes u: "\<And>s. ok s \<Longrightarrow> view (u s) = eff (c s) (view s)" "\<And>s. ok (u s) = ok s" "\<And>s. hist (u s) = hist s"
    and c: "\<And>s h. c (s\<lparr>hist := h\<rparr>) = c s"
  shows "keeps (mirrors view eff ok d0) (sync G b c u)"
  unfolding sync_def
proof (rule keeps_guard, rule keepsI)
  fix s r s'
  assume m: "mirrors view eff ok d0 s" and run: "seq [issue G c, upd u] s = Some (r, s')"
  let ?q = "ans G (hist s) (c s)"
  let ?s = "s\<lparr>hist := hist s @ [(c s, ?q)]\<rparr>"
  have s': "s' = (if ?q = 0 then u ?s else ?s)"
    using run by (auto simp: issue_def upd_def Let_def split: if_splits)
  show "mirrors view eff ok d0 s'"
  proof (cases "?q = 0")
    case True
    have "view (u ?s) = eff (c s) (view s)" using m u(1)[of ?s] by (simp add: mirrors_def view_hist ok_hist c)
    then show ?thesis using m True s' by (simp add: mirrors_def u(2,3) ok_hist)
  qed (use m s' in \<open>simp add: mirrors_def view_hist ok_hist\<close>)
qed

end

end
