(* ===== verification/Plat_Ports.thy ===== *)
theory Plat_Ports
  imports Plat_Gnma
begin

text \<open>
  The part of \<open>plat_config_apply\<close> of the SONiC platform that configures ports and the unit: admin
  state, speed and duplex, the port's 802.1x attributes, power over ethernet. The power
  attributes are cached one by one as the switch accepts them; the 802.1x attributes of a port
  are cached together at the end. The library shows what that means for the cache.
\<close>

section \<open>Port attributes\<close>

text \<open>\<open>SPEED_TO_STR\<close>: the speeds in the order of their enumeration; any other number fails.\<close>

definition speed_strings :: "string list" where
  "speed_strings = [''10'', ''100'', ''1000'', ''2500'', ''5000'', ''10000'', ''25000'', ''40000'', ''100000'']"

definition SPEED_TO_STR :: "u32 \<Rightarrow> string option" where
  "SPEED_TO_STR speed = (if unat speed < length speed_strings then Some (speed_strings ! unat speed) else None)"

definition plat_port_admin_state_set :: "gnma \<Rightarrow> nat \<Rightarrow> u8 \<Rightarrow> op" where
  "plat_port_admin_state_set G p state = ignore (issue G (\<lambda>_. PortAdminState (PID_TO_NAME p) (state = 1)))"

definition plat_port_speed_set :: "gnma \<Rightarrow> nat \<Rightarrow> u32 \<Rightarrow> op" where
  "plat_port_speed_set G p speed =
     (case SPEED_TO_STR speed of
        None \<Rightarrow> fail (- 1)
      | Some str \<Rightarrow> ignore (issue G (\<lambda>_. PortSpeed (PID_TO_NAME p) str)))"

definition plat_port_duplex_set :: "gnma \<Rightarrow> nat \<Rightarrow> u8 \<Rightarrow> op" where
  "plat_port_duplex_set G p duplex = ignore (issue G (\<lambda>_. PortDuplex (PID_TO_NAME p) (duplex = 1)))"

text \<open>Both operations run and their codes are joined (\<open>ret |= ...\<close>).\<close>

definition also_do :: "op \<Rightarrow> op \<Rightarrow> op" where
  "also_do f g s = do { (r, s) \<leftarrow> f s; (q, s) \<leftarrow> g s; Some (if r \<noteq> 0 then r else q, s) }"

lemma keeps_also_do [keeps_rules]: "keeps P f \<Longrightarrow> keeps P g \<Longrightarrow> keeps P (also_do f g)"
  by (rule keepsI) (auto simp: also_do_def elim!: bindE dest: keepsD)

definition port_attrs_set :: "gnma \<Rightarrow> nat \<Rightarrow> plat_port \<Rightarrow> op" where
  "port_attrs_set G i p =
     also_do (plat_port_admin_state_set G i (pt_state p))
       (guard (\<lambda>_. pt_state p \<noteq> 0)
         (also_do (plat_port_speed_set G i (pt_speed p)) (plat_port_duplex_set G i (pt_duplex p))))"

section \<open>802.1x\<close>

text \<open>The modes of the configuration and of the adapter have the same values. The cache is compared
  throughout and written once, after the last request.\<close>

definition config_port_ieee8021x_apply :: "gnma \<Rightarrow> nat \<Rightarrow> plat_port \<Rightarrow> op" where
  "config_port_ieee8021x_apply G i p =
     (let new = pt_ieee8021x p; name = PID_TO_NAME i; old = (\<lambda>s. port_cache s i) in
      seq [
        guard (\<lambda>s. is_authenticator (old s) \<noteq> is_authenticator new)
          (issue G (\<lambda>_. PaeMode name (is_authenticator new))),
        guard (\<lambda>s. control_mode (old s) \<noteq> control_mode new)
          (issue G (\<lambda>_. PortCtrl name (control_mode new))),
        guard (\<lambda>s. host_mode (old s) \<noteq> host_mode new)
          (issue G (\<lambda>_. PortHostMode name (host_mode new))),
        guard (\<lambda>s. guest_vid (old s) \<noteq> guest_vid new)
          (issue G (\<lambda>_. GuestVlan name (guest_vid new))),
        guard (\<lambda>s. auth_fail_vid (old s) \<noteq> auth_fail_vid new)
          (issue G (\<lambda>_. UnauthVlan name (auth_fail_vid new))),
        upd (\<lambda>s. s\<lparr>port_cache := (port_cache s)(i := new)\<rparr>)])"

section \<open>Power over ethernet\<close>

definition poe_port_detection_mode_str2num :: "string \<Rightarrow> poe_detection" where
  "poe_port_detection_mode_str2num str =
     (if str = ''2pt-dot3af'' then DETECTION_2PT_DOT3AF
      else if str = ''2pt-dot3af+legacy'' then DETECTION_2PT_DOT3AF_LEG
      else if str = ''4pt-dot3af'' then DETECTION_4PT_DOT3AF
      else if str = ''4pt-dot3af+legacy'' then DETECTION_4PT_DOT3AF_LEG
      else if str = ''dot3bt'' then DETECTION_DOT3BT
      else if str = ''dot3bt+legacy'' then DETECTION_DOT3BT_LEG
      else if str = ''legacy'' then DETECTION_LEG
      else DETECTION_4PT_DOT3AF)"

definition poe_port_priority_mode_str2num :: "string \<Rightarrow> poe_port_priority" where
  "poe_port_priority_mode_str2num str =
     (if str = ''low'' then POE_LOW else if str = ''medium'' then POE_MEDIUM
      else if str = ''high'' then POE_HIGH else if str = ''critical'' then POE_CRITICAL else POE_LOW)"

definition poe_power_mgmt_str2num :: "string \<Rightarrow> poe_power_mgmt" where
  "poe_power_mgmt_str2num str =
     (if str = ''class'' then POE_MGMT_CLASS else if str = ''dynamic'' then POE_MGMT_DYNAMIC
      else if str = ''dynamic-priority'' then POE_MGMT_DYNAMIC_PRIORITY
      else if str = ''static'' then POE_MGMT_STATIC
      else if str = ''static-priority'' then POE_MGMT_STATIC_PRIORITY else POE_MGMT_CLASS)"

abbreviation poe_of :: "nat \<Rightarrow> plat_state \<Rightarrow> poe_attrs" where
  "poe_of i s \<equiv> poe_attrs (poe_ports s i)"

definition poe_upd :: "nat \<Rightarrow> (poe_attrs \<Rightarrow> poe_attrs) \<Rightarrow> plat_state \<Rightarrow> plat_state" where
  "poe_upd i f s = s\<lparr>poe_ports := (poe_ports s)(i := (poe_ports s i)\<lparr>poe_attrs := f (poe_of i s)\<rparr>)\<rparr>"

definition poe_limit :: "port_poe \<Rightarrow> u32" where
  "poe_limit p = (if is_power_limit_set p then power_limit p else 0)"

definition config_poe_port_apply :: "gnma \<Rightarrow> nat \<Rightarrow> plat_port \<Rightarrow> op" where
  "config_poe_port_apply G i port =
     (let p = pt_poe port; key = (\<lambda>s. poe_key (poe_ports s i));
          mode = poe_port_detection_mode_str2num (detection_mode p);
          prio = poe_port_priority_mode_str2num (poe_priority p);
          limit = poe_limit p; user = is_power_limit_set p
      in as_err (seq [
           sync G (\<lambda>s. is_detection_mode_set p \<and> pa_detection (poe_of i s) \<noteq> mode)
             (\<lambda>s. PoeDetection (key s) mode) (poe_upd i (\<lambda>a. a\<lparr>pa_detection := mode\<rparr>)),
           sync G (\<lambda>s. is_priority_set p \<and> pa_priority (poe_of i s) \<noteq> prio)
             (\<lambda>s. PoePriority (key s) prio) (poe_upd i (\<lambda>a. a\<lparr>pa_priority := prio\<rparr>)),
           sync G (\<lambda>s. pa_limit (poe_of i s) \<noteq> limit \<or> pa_limit_user (poe_of i s) \<noteq> user)
             (\<lambda>s. PoePowerLimit (key s) user limit) (poe_upd i (\<lambda>a. a\<lparr>pa_limit := limit, pa_limit_user := user\<rparr>)),
           sync G (\<lambda>s. pa_admin (poe_of i s) \<noteq> is_admin_mode_up p)
             (\<lambda>s. PoeAdmin (key s) (is_admin_mode_up p)) (poe_upd i (\<lambda>a. a\<lparr>pa_admin := is_admin_mode_up p\<rparr>)),
           guard (\<lambda>_. poe_do_reset p) (issue G (\<lambda>s. PoeReset (key s)))]))"

definition config_unit_apply :: "gnma \<Rightarrow> plat_cfg \<Rightarrow> op" where
  "config_unit_apply G cfg =
     (let u = unit_cfg cfg; mode = poe_power_mgmt_str2num (power_mgmt u) in
      if mc_flood_control u \<or> querier_enable u then fail (- 1)
      else seq [
        sync G (\<lambda>s. is_power_mgmt_set u \<and> poe_mgmt s \<noteq> mode)
          (\<lambda>_. PoePowerMgmt mode) (\<lambda>s. s\<lparr>poe_mgmt := mode\<rparr>),
        sync G (\<lambda>s. is_usage_threshold_set u \<and> poe_threshold s \<noteq> usage_threshold u)
          (\<lambda>_. PoeThreshold (usage_threshold u)) (\<lambda>s. s\<lparr>poe_threshold := usage_threshold u\<rparr>)])"

section \<open>All ports\<close>

definition poe_part :: "gnma \<Rightarrow> bool \<Rightarrow> nat \<Rightarrow> plat_port \<Rightarrow> op" where
  "poe_part G reported i p s =
     do {
       has_poe \<leftarrow> BITMAP_TEST_BIT (poe_bmap s) i;
       guard (\<lambda>_. has_poe)
         (branch (\<lambda>s. feat_poe s = FEATSTS_OK) (config_poe_port_apply G i p)
           (guard (\<lambda>_. \<not> reported)
             (CFG_LOG_CRIT G ''POE feature is not initialized, skipping configuration''))) s
     }"

definition port_body :: "gnma \<Rightarrow> plat_cfg \<Rightarrow> bool \<Rightarrow> bool \<Rightarrow> nat \<Rightarrow> op" where
  "port_body G cfg reported_1x reported_poe i =
     as_err (seq [
       port_attrs_set G i (ports cfg i),
       branch (\<lambda>s. feat_aaa s = FEATSTS_OK) (config_port_ieee8021x_apply G i (ports cfg i))
         (guard (\<lambda>_. \<not> reported_1x)
           (CFG_LOG_CRIT G ''AAA feature is not initialized, skipping configuration'')),
       poe_part G reported_poe i (ports cfg i)])"

text \<open>The two flags are the local variables that report a missing feature once.\<close>

fun port_loop :: "gnma \<Rightarrow> plat_cfg \<Rightarrow> nat list \<Rightarrow> bool \<Rightarrow> bool \<Rightarrow> op" where
  "port_loop G cfg [] r1 r2 s = Some (0, s)"
| "port_loop G cfg (i # is) r1 r2 s =
     do {
       (ret, s) \<leftarrow> port_body G cfg r1 r2 i s;
       if ret \<noteq> 0 then Some (ret, s)
       else port_loop G cfg is (r1 \<or> feat_aaa s \<noteq> FEATSTS_OK)
              (r2 \<or> bm_test (poe_bmap s) i \<and> feat_poe s \<noteq> FEATSTS_OK) s
     }"

definition plat_port_config_apply :: "gnma \<Rightarrow> plat_cfg \<Rightarrow> op" where
  "plat_port_config_apply G cfg s =
     do { is \<leftarrow> BITMAP_FOR_EACH_BIT_SET (ports_to_cfg cfg) MAX_NUM_OF_PORTS; port_loop G cfg is False False s }"

lemma keeps_poe_part [keeps_rules]:
  assumes "keeps P (config_poe_port_apply G i p)" "\<And>m. keeps P (CFG_LOG_CRIT G m)"
  shows "keeps P (poe_part G r i p)"
  unfolding poe_part_def by (intro keeps_rules assms)

lemma keeps_port_loop [keeps_rules]:
  assumes "\<And>r1 r2 i. keeps P (port_body G cfg r1 r2 i)"
  shows "keeps P (port_loop G cfg is r1 r2)"
proof (induction "is" arbitrary: r1 r2)
  case (Cons i "is")
  show ?case
  proof (rule keepsI)
    fix s q s' assume "P s" and run: "port_loop G cfg (i # is) r1 r2 s = Some (q, s')"
    then obtain t ret where t: "port_body G cfg r1 r2 i s = Some (ret, t)" by (auto elim: bindE)
    then have "P t" using keepsD[OF assms] \<open>P s\<close> by blast
    then show "P s'" using run t keepsD[OF Cons.IH] by (cases "ret = 0") auto
  qed
qed (rule keepsI, simp)

lemma keeps_port_config [keeps_rules]:
  assumes "\<And>r1 r2 i. keeps P (port_body G cfg r1 r2 i)"
  shows "keeps P (plat_port_config_apply G cfg)"
  by (rule keepsI) (auto simp: plat_port_config_apply_def elim!: bindE intro: keepsD[OF keeps_port_loop[OF assms]])

end
