(* ===== verification/Plat_Vlans.thy ===== *)
theory Plat_Vlans
  imports Plat_Gnma
begin

text \<open>
  VLANs and addresses in \<open>plat_config_apply\<close> of the SONiC platform: removing VLANs that are not
  configured, bringing the members of the configured ones up to date in one request, the
  address, multicast and DHCP relay settings of VLAN interfaces, and the addresses of ports.
  The library shows that the request built for the members turns what the switch reported into
  what is configured.
\<close>

definition GNMA_MAX_VLANS :: nat where "GNMA_MAX_VLANS = 4096"

text \<open>An access to the arrays over VLANs.\<close>

definition at_vlan :: "nat \<Rightarrow> op \<Rightarrow> op" where
  "at_vlan vid = defined_if (vid < GNMA_MAX_VLANS)"

lemma keeps_at_vlan [keeps_rules]: "keeps P f \<Longrightarrow> keeps P (at_vlan vid f)"
  unfolding at_vlan_def by (rule keeps_defined_if)

section \<open>Addresses of VLAN interfaces\<close>

definition igmp_off :: gnma_igmp_snoop_attr where
  "igmp_off = \<lparr>ig_enabled = False, ig_querier = False, ig_fast_leave = False, ig_query_interval = 0,
     ig_last_member = 0, ig_max_response = 0, ig_version = GNMA_IGMP_NA\<rparr>"

definition relay_upd :: "nat \<Rightarrow> (dhcp_relay \<Rightarrow> dhcp_relay) \<Rightarrow> plat_state \<Rightarrow> plat_state" where
  "relay_upd vid f s = s\<lparr>relays := (relays s)(vid := f (relays s vid))\<rparr>"

text \<open>\<open>old\<close> is what the switch reports when the function starts.\<close>

definition vlan_rif_steps :: "gnma \<Rightarrow> nat \<Rightarrow> plat_ipv4 \<Rightarrow> gnma_ip_prefix option \<Rightarrow> op list" where
  "vlan_rif_steps G vid ip old =
     (let pref = GnmaV4 (subnet ip) (subnet_len ip) in
      [at_vlan vid (guard (\<lambda>s. relay_on (relays s vid)) (issue G (\<lambda>s. RelayRemove vid (helper_address (relays s vid))))),
       issue G (\<lambda>_. IgmpSnooping vid igmp_off),
       guard (\<lambda>_. old \<noteq> None \<and> \<not> ipv4_exist ip)
         (seq [upd (relay_upd vid (\<lambda>r. r\<lparr>relay_on := False, helper_address := 0\<rparr>)),
               issue G (\<lambda>_. ErifDelete vid (the old))]),
       guard (\<lambda>_. ipv4_exist ip \<and> (old = None \<or> old \<noteq> Some pref))
         (seq [issue G (\<lambda>_. ErifUpdate vid pref),
               guard (\<lambda>s. relay_on (relays s vid)) (issue G (\<lambda>s. RelayAdd vid (helper_address (relays s vid))))])])"

definition plat_vlan_rif_set :: "gnma \<Rightarrow> nat \<Rightarrow> plat_ipv4 \<Rightarrow> op" where
  "plat_vlan_rif_set G vid ip = as_err (reading (\<lambda>s.
     let (ret, old) = gnma_vlan_erif_attr_pref_list_get G vid (hist s) in
     if ret \<noteq> 0 then fail (- 1) else seq (vlan_rif_steps G vid ip old)))"

definition igmp_attr :: "plat_igmp \<Rightarrow> gnma_igmp_snoop_attr" where
  "igmp_attr g = \<lparr>ig_enabled = snooping_enabled g, ig_querier = querier_enabled g, ig_fast_leave = fast_leave_enabled g,
     ig_query_interval = query_interval g, ig_last_member = last_member_query_interval g,
     ig_max_response = max_response_time g,
     ig_version = (if igmp_exist g then GNMA_IGMP (igmp_version g) else GNMA_IGMP_NA)\<rparr>"

definition plat_vlan_igmp_set :: "gnma \<Rightarrow> nat \<Rightarrow> plat_igmp \<Rightarrow> op" where
  "plat_vlan_igmp_set G vid g =
     as_err (seq [
       alloc_or G (- 1),
       loop_ret (\<lambda>_. alloc_or G (- 1)) (groups g),
       issue G (\<lambda>_. IgmpSnooping vid (igmp_attr g)),
       issue G (\<lambda>_. IgmpGroups vid (map (\<lambda>x. (group_addr x, map (take 32) (egress_ports_list x))) (groups g)))])"

definition config_vlan_ipv4_apply :: "gnma \<Rightarrow> plat_cfg \<Rightarrow> op" where
  "config_vlan_ipv4_apply G cfg =
     for_bits (vlans_to_cfg cfg) MAX_VLANS (\<lambda>i.
       if i = FIRST_VLAN then seq []
       else let v = vlans cfg i in
         seq [plat_vlan_rif_set G (vlan_id v) (vlan_ipv4 v), plat_vlan_igmp_set G (vlan_id v) (vlan_igmp v)])"

section \<open>Addresses of ports\<close>

text \<open>The prefix to delete has the cached address and the length of the new setting.\<close>

definition plat_portl2_rif_set :: "gnma \<Rightarrow> nat \<Rightarrow> plat_ipv4 \<Rightarrow> op" where
  "plat_portl2_rif_set G i ip =
     as_err (seq [
       guard (\<lambda>s. ipv4_exist (portsl2_rif s i) \<and> \<not> ipv4_exist ip)
         (issue G (\<lambda>s. Portl2Delete (PID_TO_NAME i) (GnmaV4 (subnet (portsl2_rif s i)) (subnet_len ip)))),
       guard (\<lambda>s. ipv4_exist ip \<and> (subnet_len (portsl2_rif s i) \<noteq> subnet_len ip \<or> subnet (portsl2_rif s i) \<noteq> subnet ip))
         (issue G (\<lambda>_. Portl2Update (PID_TO_NAME i) (GnmaV4 (subnet ip) (subnet_len ip)))),
       upd (\<lambda>s. s\<lparr>portsl2_rif := (portsl2_rif s)(i := ip)\<rparr>)])"

definition config_portl2_ipv4_apply :: "gnma \<Rightarrow> plat_cfg \<Rightarrow> op" where
  "config_portl2_ipv4_apply G cfg =
     for_bits (ports_to_cfg cfg) MAX_NUM_OF_PORTS (\<lambda>i. plat_portl2_rif_set G i (portsl2 cfg i))"

section \<open>DHCP relay\<close>

definition circuit_of :: "string \<Rightarrow> relay_circuit" where
  "circuit_of str = (if str = ''%u'' then CIRCUIT_ID_I else if str = ''%p'' then CIRCUIT_ID_P else CIRCUIT_ID_H_P)"

definition relay_clear :: "gnma \<Rightarrow> plat_cfg \<Rightarrow> nat \<Rightarrow> op" where
  "relay_clear G cfg i =
     (let new = vlan_relay (vlans cfg i) in
      guard (\<lambda>s. relay_on (relays s i) \<and> i \<noteq> FIRST_VLAN \<and>
                (\<not> relay_enabled new \<or> helper_address (relays s i) \<noteq> server_address new))
        (seq [as_err (issue G (\<lambda>s. RelayRemove i (helper_address (relays s i)))),
              upd (relay_upd i (\<lambda>r. r\<lparr>relay_on := False, helper_address := 0\<rparr>))]))"

definition relay_set :: "gnma \<Rightarrow> plat_cfg \<Rightarrow> nat \<Rightarrow> op" where
  "relay_set G cfg i =
     (let new = vlan_relay (vlans cfg i); circ = circuit_of (circ_id new) in
      guard (\<lambda>_. relay_enabled new \<and> i \<noteq> FIRST_VLAN)
        (seq [issue G (\<lambda>_. RelayAdd i (server_address new)),
              upd (relay_upd i (\<lambda>r. r\<lparr>helper_address := server_address new\<rparr>)),
              sync G (\<lambda>s. max_hop_cnt (relays s i) \<noteq> 10) (\<lambda>_. RelayMaxHop i 10)
                (relay_upd i (\<lambda>r. r\<lparr>max_hop_cnt := 10\<rparr>)),
              sync G (\<lambda>s. policy_act (relays s i) \<noteq> RELAY_REPLACE) (\<lambda>_. RelayPolicy i RELAY_REPLACE)
                (relay_upd i (\<lambda>r. r\<lparr>policy_act := RELAY_REPLACE\<rparr>)),
              sync G (\<lambda>s. relay_circ (relays s i) \<noteq> circ) (\<lambda>_. RelayCircuit i circ)
                (relay_upd i (\<lambda>r. r\<lparr>relay_circ := circ\<rparr>)),
              upd (relay_upd i (\<lambda>r. r\<lparr>relay_on := True\<rparr>))]))"

definition config_vlan_dhcp_relay_apply :: "gnma \<Rightarrow> plat_cfg \<Rightarrow> op" where
  "config_vlan_dhcp_relay_apply G cfg =
     seq [for_bits (vlans_to_cfg cfg) MAX_VLANS (relay_clear G cfg),
          for_bits (vlans_to_cfg cfg) MAX_VLANS (relay_set G cfg)]"

section \<open>VLANs and their members\<close>

definition plat_vlan_list_set :: "gnma \<Rightarrow> bitmap \<Rightarrow> op" where
  "plat_vlan_list_set G to_cfg = reading (\<lambda>s.
     let (ret, present) = gnma_vlan_list_get G (hist s) in
     if ret \<noteq> 0 then fail ret
     else for_bits present GNMA_MAX_VLANS (\<lambda>vid s.
       do {
         configured \<leftarrow> BITMAP_TEST_BIT to_cfg vid;
         guard (\<lambda>_. \<not> configured \<and> vid \<noteq> FIRST_VLAN)
           (seq [plat_vlan_rif_set G vid ipv4_zero, issue G (\<lambda>_. VlanRemove vid)]) s
       }))"

text \<open>The configured members as two bitmaps, by the number in the port's name.\<close>

fun member_bits :: "vlan_member list \<Rightarrow> bitmap \<Rightarrow> bitmap \<Rightarrow> (int \<times> bitmap \<times> bitmap) option" where
  "member_bits [] m t = Some (0, m, t)"
| "member_bits (pv # pvs) m t =
     (case NAME_TO_PID (member_name pv) of
        ScanVal pid \<Rightarrow> do {
          m \<leftarrow> BITMAP_SET_BIT m pid;
          t \<leftarrow> (if tagged pv then BITMAP_SET_BIT t pid else Some t);
          member_bits pvs m t
        }
      | ScanRange \<Rightarrow> None
      | _ \<Rightarrow> Some (- 1, m, t))"

text \<open>Adding to the change: a request that cannot be added is not in it.\<close>

definition add_op :: "gnma \<Rightarrow> hist \<Rightarrow> change_op \<Rightarrow> change_op list \<Rightarrow> int \<times> change_op list" where
  "add_op G h c ops = (let r = gnma_change_add G h ops c in (r, if r = 0 then ops @ [c] else ops))"

definition remove_body :: "gnma \<Rightarrow> hist \<Rightarrow> nat \<Rightarrow> bitmap \<Rightarrow> nat \<Rightarrow> change_op list \<Rightarrow> (int \<times> change_op list) option" where
  "remove_body G h vid m i ops =
     do {
       wanted \<leftarrow> BITMAP_TEST_BIT m i;
       Some (0, if wanted then ops else snd (add_op G h (MemberRemove vid (PID_TO_NAME i)) ops))
     }"

definition create_body ::
  "gnma \<Rightarrow> hist \<Rightarrow> nat \<Rightarrow> bitmap \<Rightarrow> bitmap \<times> bitmap \<Rightarrow> nat \<Rightarrow> change_op list \<Rightarrow> (int \<times> change_op list) option" where
  "create_body G h vid t have i ops =
     do {
       tag \<leftarrow> BITMAP_TEST_BIT t i;
       is_member \<leftarrow> BITMAP_TEST_BIT (fst have) i;
       is_tagged \<leftarrow> BITMAP_TEST_BIT (snd have) i;
       if is_member \<and> tag = is_tagged then Some (0, ops)
       else let (r, ops) = add_op G h (MemberCreate vid (PID_TO_NAME i) tag) ops in
            Some (if r \<noteq> 0 then - 1 else 0, ops)
     }"

definition plat_vlan_memberlist_set ::
  "gnma \<Rightarrow> hist \<Rightarrow> (nat \<Rightarrow> bitmap \<times> bitmap) \<Rightarrow> plat_port_vlan \<Rightarrow> change_op list \<Rightarrow> (int \<times> change_op list) option" where
  "plat_vlan_memberlist_set G h mbr vlan ops =
     (let (r, ops) = add_op G h (VlanCreate (vlan_id vlan)) ops in
      if r \<noteq> 0 then Some (- 1, ops)
      else do {
        (r, m, t) \<leftarrow> member_bits (members vlan) (bitmap_zero MAX_NUM_OF_PORTS) (bitmap_zero MAX_NUM_OF_PORTS);
        if r \<noteq> 0 then Some (- 1, ops)
        else if \<not> vlan_id vlan < GNMA_MAX_VLANS then None
        else do {
          present \<leftarrow> BITMAP_FOR_EACH_BIT_SET (fst (mbr (vlan_id vlan))) MAX_NUM_OF_PORTS;
          (_, ops) \<leftarrow> loop_ret (remove_body G h (vlan_id vlan) m) present ops;
          wanted \<leftarrow> BITMAP_FOR_EACH_BIT_SET m MAX_NUM_OF_PORTS;
          loop_ret (create_body G h (vlan_id vlan) t (mbr (vlan_id vlan))) wanted ops
        }
      })"

definition vlan_changes ::
  "gnma \<Rightarrow> plat_cfg \<Rightarrow> hist \<Rightarrow> (nat \<Rightarrow> bitmap \<times> bitmap) \<Rightarrow> (int \<times> change_op list) option" where
  "vlan_changes G cfg h mbr =
     do {
       vids \<leftarrow> BITMAP_FOR_EACH_BIT_SET (vlans_to_cfg cfg) GNMA_MAX_VLANS;
       loop_ret (\<lambda>i. plat_vlan_memberlist_set G h mbr (vlans cfg i)) vids []
     }"

definition vlan_members_apply :: "gnma \<Rightarrow> plat_cfg \<Rightarrow> op" where
  "vlan_members_apply G cfg s =
     (let (ret, mbr) = gnma_vlan_member_bmap_get G (hist s) in
      if ret \<noteq> 0 then Some (ret, s)
      else if \<not> gnma_change_create G (hist s) then Some (- 1, s)
      else do {
        (ret, ops) \<leftarrow> vlan_changes G cfg (hist s) mbr;
        if ret \<noteq> 0 then Some (ret, s) else issue G (\<lambda>_. ChangeExec ops) s
      })"

definition config_vlan_apply :: "gnma \<Rightarrow> plat_cfg \<Rightarrow> op" where
  "config_vlan_apply G cfg =
     as_err (seq [plat_vlan_list_set G (vlans_to_cfg cfg), alloc_or G (- 1), vlan_members_apply G cfg])"

section \<open>The members are reconciled\<close>

text \<open>The membership of the switch: for a VLAN and a port, not a member, or a member that is tagged or
  not. What a change does to it, what the switch reported, and what is configured.\<close>

type_synonym membership = "nat \<Rightarrow> nat \<Rightarrow> bool option"

fun change_effect :: "change_op \<Rightarrow> membership \<Rightarrow> membership" where
  "change_effect (VlanCreate v) d = d"
| "change_effect (MemberRemove v n) d =
     (case NAME_TO_PID n of ScanVal p \<Rightarrow> d(v := (d v)(p := None)) | _ \<Rightarrow> d)"
| "change_effect (MemberCreate v n t) d =
     (case NAME_TO_PID n of ScanVal p \<Rightarrow> d(v := (d v)(p := Some t)) | _ \<Rightarrow> d)"

definition reported :: "(nat \<Rightarrow> bitmap \<times> bitmap) \<Rightarrow> membership" where
  "reported mbr v p = (if bm_test (fst (mbr v)) p then Some (bm_test (snd (mbr v)) p) else None)"

definition configured :: "vlan_member list \<Rightarrow> nat \<Rightarrow> bool option" where
  "configured ms p =
     (if p \<in> member_fp_id ` set ms then Some (p \<in> member_fp_id ` set (filter tagged ms)) else None)"

fun op_place :: "change_op \<Rightarrow> (nat \<times> nat) option" where
  "op_place (VlanCreate v) = None"
| "op_place (MemberRemove v n) = map_option (Pair v) (scanned (NAME_TO_PID n))"
| "op_place (MemberCreate v n t) = map_option (Pair v) (scanned (NAME_TO_PID n))"

definition members_named :: "vlan_member list \<Rightarrow> bool" where
  "members_named ms \<longleftrightarrow>
     (\<forall>m \<in> set ms. member_fp_id m < MAX_NUM_OF_PORTS \<and> member_name m = PID_TO_NAME (member_fp_id m))"

lemma name_pid [simp]: "p < 65536 \<Longrightarrow> NAME_TO_PID (PID_TO_NAME p) = ScanVal p"
  unfolding NAME_TO_PID_def PID_TO_NAME_def scan_lit_append by (simp add: scan_dec)

lemma member_bits_exact:
  assumes "members_named ms" "length m = 4" "length t = 4"
  shows "\<exists>m' t'. member_bits ms m t = Some (0, m', t') \<and> length m' = 4 \<and> length t' = 4 \<and>
    bm_set m' = bm_set m \<union> member_fp_id ` set ms \<and> bm_set t' = bm_set t \<union> member_fp_id ` set (filter tagged ms)"
  using assms
proof (induction ms arbitrary: m t)
  case (Cons pv ms)
  let ?p = "member_fp_id pv"
  have p: "?p < 100" and n: "NAME_TO_PID (member_name pv) = ScanVal ?p"
    using Cons.prems(1) by (auto simp: members_named_def MAX_NUM_OF_PORTS_def)
  obtain m1 where m1: "BITMAP_SET_BIT m ?p = Some m1" using bm.put_defined[of m ?p] Cons.prems(2) p by auto
  obtain t1 where t1: "BITMAP_SET_BIT t ?p = Some t1" using bm.put_defined[of t ?p] Cons.prems(3) p by auto
  let ?t = "if tagged pv then t1 else t"
  have l: "length m1 = 4" "length ?t = 4" "members_named ms"
    using Cons.prems length_set_bit[OF m1] length_set_bit[OF t1] by (auto simp: members_named_def)
  obtain m' t' where "member_bits ms m1 ?t = Some (0, m', t')" "length m' = 4" "length t' = 4"
    "bm_set m' = bm_set m1 \<union> member_fp_id ` set ms" "bm_set t' = bm_set ?t \<union> member_fp_id ` set (filter tagged ms)"
    using Cons.IH[OF l(3,1,2)] by blast
  then show ?case
    using n m1 t1 bm.put_bits[OF m1] bm.put_bits[OF t1] by auto
qed simp

definition removals :: "nat \<Rightarrow> bitmap \<Rightarrow> nat list \<Rightarrow> change_op list" where
  "removals vid m is = map (\<lambda>i. MemberRemove vid (PID_TO_NAME i)) (filter (\<lambda>i. \<not> bm_test m i) is)"

definition creations :: "nat \<Rightarrow> bitmap \<Rightarrow> bitmap \<times> bitmap \<Rightarrow> nat list \<Rightarrow> change_op list" where
  "creations vid t have is =
     map (\<lambda>i. MemberCreate vid (PID_TO_NAME i) (bm_test t i))
       (filter (\<lambda>i. \<not> (bm_test (fst have) i \<and> bm_test t i = bm_test (snd have) i)) is)"

lemma remove_loop:
  assumes "\<forall>i \<in> set is. i < 32 * length m" "\<And>ops v n. gnma_change_add G h ops (MemberRemove v n) = 0"
  shows "loop_ret (remove_body G h vid m) is ops = Some (0, ops @ removals vid m is)"
  using assms(1)
proof (induction "is" arbitrary: ops)
  case (Cons i "is")
  then show ?case by (simp add: remove_body_def test_bit_eq add_op_def assms(2) removals_def)
qed (simp add: removals_def)

lemma create_loop:
  assumes "loop_ret (create_body G h vid t have) is ops = Some (0, ops')"
  shows "ops' = ops @ creations vid t have is"
  using assms
proof (induction "is" arbitrary: ops)
  case (Cons i "is")
  obtain ops1 where run: "create_body G h vid t have i ops = Some (0, ops1)"
    "loop_ret (create_body G h vid t have) is ops1 = Some (0, ops')"
    using Cons.prems by (auto elim!: bindE split: if_splits)
  have "ops1 = ops @ creations vid t have [i]"
    using run(1) by (auto simp: create_body_def test_bit_eq add_op_def creations_def Let_def elim!: bindE split: if_splits)
  then show ?case using Cons.IH[OF run(2)] by (simp add: creations_def)
qed (simp add: creations_def)

lemma removals_effect:
  "\<forall>i \<in> set is. i < 65536 \<Longrightarrow> fold change_effect (removals vid m is) d v p =
     (if v = vid \<and> p \<in> set is \<and> \<not> bm_test m p then None else d v p)"
  by (induction "is" arbitrary: d) (auto simp: removals_def)

lemma creations_effect:
  "\<forall>i \<in> set is. i < 65536 \<Longrightarrow> fold change_effect (creations vid t have is) d v p =
     (if v = vid \<and> p \<in> set is \<and> \<not> (bm_test (fst have) p \<and> bm_test t p = bm_test (snd have) p)
      then Some (bm_test t p) else d v p)"
  by (induction "is" arbitrary: d) (auto simp: creations_def)

lemma removals_place:
  "c \<in> set (removals vid m is) \<Longrightarrow> \<forall>i \<in> set is. i < 65536 \<Longrightarrow>
     \<exists>p \<in> set is. op_place c = Some (vid, p) \<and> \<not> bm_test m p"
  by (auto simp: removals_def scanned_def)

lemma creations_place:
  "c \<in> set (creations vid t have is) \<Longrightarrow> \<forall>i \<in> set is. i < 65536 \<Longrightarrow>
     \<exists>p \<in> set is. op_place c = Some (vid, p) \<and> \<not> (bm_test (fst have) p \<and> bm_test t p = bm_test (snd have) p)"
  by (auto simp: creations_def scanned_def)

text \<open>The requests that one VLAN adds to the change.\<close>

lemma memberlist_ops:
  assumes run: "plat_vlan_memberlist_set G h mbr vlan ops = Some (0, ops')"
    and named: "members_named (members vlan)"
    and len: "length (fst (mbr (vlan_id vlan))) = 8"
    and rm: "\<And>ops v n. gnma_change_add G h ops (MemberRemove v n) = 0"
  shows "\<exists>m t. bm_set m = member_fp_id ` set (members vlan) \<and> bm_set t = member_fp_id ` set (filter tagged (members vlan)) \<and>
    ops' = ops @ VlanCreate (vlan_id vlan) #
      removals (vlan_id vlan) m (filter (bm_test (fst (mbr (vlan_id vlan)))) [0..<100]) @
      creations (vlan_id vlan) t (mbr (vlan_id vlan)) (filter (bm_test m) [0..<100])"
proof -
  let ?z = "bitmap_zero MAX_NUM_OF_PORTS" and ?v = "vlan_id vlan"
  have z: "length ?z = 4" by (simp add: BITS_TO_UINT32_def MAX_NUM_OF_PORTS_def)
  obtain m t where mt: "member_bits (members vlan) ?z ?z = Some (0, m, t)" "length m = 4"
    "bm_set m = member_fp_id ` set (members vlan)" "bm_set t = member_fp_id ` set (filter tagged (members vlan))"
    using member_bits_exact[OF named z z] by auto
  have present: "BITMAP_FOR_EACH_BIT_SET (fst (mbr ?v)) MAX_NUM_OF_PORTS = Some (filter (bm_test (fst (mbr ?v))) [0..<100])"
    and wanted: "BITMAP_FOR_EACH_BIT_SET m MAX_NUM_OF_PORTS = Some (filter (bm_test m) [0..<100])"
    using for_each_bits_list[of MAX_NUM_OF_PORTS] len mt(2) by (simp_all add: MAX_NUM_OF_PORTS_def)
  have r: "gnma_change_add G h ops (VlanCreate ?v) = 0"
    using run by (auto simp: plat_vlan_memberlist_set_def add_op_def Let_def split: if_splits)
  let ?ops1 = "ops @ [VlanCreate ?v]"
  have "loop_ret (remove_body G h ?v m) (filter (bm_test (fst (mbr ?v))) [0..<100]) ?ops1 =
      Some (0, ?ops1 @ removals ?v m (filter (bm_test (fst (mbr ?v))) [0..<100]))"
    by (rule remove_loop) (use mt(2) rm in auto)
  then have "loop_ret (create_body G h ?v t (mbr ?v)) (filter (bm_test m) [0..<100])
      (?ops1 @ removals ?v m (filter (bm_test (fst (mbr ?v))) [0..<100])) = Some (0, ops')"
    using run unfolding plat_vlan_memberlist_set_def add_op_def Let_def r mt(1) present wanted
    by (auto simp: wanted split: if_splits)
  from create_loop[OF this] show ?thesis using mt(3,4) by auto
qed

text \<open>They turn the reported members of that VLAN into the configured ones, and each of them is about a
  port on which the two differ.\<close>

lemma memberlist_reconciles:
  assumes "plat_vlan_memberlist_set G h mbr vlan ops = Some (0, ops')"
    and "members_named (members vlan)" "length (fst (mbr (vlan_id vlan))) = 8"
    and "\<And>ops v n. gnma_change_add G h ops (MemberRemove v n) = 0"
  obtains new where "ops' = ops @ new"
    "\<And>d v p. p < 100 \<Longrightarrow> d (vlan_id vlan) p = reported mbr (vlan_id vlan) p \<Longrightarrow>
       fold change_effect new d v p = (if v = vlan_id vlan then configured (members vlan) p else d v p)"
    "\<And>d v p. v \<noteq> vlan_id vlan \<Longrightarrow> fold change_effect new d v p = d v p"
    "\<And>c v p. c \<in> set new \<Longrightarrow> op_place c = Some (v, p) \<Longrightarrow>
       v = vlan_id vlan \<and> p < 100 \<and> reported mbr v p \<noteq> configured (members vlan) p"
proof -
  let ?v = "vlan_id vlan" and ?ms = "members vlan"
  obtain m t where mt: "bm_set m = member_fp_id ` set ?ms" "bm_set t = member_fp_id ` set (filter tagged ?ms)"
    and ops: "ops' = ops @ VlanCreate ?v # removals ?v m (filter (bm_test (fst (mbr ?v))) [0..<100]) @
      creations ?v t (mbr ?v) (filter (bm_test m) [0..<100])"
    using memberlist_ops[OF assms] by blast
  let ?rs = "removals ?v m (filter (bm_test (fst (mbr ?v))) [0..<100])"
  let ?cs = "creations ?v t (mbr ?v) (filter (bm_test m) [0..<100])"
  have conf: "configured ?ms p = (if bm_test m p then Some (bm_test t p) else None)" for p
    unfolding configured_def mt[symmetric] by (simp add: bm_set_def)
  have eff: "fold change_effect (VlanCreate ?v # ?rs @ ?cs) d v p =
      (if v = ?v \<and> p < 100 \<and> bm_test m p \<and> \<not> (bm_test (fst (mbr ?v)) p \<and> bm_test t p = bm_test (snd (mbr ?v)) p)
       then Some (bm_test t p)
       else if v = ?v \<and> p < 100 \<and> bm_test (fst (mbr ?v)) p \<and> \<not> bm_test m p then None else d v p)" for d v p
    by (auto simp: removals_effect creations_effect)
  have place: "v = ?v \<and> p < 100 \<and> reported mbr v p \<noteq> configured ?ms p"
    if "c \<in> set (VlanCreate ?v # ?rs @ ?cs)" "op_place c = Some (v, p)" for c v p
    using that removals_place[of c ?v m "filter (bm_test (fst (mbr ?v))) [0..<100]"]
      creations_place[of c ?v t "mbr ?v" "filter (bm_test m) [0..<100]"]
    by (auto simp: conf reported_def)
  show ?thesis
  proof (rule that[of "VlanCreate ?v # ?rs @ ?cs"])
    show "fold change_effect (VlanCreate ?v # ?rs @ ?cs) d v p = (if v = ?v then configured ?ms p else d v p)"
      if "p < 100" "d ?v p = reported mbr ?v p" for d v p
      using that unfolding eff conf by (simp add: reported_def)
    show "fold change_effect (VlanCreate ?v # ?rs @ ?cs) d v p = d v p" if "v \<noteq> ?v" for d v p
      using that unfolding eff by simp
    show "v = ?v \<and> p < 100 \<and> reported mbr v p \<noteq> configured ?ms p"
      if "c \<in> set (VlanCreate ?v # ?rs @ ?cs)" "op_place c = Some (v, p)" for c v p
      using that by (rule place)
  qed (rule ops)
qed

text \<open>The whole change: VLAN by VLAN, each once.\<close>

lemma changes_reconcile:
  assumes run: "loop_ret (\<lambda>i. plat_vlan_memberlist_set G h mbr (vlans cfg i)) vids ops = Some (0, ops')"
    and vids: "distinct vids" "\<And>v. v \<in> set vids \<Longrightarrow> vlan_id (vlans cfg v) = v \<and> members_named (members (vlans cfg v))"
    and len: "\<And>v. length (fst (mbr v)) = 8"
    and rm: "\<And>ops v n. gnma_change_add G h ops (MemberRemove v n) = 0"
  shows "\<exists>new. ops' = ops @ new \<and>
    (\<forall>d v p. p < 100 \<longrightarrow> (\<forall>v \<in> set vids. d v p = reported mbr v p) \<longrightarrow>
       fold change_effect new d v p = (if v \<in> set vids then configured (members (vlans cfg v)) p else d v p)) \<and>
    (\<forall>c \<in> set new. \<forall>v p. op_place c = Some (v, p) \<longrightarrow>
       v \<in> set vids \<and> p < 100 \<and> reported mbr v p \<noteq> configured (members (vlans cfg v)) p)"
  using run vids
proof (induction vids arbitrary: ops)
  case (Cons i vids)
  obtain ops1 where one: "plat_vlan_memberlist_set G h mbr (vlans cfg i) ops = Some (0, ops1)"
    and rest: "loop_ret (\<lambda>i. plat_vlan_memberlist_set G h mbr (vlans cfg i)) vids ops1 = Some (0, ops')"
    using Cons.prems(1) by (auto elim!: bindE split: if_splits)
  have i: "vlan_id (vlans cfg i) = i" "members_named (members (vlans cfg i))" "i \<notin> set vids"
    using Cons.prems(2,3) by auto
  obtain n1 where n1: "ops1 = ops @ n1"
    "\<And>d v p. p < 100 \<Longrightarrow> d i p = reported mbr i p \<Longrightarrow>
       fold change_effect n1 d v p = (if v = i then configured (members (vlans cfg i)) p else d v p)"
    "\<And>d v p. v \<noteq> i \<Longrightarrow> fold change_effect n1 d v p = d v p"
    "\<And>c v p. c \<in> set n1 \<Longrightarrow> op_place c = Some (v, p) \<Longrightarrow>
       v = i \<and> p < 100 \<and> reported mbr v p \<noteq> configured (members (vlans cfg i)) p"
    using memberlist_reconciles[OF one i(2), unfolded i(1), OF len rm] by metis
  obtain n2 where n2: "ops' = ops1 @ n2"
    "\<forall>d v p. p < 100 \<longrightarrow> (\<forall>v \<in> set vids. d v p = reported mbr v p) \<longrightarrow>
       fold change_effect n2 d v p = (if v \<in> set vids then configured (members (vlans cfg v)) p else d v p)"
    "\<forall>c \<in> set n2. \<forall>v p. op_place c = Some (v, p) \<longrightarrow>
       v \<in> set vids \<and> p < 100 \<and> reported mbr v p \<noteq> configured (members (vlans cfg v)) p"
    using Cons.IH[OF rest] Cons.prems(2,3) by auto
  show ?case
  proof (intro exI[of _ "n1 @ n2"] conjI allI impI ballI)
    fix d v p assume p: "p < 100" and d: "\<forall>v \<in> set (i # vids). d v p = reported mbr v p"
    have "\<forall>v \<in> set vids. fold change_effect n1 d v p = reported mbr v p" using n1(3) i(3) d by (metis list.set_intros(2))
    then show "fold change_effect (n1 @ n2) d v p =
        (if v \<in> set (i # vids) then configured (members (vlans cfg v)) p else d v p)"
      using n2(2) n1(2)[of p d v] p d i(3) by (cases "v = i") simp_all
  qed (use n1(1,4) n2(1,3) in auto)
qed simp

lemma vlans_bits:
  assumes "length (vlans_to_cfg cfg) = BITS_TO_UINT32 MAX_VLANS"
  shows "BITMAP_FOR_EACH_BIT_SET (vlans_to_cfg cfg) GNMA_MAX_VLANS = Some (filter (bm_test (vlans_to_cfg cfg)) [0..<4096])"
    and "bm_test (vlans_to_cfg cfg) v \<Longrightarrow> v < 4096"
  using for_each_bits_list[of GNMA_MAX_VLANS "vlans_to_cfg cfg"] assms
  by (auto simp: GNMA_MAX_VLANS_def BITS_TO_UINT32_def MAX_VLANS_def bm_test_iff)

lemma members_reconciled:
  assumes run: "vlan_members_apply G cfg s = Some (0, s')"
    and cfg: "length (vlans_to_cfg cfg) = BITS_TO_UINT32 MAX_VLANS"
      "\<And>v. v \<in> bm_set (vlans_to_cfg cfg) \<Longrightarrow> vlan_id (vlans cfg v) = v \<and> members_named (members (vlans cfg v))"
    and mbr: "gnma_vlan_member_bmap_get G (hist s) = (0, mbr)" "\<And>v. length (fst (mbr v)) = 8"
    and rm: "\<And>ops v n. gnma_change_add G (hist s) ops (MemberRemove v n) = 0"
  shows "\<exists>ops. s' = s\<lparr>hist := hist s @ [(ChangeExec ops, 0)]\<rparr> \<and>
    (\<forall>v p. p < 100 \<longrightarrow> fold change_effect ops (reported mbr) v p =
       (if v \<in> bm_set (vlans_to_cfg cfg) then configured (members (vlans cfg v)) p else reported mbr v p)) \<and>
    (\<forall>c \<in> set ops. \<forall>v p. op_place c = Some (v, p) \<longrightarrow> v \<in> bm_set (vlans_to_cfg cfg) \<and>
       reported mbr v p \<noteq> configured (members (vlans cfg v)) p)"
proof -
  let ?vids = "filter (bm_test (vlans_to_cfg cfg)) [0..<4096]"
  have set: "v \<in> set ?vids \<longleftrightarrow> v \<in> bm_set (vlans_to_cfg cfg)" for v
    using vlans_bits(2)[OF cfg(1)] by (auto simp: bm_set_def)
  have "gnma_change_create G (hist s)" using run mbr(1) by (auto simp: vlan_members_apply_def split: if_splits)
  then obtain ops where
      loop: "loop_ret (\<lambda>i. plat_vlan_memberlist_set G (hist s) mbr (vlans cfg i)) ?vids [] = Some (0, ops)"
    and s': "s' = s\<lparr>hist := hist s @ [(ChangeExec ops, 0)]\<rparr>"
    using run unfolding vlan_members_apply_def mbr(1) vlan_changes_def vlans_bits(1)[OF cfg(1)]
    by (auto simp: issue_def Let_def elim!: bindE split: if_splits)
  have "distinct ?vids" by simp
  moreover have "vlan_id (vlans cfg v) = v \<and> members_named (members (vlans cfg v))" if "v \<in> set ?vids" for v
    using cfg(2) that unfolding set .
  ultimately have
    "(\<forall>d v p. p < 100 \<longrightarrow> (\<forall>v \<in> set ?vids. d v p = reported mbr v p) \<longrightarrow>
       fold change_effect ops d v p = (if v \<in> set ?vids then configured (members (vlans cfg v)) p else d v p)) \<and>
    (\<forall>c \<in> set ops. \<forall>v p. op_place c = Some (v, p) \<longrightarrow>
       v \<in> set ?vids \<and> p < 100 \<and> reported mbr v p \<noteq> configured (members (vlans cfg v)) p)"
    using changes_reconcile[OF loop, OF _ _ mbr(2) rm] by fastforce
  then show ?thesis using s' unfolding set by blast
qed

end
