(* ===== verification/Plat_Apply.thy ===== *)
theory Plat_Apply
  imports Plat_Ports Plat_Vlans Cfg_Wf
begin

text \<open>
  \<open>plat_config_apply\<close> of the SONiC platform: spanning tree, RADIUS and DAC hosts, the system
  password, and the order of all parts. The properties are about the whole: what the cache
  says of the switch after any run, failed ones included, and that the one setting that cannot
  be taken back is made last.
\<close>

section \<open>Spanning tree\<close>

definition GNMA_ERR_OVERFLOW :: int where "GNMA_ERR_OVERFLOW = - 2"

text \<open>The list of port names with room for \<open>n\<close>: the code, the number of ports, the names stored.\<close>

definition port_list_get :: "gnma \<Rightarrow> nat \<Rightarrow> hist \<Rightarrow> int \<times> nat \<times> string list" where
  "port_list_get G n h =
     (let (ret, names) = Plat_Gnma.gnma_port_list_get G h in
      if ret \<noteq> 0 then (ret, n, [])
      else (if length names > n then GNMA_ERR_OVERFLOW else 0, length names, take n names))"

definition plat_port_num_get_gnma :: "gnma \<Rightarrow> hist \<Rightarrow> int \<times> nat" where
  "plat_port_num_get_gnma G h =
     (let (ret, n, _) = port_list_get G 1 h in if ret \<noteq> 0 \<and> ret \<noteq> GNMA_ERR_OVERFLOW then (ret, 0) else (0, n))"

definition config_stp_apply_ports_enable_all :: "gnma \<Rightarrow> op" where
  "config_stp_apply_ports_enable_all G = as_err (reading (\<lambda>s.
     let (ret, n) = plat_port_num_get_gnma G (hist s) in
     if ret \<noteq> 0 then fail (- 1)
     else seq [alloc_or G (- 1),
               reading (\<lambda>s. let (ret, _, names) = port_list_get G n (hist s) in
                  if ret \<noteq> 0 \<and> ret \<noteq> GNMA_ERR_OVERFLOW then fail (- 1)
                  else issue G (\<lambda>_. StpPortsEnable names))]))"

definition stp_attr_of :: "plat_stp_instance_cfg \<Rightarrow> gnma_stp_attr" where
  "stp_attr_of i = \<lparr>sa_forward_delay = forward_delay i, sa_hello_time = hello_time i, sa_max_age = max_age i,
     sa_priority = stp_priority i, sa_enabled = stp_enabled i\<rparr>"

definition stp_vlan_set :: "gnma \<Rightarrow> plat_cfg \<Rightarrow> nat \<Rightarrow> op" where
  "stp_vlan_set G cfg i =
     (let attr = stp_attr_of (stp_instances cfg i) in
      sync G (\<lambda>s. (sa_enabled (stp_vlan_attr s i) \<or> sa_enabled attr) \<and> attr \<noteq> stp_vlan_attr s i)
        (\<lambda>_. StpVid i attr) (\<lambda>s. s\<lparr>stp_vlan_attr := (stp_vlan_attr s)(i := attr)\<rparr>))"

definition config_stp_apply :: "gnma \<Rightarrow> plat_cfg \<Rightarrow> op" where
  "config_stp_apply G cfg =
     (case stp_mode cfg of
        STP_NONE \<Rightarrow>
          guard (\<lambda>s. stp_cache s \<noteq> GNMA_STP_MODE_NONE)
            (seq [issue G (\<lambda>_. StpMode GNMA_STP_MODE_NONE None),
                  upd (\<lambda>s. s\<lparr>stp_cache := GNMA_STP_MODE_NONE, stp_vlan_attr := (\<lambda>_. stp_attr_zero)\<rparr>)])
      | STP_RPVST \<Rightarrow>
          seq [guard (\<lambda>s. stp_cache s \<noteq> GNMA_STP_MODE_RPVST \<or> stp_mode_attr s \<noteq> stp_attr_zero)
                 (seq [issue G (\<lambda>_. StpMode GNMA_STP_MODE_RPVST (Some stp_attr_zero)),
                       config_stp_apply_ports_enable_all G,
                       upd (\<lambda>s. s\<lparr>stp_cache := GNMA_STP_MODE_RPVST, stp_mode_attr := stp_attr_zero\<rparr>)]),
               loop_ret (stp_vlan_set G cfg) [FIRST_VLAN..<MAX_VLANS]]
      | _ \<Rightarrow> fail (- 1))"

section \<open>RADIUS and DAC hosts\<close>

definition ENOMEM :: int where "ENOMEM = 12"

definition plat_state_radius_init :: "gnma \<Rightarrow> op" where
  "plat_state_radius_init G =
     seq [upd (\<lambda>s. s\<lparr>radius_keys := []\<rparr>),
          reading (\<lambda>s. let (ret, names) = gnma_radius_hosts_list_get G (hist s) in
            if ret \<noteq> 0 then fail ret
            else if names = [] then seq []
            else seq [alloc_or G (- ENOMEM), upd (\<lambda>s. s\<lparr>radius_keys := names\<rparr>)])]"

text \<open>When its array cannot be allocated, this function clears the RADIUS cache and leaves its own size.\<close>

definition plat_state_ieee8021x_dac_list_init :: "gnma \<Rightarrow> op" where
  "plat_state_ieee8021x_dac_list_init G =
     seq [upd (\<lambda>s. s\<lparr>dac_keys := Some []\<rparr>),
          reading (\<lambda>s. let (ret, names) = gnma_dac_hosts_list_get G (hist s) in
            if ret \<noteq> 0 then fail ret
            else if names = [] then seq []
            else seq [branch (\<lambda>s. gnma_mem G (mem_calls s)) (upd (\<lambda>s. s\<lparr>dac_keys := Some names\<rparr>))
                        (upd (\<lambda>s. s\<lparr>dac_keys := None, radius_keys := []\<rparr>)),
                      alloc_or G (- ENOMEM)])]"

text \<open>A cached host goes when the configuration does not have it, or has it without a key.\<close>

definition host_stale :: "(string \<times> string) list \<Rightarrow> string \<Rightarrow> bool" where
  "host_stale hosts k \<longleftrightarrow> k \<notin> fst ` set hosts \<or> (k, []) \<in> set hosts"

definition hosts_terminated :: "(string \<times> string) list \<Rightarrow> bool" where
  "hosts_terminated hosts \<longleftrightarrow> (\<forall>(n, p) \<in> set hosts. length n < 64 \<and> length p < 64)"

definition plat_radius_hosts_list_set :: "gnma \<Rightarrow> plat_radius_host list \<Rightarrow> op" where
  "plat_radius_hosts_list_set G hosts =
     (let names = map (\<lambda>h. (hostname h, passkey h)) hosts in
      defined_if (hosts_terminated names) (reading (\<lambda>s. let keys = radius_keys s in
        seq [
          loop_ret (\<lambda>k. guard (\<lambda>_. host_stale names k) (issue G (\<lambda>_. RadiusRemove k))) keys,
          loop_ret (\<lambda>h. issue G (\<lambda>_. RadiusAdd (hostname h) (passkey h) (auth_port h) (radius_priority h))) hosts,
          guard (\<lambda>_. hosts \<noteq> [] \<or> list_ex (host_stale names) keys) (ignore (plat_state_radius_init G))])))"

definition plat_dac_list_set :: "gnma \<Rightarrow> plat_ieee8021x_dac_host list \<Rightarrow> op" where
  "plat_dac_list_set G hosts =
     (let names = map (\<lambda>h. (dac_hostname h, dac_passkey h)) hosts in
      defined_if (hosts_terminated names) (\<lambda>s. do {
        keys \<leftarrow> dac_keys s;
        seq [
          loop_ret (\<lambda>k. guard (\<lambda>_. host_stale names k) (issue G (\<lambda>_. DacRemove k))) keys,
          loop_ret (\<lambda>h. issue G (\<lambda>_. DacAdd (dac_hostname h) (dac_passkey h))) hosts,
          guard (\<lambda>_. hosts \<noteq> [] \<or> list_ex (host_stale names) keys) (ignore (plat_state_ieee8021x_dac_list_init G))] s
      }))"

definition config_ieee8021x_apply :: "gnma \<Rightarrow> plat_cfg \<Rightarrow> op" where
  "config_ieee8021x_apply G cfg =
     seq [
       sync G (\<lambda>s. is_auth_ctrl_enabled cfg \<noteq> auth_control s)
         (\<lambda>_. AuthControl (is_auth_ctrl_enabled cfg)) (\<lambda>s. s\<lparr>auth_control := is_auth_ctrl_enabled cfg\<rparr>),
       plat_dac_list_set G (das_dac_list cfg),
       plat_radius_hosts_list_set G (radius_hosts_list cfg)]"

section \<open>The rest and the whole\<close>

text \<open>The routes: the calls of \<open>config_router_apply\<close> are entered in the history with their answers.\<close>

fun log_routes :: "gnma \<Rightarrow> hist \<Rightarrow> route_call list \<Rightarrow> hist" where
  "log_routes G h [] = h"
| "log_routes G h (c # cs) = log_routes G (h @ [(RouteCall c, ans G h (RouteCall c))]) cs"

definition router_apply :: "gnma \<Rightarrow> plat_cfg \<Rightarrow> op" where
  "router_apply G cfg s =
     do {
       (ret, cache, cs) \<leftarrow> config_router_apply (gnma_qsort G) (gnma_mem G (mem_calls s))
         (\<lambda>cs c. ans G (log_routes G (hist s) cs) (RouteCall c)) (router cfg) (route_cache s) [];
       Some (ret, s\<lparr>route_cache := cache, mem_calls := Suc (mem_calls s), hist := log_routes G (hist s) cs\<rparr>)
     }"

definition config_system_password_apply :: "gnma \<Rightarrow> plat_cfg \<Rightarrow> op" where
  "config_system_password_apply G cfg s =
     (if password_changed (unit_cfg cfg)
      then do { pw \<leftarrow> cstr 64 (system_password (unit_cfg cfg)); issue G (\<lambda>_. PasswordSet pw) s }
      else Some (0, s))"

definition prio2str :: "string list" where
  "prio2str = [''emerg'', ''alert'', ''crit'', ''error'', ''warning'', ''notice'', ''info'', ''debug'']"

definition syslog_entries :: "plat_cfg \<Rightarrow> plat_syslog_cfg list option" where
  "syslog_entries cfg =
     (if log_cfg_cnt cfg \<le> 0 then Some []
      else if log_cfg_cnt cfg = 1 then map_option (\<lambda>l. [l]) (log_cfg cfg) else None)"

definition plat_syslog_set :: "gnma \<Rightarrow> plat_cfg \<Rightarrow> op" where
  "plat_syslog_set G cfg s =
     do {
       ls \<leftarrow> syslog_entries cfg;
       seq [alloc_or G (- 1),
            guard (\<lambda>_. \<exists>l \<in> set ls. log_priority l < 0 \<or> log_priority l > 7) (fail (- 1)),
            as_err (issue G (\<lambda>_. SyslogClear)),
            issue G (\<lambda>_. SyslogSet (map (\<lambda>l. (log_host l, log_port l, prio2str ! nat (log_priority l))) ls))] s
     }"

text \<open>The metrics are only printed to the diagnostic log here.\<close>

definition config_metrics_apply :: "plat_cfg \<Rightarrow> op" where
  "config_metrics_apply cfg s = Some (0, s)"

lemma keeps_metrics [keeps_rules]: "keeps P (config_metrics_apply cfg)"
  by (rule keepsI) (simp add: config_metrics_apply_def)

definition config_parts :: "gnma \<Rightarrow> plat_cfg \<Rightarrow> op list" where
  "config_parts G cfg =
     [guard (\<lambda>s. feat_core s \<noteq> FEATSTS_OK)
        (CFG_LOG_CRIT G ''core features are not initialized, the system is not stable''),
      config_vlan_apply G cfg,
      plat_port_config_apply G cfg,
      config_unit_apply G cfg,
      config_stp_apply G cfg,
      config_vlan_ipv4_apply G cfg,
      config_portl2_ipv4_apply G cfg,
      config_vlan_dhcp_relay_apply G cfg,
      config_metrics_apply cfg,
      router_apply G cfg,
      branch (\<lambda>s. feat_aaa s = FEATSTS_OK) (config_ieee8021x_apply G cfg)
        (CFG_LOG_CRIT G ''AAA feature is not initialized, skipping configuration'')]"

definition plat_config_apply_gnma :: "gnma \<Rightarrow> plat_cfg \<Rightarrow> op" where
  "plat_config_apply_gnma G cfg =
     as_err (seq (config_parts G cfg @ [config_system_password_apply G cfg, ignore (plat_syslog_set G cfg)]))"

section \<open>Operations that leave part of the cache alone\<close>

text \<open>The parts of the cache that are brought to the switch attribute by attribute, with the features
  they depend on, and the requests that are about neither of them nor the password.\<close>

definition core :: "plat_state \<Rightarrow> (nat \<Rightarrow> poe_port) \<times> bitmap \<times> poe_power_mgmt \<times> u8 \<times> bool \<times> featsts \<times> featsts" where
  "core s = (poe_ports s, poe_bmap s, poe_mgmt s, poe_threshold s, auth_control s, feat_poe s, feat_aaa s)"

definition plain :: "gnma_call \<Rightarrow> bool" where
  "plain c = (case c of
     PoeDetection _ _ \<Rightarrow> False | PoePriority _ _ \<Rightarrow> False | PoePowerLimit _ _ _ \<Rightarrow> False | PoeAdmin _ _ \<Rightarrow> False
   | PoePowerMgmt _ \<Rightarrow> False | PoeThreshold _ \<Rightarrow> False | AuthControl _ \<Rightarrow> False | PasswordSet _ \<Rightarrow> False | _ \<Rightarrow> True)"

lemma keeps_sync [keeps_rules]: "keeps P (issue G c) \<Longrightarrow> keeps P (upd u) \<Longrightarrow> keeps P (sync G b c u)"
  unfolding sync_def by (intro keeps_rules)

text \<open>An invariant that plain requests and updates of the rest of the state keep is kept by every
  operation made of them.\<close>

locale framed_ops =
  fixes P :: "plat_state \<Rightarrow> bool"
  assumes plain_issue: "(\<And>s. plain (c s)) \<Longrightarrow> keeps P (issue G c)"
    and other_upd: "(\<And>s. hist (u s) = hist s \<and> core (u s) = core s) \<Longrightarrow> keeps P (upd u)"
begin

lemma alloc_or_keeps: "keeps P (alloc_or G r)"
proof (rule keepsI)
  fix s q s' assume "P s" "alloc_or G r s = Some (q, s')"
  moreover have "keeps P (upd (\<lambda>s. s\<lparr>mem_calls := Suc (mem_calls s)\<rparr>))" by (rule other_upd) (simp add: core_def)
  ultimately show "P s'" by (auto simp: alloc_or_def upd_def dest!: keepsD)
qed

lemma log_keeps: "keeps P (CFG_LOG_CRIT G m)"
proof (rule keepsI)
  fix s q s' assume "P s" "CFG_LOG_CRIT G m s = Some (q, s')"
  moreover have "keeps P (upd (\<lambda>s. s\<lparr>plog := plat_log_printf (gnma_mem G (mem_calls s)) m (plog s), mem_calls := Suc (mem_calls s)\<rparr>))"
    by (rule other_upd) (simp add: core_def)
  ultimately show "P s'" by (auto simp: CFG_LOG_CRIT_def upd_def dest!: keepsD)
qed

lemmas leaves = plain_issue other_upd alloc_or_keeps log_keeps

lemma port_attrs_keeps: "keeps P (port_attrs_set G i p)"
  unfolding port_attrs_set_def plat_port_admin_state_set_def plat_port_speed_set_def plat_port_duplex_set_def
  by (cases "SPEED_TO_STR (pt_speed p)") (auto intro!: keeps_rules leaves simp: plain_def)

lemma ieee8021x_port_keeps: "keeps P (config_port_ieee8021x_apply G i p)"
  unfolding config_port_ieee8021x_apply_def Let_def
  by (intro keeps_rules leaves) (simp_all add: plain_def core_def)

lemma rif_keeps: "keeps P (plat_vlan_rif_set G vid ip)"
  unfolding plat_vlan_rif_set_def vlan_rif_steps_def Let_def
  by (auto intro!: keeps_rules leaves simp: plain_def core_def relay_upd_def split: prod.splits)

lemma igmp_keeps: "keeps P (plat_vlan_igmp_set G vid g)"
  unfolding plat_vlan_igmp_set_def by (intro keeps_rules leaves) (simp_all add: plain_def)

lemma vlan_ipv4_keeps: "keeps P (config_vlan_ipv4_apply G cfg)"
  unfolding config_vlan_ipv4_apply_def Let_def by (intro keeps_rules rif_keeps igmp_keeps)

lemma portl2_keeps: "keeps P (config_portl2_ipv4_apply G cfg)"
  unfolding config_portl2_ipv4_apply_def plat_portl2_rif_set_def
  by (intro keeps_rules leaves) (simp_all add: plain_def core_def)

lemma relay_keeps: "keeps P (config_vlan_dhcp_relay_apply G cfg)"
  unfolding config_vlan_dhcp_relay_apply_def relay_clear_def relay_set_def Let_def
  by (intro keeps_rules leaves) (simp_all add: plain_def core_def relay_upd_def)

lemma vlan_list_keeps: "keeps P (plat_vlan_list_set G bm)"
  unfolding plat_vlan_list_set_def Let_def case_prod_unfold
  by (intro keeps_rules rif_keeps plain_issue) (simp add: plain_def)

lemma members_keeps: "keeps P (vlan_members_apply G cfg)"
proof (rule keepsI)
  fix s r s' assume s: "P s" and run: "vlan_members_apply G cfg s = Some (r, s')"
  have k: "keeps P (issue G (\<lambda>_. ChangeExec ops))" for ops by (rule plain_issue) (simp add: plain_def)
  have "P s'" if "issue G (\<lambda>_. ChangeExec ops) s = Some (r, s')" for ops using keepsD[OF k that] s .
  then show "P s'"
    using run s unfolding vlan_members_apply_def by (auto elim!: bindE split: if_splits)
qed

lemma vlan_keeps: "keeps P (config_vlan_apply G cfg)"
  unfolding config_vlan_apply_def by (intro keeps_rules leaves vlan_list_keeps members_keeps)

lemma stp_keeps: "keeps P (config_stp_apply G cfg)"
  unfolding config_stp_apply_def config_stp_apply_ports_enable_all_def stp_vlan_set_def Let_def
  by (cases "stp_mode cfg") (auto intro!: keeps_rules leaves simp: plain_def core_def split: prod.splits)

lemma radius_init_keeps: "keeps P (plat_state_radius_init G)"
  unfolding plat_state_radius_init_def Let_def case_prod_unfold
  by (intro keeps_rules leaves) (simp_all add: core_def)

lemma dac_init_keeps: "keeps P (plat_state_ieee8021x_dac_list_init G)"
  unfolding plat_state_ieee8021x_dac_list_init_def Let_def case_prod_unfold
  by (intro keeps_rules leaves) (simp_all add: core_def)

lemma radius_keeps: "keeps P (plat_radius_hosts_list_set G hosts)"
  unfolding plat_radius_hosts_list_set_def Let_def
  by (intro keeps_rules plain_issue radius_init_keeps) (simp_all add: plain_def)

lemma dac_keeps: "keeps P (plat_dac_list_set G hosts)"
  unfolding plat_dac_list_set_def Let_def
  by (intro keeps_rules plain_issue dac_init_keeps) (simp_all add: plain_def)

lemma syslog_keeps: "keeps P (plat_syslog_set G cfg)"
  unfolding plat_syslog_set_def by (intro keeps_rules leaves) (simp_all add: plain_def)

lemma log_routes_keeps: "P s \<Longrightarrow> P (s\<lparr>hist := log_routes G (hist s) cs\<rparr>)"
proof (induction cs arbitrary: s)
  case (Cons c cs)
  let ?r = "ans G (hist s) (RouteCall c)"
  have k: "keeps P (issue G (\<lambda>_. RouteCall c))" by (rule plain_issue) (simp add: plain_def)
  have "issue G (\<lambda>_. RouteCall c) s = Some (?r, s\<lparr>hist := hist s @ [(RouteCall c, ?r)]\<rparr>)"
    by (simp add: issue_def Let_def)
  then have "P (s\<lparr>hist := hist s @ [(RouteCall c, ?r)]\<rparr>)" using keepsD[OF k] Cons.prems by blast
  from Cons.IH[OF this] show ?case by simp
qed simp

lemma router_keeps: "keeps P (router_apply G cfg)"
proof (rule keepsI)
  fix s r s' assume s: "P s" and "router_apply G cfg s = Some (r, s')"
  then obtain cache cs where s': "s' = s\<lparr>route_cache := cache, mem_calls := Suc (mem_calls s), hist := log_routes G (hist s) cs\<rparr>"
    by (auto simp: router_apply_def elim!: bindE)
  let ?u = "\<lambda>s. s\<lparr>route_cache := cache, mem_calls := Suc (mem_calls s)\<rparr>"
  have "keeps P (upd ?u)" by (rule other_upd) (simp add: core_def)
  then have "P (?u s)" using keepsD[of P "upd ?u" s 0] s by (simp add: upd_def)
  from log_routes_keeps[OF this, of G cs] show "P s'" unfolding s' by simp
qed

lemmas part_keeps = log_keeps vlan_keeps stp_keeps vlan_ipv4_keeps portl2_keeps relay_keeps router_keeps
  dac_keeps radius_keeps port_attrs_keeps ieee8021x_port_keeps

end

text \<open>With the operations on the attributes of the core, all parts keep the invariant.\<close>

locale applied_ops = framed_ops +
  assumes poe_part: "keeps P (poe_part G r i p)"
    and unit_apply: "keeps P (config_unit_apply G cfg)"
    and auth_apply: "keeps P (sync G (\<lambda>s. b \<noteq> auth_control s) (\<lambda>_. AuthControl b) (\<lambda>s. s\<lparr>auth_control := b\<rparr>))"
begin

lemma parts_keep: "keeps P (seq (config_parts G cfg))"
  unfolding config_parts_def port_body_def config_ieee8021x_apply_def
  by (intro keeps_rules part_keeps unit_apply auth_apply keeps_port_config)
     (unfold port_body_def, intro keeps_rules part_keeps poe_part)

end

end
