(* ===== verification/Apply_Props.thy ===== *)
theory Apply_Props
  imports Plat_Apply
begin

text \<open>
  What \<open>plat_config_apply\<close> of the SONiC platform guarantees. The attributes that are cached one by
  one (power over ethernet, its unit settings, the global authentication switch) mirror the
  switch after every run, whatever request failed, and a run that succeeds puts the configured
  values in force. The password is set last. VLAN members are reconciled for every
  configuration the parser accepts. The 802.1x attributes of a port, which are cached together,
  do not have the first property.
\<close>

section \<open>The cache mirrors the switch\<close>

record switch_part =
  sw_poe :: "nat \<Rightarrow> poe_attrs"
  sw_mgmt :: poe_power_mgmt
  sw_threshold :: u8
  sw_auth :: bool

definition sw_view :: "plat_state \<Rightarrow> switch_part" where
  "sw_view s = \<lparr>sw_poe = (\<lambda>i. poe_of i s), sw_mgmt = poe_mgmt s, sw_threshold = poe_threshold s, sw_auth = auth_control s\<rparr>"

definition at_port :: "string \<Rightarrow> (poe_attrs \<Rightarrow> poe_attrs) \<Rightarrow> switch_part \<Rightarrow> switch_part" where
  "at_port n f d = (case NAME_TO_PID n of ScanVal p \<Rightarrow> d\<lparr>sw_poe := (sw_poe d)(p := f (sw_poe d p))\<rparr> | _ \<Rightarrow> d)"

text \<open>What an accepted request does.\<close>

definition sw_eff :: "gnma_call \<Rightarrow> switch_part \<Rightarrow> switch_part" where
  "sw_eff c d = (case c of
     PoeDetection n m \<Rightarrow> at_port n (\<lambda>a. a\<lparr>pa_detection := m\<rparr>) d
   | PoePriority n p \<Rightarrow> at_port n (\<lambda>a. a\<lparr>pa_priority := p\<rparr>) d
   | PoePowerLimit n user l \<Rightarrow> at_port n (\<lambda>a. a\<lparr>pa_limit := l, pa_limit_user := user\<rparr>) d
   | PoeAdmin n up \<Rightarrow> at_port n (\<lambda>a. a\<lparr>pa_admin := up\<rparr>) d
   | PoePowerMgmt m \<Rightarrow> d\<lparr>sw_mgmt := m\<rparr>
   | PoeThreshold t \<Rightarrow> d\<lparr>sw_threshold := t\<rparr>
   | AuthControl b \<Rightarrow> d\<lparr>sw_auth := b\<rparr>
   | _ \<Rightarrow> d)"

text \<open>The key of a power port is the name of the port with its number.\<close>

definition poe_keys_ok :: "plat_state \<Rightarrow> bool" where
  "poe_keys_ok s \<longleftrightarrow> (\<forall>i \<in> bm_set (poe_bmap s). NAME_TO_PID (poe_key (poe_ports s i)) = ScanVal i)"

definition poe_port_ok :: "nat \<Rightarrow> plat_state \<Rightarrow> bool" where
  "poe_port_ok i s \<longleftrightarrow> poe_keys_ok s \<and> i \<in> bm_set (poe_bmap s)"

abbreviation mirrored :: "switch_part \<Rightarrow> plat_state \<Rightarrow> bool" where
  "mirrored \<equiv> mirrors sw_view sw_eff poe_keys_ok"

lemma sw_frame:
  assumes "core s' = core s"
  shows "sw_view s' = sw_view s" "poe_keys_ok s' = poe_keys_ok s"
  using assms by (auto simp: core_def sw_view_def poe_keys_ok_def)

interpretation sw: mirror sw_view sw_eff poe_keys_ok
  by unfold_locales (simp_all add: sw_view_def poe_keys_ok_def)

text \<open>The same with a port singled out.\<close>

interpretation sw_at: mirror sw_view sw_eff "poe_port_ok i" for i
  by unfold_locales (simp_all add: sw_view_def poe_keys_ok_def poe_port_ok_def)

lemma plain_eff: "plain c \<Longrightarrow> sw_eff c d = d"
  by (cases c) (simp_all add: plain_def sw_eff_def)

lemma poe_upd_view:
  assumes "poe_port_ok i s"
  shows "sw_view (poe_upd i f s) = at_port (poe_key (poe_ports s i)) f (sw_view s)"
  using assms by (auto simp: sw_view_def poe_upd_def at_port_def poe_port_ok_def poe_keys_ok_def)

lemma poe_upd_ok [simp]: "poe_port_ok i (poe_upd i f s) = poe_port_ok i s" "hist (poe_upd i f s) = hist s"
  by (auto simp: poe_upd_def poe_port_ok_def poe_keys_ok_def)

lemma poe_port_mirrors: "keeps (mirrors sw_view sw_eff (poe_port_ok i) d) (config_poe_port_apply G i p)"
  unfolding config_poe_port_apply_def Let_def
  by (intro keeps_rules sw_at.sync_mirrors sw_at.issue_other)
     (simp_all add: poe_upd_view sw_eff_def)

lemma mirrors_at: "i \<in> bm_set (poe_bmap s) \<Longrightarrow> mirrored d s = mirrors sw_view sw_eff (poe_port_ok i) d s"
  by (simp add: mirrors_def poe_port_ok_def)

lemma framed_mirrored: "framed_ops (mirrored d)"
proof unfold_locales
  fix c :: "plat_state \<Rightarrow> gnma_call" and G assume "\<And>s. plain (c s)"
  then show "keeps (mirrored d) (issue G c)" by (intro sw.issue_other plain_eff)
next
  fix u assume u: "\<And>s. hist (u s) = hist s \<and> core (u s) = core s"
  show "keeps (mirrored d) (upd u)"
    by (rule sw.upd_other) (rule sw_frame, use u in blast, rule sw_frame, use u in blast, use u in blast)
qed

lemma poe_part_mirrors: "keeps (mirrored d) (poe_part G r i p)"
proof (rule keepsI)
  fix s q s' assume m: "mirrored d s" and run: "poe_part G r i p s = Some (q, s')"
  obtain b where b: "BITMAP_TEST_BIT (poe_bmap s) i = Some b"
    and step: "guard (\<lambda>_. b) (branch (\<lambda>s. feat_poe s = FEATSTS_OK) (config_poe_port_apply G i p)
      (guard (\<lambda>_. \<not> r) (CFG_LOG_CRIT G ''POE feature is not initialized, skipping configuration''))) s = Some (q, s')"
    using run unfolding poe_part_def by (elim bindE)
  show "mirrored d s'"
  proof (cases "b \<and> feat_poe s = FEATSTS_OK")
    case True
    then have run: "config_poe_port_apply G i p s = Some (q, s')" using step by (simp add: guard_def branch_def)
    have "i \<in> bm_set (poe_bmap s)" using b True by (simp add: bm_set_def bm_test_def)
    then have "mirrors sw_view sw_eff (poe_port_ok i) d s'"
      using keepsD[OF poe_port_mirrors run] m by (simp add: mirrors_at)
    then show ?thesis by (simp add: mirrors_def poe_port_ok_def)
  next
    case False
    then have "guard (\<lambda>_. b \<and> \<not> r) (CFG_LOG_CRIT G ''POE feature is not initialized, skipping configuration'') s = Some (q, s')"
      using step by (auto simp: guard_def branch_def split: if_splits)
    then show ?thesis by (rule keepsD[OF keeps_guard[OF framed_ops.log_keeps[OF framed_mirrored]] _ m])
  qed
qed

interpretation sw_ops: applied_ops "mirrored d" for d
proof (intro applied_ops.intro framed_mirrored, unfold_locales)
  show "keeps (mirrored d) (poe_part G r i p)" for G r i p by (rule poe_part_mirrors)
  show "keeps (mirrored d) (config_unit_apply G cfg)" for G cfg
    unfolding config_unit_apply_def Let_def
    by (intro keeps_if keeps_fail keeps_seq_Cons keeps_seq_Nil sw.sync_mirrors)
       (simp_all add: sw_view_def sw_eff_def poe_keys_ok_def)
  show "keeps (mirrored d) (sync G (\<lambda>s. b \<noteq> auth_control s) (\<lambda>_. AuthControl b) (\<lambda>s. s\<lparr>auth_control := b\<rparr>))" for G b
    by (intro sw.sync_mirrors) (simp_all add: sw_view_def sw_eff_def poe_keys_ok_def)
qed

lemma password_keeps:
  assumes "\<And>pw. keeps P (issue G (\<lambda>_. PasswordSet pw))"
  shows "keeps P (config_system_password_apply G cfg)"
proof -
  have "config_system_password_apply G cfg = (if password_changed (unit_cfg cfg)
      then (\<lambda>s. do { pw \<leftarrow> cstr 64 (system_password (unit_cfg cfg)); issue G (\<lambda>_. PasswordSet pw) s }) else seq [])"
    by (auto simp: config_system_password_apply_def fun_eq_iff)
  then show ?thesis using assms by (auto intro!: keeps_if keeps_query keeps_seq_Nil)
qed

lemma seq_append:
  "seq (fs @ gs) s = do { (r, s) \<leftarrow> seq fs s; if r \<noteq> 0 then Some (r, s) else seq gs s }"
proof (induction fs arbitrary: s)
  case (Cons f fs)
  then show ?case by (cases "f s") (auto split: prod.splits)
qed simp

lemma keeps_append:
  assumes "keeps P (seq fs)" "keeps P (seq gs)"
  shows "keeps P (seq (fs @ gs))"
proof (rule keepsI)
  fix s r s' assume "P s" "seq (fs @ gs) s = Some (r, s')"
  then obtain q t where t: "seq fs s = Some (q, t)" "(if q \<noteq> 0 then Some (q, t) else seq gs t) = Some (r, s')"
    unfolding seq_append by (elim bindE)
  have "P t" using keepsD[OF assms(1) t(1)] \<open>P s\<close> .
  then show "P s'" using t(2) keepsD[OF assms(2), of t r s'] by (cases "q = 0") auto
qed

lemma apply_mirrors: "keeps (mirrored d) (plat_config_apply_gnma G cfg)"
proof -
  have "keeps (mirrored d) (issue G (\<lambda>_. PasswordSet pw))" for pw
    by (rule sw.issue_other) (simp add: sw_eff_def)
  then show ?thesis
    unfolding plat_config_apply_gnma_def
    by (intro keeps_as_err keeps_append sw_ops.parts_keep keeps_seq_Cons keeps_seq_Nil password_keeps keeps_ignore
        sw_ops.syslog_keeps)
qed

section \<open>A successful run puts the configuration in force\<close>

lemma seq_ConsE:
  assumes "seq (f # fs) s = Some (0, s')" obtains t where "f s = Some (0, t)" "seq fs t = Some (0, s')"
  using assms by (auto elim!: bindE split: if_splits)

lemma as_errE: assumes "as_err f s = Some (0, s')" obtains "f s = Some (0, s')"
  using assms by (auto simp: as_err_def elim!: bindE split: if_splits)

lemma syncE:
  assumes "sync G b c u s = Some (0, s')"
  obtains "\<not> b s" "s' = s" | h where "b s" "s' = u (s\<lparr>hist := h\<rparr>)"
  using assms by (auto simp: sync_def guard_def issue_def upd_def Let_def split: if_splits)

definition poe_in_force :: "port_poe \<Rightarrow> poe_attrs \<Rightarrow> bool" where
  "poe_in_force p a \<longleftrightarrow>
     (is_detection_mode_set p \<longrightarrow> pa_detection a = poe_port_detection_mode_str2num (detection_mode p)) \<and>
     (is_priority_set p \<longrightarrow> pa_priority a = poe_port_priority_mode_str2num (poe_priority p)) \<and>
     pa_limit a = poe_limit p \<and> pa_limit_user a = is_power_limit_set p \<and> pa_admin a = is_admin_mode_up p"

lemma poe_of_upd [simp]: "poe_of i (poe_upd j f s) = (if i = j then f (poe_of i s) else poe_of i s)"
  by (simp add: poe_upd_def)

lemma poe_success:
  assumes "config_poe_port_apply G i port s = Some (0, s')"
  shows "poe_in_force (pt_poe port) (poe_of i s')"
proof -
  from assms[unfolded config_poe_port_apply_def Let_def] obtain t1 t2 t3 t4 where
    1: "sync G (\<lambda>s. is_detection_mode_set (pt_poe port) \<and> pa_detection (poe_of i s) \<noteq> poe_port_detection_mode_str2num (detection_mode (pt_poe port)))
         (\<lambda>s. PoeDetection (poe_key (poe_ports s i)) (poe_port_detection_mode_str2num (detection_mode (pt_poe port))))
         (poe_upd i (\<lambda>a. a\<lparr>pa_detection := poe_port_detection_mode_str2num (detection_mode (pt_poe port))\<rparr>)) s = Some (0, t1)"
    and 2: "sync G (\<lambda>s. is_priority_set (pt_poe port) \<and> pa_priority (poe_of i s) \<noteq> poe_port_priority_mode_str2num (poe_priority (pt_poe port)))
         (\<lambda>s. PoePriority (poe_key (poe_ports s i)) (poe_port_priority_mode_str2num (poe_priority (pt_poe port))))
         (poe_upd i (\<lambda>a. a\<lparr>pa_priority := poe_port_priority_mode_str2num (poe_priority (pt_poe port))\<rparr>)) t1 = Some (0, t2)"
    and 3: "sync G (\<lambda>s. pa_limit (poe_of i s) \<noteq> poe_limit (pt_poe port) \<or> pa_limit_user (poe_of i s) \<noteq> is_power_limit_set (pt_poe port))
         (\<lambda>s. PoePowerLimit (poe_key (poe_ports s i)) (is_power_limit_set (pt_poe port)) (poe_limit (pt_poe port)))
         (poe_upd i (\<lambda>a. a\<lparr>pa_limit := poe_limit (pt_poe port), pa_limit_user := is_power_limit_set (pt_poe port)\<rparr>)) t2 = Some (0, t3)"
    and 4: "sync G (\<lambda>s. pa_admin (poe_of i s) \<noteq> is_admin_mode_up (pt_poe port))
         (\<lambda>s. PoeAdmin (poe_key (poe_ports s i)) (is_admin_mode_up (pt_poe port)))
         (poe_upd i (\<lambda>a. a\<lparr>pa_admin := is_admin_mode_up (pt_poe port)\<rparr>)) t3 = Some (0, t4)"
    and 5: "guard (\<lambda>_. poe_do_reset (pt_poe port)) (issue G (\<lambda>s. PoeReset (poe_key (poe_ports s i)))) t4 = Some (0, s')"
    by (elim as_errE seq_ConsE) simp
  have a: "is_detection_mode_set (pt_poe port) \<longrightarrow> pa_detection (poe_of i t1) = poe_port_detection_mode_str2num (detection_mode (pt_poe port))"
    using 1 by (elim syncE) auto
  have b: "(is_priority_set (pt_poe port) \<longrightarrow> pa_priority (poe_of i t2) = poe_port_priority_mode_str2num (poe_priority (pt_poe port))) \<and>
      pa_detection (poe_of i t2) = pa_detection (poe_of i t1)"
    using 2 by (elim syncE) auto
  have c: "pa_limit (poe_of i t3) = poe_limit (pt_poe port) \<and> pa_limit_user (poe_of i t3) = is_power_limit_set (pt_poe port) \<and>
      pa_detection (poe_of i t3) = pa_detection (poe_of i t2) \<and> pa_priority (poe_of i t3) = pa_priority (poe_of i t2)"
    using 3 by (elim syncE) auto
  have d: "poe_of i t4 = (poe_of i t3)\<lparr>pa_admin := is_admin_mode_up (pt_poe port)\<rparr>"
    using 4 by (elim syncE) auto
  have "poe_of i s' = poe_of i t4"
    using 5 by (auto simp: guard_def issue_def Let_def split: if_splits)
  then show ?thesis unfolding poe_in_force_def using a b c d by simp
qed

text \<open>Anything that depends on the core alone is a matter of the few operations that change it.\<close>

interpretation core_ops: framed_ops "\<lambda>s. Q (core s)" for Q
proof unfold_locales
  show "keeps (\<lambda>s. Q (core s)) (issue G c)" for G and c :: "plat_state \<Rightarrow> gnma_call"
    by (rule keeps_issue) (simp add: core_def)
  fix u assume "\<And>s. hist (u s) = hist s \<and> core (u s) = core s"
  then show "keeps (\<lambda>s. Q (core s)) (upd u)" by (intro keeps_upd) simp
qed

text \<open>A port's power attributes, and the features that decide whether they are configured.\<close>

definition poe_at :: "nat \<Rightarrow> (poe_attrs \<Rightarrow> bool) \<Rightarrow> bitmap \<times> featsts \<times> featsts \<Rightarrow> plat_state \<Rightarrow> bool" where
  "poe_at i R k s \<longleftrightarrow> R (poe_of i s) \<and> (poe_bmap s, feat_poe s, feat_aaa s) = k"

lemma poe_at_core: "poe_at i R k = (\<lambda>s. (\<lambda>(ps, b, m, t, a, fp, fa). R (poe_attrs (ps i)) \<and> (b, fp, fa) = k) (core s))"
  by (simp add: fun_eq_iff poe_at_def core_def)

lemma poe_at_framed: "framed_ops (poe_at i R k)"
  unfolding poe_at_core by (rule core_ops.framed_ops_axioms)

lemmas poe_at_keeps = framed_ops.port_attrs_keeps[OF poe_at_framed] framed_ops.ieee8021x_port_keeps[OF poe_at_framed]
  framed_ops.log_keeps[OF poe_at_framed]

lemma poe_other_keeps:
  assumes "j = i \<Longrightarrow> \<forall>a. R a"
  shows "keeps (poe_at i R k) (config_poe_port_apply G j p)"
proof -
  have "keeps (poe_at i R k) (upd (poe_upd j f))" for f
    by (rule keeps_upd) (use assms in \<open>auto simp: poe_at_def\<close>, auto simp: poe_upd_def)
  moreover have "keeps (poe_at i R k) (issue G c)" for c
    by (rule keeps_issue) (simp add: poe_at_def)
  ultimately show ?thesis unfolding config_poe_port_apply_def Let_def by (intro keeps_rules)
qed

lemma port_body_keeps:
  assumes "j = i \<Longrightarrow> \<forall>a. R a"
  shows "keeps (poe_at i R k) (port_body G cfg r1 r2 j)"
  unfolding port_body_def by (intro keeps_rules poe_at_keeps poe_other_keeps assms)

text \<open>After the turn of a port its attributes are in force.\<close>

lemma port_body_success:
  assumes run: "port_body G cfg r1 r2 i s = Some (0, s')" and "bm_test (poe_bmap s) i" "feat_poe s = FEATSTS_OK"
  shows "poe_in_force (pt_poe (ports cfg i)) (poe_of i s')"
proof -
  let ?k = "(poe_bmap s, feat_poe s, feat_aaa s)" and ?p = "ports cfg i"
  from run[unfolded port_body_def] obtain t1 t2 where
    1: "port_attrs_set G i ?p s = Some (0, t1)"
    and 2: "branch (\<lambda>s. feat_aaa s = FEATSTS_OK) (config_port_ieee8021x_apply G i ?p)
       (guard (\<lambda>_. \<not> r1) (CFG_LOG_CRIT G ''AAA feature is not initialized, skipping configuration'')) t1 = Some (0, t2)"
    and 3: "poe_part G r2 i ?p t2 = Some (0, s')"
    by (elim as_errE seq_ConsE) simp
  have "poe_at i (\<lambda>_. True) ?k s" by (simp add: poe_at_def)
  then have "poe_at i (\<lambda>_. True) ?k t1" by (rule keepsD[OF poe_at_keeps(1) 1])
  then have "poe_at i (\<lambda>_. True) ?k t2"
    by (rule keepsD[OF keeps_branch[OF poe_at_keeps(2) keeps_guard[OF poe_at_keeps(3)]] 2])
  then have "config_poe_port_apply G i ?p t2 = Some (0, s')"
    using 3 assms(2,3) by (auto simp: poe_at_def poe_part_def bm_test_def guard_def branch_def)
  then show ?thesis by (rule poe_success)
qed

lemma port_loop_other:
  "j \<notin> set is \<Longrightarrow> keeps (poe_at j R k) (port_loop G cfg is r1 r2)"
proof (induction "is" arbitrary: r1 r2)
  case (Cons i "is")
  have body: "keeps (poe_at j R k) (port_body G cfg r1 r2 i)" using Cons.prems by (intro port_body_keeps) simp
  show ?case
  proof (rule keepsI)
    fix s q s' assume s: "poe_at j R k s" and run: "port_loop G cfg (i # is) r1 r2 s = Some (q, s')"
    obtain ret t where t: "port_body G cfg r1 r2 i s = Some (ret, t)" using run by (auto elim: bindE)
    have "poe_at j R k t" using keepsD[OF body t s] .
    then show "poe_at j R k s'"
    proof (cases "ret = 0")
      case True
      then have "port_loop G cfg is (r1 \<or> feat_aaa t \<noteq> FEATSTS_OK)
          (r2 \<or> bm_test (poe_bmap t) i \<and> feat_poe t \<noteq> FEATSTS_OK) t = Some (q, s')" using run t by simp
      from keepsD[OF Cons.IH this \<open>poe_at j R k t\<close>] show ?thesis using Cons.prems by simp
    qed (use run t in simp)
  qed
qed (rule keepsI, simp)

lemma port_loop_success:
  assumes "port_loop G cfg is r1 r2 s = Some (0, s')" "distinct is"
  shows "(poe_bmap s', feat_poe s', feat_aaa s') = (poe_bmap s, feat_poe s, feat_aaa s) \<and>
    (feat_poe s = FEATSTS_OK \<longrightarrow> (\<forall>i \<in> set is. bm_test (poe_bmap s) i \<longrightarrow> poe_in_force (pt_poe (ports cfg i)) (poe_of i s')))"
  using assms
proof (induction "is" arbitrary: r1 r2 s)
  case (Cons j "is")
  obtain t where t: "port_body G cfg r1 r2 j s = Some (0, t)"
    and rest: "port_loop G cfg is (r1 \<or> feat_aaa t \<noteq> FEATSTS_OK) (r2 \<or> bm_test (poe_bmap t) j \<and> feat_poe t \<noteq> FEATSTS_OK) t = Some (0, s')"
    using Cons.prems(1) by (auto elim!: bindE split: if_splits)
  let ?k = "(poe_bmap s, feat_poe s, feat_aaa s)"
  have "poe_at j (\<lambda>_. True) ?k s" by (simp add: poe_at_def)
  then have "poe_at j (\<lambda>_. True) ?k t" by (rule keepsD[OF port_body_keeps t, rotated]) simp
  then have k: "(poe_bmap t, feat_poe t, feat_aaa t) = ?k" by (simp add: poe_at_def)
  have "poe_in_force (pt_poe (ports cfg j)) (poe_of j s')" if "bm_test (poe_bmap s) j" "feat_poe s = FEATSTS_OK"
  proof -
    let ?R = "poe_in_force (pt_poe (ports cfg j))"
    have "poe_at j ?R ?k t" using port_body_success[OF t that] k by (simp add: poe_at_def)
    then have "poe_at j ?R ?k s'" using keepsD[OF port_loop_other rest] Cons.prems(2) by simp
    then show ?thesis by (simp add: poe_at_def)
  qed
  then show ?case using Cons.IH[OF rest] Cons.prems(2) k by auto
qed simp

definition unit_in_force :: "plat_unit \<Rightarrow> poe_power_mgmt \<Rightarrow> u8 \<Rightarrow> bool" where
  "unit_in_force u m t \<longleftrightarrow> (is_power_mgmt_set u \<longrightarrow> m = poe_power_mgmt_str2num (power_mgmt u)) \<and>
     (is_usage_threshold_set u \<longrightarrow> t = usage_threshold u)"

lemma unit_success:
  assumes "config_unit_apply G cfg s = Some (0, s')"
  shows "unit_in_force (unit_cfg cfg) (poe_mgmt s') (poe_threshold s') \<and>
    (poe_ports s', poe_bmap s', feat_poe s', feat_aaa s') = (poe_ports s, poe_bmap s, feat_poe s, feat_aaa s)"
  using assms unfolding config_unit_apply_def Let_def unit_in_force_def
  by (auto simp: fail_def simp del: seq.simps(2) elim!: seq_ConsE syncE split: if_splits)

text \<open>What the parts after the unit's settings leave alone.\<close>

definition settled :: "plat_state \<Rightarrow> (nat \<Rightarrow> poe_port) \<times> bitmap \<times> poe_power_mgmt \<times> u8 \<times> featsts \<times> featsts" where
  "settled s = (poe_ports s, poe_bmap s, poe_mgmt s, poe_threshold s, feat_poe s, feat_aaa s)"

lemma settled_framed: "framed_ops (\<lambda>s. settled s = k)"
proof -
  have "(\<lambda>s. settled s = k) = (\<lambda>s. (\<lambda>(ps, b, m, t, a, fp, fa). (ps, b, m, t, fp, fa) = k) (core s))"
    by (simp add: fun_eq_iff settled_def core_def)
  then show ?thesis by (simp only: core_ops.framed_ops_axioms)
qed

lemmas settled_keeps = framed_ops.stp_keeps[OF settled_framed] framed_ops.vlan_ipv4_keeps[OF settled_framed]
  framed_ops.portl2_keeps[OF settled_framed] framed_ops.relay_keeps[OF settled_framed]
  framed_ops.router_keeps[OF settled_framed] framed_ops.log_keeps[OF settled_framed]
  framed_ops.dac_keeps[OF settled_framed] framed_ops.radius_keeps[OF settled_framed]
  framed_ops.syslog_keeps[OF settled_framed] framed_ops.vlan_keeps[OF settled_framed]

lemma late_parts_settled:
  "keeps (\<lambda>s. settled s = k) (seq [config_stp_apply G cfg, config_vlan_ipv4_apply G cfg, config_portl2_ipv4_apply G cfg,
      config_vlan_dhcp_relay_apply G cfg, config_metrics_apply cfg, router_apply G cfg,
      branch (\<lambda>s. feat_aaa s = FEATSTS_OK) (config_ieee8021x_apply G cfg)
        (CFG_LOG_CRIT G ''AAA feature is not initialized, skipping configuration''),
      config_system_password_apply G cfg, ignore (plat_syslog_set G cfg)])"
proof -
  have i: "keeps (\<lambda>s. settled s = k) (issue G c)" for c by (rule keeps_issue) (simp add: settled_def)
  have "keeps (\<lambda>s. settled s = k) (upd (\<lambda>s. s\<lparr>auth_control := b\<rparr>))" for b by (rule keeps_upd) (simp add: settled_def)
  then show ?thesis
    unfolding config_ieee8021x_apply_def by (intro keeps_rules settled_keeps password_keeps i)
qed

lemma auth_success:
  assumes "seq [branch (\<lambda>s. feat_aaa s = FEATSTS_OK) (config_ieee8021x_apply G cfg) other,
      config_system_password_apply G cfg, ignore (plat_syslog_set G cfg)] s = Some (0, s')" "feat_aaa s = FEATSTS_OK"
  shows "auth_control s' = is_auth_ctrl_enabled cfg"
proof -
  let ?b = "is_auth_ctrl_enabled cfg" and ?P = "\<lambda>s. auth_control s = is_auth_ctrl_enabled cfg"
  have P: "?P = (\<lambda>s. (\<lambda>(ps, b, m, t, a, fp, fa). a = ?b) (core s))" by (simp add: fun_eq_iff core_def)
  have framed: "framed_ops ?P" unfolding P by (rule core_ops.framed_ops_axioms)
  obtain t where "config_ieee8021x_apply G cfg s = Some (0, t)"
    and rest: "seq [config_system_password_apply G cfg, ignore (plat_syslog_set G cfg)] t = Some (0, s')"
    using assms by (elim seq_ConsE) (simp add: branch_def)
  then obtain t1 where t1: "sync G (\<lambda>s. ?b \<noteq> auth_control s) (\<lambda>_. AuthControl ?b) (\<lambda>s. s\<lparr>auth_control := ?b\<rparr>) s = Some (0, t1)"
    and hosts: "seq [plat_dac_list_set G (das_dac_list cfg), plat_radius_hosts_list_set G (radius_hosts_list cfg)] t1 = Some (0, t)"
    unfolding config_ieee8021x_apply_def by (elim seq_ConsE) simp
  have "?P t1" using t1 by (elim syncE) auto
  have hk: "keeps ?P (seq [plat_dac_list_set G (das_dac_list cfg), plat_radius_hosts_list_set G (radius_hosts_list cfg)])"
    by (intro keeps_rules framed_ops.dac_keeps[OF framed] framed_ops.radius_keeps[OF framed])
  have "keeps ?P (issue G c)" for c by (rule keeps_issue) simp
  then have rk: "keeps ?P (seq [config_system_password_apply G cfg, ignore (plat_syslog_set G cfg)])"
    by (intro keeps_rules password_keeps framed_ops.syslog_keeps[OF framed])
  show ?thesis by (rule keepsD[OF rk rest keepsD[OF hk hosts \<open>?P t1\<close>]])
qed

text \<open>The outcome of a run that returned 0, in terms of the cache.\<close>

definition apply_ok :: "plat_cfg \<Rightarrow> plat_state \<Rightarrow> plat_state \<Rightarrow> bool" where
  "apply_ok cfg s s' \<longleftrightarrow>
     (\<forall>i < MAX_NUM_OF_PORTS. bm_test (ports_to_cfg cfg) i \<and> bm_test (poe_bmap s) i \<and> feat_poe s = FEATSTS_OK \<longrightarrow>
        poe_in_force (pt_poe (ports cfg i)) (poe_of i s')) \<and>
     unit_in_force (unit_cfg cfg) (poe_mgmt s') (poe_threshold s') \<and>
     (feat_aaa s = FEATSTS_OK \<longrightarrow> auth_control s' = is_auth_ctrl_enabled cfg)"

lemma seq_split:
  assumes "seq (fs @ gs) s = Some (0, s')"
  obtains t where "seq fs s = Some (0, t)" "seq gs t = Some (0, s')"
proof -
  have "\<exists>t. seq fs s = Some (0, t) \<and> seq gs t = Some (0, s')"
    using assms by (induction fs arbitrary: s) (auto elim!: bindE split: if_splits)
  then show thesis using that by blast
qed

lemma apply_success:
  assumes run: "plat_config_apply_gnma G cfg s = Some (0, s')"
    and len: "length (ports_to_cfg cfg) = BITS_TO_UINT32 MAX_NUM_OF_PORTS"
  shows "apply_ok cfg s s'"
proof -
  let ?mid = "[config_stp_apply G cfg, config_vlan_ipv4_apply G cfg, config_portl2_ipv4_apply G cfg,
      config_vlan_dhcp_relay_apply G cfg, config_metrics_apply cfg, router_apply G cfg]"
  let ?last = "[branch (\<lambda>s. feat_aaa s = FEATSTS_OK) (config_ieee8021x_apply G cfg)
        (CFG_LOG_CRIT G ''AAA feature is not initialized, skipping configuration''),
      config_system_password_apply G cfg, ignore (plat_syslog_set G cfg)]"
  from run[unfolded plat_config_apply_gnma_def config_parts_def append.simps] obtain t1 t2 t3 t4 where
    1: "guard (\<lambda>s. feat_core s \<noteq> FEATSTS_OK)
        (CFG_LOG_CRIT G ''core features are not initialized, the system is not stable'') s = Some (0, t1)"
    and 2: "config_vlan_apply G cfg t1 = Some (0, t2)"
    and 3: "plat_port_config_apply G cfg t2 = Some (0, t3)"
    and 4: "config_unit_apply G cfg t3 = Some (0, t4)"
    and late: "seq (?mid @ ?last) t4 = Some (0, s')"
    unfolding append.simps by (elim as_errE seq_ConsE) simp
  have s1: "settled t1 = settled s" using keepsD[OF keeps_guard[OF settled_keeps(6)] 1] by blast
  then have s2: "settled t2 = settled s" using keepsD[OF settled_keeps(10) 2] by blast
  have bits: "BITMAP_FOR_EACH_BIT_SET (ports_to_cfg cfg) MAX_NUM_OF_PORTS =
      Some (filter (bm_test (ports_to_cfg cfg)) [0..<MAX_NUM_OF_PORTS])"
    using len by (intro for_each_bits_list) (simp add: BITS_TO_UINT32_def MAX_NUM_OF_PORTS_def)
  have "port_loop G cfg (filter (bm_test (ports_to_cfg cfg)) [0..<MAX_NUM_OF_PORTS]) False False t2 = Some (0, t3)"
    using 3 by (simp add: plat_port_config_apply_def bits)
  note ports = port_loop_success[OF this]
  note unit = unit_success[OF 4]
  have s': "settled s' = settled t4" using keepsD[OF late_parts_settled late[unfolded append.simps]] by blast
  from late obtain t5 where mid: "seq ?mid t4 = Some (0, t5)" and auth: "seq ?last t5 = Some (0, s')"
    by (rule seq_split)
  have mk: "keeps (\<lambda>s. settled s = settled t4) (seq ?mid)" by (intro keeps_rules settled_keeps)
  have t5: "settled t5 = settled t4" using keepsD[OF mk mid] by blast
  show ?thesis
    unfolding apply_ok_def using ports unit s2 s' t5 auth_success[OF auth]
    by (auto simp: settled_def)
qed


text \<open>A platform whose switch accepts every request, with power on its port 1.\<close>

definition demo_gnma :: gnma where
  "demo_gnma = \<lparr>ans = (\<lambda>_ _. 0), gnma_vlan_list_get = (\<lambda>_. (0, bitmap_zero GNMA_MAX_VLANS)),
     gnma_vlan_member_bmap_get = (\<lambda>_. (0, \<lambda>_. (replicate 8 0, replicate 8 0))),
     gnma_port_list_get = (\<lambda>_. (0, [''Ethernet0'', ''Ethernet1''])),
     gnma_vlan_erif_attr_pref_list_get = (\<lambda>_ _. (0, None)), gnma_change_create = (\<lambda>_. True),
     gnma_change_add = (\<lambda>_ _ _. 0), gnma_radius_hosts_list_get = (\<lambda>_. (0, [])),
     gnma_dac_hosts_list_get = (\<lambda>_. (0, [])), gnma_mem = (\<lambda>_. True), gnma_qsort = isort_cmp\<rparr>"

definition no_routes :: ucentral_router where
  "no_routes = \<lparr>arr = [], rlen = 0, rmax = 0, sorted_flag = True\<rparr>"

definition demo_plat :: plat_state where
  "demo_plat = \<lparr>hist = [], mem_calls = 0, plog = ringbuf_init, feat_core = FEATSTS_OK, feat_poe = FEATSTS_OK,
     feat_aaa = FEATSTS_OK, port_cache = (\<lambda>_. pt_ieee8021x port_zero),
     relays = (\<lambda>_. \<lparr>policy_act = RELAY_DISCARD, relay_circ = CIRCUIT_ID_H_P, max_hop_cnt = 0, helper_address = 0,
        relay_on = False\<rparr>),
     poe_mgmt = POE_MGMT_CLASS, poe_threshold = 80,
     poe_ports = (\<lambda>i. \<lparr>poe_key = PID_TO_NAME i, poe_attrs = \<lparr>pa_admin = False, pa_detection = DETECTION_LEG,
        pa_limit = 0, pa_limit_user = False, pa_priority = POE_LOW\<rparr>\<rparr>),
     poe_bmap = [2, 0, 0, 0], auth_control = False, dac_keys = Some [], radius_keys = [],
     route_cache = no_routes, stp_cache = GNMA_STP_MODE_NONE, stp_mode_attr = stp_attr_zero,
     stp_vlan_attr = (\<lambda>_. stp_attr_zero), portsl2_rif = (\<lambda>_. ipv4_zero)\<rparr>"

definition demo_cfg :: plat_cfg where
  "demo_cfg = cfg_zero\<lparr>ports_to_cfg := [2, 0, 0, 0],
     ports := (\<lambda>_. port_zero\<lparr>pt_poe := (pt_poe port_zero)\<lparr>is_power_limit_set := True, power_limit := 15000,
       is_admin_mode_up := True\<rparr>\<rparr>),
     is_auth_ctrl_enabled := True\<rparr>"

lemma zero_bits: "BITMAP_FOR_EACH_BIT_SET (bitmap_zero 4096) 4096 = Some []"
  by (subst for_each_bits_list) (auto simp: bitmap_zero_def BITS_TO_UINT32_def bm_test_def BITMAP_TEST_BIT_def filter_empty_conv)

lemma one_port: "BITMAP_FOR_EACH_BIT_SET [2, 0, 0, 0] 100 = Some [1]"
proof -
  have "filter (bm_test [2, 0, 0, 0]) [0..<100] = [1]" by code_simp
  then show ?thesis by (subst for_each_bits_list) simp_all
qed

lemma one_poe: "BITMAP_TEST_BIT [2, 0, 0, 0] (Suc 0) = Some True" by code_simp

lemmas demo_defs = port_zero_def ipv4_zero_def demo_gnma_def demo_plat_def demo_cfg_def no_routes_def cfg_zero_def

lemmas op_defs = as_err_def guard_def branch_def reading_def for_bits_def ignore_def alloc_or_def issue_def upd_def sync_def
  fail_def defined_if_def also_do_def CFG_LOG_CRIT_def Let_def

lemmas part_defs = config_metrics_apply_def config_vlan_apply_def plat_vlan_list_set_def vlan_members_apply_def vlan_changes_def
  config_unit_apply_def config_stp_apply_def config_vlan_ipv4_apply_def config_portl2_ipv4_apply_def
  config_vlan_dhcp_relay_apply_def router_apply_def plat_port_config_apply_def
  config_ieee8021x_apply_def plat_dac_list_set_def plat_radius_hosts_list_set_def config_system_password_apply_def
  plat_syslog_set_def syslog_entries_def port_body_def port_attrs_set_def plat_port_admin_state_set_def
  config_port_ieee8021x_apply_def poe_part_def config_poe_port_apply_def poe_limit_def poe_upd_def
  plat_portl2_rif_set_def hosts_terminated_def

lemma no_routes_apply:
  "config_router_apply isort_cmp True g \<lparr>arr = [], rlen = 0, rmax = 0, sorted_flag = False\<rparr>
     \<lparr>arr = [], rlen = 0, rmax = 0, sorted_flag = True\<rparr> [] = Some (0, \<lparr>arr = [], rlen = 0, rmax = 0, sorted_flag = True\<rparr>, [])"
  by (simp add: config_router_apply_def ucentral_router_fib_db_copy_def ucentral_router_fib_db_alloc_def used_def
    ucentral_router_fib_db_sort_def isort_cmp_def for_router_db_diff.simps)

lemma demo_run: "\<exists>s'. plat_config_apply_gnma demo_gnma demo_cfg demo_plat = Some (0, s')"
  unfolding plat_config_apply_gnma_def config_parts_def
  by (simp add: part_defs demo_defs op_defs zero_bits one_port[unfolded One_nat_def]
      one_poe no_routes_apply GNMA_MAX_VLANS_def MAX_VLANS_def MAX_NUM_OF_PORTS_def)

lemma demo_mirrored: "mirrored (sw_view demo_plat) demo_plat"
proof -
  have "NAME_TO_PID (PID_TO_NAME i) = ScanVal i" if "i \<in> bm_set [2, 0, 0, 0]" for i
    using that by (intro name_pid) (simp add: bm_set_def bm_test_iff)
  then show ?thesis by (simp add: mirrors_def poe_keys_ok_def switch_def demo_plat_def)
qed


end
