(* ===== verification/Apply_Order.thy ===== *)
theory Apply_Order
  imports Apply_Props
begin

text \<open>
  What \<open>plat_config_apply\<close> of the SONiC platform asks of the switch, and in which order: the
  password is set once, after every other part succeeded, and only the logging setup follows;
  the VLANs that are not configured are removed and the members of the others are turned into
  the configured ones by a single request. A failure between the requests for the 802.1x
  attributes of a port leaves the cache wrong.
\<close>

section \<open>Requests added to the history\<close>

definition grown :: "hist \<Rightarrow> (gnma_call \<Rightarrow> bool) \<Rightarrow> plat_state \<Rightarrow> bool" where
  "grown h ok s \<longleftrightarrow> (\<exists>new. hist s = h @ new \<and> (\<forall>c \<in> fst ` set new. ok c))"

lemma grown_refl: "grown (hist s) ok s"
  by (simp add: grown_def)

lemma grown_issue: "(\<And>s. ok (c s)) \<Longrightarrow> keeps (grown h ok) (issue G c)"
  by (rule keeps_issue) (fastforce simp: grown_def)

lemma grown_upd: "(\<And>s. hist (u s) = hist s) \<Longrightarrow> keeps (grown h ok) (upd u)"
  by (rule keeps_upd) (simp add: grown_def)

lemma grown_alloc: "keeps (grown h ok) (alloc_or G r)"
  by (rule keepsI) (auto simp: alloc_or_def grown_def)

section \<open>The password is set last\<close>

definition not_password :: "gnma_call \<Rightarrow> bool" where
  "not_password c = (case c of PasswordSet _ \<Rightarrow> False | _ \<Rightarrow> True)"

definition syslog_call :: "gnma_call \<Rightarrow> bool" where
  "syslog_call c = (case c of SyslogClear \<Rightarrow> True | SyslogSet _ \<Rightarrow> True | _ \<Rightarrow> False)"

lemma plain_not_password: "plain c \<Longrightarrow> not_password c"
  by (cases c) (simp_all add: plain_def not_password_def)

lemma quiet_framed: "framed_ops (grown h not_password)"
proof unfold_locales
  fix c :: "plat_state \<Rightarrow> gnma_call" and G assume "\<And>s. plain (c s)"
  then show "keeps (grown h not_password) (issue G c)" by (intro grown_issue plain_not_password)
next
  fix u assume "\<And>s. hist (u s) = hist s \<and> core (u s) = core s"
  then show "keeps (grown h not_password) (upd u)" by (intro grown_upd) blast
qed

interpretation quiet: applied_ops "grown h not_password" for h
proof (intro applied_ops.intro quiet_framed, unfold_locales)
  show "keeps (grown h not_password) (poe_part G r i p)" for G r i p
    unfolding config_poe_port_apply_def Let_def
    by (intro keeps_poe_part framed_ops.log_keeps[OF quiet_framed])
       (auto intro!: keeps_rules grown_issue grown_upd simp: config_poe_port_apply_def Let_def not_password_def poe_upd_def)
  show "keeps (grown h not_password) (config_unit_apply G cfg)" for G cfg
    unfolding config_unit_apply_def Let_def
    by (intro keeps_rules grown_issue grown_upd) (simp_all add: not_password_def)
  show "keeps (grown h not_password) (sync G (\<lambda>s. b \<noteq> auth_control s) (\<lambda>_. AuthControl b) (\<lambda>s. s\<lparr>auth_control := b\<rparr>))" for G b
    by (intro keeps_rules grown_issue grown_upd) (simp_all add: not_password_def)
qed

lemma syslog_grown: "keeps (grown h syslog_call) (ignore (plat_syslog_set G cfg))"
  unfolding plat_syslog_set_def
  by (intro keeps_rules grown_issue grown_alloc) (simp_all add: syslog_call_def)

lemma grown_trans:
  "grown h ok t \<Longrightarrow> grown (hist t) ok' s \<Longrightarrow> (\<And>c. ok' c \<Longrightarrow> ok c) \<Longrightarrow> grown h ok s"
  unfolding grown_def by (fastforce simp: image_Un)

lemma syslog_not_password: "syslog_call c \<Longrightarrow> not_password c"
  by (cases c) (simp_all add: syslog_call_def not_password_def)

lemma password_step:
  assumes "config_system_password_apply G cfg t = Some (q, t')"
  obtains "q = 0" "t' = t" | pw where "t' = t\<lparr>hist := hist t @ [(PasswordSet pw, q)]\<rparr>"
  using assms by (auto simp: config_system_password_apply_def issue_def Let_def elim!: bindE split: if_splits)

text \<open>How a run got to the password: the parts before it succeeded.\<close>

lemma password_run:
  assumes "plat_config_apply_gnma G cfg s = Some (r, s')"
  obtains (stopped) "grown (hist s) not_password s'"
  | (set) t pw q where "seq (config_parts G cfg) s = Some (0, t)" "grown (hist s) not_password t"
      "grown (hist t @ [(PasswordSet pw, q)]) syslog_call s'" "q \<noteq> 0 \<longrightarrow> r = - 1 \<and> hist s' = hist t @ [(PasswordSet pw, q)]"
proof -
  let ?tail = "seq [config_system_password_apply G cfg, ignore (plat_syslog_set G cfg)]"
  obtain q t where parts: "seq (config_parts G cfg) s = Some (q, t)" and
    rest: "as_err (\<lambda>t. if q \<noteq> 0 then Some (q, t) else ?tail t) t = Some (r, s')"
    using assms unfolding plat_config_apply_gnma_def as_err_def seq_append by (fastforce elim!: bindE)
  have t: "grown (hist s) not_password t" by (rule keepsD[OF quiet.parts_keep parts grown_refl])
  show thesis
  proof (cases "q = 0")
    case True
    then obtain q1 t1 where pass: "config_system_password_apply G cfg t = Some (q1, t1)"
      and logs: "q1 \<noteq> 0 \<longrightarrow> r = - 1 \<and> s' = t1" "q1 = 0 \<longrightarrow> (\<exists>c. ignore (plat_syslog_set G cfg) t1 = Some (c, s'))"
      using rest by (auto simp: as_err_def elim!: bindE split: if_splits)
    have g: "grown (hist t1) syslog_call s'"
      using logs keepsD[OF syslog_grown _ grown_refl] grown_refl by (cases "q1 = 0") fastforce+
    from pass show thesis
    proof (cases rule: password_step)
      case 1
      then show thesis using stopped grown_trans[OF t _ syslog_not_password] g by simp
    next
      case (2 pw)
      then show thesis using set[of t pw q1] parts True t g logs by simp
    qed
  next
    case False
    then have "s' = t" using rest by (auto simp: as_err_def)
    then show thesis using stopped t by simp
  qed
qed

text \<open>C10. The password, which cannot be taken back, is set at most once and after everything else: if it
  was sent to the switch, every other part of the configuration had succeeded by then, no
  request before or after it in the run is another one for the password, and only the remote
  logging setup may follow. If the switch refuses it nothing follows and the run fails.\<close>

theorem password_last:
  assumes "plat_config_apply_gnma G cfg s = Some (r, s')"
  shows "\<exists>new. hist s' = hist s @ new \<and>
    (\<forall>pw q. (PasswordSet pw, q) \<in> set new \<longrightarrow>
      (\<exists>t pre post. seq (config_parts G cfg) s = Some (0, t) \<and> hist t = hist s @ pre \<and>
        new = pre @ (PasswordSet pw, q) # post \<and> list_all not_password (map fst pre) \<and>
        list_all syslog_call (map fst post) \<and> (q \<noteq> 0 \<longrightarrow> post = [] \<and> r = - 1)))"
  using assms
proof (cases rule: password_run)
  case stopped
  then obtain new where "hist s' = hist s @ new" "\<forall>c \<in> fst ` set new. not_password c" unfolding grown_def by blast
  then show ?thesis by (force simp: not_password_def)
next
  case (set t pw q)
  obtain pre where pre: "hist t = hist s @ pre" "\<forall>c \<in> fst ` set pre. not_password c"
    using set(2) unfolding grown_def by blast
  obtain post where post: "hist s' = hist s @ pre @ (PasswordSet pw, q) # post" "\<forall>c \<in> fst ` set post. syslog_call c"
    using set(3) unfolding grown_def pre(1) by auto
  have only: "pw' = pw \<and> q' = q" if "(PasswordSet pw', q') \<in> set (pre @ (PasswordSet pw, q) # post)" for pw' q'
    using that pre(2) post(2) by (force simp: not_password_def syslog_call_def)
  have "q \<noteq> 0 \<longrightarrow> post = [] \<and> r = - 1" using set(4) post(1) pre(1) by auto
  then have "list_all not_password (map fst pre) \<and> list_all syslog_call (map fst post) \<and> (q \<noteq> 0 \<longrightarrow> post = [] \<and> r = - 1)"
    using pre(2) post(2) by (simp add: list_all_iff)
  then show ?thesis using only set(1) pre(1) post(1) by blast
qed

definition demo_password :: plat_cfg where
  "demo_password = demo_cfg\<lparr>unit_cfg := (unit_cfg demo_cfg)\<lparr>password_changed := True, system_password := ''secret''\<rparr>\<rparr>"

lemma demo_password_run:
  "\<exists>s'. plat_config_apply_gnma demo_gnma demo_password demo_plat = Some (0, s') \<and> (PasswordSet ''secret'', 0) \<in> set (hist s')"
  unfolding plat_config_apply_gnma_def config_parts_def
  by (simp add: demo_password_def part_defs demo_defs op_defs zero_bits one_port[unfolded One_nat_def]
      one_poe no_routes_apply GNMA_MAX_VLANS_def MAX_VLANS_def MAX_NUM_OF_PORTS_def cstr_def)

theorem password_last_witness:
  "\<exists>s' t pre post. plat_config_apply_gnma demo_gnma demo_password demo_plat = Some (0, s') \<and>
     seq (config_parts demo_gnma demo_password) demo_plat = Some (0, t) \<and> hist t = pre \<and>
     hist s' = pre @ (PasswordSet ''secret'', 0) # post \<and> list_all syslog_call (map fst post)"
proof -
  obtain s' where run: "plat_config_apply_gnma demo_gnma demo_password demo_plat = Some (0, s')"
    and pw: "(PasswordSet ''secret'', 0) \<in> set (hist s')" using demo_password_run by blast
  have "hist demo_plat = []" by (simp add: demo_plat_def)
  then show ?thesis using password_last[OF run] run pw by force
qed

section \<open>802.1x attributes of a port\<close>

text \<open>The cache of a port's 802.1x attributes is written only after the last request. When the switch
  accepts the new authenticator mode and refuses the control mode, the function fails with the
  old attributes still cached; if the port is then configured with those again, no request is
  made and 0 is returned, although the switch has the other authenticator mode.\<close>

theorem ieee8021x_cache_stale:
  assumes "is_authenticator (port_cache s i) \<noteq> is_authenticator (pt_ieee8021x p)"
    and "control_mode (port_cache s i) \<noteq> control_mode (pt_ieee8021x p)"
    and "ans G (hist s) (PaeMode (PID_TO_NAME i) (is_authenticator (pt_ieee8021x p))) = 0"
    and "ans G (hist s @ [(PaeMode (PID_TO_NAME i) (is_authenticator (pt_ieee8021x p)), 0)])
      (PortCtrl (PID_TO_NAME i) (control_mode (pt_ieee8021x p))) = r" "r \<noteq> 0"
    and "pt_ieee8021x old = port_cache s i"
  shows "\<exists>s'. config_port_ieee8021x_apply G i p s = Some (r, s') \<and> port_cache s' = port_cache s \<and>
    hist s' = hist s @ [(PaeMode (PID_TO_NAME i) (is_authenticator (pt_ieee8021x p)), 0),
      (PortCtrl (PID_TO_NAME i) (control_mode (pt_ieee8021x p)), r)] \<and>
    config_port_ieee8021x_apply G i old s' = Some (0, s')"
  using assms by (simp add: config_port_ieee8021x_apply_def guard_def issue_def upd_def Let_def)

definition picky_gnma :: gnma where
  "picky_gnma = demo_gnma\<lparr>ans := (\<lambda>_ c. case c of PortCtrl _ _ \<Rightarrow> - 1 | _ \<Rightarrow> 0)\<rparr>"

theorem ieee8021x_cache_stale_witness:
  "\<exists>s'. config_port_ieee8021x_apply picky_gnma 1
       (port_zero\<lparr>pt_ieee8021x := (pt_ieee8021x port_zero)\<lparr>is_authenticator := True, control_mode := CONTROL_AUTO\<rparr>\<rparr>) demo_plat =
       Some (- 1, s') \<and>
     (PaeMode ''Ethernet1'' True, 0) \<in> set (hist s') \<and>
     config_port_ieee8021x_apply picky_gnma 1 port_zero s' = Some (0, s')"
proof -
  let ?p = "port_zero\<lparr>pt_ieee8021x := (pt_ieee8021x port_zero)\<lparr>is_authenticator := True, control_mode := CONTROL_AUTO\<rparr>\<rparr>"
  have n: "PID_TO_NAME (Suc 0) = ''Ethernet1''" by code_simp
  have "is_authenticator (port_cache demo_plat 1) \<noteq> is_authenticator (pt_ieee8021x ?p)"
    "control_mode (port_cache demo_plat 1) \<noteq> control_mode (pt_ieee8021x ?p)"
    "pt_ieee8021x port_zero = port_cache demo_plat 1"
    by (simp_all add: demo_plat_def port_zero_def)
  from ieee8021x_cache_stale[OF this(1,2) _ refl _ this(3), of picky_gnma] show ?thesis
    by (auto simp: picky_gnma_def n)
qed

section \<open>VLANs\<close>

text \<open>The arrays that the adapter fills have the size the platform declares, and recording the removal
  of a member in a change does not fail.\<close>

definition adapter_arrays :: "gnma \<Rightarrow> bool" where
  "adapter_arrays G \<longleftrightarrow> (\<forall>h. length (snd (gnma_vlan_list_get G h)) = BITS_TO_UINT32 GNMA_MAX_VLANS) \<and>
     (\<forall>h v. length (fst (snd (gnma_vlan_member_bmap_get G h) v)) = 8)"

definition removals_recorded :: "gnma \<Rightarrow> bool" where
  "removals_recorded G \<longleftrightarrow> (\<forall>h ops v n. gnma_change_add G h ops (MemberRemove v n) = 0)"

text \<open>The requests about a VLAN that goes.\<close>

definition retires :: "(nat \<Rightarrow> bool) \<Rightarrow> gnma_call \<Rightarrow> bool" where
  "retires goes c = (case c of RelayRemove v _ \<Rightarrow> goes v | IgmpSnooping v _ \<Rightarrow> goes v | ErifDelete v _ \<Rightarrow> goes v
     | VlanRemove v \<Rightarrow> goes v | _ \<Rightarrow> False)"

lemma keeps_guard_if: "((\<exists>s. b s) \<Longrightarrow> keeps P f) \<Longrightarrow> keeps P (guard b f)"
  by (rule keepsI) (auto simp: guard_def split: if_splits dest: keepsD)

lemma rif_retires:
  assumes "goes v"
  shows "keeps (grown h (retires goes)) (plat_vlan_rif_set G v ipv4_zero)"
  unfolding plat_vlan_rif_set_def vlan_rif_steps_def Let_def case_prod_unfold
  using assms
  by (intro keeps_as_err keeps_reading keeps_if keeps_fail keeps_seq_Cons keeps_seq_Nil keeps_at_vlan keeps_guard_if
      grown_issue grown_upd) (simp_all add: retires_def relay_upd_def ipv4_zero_def)

lemma vlan_list_retires:
  assumes "\<And>v. goes v \<longleftrightarrow> \<not> bm_test bm v \<and> v \<noteq> FIRST_VLAN"
  shows "keeps (grown h (retires goes)) (plat_vlan_list_set G bm)"
proof -
  have "keeps (grown h (retires goes)) (\<lambda>s. do { configured \<leftarrow> BITMAP_TEST_BIT bm v;
      guard (\<lambda>_. \<not> configured \<and> v \<noteq> FIRST_VLAN) (seq [plat_vlan_rif_set G v ipv4_zero, issue G (\<lambda>_. VlanRemove v)]) s })" for v
  proof (cases "goes v")
    case True
    then show ?thesis by (intro keeps_query keeps_guard keeps_seq_Cons keeps_seq_Nil rif_retires grown_issue)
        (simp_all add: retires_def)
  next
    case False
    then show ?thesis using assms[of v] by (intro keepsI) (auto simp: guard_def bm_test_def elim!: bindE split: if_splits)
  qed
  then show ?thesis
    unfolding plat_vlan_list_set_def Let_def case_prod_unfold
    by (intro keeps_reading keeps_if keeps_fail keeps_for_bits)
qed

text \<open>A VLAN that goes is removed.\<close>

lemma loop_each:
  assumes "loop_ret f xs s = Some (0, s')" "x \<in> set xs" "I s"
    and "\<And>t t'. I t \<Longrightarrow> f x t = Some (0, t') \<Longrightarrow> Q t'" "\<And>y. keeps Q (f y)" "\<And>y. keeps I (f y)"
  shows "Q s'"
  using assms(1-3)
proof (induction xs arbitrary: s)
  case (Cons y ys)
  then obtain t where t: "f y s = Some (0, t)" "loop_ret f ys t = Some (0, s')"
    by (auto elim!: bindE split: if_splits)
  have "I t" using keepsD[OF assms(6) t(1)] Cons.prems(3) .
  show ?case
  proof (cases "x = y")
    case True
    then have "Q t" using assms(4) Cons.prems(3) t(1) by simp
    then show ?thesis by (rule keepsD[OF keeps_loop[OF assms(5)] t(2)])
  qed (use Cons t \<open>I t\<close> in simp)
qed simp

lemma recorded_framed: "framed_ops (\<lambda>s. e \<in> set (drop n (hist s)))" "framed_ops (\<lambda>s. n \<le> length (hist s))"
  by (unfold_locales; auto intro!: keeps_issue keeps_upd)+

lemma vlan_list_removes:
  assumes run: "plat_vlan_list_set G bm s = Some (0, s')"
    and present: "gnma_vlan_list_get G (hist s) = (0, present)" "length present = BITS_TO_UINT32 GNMA_MAX_VLANS"
    and v: "bm_test present v" "v < GNMA_MAX_VLANS" "\<not> bm_test bm v" "v \<noteq> FIRST_VLAN"
  shows "(VlanRemove v, 0) \<in> set (drop (length (hist s)) (hist s'))"
proof -
  let ?f = "\<lambda>v s. do { configured \<leftarrow> BITMAP_TEST_BIT bm v;
      guard (\<lambda>_. \<not> configured \<and> v \<noteq> FIRST_VLAN) (seq [plat_vlan_rif_set G v ipv4_zero, issue G (\<lambda>_. VlanRemove v)]) s }"
  let ?Q = "\<lambda>t. (VlanRemove v, 0) \<in> set (drop (length (hist s)) (hist t))" and ?I = "\<lambda>t. length (hist s) \<le> length (hist t)"
  have body: "keeps P (?f y)" if "framed_ops P" for P y
    by (intro keeps_query keeps_guard keeps_seq_Cons keeps_seq_Nil framed_ops.rif_keeps[OF that]
        framed_ops.plain_issue[OF that]) (simp add: plain_def)
  have "BITMAP_FOR_EACH_BIT_SET present GNMA_MAX_VLANS = Some (filter (bm_test present) [0..<GNMA_MAX_VLANS])"
    using present(2) by (intro for_each_bits_list) (simp add: BITS_TO_UINT32_def GNMA_MAX_VLANS_def)
  then have "loop_ret ?f (filter (bm_test present) [0..<GNMA_MAX_VLANS]) s = Some (0, s')"
    using run by (simp add: plat_vlan_list_set_def reading_def present(1) for_bits_def)
  then show ?thesis
  proof (rule loop_each[where I = ?I])
    show "v \<in> set (filter (bm_test present) [0..<GNMA_MAX_VLANS])" "?I s" using v by simp_all
    fix t t' assume t: "?I t" "?f v t = Some (0, t')"
    then obtain u where u: "plat_vlan_rif_set G v ipv4_zero t = Some (0, u)" "hist t' = hist u @ [(VlanRemove v, 0)]"
      using v(3,4) by (auto simp: bm_test_def guard_def issue_def Let_def elim!: bindE split: if_splits)
    have "?I u" by (rule keepsD[OF framed_ops.rif_keeps[OF recorded_framed(2)] u(1) t(1)])
    then show "?Q t'" using u(2) by simp
  qed (rule body[OF recorded_framed(1)], rule body[OF recorded_framed(2)])
qed

lemma parsed_vlans_ok: "cfg_parse E config ps = Some (Some cfg, ps') \<Longrightarrow> vlans_ok (port_list ps') cfg"
  using cfg_parse_ok[of ps E config] by (auto simp: sections_ok_def cfg_inv_def)

lemma vlans_ok_named:
  assumes "vlans_ok names cfg"
  shows "length (vlans_to_cfg cfg) = BITS_TO_UINT32 MAX_VLANS"
    and "v \<in> bm_set (vlans_to_cfg cfg) \<Longrightarrow> vlan_id (vlans cfg v) = v \<and> members_named (members (vlans cfg v))"
proof -
  show len: "length (vlans_to_cfg cfg) = BITS_TO_UINT32 MAX_VLANS" using assms by (simp add: vlans_ok_def)
  show "vlan_id (vlans cfg v) = v \<and> members_named (members (vlans cfg v))" if "v \<in> bm_set (vlans_to_cfg cfg)"
    using assms vlans_bits(2)[OF len, of v] that
    by (auto simp: vlans_ok_def members_named_def member_ok_def bm_set_def MAX_VLANS_def)
qed


text \<open>An adapter that takes every change makes the VLAN part succeed.\<close>

lemma loop_ret_total:
  assumes "\<And>x s. x \<in> set xs \<Longrightarrow> \<exists>s'. f x s = Some (0, s')"
  shows "\<exists>s'. loop_ret f xs s = Some (0, s')"
  using assms
proof (induction xs arbitrary: s)
  case (Cons x xs)
  from Cons.prems[of x s] obtain t where "f x s = Some (0, t)" by auto
  then show ?case using Cons.IH[of t] Cons.prems by simp
qed simp

lemma memberlist_total:
  assumes "members_named (members vlan)" "vlan_id vlan < GNMA_MAX_VLANS" "\<And>ops c. gnma_change_add G h ops c = 0"
    and len: "length (fst (mbr (vlan_id vlan))) = 8" "length (snd (mbr (vlan_id vlan))) = 8"
  shows "\<exists>ops'. plat_vlan_memberlist_set G h mbr vlan ops = Some (0, ops')"
proof -
  obtain m t where mt: "member_bits (members vlan) (bitmap_zero MAX_NUM_OF_PORTS) (bitmap_zero MAX_NUM_OF_PORTS) = Some (0, m, t)"
    "length m = 4" "length t = 4"
    using member_bits_exact[OF assms(1), of "bitmap_zero MAX_NUM_OF_PORTS" "bitmap_zero MAX_NUM_OF_PORTS"]
    by (auto simp: BITS_TO_UINT32_def MAX_NUM_OF_PORTS_def)
  have test: "\<exists>b. BITMAP_TEST_BIT A i = Some b" if "i < 100" "4 \<le> length A" for A i
    using that by (simp add: BITMAP_TEST_BIT_def)
  have bits: "BITMAP_FOR_EACH_BIT_SET A MAX_NUM_OF_PORTS = Some (filter (bm_test A) [0..<100])" if "4 \<le> length A" for A
    using that for_each_bits_list[of 100 A] by (simp add: MAX_NUM_OF_PORTS_def)
  have rm: "\<exists>ops'. remove_body G h v m i ops = Some (0, ops')" if "i < 100" for v i ops
    using test[OF that, of m] mt(2) by (auto simp: remove_body_def)
  have cr: "\<exists>ops'. create_body G h (vlan_id vlan) t (mbr (vlan_id vlan)) i ops = Some (0, ops')" if "i < 100" for i ops
    using test[OF that, of t] test[OF that, of "fst (mbr (vlan_id vlan))"] test[OF that, of "snd (mbr (vlan_id vlan))"] mt(3) len
    by (auto simp: create_body_def add_op_def assms(3))
  obtain o1 where o1: "loop_ret (remove_body G h (vlan_id vlan) m) (filter (bm_test (fst (mbr (vlan_id vlan)))) [0..<100])
      (ops @ [VlanCreate (vlan_id vlan)]) = Some (0, o1)"
    using loop_ret_total[OF rm, of "filter (bm_test (fst (mbr (vlan_id vlan)))) [0..<100]"] by fastforce
  obtain o2 where "loop_ret (create_body G h (vlan_id vlan) t (mbr (vlan_id vlan))) (filter (bm_test m) [0..<100]) o1 = Some (0, o2)"
    using loop_ret_total[OF cr, of "filter (bm_test m) [0..<100]"] by fastforce
  then show ?thesis
    using o1 assms(2) mt bits len by (simp add: plat_vlan_memberlist_set_def add_op_def assms(3))
qed

lemma demo_vlans_run:
  assumes "vlans_ok names cfg"
  shows "\<exists>s'. config_vlan_apply demo_gnma cfg demo_plat = Some (0, s')"
proof -
  note cfg = vlans_ok_named[OF assms]
  let ?mbr = "\<lambda>_. (replicate 8 0, replicate 8 0)"
  have "\<exists>ops. loop_ret (\<lambda>i. plat_vlan_memberlist_set demo_gnma [] ?mbr (vlans cfg i))
      (filter (bm_test (vlans_to_cfg cfg)) [0..<4096]) [] = Some (0, ops)"
    using cfg by (intro loop_ret_total memberlist_total) (auto simp: bm_set_def GNMA_MAX_VLANS_def demo_gnma_def)
  then have "\<exists>ops. vlan_changes demo_gnma cfg [] ?mbr = Some (0, ops)"
    by (simp add: vlan_changes_def vlans_bits(1)[OF cfg(1)])
  then show ?thesis
    by (auto simp: config_vlan_apply_def plat_vlan_list_set_def vlan_members_apply_def op_defs demo_gnma_def demo_plat_def
        GNMA_MAX_VLANS_def zero_bits)
qed


end
