(* ===== verification/Plat_Script.thy ===== *)
theory Plat_Script
  imports Base64 Plat_Types "HOL-Library.Sublist"
begin

text \<open>
  Scripts on the SONiC platform (\<open>plat-gnma.c\<close>): splitting a command line into words
  (\<open>simple_wordexp\<close>), the runner that starts the allowed commands one line after the other and
  collects their output (\<open>script_runner\<close>), and the lock that admits one script at a time
  (\<open>plat_run_script\<close>). The operating system is a parameter: the answers of its calls by number.
  A loop that waits for the system has a bound on its turns; when the bound is used up the
  runner is still running, so that what is shown of it holds at every moment.
\<close>

definition SCRIPT_OUTLEN :: nat where "SCRIPT_OUTLEN = 512 * 1024"
definition SCRIPT_ARGMAX :: nat where "SCRIPT_ARGMAX = 32"
definition SCRIPT_TOKLEN :: nat where "SCRIPT_TOKLEN = 512"

section \<open>Words\<close>

definition wx_space :: "char \<Rightarrow> bool" where
  "wx_space c \<longleftrightarrow> c \<in> {CHR '' '', CHR 0x0A, CHR 0x09, CHR 0x0B, CHR 0x0D, CHR 0x0C}"

definition wx_quote :: "char \<Rightarrow> bool" where
  "wx_quote c \<longleftrightarrow> c \<in> {CHR 0x22, CHR 0x27}"

abbreviation backslash :: char where "backslash \<equiv> CHR 0x5C"

text \<open>\<open>if (oi < outsz) out[oi++] = ch; ++tl;\<close>\<close>

definition wx_put :: "nat \<Rightarrow> char \<Rightarrow> string \<times> nat \<Rightarrow> string \<times> nat" where
  "wx_put outsz c = (\<lambda>(out, tl). (if length out < outsz then out @ [c] else out, Suc tl))"

text \<open>The loop: the input that is left, the escape flag, the open quote, the output and the length of
  the token. The result adds the character that ended it (\<open>None\<close> at the end of the input).\<close>

fun wx_loop :: "nat \<Rightarrow> string \<Rightarrow> bool \<Rightarrow> char option \<Rightarrow> string \<times> nat \<Rightarrow> (string \<times> nat) \<times> char option \<times> string" where
  "wx_loop outsz [] esc q ot = (ot, None, [])"
| "wx_loop outsz (c # s) esc q ot =
     (if \<not> esc \<and> c = backslash then wx_loop outsz s True q ot
      else if esc then
        wx_loop outsz s False q
          (wx_put outsz c (if q \<noteq> None \<and> q \<noteq> Some c then wx_put outsz backslash ot else ot))
      else if q \<noteq> None then
        (if q = Some c then wx_loop outsz s False None ot else wx_loop outsz s False q (wx_put outsz c ot))
      else if wx_quote c then wx_loop outsz s False (Some c) ot
      else if wx_space c then (ot, Some c, s)
      else wx_loop outsz s False q (wx_put outsz c ot))"

definition simple_wordexp :: "string \<Rightarrow> nat \<Rightarrow> (string \<times> nat) \<times> char option \<times> string" where
  "simple_wordexp s outsz = wx_loop outsz (dropWhile wx_space s) False None ([], 0)"

text \<open>The reference: the word that the characters up to the next unquoted blank stand for, with no
  bound on its length.\<close>

fun shell_word :: "string \<Rightarrow> bool \<Rightarrow> char option \<Rightarrow> string \<times> char option \<times> string" where
  "shell_word [] esc q = ([], None, [])"
| "shell_word (c # s) True q =
     (let (w, d, rest) = shell_word s False q in
      ((if q \<noteq> None \<and> q \<noteq> Some c then [backslash, c] else [c]) @ w, d, rest))"
| "shell_word (c # s) False q =
     (if c = backslash then shell_word s True q
      else if q = Some c then shell_word s False None
      else if q = None \<and> wx_quote c then shell_word s False (Some c)
      else if q = None \<and> wx_space c then ([], Some c, s)
      else let (w, d, rest) = shell_word s False q in (c # w, d, rest))"

text \<open>What fits of a token, and its length.\<close>

definition clip :: "nat \<Rightarrow> string \<Rightarrow> string \<times> nat" where
  "clip n w = (take n w, length w)"

lemma wx_put_clip [simp]: "wx_put n c (clip n w) = clip n (w @ [c])"
  by (auto simp: wx_put_def clip_def min_def)

lemma wx_loop_word:
  "wx_loop n s esc q (clip n v) = (case shell_word s esc q of (w, d, rest) \<Rightarrow> (clip n (v @ w), d, rest))"
  by (induction s esc q arbitrary: v rule: shell_word.induct) (auto split: prod.splits)

lemma wordexp_word:
  "simple_wordexp s n = (case shell_word (dropWhile wx_space s) False None of (w, d, rest) \<Rightarrow> ((take n w, length w), d, rest))"
  using wx_loop_word[of n "dropWhile wx_space s" False None "[]"] by (simp add: simple_wordexp_def clip_def)

lemma shell_word_rest: "length (snd (snd (shell_word s esc q))) \<le> length s - 1"
proof (induction s esc q rule: shell_word.induct)
  case (2 c s q)
  then show ?case by (auto simp: case_prod_unfold Let_def)
next
  case (3 c s q)
  then show ?case
    by (cases "c = backslash"; cases "q = Some c"; cases "q = None \<and> wx_quote c"; cases "q = None \<and> wx_space c")
       (auto simp: case_prod_unfold Let_def)
qed simp

lemma wordexp_rest: "simple_wordexp s n = (ot, d, rest) \<Longrightarrow> s \<noteq> [] \<Longrightarrow> length rest < length s"
  using length_dropWhile_le[of wx_space s] shell_word_rest[of "dropWhile wx_space s" False None]
  by (cases s) (auto simp: wordexp_word split: prod.splits)

section \<open>A line\<close>

text \<open>The words of a line. \<open>ignored\<close> is set by a word that does not fit; the words after it are still
  consumed. The result is the words, that flag, the number of words and the input that is left.\<close>

function arg_loop ::
  "nat \<Rightarrow> string \<Rightarrow> char option \<Rightarrow> bool \<Rightarrow> string list \<Rightarrow> string list \<times> bool \<times> nat \<times> string" where
  "arg_loop argc script delim ignored args =
     (if argc < SCRIPT_ARGMAX \<and> script \<noteq> [] \<and> delim \<noteq> Some (CHR 0x0A)
      then let ((word, _), delim, script) = simple_wordexp script SCRIPT_TOKLEN in
        if ignored \<or> length word = SCRIPT_TOKLEN then arg_loop (Suc argc) script delim True args
        else arg_loop (Suc argc) script delim False (args @ [word])
      else (args, ignored, argc, script))"
  by pat_completeness auto
termination
  by (relation "measure (\<lambda>(argc, _). SCRIPT_ARGMAX - argc)") auto

declare arg_loop.simps [simp del]

lemma arg_loop_rest: "arg_loop argc s d i as = (as', i', n, rest) \<Longrightarrow> length rest \<le> length s"
proof (induction argc s d i as rule: arg_loop.induct)
  case (1 argc s d i as)
  obtain word k d' s' where w: "simple_wordexp s SCRIPT_TOKLEN = ((word, k), d', s')" by (metis surj_pair)
  show ?case
  proof (cases "argc < SCRIPT_ARGMAX \<and> s \<noteq> [] \<and> d \<noteq> Some (CHR 0x0A)")
    case True
    then have "length s' < length s" using wordexp_rest[OF w] by simp
    moreover have "length rest \<le> length s'"
    proof (cases "i \<or> length word = SCRIPT_TOKLEN")
      case i: True
      then have "arg_loop (Suc argc) s' d' True as = (as', i', n, rest)"
        using 1(3) True w by (subst (asm) arg_loop.simps) auto
      then show ?thesis by (rule 1(1)[OF True w[symmetric] refl refl i])
    next
      case i: False
      then have "arg_loop (Suc argc) s' d' False (as @ [word]) = (as', i', n, rest)"
        using 1(3) True w by (subst (asm) arg_loop.simps) auto
      then show ?thesis by (rule 1(2)[OF True w[symmetric] refl refl i])
    qed
    ultimately show ?thesis by simp
  next
    case False
    then have "rest = s" using 1(3) by (subst (asm) arg_loop.simps) (simp only: if_False prod.inject)
    then show ?thesis by simp
  qed
qed

lemma line_rest:
  assumes "arg_loop 0 s None False [] = (as', i', n, rest)" "s \<noteq> []"
  shows "length rest < length s"
proof -
  obtain word k d' s' where w: "simple_wordexp s SCRIPT_TOKLEN = ((word, k), d', s')" by (metis surj_pair)
  have "length s' < length s" using wordexp_rest[OF w assms(2)] .
  moreover have "length rest \<le> length s'"
    using assms w by (subst (asm) arg_loop.simps) (auto simp: SCRIPT_ARGMAX_def split: if_splits dest: arg_loop_rest)
  ultimately show ?thesis by simp
qed

section \<open>The runner\<close>

text \<open>Answers of the system calls, by the number of the call. \<open>clock_gettime\<close> fails or gives seconds and
  nanoseconds; \<open>read\<close> delivers at most the bytes that were asked for.\<close>

datatype poll_answer = Poll_Intr | Poll_Error | Poll_Timeout | Poll_Events bool bool
datatype read_answer = Read_Intr | Read_Again | Read_Error | Read_Data string
datatype wait_answer = Wait_Intr | Wait_None | Wait_Exited nat | Wait_Signaled nat | Wait_Other

record os =
  os_clock :: "nat \<Rightarrow> (int \<times> int) option"
  os_spawn :: "nat \<Rightarrow> string list \<Rightarrow> bool"
  os_poll :: "nat \<Rightarrow> int \<Rightarrow> poll_answer"
  os_read :: "nat \<Rightarrow> read_answer"
  os_wait :: "nat \<Rightarrow> wait_answer"

text \<open>The variables of the runner; \<open>bi\<close> is the length of \<open>outbuf\<close>, and \<open>spawned\<close> are the commands started.\<close>

record script_run =
  calls :: nat
  spawned :: "string list list"
  outbuf :: string
  rc :: int
  exit_status :: int
  timeout_exceeded :: bool

definition run_init :: script_run where
  "run_init = \<lparr>calls = 0, spawned = [], outbuf = [], rc = 0, exit_status = 0, timeout_exceeded = False\<rparr>"

definition tick :: "script_run \<Rightarrow> script_run" where
  "tick r = r\<lparr>calls := Suc (calls r)\<rparr>"

definition sub_timespec :: "int \<times> int \<Rightarrow> int \<times> int \<Rightarrow> int \<times> int" where
  "sub_timespec a b =
     (let d = (fst a - fst b, snd a - snd b) in if snd d < 0 then (fst d - 1, snd d + 1000000000) else d)"

text \<open>The timeout for \<open>poll\<close>, in 32 bits; a product that does not fit is undefined.\<close>

definition poll_timeout :: "int \<Rightarrow> int \<times> int \<Rightarrow> int option" where
  "poll_timeout t run =
     (let timeout = signed_take_bit 31 (t - fst run) in
      if timeout < 0 then Some 0
      else if timeout * 1000 > 2147483647 then None
      else Some (signed_take_bit 31 (timeout * 1000 + snd run div 1000000)))"

datatype read_end = Read_Running | Read_Break | Child_Finish

fun read_loop :: "os \<Rightarrow> nat \<Rightarrow> script_run \<Rightarrow> read_end \<times> script_run" where
  "read_loop sys 0 r = (Read_Running, r)"
| "read_loop sys (Suc n) r =
     (case os_read sys (calls r) of
        Read_Intr \<Rightarrow> read_loop sys n (tick r)
      | Read_Again \<Rightarrow> (Read_Break, tick r)
      | Read_Error \<Rightarrow> (Child_Finish, (tick r)\<lparr>rc := - 1\<rparr>)
      | Read_Data d \<Rightarrow>
          let got = take (SCRIPT_OUTLEN - length (outbuf r) - 1) d;
              r' = (tick r)\<lparr>outbuf := outbuf r @ got\<rparr>
          in if got = [] then (Child_Finish, r')
             else if SCRIPT_OUTLEN - 1 \<le> length (outbuf r') then (Child_Finish, r')
             else read_loop sys n r')"

text \<open>The loop over a child's output; the flag says whether it came to its end.\<close>

fun child_loop :: "os \<Rightarrow> int \<Rightarrow> int \<times> int \<Rightarrow> nat \<Rightarrow> script_run \<Rightarrow> (bool \<times> script_run) option" where
  "child_loop sys t start 0 r = Some (False, r)"
| "child_loop sys t start (Suc n) r =
     (case os_clock sys (calls r) of
        None \<Rightarrow> Some (True, (tick r)\<lparr>rc := - 1\<rparr>)
      | Some now \<Rightarrow>
          let run = sub_timespec now start; r = tick r in
          if fst run < 0 then Some (True, r\<lparr>rc := - 1\<rparr>)
          else do {
            timeout \<leftarrow> poll_timeout t run;
            (case os_poll sys (calls r) timeout of
               Poll_Intr \<Rightarrow> child_loop sys t start n (tick r)
             | Poll_Error \<Rightarrow> Some (True, (tick r)\<lparr>rc := - 1\<rparr>)
             | Poll_Timeout \<Rightarrow> Some (True, (tick r)\<lparr>timeout_exceeded := True\<rparr>)
             | Poll_Events pollin pollhup \<Rightarrow>
                 (case (if pollin then read_loop sys n (tick r) else (Read_Break, tick r)) of
                    (Read_Running, r) \<Rightarrow> Some (False, r)
                  | (Child_Finish, r) \<Rightarrow> Some (True, r)
                  | (Read_Break, r) \<Rightarrow> if pollhup then Some (True, r) else child_loop sys t start n r))
          })"

fun wait_loop :: "os \<Rightarrow> nat \<Rightarrow> script_run \<Rightarrow> bool \<times> script_run" where
  "wait_loop sys 0 r = (False, r)"
| "wait_loop sys (Suc n) r =
     (case os_wait sys (calls r) of
        Wait_Intr \<Rightarrow> wait_loop sys n (tick r)
      | Wait_None \<Rightarrow> (True, tick r)
      | Wait_Exited k \<Rightarrow> (True, (tick r)\<lparr>exit_status := int k\<rparr>)
      | Wait_Signaled k \<Rightarrow> (True, (tick r)\<lparr>exit_status := 128 + int k\<rparr>)
      | Wait_Other \<Rightarrow> wait_loop sys n (tick r))"

text \<open>A started command: its output is read, it is killed and waited for.\<close>

definition run_child :: "os \<Rightarrow> nat \<Rightarrow> int \<Rightarrow> int \<times> int \<Rightarrow> script_run \<Rightarrow> (bool \<times> script_run) option" where
  "run_child sys n t start r =
     do {
       (fin, r) \<leftarrow> child_loop sys t start n r;
       Some (if fin then wait_loop sys n (tick r) else (False, r))
     }"

definition allowed_commands :: "string list" where
  "allowed_commands = [''ping'', ''nslookup'', ''traceroute'']"

text \<open>Line after line. The loop ends because every line takes characters of the script.\<close>

function script_loop :: "os \<Rightarrow> nat \<Rightarrow> int \<Rightarrow> int \<times> int \<Rightarrow> string \<Rightarrow> script_run \<Rightarrow> (bool \<times> script_run) option" where
  "script_loop sys n t start script r =
     (if script = [] \<or> exit_status r \<noteq> 0 \<or> SCRIPT_OUTLEN - 1 \<le> length (outbuf r) \<or> rc r \<noteq> 0
      then Some (True, r)
      else case arg_loop 0 script None False [] of (args, ignored, argc, rest) \<Rightarrow>
        if ignored \<or> argc < 1 \<or> SCRIPT_ARGMAX \<le> argc then script_loop sys n t start rest r
        else if hd args \<notin> set allowed_commands then script_loop sys n t start rest r
        else if \<not> os_spawn sys (calls r) args then Some (True, (tick r)\<lparr>rc := - 1\<rparr>)
        else do {
          (fin, r) \<leftarrow> run_child sys n t start ((tick r)\<lparr>spawned := spawned r @ [args]\<rparr>);
          if fin then script_loop sys n t start rest r else Some (False, r)
        })"
  by pat_completeness auto
termination
  by (relation "measure (\<lambda>(_, _, _, _, script, _). length script)") (auto dest!: sym[of _ "arg_loop _ _ _ _ _"] line_rest)

declare script_loop.simps [simp del]

definition script_runner :: "os \<Rightarrow> nat \<Rightarrow> int \<Rightarrow> string \<Rightarrow> (bool \<times> script_run) option" where
  "script_runner sys n t script =
     (case os_clock sys 0 of
        None \<Rightarrow> Some (True, (tick run_init)\<lparr>rc := - 1\<rparr>)
      | Some start \<Rightarrow> script_loop sys n t start script (tick run_init))"

section \<open>One script at a time\<close>

text \<open>The state shared by the threads: the counter under the lock, whether a thread is to be joined,
  the job of the thread that runs, and the results handed to the callback. The mutex and
  \<open>pthread_join\<close> on a thread that has released the lock do not fail or block.\<close>

record script_job =
  job_id :: u64
  job_uri :: "string option"
  job_t :: int
  job_script :: "string option"

record script_outcome =
  so_id :: u64
  so_uri :: "string option"
  so_rc :: int
  so_exit_status :: int
  so_timeout_exceeded :: bool
  so_stdout :: string

record script_ctx =
  script_count :: nat
  is_tid_valid :: bool
  job :: "script_job option"
  results :: "script_outcome list"

definition script_ctx_init :: script_ctx where
  "script_ctx_init = \<lparr>script_count = 0, is_tid_valid = False, job = None, results = []\<rparr>"

definition script_lock_aquire :: "script_ctx \<Rightarrow> int \<times> script_ctx" where
  "script_lock_aquire s = (if script_count s = 0 then (0, s\<lparr>script_count := Suc (script_count s)\<rparr>) else (- 1, s))"

definition script_lock_release :: "script_ctx \<Rightarrow> script_ctx" where
  "script_lock_release s = (if script_count s \<noteq> 0 then s\<lparr>script_count := script_count s - 1\<rparr> else s)"

text \<open>The decoded script as the string that the zeroed buffer holds.\<close>

definition script_text :: "bool \<Rightarrow> string \<Rightarrow> string option option" where
  "script_text buf_ok b64 =
     (if \<not> buf_ok then Some None
      else do {
        (n, buf) \<leftarrow> base64_decode b64 (replicate (BASE64_DECODE_OUT_SIZE (length b64) + 1) 0);
        Some (if n = 0 then None else Some (map (\<lambda>b. char_of (unat b)) (takeWhile (\<lambda>b. b \<noteq> 0) buf)))
      })"

text \<open>\<open>ok\<close> tells whether the script buffer, the output buffer and the thread could be created.\<close>

definition plat_run_script_gnma :: "bool \<times> bool \<times> bool \<Rightarrow> plat_run_script \<Rightarrow> script_ctx \<Rightarrow> (int \<times> script_ctx) option" where
  "plat_run_script_gnma ok p s =
     (if scr_timeout p > 2147483647 then Some (- 1, s)
      else case script_lock_aquire s of (ret, s) \<Rightarrow>
        if ret \<noteq> 0 then Some (- 1, s)
        else do {
          let s = s\<lparr>is_tid_valid := False\<rparr>;
          text \<leftarrow> (case scr_type p of
              SCRIPT_SHELL \<Rightarrow> do {
                b64 \<leftarrow> scr_base64 p;
                t \<leftarrow> script_text (fst ok) b64;
                Some (if fst (snd ok) then map_option Some t else None)
              }
            | SCRIPT_DIAGNOSTICS \<Rightarrow> Some (Some None)
            | SCRIPT_NA \<Rightarrow> Some None);
          Some (case text of
              Some script \<Rightarrow>
                if snd (snd ok)
                then (0, s\<lparr>is_tid_valid := True,
                     job := Some \<lparr>job_id = scr_id p, job_uri = scr_uri p, job_t = signed_take_bit 31 (scr_timeout p),
                                  job_script = script\<rparr>\<rparr>)
                else (- 1, script_lock_release s)
            | None \<Rightarrow> (- 1, script_lock_release s))
        })"

text \<open>The end of a runner: the callback gets the outcome, then the lock is released.\<close>

definition runner_done :: "script_job \<Rightarrow> script_run \<Rightarrow> script_ctx \<Rightarrow> script_ctx" where
  "runner_done j r s =
     script_lock_release (s\<lparr>job := None, results := results s @
       [\<lparr>so_id = job_id j, so_uri = job_uri j, so_rc = rc r, so_exit_status = exit_status r,
         so_timeout_exceeded = timeout_exceeded r, so_stdout = outbuf r\<rparr>]\<rparr>)"

text \<open>\<open>diagnostic_runner\<close>: the path of the file is the result; it returns when the file is there.\<close>

definition diagnostic_done :: "script_job \<Rightarrow> bool \<Rightarrow> string \<Rightarrow> script_ctx \<Rightarrow> script_ctx" where
  "diagnostic_done j started path s =
     script_lock_release (s\<lparr>job := None, results := results s @
       [\<lparr>so_id = job_id j, so_uri = job_uri j, so_rc = 0, so_exit_status = (if started then 0 else 1),
         so_timeout_exceeded = False, so_stdout = path\<rparr>]\<rparr>)"

inductive script_reach :: "script_ctx \<Rightarrow> plat_run_script list \<Rightarrow> bool" where
  start: "script_reach script_ctx_init []"
| refused: "script_reach s acc \<Longrightarrow> plat_run_script_gnma ok p s = Some (ret, s') \<Longrightarrow> ret \<noteq> 0 \<Longrightarrow> script_reach s' acc"
| accepted: "script_reach s acc \<Longrightarrow> plat_run_script_gnma ok p s = Some (0, s') \<Longrightarrow> script_reach s' (acc @ [p])"
| shell_end: "script_reach s acc \<Longrightarrow> job s = Some j \<Longrightarrow> job_script j = Some script \<Longrightarrow>
    script_runner sys n (job_t j) script = Some (True, r) \<Longrightarrow> script_reach (runner_done j r s) acc"
| diagnostic_end: "script_reach s acc \<Longrightarrow> job s = Some j \<Longrightarrow> job_script j = None \<Longrightarrow>
    script_reach (diagnostic_done j started path s) acc"

text \<open>The invariant: the counter tells whether a thread runs, and the requests accepted so far are those
  with a result followed by the one that runs.\<close>

definition script_inv :: "script_ctx \<Rightarrow> plat_run_script list \<Rightarrow> bool" where
  "script_inv s acc \<longleftrightarrow> script_count s = (if job s = None then 0 else 1) \<and>
     map (\<lambda>o'. (so_id o', so_uri o')) (results s) @ (case job s of None \<Rightarrow> [] | Some j \<Rightarrow> [(job_id j, job_uri j)]) =
     map (\<lambda>p. (scr_id p, scr_uri p)) acc"

lemma run_script_refused: "script_inv s acc \<Longrightarrow> plat_run_script_gnma ok p s = Some (ret, s') \<Longrightarrow> ret \<noteq> 0 \<Longrightarrow> script_inv s' acc"
  by (auto simp: plat_run_script_gnma_def script_inv_def script_lock_aquire_def script_lock_release_def Let_def
      elim!: bindE split: if_splits option.splits script_type.splits)

lemma run_script_accepted: "script_inv s acc \<Longrightarrow> plat_run_script_gnma ok p s = Some (0, s') \<Longrightarrow> script_inv s' (acc @ [p])"
  by (auto simp: plat_run_script_gnma_def script_inv_def script_lock_aquire_def script_lock_release_def Let_def
      elim!: bindE split: if_splits option.splits script_type.splits)

lemma script_reach_inv: "script_reach s acc \<Longrightarrow> script_inv s acc"
proof (induction rule: script_reach.induct)
  case (shell_end s acc j)
  then show ?case by (auto simp: script_inv_def runner_done_def script_lock_release_def)
next
  case (diagnostic_end s acc j)
  then show ?case by (auto simp: script_inv_def diagnostic_done_def script_lock_release_def)
next
  case start
  show ?case by (simp add: script_inv_def script_ctx_init_def)
qed (blast intro: run_script_refused run_script_accepted)+

section \<open>Properties\<close>

text \<open>C29. \<open>simple_wordexp\<close> agrees with the reference: it stores what fits of the word that the input up to
  the next unquoted blank stands for, never more than the buffer holds, tells the whole length
  of that word, the character that ended it, and leaves the rest of the input.\<close>

theorem simple_wordexp_exact:
  "simple_wordexp s outsz =
     (case shell_word (dropWhile wx_space s) False None of (w, d, rest) \<Rightarrow> ((take outsz w, length w), d, rest))"
  by (rule wordexp_word)

text \<open>Every word can be written by escaping each of its characters.\<close>

definition escaped :: "string \<Rightarrow> string" where
  "escaped w = concat (map (\<lambda>c. [backslash, c]) w)"

fun script_line :: "string list \<Rightarrow> string" where
  "script_line [] = []"
| "script_line [w] = escaped w @ [CHR 0x0A]"
| "script_line (w # ws) = escaped w @ CHR '' '' # script_line ws"

lemma escaped_word: "wx_space c \<Longrightarrow> shell_word (escaped w @ c # rest) False None = (w, Some c, rest)"
proof (induction w)
  case Nil
  then show ?case by (auto simp: escaped_def wx_space_def wx_quote_def)
next
  case (Cons a w)
  then show ?case by (simp add: escaped_def)
qed

lemma escaped_wordexp:
  assumes "wx_space c" "w \<noteq> []" "length w < SCRIPT_TOKLEN"
  shows "simple_wordexp (escaped w @ c # rest) SCRIPT_TOKLEN = ((w, length w), Some c, rest)"
proof -
  have "dropWhile wx_space (escaped w @ c # rest) = escaped w @ c # rest"
    using assms(2) by (cases w) (auto simp: escaped_def wx_space_def)
  then show ?thesis using assms by (simp add: wordexp_word escaped_word)
qed

lemma arg_loop_line:
  assumes "ws \<noteq> []" "\<forall>w \<in> set ws. w \<noteq> [] \<and> length w < SCRIPT_TOKLEN" "argc + length ws < SCRIPT_ARGMAX"
    and "d \<noteq> Some (CHR 0x0A)"
  shows "arg_loop argc (script_line ws @ rest) d False args = (args @ ws, False, argc + length ws, rest)"
  using assms
proof (induction ws arbitrary: argc d args rule: script_line.induct)
  case (2 w)
  then have "simple_wordexp (script_line [w] @ rest) SCRIPT_TOKLEN = ((w, length w), Some (CHR 0x0A), rest)"
    using escaped_wordexp[of "CHR 0x0A" w rest] by (simp add: wx_space_def)
  moreover have "script_line [w] @ rest \<noteq> []" by simp
  moreover have "arg_loop (Suc argc) rest (Some (CHR 0x0A)) False (args @ [w]) = (args @ [w], False, Suc argc, rest)"
    by (simp add: arg_loop.simps)
  ultimately show ?case using 2 by (subst arg_loop.simps) auto
next
  case (3 w v ws)
  let ?l = "script_line (v # ws)"
  have "simple_wordexp (script_line (w # v # ws) @ rest) SCRIPT_TOKLEN = ((w, length w), Some (CHR '' ''), ?l @ rest)"
    using 3(3) escaped_wordexp[of "CHR '' ''" w "?l @ rest"] by (simp add: wx_space_def)
  moreover have "script_line (w # v # ws) @ rest \<noteq> []" by simp
  moreover have "arg_loop (Suc argc) (?l @ rest) (Some (CHR '' '')) False (args @ [w]) =
      ((args @ [w]) @ v # ws, False, Suc argc + length (v # ws), rest)"
    using 3 by (intro 3(1)) auto
  ultimately show ?case using 3 by (subst arg_loop.simps) auto
qed simp

text \<open>A line written by escaping every character of its words, with one blank between them and a
  line feed at the end, is split into exactly these words, whatever characters they have, and
  nothing of the next line is taken: for fewer than 32 words, none empty and each below 512 characters.\<close>

theorem script_line_roundtrip:
  assumes "ws \<noteq> []" "\<forall>w \<in> set ws. w \<noteq> [] \<and> length w < SCRIPT_TOKLEN" "length ws < SCRIPT_ARGMAX"
  shows "arg_loop 0 (script_line ws @ rest) None False [] = (ws, False, length ws, rest)"
  using arg_loop_line[of ws 0 None rest "[]"] assms by simp

theorem script_line_roundtrip_witness:
  "arg_loop 0 (script_line [''ping'', ''a b''] @ ''ping'') None False [] = ([''ping'', ''a b''], False, 2, ''ping'')"
  using script_line_roundtrip[of "[''ping'', ''a b'']" "''ping''"]
  by (simp add: SCRIPT_TOKLEN_def SCRIPT_ARGMAX_def)

text \<open>The words with a blank after the last one, before the line feed.\<close>

fun blank_line :: "string list \<Rightarrow> string" where
  "blank_line [] = [CHR 0x0A]"
| "blank_line (w # ws) = escaped w @ CHR '' '' # blank_line ws"

lemma arg_loop_skip: "argc < SCRIPT_ARGMAX \<Longrightarrow> d \<noteq> Some (CHR 0x0A) \<Longrightarrow> s \<noteq> [] \<Longrightarrow> arg_loop argc (CHR 0x0A # s) d i as = arg_loop argc s d i as"
  by (subst (1 2) arg_loop.simps) (simp add: simple_wordexp_def wx_space_def)

lemma script_line_ne [simp]: "script_line vs \<noteq> [] \<longleftrightarrow> vs \<noteq> []"
  by (cases vs rule: script_line.cases) simp_all

lemma arg_loop_blank:
  assumes "\<forall>w \<in> set (ws @ vs). w \<noteq> [] \<and> length w < SCRIPT_TOKLEN" "argc + length (ws @ vs) < SCRIPT_ARGMAX" "vs \<noteq> []"
    and "d \<noteq> Some (CHR 0x0A)"
  shows "arg_loop argc (blank_line ws @ script_line vs @ rest) d False args =
    (args @ ws @ vs, False, argc + length (ws @ vs), rest)"
  using assms
proof (induction ws arbitrary: argc d args)
  case Nil
  then show ?case using arg_loop_line[of vs argc d rest args] by (simp add: arg_loop_skip)
next
  case (Cons w ws)
  let ?l = "blank_line ws @ script_line vs @ rest"
  have "simple_wordexp (blank_line (w # ws) @ script_line vs @ rest) SCRIPT_TOKLEN = ((w, length w), Some (CHR '' ''), ?l)"
    using Cons.prems(1) escaped_wordexp[of "CHR '' ''" w ?l] by (simp add: wx_space_def)
  moreover have "blank_line (w # ws) @ script_line vs @ rest \<noteq> []" by simp
  moreover have "arg_loop (Suc argc) ?l (Some (CHR '' '')) False (args @ [w]) =
      ((args @ [w]) @ ws @ vs, False, Suc argc + length (ws @ vs), rest)"
    using Cons.prems by (intro Cons.IH) auto
  ultimately show ?case using Cons.prems by (subst arg_loop.simps) auto
qed

text \<open>A blank at the end of a line hides its line feed: the next call skips the line feed with the
  other leading blanks, so the line and the one after it are run as a single command.\<close>

theorem trailing_blank_joins_lines:
  assumes "\<forall>w \<in> set (ws @ vs). w \<noteq> [] \<and> length w < SCRIPT_TOKLEN" "length (ws @ vs) < SCRIPT_ARGMAX" "vs \<noteq> []"
  shows "arg_loop 0 (blank_line ws @ script_line vs @ rest) None False [] = (ws @ vs, False, length (ws @ vs), rest)"
  using arg_loop_blank[of ws vs 0 None rest "[]"] assms by simp

theorem trailing_blank_joins_lines_witness:
  "arg_loop 0 (blank_line [''ping'', ''a''] @ script_line [''nslookup'', ''b''] @ []) None False [] =
     ([''ping'', ''a'', ''nslookup'', ''b''], False, 4, [])"
  using trailing_blank_joins_lines[of "[''ping'', ''a'']" "[''nslookup'', ''b'']" "[]"]
  by (simp add: SCRIPT_TOKLEN_def SCRIPT_ARGMAX_def)

text \<open>The commands of a script: its lines that are not ignored and that start an allowed command.\<close>

definition line_command :: "string list \<times> bool \<times> nat \<times> string \<Rightarrow> string list list" where
  "line_command = (\<lambda>(args, ignored, argc, _).
     if ignored \<or> argc < 1 \<or> SCRIPT_ARGMAX \<le> argc \<or> hd args \<notin> set allowed_commands then [] else [args])"

lemma line_shorter: "script \<noteq> [] \<Longrightarrow> length (snd (snd (snd (arg_loop 0 script None False [])))) < length script"
  by (cases "arg_loop 0 script None False []") (auto dest: line_rest)

function script_commands :: "string \<Rightarrow> string list list" where
  "script_commands script =
     (if script = [] then []
      else let l = arg_loop 0 script None False [] in line_command l @ script_commands (snd (snd (snd l))))"
  by pat_completeness auto
termination
  by (relation "measure length") (auto dest: line_shorter)

declare script_commands.simps [simp del]

text \<open>The words of a line that is not ignored: as many as were counted, each of them terminated in its array.\<close>

lemma word_fits: "simple_wordexp s SCRIPT_TOKLEN = ((word, k), d, rest) \<Longrightarrow> length word \<le> SCRIPT_TOKLEN"
  by (auto simp: wordexp_word split: prod.splits)

lemma arg_loop_words:
  assumes "arg_loop argc s d i as = (as', i', n, rest)" "\<not> i \<longrightarrow> length as = argc" "\<forall>w \<in> set as. length w < SCRIPT_TOKLEN"
  shows "(\<not> i' \<longrightarrow> length as' = n) \<and> (\<forall>w \<in> set as'. length w < SCRIPT_TOKLEN)"
  using assms
proof (induction argc s d i as rule: arg_loop.induct)
  case (1 argc s d i as)
  obtain word k d' s' where w: "simple_wordexp s SCRIPT_TOKLEN = ((word, k), d', s')" by (metis surj_pair)
  show ?case
  proof (cases "argc < SCRIPT_ARGMAX \<and> s \<noteq> [] \<and> d \<noteq> Some (CHR 0x0A)")
    case True
    show ?thesis
    proof (cases "i \<or> length word = SCRIPT_TOKLEN")
      case i: True
      then have "arg_loop (Suc argc) s' d' True as = (as', i', n, rest)"
        using 1(3) True w by (subst (asm) arg_loop.simps) auto
      then show ?thesis using 1(5) by (intro 1(1)[OF True w[symmetric] refl refl i]) simp_all
    next
      case i: False
      then have "arg_loop (Suc argc) s' d' False (as @ [word]) = (as', i', n, rest)"
        using 1(3) True w by (subst (asm) arg_loop.simps) auto
      then show ?thesis using 1(4,5) i word_fits[OF w] by (intro 1(2)[OF True w[symmetric] refl refl i]) auto
    qed
  next
    case False
    then have "as' = as \<and> i' = i \<and> n = argc" using 1(3) by (subst (asm) arg_loop.simps) (simp only: if_False prod.inject)
    then show ?thesis using 1(4,5) by simp
  qed
qed

definition command_ok :: "string list \<Rightarrow> bool" where
  "command_ok args \<longleftrightarrow> args \<noteq> [] \<and> length args < SCRIPT_ARGMAX \<and> hd args \<in> set allowed_commands \<and>
     (\<forall>w \<in> set args. length w < SCRIPT_TOKLEN)"

lemma line_command_ok: "args \<in> set (line_command (arg_loop 0 s None False [])) \<Longrightarrow> command_ok args"
  using arg_loop_words[of 0 s None False "[]"]
  by (cases "arg_loop 0 s None False []") (auto simp: line_command_def command_ok_def split: if_splits)

lemma script_commands_ok: "args \<in> set (script_commands s) \<Longrightarrow> command_ok args"
proof (induction s rule: script_commands.induct)
  case (1 s)
  then show ?case by (subst (asm) (2) script_commands.simps) (auto simp: Let_def dest: line_command_ok split: if_splits)
qed

text \<open>A child adds output within the buffer and starts nothing.\<close>

definition run_inv :: "string list list \<Rightarrow> script_run \<Rightarrow> bool" where
  "run_inv cs r \<longleftrightarrow> spawned r = cs \<and> length (outbuf r) < SCRIPT_OUTLEN"

lemma tick_simps [simp]:
  "spawned (tick r) = spawned r" "outbuf (tick r) = outbuf r" "exit_status (tick r) = exit_status r" "rc (tick r) = rc r"
  by (simp_all add: tick_def)

lemma read_loop_inv: "run_inv cs r \<Longrightarrow> run_inv cs (snd (read_loop sys n r))"
proof (induction sys n r rule: read_loop.induct)
  case (2 sys n r)
  have "length (outbuf r) + length (take (SCRIPT_OUTLEN - length (outbuf r) - 1) d) < SCRIPT_OUTLEN" for d :: string
    using 2(3) by (auto simp: run_inv_def min_def)
  then show ?case
    using 2 by (auto simp: run_inv_def Let_def split: read_answer.splits)
qed simp

lemma run_inv_simps [simp]:
  "run_inv cs (tick r) = run_inv cs r" "run_inv cs (r\<lparr>rc := k\<rparr>) = run_inv cs r"
  "run_inv cs (r\<lparr>timeout_exceeded := b\<rparr>) = run_inv cs r" "run_inv cs (r\<lparr>exit_status := k\<rparr>) = run_inv cs r"
  by (simp_all add: run_inv_def)

lemma read_loop_invD: "read_loop sys n r = (e, r') \<Longrightarrow> run_inv cs r \<Longrightarrow> run_inv cs r'"
  using read_loop_inv[of cs r sys n] by simp

lemma child_loop_inv: "child_loop sys t start n r = Some (fin, r') \<Longrightarrow> run_inv cs r \<Longrightarrow> run_inv cs r'"
proof (induction n arbitrary: r)
  case (Suc n)
  have tt: "run_inv cs (tick (tick r))" using Suc.prems(2) by simp
  show ?case
    using Suc.prems Suc.IH read_loop_invD[OF _ tt]
    by (auto simp: Let_def elim!: bindE split: option.splits if_splits poll_answer.splits prod.splits read_end.splits)
qed simp

text \<open>A clock whose seconds are not negative and fit 31 bits, and a timeout whose product fits.\<close>

definition clock_small :: "os \<Rightarrow> bool" where
  "clock_small sys \<longleftrightarrow> (\<forall>k now. os_clock sys k = Some now \<longrightarrow> 0 \<le> fst now \<and> fst now < 2 ^ 31)"

lemma clock_smallD: "clock_small sys \<Longrightarrow> os_clock sys k = Some now \<Longrightarrow> 0 \<le> fst now \<and> fst now < 2 ^ 31"
  unfolding clock_small_def by blast

definition timeout_ok :: "os \<Rightarrow> int \<Rightarrow> int \<times> int \<Rightarrow> bool" where
  "timeout_ok sys t start \<longleftrightarrow> clock_small sys \<and> 0 \<le> t \<and> t \<le> 2147483 \<and> 0 \<le> fst start"

lemma poll_timeout_defined:
  assumes "0 \<le> fst run" "fst run < 2 ^ 31" "0 \<le> t" "t \<le> 2147483"
  shows "\<exists>k. poll_timeout t run = Some k"
proof -
  have "signed_take_bit 31 (t - fst run) = t - fst run" using assms by (intro signed_take_bit_int_eq_self) auto
  moreover have "(t - fst run) * 1000 \<le> 2147483 * 1000" using assms by (intro mult_right_mono) auto
  ultimately show ?thesis unfolding poll_timeout_def Let_def by simp
qed

lemma run_small: "timeout_ok sys t start \<Longrightarrow> os_clock sys k = Some now \<Longrightarrow> fst (sub_timespec now start) < 2 ^ 31"
  using clock_smallD[of sys k now] by (auto simp: timeout_ok_def sub_timespec_def Let_def)

lemma child_loop_defined: "timeout_ok sys t start \<Longrightarrow> \<exists>x. child_loop sys t start n r = Some x"
proof (induction n arbitrary: r)
  case (Suc n)
  show ?case
  proof (cases "os_clock sys (calls r)")
    case (Some now)
    let ?run = "sub_timespec now start"
    show ?thesis
    proof (cases "fst ?run < 0")
      case False
      then obtain k where "poll_timeout t ?run = Some k" 
        using poll_timeout_defined[of ?run t] run_small[OF Suc.prems Some] Suc.prems by (auto simp: timeout_ok_def)
      then show ?thesis using Some False Suc.IH[OF Suc.prems]
        by (auto simp: Let_def split: poll_answer.splits prod.splits read_end.splits)
    qed (auto simp: Some Let_def)
  qed auto
qed auto

lemma wait_loop_inv: "run_inv cs r \<Longrightarrow> run_inv cs (snd (wait_loop sys n r))"
  by (induction sys n r rule: wait_loop.induct) (auto split: wait_answer.splits)

lemma run_child_inv: "run_child sys n t start r = Some (fin, r') \<Longrightarrow> run_inv cs r \<Longrightarrow> run_inv cs r'"
proof -
  assume "run_child sys n t start r = Some (fin, r')" and r: "run_inv cs r"
  then obtain f r1 where child: "child_loop sys t start n r = Some (f, r1)"
    and w: "(if f then wait_loop sys n (tick r1) else (False, r1)) = (fin, r')"
    by (auto simp: run_child_def elim!: bindE)
  have "run_inv cs r1" by (rule child_loop_inv[OF child r])
  then show "run_inv cs r'" using w wait_loop_inv[of cs "tick r1" sys n] by (auto split: if_splits)
qed

lemma run_child_defined: "timeout_ok sys t start \<Longrightarrow> \<exists>x. run_child sys n t start r = Some x"
  using child_loop_defined[of sys t start n r] by (auto simp: run_child_def)

lemma script_loop_defined: "timeout_ok sys t start \<Longrightarrow> \<exists>x. script_loop sys n t start script r = Some x"
proof (induction sys n t start script r rule: script_loop.induct)
  case (1 sys n t start script r)
  obtain args i k rest where l: "arg_loop 0 script None False [] = (args, i, k, rest)" by (metis surj_pair)
  show ?case
    using 1 l run_child_defined[OF 1(4), of n "(tick r)\<lparr>spawned := spawned r @ [args]\<rparr>"]
    by (subst script_loop.simps) (auto split: prod.splits)
qed

definition runs_prefix :: "string list list \<Rightarrow> script_run \<Rightarrow> script_run \<Rightarrow> bool" where
  "runs_prefix cmds r r' \<longleftrightarrow> length (outbuf r') < SCRIPT_OUTLEN \<and> (\<exists>cs. prefix cs cmds \<and> spawned r' = spawned r @ cs)"

lemma runs_prefix_Cons:
  assumes "spawned r1 = spawned r @ [c]" "runs_prefix cmds r1 r'"
  shows "runs_prefix (c # cmds) r r'"
proof -
  obtain cs where "prefix cs cmds" "spawned r' = spawned r @ c # cs" using assms by (auto simp: runs_prefix_def)
  then show ?thesis using assms(2) by (auto simp: runs_prefix_def intro!: exI[of _ "c # cs"])
qed

lemma script_loop_inv:
  assumes "script_loop sys n t start script r = Some (fin, r')" "length (outbuf r) < SCRIPT_OUTLEN"
  shows "runs_prefix (script_commands script) r r'"
  using assms
proof (induction sys n t start script r rule: script_loop.induct)
  case (1 sys n t start script r)
  obtain args i k rest where l: "arg_loop 0 script None False [] = (args, i, k, rest)" by (metis surj_pair)
  let ?stop = "script = [] \<or> exit_status r \<noteq> 0 \<or> SCRIPT_OUTLEN - 1 \<le> length (outbuf r) \<or> rc r \<noteq> 0"
  let ?skip = "i \<or> k < 1 \<or> SCRIPT_ARGMAX \<le> k"
  let ?r = "(tick r)\<lparr>spawned := spawned r @ [args]\<rparr>"
  note run = 1(4)[unfolded script_loop.simps[of sys n t start script r] l prod.case]
  have stay: "runs_prefix cmds r r" for cmds using 1(5) by (auto simp: runs_prefix_def)
  have cmds: "script_commands script = line_command (args, i, k, rest) @ script_commands rest" if "\<not> ?stop"
    using that l by (subst script_commands.simps) (simp add: Let_def)
  have none: "line_command (args, i, k, rest) = []" if "?skip \<or> hd args \<notin> set allowed_commands"
    using that by (auto simp: line_command_def)
  consider (stop) ?stop | (skip) "\<not> ?stop" ?skip | (other) "\<not> ?stop" "\<not> ?skip" "hd args \<notin> set allowed_commands"
    | (nospawn) "\<not> ?stop" "\<not> ?skip" "hd args \<in> set allowed_commands" "\<not> os_spawn sys (calls r) args"
    | (spawn) "\<not> ?stop" "\<not> ?skip" "hd args \<in> set allowed_commands" "os_spawn sys (calls r) args" by blast
  then show ?case
  proof cases
    case skip
    then have "script_loop sys n t start rest r = Some (fin, r')" using run by simp
    then show ?thesis using 1(1)[OF skip(1) l[symmetric] refl refl skip(2)] 1(5) cmds[OF skip(1)] none[OF disjI1[OF skip(2)]] by simp
  next
    case other
    then have "script_loop sys n t start rest r = Some (fin, r')" using run by simp
    then show ?thesis using 1(2)[OF other(1) l[symmetric] refl refl other(2,3)] 1(5) cmds[OF other(1)] none[OF disjI2[OF other(3)]] by simp
  next
    case spawn
    then obtain f1 r1 where child: "run_child sys n t start ?r = Some (f1, r1)"
      and rest: "if f1 then script_loop sys n t start rest r1 = Some (fin, r') else r' = r1"
      using run by (auto elim!: bindE split: if_splits)
    have inv: "run_inv (spawned r @ [args]) r1" using run_child_inv[OF child] 1(5) by (simp add: run_inv_def)
    have "runs_prefix (script_commands rest) r1 r'"
    proof (cases f1)
      case True
      then have "script_loop sys n t start rest r1 = Some (fin, r')" using rest by simp
      then show ?thesis
        using 1(3)[OF spawn(1) l[symmetric] refl refl spawn(2) _ _ child refl True] spawn(3,4) inv
        by (simp add: run_inv_def)
    qed (use rest inv in \<open>auto simp: runs_prefix_def run_inv_def\<close>)
    then have "runs_prefix (args # script_commands rest) r r'" using inv by (intro runs_prefix_Cons) (simp_all add: run_inv_def)
    then show ?thesis using spawn cmds by (simp add: line_command_def)
  qed (use run stay in \<open>auto simp: runs_prefix_def\<close>)
qed

text \<open>C12. Whatever the script is and whatever the system answers, at every moment of a run the commands
  started so far are the first ones of the script's commands, in order; each of them is one of
  the three allowed commands with fewer than 32 terminated words; and the output is inside its
  buffer with room for the terminator. With a timeout of 0 to 2147483 seconds and a clock whose
  seconds fit 31 bits no step is undefined.\<close>

theorem script_runner_safe:
  "(\<forall>fin r. script_runner sys n t script = Some (fin, r) \<longrightarrow>
      prefix (spawned r) (script_commands script) \<and> (\<forall>args \<in> set (spawned r). command_ok args) \<and>
      length (outbuf r) < SCRIPT_OUTLEN) \<and>
    (0 \<le> t \<and> t \<le> 2147483 \<and> clock_small sys \<longrightarrow> script_runner sys n t script \<noteq> None)"
proof (intro conjI allI impI)
  fix fin r assume run: "script_runner sys n t script = Some (fin, r)"
  have "runs_prefix (script_commands script) run_init r"
  proof (cases "os_clock sys 0")
    case None
    then show ?thesis using run by (auto simp: script_runner_def runs_prefix_def run_init_def SCRIPT_OUTLEN_def)
  next
    case (Some start)
    then have "script_loop sys n t start script (tick run_init) = Some (fin, r)" using run by (simp add: script_runner_def)
    from script_loop_inv[OF this] show ?thesis by (simp add: runs_prefix_def run_init_def SCRIPT_OUTLEN_def)
  qed
  then have p: "prefix (spawned r) (script_commands script)" "length (outbuf r) < SCRIPT_OUTLEN"
    by (auto simp: runs_prefix_def run_init_def)
  then show "prefix (spawned r) (script_commands script)" "length (outbuf r) < SCRIPT_OUTLEN" by simp_all
  show "\<forall>args \<in> set (spawned r). command_ok args"
    using set_mono_prefix[OF p(1)] script_commands_ok by blast
next
  assume t: "0 \<le> t \<and> t \<le> 2147483 \<and> clock_small sys"
  show "script_runner sys n t script \<noteq> None"
  proof (cases "os_clock sys 0")
    case (Some start)
    then have "timeout_ok sys t start" using t clock_smallD[of sys 0 start] by (simp add: timeout_ok_def)
    from script_loop_defined[OF this] Some show ?thesis by (auto simp: script_runner_def)
  qed (simp add: script_runner_def)
qed

text \<open>A system on which every command exits at once.\<close>

definition demo_os :: os where
  "demo_os = \<lparr>os_clock = (\<lambda>_. Some (0, 0)), os_spawn = (\<lambda>_ _. True), os_poll = (\<lambda>_ _. Poll_Events True True),
     os_read = (\<lambda>_. Read_Again), os_wait = (\<lambda>_. Wait_Exited 0)\<rparr>"

definition demo_script :: string where
  "demo_script = script_line [''ping'', ''a''] @ script_line [''reboot''] @ script_line [''nslookup'', ''b'']"

lemma demo_child:
  "run_child demo_os 2 30 (0, 0) r = Some (True, r\<lparr>calls := calls r + 5, exit_status := 0\<rparr>)"
  by (simp add: run_child_def demo_os_def numeral_2_eq_2 sub_timespec_def Let_def poll_timeout_def tick_def signed_take_bit_int_eq_self)

lemma demo_lines:
  "arg_loop 0 (script_line [''ping'', ''a''] @ rest) None False [] = ([''ping'', ''a''], False, 2, rest)"
  "arg_loop 0 (script_line [''reboot''] @ rest) None False [] = ([''reboot''], False, 1, rest)"
  "arg_loop 0 (script_line [''nslookup'', ''b'']) None False [] = ([''nslookup'', ''b''], False, 2, [])"
  using arg_loop_line[of "[''nslookup'', ''b'']" 0 None "[]" "[]"]
  by (simp_all add: arg_loop_line SCRIPT_TOKLEN_def SCRIPT_ARGMAX_def del: script_line.simps)

theorem script_runner_safe_witness:
  "\<exists>r. script_runner demo_os 2 30 demo_script = Some (True, r) \<and>
     spawned r = [[''ping'', ''a''], [''nslookup'', ''b'']] \<and> prefix (spawned r) (script_commands demo_script)"
proof -
  have "\<exists>r. script_runner demo_os 2 30 demo_script = Some (True, r) \<and> spawned r = [[''ping'', ''a''], [''nslookup'', ''b'']]"
    unfolding script_runner_def demo_script_def
    by (simp add: demo_os_def[THEN arg_cong[of _ _ os_clock]] demo_os_def[THEN arg_cong[of _ _ os_spawn]] run_init_def tick_def
        script_loop.simps[of demo_os] demo_lines demo_child allowed_commands_def SCRIPT_OUTLEN_def SCRIPT_ARGMAX_def
        del: script_line.simps)
  then show ?thesis using script_runner_safe[of demo_os 2 30 demo_script] by auto
qed

text \<open>C30. In every reachable state at most one script runs, and the lock says whether one does; every
  request that was accepted has had exactly one result, in the order in which they were
  accepted, except the one that still runs; and a request that comes while a script runs is
  refused and changes nothing.\<close>

theorem one_script_at_a_time:
  assumes "script_reach s acc"
  shows "script_count s = (if job s = None then 0 else 1) \<and>
    map so_id (results s) @ (case job s of None \<Rightarrow> [] | Some j \<Rightarrow> [job_id j]) = map scr_id acc \<and>
    (job s \<noteq> None \<longrightarrow> plat_run_script_gnma ok p s = Some (- 1, s))"
proof -
  have inv: "script_inv s acc" by (rule script_reach_inv[OF assms])
  then have "map fst (map (\<lambda>o'. (so_id o', so_uri o')) (results s) @ (case job s of None \<Rightarrow> [] | Some j \<Rightarrow> [(job_id j, job_uri j)])) =
      map fst (map (\<lambda>p. (scr_id p, scr_uri p)) acc)" unfolding script_inv_def by simp
  then have "map so_id (results s) @ (case job s of None \<Rightarrow> [] | Some j \<Rightarrow> [job_id j]) = map scr_id acc"
    by (cases "job s") (simp_all add: comp_def)
  then show ?thesis using inv by (auto simp: script_inv_def plat_run_script_gnma_def script_lock_aquire_def)
qed

definition demo_request :: plat_run_script where
  "demo_request = \<lparr>scr_type = SCRIPT_SHELL, scr_base64 = Some ''cGluZyBh'', scr_timeout = 30, scr_id = 7, scr_uri = None\<rparr>"

theorem one_script_at_a_time_witness:
  "\<exists>s. script_reach s [demo_request] \<and> map_option job_script (job s) = Some (Some ''ping a'') \<and> script_count s = 1 \<and>
     plat_run_script_gnma (True, True, True) demo_request s = Some (- 1, s)"
proof -
  have "map_option (\<lambda>(r, s). (r, map_option job_script (job s)))
      (plat_run_script_gnma (True, True, True) demo_request script_ctx_init) = Some (0, Some (Some ''ping a''))"
    by code_simp
  then obtain s where s: "plat_run_script_gnma (True, True, True) demo_request script_ctx_init = Some (0, s)"
    and j: "map_option job_script (job s) = Some (Some ''ping a'')" by auto
  have "script_reach s [demo_request]" using script_reach.accepted[OF script_reach.start s] by simp
  moreover have "job s \<noteq> None" using j by auto
  ultimately show ?thesis using one_script_at_a_time j by fastforce
qed

end
