(* ===== verification/Plat_Files.thy ===== *)
theory Plat_Files
  imports Plat_Types
begin

text \<open>
  The two files the SONiC platform keeps (\<open>plat-gnma.c\<close>): the identifier of the saved configuration
  and the metrics. The model is the text of each file; whether a file can be opened and how much
  of a line is written are parameters. The lemmas follow a value through the file: what is read
  back after it was stored.
\<close>

section \<open>Reading numbers from a file\<close>

definition is_digit :: "char \<Rightarrow> bool" where
  "is_digit c \<longleftrightarrow> digit_val c \<noteq> None"

text \<open>One conversion of \<open>fscanf\<close>: its outcome and what is left of the file. For \<open>%d\<close> the outcome is the
  magnitude, which is all that the flags read with it are tested for.\<close>

definition skip_sign :: "string \<Rightarrow> string" where
  "skip_sign s = (case s of c # cs \<Rightarrow> if c = CHR ''-'' \<or> c = CHR ''+'' then cs else s | [] \<Rightarrow> [])"

definition fscanf_u :: "string \<Rightarrow> scan \<times> string" where
  "fscanf_u s = (scan_unsigned 64 s, dropWhile is_digit (skip_sign (dropWhile is_ws s)))"

definition fscanf_d :: "string \<Rightarrow> scan \<times> string" where
  "fscanf_d s =
     (case dropWhile is_ws s of [] \<Rightarrow> (ScanEOF, [])
      | c # cs \<Rightarrow>
          (if c = CHR ''-'' then (if scan_num 32 False cs = ScanVal 2147483648 then ScanVal 2147483648 else scan_num 31 False cs)
           else scan_num 31 False (skip_sign (c # cs)),
           dropWhile is_digit (skip_sign (c # cs))))"

lemma dec_all_digits: "\<forall>c \<in> set (dec n). is_digit c"
proof (induction n rule: dec.induct)
  case (1 n)
  then show ?case by (cases "n < 10") (auto simp: dec.simps[of n] is_digit_def)
qed

lemma scan_digits_stop: "\<forall>c \<in> set xs. is_digit c \<Longrightarrow> \<not> is_digit c \<Longrightarrow> scan_digits acc (xs @ c # rest) = scan_digits acc xs"
  by (induction xs arbitrary: acc) (auto simp: is_digit_def)

lemma scan_num_stop: "\<not> is_digit c \<Longrightarrow> scan_num w neg (dec n @ c # rest) = scan_num w neg (dec n)"
proof -
  assume c: "\<not> is_digit c"
  obtain d ds where d: "dec n = digit_char d # ds" "d < 10" using dec_digits by blast
  have "\<forall>c \<in> set ds. is_digit c" using dec_all_digits[of n] d by simp
  then show ?thesis using d c by (simp add: scan_num_def Let_def scan_digits_stop)
qed

text \<open>A printed number at the start of the file, after the white space that the last line left.\<close>

lemma ws_dec:
  assumes "\<forall>x \<in> set ws. is_ws x"
  shows "dropWhile is_ws (ws @ dec n @ rest) = dec n @ rest" "skip_sign (dec n @ rest) = dec n @ rest"
proof -
  obtain d ds where d: "dec n = digit_char d # ds" "d < 10" using dec_digits by blast
  show "dropWhile is_ws (ws @ dec n @ rest) = dec n @ rest" using assms d by simp
  show "skip_sign (dec n @ rest) = dec n @ rest" using d by (simp add: skip_sign_def)
qed

lemma drop_dec: "\<not> is_digit c \<Longrightarrow> dropWhile is_digit (dec n @ c # rest) = c # rest"
  using dec_all_digits[of n] by simp

lemma fscanf_u_dec:
  assumes "\<forall>x \<in> set ws. is_ws x" "\<not> is_digit c" "n < 2 ^ 64"
  shows "fscanf_u (ws @ dec n @ c # rest) = (ScanVal n, c # rest)"
proof -
  obtain d ds where d: "dec n = digit_char d # ds" "d < 10" using dec_digits by blast
  have "scan_unsigned 64 (ws @ dec n @ c # rest) = scan_num 64 False (dec n @ c # rest)"
    using d ws_dec(1)[OF assms(1), of n "c # rest"] by (simp add: scan_unsigned_def)
  also have "\<dots> = scan_num 64 False (dec n)" using assms(2) by (rule scan_num_stop)
  also have "\<dots> = scan_unsigned 64 (dec n)" using d by (simp add: scan_unsigned_def)
  also have "\<dots> = ScanVal n" using assms(3) by (rule scan_dec)
  finally show ?thesis
    by (simp only: fscanf_u_def ws_dec[OF assms(1)] drop_dec[OF assms(2)])
qed

lemma fscanf_d_flag:
  assumes "\<forall>x \<in> set ws. is_ws x" "\<not> is_digit c"
  shows "fscanf_d (ws @ dec (of_bool b) @ c # rest) = (ScanVal (of_bool b), c # rest)"
proof -
  obtain d ds where d: "dec (of_bool b) = digit_char d # ds" "d < 10" using dec_digits by blast
  have "scan_num 31 False (dec (of_bool b) @ c # rest) = scan_num 31 False (dec (of_bool b))"
    using assms(2) by (rule scan_num_stop)
  also have "\<dots> = ScanVal (of_bool b)"
    using scan_dec[of "of_bool b" 31] d by (cases b) (auto simp: scan_unsigned_def)
  finally show ?thesis
    using d ws_dec(1)[OF assms(1), of "of_bool b" "c # rest"] ws_dec(2)[of "[]" "of_bool b" "c # rest"]
      drop_dec[OF assms(2), of "of_bool b" rest] by (simp add: fscanf_d_def)
qed

section \<open>The identifier of the saved configuration\<close>

text \<open>The file is \<open>None\<close> when it does not exist. \<open>fprintf\<close> may fail after some of the text.\<close>

record file_env =
  fopen_ok :: bool
  fprintf_ok :: bool
  written :: nat

definition plat_config_id_store :: "file_env \<Rightarrow> u64 \<Rightarrow> string option \<Rightarrow> int \<times> string option" where
  "plat_config_id_store e i f =
     (if \<not> fopen_ok e then (- 1, f)
      else if \<not> fprintf_ok e then (- 1, Some (take (written e) (dec (unat i))))
      else (0, Some (dec (unat i))))"

text \<open>The code and the identifier, which is 0 unless one was read; a number that does not fit is undefined.\<close>

definition plat_config_id_load :: "bool \<Rightarrow> string option \<Rightarrow> (int \<times> u64) option" where
  "plat_config_id_load open_ok f =
     (case f of
        None \<Rightarrow> Some (- 1, 0)
      | Some text \<Rightarrow>
          if \<not> open_ok then Some (- 1, 0)
          else (case scan_unsigned 64 text of
                  ScanVal n \<Rightarrow> Some (0, of_nat n)
                | ScanRange \<Rightarrow> None
                | _ \<Rightarrow> Some (- 1, 0)))"

text \<open>\<open>gnma_config_save\<close> is the adapter's; the code of storing the identifier is not looked at.\<close>

definition plat_config_save_gnma :: "int \<Rightarrow> file_env \<Rightarrow> u64 \<Rightarrow> string option \<Rightarrow> int \<times> string option" where
  "plat_config_save_gnma saved e i f =
     (if saved \<noteq> 0 then (saved, f) else (0, snd (plat_config_id_store e i f)))"

definition plat_saved_config_id_get_gnma :: "bool \<Rightarrow> string option \<Rightarrow> (int \<times> u64) option" where
  "plat_saved_config_id_get_gnma = plat_config_id_load"

text \<open>C32. The identifier of a saved configuration that could be stored is read back exactly, for every
  64-bit identifier. When the file cannot be opened for writing, saving still reports success
  and the identifier that is read back is the one of the configuration before.\<close>

theorem config_id_roundtrip:
  assumes "plat_config_save_gnma 0 e i f = (r, f')"
  shows "r = 0 \<and> (fopen_ok e \<and> fprintf_ok e \<longrightarrow> plat_saved_config_id_get_gnma True f' = Some (0, i)) \<and>
    (\<not> fopen_ok e \<longrightarrow> plat_saved_config_id_get_gnma True f' = plat_saved_config_id_get_gnma True f)"
proof -
  have "scan_unsigned 64 (dec (unat i)) = ScanVal (unat i)"
    using unsigned_less[of i] by (intro scan_dec) simp
  then show ?thesis
    using assms by (auto simp: plat_config_save_gnma_def plat_config_id_store_def plat_config_id_load_def
        plat_saved_config_id_get_gnma_def)
qed

definition demo_file_env :: file_env where
  "demo_file_env = \<lparr>fopen_ok = True, fprintf_ok = True, written = 0\<rparr>"

theorem config_id_roundtrip_witness:
  "\<exists>f'. plat_config_save_gnma 0 demo_file_env 1700000000 (Some ''5'') = (0, f') \<and>
     plat_saved_config_id_get_gnma True f' = Some (0, 1700000000)"
proof -
  obtain r f' where s: "plat_config_save_gnma 0 demo_file_env 1700000000 (Some ''5'') = (r, f')" by fastforce
  show ?thesis using config_id_roundtrip[OF s] s by (simp add: demo_file_env_def)
qed

section \<open>Metrics\<close>

definition line :: "string \<Rightarrow> string" where
  "line s = s @ [CHR 0x0A]"

definition plat_metrics_save_gnma :: "bool \<Rightarrow> plat_metrics_cfg \<Rightarrow> string option \<Rightarrow> int \<times> string option" where
  "plat_metrics_save_gnma open_ok m f =
     (if \<not> open_ok then (- 1, f)
      else (0, Some (
        line (dec (of_bool (healthcheck_enabled m))) @
        line (dec (unat (healthcheck_interval m))) @
        line (dec (of_bool (state_enabled (m_state m)))) @
        line (dec (of_bool (lldp_enabled (m_state m)))) @
        line (dec (of_bool (clients_enabled (m_state m)))) @
        line (dec (unat (state_interval (m_state m)))) @
        line (public_ip_lookup (m_state m)))))"

text \<open>\<open>fgets\<close> into an array of \<open>n\<close> bytes: \<open>None\<close> at the end of the file.\<close>

definition fgets :: "nat \<Rightarrow> string \<Rightarrow> string option" where
  "fgets n s =
     (if s = [] then None
      else Some (take (n - 1) (takeWhile (\<lambda>c. c \<noteq> CHR 0x0A) s @ (if CHR 0x0A \<in> set s then [CHR 0x0A] else []))))"

definition strip_newline :: "string \<Rightarrow> string" where
  "strip_newline s = (if s \<noteq> [] \<and> last s = CHR 0x0A then butlast s else s)"

text \<open>A conversion that stores into a field of the structure; the fields read before a failure stay.\<close>

type_synonym restoring = "plat_metrics_cfg \<times> string"

definition read_field ::
  "(string \<Rightarrow> scan \<times> string) \<Rightarrow> (nat \<Rightarrow> plat_metrics_cfg \<Rightarrow> plat_metrics_cfg) \<Rightarrow> restoring \<Rightarrow> (int \<times> restoring) option" where
  "read_field conv store = (\<lambda>(m, s).
     case conv s of
       (ScanVal n, rest) \<Rightarrow> Some (0, store n m, rest)
     | (ScanRange, _) \<Rightarrow> None
     | (_, rest) \<Rightarrow> Some (- 1, m, rest))"

definition on_state :: "(metrics_state \<Rightarrow> metrics_state) \<Rightarrow> plat_metrics_cfg \<Rightarrow> plat_metrics_cfg" where
  "on_state f m = m\<lparr>m_state := f (m_state m)\<rparr>"

definition metrics_fields :: "(restoring \<Rightarrow> (int \<times> restoring) option) list" where
  "metrics_fields =
     [read_field fscanf_d (\<lambda>n m. m\<lparr>healthcheck_enabled := n \<noteq> 0\<rparr>),
      read_field fscanf_u (\<lambda>n m. m\<lparr>healthcheck_interval := of_nat n\<rparr>),
      read_field fscanf_d (\<lambda>n. on_state (\<lambda>x. x\<lparr>state_enabled := n \<noteq> 0\<rparr>)),
      read_field fscanf_d (\<lambda>n. on_state (\<lambda>x. x\<lparr>lldp_enabled := n \<noteq> 0\<rparr>)),
      read_field fscanf_d (\<lambda>n. on_state (\<lambda>x. x\<lparr>clients_enabled := n \<noteq> 0\<rparr>)),
      read_field fscanf_u (\<lambda>n. on_state (\<lambda>x. x\<lparr>state_interval := of_nat n\<rparr>))]"

definition plat_metrics_restore_gnma :: "bool \<Rightarrow> string option \<Rightarrow> plat_metrics_cfg \<Rightarrow> (int \<times> plat_metrics_cfg) option" where
  "plat_metrics_restore_gnma open_ok f m =
     (case f of
        None \<Rightarrow> Some (- 1, m)
      | Some text \<Rightarrow>
          if \<not> open_ok then Some (- 1, m)
          else do {
            (ret, m, rest) \<leftarrow> loop_ret (\<lambda>g. g) metrics_fields (m, text);
            if ret \<noteq> 0 then Some (- 1, m)
            else (case fgets 2048 rest of
                    None \<Rightarrow> Some (- 1, m)
                  | Some l \<Rightarrow> Some (0, on_state (\<lambda>x. x\<lparr>public_ip_lookup := strip_newline l,
                                   max_mac_count := METRICS_WIRED_CLIENTS_MAX_NUM\<rparr>) m))
          })"

text \<open>C31. Metrics that were saved are restored with all their switches and intervals, for every value.
  But the address for the public address lookup is lost: the line that is read for it is the rest of the line
  before, so the restored one is empty; the limit on reported addresses is the maximum
  whatever it was, and the telemetry settings are the caller's.\<close>

theorem metrics_roundtrip:
  assumes "plat_metrics_save_gnma True m f = (r, f')"
  shows "plat_metrics_restore_gnma True f' m0 =
    Some (0, m0\<lparr>healthcheck_enabled := healthcheck_enabled m, healthcheck_interval := healthcheck_interval m,
      m_state := (m_state m)\<lparr>public_ip_lookup := [], max_mac_count := METRICS_WIRED_CLIENTS_MAX_NUM\<rparr>\<rparr>)"
proof -
  let ?nl = "CHR 0x0A"
  have nl: "\<not> is_digit ?nl" "\<forall>x \<in> set [?nl]. is_ws x" "\<forall>x \<in> set []. is_ws x" by (simp_all add: is_digit_def digit_val_def is_ws_def)
  have u: "unat (x :: u64) < 2 ^ 64" for x using unsigned_less[of x] by simp
  note first = fscanf_d_flag[OF nl(3,1)] and flag = fscanf_d_flag[OF nl(2,1)] and num = fscanf_u_dec[OF nl(2,1) u]
  show ?thesis
    using assms first flag num
    by (auto simp: plat_metrics_save_gnma_def plat_metrics_restore_gnma_def metrics_fields_def read_field_def line_def
        on_state_def fgets_def strip_newline_def)
qed

definition demo_metrics :: plat_metrics_cfg where
  "demo_metrics = metrics_zero\<lparr>healthcheck_enabled := True, healthcheck_interval := 60,
     m_state := metrics_state_zero\<lparr>state_enabled := True, state_interval := 120, public_ip_lookup := ''http://ip.example''\<rparr>\<rparr>"

theorem metrics_roundtrip_witness:
  "\<exists>f' m'. plat_metrics_save_gnma True demo_metrics None = (0, f') \<and>
     plat_metrics_restore_gnma True f' metrics_zero = Some (0, m') \<and>
     healthcheck_interval m' = 60 \<and> state_interval (m_state m') = 120 \<and> public_ip_lookup (m_state m') = []"
proof -
  obtain r f' where s: "plat_metrics_save_gnma True demo_metrics None = (r, f')" by fastforce
  then have "r = 0" by (auto simp: plat_metrics_save_gnma_def)
  then show ?thesis using metrics_roundtrip[OF s, of metrics_zero] s by (simp add: demo_metrics_def)
qed

end
