(* ===== verification/Plat_Init.thy ===== *)
theory Plat_Init
  imports Apply_Props
begin

text \<open>
  \<open>plat_state_init\<close> of the SONiC platform: the cache is filled from what the switch reports, and the
  three features are marked as available or not. What the adapter reads from the switch is a
  parameter. The library shows that a start that succeeds leaves a cache that mirrors the
  switch, which \<open>plat_config_apply\<close> then keeps up.
\<close>

section \<open>What is read from the switch\<close>

text \<open>A read yields its code and the value it leaves in its object. Of five settings of the dynamic
  authorization server only the code matters: nothing uses the cached values. A VLAN has a list
  of relay servers or none can be read.\<close>

record gnma_reads =
  rd_auth_control :: "int \<times> bool"
  rd_das :: "int list"
  rd_pae :: "string \<Rightarrow> int \<times> bool"
  rd_port_ctrl :: "string \<Rightarrow> int \<times> control_mode"
  rd_host_mode :: "string \<Rightarrow> int \<times> host_mode"
  rd_guest_vlan :: "string \<Rightarrow> int \<times> u16"
  rd_unauth_vlan :: "string \<Rightarrow> int \<times> u16"
  rd_stp_mode :: "int \<times> gnma_stp_mode \<times> gnma_stp_attr"
  rd_stp_vids :: "int \<times> (nat \<Rightarrow> gnma_stp_attr)"
  rd_relay_servers :: "nat \<Rightarrow> u32 list option"
  rd_relay_circuit :: "nat \<Rightarrow> int \<times> relay_circuit"
  rd_relay_policy :: "nat \<Rightarrow> int \<times> relay_policy"
  rd_relay_max_hop :: "nat \<Rightarrow> int \<times> u8"
  rd_poe_list :: "int \<times> string list"
  rd_poe_admin :: "string \<Rightarrow> int \<times> bool"
  rd_poe_detection :: "string \<Rightarrow> int \<times> poe_detection"
  rd_poe_limit :: "string \<Rightarrow> int \<times> bool \<times> u32"
  rd_poe_priority :: "string \<Rightarrow> int \<times> poe_port_priority"
  rd_poe_mgmt :: "int \<times> poe_power_mgmt"
  rd_poe_threshold :: "int \<times> u8"
  rd_portl2 :: "string \<Rightarrow> int \<times> gnma_ip_prefix option"
  rd_routes :: "int \<times> (gnma_ip_prefix \<times> gnma_route_attrs) list"

definition took :: "int \<times> 'a \<Rightarrow> ('a \<Rightarrow> plat_state \<Rightarrow> plat_state) \<Rightarrow> op" where
  "took ra f s = Some (fst ra, f (snd ra) s)"

section \<open>Zeroed state\<close>

definition poe_attrs_zero :: poe_attrs where
  "poe_attrs_zero = \<lparr>pa_admin = False, pa_detection = DETECTION_2PT_DOT3AF, pa_limit = 0, pa_limit_user = False,
     pa_priority = POE_LOW\<rparr>"

definition relay_zero :: dhcp_relay where
  "relay_zero = \<lparr>policy_act = RELAY_DISCARD, relay_circ = CIRCUIT_ID_H_P, max_hop_cnt = 0, helper_address = 0,
     relay_on = False\<rparr>"

definition state_zero :: "plat_state \<Rightarrow> plat_state" where
  "state_zero s = s\<lparr>feat_core := FEATSTS_FAIL, feat_poe := FEATSTS_NONE, feat_aaa := FEATSTS_NONE,
     port_cache := (\<lambda>_. pt_ieee8021x port_zero), relays := (\<lambda>_. relay_zero), poe_mgmt := POE_MGMT_CLASS,
     poe_threshold := 0, poe_ports := (\<lambda>_. \<lparr>poe_key = [], poe_attrs = poe_attrs_zero\<rparr>),
     poe_bmap := bitmap_zero MAX_NUM_OF_PORTS, auth_control := False, dac_keys := Some [], radius_keys := [],
     route_cache := \<lparr>arr = [], rlen = 0, rmax = 0, sorted_flag = False\<rparr>,
     stp_cache := GNMA_STP_MODE_NONE, stp_mode_attr := stp_attr_zero, stp_vlan_attr := (\<lambda>_. stp_attr_zero),
     portsl2_rif := (\<lambda>_. ipv4_zero)\<rparr>"

section \<open>The parts\<close>

definition plat_state_ieee8021x_init :: "gnma \<Rightarrow> gnma_reads \<Rightarrow> op" where
  "plat_state_ieee8021x_init G R =
     seq ([took (rd_auth_control R) (\<lambda>b s. s\<lparr>auth_control := b\<rparr>)] @ map fail (rd_das R) @
          [plat_state_ieee8021x_dac_list_init G])"

text \<open>The port a name stands for, inside the arrays over ports.\<close>

definition named_port :: "string \<Rightarrow> nat option" where
  "named_port n = do { pid \<leftarrow> scanned (NAME_TO_PID n); if pid < MAX_NUM_OF_PORTS then Some pid else None }"

definition port_1x_upd :: "nat \<Rightarrow> (port_ieee8021x \<Rightarrow> port_ieee8021x) \<Rightarrow> plat_state \<Rightarrow> plat_state" where
  "port_1x_upd i f s = s\<lparr>port_cache := (port_cache s)(i := f (port_cache s i))\<rparr>"

definition plat_state_port_ieee8021x_init :: "gnma_reads \<Rightarrow> nat \<Rightarrow> string \<Rightarrow> op" where
  "plat_state_port_ieee8021x_init R i n =
     as_err (seq [
       took (rd_pae R n) (\<lambda>b. port_1x_upd i (\<lambda>p. p\<lparr>is_authenticator := b\<rparr>)),
       took (rd_port_ctrl R n) (\<lambda>m. port_1x_upd i (\<lambda>p. p\<lparr>control_mode := m\<rparr>)),
       took (rd_host_mode R n) (\<lambda>m. port_1x_upd i (\<lambda>p. p\<lparr>host_mode := m\<rparr>)),
       took (rd_guest_vlan R n) (\<lambda>v. port_1x_upd i (\<lambda>p. p\<lparr>guest_vid := v\<rparr>)),
       took (rd_unauth_vlan R n) (\<lambda>v. port_1x_upd i (\<lambda>p. p\<lparr>auth_fail_vid := v\<rparr>))])"

text \<open>A part whose failure only takes a feature away.\<close>

definition marking :: "(plat_state \<Rightarrow> plat_state) \<Rightarrow> op \<Rightarrow> op" where
  "marking m f s = do { (r, s) \<leftarrow> f s; Some (0, if r \<noteq> 0 then m s else s) }"

definition no_aaa :: "plat_state \<Rightarrow> plat_state" where "no_aaa s = s\<lparr>feat_aaa := FEATSTS_FAIL\<rparr>"

definition no_poe :: "plat_state \<Rightarrow> plat_state" where "no_poe s = s\<lparr>feat_poe := FEATSTS_FAIL\<rparr>"

definition with_port :: "string \<Rightarrow> (nat \<Rightarrow> op) \<Rightarrow> op" where
  "with_port n f s = do { i \<leftarrow> named_port n; f i s }"

definition plat_state_ports_init :: "gnma \<Rightarrow> gnma_reads \<Rightarrow> op" where
  "plat_state_ports_init G R = reading (\<lambda>s.
     let (ret, n) = plat_port_num_get_gnma G (hist s) in
     if ret \<noteq> 0 then fail ret
     else seq [alloc_or G (- ENOMEM),
               reading (\<lambda>s. let (ret, _, names) = port_list_get G n (hist s) in
                 if ret \<noteq> 0 \<and> ret \<noteq> GNMA_ERR_OVERFLOW then fail ret
                 else loop_ret (\<lambda>nm. with_port nm (\<lambda>i. marking no_aaa (plat_state_port_ieee8021x_init R i nm))) names)])"

text \<open>\<open>gnma_vlan_dhcp_relay_server_list_get\<close> of the adapter: the code, the new size and the servers stored.
  The array passed to it has one element.\<close>

definition gnma_vlan_dhcp_relay_server_list_get :: "u32 list option \<Rightarrow> nat \<Rightarrow> (int \<times> nat \<times> u32 list) option" where
  "gnma_vlan_dhcp_relay_server_list_get ips n =
     (case ips of
        None \<Rightarrow> Some (- 1, n, [])
      | Some l \<Rightarrow> if length l > n then Some (GNMA_ERR_OVERFLOW, length l, [])
                  else if n > 1 then None else Some (0, length l, l))"

text \<open>The size is a variable of the whole loop.\<close>

definition relay_read :: "gnma_reads \<Rightarrow> nat \<Rightarrow> u32 list \<Rightarrow> op" where
  "relay_read R v ips =
     seq [
       upd (relay_upd v (\<lambda>r. if ips = [] then r else r\<lparr>helper_address := hd ips\<rparr>)),
       took (rd_relay_circuit R v) (\<lambda>c. relay_upd v (\<lambda>r. r\<lparr>relay_circ := c\<rparr>)),
       took (rd_relay_policy R v) (\<lambda>c. relay_upd v (\<lambda>r. r\<lparr>policy_act := c\<rparr>)),
       took (rd_relay_max_hop R v) (\<lambda>c. relay_upd v (\<lambda>r. r\<lparr>max_hop_cnt := c\<rparr>)),
       upd (relay_upd v (\<lambda>r. r\<lparr>relay_on := True\<rparr>))]"

fun relay_init_loop :: "gnma_reads \<Rightarrow> nat list \<Rightarrow> nat \<Rightarrow> op" where
  "relay_init_loop R [] n s = Some (0, s)"
| "relay_init_loop R (v # vs) n s =
     do {
       (ret, n, ips) \<leftarrow> gnma_vlan_dhcp_relay_server_list_get (rd_relay_servers R v) n;
       (r, s) \<leftarrow> (if ret \<noteq> 0 then Some (0, s) else relay_read R v ips s);
       if r \<noteq> 0 then Some (r, s) else relay_init_loop R vs n s
     }"

definition vlans_init :: "gnma \<Rightarrow> gnma_reads \<Rightarrow> op" where
  "vlans_init G R = reading (\<lambda>s.
     let (ret, vlans) = gnma_vlan_list_get G (hist s) in
     if ret \<noteq> 0 then fail ret
     else seq [
       took (rd_stp_mode R) (\<lambda>(m, a) s. s\<lparr>stp_cache := m, stp_mode_attr := a\<rparr>),
       took (rd_stp_vids R) (\<lambda>a s. s\<lparr>stp_vlan_attr := a\<rparr>),
       (\<lambda>s. do { vids \<leftarrow> BITMAP_FOR_EACH_BIT_SET vlans GNMA_MAX_VLANS; relay_init_loop R vids 1 s })])"

text \<open>Power over ethernet. An array that cannot be allocated ends the function with the code so far, which is 0.\<close>

definition poe_port_init :: "gnma_reads \<Rightarrow> string \<Rightarrow> op" where
  "poe_port_init R n s =
     do {
       i \<leftarrow> named_port n;
       bm \<leftarrow> BITMAP_SET_BIT (poe_bmap s) i;
       seq [
         upd (\<lambda>s. s\<lparr>poe_bmap := bm, poe_ports := (poe_ports s)(i := (poe_ports s i)\<lparr>poe_key := n\<rparr>)\<rparr>),
         took (rd_poe_admin R n) (\<lambda>b. poe_upd i (\<lambda>a. a\<lparr>pa_admin := b\<rparr>)),
         took (rd_poe_detection R n) (\<lambda>m. poe_upd i (\<lambda>a. a\<lparr>pa_detection := m\<rparr>)),
         took (rd_poe_limit R n) (\<lambda>(u, l). poe_upd i (\<lambda>a. a\<lparr>pa_limit_user := u, pa_limit := l\<rparr>)),
         took (rd_poe_priority R n) (\<lambda>p. poe_upd i (\<lambda>a. a\<lparr>pa_priority := p\<rparr>))] s
     }"

definition plat_state_poe_init :: "gnma \<Rightarrow> gnma_reads \<Rightarrow> op" where
  "plat_state_poe_init G R =
     (let (ret, names) = rd_poe_list R in
      if ret \<noteq> 0 then fail ret
      else branch (\<lambda>s. gnma_mem G (mem_calls s))
        (seq [alloc_or G 0,
              loop_ret (poe_port_init R) names,
              took (rd_poe_mgmt R) (\<lambda>m s. s\<lparr>poe_mgmt := m\<rparr>),
              took (rd_poe_threshold R) (\<lambda>t s. s\<lparr>poe_threshold := t\<rparr>)])
        (alloc_or G 0))"

definition plat_state_portsl2_init :: "gnma \<Rightarrow> gnma_reads \<Rightarrow> op" where
  "plat_state_portsl2_init G R = as_err (reading (\<lambda>s.
     let (ret, n) = plat_port_num_get_gnma G (hist s) in
     if ret \<noteq> 0 then fail (- 1)
     else seq [alloc_or G (- 1),
               reading (\<lambda>s. let (ret, _, names) = port_list_get G n (hist s) in
                 if ret \<noteq> 0 then fail (- 1)
                 else loop_ret (\<lambda>nm. let (ret, p) = rd_portl2 R nm in
                   if ret \<noteq> 0 then fail (- 1)
                   else (case p of
                     None \<Rightarrow> seq []
                   | Some (GnmaV4 a l) \<Rightarrow> with_port nm (\<lambda>i.
                       upd (\<lambda>s. s\<lparr>portsl2_rif := (portsl2_rif s)(i := \<lparr>subnet = a, subnet_len = l, ipv4_exist = True\<rparr>)\<rparr>))))
                   names)]))"

definition routes_init :: "gnma \<Rightarrow> gnma_reads \<Rightarrow> op" where
  "routes_init G R =
     (let (ret, routes) = rd_routes R in
      if ret \<noteq> 0 then fail ret
      else seq [
        (\<lambda>s. let a = gnma_mem G (mem_calls s); b = gnma_mem G (Suc (mem_calls s)) in
             Some (if a \<and> b then 0 else - 1, s\<lparr>mem_calls := mem_calls s + 2\<rparr>)),
        (\<lambda>s. let (ret, db) = ucentral_router_fib_db_alloc (gnma_mem G (mem_calls s))
                               (ucentral_router_fib_db_free (route_cache s)) (length routes) in
             Some (ret, s\<lparr>route_cache := db, mem_calls := Suc (mem_calls s)\<rparr>)),
        loop_ret (\<lambda>(p, a) s. do {
            (ret, db) \<leftarrow> ucentral_router_fib_db_append (route_cache s)
              \<lparr>node_key = gnma_prefix2router_fib_key p, node_info = gnma_attr2router_fib_info a\<rparr>;
            Some (ret, s\<lparr>route_cache := db\<rparr>)
          }) routes])"

text \<open>The features that were not taken away are available.\<close>

definition features_done :: "plat_state \<Rightarrow> plat_state" where
  "features_done s = s\<lparr>feat_aaa := (if feat_aaa s = FEATSTS_FAIL then FEATSTS_FAIL else FEATSTS_OK),
     feat_poe := (if feat_poe s = FEATSTS_FAIL then FEATSTS_FAIL else FEATSTS_OK), feat_core := FEATSTS_OK\<rparr>"

definition plat_state_init :: "gnma \<Rightarrow> gnma_reads \<Rightarrow> op" where
  "plat_state_init G R s =
     do {
       (_, s) \<leftarrow> seq [
          marking no_aaa (plat_state_ieee8021x_init G R),
          marking no_aaa (plat_state_radius_init G),
          plat_state_ports_init G R,
          vlans_init G R,
          marking no_poe (plat_state_poe_init G R),
          plat_state_portsl2_init G R,
          routes_init G R,
          upd features_done] (state_zero s);
       Some (if feat_core s = FEATSTS_OK \<and> feat_poe s = FEATSTS_OK \<and> feat_aaa s = FEATSTS_OK then 0 else - 1, s)
     }"

definition plat_init_gnma :: "int \<Rightarrow> gnma \<Rightarrow> gnma_reads \<Rightarrow> op" where
  "plat_init_gnma switch_created G R = as_err (seq [fail switch_created, plat_state_init G R])"

section \<open>What the parts leave alone\<close>

lemma keeps_took: "(\<And>s. P s \<Longrightarrow> P (f (snd ra) s)) \<Longrightarrow> keeps P (took ra f)"
  by (rule keepsI) (auto simp: took_def)

lemma keeps_marking: "(\<And>s. P s \<Longrightarrow> P (m s)) \<Longrightarrow> keeps P f \<Longrightarrow> keeps P (marking m f)"
  by (rule keepsI) (auto simp: marking_def elim!: bindE dest: keepsD)

lemma keeps_with_port [keeps_rules]: "(\<And>i. keeps P (f i)) \<Longrightarrow> keeps P (with_port n f)"
  by (rule keepsI) (auto simp: with_port_def elim!: bindE dest: keepsD)

definition facts :: "plat_state \<Rightarrow> hist \<times> (nat \<Rightarrow> poe_port) \<times> bitmap \<times> poe_power_mgmt \<times> u8 \<times> bool \<times> featsts \<times> featsts" where
  "facts s = (hist s, poe_ports s, poe_bmap s, poe_mgmt s, poe_threshold s, auth_control s, feat_core s, feat_poe s)"

text \<open>An update that leaves the facts alone and at most takes the authentication feature away.\<close>

definition quiet_upd :: "(plat_state \<Rightarrow> plat_state) \<Rightarrow> bool" where
  "quiet_upd u \<longleftrightarrow> (\<forall>s. facts (u s) = facts s \<and> (feat_aaa (u s) = feat_aaa s \<or> feat_aaa (u s) = FEATSTS_FAIL))"

locale init_ops =
  fixes P :: "plat_state \<Rightarrow> bool"
  assumes quiet: "quiet_upd u \<Longrightarrow> P s \<Longrightarrow> P (u s)"
begin

lemma upd_keeps: "quiet_upd u \<Longrightarrow> keeps P (upd u)"
  by (rule keeps_upd) (rule quiet)

lemma took_keeps: "quiet_upd (f (snd ra)) \<Longrightarrow> keeps P (took ra f)"
  by (rule keeps_took) (rule quiet)

lemma alloc_keeps: "keeps P (alloc_or G r)"
proof (rule keepsI)
  fix s q s' assume "P s" "alloc_or G r s = Some (q, s')"
  moreover have "quiet_upd (\<lambda>s. s\<lparr>mem_calls := Suc (mem_calls s)\<rparr>)" by (simp add: quiet_upd_def facts_def)
  ultimately show "P s'" using quiet by (auto simp: alloc_or_def)
qed

lemma no_aaa_keeps: "keeps P f \<Longrightarrow> keeps P (marking no_aaa f)"
  by (rule keeps_marking, rule quiet) (simp_all add: quiet_upd_def no_aaa_def facts_def)

lemmas leaves = upd_keeps took_keeps alloc_keeps no_aaa_keeps

lemma dac_init_keeps: "keeps P (plat_state_ieee8021x_dac_list_init G)"
  unfolding plat_state_ieee8021x_dac_list_init_def Let_def case_prod_unfold
  by (intro keeps_rules leaves) (simp_all add: quiet_upd_def facts_def)

lemma radius_init_keeps: "keeps P (plat_state_radius_init G)"
  unfolding plat_state_radius_init_def Let_def case_prod_unfold
  by (intro keeps_rules leaves) (simp_all add: quiet_upd_def facts_def)

lemma ports_init_keeps: "keeps P (plat_state_ports_init G R)"
  unfolding plat_state_ports_init_def plat_state_port_ieee8021x_init_def Let_def case_prod_unfold
  by (intro keeps_rules leaves) (simp_all add: quiet_upd_def facts_def port_1x_upd_def)

lemma relay_read_keeps: "keeps P (relay_read R v ips)"
  unfolding relay_read_def by (intro keeps_rules leaves) (simp_all add: quiet_upd_def facts_def relay_upd_def)

lemma relay_init_keeps: "relay_init_loop R vs n s = Some (r, s') \<Longrightarrow> P s \<Longrightarrow> P s'"
proof (induction vs arbitrary: n s)
  case (Cons v vs)
  from Cons.prems(1) obtain ret k ips q t where
    "gnma_vlan_dhcp_relay_server_list_get (rd_relay_servers R v) n = Some (ret, k, ips)"
    and step: "(if ret \<noteq> 0 then Some (0, s) else relay_read R v ips s) = Some (q, t)"
    and rest: "(if q \<noteq> 0 then Some (q, t) else relay_init_loop R vs k t) = Some (r, s')"
    unfolding relay_init_loop.simps by (elim bindE) (rule that)
  have "P t"
    using step Cons.prems(2) keepsD[OF relay_read_keeps] by (cases "ret = 0") auto
  then show ?case using rest Cons.IH by (cases "q = 0") auto
qed simp

lemma vlans_init_keeps: "keeps P (vlans_init G R)"
proof -
  have l: "keeps P (\<lambda>s. do { vids \<leftarrow> BITMAP_FOR_EACH_BIT_SET vlans GNMA_MAX_VLANS; relay_init_loop R vids 1 s })" for vlans
    by (rule keepsI) (elim bindE, rule relay_init_keeps)
  show ?thesis
    unfolding vlans_init_def Let_def case_prod_unfold
    by (intro keeps_reading keeps_if keeps_fail keeps_seq_Cons keeps_seq_Nil leaves l) (simp_all add: quiet_upd_def facts_def)
qed

lemma portsl2_init_keeps: "keeps P (plat_state_portsl2_init G R)"
proof -
  have "keeps P (case p of None \<Rightarrow> seq [] | Some (GnmaV4 a l) \<Rightarrow> with_port nm (\<lambda>i.
      upd (\<lambda>s. s\<lparr>portsl2_rif := (portsl2_rif s)(i := \<lparr>subnet = a, subnet_len = l, ipv4_exist = True\<rparr>)\<rparr>)))" for p nm
    by (cases p; (cases "the p")?) (auto intro!: keeps_rules upd_keeps simp: quiet_upd_def facts_def split: gnma_ip_prefix.splits)
  then show ?thesis
    unfolding plat_state_portsl2_init_def Let_def case_prod_unfold by (intro keeps_rules leaves)
qed

lemma routes_init_keeps: "keeps P (routes_init G R)"
proof -
  have q: "P s \<Longrightarrow> P (s\<lparr>route_cache := db, mem_calls := k\<rparr>)" "P s \<Longrightarrow> P (s\<lparr>route_cache := db\<rparr>)" "P s \<Longrightarrow> P (s\<lparr>mem_calls := k\<rparr>)"
    for s db k
    by (rule quiet[of "\<lambda>s. s\<lparr>route_cache := db, mem_calls := k\<rparr>"] quiet[of "\<lambda>s. s\<lparr>route_cache := db\<rparr>"]
        quiet[of "\<lambda>s. s\<lparr>mem_calls := k\<rparr>"]; simp add: quiet_upd_def facts_def)+
  show ?thesis
    unfolding routes_init_def Let_def case_prod_unfold
    by (intro keeps_if keeps_fail keeps_seq_Cons keeps_seq_Nil keeps_loop; rule keepsI; auto elim!: bindE intro: q)
qed

end

text \<open>Two invariants of this kind: the facts themselves, and that the authentication feature is lost.\<close>

interpretation facts_kept: init_ops "\<lambda>s. facts s = k" for k
  by unfold_locales (simp add: quiet_upd_def)

interpretation aaa_lost: init_ops "\<lambda>s. feat_aaa s = FEATSTS_FAIL"
  by unfold_locales (metis quiet_upd_def)

section \<open>Power over ethernet\<close>

definition attrs_read :: "gnma_reads \<Rightarrow> string \<Rightarrow> poe_attrs" where
  "attrs_read R n = \<lparr>pa_admin = snd (rd_poe_admin R n), pa_detection = snd (rd_poe_detection R n),
     pa_limit = snd (snd (rd_poe_limit R n)), pa_limit_user = fst (snd (rd_poe_limit R n)),
     pa_priority = snd (rd_poe_priority R n)\<rparr>"

text \<open>The attributes of port \<open>i\<close>: those read for the last name that stands for it.\<close>

definition poe_reported :: "gnma_reads \<Rightarrow> string list \<Rightarrow> nat \<Rightarrow> poe_attrs \<Rightarrow> poe_attrs" where
  "poe_reported R names i a = fold (\<lambda>n a. if named_port n = Some i then attrs_read R n else a) names a"

definition reported_switch :: "gnma_reads \<Rightarrow> switch_part" where
  "reported_switch R = \<lparr>sw_poe = (\<lambda>i. poe_reported R (snd (rd_poe_list R)) i poe_attrs_zero),
     sw_mgmt = snd (rd_poe_mgmt R), sw_threshold = snd (rd_poe_threshold R), sw_auth = snd (rd_auth_control R)\<rparr>"

definition rest_of :: "plat_state \<Rightarrow> hist \<times> bool \<times> featsts \<times> featsts \<times> featsts" where
  "rest_of s = (hist s, auth_control s, feat_core s, feat_poe s, feat_aaa s)"

lemma poe_port_init_ok:
  assumes "poe_port_init R n s = Some (r, s')" "poe_keys_ok s"
  shows "poe_keys_ok s' \<and> rest_of s' = rest_of s"
    and "r = 0 \<Longrightarrow> poe_of i s' = (if named_port n = Some i then attrs_read R n else poe_of i s)"
proof -
  obtain k bm where k: "named_port n = Some k" "BITMAP_SET_BIT (poe_bmap s) k = Some bm"
    and run: "seq [
         upd (\<lambda>s. s\<lparr>poe_bmap := bm, poe_ports := (poe_ports s)(k := (poe_ports s k)\<lparr>poe_key := n\<rparr>)\<rparr>),
         took (rd_poe_admin R n) (\<lambda>b. poe_upd k (\<lambda>a. a\<lparr>pa_admin := b\<rparr>)),
         took (rd_poe_detection R n) (\<lambda>m. poe_upd k (\<lambda>a. a\<lparr>pa_detection := m\<rparr>)),
         took (rd_poe_limit R n) (\<lambda>(u, l). poe_upd k (\<lambda>a. a\<lparr>pa_limit_user := u, pa_limit := l\<rparr>)),
         took (rd_poe_priority R n) (\<lambda>p. poe_upd k (\<lambda>a. a\<lparr>pa_priority := p\<rparr>))] s = Some (r, s')"
    using assms(1) unfolding poe_port_init_def by (elim bindE) (rule that)
  have name: "NAME_TO_PID n = ScanVal k"
    using k(1) by (auto simp: named_port_def elim!: bindE split: if_splits)
  have bits: "bm_set bm = insert k (bm_set (poe_bmap s))" using bm.put_bits[OF k(2)] .
  show "poe_keys_ok s' \<and> rest_of s' = rest_of s"
    using run assms(2) name bits
    by (auto simp: upd_def took_def poe_upd_def poe_keys_ok_def rest_of_def split: if_splits prod.splits)
  show "poe_of i s' = (if named_port n = Some i then attrs_read R n else poe_of i s)" if "r = 0"
    using run that k(1)
    by (auto simp: upd_def took_def poe_upd_def attrs_read_def split: if_splits prod.splits)
qed

lemma poe_loop_ok:
  assumes "loop_ret (poe_port_init R) names s = Some (r, s')" "poe_keys_ok s"
  shows "poe_keys_ok s' \<and> rest_of s' = rest_of s \<and> (r = 0 \<longrightarrow> (\<forall>i. poe_of i s' = poe_reported R names i (poe_of i s)))"
  using assms
proof (induction names arbitrary: s)
  case (Cons n names)
  from Cons.prems(1) obtain q t where t: "poe_port_init R n s = Some (q, t)"
    and rest: "(if q \<noteq> 0 then Some (q, t) else loop_ret (poe_port_init R) names t) = Some (r, s')"
    by (auto elim: bindE)
  note one = poe_port_init_ok[OF t Cons.prems(2)]
  show ?case
  proof (cases "q = 0")
    case True
    then show ?thesis using Cons.IH[of t] rest one by (simp add: poe_reported_def)
  qed (use rest one in simp)
qed (simp add: poe_reported_def)

lemma poe_init_ok:
  assumes run: "plat_state_poe_init G R s = Some (r, s')" and ok: "poe_keys_ok s" and mem: "\<And>k. gnma_mem G k"
  shows "poe_keys_ok s' \<and> rest_of s' = rest_of s"
    and "r = 0 \<Longrightarrow> (\<forall>i. poe_of i s' = poe_reported R (snd (rd_poe_list R)) i (poe_of i s)) \<and>
      poe_mgmt s' = snd (rd_poe_mgmt R) \<and> poe_threshold s' = snd (rd_poe_threshold R)"
proof -
  obtain names ret where names: "rd_poe_list R = (ret, names)" by fastforce
  let ?s = "s\<lparr>mem_calls := Suc (mem_calls s)\<rparr>"
  have goal: "(poe_keys_ok s' \<and> rest_of s' = rest_of s) \<and> (r = 0 \<longrightarrow> (\<forall>i. poe_of i s' = poe_reported R names i (poe_of i s)) \<and>
      poe_mgmt s' = snd (rd_poe_mgmt R) \<and> poe_threshold s' = snd (rd_poe_threshold R))"
  proof (cases "ret = 0")
    case True
    then obtain q t where t: "loop_ret (poe_port_init R) names ?s = Some (q, t)"
      and rest: "(if q \<noteq> 0 then Some (q, t) else seq [took (rd_poe_mgmt R) (\<lambda>m s. s\<lparr>poe_mgmt := m\<rparr>),
        took (rd_poe_threshold R) (\<lambda>t s. s\<lparr>poe_threshold := t\<rparr>)] t) = Some (r, s')"
      using run mem by (auto simp: plat_state_poe_init_def names branch_def alloc_or_def elim!: bindE)
    have l: "poe_keys_ok t \<and> rest_of t = rest_of s \<and> (q = 0 \<longrightarrow> (\<forall>i. poe_of i t = poe_reported R names i (poe_of i s)))"
      using poe_loop_ok[OF t] ok by (simp add: poe_keys_ok_def rest_of_def)
    show ?thesis using rest l
      by (auto simp: took_def poe_keys_ok_def rest_of_def split: if_splits)
  next
    case False
    then show ?thesis using run ok by (simp add: plat_state_poe_init_def names fail_def)
  qed
  show "poe_keys_ok s' \<and> rest_of s' = rest_of s" using goal by blast
  show "(\<forall>i. poe_of i s' = poe_reported R (snd (rd_poe_list R)) i (poe_of i s)) \<and>
      poe_mgmt s' = snd (rd_poe_mgmt R) \<and> poe_threshold s' = snd (rd_poe_threshold R)" if "r = 0"
    using goal that by (simp add: names)
qed

section \<open>The start as a whole\<close>

lemma keeps_seq_all: "(\<And>f. f \<in> set fs \<Longrightarrow> keeps P f) \<Longrightarrow> keeps P (seq fs)"
  by (induction fs) (auto intro: keeps_rules)

lemma auth_init_ok:
  assumes "plat_state_ieee8021x_init G R s = Some (r, s')"
  shows "facts s' = (hist s, poe_ports s, poe_bmap s, poe_mgmt s, poe_threshold s, snd (rd_auth_control R), feat_core s, feat_poe s)"
proof -
  let ?t = "s\<lparr>auth_control := snd (rd_auth_control R)\<rparr>"
  have k: "keeps (\<lambda>s. facts s = k) (seq (map fail (rd_das R) @ [plat_state_ieee8021x_dac_list_init G]))" for k
    by (rule keeps_seq_all) (auto intro: keeps_fail facts_kept.dac_init_keeps)
  have "s' = ?t \<or> seq (map fail (rd_das R) @ [plat_state_ieee8021x_dac_list_init G]) ?t = Some (r, s')"
    using assms by (auto simp: plat_state_ieee8021x_init_def took_def split: if_splits)
  then have "facts s' = facts ?t" using keepsD[OF k[of "facts ?t"], of ?t r s'] by auto
  then show ?thesis by (simp add: facts_def)
qed

lemma marking_ok:
  assumes "marking m f s = Some (0, s')" "\<And>t. L (m t)" "\<not> L s'"
  shows "f s = Some (0, s')"
  using assms by (auto simp: marking_def elim!: bindE split: if_splits)

definition init_parts :: "gnma \<Rightarrow> gnma_reads \<Rightarrow> op list" where
  "init_parts G R = [marking no_aaa (plat_state_ieee8021x_init G R), marking no_aaa (plat_state_radius_init G),
     plat_state_ports_init G R, vlans_init G R, marking no_poe (plat_state_poe_init G R),
     plat_state_portsl2_init G R, routes_init G R]"

text \<open>A start that stops early leaves the core feature lost.\<close>

interpretation core_lost: init_ops "\<lambda>s. feat_core s = FEATSTS_FAIL"
proof unfold_locales
  fix u and s :: plat_state assume "quiet_upd u" "feat_core s = FEATSTS_FAIL"
  moreover from this have "facts (u s) = facts s" by (simp add: quiet_upd_def)
  ultimately show "feat_core (u s) = FEATSTS_FAIL" by (simp add: facts_def)
qed

text \<open>Reading the power settings changes no feature.\<close>

definition feats :: "plat_state \<Rightarrow> featsts \<times> featsts \<times> featsts" where
  "feats s = (feat_core s, feat_poe s, feat_aaa s)"

lemma poe_init_feats: "keeps (\<lambda>s. feats s = k) (plat_state_poe_init G R)"
proof -
  have "keeps (\<lambda>s. feats s = k) (poe_port_init R n)" for n
  proof (rule keepsI)
    fix s r s' assume "feats s = k" "poe_port_init R n s = Some (r, s')"
    then show "feats s' = k"
      by (auto simp: poe_port_init_def took_def upd_def poe_upd_def feats_def elim!: bindE split: if_splits prod.splits)
  qed
  moreover have "keeps (\<lambda>s. feats s = k) (alloc_or G r)" for r
    by (rule keepsI) (auto simp: alloc_or_def feats_def)
  ultimately show ?thesis
    unfolding plat_state_poe_init_def Let_def case_prod_unfold
    by (intro keeps_rules keeps_took) (simp_all add: feats_def)
qed

lemma init_parts_core: "keeps (\<lambda>s. feat_core s = FEATSTS_FAIL) (seq (init_parts G R))"
proof -
  have a: "keeps (\<lambda>s. feat_core s = FEATSTS_FAIL) (marking no_aaa (plat_state_ieee8021x_init G R))"
  proof (rule core_lost.no_aaa_keeps, rule keepsI)
    fix s r and s' :: plat_state assume "feat_core s = FEATSTS_FAIL" "plat_state_ieee8021x_init G R s = Some (r, s')"
    then show "feat_core s' = FEATSTS_FAIL" using auth_init_ok by (auto simp: facts_def)
  qed
  have p: "keeps (\<lambda>s. feat_core s = FEATSTS_FAIL) (marking no_poe (plat_state_poe_init G R))"
  proof (rule keeps_marking)
    show "keeps (\<lambda>s. feat_core s = FEATSTS_FAIL) (plat_state_poe_init G R)"
      by (rule keepsI) (use keepsD[OF poe_init_feats] in \<open>fastforce simp: feats_def\<close>)
  qed (simp add: no_poe_def)
  show ?thesis
    unfolding init_parts_def
    by (intro keeps_seq_Cons keeps_seq_Nil a p core_lost.no_aaa_keeps core_lost.radius_init_keeps core_lost.ports_init_keeps
        core_lost.vlans_init_keeps core_lost.portsl2_init_keeps core_lost.routes_init_keeps)
qed

text \<open>A start that succeeds went through all parts.\<close>

lemma init_success:
  assumes "plat_state_init G R s = Some (0, s')"
  obtains t where "seq (init_parts G R) (state_zero s) = Some (0, t)" "s' = features_done t"
    "feat_poe t \<noteq> FEATSTS_FAIL" "feat_aaa t \<noteq> FEATSTS_FAIL"
proof -
  obtain q where run: "seq (init_parts G R @ [upd features_done]) (state_zero s) = Some (q, s')"
    and ok: "feat_core s' = FEATSTS_OK" "feat_poe s' = FEATSTS_OK" "feat_aaa s' = FEATSTS_OK"
    using assms by (auto simp: plat_state_init_def init_parts_def simp del: seq.simps elim!: bindE split: if_splits)
  obtain r t where t: "seq (init_parts G R) (state_zero s) = Some (r, t)"
    and rest: "(if r \<noteq> 0 then Some (r, t) else seq [upd features_done] t) = Some (q, s')"
    using run unfolding seq_append by (elim bindE)
  have "feat_core t = FEATSTS_FAIL" by (rule keepsD[OF init_parts_core t]) (simp add: state_zero_def)
  then have "r = 0" using rest ok(1) by (cases "r = 0") auto
  then have s': "s' = features_done t" using rest by (simp add: upd_def)
  show thesis by (rule that[OF t[unfolded \<open>r = 0\<close>] s']) (use ok s' in \<open>auto simp: features_done_def split: if_splits\<close>)
qed

lemma aaa_parts_lost:
  "keeps (\<lambda>s. feat_aaa s = FEATSTS_FAIL) (seq (tl (init_parts G R)))"
proof -
  have p: "keeps (\<lambda>s. feat_aaa s = FEATSTS_FAIL) (marking no_poe (plat_state_poe_init G R))"
  proof (rule keeps_marking)
    show "keeps (\<lambda>s. feat_aaa s = FEATSTS_FAIL) (plat_state_poe_init G R)"
      by (rule keepsI) (use keepsD[OF poe_init_feats] in \<open>fastforce simp: feats_def\<close>)
  qed (simp add: no_poe_def)
  show ?thesis
    unfolding init_parts_def list.sel
    by (intro keeps_seq_Cons keeps_seq_Nil p aaa_lost.no_aaa_keeps aaa_lost.radius_init_keeps aaa_lost.ports_init_keeps
        aaa_lost.vlans_init_keeps aaa_lost.portsl2_init_keeps aaa_lost.routes_init_keeps)
qed

lemma init_reads:
  assumes run: "seq (init_parts G R) (state_zero s) = Some (0, t)" and mem: "\<And>k. gnma_mem G k"
    and feats: "feat_poe t \<noteq> FEATSTS_FAIL" "feat_aaa t \<noteq> FEATSTS_FAIL"
  shows "hist t = hist s \<and> poe_keys_ok t \<and> sw_view t = reported_switch R"
proof -
  let ?z = "state_zero s"
  obtain t1 where 1: "marking no_aaa (plat_state_ieee8021x_init G R) ?z = Some (0, t1)"
    and late: "seq (tl (init_parts G R)) t1 = Some (0, t)"
    using run unfolding init_parts_def list.sel by (rule seq_ConsE)
  have "feat_aaa t1 \<noteq> FEATSTS_FAIL" using keepsD[OF aaa_parts_lost late] feats(2) by blast
  then have "plat_state_ieee8021x_init G R ?z = Some (0, t1)" by (intro marking_ok[OF 1]) (auto simp: no_aaa_def)
  then have f1: "facts t1 = facts (?z\<lparr>auth_control := snd (rd_auth_control R)\<rparr>)"
    using auth_init_ok by (simp add: facts_def)
  obtain t2 t3 t4 t5 t6 where
    2: "marking no_aaa (plat_state_radius_init G) t1 = Some (0, t2)" and 3: "plat_state_ports_init G R t2 = Some (0, t3)"
    and 4: "vlans_init G R t3 = Some (0, t4)" and 5: "marking no_poe (plat_state_poe_init G R) t4 = Some (0, t5)"
    and 6: "plat_state_portsl2_init G R t5 = Some (0, t6)" and 7: "routes_init G R t6 = Some (0, t)"
    using late by (auto simp: init_parts_def simp del: seq.simps(2) elim!: seq_ConsE)
  have f4: "facts t4 = facts t1"
    using keepsD[OF facts_kept.no_aaa_keeps[OF facts_kept.radius_init_keeps] 2 refl]
      keepsD[OF facts_kept.ports_init_keeps 3 refl] keepsD[OF facts_kept.vlans_init_keeps 4 refl] by simp
  have f7: "facts t = facts t5"
    using keepsD[OF facts_kept.portsl2_init_keeps 6 refl] keepsD[OF facts_kept.routes_init_keeps 7 refl] by simp
  have "feat_poe t5 \<noteq> FEATSTS_FAIL" using f7 feats(1) by (simp add: facts_def)
  then have u5: "plat_state_poe_init G R t4 = Some (0, t5)" by (intro marking_ok[OF 5]) (auto simp: no_poe_def)
  have k4: "poe_keys_ok t4" using f4 f1 by (simp add: facts_def poe_keys_ok_def state_zero_def)
  have p4: "poe_of i t4 = poe_attrs_zero" for i using f4 f1 by (simp add: facts_def state_zero_def)
  note poe = poe_init_ok[OF u5 k4 mem]
  have "hist t5 = hist s \<and> auth_control t5 = snd (rd_auth_control R)"
    using poe(1) f4 f1 by (simp add: rest_of_def facts_def state_zero_def)
  moreover have "poe_keys_ok t" using poe(1) f7 by (simp add: facts_def poe_keys_ok_def)
  ultimately show ?thesis
    using poe(2)[OF refl] f7 p4 by (simp add: sw_view_def reported_switch_def facts_def)
qed

text \<open>Configurations applied one after the other, successful or not.\<close>

fun apply_all :: "gnma \<Rightarrow> plat_cfg list \<Rightarrow> plat_state \<Rightarrow> plat_state option" where
  "apply_all G [] s = Some s"
| "apply_all G (cfg # cfgs) s = do { (_, s) \<leftarrow> plat_config_apply_gnma G cfg s; apply_all G cfgs s }"

lemma apply_all_mirrors: "apply_all G cfgs s = Some s' \<Longrightarrow> mirrored d s \<Longrightarrow> mirrored d s'"
proof (induction cfgs arbitrary: s)
  case (Cons cfg cfgs)
  from Cons.prems(1) obtain r t where "plat_config_apply_gnma G cfg s = Some (r, t)" "apply_all G cfgs t = Some s'"
    by (auto elim: bindE)
  then show ?case using Cons.IH keepsD[OF apply_mirrors] Cons.prems(2) by blast
qed simp


text \<open>When the array for the list of power ports cannot be allocated, the function returns 0 and leaves
  the cache as it was: the start goes on to mark the power feature as available, with no
  power port known.\<close>

theorem poe_init_unreported:
  assumes "fst (rd_poe_list R) = 0" "\<not> gnma_mem G (mem_calls s)"
  shows "\<exists>s'. plat_state_poe_init G R s = Some (0, s') \<and> poe_bmap s' = poe_bmap s \<and>
    marking no_poe (plat_state_poe_init G R) s = Some (0, s') \<and> feat_poe s' = feat_poe s"
  using assms by (simp add: plat_state_poe_init_def case_prod_unfold branch_def alloc_or_def marking_def)

definition demo_reads :: gnma_reads where
  "demo_reads = \<lparr>rd_auth_control = (0, True), rd_das = [0, 0, 0, 0, 0], rd_pae = (\<lambda>_. (0, False)),
     rd_port_ctrl = (\<lambda>_. (0, FORCE_AUTHORIZED)), rd_host_mode = (\<lambda>_. (0, MULTI_AUTH)), rd_guest_vlan = (\<lambda>_. (0, 0)),
     rd_unauth_vlan = (\<lambda>_. (0, 0)), rd_stp_mode = (0, GNMA_STP_MODE_NONE, stp_attr_zero),
     rd_stp_vids = (0, \<lambda>_. stp_attr_zero), rd_relay_servers = (\<lambda>_. None), rd_relay_circuit = (\<lambda>_. (0, CIRCUIT_ID_P)),
     rd_relay_policy = (\<lambda>_. (0, RELAY_APPEND)), rd_relay_max_hop = (\<lambda>_. (0, 4)), rd_poe_list = (0, [''Ethernet1'']),
     rd_poe_admin = (\<lambda>_. (0, True)), rd_poe_detection = (\<lambda>_. (0, DETECTION_DOT3BT)),
     rd_poe_limit = (\<lambda>_. (0, True, 30000)), rd_poe_priority = (\<lambda>_. (0, POE_HIGH)), rd_poe_mgmt = (0, POE_MGMT_DYNAMIC),
     rd_poe_threshold = (0, 90), rd_portl2 = (\<lambda>_. (0, None)), rd_routes = (0, [])\<rparr>"

lemma demo_names: "named_port ''Ethernet0'' = Some 0" "named_port ''Ethernet1'' = Some 1"
  "BITMAP_SET_BIT (bitmap_zero 100) (Suc 0) = Some [2, 0, 0, 0]"
  by code_simp+

lemma demo_init_run: "\<exists>s0. plat_state_init demo_gnma demo_reads demo_plat = Some (0, s0)"
  unfolding plat_state_init_def state_zero_def
  by (simp add: demo_reads_def demo_defs op_defs took_def marking_def plat_state_ieee8021x_init_def
      plat_state_ieee8021x_dac_list_init_def plat_state_radius_init_def plat_state_ports_init_def vlans_init_def
      plat_state_poe_init_def plat_state_portsl2_init_def routes_init_def plat_port_num_get_gnma_def port_list_get_def
      GNMA_ERR_OVERFLOW_def with_port_def demo_names plat_state_port_ieee8021x_init_def port_1x_upd_def
      GNMA_MAX_VLANS_def zero_bits poe_port_init_def poe_upd_def MAX_NUM_OF_PORTS_def ucentral_router_fib_db_alloc_def
      ucentral_router_fib_db_free_def features_done_def)


definition no_memory :: gnma where
  "no_memory = demo_gnma\<lparr>gnma_mem := (\<lambda>_. False)\<rparr>"

theorem poe_init_unreported_witness:
  "\<exists>s'. plat_state_poe_init no_memory demo_reads demo_plat = Some (0, s') \<and>
     marking no_poe (plat_state_poe_init no_memory demo_reads) demo_plat = Some (0, s')"
  using poe_init_unreported[of demo_reads no_memory demo_plat] by (auto simp: demo_reads_def no_memory_def)

text \<open>The size passed to the adapter is carried from VLAN to VLAN: after a VLAN with an empty list of relay
  servers the relay of the next one is not read; after a VLAN with two servers a list of the next one is
  written past the array.\<close>

theorem relay_size_carried:
  assumes "rd_relay_servers R b = Some [ip]"
  shows "rd_relay_servers R a = Some [] \<Longrightarrow> fst (rd_relay_circuit R a) = 0 \<Longrightarrow> fst (rd_relay_policy R a) = 0 \<Longrightarrow>
      fst (rd_relay_max_hop R a) = 0 \<Longrightarrow> a \<noteq> b \<Longrightarrow>
      \<exists>s'. relay_init_loop R [a, b] 1 s = Some (0, s') \<and> relays s' b = relays s b"
    and "rd_relay_servers R a = Some [x, y] \<Longrightarrow> relay_init_loop R [a, b] 1 s = None"
  using assms
  by (simp_all add: gnma_vlan_dhcp_relay_server_list_get_def relay_read_def upd_def took_def relay_upd_def GNMA_ERR_OVERFLOW_def)

end
