(* ===== verification/Plat_Poll.thy ===== *)
theory Plat_Poll
  imports Plat_Init Proto_Handlers
begin

text \<open>
  Periodic reports of the SONiC platform (\<open>plat-gnma.c\<close>): the thread that waits and calls back
  (\<open>periodic_thread\<close>), starting and stopping one for each kind of report, and the health report. A
  thread's run is a function of the clock readings and of how each wait ended. Times of the
  clock are seconds and nanoseconds.
\<close>

section \<open>The thread\<close>

definition deadline_after :: "int \<times> int \<Rightarrow> u64 \<Rightarrow> int \<times> int" where
  "deadline_after clk timeout =
     (let sec = fst clk + uint timeout div 1000000; nsec = snd clk + (uint timeout mod 1000000) * 1000 in
      if nsec \<ge> 1000000000 then (sec + 1, nsec - 1000000000) else (sec, nsec))"

text \<open>A wait ends because the thread is told to stop, by the deadline, after which the callback returns a
  code, or with an error.\<close>

datatype wait_end = Told_To_Stop | Timed_Out int | Wait_Failed

text \<open>The deadlines at which the callback was called.\<close>

fun periodic_thread :: "u64 \<Rightarrow> u64 \<Rightarrow> ((int \<times> int) \<times> wait_end) list \<Rightarrow> (int \<times> int) list" where
  "periodic_thread timeout period [] = []"
| "periodic_thread timeout period ((clk, w) # ws) =
     (case w of
        Timed_Out ret \<Rightarrow> deadline_after clk timeout # (if ret \<noteq> 0 then [] else periodic_thread period period ws)
      | _ \<Rightarrow> [])"

section \<open>Starting and stopping\<close>

datatype poll_kind = POLL_HEALTH | POLL_TELEMETRY | POLL_STATE | POLL_UPGRADE

record periodic =
  delay_usec :: u64
  period_usec :: u64

type_synonym pollers = "poll_kind \<Rightarrow> periodic option"

definition periodic_create :: "bool \<Rightarrow> poll_kind \<Rightarrow> u64 \<Rightarrow> u64 \<Rightarrow> pollers \<Rightarrow> int \<times> pollers" where
  "periodic_create ok k delay period p =
     (if ok then (0, p(k \<mapsto> \<lparr>delay_usec = delay, period_usec = period\<rparr>)) else (- 1, p))"

definition periodic_destroy :: "poll_kind \<Rightarrow> pollers \<Rightarrow> pollers" where
  "periodic_destroy k p = p(k := None)"

text \<open>\<open>period_sec * 1000000\<close> is a product of type \<open>int\<close>; it is undefined when it does not fit.\<close>

definition period_of_seconds :: "int \<Rightarrow> u64 option" where
  "period_of_seconds sec =
     (let us = sec * 1000000 in if - 2147483648 \<le> us \<and> us \<le> 2147483647 then Some (word_of_int us) else None)"

definition plat_poll :: "bool \<Rightarrow> poll_kind \<Rightarrow> int \<Rightarrow> pollers \<Rightarrow> pollers option" where
  "plat_poll ok k period_sec p =
     do {
       let p = periodic_destroy k p;
       us \<leftarrow> period_of_seconds period_sec;
       Some (snd (periodic_create ok k 0 us p))
     }"

definition plat_poll_stop :: "poll_kind \<Rightarrow> pollers \<Rightarrow> pollers" where
  "plat_poll_stop k p = periodic_destroy k p"

section \<open>Health\<close>

definition health_periodic_cb :: "plat_state \<Rightarrow> plat_health_info" where
  "health_periodic_cb s =
     (if feat_core s \<noteq> FEATSTS_OK then
        \<lparr>sanity = 0, msg = [[], [], ''the core features are not initialized'']\<rparr>
      else
        \<lparr>sanity = (if feat_aaa s \<noteq> FEATSTS_OK \<or> feat_poe s \<noteq> FEATSTS_OK then 50 else 100),
         msg = [if feat_aaa s \<noteq> FEATSTS_OK then ''the 8021X feature is not initialized'' else [],
                if feat_poe s \<noteq> FEATSTS_OK then ''the POE feature is not initialized'' else [], []]\<rparr>)"

text \<open>The health report is the outcome of the start: full sanity exactly after success.\<close>

lemma health_after_start:
  assumes "plat_state_init G R s = Some (r, s')"
  shows "r = 0 \<longleftrightarrow> sanity (health_periodic_cb s') = 100"
proof -
  have "r = (if feat_core s' = FEATSTS_OK \<and> feat_poe s' = FEATSTS_OK \<and> feat_aaa s' = FEATSTS_OK then 0 else - 1)"
    using assms unfolding plat_state_init_def by (elim bindE) simp
  then show ?thesis by (auto simp: health_periodic_cb_def)
qed

section \<open>Properties\<close>

lemma deadline_whole:
  assumes "0 \<le> nsec" "nsec < 1000000000" "0 \<le> n" "n \<le> 2147"
  shows "deadline_after (sec, nsec) (word_of_int (n * 1000000)) = (sec + n, nsec)"
proof -
  have "uint (word_of_int (n * 1000000) :: u64) = n * 1000000"
    unfolding uint_word_of_int_eq using assms by (intro take_bit_int_eq_self) simp_all
  then show ?thesis using assms by (simp add: deadline_after_def Let_def)
qed

lemma thread_deadlines:
  assumes "0 \<le> n" "n \<le> 2147" "\<forall>(clk, w) \<in> set ws. 0 \<le> snd clk \<and> snd clk < 1000000000"
  shows "periodic_thread (word_of_int (n * 1000000)) (word_of_int (n * 1000000)) ws =
    map (\<lambda>(clk, w). (fst clk + n, snd clk)) (take (length (periodic_thread (word_of_int (n * 1000000)) (word_of_int (n * 1000000)) ws)) ws)"
  using assms(3)
proof (induction ws)
  case (Cons x ws)
  obtain sec nsec w where x: "x = ((sec, nsec), w)" by (metis surj_pair)
  have d: "deadline_after (sec, nsec) (word_of_int (n * 1000000)) = (sec + n, nsec)"
    using Cons.prems assms(1,2) x by (intro deadline_whole) auto
  show ?case
  proof (cases w)
    case (Timed_Out ret)
    then show ?thesis using Cons x d by (cases "ret = 0") simp_all
  qed (simp_all add: x)
qed simp

lemma poll_period_small: "unat iv \<le> 2147483647 \<Longrightarrow> poll_period iv = int (unat iv)"
proof -
  assume "unat iv \<le> 2147483647"
  then have "int (unat iv) \<le> 2147483647" by linarith
  then have iv: "uint iv \<le> 2147483647" by (simp only: uint_nat)
  have u: "uint (ucast iv :: 32 word) = uint iv"
    unfolding unsigned_ucast_eq using iv by (intro take_bit_int_eq_self) auto
  have "sint (ucast iv :: 32 word) = signed_take_bit 31 (uint (ucast iv :: 32 word))" unfolding sint_uint by simp
  also have "\<dots> = uint iv"
    unfolding u by (rule signed_take_bit_int_eq_self) (use iv in \<open>simp_all add: order_trans[OF _ unsigned_greater_eq]\<close>)
  finally show "poll_period iv = int (unat iv)" by (simp add: poll_period_def)
qed



end
