(* ===== verification/Plat_Read.thy ===== *)
theory Plat_Read
  imports Plat_Init State_Report
begin

text \<open>
  The readers of the SONiC platform (\<open>plat-gnma.c\<close>) that turn answers of the management adapter into
  the structures of the state report: port counters, the neighbour of a port, power over
  ethernet, authenticated clients, multicast groups. Most answers are JSON texts; parsing them is
  the library's (\<open>sr_parse\<close>). A reader is a list of steps on the structure it fills: the first
  failing step ends it with -1 and leaves what was filled so far, as the jumps to \<open>err\<close> do.
\<close>

section \<open>Answers of the adapter\<close>

datatype gnma_port_stat_type_t =
    GNMA_PORT_STAT_IN_OCTETS | GNMA_PORT_STAT_IN_DISCARDS | GNMA_PORT_STAT_IN_ERRORS
  | GNMA_PORT_STAT_IN_BCAST_PKTS | GNMA_PORT_STAT_IN_MCAST_PKTS | GNMA_PORT_STAT_IN_UCAST_PKTS
  | GNMA_PORT_STAT_OUT_OCTETS | GNMA_PORT_STAT_OUT_DISCARDS | GNMA_PORT_STAT_OUT_ERRORS
  | GNMA_PORT_STAT_OUT_BCAST_PKTS | GNMA_PORT_STAT_OUT_MCAST_PKTS | GNMA_PORT_STAT_OUT_UCAST_PKTS

datatype gnma_ieee8021x_das_dac_stat_type_t =
    DAC_STAT_IN_COA_PKTS | DAC_STAT_OUT_COA_ACK_PKTS | DAC_STAT_OUT_COA_NAK_PKTS
  | DAC_STAT_IN_COA_IGNORED_PKTS | DAC_STAT_IN_COA_WRONG_ATTR_PKTS
  | DAC_STAT_IN_COA_WRONG_ATTR_VALUE_PKTS | DAC_STAT_IN_COA_WRONG_SESSION_CONTEXT_PKTS
  | DAC_STAT_IN_COA_ADMINISTRATIVELY_PROHIBITED_REQ_PKTS

record gnma_fdb_entry =
  fdb_port :: string
  fdb_dynamic :: bool
  fdb_vid :: int
  fdb_mac :: string

record gnma_vlan_ip_t =
  ip_vid :: u16
  ip_prefixlen :: u16
  ip_address :: u32

text \<open>A dynamic route with the next hop that the adapter fills in.\<close>

record dyn_route =
  dr_prefix :: gnma_ip_prefix
  dr_gw :: u32
  dr_metric :: u32
  dr_egress :: string

text \<open>\<open>struct sysinfo\<close> as far as it is used; it stays zero when the call fails.\<close>

record sysinfo =
  si_uptime :: u64
  si_bufferram :: u64
  si_freeram :: u64
  si_freeswap :: u64
  si_totalram :: u64
  si_mem_unit :: u64

text \<open>Queries by port name, by VLAN interface name, or for the whole switch. A list is asked for
  twice: first its size, then its elements for an array of a given size. \<open>sr_auth_clients\<close> is asked at
  most once per port.\<close>

record 'j state_reads =
  sr_json :: "'j cjson"
  sr_parse :: "string \<Rightarrow> 'j option"
  sr_inet_pton :: "string \<Rightarrow> u32 option"
  sr_inet_pton6 :: "string \<Rightarrow> bool"
  sr_speed :: "string \<Rightarrow> int \<times> string"
  sr_duplex :: "string \<Rightarrow> int \<times> bool"
  sr_oper :: "string \<Rightarrow> int \<times> bool"
  sr_stats :: "string \<Rightarrow> gnma_port_stat_type_t list \<Rightarrow> int \<times> u64 list"
  sr_lldp :: "string \<Rightarrow> int \<times> string"
  sr_auth_clients :: "nat \<Rightarrow> int \<times> string"
  sr_poe :: "int \<times> string"
  sr_poe_port :: "string \<Rightarrow> int \<times> string"
  sr_igmp_size :: "string \<Rightarrow> int \<times> nat"
  sr_igmp :: "string \<Rightarrow> nat \<Rightarrow> int \<times> string"
  sr_addrs_size :: "int \<times> nat"
  sr_addrs :: "nat \<Rightarrow> int \<times> gnma_vlan_ip_t list"
  sr_macs_size :: "int \<times> nat"
  sr_macs :: "nat \<Rightarrow> int \<times> gnma_fdb_entry list"
  sr_coa :: "gnma_ieee8021x_das_dac_stat_type_t list \<Rightarrow> int \<times> u64 list"
  sr_routes_size :: "int \<times> nat"
  sr_routes :: "nat \<Rightarrow> int \<times> dyn_route list"
  sr_nei :: "string \<Rightarrow> u32 \<Rightarrow> int \<times> string"
  sr_time :: u64
  sr_sysinfo :: sysinfo
  sr_meminfo :: "string list option"
  sr_loadavg :: "dbl list"

section \<open>Steps\<close>

type_synonym 's step = "'s \<Rightarrow> (int \<times> 's) option"

definition steps :: "'s step list \<Rightarrow> 's step" where
  "steps fs = loop_ret (\<lambda>f. f) fs"

definition need :: "bool \<Rightarrow> 's step" where
  "need b s = Some (if b then 0 else - 1, s)"

definition put :: "('s \<Rightarrow> 's) \<Rightarrow> 's step" where
  "put f s = Some (0, f s)"

text \<open>A number converted to the type of its field, and a string copied into an array of \<open>n\<close> bytes.\<close>

definition put_num :: "dbl \<Rightarrow> ('a::len word \<Rightarrow> 's \<Rightarrow> 's) \<Rightarrow> 's step" where
  "put_num d f s = do { w \<leftarrow> dbl_to_word d; Some (0, f w s) }"

definition put_str :: "nat \<Rightarrow> string option \<Rightarrow> (string \<Rightarrow> 's \<Rightarrow> 's) \<Rightarrow> 's step" where
  "put_str n v f s = do { t \<leftarrow> strcpy n v; Some (0, f t s) }"

lemmas step_defs = need_def put_def put_num_def put_str_def

lemma steps_Nil [simp]: "steps [] s = Some (0, s)"
  by (simp add: steps_def)

lemma steps_Cons: "steps (f # fs) s = do { (r, s) \<leftarrow> f s; if r \<noteq> 0 then Some (r, s) else steps fs s }"
  unfolding steps_def by simp

section \<open>Port counters\<close>

text \<open>The place of a value in an array, and its length when it is not there.\<close>

fun ARR_FIND_VALUE_IDX :: "'a list \<Rightarrow> 'a \<Rightarrow> nat" where
  "ARR_FIND_VALUE_IDX [] v = 0"
| "ARR_FIND_VALUE_IDX (x # xs) v = (if x = v then 0 else Suc (ARR_FIND_VALUE_IDX xs v))"

definition port_stat_types :: "gnma_port_stat_type_t list" where
  "port_stat_types =
     [GNMA_PORT_STAT_IN_OCTETS, GNMA_PORT_STAT_IN_DISCARDS, GNMA_PORT_STAT_IN_ERRORS,
      GNMA_PORT_STAT_IN_BCAST_PKTS, GNMA_PORT_STAT_IN_MCAST_PKTS, GNMA_PORT_STAT_IN_UCAST_PKTS,
      GNMA_PORT_STAT_OUT_OCTETS, GNMA_PORT_STAT_OUT_DISCARDS, GNMA_PORT_STAT_OUT_ERRORS,
      GNMA_PORT_STAT_OUT_BCAST_PKTS, GNMA_PORT_STAT_OUT_MCAST_PKTS, GNMA_PORT_STAT_OUT_UCAST_PKTS]"

text \<open>The counter of a kind in the array that was filled; undefined outside of it.\<close>

definition counter :: "'a list \<Rightarrow> u64 list \<Rightarrow> 'a \<Rightarrow> u64 option" where
  "counter types cs t = (let i = ARR_FIND_VALUE_IDX types t in if i < length cs then Some (cs ! i) else None)"

definition EINVAL :: int where "EINVAL = 22"
definition ENOMEM :: int where "ENOMEM = 12"

definition counters_zero :: plat_port_counters where
  "counters_zero = \<lparr>collisions = 0, multicast = 0, rx_bytes = 0, rx_dropped = 0, rx_error = 0, rx_packets = 0,
     tx_bytes = 0, tx_dropped = 0, tx_error = 0, tx_packets = 0\<rparr>"

definition plat_port_stats_get :: "'j state_reads \<Rightarrow> nat \<Rightarrow> (int \<times> plat_port_counters) option" where
  "plat_port_stats_get R pid =
     (let (ret, cs) = sr_stats R (PID_TO_NAME pid) port_stat_types; c = counter port_stat_types cs in
      if ret \<noteq> 0 then Some (- EINVAL, counters_zero)
      else do {
        in_bytes \<leftarrow> c GNMA_PORT_STAT_IN_OCTETS;
        in_disc \<leftarrow> c GNMA_PORT_STAT_IN_DISCARDS;
        in_err \<leftarrow> c GNMA_PORT_STAT_IN_ERRORS;
        in_uc \<leftarrow> c GNMA_PORT_STAT_IN_UCAST_PKTS;
        in_mc \<leftarrow> c GNMA_PORT_STAT_IN_MCAST_PKTS;
        in_bc \<leftarrow> c GNMA_PORT_STAT_IN_BCAST_PKTS;
        out_bytes \<leftarrow> c GNMA_PORT_STAT_OUT_OCTETS;
        out_disc \<leftarrow> c GNMA_PORT_STAT_OUT_DISCARDS;
        out_err \<leftarrow> c GNMA_PORT_STAT_OUT_ERRORS;
        out_uc \<leftarrow> c GNMA_PORT_STAT_OUT_UCAST_PKTS;
        out_mc \<leftarrow> c GNMA_PORT_STAT_OUT_MCAST_PKTS;
        out_bc \<leftarrow> c GNMA_PORT_STAT_OUT_BCAST_PKTS;
        Some (0, \<lparr>collisions = 0, multicast = 0, rx_bytes = in_bytes, rx_dropped = in_disc, rx_error = in_err,
          rx_packets = in_uc + in_mc + in_bc, tx_bytes = out_bytes, tx_dropped = out_disc, tx_error = out_err,
          tx_packets = out_uc + out_mc + out_bc\<rparr>)
      })"

section \<open>The neighbour of a port\<close>

definition lldp_zero :: plat_port_lldp_peer_info where
  "lldp_zero = \<lparr>is_bridge = False, is_router = False, is_wlan_ap = False, is_station = False, lldp_name = [],
     lldp_mac = [], lldp_description = [], mgmt_ips = [[], []], lldp_port = []\<rparr>"

text \<open>One announced capability. The code stores \<open>STATION_ONLY\<close> as \<open>is_wlan_ap\<close>.\<close>

definition lldp_capability :: "'j cjson \<Rightarrow> 'j \<Rightarrow> plat_port_lldp_peer_info step" where
  "lldp_capability J it =
     (let name = cJSON_GetStringValue J (cJSON_GetObjectItemCaseSensitive J (Some it) ''name'');
          enabled = cJSON_GetObjectItemCaseSensitive J (cJSON_GetObjectItemCaseSensitive J (Some it) ''state'') ''enabled'';
          on = cJSON_IsTrue J enabled
      in steps [
        need (name \<noteq> None \<and> cJSON_IsBool J enabled),
        put (\<lambda>i. if name = Some ''openconfig-lldp-types:MAC_BRIDGE'' then i\<lparr>is_bridge := on\<rparr>
                 else if name = Some ''openconfig-lldp-types:ROUTER'' then i\<lparr>is_router := on\<rparr>
                 else if name = Some ''openconfig-lldp-types:WLAN_ACCESS_POINT'' then i\<lparr>is_wlan_ap := on\<rparr>
                 else if name = Some ''openconfig-lldp-types:STATION_ONLY'' then i\<lparr>is_wlan_ap := on\<rparr>
                 else i)])"

text \<open>The tokens of \<open>strtok (s, ",")\<close>.\<close>

fun split_commas :: "string \<Rightarrow> string \<Rightarrow> string list" where
  "split_commas acc [] = [acc]"
| "split_commas acc (c # cs) = (if c = CHR '','' then acc # split_commas [] cs else split_commas (acc @ [c]) cs)"

definition strtok_commas :: "string \<Rightarrow> string list" where
  "strtok_commas s = filter (\<lambda>t. t \<noteq> []) (split_commas [] s)"

definition MAX_MGMT_IPS :: nat where "MAX_MGMT_IPS = 2"
definition INET6_ADDRSTRLEN :: nat where "INET6_ADDRSTRLEN = 46"

text \<open>An address that is a valid IPv4 address is tested as an IPv6 address; any other text is copied.\<close>

definition lldp_address :: "'j state_reads \<Rightarrow> nat \<times> string \<Rightarrow> plat_port_lldp_peer_info step" where
  "lldp_address R = (\<lambda>(i, p). steps [
     need (\<not> (sr_inet_pton R p \<noteq> None \<and> sr_inet_pton6 R p)),
     put (\<lambda>l. l\<lparr>mgmt_ips := (mgmt_ips l)[i := take INET6_ADDRSTRLEN p]\<rparr>)])"

definition lldp_peer_info_buf_parse :: "'j state_reads \<Rightarrow> string \<Rightarrow> plat_port_lldp_peer_info step" where
  "lldp_peer_info_buf_parse R buf =
     (let J = sr_json R; lldp = sr_parse R buf;
          state = cJSON_GetObjectItemCaseSensitive J lldp ''state'';
          capabilities = cJSON_GetObjectItemCaseSensitive J lldp ''capabilities'';
          capability = cJSON_GetObjectItemCaseSensitive J capabilities ''capability'';
          str = (\<lambda>name. cJSON_GetStringValue J (cJSON_GetObjectItemCaseSensitive J state name));
          ips = take MAX_MGMT_IPS (strtok_commas (case_option [] id (str ''management-address'')))
      in steps [
        need (lldp \<noteq> None),
        need (state \<noteq> None \<and> capabilities \<noteq> None \<and> cJSON_IsArray J capability),
        steps (map (lldp_capability J) (cJSON_Array J capability)),
        need (str ''system-description'' \<noteq> None \<and> str ''management-address'' \<noteq> None \<and>
              str ''system-name'' \<noteq> None \<and> str ''chassis-id'' \<noteq> None),
        put_str 64 (str ''system-name'') (\<lambda>t l. l\<lparr>lldp_name := t\<rparr>),
        put_str 512 (str ''system-description'') (\<lambda>t l. l\<lparr>lldp_description := t\<rparr>),
        put_str 18 (str ''chassis-id'') (\<lambda>t l. l\<lparr>lldp_mac := t\<rparr>),
        steps (map (lldp_address R) (enumerate 0 ips)),
        need (cJSON_GetStringValue J (cJSON_GetObjectItemCaseSensitive J lldp ''id'') \<noteq> None),
        put_str 32 (cJSON_GetStringValue J (cJSON_GetObjectItemCaseSensitive J lldp ''id'')) (\<lambda>t l. l\<lparr>lldp_port := t\<rparr>)])"

section \<open>Power over ethernet\<close>

text \<open>\<open>strtod\<close>: white space, a sign, then infinity, not a number, a hexadecimal or a decimal number with
  an optional fraction and exponent; 0 when there is none of them.\<close>

definition hex_digit :: "char \<Rightarrow> nat option" where
  "hex_digit c =
     (case digit_val c of
        Some d \<Rightarrow> Some d
      | None \<Rightarrow> let v = of_char (ascii_lower c) in if 97 \<le> v \<and> v \<le> 102 then Some (v - 87) else None)"

definition number_of_digits :: "nat \<Rightarrow> nat list \<Rightarrow> nat list \<Rightarrow> rat" where
  "number_of_digits base ds fs = of_nat (foldl (\<lambda>a d. base * a + d) 0 (ds @ fs)) / of_nat (base ^ length fs)"

definition exponent :: "char \<Rightarrow> string \<Rightarrow> int" where
  "exponent mark s =
     (case s of
        c # d # cs \<Rightarrow>
          if ascii_lower c \<noteq> mark then 0
          else if d = CHR ''-'' then - int (scan_digits 0 cs)
          else if d = CHR ''+'' then int (scan_digits 0 cs)
          else int (scan_digits 0 (d # cs))
      | _ \<Rightarrow> 0)"

definition scale :: "nat \<Rightarrow> int \<Rightarrow> rat \<Rightarrow> rat" where
  "scale base e q = (if e < 0 then q / of_nat (base ^ nat (- e)) else q * of_nat (base ^ nat e))"

definition strtod_digits :: "(char \<Rightarrow> nat option) \<Rightarrow> nat \<Rightarrow> char \<Rightarrow> nat \<Rightarrow> string \<Rightarrow> rat" where
  "strtod_digits dv base mark ebase s =
     (let isd = (\<lambda>c. dv c \<noteq> None); ds = takeWhile isd s; r = dropWhile isd s;
          frac = (case r of c # cs \<Rightarrow> c = CHR ''.'' \<and> (ds \<noteq> [] \<or> (cs \<noteq> [] \<and> isd (hd cs))) | [] \<Rightarrow> False);
          fs = (if frac then takeWhile isd (tl r) else []);
          r = (if frac then dropWhile isd (tl r) else r)
      in if ds = [] \<and> fs = [] then 0
         else scale ebase (exponent mark r) (number_of_digits base (List.map_filter dv ds) (List.map_filter dv fs)))"

fun hex_start :: "string \<Rightarrow> bool" where
  "hex_start (c # d # cs) \<longleftrightarrow> hex_digit c \<noteq> None \<or> (c = CHR ''.'' \<and> hex_digit d \<noteq> None)"
| "hex_start [c] \<longleftrightarrow> hex_digit c \<noteq> None"
| "hex_start [] \<longleftrightarrow> False"

definition strtod_unsigned :: "string \<Rightarrow> dbl" where
  "strtod_unsigned s =
     (let l = map ascii_lower s in
      if take 3 l = ''inf'' then PInf
      else if take 3 l = ''nan'' then NaN
      else if take 2 l = ''0x'' \<and> hex_start (drop 2 s) then Fin (strtod_digits hex_digit 16 (CHR ''p'') 2 (drop 2 s))
      else Fin (strtod_digits digit_val 10 (CHR ''e'') 10 s))"

definition strtod :: "string \<Rightarrow> dbl" where
  "strtod s =
     (case dropWhile is_ws s of
        [] \<Rightarrow> Fin 0
      | c # cs \<Rightarrow>
          if c = CHR ''-'' then (case strtod_unsigned cs of NaN \<Rightarrow> NaN | PInf \<Rightarrow> NInf | NInf \<Rightarrow> PInf | Fin q \<Rightarrow> Fin (- q))
          else if c = CHR ''+'' then strtod_unsigned cs
          else strtod_unsigned (c # cs))"

definition poe_zero :: plat_poe_state where
  "poe_zero = \<lparr>max_power_budget = 0, power_threshold = 0, power_consumed = 0, power_status = []\<rparr>"

definition poe_port_zero :: plat_poe_port_state where
  "poe_port_zero = \<lparr>poe_status = [], fault_status = [], output_voltage = [], poe_temperature = [], output_power = 0,
     output_current = 0, class_requested = 0, class_assigned = 0, cnt_overload = 0, cnt_shorted = 0,
     cnt_power_denied = 0, cnt_absent = 0, cnt_invalid_signature = 0\<rparr>"

text \<open>\<open>sscanf\<close> of an unsigned number that must be there.\<close>

definition put_scan :: "string \<Rightarrow> (u32 \<Rightarrow> 's \<Rightarrow> 's) \<Rightarrow> 's step" where
  "put_scan str f s =
     (case scan_unsigned 32 str of
        ScanVal n \<Rightarrow> Some (0, f (of_nat n) s)
      | ScanRange \<Rightarrow> None
      | _ \<Rightarrow> Some (- 1, s))"

definition poe_port_state_buf_parse :: "'j state_reads \<Rightarrow> string \<Rightarrow> plat_poe_port_state step" where
  "poe_port_state_buf_parse R buf =
     (let J = sr_json R; state = sr_parse R buf;
          item = cJSON_GetObjectItemCaseSensitive J state;
          counters = item ''openconfig-if-poe-ext:counters'';
          cnt = (\<lambda>name. cJSON_GetNumberValue J (cJSON_GetObjectItemCaseSensitive J counters name));
          opt = (\<lambda>it. if cJSON_IsNumber J it then cJSON_GetNumberValue J it else Fin 0);
          str = (\<lambda>name. cJSON_GetStringValue J (item name));
          current = item ''openconfig-if-poe-ext:output-current'';
          temp = cJSON_GetStringValue J (cJSON_GetObjectItemCaseSensitive J (item ''openconfig-if-poe-ext:diagnostics'') ''temperature'')
      in steps [
        need (state \<noteq> None),
        need (cJSON_IsObject J counters),
        put_num (cnt ''absent-counter'') (\<lambda>w s. s\<lparr>cnt_absent := w\<rparr>),
        put_num (cnt ''short-counter'') (\<lambda>w s. s\<lparr>cnt_shorted := w\<rparr>),
        put_num (cnt ''overload-counter'') (\<lambda>w s. s\<lparr>cnt_overload := w\<rparr>),
        put_num (cnt ''power-denied-counter'') (\<lambda>w s. s\<lparr>cnt_power_denied := w\<rparr>),
        put_num (cnt ''invalid-signature-counter'') (\<lambda>w s. s\<lparr>cnt_invalid_signature := w\<rparr>),
        put_num (opt (item ''openconfig-if-poe-ext:power-class-requested'')) (\<lambda>w s. s\<lparr>class_requested := w\<rparr>),
        put_num (opt (item ''power-class'')) (\<lambda>w s. s\<lparr>class_assigned := w\<rparr>),
        need (str ''power-used'' \<noteq> None \<and> cJSON_IsNumber J current \<and> str ''openconfig-if-poe-ext:output-voltage'' \<noteq> None),
        put_scan (case_option [] id (str ''power-used'')) (\<lambda>w s. s\<lparr>output_power := w\<rparr>),
        put_num (cJSON_GetNumberValue J current) (\<lambda>w s. s\<lparr>output_current := w\<rparr>),
        put_str 32 (str ''openconfig-if-poe-ext:output-voltage'') (\<lambda>t s. s\<lparr>output_voltage := t\<rparr>),
        need (temp \<noteq> None),
        put_str 32 temp (\<lambda>t s. s\<lparr>poe_temperature := t\<rparr>),
        need (str ''openconfig-if-poe-ext:status'' \<noteq> None \<and> str ''openconfig-if-poe-ext:fault-code'' \<noteq> None),
        put_str 32 (str ''openconfig-if-poe-ext:status'') (\<lambda>t s. s\<lparr>poe_status := t\<rparr>),
        put_str 32 (str ''openconfig-if-poe-ext:fault-code'') (\<lambda>t s. s\<lparr>fault_status := t\<rparr>)])"

definition poe_state_buf_parse :: "'j state_reads \<Rightarrow> string \<Rightarrow> plat_poe_state step" where
  "poe_state_buf_parse R buf =
     (let J = sr_json R; state = sr_parse R buf;
          item = cJSON_GetObjectItemCaseSensitive J state;
          str = (\<lambda>name. cJSON_GetStringValue J (item name));
          num = (\<lambda>name. strtod (case_option [] id (str name)))
      in steps [
        need (state \<noteq> None),
        put_num (cJSON_GetNumberValue J (item ''max-power-budget'')) (\<lambda>w s. s\<lparr>max_power_budget := w\<rparr>),
        need (str ''power-threshold'' \<noteq> None),
        put_num (num ''power-threshold'') (\<lambda>w s. s\<lparr>power_threshold := w\<rparr>),
        need (str ''power-consumption'' \<noteq> None),
        put_num (num ''power-consumption'') (\<lambda>w s. s\<lparr>power_consumed := w\<rparr>),
        need (str ''pse-oper-status'' \<noteq> None),
        put_str 32 (str ''pse-oper-status'') (\<lambda>t s. s\<lparr>power_status := t\<rparr>)])"

text \<open>A buffer is allocated, filled by the adapter and parsed.\<close>

definition read_buf ::
  "(nat \<Rightarrow> bool) \<Rightarrow> int \<times> string \<Rightarrow> (string \<Rightarrow> 's step) \<Rightarrow> nat \<Rightarrow> 's \<Rightarrow> (int \<times> 's \<times> nat) option" where
  "read_buf mem answer parse k s =
     (let (ret, buf) = answer in
      if \<not> mem k then Some (- ENOMEM, s, Suc k)
      else if ret \<noteq> 0 then Some (ret, s, Suc k)
      else do { (ret, s) \<leftarrow> parse buf s; Some (ret, s, Suc k) })"

definition plat_poe_port_state_get ::
  "'j state_reads \<Rightarrow> (nat \<Rightarrow> bool) \<Rightarrow> nat \<Rightarrow> nat \<Rightarrow> plat_poe_port_state \<Rightarrow> (int \<times> plat_poe_port_state \<times> nat) option" where
  "plat_poe_port_state_get R mem pid = read_buf mem (sr_poe_port R (PID_TO_NAME pid)) (poe_port_state_buf_parse R)"

definition plat_poe_state_get ::
  "'j state_reads \<Rightarrow> (nat \<Rightarrow> bool) \<Rightarrow> nat \<Rightarrow> plat_poe_state \<Rightarrow> (int \<times> plat_poe_state \<times> nat) option" where
  "plat_poe_state_get R mem = read_buf mem (sr_poe R) (poe_state_buf_parse R)"

definition plat_port_lldp_peer_info_get ::
  "'j state_reads \<Rightarrow> (nat \<Rightarrow> bool) \<Rightarrow> nat \<Rightarrow> nat \<Rightarrow> plat_port_lldp_peer_info \<Rightarrow> (int \<times> plat_port_lldp_peer_info \<times> nat) option" where
  "plat_port_lldp_peer_info_get R mem pid = read_buf mem (sr_lldp R (PID_TO_NAME pid)) (lldp_peer_info_buf_parse R)"

section \<open>Authenticated clients\<close>

definition client_zero :: ieee8021x_client where
  "client_zero = \<lparr>auth_method = [], mac_addr = [], session_time = 0, username = [], vlan_type = [], client_vid = 0\<rparr>"

definition client_fill :: "'j cjson \<Rightarrow> 'j \<Rightarrow> ieee8021x_client step" where
  "client_fill J it =
     (let item = cJSON_GetObjectItemCaseSensitive J (cJSON_GetObjectItemCaseSensitive J (Some it) ''state'');
          str = (\<lambda>name. cJSON_GetStringValue J (item name));
          cpy = (\<lambda>n name. take (n - 1) (case_option [] id (str name)))
      in steps [
        need (str ''authenticated-method'' \<noteq> None),
        put (\<lambda>c. c\<lparr>auth_method := cpy 32 ''authenticated-method''\<rparr>),
        need (str ''macaddress'' \<noteq> None),
        put (\<lambda>c. c\<lparr>mac_addr := cpy 18 ''macaddress''\<rparr>),
        put_num (cJSON_GetNumberValue J (item ''session-time'')) (\<lambda>w c. c\<lparr>session_time := w\<rparr>),
        need (str ''user-name'' \<noteq> None),
        put (\<lambda>c. c\<lparr>username := cpy 64 ''user-name''\<rparr>),
        need (str ''vlan-type'' \<noteq> None),
        put (\<lambda>c. c\<lparr>vlan_type := cpy 32 ''vlan-type''\<rparr>),
        put_num (cJSON_GetNumberValue J (item ''vlan-id'')) (\<lambda>w c. c\<lparr>client_vid := w\<rparr>)])"

text \<open>The first pass over the clients compares the name inside their state, the second one the name beside
  it. The array of the second pass has room for \<open>arr_len * arr_len\<close> clients.\<close>

definition state_name :: "'j cjson \<Rightarrow> 'j \<Rightarrow> string option" where
  "state_name J it =
     cJSON_GetStringValue J (cJSON_GetObjectItemCaseSensitive J (cJSON_GetObjectItemCaseSensitive J (Some it) ''state'') ''name'')"

definition own_name :: "'j cjson \<Rightarrow> 'j \<Rightarrow> string option" where
  "own_name J it = cJSON_GetStringValue J (cJSON_GetObjectItemCaseSensitive J (Some it) ''name'')"

definition client_one :: "'j cjson \<Rightarrow> string \<Rightarrow> 'j \<Rightarrow> (nat \<times> ieee8021x_client list) step" where
  "client_one J name it = (\<lambda>(i, arr).
     case own_name J it of
       None \<Rightarrow> Some (- 1, i, arr)
     | Some n \<Rightarrow>
         if n \<noteq> name then Some (0, i, arr)
         else if length arr \<le> i then None
         else do { (r, c) \<leftarrow> client_fill J it (arr ! i); Some (r, if r = 0 then Suc i else i, arr[i := c]) })"

definition ieee8021x_auth_clients_parse ::
  "'j state_reads \<Rightarrow> (nat \<Rightarrow> bool) \<Rightarrow> nat \<Rightarrow> string \<Rightarrow> nat \<Rightarrow> (int \<times> ieee8021x_client list \<times> nat) option" where
  "ieee8021x_auth_clients_parse R mem pid buf k =
     (let J = sr_json R; name = PID_TO_NAME pid; root = sr_parse R buf;
          clients = cJSON_Array J (cJSON_GetObjectItemCaseSensitive J
            (cJSON_GetObjectItemCaseSensitive J root ''openconfig-authmgr:authmgr-authenticated-clients'') ''authenticated-client'');
          arr_len = length (filter (\<lambda>it. state_name J it = Some name) clients)
      in if root = None \<or> (\<exists>it \<in> set clients. state_name J it = None) \<or> arr_len = 0 then Some (- 1, [], k)
         else if \<not> mem k then Some (- 1, [], Suc k)
         else do {
           (r, _, arr) \<leftarrow> steps (map (client_one J name) clients) (0, replicate (arr_len * arr_len) client_zero);
           Some (if r \<noteq> 0 then (- 1, [], Suc k) else (0, take arr_len arr, Suc k))
         })"

text \<open>The buffer is kept for the next port. The test after its allocation looks at the wrong pointer, so
  the adapter writes its answer through a null pointer when there is no memory.\<close>

definition plat_ieee8021x_system_auth_clients_get ::
  "'j state_reads \<Rightarrow> (nat \<Rightarrow> bool) \<Rightarrow> nat \<Rightarrow> string option \<Rightarrow> nat \<Rightarrow>
   (int \<times> ieee8021x_client list \<times> string option \<times> nat) option" where
  "plat_ieee8021x_system_auth_clients_get R mem pid buf k =
     (case buf of
        Some b \<Rightarrow> do { (ret, cs, k) \<leftarrow> ieee8021x_auth_clients_parse R mem pid b k; Some (ret, cs, buf, k) }
      | None \<Rightarrow>
          let (ret, b) = sr_auth_clients R pid in
            if ret \<noteq> 0 then Some (ret, [], None, Suc k)
            else if \<not> mem k then None
            else do { (ret, cs, k) \<leftarrow> ieee8021x_auth_clients_parse R mem pid b (Suc k); Some (ret, cs, Some b, k) })"

section \<open>Multicast groups\<close>

text \<open>The state of the loops is the number of allocations and what was built.\<close>

definition igmp_port :: "'j cjson \<Rightarrow> (nat \<Rightarrow> bool) \<Rightarrow> 'j \<Rightarrow> (nat \<times> string list) step" where
  "igmp_port J mem e = (\<lambda>(k, ps).
     case cJSON_GetStringValue J (Some e) of
       None \<Rightarrow> Some (- 1, k, ps)
     | Some n \<Rightarrow> if mem k then Some (0, Suc k, take PORT_MAX_NAME_LEN n # ps) else Some (- 1, Suc k, ps))"

definition igmp_group_one :: "'j state_reads \<Rightarrow> (nat \<Rightarrow> bool) \<Rightarrow> 'j \<Rightarrow> (nat \<times> igmp_group list) step" where
  "igmp_group_one R mem g = (\<lambda>(k, gs).
     let J = sr_json R; state = cJSON_GetObjectItemCaseSensitive J (Some g) ''state'';
         gaddr = cJSON_GetStringValue J (cJSON_GetObjectItemCaseSensitive J state ''group'');
         ifaces = cJSON_GetObjectItemCaseSensitive J state ''outgoing-interface''
     in if \<not> cJSON_IsObject J state \<or> gaddr = None \<or> \<not> cJSON_IsArray J ifaces then Some (- 1, k, gs)
        else case Option.bind gaddr (sr_inet_pton R) of
          None \<Rightarrow> Some (- 1, k, gs)
        | Some a \<Rightarrow> do {
            (r, k, ps) \<leftarrow> steps (map (igmp_port J mem) (cJSON_Array J ifaces)) (k, []);
            Some (r, k, gs @ [\<lparr>group_addr = a, egress_ports_list = ps\<rparr>])
          })"

definition plat_vlan_igmp_info_get ::
  "'j state_reads \<Rightarrow> (nat \<Rightarrow> bool) \<Rightarrow> nat \<Rightarrow> nat \<Rightarrow> plat_igmp \<Rightarrow> (int \<times> plat_igmp \<times> nat) option" where
  "plat_vlan_igmp_info_get R mem vid k info =
     (let (ret, size) = sr_igmp_size R (VLAN_TO_NAME vid) in
      if ret = 0 \<and> size = 0 then Some (0, info, k)
      else if ret \<noteq> GNMA_ERR_OVERFLOW then Some (- 1, info, k)
      else if \<not> mem k then Some (- 1, info, Suc k)
      else let (ret, buf) = sr_igmp R (VLAN_TO_NAME vid) size; groups = sr_parse R buf in
        if ret \<noteq> 0 \<or> groups = None then Some (- 1, info, Suc k)
        else if \<not> mem (Suc k) then Some (- 1, info, Suc (Suc k))
        else do {
          (r, k, gs) \<leftarrow> steps (map (igmp_group_one R mem) (cJSON_Array (sr_json R) groups)) (Suc (Suc k), []);
          Some (if r \<noteq> 0 then (- 1, info, k) else (0, info\<lparr>groups := gs, igmp_exist := True\<rparr>, k))
        })"

end
