(* ===== verification/Plat_State.thy ===== *)
theory Plat_State
  imports Plat_Read
begin

text \<open>
  Gathering the state of the switch for a report (\<open>plat_state_get\<close> of \<open>plat-gnma.c\<close> and the functions it
  calls), and the callbacks of the periodic threads that hand it to the protocol. The functions
  yield their code, what they filled in and the number of allocations so far. What the adapter
  answers to list queries is that of \<open>Plat_Gnma\<close>, everything else is a \<open>state_reads\<close>.
\<close>

section \<open>Ports\<close>

definition plat_port_speed_get :: "'j state_reads \<Rightarrow> nat \<Rightarrow> u32 \<Rightarrow> (int \<times> u32) option" where
  "plat_port_speed_get R pid speed =
     (let (ret, str) = sr_speed R (PID_TO_NAME pid) in
      if ret \<noteq> 0 then Some (ret, speed)
      else do {
        str \<leftarrow> cstr 8 str;
        case scan_unsigned 32 str of ScanVal n \<Rightarrow> Some (0, of_nat n) | ScanRange \<Rightarrow> None | _ \<Rightarrow> Some (0, speed)
      })"

definition plat_port_duplex_get :: "'j state_reads \<Rightarrow> nat \<Rightarrow> int \<times> bool" where
  "plat_port_duplex_get R pid = sr_duplex R (PID_TO_NAME pid)"

definition plat_port_oper_status_get :: "'j state_reads \<Rightarrow> nat \<Rightarrow> int \<times> bool" where
  "plat_port_oper_status_get R pid = sr_oper R (PID_TO_NAME pid)"

definition plat_port_transceiver_info_get :: "nat \<Rightarrow> int" where
  "plat_port_transceiver_info_get port_id = - 1"

definition transceiver_zero :: plat_port_transceiver_info where
  "transceiver_zero = \<lparr>vendor_name = [], part_number = [], serial_number = [], revision = [], form_factor = 0,
     supported_link_modes = [], temperature = Fin 0, tx_optical_power = Fin 0, rx_optical_power = Fin 0,
     max_module_power = Fin 0\<rparr>"

definition port_info_zero :: plat_port_info where
  "port_info_zero = \<lparr>stats = counters_zero, lldp_peer_info = lldp_zero, ieee8021x_clients = [],
     transceiver_info = transceiver_zero, pi_speed = 0, carrier_up = False, pi_duplex = False,
     has_lldp_peer_info = False, has_transceiver_info = False, pi_name = []\<rparr>"

text \<open>One turn of the loop of \<open>plat_port_info_get\<close>; the state is the ports so far, the buffer of
  authenticated clients and the number of allocations. The number of a port whose name is no
  port name is not initialised.\<close>

type_synonym gathering = "plat_port_info list \<times> string option \<times> nat"

definition port_info_one :: "'j state_reads \<Rightarrow> (nat \<Rightarrow> bool) \<Rightarrow> string \<Rightarrow> gathering step" where
  "port_info_one R mem name = (\<lambda>(ps, buf, k). do {
     pid \<leftarrow> (case NAME_TO_PID name of ScanVal n \<Rightarrow> Some n | _ \<Rightarrow> None);
     let p = port_info_zero\<lparr>pi_name := snprintf_s PORT_MAX_NAME_LEN name\<rparr>;
     (ret, speed) \<leftarrow> plat_port_speed_get R pid (pi_speed p);
     let (ret_d, full) = plat_port_duplex_get R pid;
     let (ret_o, up) = plat_port_oper_status_get R pid;
     (ret_s, st) \<leftarrow> (if ret \<noteq> 0 \<or> ret_d \<noteq> 0 \<or> ret_o \<noteq> 0 then Some (- 1, stats p) else plat_port_stats_get R pid);
     if ret_s \<noteq> 0 then Some (- 1, ps, buf, k)
     else do {
       (ret_l, lldp, k) \<leftarrow> plat_port_lldp_peer_info_get R mem pid k (lldp_peer_info p);
       (_, clients, buf, k) \<leftarrow> plat_ieee8021x_system_auth_clients_get R mem pid buf k;
       Some (0, ps @ [p\<lparr>pi_speed := speed, pi_duplex := full, carrier_up := up, stats := st, lldp_peer_info := lldp,
         has_lldp_peer_info := (ret_l = 0), has_transceiver_info := (plat_port_transceiver_info_get pid = 0),
         ieee8021x_clients := clients\<rparr>], buf, k)
     }
   })"

definition plat_port_info_get :: "gnma \<Rightarrow> 'j state_reads \<Rightarrow> hist \<Rightarrow> nat \<Rightarrow> (int \<times> plat_port_info list \<times> nat) option" where
  "plat_port_info_get G R h k =
     (let (ret, pcount) = plat_port_num_get_gnma G h in
      if ret \<noteq> 0 then Some (- 1, [], k)
      else if \<not> gnma_mem G k then Some (- 1, [], Suc k)
      else let (rc, pcount, plist) = port_list_get G pcount h in
        if rc \<noteq> 0 \<and> rc \<noteq> GNMA_ERR_OVERFLOW then Some (- 1, [], Suc k)
        else if \<not> gnma_mem G (Suc k) then Some (- 1, [], Suc (Suc k))
        else if length plist < pcount then None
        else do {
          (ret, ps, _, k) \<leftarrow> steps (map (port_info_one R (gnma_mem G)) plist) ([], None, Suc (Suc k));
          Some (if ret \<noteq> 0 then (- 1, [], k) else (0, ps, k))
        })"

section \<open>VLANs\<close>

text \<open>The last address of the list that is the VLAN's.\<close>

definition vlan_address :: "gnma_vlan_ip_t list \<Rightarrow> nat \<Rightarrow> plat_ipv4 \<Rightarrow> plat_ipv4" where
  "vlan_address as vid v0 =
     fold (\<lambda>a v. if unat (ip_vid a) \<noteq> vid then v
        else \<lparr>subnet = ip_address a, subnet_len = uint (ip_prefixlen a), ipv4_exist = True\<rparr>) as v0"

definition vlan_info_one ::
  "'j state_reads \<Rightarrow> (nat \<Rightarrow> bool) \<Rightarrow> gnma_vlan_ip_t list \<Rightarrow> nat \<Rightarrow> (plat_port_vlan list \<times> nat) step" where
  "vlan_info_one R mem as vid = (\<lambda>(vs, k). do {
     (ret, igmp, k) \<leftarrow> plat_vlan_igmp_info_get R mem vid k (vlan_igmp vlan_zero);
     Some (if ret \<noteq> 0 then (- 1, vs, k)
       else (0, vs @ [vlan_zero\<lparr>vlan_id := vid, vlan_igmp := igmp, vlan_ipv4 := vlan_address as vid ipv4_zero\<rparr>], k))
   })"

text \<open>The elements of a list that the adapter stores into an array of the size it gave before.\<close>

definition stored :: "nat \<Rightarrow> 'a list \<Rightarrow> 'a list option" where
  "stored n xs = (if length xs \<le> n then Some xs else None)"

definition address_list_get :: "'j state_reads \<Rightarrow> (nat \<Rightarrow> bool) \<Rightarrow> nat \<Rightarrow> (int \<times> gnma_vlan_ip_t list \<times> nat) option" where
  "address_list_get R mem k =
     (let (ret, n) = sr_addrs_size R in
      if ret \<noteq> 0 \<and> ret \<noteq> GNMA_ERR_OVERFLOW then Some (- 1, [], k)
      else if n = 0 then Some (0, [], k)
      else if \<not> mem k then Some (- 1, [], Suc k)
      else let (ret, as) = sr_addrs R n in
        if ret \<noteq> 0 then Some (- 1, [], Suc k) else do { as \<leftarrow> stored n as; Some (0, as, Suc k) })"

definition plat_vlan_info_get :: "gnma \<Rightarrow> 'j state_reads \<Rightarrow> hist \<Rightarrow> nat \<Rightarrow> (int \<times> plat_port_vlan list \<times> nat) option" where
  "plat_vlan_info_get G R h k =
     (let (ret, bmp) = gnma_vlan_list_get G h in
      if ret \<noteq> 0 then Some (- 1, [], k)
      else do {
        vids \<leftarrow> BITMAP_FOR_EACH_BIT_SET bmp GNMA_MAX_VLANS;
        if vids = [] then Some (0, [], k)
        else if \<not> gnma_mem G k then Some (- 1, [], Suc k)
        else do {
          (ret, as, k) \<leftarrow> address_list_get R (gnma_mem G) (Suc k);
          if ret \<noteq> 0 then Some (- 1, [], k)
          else do {
            (ret, vs, k) \<leftarrow> steps (map (vlan_info_one R (gnma_mem G) as) vids) ([], k);
            Some (if ret \<noteq> 0 then (- 1, [], k) else (0, vs, k))
          }
        }
      })"

section \<open>The system\<close>

text \<open>The first line of \<open>/proc/meminfo\<close> with the cached memory.\<close>

fun meminfo_loop :: "string list \<Rightarrow> u64 option option" where
  "meminfo_loop [] = Some None"
| "meminfo_loop (l # ls) =
     (case scan_lit ''Cached:'' 64 l of
        ScanVal n \<Rightarrow> Some (Some (of_nat n))
      | ScanRange \<Rightarrow> None
      | _ \<Rightarrow> meminfo_loop ls)"

definition get_meminfo_cached_kib :: "string list option \<Rightarrow> u64 \<Rightarrow> (int \<times> u64) option" where
  "get_meminfo_cached_kib lines cached =
     (case lines of
        None \<Rightarrow> Some (- 1, cached)
      | Some ls \<Rightarrow> do { found \<leftarrow> meminfo_loop ls; Some (case found of None \<Rightarrow> (1, cached) | Some c \<Rightarrow> (0, c)) })"

definition dbl_div100 :: "dbl \<Rightarrow> dbl" where
  "dbl_div100 d = (case d of Fin q \<Rightarrow> Fin (q / 100) | _ \<Rightarrow> d)"

definition plat_system_info_get :: "'j state_reads \<Rightarrow> (int \<times> plat_system_info) option" where
  "plat_system_info_get R =
     do {
       (_, cached) \<leftarrow> get_meminfo_cached_kib (sr_meminfo R) 0;
       let si = sr_sysinfo R;
       Some (0, \<lparr>localtime = sr_time R, uptime = si_uptime si,
         ram_buffered = si_bufferram si * si_mem_unit si, ram_cached = cached * 1024,
         ram_free = (si_freeram si + si_freeswap si) * si_mem_unit si,
         ram_total = si_totalram si * si_mem_unit si, load_average = map dbl_div100 (sr_loadavg R)\<rparr>)
     }"

section \<open>Learned addresses\<close>

definition PLATFORM_MAC_STR_SIZE :: nat where "PLATFORM_MAC_STR_SIZE = 18"

fun learned_loop :: "gnma_fdb_entry list \<Rightarrow> plat_learned_mac_addr list" where
  "learned_loop [] = []"
| "learned_loop (e # es) =
     (if \<not> fdb_dynamic e then learned_loop es
      else \<lparr>learned_port = take PORT_MAX_NAME_LEN (fdb_port e), learned_vid = fdb_vid e,
             learned_mac = take PLATFORM_MAC_STR_SIZE (fdb_mac e)\<rparr> # learned_loop es)"

definition plat_learned_mac_addrs_get ::
  "'j state_reads \<Rightarrow> (nat \<Rightarrow> bool) \<Rightarrow> nat \<Rightarrow> (int \<times> plat_learned_mac_addr list \<times> nat) option" where
  "plat_learned_mac_addrs_get R mem k =
     (let (ret, n) = sr_macs_size R in
      if ret \<noteq> 0 \<and> ret \<noteq> GNMA_ERR_OVERFLOW then Some (ret, [], k)
      else if n = 0 then Some (0, [], k)
      else if \<not> mem k then Some (- 1, [], Suc k)
      else let (ret, es) = sr_macs R n in
        if ret \<noteq> 0 then Some (ret, [], Suc k)
        else if \<not> mem (Suc k) then Some (- 1, [], Suc (Suc k))
        else do { es \<leftarrow> stored n es; Some (0, learned_loop es, Suc (Suc k)) })"

section \<open>Counters of dynamic authorization\<close>

definition coa_stat_types :: "gnma_ieee8021x_das_dac_stat_type_t list" where
  "coa_stat_types =
     [DAC_STAT_IN_COA_PKTS, DAC_STAT_OUT_COA_ACK_PKTS, DAC_STAT_OUT_COA_NAK_PKTS, DAC_STAT_IN_COA_IGNORED_PKTS,
      DAC_STAT_IN_COA_WRONG_ATTR_PKTS, DAC_STAT_IN_COA_WRONG_ATTR_VALUE_PKTS,
      DAC_STAT_IN_COA_WRONG_SESSION_CONTEXT_PKTS, DAC_STAT_IN_COA_ADMINISTRATIVELY_PROHIBITED_REQ_PKTS]"

definition plat_state_ieee8021x_coa_global_counters_get ::
  "'j state_reads \<Rightarrow> plat_iee8021x_coa_counters \<Rightarrow> (int \<times> plat_iee8021x_coa_counters) option" where
  "plat_state_ieee8021x_coa_global_counters_get R st =
     (let (ret, cs) = sr_coa R coa_stat_types; c = counter coa_stat_types cs in
      if ret \<noteq> 0 then Some (- EINVAL, st)
      else do {
        received \<leftarrow> c DAC_STAT_IN_COA_PKTS;
        ack \<leftarrow> c DAC_STAT_OUT_COA_ACK_PKTS;
        nak \<leftarrow> c DAC_STAT_OUT_COA_NAK_PKTS;
        ignored \<leftarrow> c DAC_STAT_IN_COA_IGNORED_PKTS;
        wrong_attr \<leftarrow> c DAC_STAT_IN_COA_WRONG_ATTR_PKTS;
        wrong_value \<leftarrow> c DAC_STAT_IN_COA_WRONG_ATTR_VALUE_PKTS;
        wrong_session \<leftarrow> c DAC_STAT_IN_COA_WRONG_SESSION_CONTEXT_PKTS;
        prohibited \<leftarrow> c DAC_STAT_IN_COA_ADMINISTRATIVELY_PROHIBITED_REQ_PKTS;
        Some (0, \<lparr>coa_req_received = received, coa_ack_sent = ack, coa_nak_sent = nak, coa_ignored = ignored,
          coa_wrong_attr = wrong_attr, coa_wrong_attr_value = wrong_value, coa_wrong_session_context = wrong_session,
          coa_administratively_prohibited_req = prohibited\<rparr>)
      })"

section \<open>Gateways\<close>

definition default_route :: "dyn_route \<Rightarrow> bool" where
  "default_route r = (case dr_prefix r of GnmaV4 a l \<Rightarrow> a = 0 \<and> l = 0)"

text \<open>The port behind which a gateway was learned, when it is reached through a VLAN.\<close>

definition egress_port :: "plat_learned_mac_addr list \<Rightarrow> string \<Rightarrow> string \<Rightarrow> string option" where
  "egress_port macs egress mac =
     (case NAME_TO_VLAN egress of
        ScanVal vid \<Rightarrow>
          Some (case find (\<lambda>m. (word_of_int (learned_vid m) :: u16) = of_nat vid \<and>
                      take PLATFORM_MAC_STR_SIZE (learned_mac m) = take PLATFORM_MAC_STR_SIZE mac) macs of
             Some m \<Rightarrow> learned_port m
           | None \<Rightarrow> egress)
      | ScanRange \<Rightarrow> None
      | _ \<Rightarrow> Some egress)"

definition gw_one :: "'j state_reads \<Rightarrow> plat_learned_mac_addr list \<Rightarrow> dyn_route \<Rightarrow> plat_gw_address list step" where
  "gw_one R macs r gs =
     (if \<not> default_route r then Some (0, gs)
      else let (ret, mac) = sr_nei R (dr_egress r) (dr_gw r) in
        if ret \<noteq> 0 then Some (- 1, gs)
        else do {
          port \<leftarrow> egress_port macs (dr_egress r) mac;
          Some (0, gs @ [\<lparr>gw_ip = dr_gw r, gw_metric = dr_metric r, gw_port = take PORT_MAX_NAME_LEN port,
            gw_mac = take PLATFORM_MAC_STR_SIZE mac\<rparr>])
        })"

definition plat_state_gw_ip_get ::
  "'j state_reads \<Rightarrow> (nat \<Rightarrow> bool) \<Rightarrow> plat_learned_mac_addr list \<Rightarrow> nat \<Rightarrow> (int \<times> plat_gw_address list \<times> nat) option" where
  "plat_state_gw_ip_get R mem macs k =
     (let (ret, n) = sr_routes_size R in
      if ret \<noteq> 0 \<and> ret \<noteq> GNMA_ERR_OVERFLOW then Some (- 1, [], k)
      else if n = 0 then Some (0, [], k)
      else if \<not> (mem k \<and> mem (Suc k)) then Some (- 1, [], k + 2)
      else let (ret, rs) = sr_routes R n in
        if ret \<noteq> 0 then Some (- 1, [], k + 2)
        else do {
          rs \<leftarrow> stored n rs;
          if \<not> mem (k + 2) then Some (- 1, [], k + 3)
          else do {
            (ret, gs) \<leftarrow> steps (map (gw_one R macs) rs) [];
            Some (if ret \<noteq> 0 then (- 1, [], k + 3) else (0, gs, k + 3))
          }
        })"

section \<open>The whole report\<close>

definition coa_zero :: plat_iee8021x_coa_counters where
  "coa_zero = \<lparr>coa_req_received = 0, coa_ack_sent = 0, coa_nak_sent = 0, coa_ignored = 0, coa_wrong_attr = 0,
     coa_wrong_attr_value = 0, coa_wrong_session_context = 0, coa_administratively_prohibited_req = 0\<rparr>"

definition system_zero :: plat_system_info where
  "system_zero = \<lparr>localtime = 0, uptime = 0, ram_buffered = 0, ram_cached = 0, ram_free = 0, ram_total = 0,
     load_average = [Fin 0, Fin 0, Fin 0]\<rparr>"

definition state_info_zero :: plat_state_info where
  "state_info_zero = \<lparr>poe_state = poe_zero, poe_ports_state = (\<lambda>_. poe_port_zero),
     poe_ports_bmap = bitmap_zero MAX_NUM_OF_PORTS, port_info = [], vlan_info = [], learned_mac_list = [],
     gw_addr_list = [], system_info = system_zero, coa_counters = coa_zero\<rparr>"

text \<open>The power ports; what could not be read stays as far as it was filled.\<close>

definition poe_port_one :: "'j state_reads \<Rightarrow> (nat \<Rightarrow> bool) \<Rightarrow> nat \<Rightarrow> (plat_state_info \<times> nat) step" where
  "poe_port_one R mem i = (\<lambda>(st, k). do {
     (_, p, k) \<leftarrow> plat_poe_port_state_get R mem i k (poe_ports_state st i);
     bm \<leftarrow> BITMAP_SET_BIT (poe_ports_bmap st) i;
     Some (0, st\<lparr>poe_ports_state := (poe_ports_state st)(i := p), poe_ports_bmap := bm\<rparr>, k)
   })"

definition poe_gather :: "'j state_reads \<Rightarrow> (nat \<Rightarrow> bool) \<Rightarrow> bitmap \<Rightarrow> (plat_state_info \<times> nat) step" where
  "poe_gather R mem bmap = (\<lambda>(st, k). do {
     (_, poe, k) \<leftarrow> plat_poe_state_get R mem k (poe_state st);
     is \<leftarrow> BITMAP_FOR_EACH_BIT_SET bmap MAX_NUM_OF_PORTS;
     steps (map (poe_port_one R mem) is) (st\<lparr>poe_state := poe\<rparr>, k)
   })"

text \<open>A part of the report; any failure is -1.\<close>

definition part :: "(nat \<Rightarrow> (int \<times> 'a \<times> nat) option) \<Rightarrow> ('a \<Rightarrow> plat_state_info \<Rightarrow> plat_state_info) \<Rightarrow> (plat_state_info \<times> nat) step" where
  "part f u = (\<lambda>(st, k). do {
     (ret, a, k) \<leftarrow> f k;
     Some (if ret \<noteq> 0 then (- 1, st, k) else (0, u a st, k))
   })"

definition plat_state_get :: "gnma \<Rightarrow> 'j state_reads \<Rightarrow> plat_state \<Rightarrow> (plat_state_info \<times> nat) step" where
  "plat_state_get G R s =
     steps [
       poe_gather R (gnma_mem G) (poe_bmap s),
       part (\<lambda>k. do { (ret, i) \<leftarrow> plat_system_info_get R; Some (ret, i, k) }) (\<lambda>i st. st\<lparr>system_info := i\<rparr>),
       part (plat_port_info_get G R (hist s)) (\<lambda>ps st. st\<lparr>port_info := ps\<rparr>),
       part (plat_vlan_info_get G R (hist s)) (\<lambda>vs st. st\<lparr>vlan_info := vs\<rparr>),
       part (plat_learned_mac_addrs_get R (gnma_mem G)) (\<lambda>ms st. st\<lparr>learned_mac_list := ms\<rparr>),
       part (\<lambda>k. do { (ret, c) \<leftarrow> plat_state_ieee8021x_coa_global_counters_get R coa_zero; Some (ret, c, k) })
         (\<lambda>c st. st\<lparr>coa_counters := c\<rparr>),
       (\<lambda>(st, k). part (plat_state_gw_ip_get R (gnma_mem G) (learned_mac_list st)) (\<lambda>gs st. st\<lparr>gw_addr_list := gs\<rparr>) (st, k))]"

text \<open>The callbacks of the periodic threads: nothing is handed over when the state cannot be gathered.\<close>

definition state_periodic_cb ::
  "gnma \<Rightarrow> 'j state_reads \<Rightarrow> (plat_state_info \<Rightarrow> 's \<Rightarrow> 's option) \<Rightarrow> plat_state \<Rightarrow> 's \<Rightarrow> (plat_state \<times> 's) option" where
  "state_periodic_cb G R cb s t =
     do {
       (ret, st, k) \<leftarrow> plat_state_get G R s (state_info_zero, mem_calls s);
       t \<leftarrow> (if ret \<noteq> 0 then Some t else cb st t);
       Some (s\<lparr>mem_calls := k\<rparr>, t)
     }"

definition telemetry_periodic_cb ::
  "gnma \<Rightarrow> 'j state_reads \<Rightarrow> (plat_state_info \<Rightarrow> 's \<Rightarrow> 's option) \<Rightarrow> plat_state \<Rightarrow> 's \<Rightarrow> (plat_state \<times> 's) option" where
  "telemetry_periodic_cb G R cb s t =
     do {
       (ret, st, k) \<leftarrow> plat_state_get G R s (state_info_zero, mem_calls s);
       t \<leftarrow> (if ret \<noteq> 0 then Some t else cb st t);
       Some (s\<lparr>mem_calls := k\<rparr>, t)
     }"

end
