(* ===== verification/State_Props.thy ===== *)
theory State_Props
  imports Plat_State
begin

text \<open>
  What the gathered state is: the ports of the switch in order with their own counters, its VLANs, the
  addresses it learned and its default gateways; and the composition with the protocol, from the
  adapter's answers to the message sent by \<open>state_send\<close>.
\<close>

section \<open>Loops that collect\<close>

lemma steps_success:
  "steps (f # fs) s = Some (0, s') \<longleftrightarrow> (\<exists>t. f s = Some (0, t) \<and> steps fs t = Some (0, s'))"
  by (auto simp: steps_Cons elim!: bindE split: if_splits)

text \<open>A loop whose turns each append to a list that is part of its state.\<close>

lemma steps_collect:
  assumes turn: "\<And>x s s'. x \<in> set xs \<Longrightarrow> f x s = Some (0, s') \<Longrightarrow> \<exists>ys. acc s' = acc s @ ys \<and> P x ys"
    and run: "steps (map f xs) s = Some (0, s')"
  shows "\<exists>yss. acc s' = acc s @ concat yss \<and> list_all2 P xs yss"
  using assms
proof (induction xs arbitrary: s)
  case Nil
  then show ?case by (auto intro: exI[of _ "[]"])
next
  case (Cons x xs)
  then obtain t where t: "f x s = Some (0, t)" "steps (map f xs) t = Some (0, s')"
    by (auto simp: steps_success)
  obtain ys where ys: "acc t = acc s @ ys" "P x ys" using Cons.prems(1)[of x s t] t(1) by auto
  obtain yss where "acc s' = acc t @ concat yss" "list_all2 P xs yss" using Cons.IH[OF Cons.prems(1) t(2)] by auto
  then show ?case using ys by (intro exI[of _ "ys # yss"]) auto
qed

lemma list_all2_singletons:
  "list_all2 (\<lambda>x ys. \<exists>y. ys = [y] \<and> P x y) xs yss \<Longrightarrow> list_all2 P xs (concat yss)"
  by (induction rule: list_all2_induct) auto

lemma list_all2_origin: "list_all2 P xs ys \<Longrightarrow> y \<in> set ys \<Longrightarrow> \<exists>x \<in> set xs. P x y"
  by (induction rule: list_all2_induct) auto

lemma steps_append_each:
  assumes turn: "\<And>x s s'. x \<in> set xs \<Longrightarrow> f x s = Some (0, s') \<Longrightarrow> \<exists>y. acc s' = acc s @ [y] \<and> P x y"
    and run: "steps (map f xs) s = Some (0, s')"
  shows "\<exists>ys. acc s' = acc s @ ys \<and> list_all2 P xs ys"
proof -
  let ?P = "\<lambda>x ys. \<exists>y. ys = [y] \<and> P x y"
  have "\<exists>ys. acc t' = acc t @ ys \<and> ?P x ys" if "x \<in> set xs" "f x t = Some (0, t')" for x t t'
    using turn[OF that] by auto
  from steps_collect[of xs f acc ?P, OF this run]
  obtain yss where "acc s' = acc s @ concat yss" "list_all2 ?P xs yss" by auto
  then show ?thesis using list_all2_singletons by blast
qed

section \<open>Counters\<close>

lemma counter_map: "t \<in> set types \<Longrightarrow> counter types (map f types) t = Some (f t)"
proof (induction types)
  case (Cons x xs)
  then show ?case by (cases "x = t") (auto simp: counter_def Let_def split: if_splits)
qed simp

text \<open>The counters of a port by their kind; packets are the sum of the three kinds of packets in 64 bits.\<close>

definition counters_of :: "(gnma_port_stat_type_t \<Rightarrow> u64) \<Rightarrow> plat_port_counters" where
  "counters_of f = counters_zero\<lparr>
     rx_bytes := f GNMA_PORT_STAT_IN_OCTETS, rx_dropped := f GNMA_PORT_STAT_IN_DISCARDS,
     rx_error := f GNMA_PORT_STAT_IN_ERRORS,
     rx_packets := f GNMA_PORT_STAT_IN_UCAST_PKTS + f GNMA_PORT_STAT_IN_MCAST_PKTS + f GNMA_PORT_STAT_IN_BCAST_PKTS,
     tx_bytes := f GNMA_PORT_STAT_OUT_OCTETS, tx_dropped := f GNMA_PORT_STAT_OUT_DISCARDS,
     tx_error := f GNMA_PORT_STAT_OUT_ERRORS,
     tx_packets := f GNMA_PORT_STAT_OUT_UCAST_PKTS + f GNMA_PORT_STAT_OUT_MCAST_PKTS + f GNMA_PORT_STAT_OUT_BCAST_PKTS\<rparr>"

lemma port_stats_exact:
  assumes "sr_stats R (PID_TO_NAME pid) port_stat_types = (0, map f port_stat_types)"
  shows "plat_port_stats_get R pid = Some (0, counters_of f)"
proof -
  have "counter port_stat_types (map f port_stat_types) t = Some (f t)" for t
    by (rule counter_map) (cases t; simp add: port_stat_types_def)
  then show ?thesis by (simp add: plat_port_stats_get_def assms Let_def counters_of_def counters_zero_def)
qed

section \<open>Ports and VLANs\<close>

lemma port_name_pid: "n < MAX_NUM_OF_PORTS \<Longrightarrow> NAME_TO_PID (PID_TO_NAME n) = ScanVal n"
  by (simp add: NAME_TO_PID_def PID_TO_NAME_def scan_lit_append scan_dec MAX_NUM_OF_PORTS_def)

lemma name_short: "n < MAX_NUM_OF_PORTS \<Longrightarrow> snprintf_s PORT_MAX_NAME_LEN (PID_TO_NAME n) = PID_TO_NAME n"
  using length_dec_le[of n 2] by (simp add: snprintf_s_def PID_TO_NAME_def PORT_MAX_NAME_LEN_def MAX_NUM_OF_PORTS_def)

text \<open>What is reported of a port: its name and its counters, no transceiver.\<close>

definition port_matches :: "'j state_reads \<Rightarrow> string \<Rightarrow> plat_port_info \<Rightarrow> bool" where
  "port_matches R name p \<longleftrightarrow> pi_name p = name \<and> \<not> has_transceiver_info p \<and>
     (\<forall>f. sr_stats R name port_stat_types = (0, map f port_stat_types) \<longrightarrow> stats p = counters_of f) \<and>
     pi_duplex p = snd (sr_duplex R name) \<and> carrier_up p = snd (sr_oper R name)"

lemma port_info_one_matches:
  assumes "n < MAX_NUM_OF_PORTS" "port_info_one R mem (PID_TO_NAME n) s = Some (0, s')"
  shows "\<exists>p. fst s' = fst s @ [p] \<and> port_matches R (PID_TO_NAME n) p"
  using assms port_stats_exact[of R n]
  by (auto simp: port_info_one_def port_name_pid name_short Let_def port_matches_def plat_port_transceiver_info_get_def
      plat_port_duplex_get_def plat_port_oper_status_get_def elim!: bindE split: prod.splits if_splits)

lemma port_info_get_matches:
  assumes names: "Plat_Gnma.gnma_port_list_get G h = (0, names)" "\<forall>n \<in> set names. \<exists>i < MAX_NUM_OF_PORTS. n = PID_TO_NAME i"
    and run: "plat_port_info_get G R h k = Some (0, ps, k')"
  shows "list_all2 (port_matches R) names ps"
proof -
  let ?one = "port_info_one R (gnma_mem G)"
  have "plat_port_num_get_gnma G h = (0, length names)" "port_list_get G (length names) h = (0, length names, names)"
    by (auto simp: plat_port_num_get_gnma_def port_list_get_def names(1) GNMA_ERR_OVERFLOW_def)
  then obtain buf where st: "steps (map ?one names) ([], None, Suc (Suc k)) = Some (0, ps, buf, k')"
    using run by (auto simp: plat_port_info_get_def elim!: bindE split: if_splits)
  have "\<exists>y. fst t' = fst t @ [y] \<and> port_matches R x y" if "x \<in> set names" "?one x t = Some (0, t')" for x t t'
    using that names(2) port_info_one_matches[of _ R "gnma_mem G" t t'] by auto
  from steps_append_each[of names ?one fst, OF this st] show ?thesis by simp
qed

text \<open>What is reported of a VLAN: its number and the last of its addresses.\<close>

definition vlan_matches :: "gnma_vlan_ip_t list \<Rightarrow> nat \<Rightarrow> plat_port_vlan \<Rightarrow> bool" where
  "vlan_matches as vid v \<longleftrightarrow> vlan_id v = vid \<and>
     (ipv4_exist (vlan_ipv4 v) \<longleftrightarrow> (\<exists>a \<in> set as. unat (ip_vid a) = vid)) \<and>
     (ipv4_exist (vlan_ipv4 v) \<longrightarrow> (\<exists>a \<in> set as. unat (ip_vid a) = vid \<and>
        subnet (vlan_ipv4 v) = ip_address a \<and> subnet_len (vlan_ipv4 v) = uint (ip_prefixlen a)))"

lemma vlan_address_cases:
  "vlan_address as vid v0 =
     (case filter (\<lambda>a. unat (ip_vid a) = vid) as of
        [] \<Rightarrow> v0
      | bs \<Rightarrow> \<lparr>subnet = ip_address (last bs), subnet_len = uint (ip_prefixlen (last bs)), ipv4_exist = True\<rparr>)"
  unfolding vlan_address_def by (induction as arbitrary: v0) (auto split: list.splits)

lemma vlan_info_one_matches:
  assumes "vlan_info_one R mem as vid s = Some (0, s')"
  shows "\<exists>v. fst s' = fst s @ [v] \<and> vlan_matches as vid v"
proof -
  let ?a = "vlan_address as vid ipv4_zero"
  let ?bs = "filter (\<lambda>a. unat (ip_vid a) = vid) as"
  obtain v where v: "fst s' = fst s @ [v]" "vlan_id v = vid" "vlan_ipv4 v = ?a"
    using assms by (auto simp: vlan_info_one_def elim!: bindE split: prod.splits if_splits)
  have "vlan_matches as vid v"
  proof (cases "?bs = []")
    case True
    then show ?thesis using v(2,3) by (auto simp: vlan_matches_def vlan_address_cases ipv4_zero_def filter_empty_conv)
  next
    case False
    then have "last ?bs \<in> set ?bs" by (rule last_in_set)
    then show ?thesis using v(2,3) False
      by (auto simp: vlan_matches_def vlan_address_cases split: list.splits)
  qed
  then show ?thesis using v(1) by auto
qed

text \<open>The addresses the adapter reports, after it was asked for their number.\<close>

definition reported_addrs :: "'j state_reads \<Rightarrow> gnma_vlan_ip_t list" where
  "reported_addrs R = (if snd (sr_addrs_size R) = 0 then [] else snd (sr_addrs R (snd (sr_addrs_size R))))"

lemma vlan_info_get_matches:
  assumes bmp: "gnma_vlan_list_get G h = (0, bmp)" "length bmp = BITS_TO_UINT32 GNMA_MAX_VLANS"
    and run: "plat_vlan_info_get G R h k = Some (0, vs, k')"
  shows "list_all2 (vlan_matches (reported_addrs R)) (filter (bm_test bmp) [0..<GNMA_MAX_VLANS]) vs"
proof -
  let ?vids = "filter (bm_test bmp) [0..<GNMA_MAX_VLANS]"
  let ?one = "vlan_info_one R (gnma_mem G)"
  have bits: "BITMAP_FOR_EACH_BIT_SET bmp GNMA_MAX_VLANS = Some ?vids"
    using bmp(2) by (intro for_each_bits_list) (simp add: BITS_TO_UINT32_def GNMA_MAX_VLANS_def)
  show ?thesis
  proof (cases "?vids = []")
    case False
    then obtain as k1 where a: "address_list_get R (gnma_mem G) (Suc k) = Some (0, as, k1)"
      and st: "steps (map (?one as) ?vids) ([], k1) = Some (0, vs, k')"
      using run unfolding plat_vlan_info_get_def bmp(1) Let_def by (auto simp: bits elim!: bindE split: if_splits)
    have as: "as = reported_addrs R"
      using a by (auto simp: address_list_get_def reported_addrs_def stored_def elim!: bindE split: prod.splits if_splits)
    show ?thesis using steps_append_each[of ?vids "?one as" fst, OF vlan_info_one_matches st] as by simp
  qed (use run bits in \<open>simp add: plat_vlan_info_get_def bmp(1)\<close>)
qed

section \<open>Learned addresses and gateways\<close>

text \<open>What is reported of an entry of the forwarding table and of a default route. A gateway behind a VLAN
  is reported on the port where its address was learned in that VLAN, if it was.\<close>

definition learned_of :: "gnma_fdb_entry \<Rightarrow> plat_learned_mac_addr" where
  "learned_of e = \<lparr>learned_port = take PORT_MAX_NAME_LEN (fdb_port e), learned_vid = fdb_vid e,
     learned_mac = take PLATFORM_MAC_STR_SIZE (fdb_mac e)\<rparr>"

definition learned_at :: "nat \<Rightarrow> string \<Rightarrow> plat_learned_mac_addr \<Rightarrow> bool" where
  "learned_at vid mac m \<longleftrightarrow> (word_of_int (learned_vid m) :: u16) = of_nat vid \<and>
     take PLATFORM_MAC_STR_SIZE (learned_mac m) = take PLATFORM_MAC_STR_SIZE mac"

definition gateway_matches :: "'j state_reads \<Rightarrow> plat_learned_mac_addr list \<Rightarrow> dyn_route \<Rightarrow> plat_gw_address \<Rightarrow> bool" where
  "gateway_matches R macs r g \<longleftrightarrow> gw_ip g = dr_gw r \<and> gw_metric g = dr_metric r \<and>
     (\<exists>mac. sr_nei R (dr_egress r) (dr_gw r) = (0, mac) \<and> gw_mac g = take PLATFORM_MAC_STR_SIZE mac \<and>
        (\<forall>vid. NAME_TO_VLAN (dr_egress r) = ScanVal vid \<longrightarrow>
           (\<exists>m \<in> set macs. learned_at vid mac m) \<longrightarrow>
           (\<exists>m \<in> set macs. learned_at vid mac m \<and> gw_port g = take PORT_MAX_NAME_LEN (learned_port m))) \<and>
        ((\<forall>vid. NAME_TO_VLAN (dr_egress r) = ScanVal vid \<longrightarrow> \<not> (\<exists>m \<in> set macs. learned_at vid mac m)) \<longrightarrow>
           gw_port g = take PORT_MAX_NAME_LEN (dr_egress r)))"

lemma learned_loop_filter: "learned_loop es = map learned_of (filter fdb_dynamic es)"
  by (induction es) (auto simp: learned_of_def)

definition reported_macs :: "'j state_reads \<Rightarrow> gnma_fdb_entry list" where
  "reported_macs R = (if snd (sr_macs_size R) = 0 then [] else snd (sr_macs R (snd (sr_macs_size R))))"

definition reported_routes :: "'j state_reads \<Rightarrow> dyn_route list" where
  "reported_routes R = (if snd (sr_routes_size R) = 0 then [] else snd (sr_routes R (snd (sr_routes_size R))))"

lemma learned_get_exact:
  assumes "plat_learned_mac_addrs_get R mem k = Some (0, ms, k')"
  shows "ms = map learned_of (filter fdb_dynamic (reported_macs R))"
  using assms
  by (auto simp: plat_learned_mac_addrs_get_def reported_macs_def stored_def learned_loop_filter GNMA_ERR_OVERFLOW_def
      elim!: bindE split: prod.splits if_splits)

lemma egress_port_learned:
  assumes "egress_port macs egress mac = Some p"
  shows "(\<forall>vid. NAME_TO_VLAN egress = ScanVal vid \<longrightarrow> (\<exists>m \<in> set macs. learned_at vid mac m) \<longrightarrow>
      (\<exists>m \<in> set macs. learned_at vid mac m \<and> p = learned_port m)) \<and>
    ((\<forall>vid. NAME_TO_VLAN egress = ScanVal vid \<longrightarrow> \<not> (\<exists>m \<in> set macs. learned_at vid mac m)) \<longrightarrow> p = egress)"
proof (cases "NAME_TO_VLAN egress")
  case (ScanVal vid)
  have p: "p = (case find (learned_at vid mac) macs of Some m \<Rightarrow> learned_port m | None \<Rightarrow> egress)"
    using assms by (simp add: egress_port_def ScanVal learned_at_def[abs_def])
  show ?thesis
  proof (cases "find (learned_at vid mac) macs")
    case None
    then have "\<not> (\<exists>m \<in> set macs. learned_at vid mac m)" by (auto simp: find_None_iff)
    then show ?thesis using p None ScanVal by simp
  next
    case (Some m)
    then have "m \<in> set macs" "learned_at vid mac m" by (auto simp: find_Some_iff)
    then show ?thesis using p ScanVal Some by auto
  qed
qed (use assms in \<open>auto simp: egress_port_def\<close>)

lemma gw_one_matches:
  assumes "gw_one R macs r gs = Some (0, gs')"
  shows "\<exists>ys. gs' = gs @ ys \<and> list_all2 (gateway_matches R macs) (filter default_route [r]) ys"
proof (cases "default_route r")
  let ?g = "\<lambda>p mac. \<lparr>gw_ip = dr_gw r, gw_metric = dr_metric r, gw_port = take PORT_MAX_NAME_LEN p,
    gw_mac = take PLATFORM_MAC_STR_SIZE mac\<rparr>"
  case True
  then obtain mac p where nei: "sr_nei R (dr_egress r) (dr_gw r) = (0, mac)"
    and p: "egress_port macs (dr_egress r) mac = Some p"
    and gs': "gs' = gs @ [?g p mac]"
    using assms by (auto simp: gw_one_def elim!: bindE split: prod.splits if_splits)
  have "gateway_matches R macs r (?g p mac)"
    using egress_port_learned[OF p] unfolding gateway_matches_def nei by fastforce
  then show ?thesis using gs' True by auto
qed (use assms in \<open>auto simp: gw_one_def\<close>)

lemma list_all2_filtered:
  "list_all2 (\<lambda>x ys. list_all2 P (filter Q [x]) ys) xs yss \<Longrightarrow> list_all2 P (filter Q xs) (concat yss)"
  by (induction rule: list_all2_induct) (auto split: if_splits simp: list_all2_Cons1)

lemma gw_get_matches:
  assumes "plat_state_gw_ip_get R mem macs k = Some (0, gs, k')"
  shows "list_all2 (gateway_matches R macs) (filter default_route (reported_routes R)) gs"
proof (cases "snd (sr_routes_size R) = 0")
  case False
  let ?rs = "reported_routes R"
  let ?P = "\<lambda>r ys. list_all2 (gateway_matches R macs) (filter default_route [r]) ys"
  have st: "steps (map (gw_one R macs) ?rs) [] = Some (0, gs)"
    using assms False
    by (auto simp: plat_state_gw_ip_get_def reported_routes_def stored_def elim!: bindE split: prod.splits if_splits)
  have "\<exists>ys. id t' = id t @ ys \<and> ?P r ys" if "gw_one R macs r t = Some (0, t')" for r t t'
    using gw_one_matches[OF that] by simp
  from steps_collect[of ?rs "gw_one R macs" id ?P, OF this st]
  obtain yss where "gs = concat yss" "list_all2 ?P ?rs yss" by auto
  then show ?thesis using list_all2_filtered by blast
qed (use assms in \<open>auto simp: plat_state_gw_ip_get_def reported_routes_def split: prod.splits if_splits\<close>)

section \<open>The whole report\<close>

lemma part_success:
  "part f u (st, k) = Some (0, st', k') \<Longrightarrow> \<exists>a. f k = Some (0, a, k') \<and> st' = u a st"
  by (auto simp: part_def elim!: bindE split: if_splits)

text \<open>The power ports: the report marks exactly those of the cache.\<close>

lemma poe_ports_marked:
  "steps (map (poe_port_one R mem) is) (st, k) = Some (0, st', k') \<Longrightarrow>
     length (poe_ports_bmap st') = length (poe_ports_bmap st) \<and>
     (\<forall>j. bm_test (poe_ports_bmap st') j \<longleftrightarrow> j \<in> set is \<or> bm_test (poe_ports_bmap st) j)"
proof (induction "is" arbitrary: st k)
  case (Cons i js)
  then obtain st1 k1 where one: "poe_port_one R mem i (st, k) = Some (0, st1, k1)"
    and rest: "steps (map (poe_port_one R mem) js) (st1, k1) = Some (0, st', k')"
    by (auto simp: steps_success)
  have "BITMAP_SET_BIT (poe_ports_bmap st) i = Some (poe_ports_bmap st1)"
    using one by (auto simp: poe_port_one_def elim!: bindE)
  from bm_test_set_bit[OF this] length_set_bit[OF this] Cons.IH[OF rest] show ?case by auto
qed simp

lemma poe_gather_marked:
  assumes "poe_gather R mem bmap (state_info_zero, k) = Some (0, st, k')" "BITS_TO_UINT32 MAX_NUM_OF_PORTS \<le> length bmap"
  shows "length (poe_ports_bmap st) = BITS_TO_UINT32 MAX_NUM_OF_PORTS \<and>
    (\<forall>j. bm_test (poe_ports_bmap st) j \<longleftrightarrow> j < MAX_NUM_OF_PORTS \<and> bm_test bmap j)"
proof -
  have "BITMAP_FOR_EACH_BIT_SET bmap MAX_NUM_OF_PORTS = Some (filter (bm_test bmap) [0..<MAX_NUM_OF_PORTS])"
    using assms(2) by (intro for_each_bits_list) (simp add: BITS_TO_UINT32_def MAX_NUM_OF_PORTS_def)
  then obtain poe k1 where "steps (map (poe_port_one R mem) (filter (bm_test bmap) [0..<MAX_NUM_OF_PORTS]))
      (state_info_zero\<lparr>poe_state := poe\<rparr>, k1) = Some (0, st, k')"
    using assms(1) by (auto simp: poe_gather_def elim!: bindE)
  moreover have "\<not> bm_test (bitmap_zero MAX_NUM_OF_PORTS) j" for j
    by (auto simp: bm_test_iff bitmap_zero_def div_less_iff_less_mult mult.commute)
  ultimately show ?thesis using poe_ports_marked[of R mem] by (fastforce simp: state_info_zero_def bitmap_zero_def)
qed

lemma gather_parts:
  assumes "plat_state_get G R s (st0, k) = Some (0, st, k')"
  shows "\<exists>st1 k1 k2 k3 k4 k5 k6. poe_gather R (gnma_mem G) (poe_bmap s) (st0, k) = Some (0, st1, k1) \<and>
    poe_ports_bmap st = poe_ports_bmap st1 \<and>
    plat_port_info_get G R (hist s) k2 = Some (0, port_info st, k3) \<and>
    plat_vlan_info_get G R (hist s) k3 = Some (0, vlan_info st, k4) \<and>
    plat_learned_mac_addrs_get R (gnma_mem G) k4 = Some (0, learned_mac_list st, k5) \<and>
    plat_state_gw_ip_get R (gnma_mem G) (learned_mac_list st) k6 = Some (0, gw_addr_list st, k')"
  using assms unfolding plat_state_get_def steps_success by (fastforce dest!: part_success)

lemma gathered_poe:
  assumes run: "plat_state_get G R s (state_info_zero, k) = Some (0, st, k')"
    and "BITS_TO_UINT32 MAX_NUM_OF_PORTS \<le> length (poe_bmap s)"
  shows "length (poe_ports_bmap st) = BITS_TO_UINT32 MAX_NUM_OF_PORTS \<and>
    (\<forall>j. bm_test (poe_ports_bmap st) j \<longleftrightarrow> j < MAX_NUM_OF_PORTS \<and> bm_test (poe_bmap s) j)"
proof -
  obtain st1 k1 where g: "poe_gather R (gnma_mem G) (poe_bmap s) (state_info_zero, k) = Some (0, st1, k1)"
    and st: "poe_ports_bmap st = poe_ports_bmap st1"
    using gather_parts[OF run] by blast
  show ?thesis using poe_gather_marked[OF g assms(2)] unfolding st .
qed

text \<open>The ports and the VLANs that the adapter lists.\<close>

definition lists_switch :: "gnma \<Rightarrow> hist \<Rightarrow> string list \<Rightarrow> bitmap \<Rightarrow> bool" where
  "lists_switch G h names bmp \<longleftrightarrow> Plat_Gnma.gnma_port_list_get G h = (0, names) \<and>
     (\<forall>n \<in> set names. \<exists>i < MAX_NUM_OF_PORTS. n = PID_TO_NAME i) \<and>
     gnma_vlan_list_get G h = (0, bmp) \<and> length bmp = BITS_TO_UINT32 GNMA_MAX_VLANS"

lemma gathered_tables:
  assumes sw: "lists_switch G (hist s) names bmp"
    and run: "plat_state_get G R s (state_info_zero, k) = Some (0, st, k')"
  shows "list_all2 (port_matches R) names (port_info st)"
    and "list_all2 (vlan_matches (reported_addrs R)) (filter (bm_test bmp) [0..<GNMA_MAX_VLANS]) (vlan_info st)"
    and "learned_mac_list st = map learned_of (filter fdb_dynamic (reported_macs R))"
    and "list_all2 (gateway_matches R (learned_mac_list st)) (filter default_route (reported_routes R)) (gw_addr_list st)"
proof -
  obtain k2 k3 k4 k5 k6 where p: "plat_port_info_get G R (hist s) k2 = Some (0, port_info st, k3)"
    "plat_vlan_info_get G R (hist s) k3 = Some (0, vlan_info st, k4)"
    "plat_learned_mac_addrs_get R (gnma_mem G) k4 = Some (0, learned_mac_list st, k5)"
    "plat_state_gw_ip_get R (gnma_mem G) (learned_mac_list st) k6 = Some (0, gw_addr_list st, k')"
    using gather_parts[OF run] by blast
  note l = sw[unfolded lists_switch_def]
  show "list_all2 (port_matches R) names (port_info st)" using l p(1) by (blast intro: port_info_get_matches)
  show "list_all2 (vlan_matches (reported_addrs R)) (filter (bm_test bmp) [0..<GNMA_MAX_VLANS]) (vlan_info st)"
    using l p(2) by (blast intro: vlan_info_get_matches)
  show "learned_mac_list st = map learned_of (filter fdb_dynamic (reported_macs R))" by (rule learned_get_exact[OF p(3)])
  show "list_all2 (gateway_matches R (learned_mac_list st)) (filter default_route (reported_routes R)) (gw_addr_list st)"
    by (rule gw_get_matches[OF p(4)])
qed


lemma gathered_reportable:
  assumes sw: "lists_switch G (hist s) names bmp" and poe: "BITS_TO_UINT32 MAX_NUM_OF_PORTS \<le> length (poe_bmap s)"
    and run: "plat_state_get G R s (state_info_zero, k) = Some (0, st, k')"
  shows "reportable st"
proof -
  have "port_reportable p" if p: "p \<in> set (port_info st)" for p
  proof -
    obtain n where "n \<in> set names" "port_matches R n p"
      using list_all2_origin[OF gathered_tables(1)[OF sw run] p] by blast
    then show ?thesis using sw by (auto simp: port_reportable_def port_matches_def lists_switch_def)
  qed
  moreover have "vlan_id v < MAX_VLANS" if "v \<in> set (vlan_info st)" for v
    using list_all2_origin[OF gathered_tables(2)[OF sw run] that]
    by (auto simp: vlan_matches_def GNMA_MAX_VLANS_def MAX_VLANS_def)
  ultimately show ?thesis using gathered_poe[OF run poe] by (simp add: reportable_def)
qed


section \<open>A switch with two ports, one VLAN and a gateway behind it\<close>

definition demo_state_reads :: "json state_reads" where
  "demo_state_reads = \<lparr>sr_json = json_api, sr_parse = (\<lambda>_. None), sr_inet_pton = (\<lambda>_. None), sr_inet_pton6 = (\<lambda>_. False),
     sr_speed = (\<lambda>_. (0, ''1000'')), sr_duplex = (\<lambda>_. (0, True)), sr_oper = (\<lambda>_. (0, True)),
     sr_stats = (\<lambda>_ ts. (0, map (\<lambda>_. 5) ts)), sr_lldp = (\<lambda>_. (- 1, [])), sr_auth_clients = (\<lambda>_. (- 1, [])),
     sr_poe = (- 1, []), sr_poe_port = (\<lambda>_. (- 1, [])), sr_igmp_size = (\<lambda>_. (0, 0)), sr_igmp = (\<lambda>_ _. (- 1, [])),
     sr_addrs_size = (0, 1), sr_addrs = (\<lambda>_. (0, [\<lparr>ip_vid = 1, ip_prefixlen = 24, ip_address = 7\<rparr>])),
     sr_macs_size = (0, 2),
     sr_macs = (\<lambda>_. (0, [\<lparr>fdb_port = ''Ethernet0'', fdb_dynamic = False, fdb_vid = 1, fdb_mac = ''aa''\<rparr>,
       \<lparr>fdb_port = ''Ethernet1'', fdb_dynamic = True, fdb_vid = 1, fdb_mac = ''bb''\<rparr>])),
     sr_coa = (\<lambda>ts. (0, map (\<lambda>_. 0) ts)), sr_routes_size = (0, 1),
     sr_routes = (\<lambda>_. (0, [\<lparr>dr_prefix = GnmaV4 0 0, dr_gw = 9, dr_metric = 1, dr_egress = ''Vlan1''\<rparr>])),
     sr_nei = (\<lambda>_ _. (0, ''bb'')), sr_time = 0,
     sr_sysinfo = \<lparr>si_uptime = 1, si_bufferram = 2, si_freeram = 3, si_freeswap = 4, si_totalram = 5, si_mem_unit = 6\<rparr>,
     sr_meminfo = Some [''Cached: 12''], sr_loadavg = [Fin 1, Fin 1, Fin 1]\<rparr>"

lemma demo_reads_simps [simp]:
  "sr_json demo_state_reads = json_api"
  "sr_parse demo_state_reads = (\<lambda>_. None)"
  "sr_inet_pton demo_state_reads = (\<lambda>_. None)"
  "sr_inet_pton6 demo_state_reads = (\<lambda>_. False)"
  "sr_speed demo_state_reads = (\<lambda>_. (0, ''1000''))"
  "sr_duplex demo_state_reads = (\<lambda>_. (0, True))"
  "sr_oper demo_state_reads = (\<lambda>_. (0, True))"
  "sr_stats demo_state_reads = (\<lambda>_ ts. (0, map (\<lambda>_. 5) ts))"
  "sr_lldp demo_state_reads = (\<lambda>_. (- 1, []))"
  "sr_auth_clients demo_state_reads = (\<lambda>_. (- 1, []))"
  "sr_poe demo_state_reads = (- 1, [])"
  "sr_poe_port demo_state_reads = (\<lambda>_. (- 1, []))"
  "sr_igmp_size demo_state_reads = (\<lambda>_. (0, 0))"
  "sr_igmp demo_state_reads = (\<lambda>_ _. (- 1, []))"
  "sr_addrs_size demo_state_reads = (0, 1)"
  "sr_addrs demo_state_reads = (\<lambda>_. (0, [\<lparr>ip_vid = 1, ip_prefixlen = 24, ip_address = 7\<rparr>]))"
  "sr_macs_size demo_state_reads = (0, 2)"
  "sr_macs demo_state_reads = (\<lambda>_. (0, [\<lparr>fdb_port = ''Ethernet0'', fdb_dynamic = False, fdb_vid = 1, fdb_mac = ''aa''\<rparr>, \<lparr>fdb_port = ''Ethernet1'', fdb_dynamic = True, fdb_vid = 1, fdb_mac = ''bb''\<rparr>]))"
  "sr_coa demo_state_reads = (\<lambda>ts. (0, map (\<lambda>_. 0) ts))"
  "sr_routes_size demo_state_reads = (0, 1)"
  "sr_routes demo_state_reads = (\<lambda>_. (0, [\<lparr>dr_prefix = GnmaV4 0 0, dr_gw = 9, dr_metric = 1, dr_egress = ''Vlan1''\<rparr>]))"
  "sr_nei demo_state_reads = (\<lambda>_ _. (0, ''bb''))"
  "sr_time demo_state_reads = 0"
  "sr_sysinfo demo_state_reads = \<lparr>si_uptime = 1, si_bufferram = 2, si_freeram = 3, si_freeswap = 4, si_totalram = 5, si_mem_unit = 6\<rparr>"
  "sr_meminfo demo_state_reads = Some [''Cached: 12'']"
  "sr_loadavg demo_state_reads = [Fin 1, Fin 1, Fin 1]"
  by (simp_all add: demo_state_reads_def)

definition one_vlan :: bitmap where
  "one_vlan = 2 # replicate 127 0"

definition vlan_gnma :: gnma where
  "vlan_gnma = demo_gnma\<lparr>gnma_vlan_list_get := (\<lambda>_. (0, one_vlan))\<rparr>"

lemma one_vlan_bits: "filter (bm_test one_vlan) [0..<GNMA_MAX_VLANS] = [1]"
proof -
  have t: "bm_test one_vlan k \<longleftrightarrow> k = 1" if "k < 4096" for k
  proof (cases "k < 32")
    case True
    then show ?thesis by (simp add: bm_test_iff one_vlan_def bit_2_iff)
  next
    case False
    then show ?thesis using that by (auto simp: bm_test_iff one_vlan_def nth_Cons' div_less_iff_less_mult)
  qed
  have "filter (bm_test one_vlan) [0..<n] = filter (\<lambda>k. k = 1) [0..<n]" if "n = 4096" for n
    using t that by (intro filter_cong) auto
  moreover have "filter (\<lambda>k. k = 1) [0..<n] = (if 1 < n then [1] else [])" for n :: nat
    by (induction n) auto
  ultimately show ?thesis by (simp add: GNMA_MAX_VLANS_def del: upt_conv_Cons upt_rec_numeral)
qed

lemma demo_lists: "lists_switch vlan_gnma (hist demo_plat) [''Ethernet0'', ''Ethernet1''] one_vlan"
proof -
  have "''Ethernet0'' = PID_TO_NAME 0" "''Ethernet1'' = PID_TO_NAME 1" by code_simp+
  then have "\<exists>i < 100. ''Ethernet0'' = PID_TO_NAME i" "\<exists>i < 100. ''Ethernet1'' = PID_TO_NAME i"
    by (auto intro: exI[of _ 0] exI[of _ 1])
  then show ?thesis
    by (simp add: lists_switch_def vlan_gnma_def demo_gnma_def one_vlan_def BITS_TO_UINT32_def GNMA_MAX_VLANS_def MAX_NUM_OF_PORTS_def)
qed

lemma demo_scans:
  "NAME_TO_PID ''Ethernet0'' = ScanVal 0" "NAME_TO_PID ''Ethernet1'' = ScanVal 1" "NAME_TO_VLAN ''Vlan1'' = ScanVal 1"
  "scan_unsigned 32 ''1000'' = ScanVal 1000" "scan_unsigned 64 '' 12'' = ScanVal 12"
  by code_simp+

lemma demo_ports_run:
  "\<exists>ps k'. plat_port_info_get vlan_gnma demo_state_reads h k = Some (0, ps, k')"
proof -
  have c: "plat_port_stats_get demo_state_reads n = Some (0, counters_of (\<lambda>_. 5))" for n
    by (rule port_stats_exact) simp
  have one: "\<exists>t'. port_info_one demo_state_reads (\<lambda>_. True) name t = Some (0, t')"
    if "name \<in> {''Ethernet0'', ''Ethernet1''}" for name t
    using that
    by (cases t) (auto simp: port_info_one_def demo_scans c plat_port_speed_get_def Let_def cstr_def
        plat_port_duplex_get_def plat_port_oper_status_get_def plat_port_lldp_peer_info_get_def read_buf_def
        plat_ieee8021x_system_auth_clients_get_def ieee8021x_auth_clients_parse_def cJSON_Array_def
        cJSON_GetObjectItemCaseSensitive_def split: option.splits)
  obtain t1 where t1: "port_info_one demo_state_reads (\<lambda>_. True) ''Ethernet0'' ([], None, Suc (Suc k)) = Some (0, t1)"
    using one[of "''Ethernet0''"] by blast
  obtain ps b k' where t2: "port_info_one demo_state_reads (\<lambda>_. True) ''Ethernet1'' t1 = Some (0, ps, b, k')"
    using one[of "''Ethernet1''" t1] by auto
  show ?thesis
    by (simp add: plat_port_info_get_def plat_port_num_get_gnma_def port_list_get_def vlan_gnma_def demo_gnma_def
        GNMA_ERR_OVERFLOW_def steps_Cons t1 t2)
qed

lemma demo_vlans_gather:
  "\<exists>vs k'. plat_vlan_info_get vlan_gnma demo_state_reads h k = Some (0, vs, k')"
proof -
  have "BITMAP_FOR_EACH_BIT_SET one_vlan GNMA_MAX_VLANS = Some [1]"
    unfolding one_vlan_bits[symmetric] by (rule for_each_bits_list) (simp add: one_vlan_def GNMA_MAX_VLANS_def)
  then show ?thesis
    by (simp add: plat_vlan_info_get_def vlan_gnma_def demo_gnma_def address_list_get_def stored_def steps_Cons
        vlan_info_one_def plat_vlan_igmp_info_get_def)
qed

lemma demo_poe_gather:
  "\<exists>st k'. poe_gather demo_state_reads (\<lambda>_. True) [2, 0, 0, 0] (state_info_zero, k) = Some (0, st, k')"
proof -
  have "BITMAP_FOR_EACH_BIT_SET [2, 0, 0, 0] MAX_NUM_OF_PORTS = Some [1]"
    "BITMAP_SET_BIT (bitmap_zero MAX_NUM_OF_PORTS) 1 = Some [2, 0, 0, 0]" by code_simp+
  then show ?thesis
    by (simp add: poe_gather_def plat_poe_state_get_def read_buf_def steps_Cons poe_port_one_def plat_poe_port_state_get_def
        state_info_zero_def)
qed

lemma demo_gather_run:
  "\<exists>st k. plat_state_get vlan_gnma demo_state_reads demo_plat (state_info_zero, mem_calls demo_plat) = Some (0, st, k)"
proof -
  have mem: "gnma_mem vlan_gnma = (\<lambda>_. True)" "poe_bmap demo_plat = [2, 0, 0, 0]"
    by (simp_all add: vlan_gnma_def demo_gnma_def demo_plat_def)
  obtain st1 k1 where poe: "poe_gather demo_state_reads (\<lambda>_. True) [2, 0, 0, 0] (state_info_zero, mem_calls demo_plat) = Some (0, st1, k1)"
    using demo_poe_gather by blast
  obtain ps k2 where ps: "plat_port_info_get vlan_gnma demo_state_reads (hist demo_plat) k1 = Some (0, ps, k2)"
    using demo_ports_run by blast
  obtain vs k3 where vs: "plat_vlan_info_get vlan_gnma demo_state_reads (hist demo_plat) k2 = Some (0, vs, k3)"
    using demo_vlans_gather by blast
  have sys: "\<exists>i. plat_system_info_get demo_state_reads = Some (0, i)"
    by (simp add: plat_system_info_get_def get_meminfo_cached_kib_def demo_scans)
  have coa: "\<exists>c. plat_state_ieee8021x_coa_global_counters_get demo_state_reads coa_zero = Some (0, c)"
    by (simp add: plat_state_ieee8021x_coa_global_counters_get_def counter_map coa_stat_types_def Let_def counter_def)
  show ?thesis using sys coa
    by (auto simp: plat_state_get_def steps_Cons mem poe part_def ps vs plat_learned_mac_addrs_get_def stored_def
        plat_state_gw_ip_get_def gw_one_def default_route_def egress_port_def demo_scans)
qed



section \<open>Answers that are taken wrongly\<close>

text \<open>Text that is no address at all is accepted as the management address of a neighbour.\<close>

lemma lldp_accepts_any_text:
  "sr_inet_pton R p = None \<Longrightarrow>
     lldp_address R (i, p) l = Some (0, l\<lparr>mgmt_ips := (mgmt_ips l)[i := take INET6_ADDRSTRLEN p]\<rparr>)"
  by (simp add: lldp_address_def steps_Cons step_defs)

text \<open>A neighbour that announces a station is taken for an access point.\<close>

lemma lldp_station_as_access_point:
  assumes "cJSON_GetStringValue J (cJSON_GetObjectItemCaseSensitive J (Some it) ''name'') = Some ''openconfig-lldp-types:STATION_ONLY''"
    and "cJSON_IsBool J (cJSON_GetObjectItemCaseSensitive J (cJSON_GetObjectItemCaseSensitive J (Some it) ''state'') ''enabled'')"
    and "cJSON_IsTrue J (cJSON_GetObjectItemCaseSensitive J (cJSON_GetObjectItemCaseSensitive J (Some it) ''state'') ''enabled'')"
  shows "lldp_capability J it l = Some (0, l\<lparr>is_wlan_ap := True\<rparr>)"
  using assms by (simp add: lldp_capability_def steps_Cons step_defs)

text \<open>The two passes over the authenticated clients look at different names: two clients named after the
  port beside their state, only one of them inside it, overrun the array of one client.\<close>

lemma clients_overrun:
  assumes clients: "cJSON_Array (sr_json R) (cJSON_GetObjectItemCaseSensitive (sr_json R) (cJSON_GetObjectItemCaseSensitive (sr_json R)
      (sr_parse R buf) ''openconfig-authmgr:authmgr-authenticated-clients'') ''authenticated-client'') = [a, b]"
    and names: "state_name (sr_json R) a = Some (PID_TO_NAME pid)" "state_name (sr_json R) b = Some other"
      "own_name (sr_json R) a = Some (PID_TO_NAME pid)" "own_name (sr_json R) b = Some (PID_TO_NAME pid)"
      "other \<noteq> PID_TO_NAME pid"
    and "sr_parse R buf \<noteq> None" "mem k" "client_fill (sr_json R) a client_zero = Some (0, c)"
  shows "ieee8021x_auth_clients_parse R mem pid buf k = None"
  using assms by (simp add: ieee8021x_auth_clients_parse_def Let_def steps_Cons client_one_def)

end
