(* ===== verification/Plat_Events.thy ===== *)
theory Plat_Events
  imports Plat_Read
begin

text \<open>
  Events from the switch to the server: the notifications of the gNMI subscription
  (\<open>gnma_common.c\<close>: \<open>subscribe_gnmi_cb\<close> and the callbacks it dispatches to), their conversion by the
  platform (\<open>plat-gnma.c\<close>: \<open>alarm_gnma_cb\<close> and the others), the subscription itself, and the cause of the
  last restart. \<open>deliver\<close> composes them with the callbacks of the protocol. A notification is what
  the gNMI library hands over.
\<close>

section \<open>Notifications\<close>

datatype gnmi_typed_value =
    VALUE_STRING "string option" | VALUE_UINT u64 | VALUE_BOOL int | VALUE_OTHER

record gnmi_path_elem =
  elem_name :: string
  elem_key :: "(string option \<times> string option) list"

text \<open>\<open>None\<close> for a path or a value that is not there.\<close>

record gnmi_subscribe_update =
  upd_path :: "gnmi_path_elem list option"
  upd_val :: "gnmi_typed_value option"

record gnmi_notification =
  notif_timestamp :: int
  notif_prefix :: "gnmi_path_elem list"
  notif_update :: "gnmi_subscribe_update list"

record gnma_alarm =
  ga_id :: "string option"
  ga_resource :: string
  ga_text :: string
  ga_time_created :: u64
  ga_type_id :: string
  ga_severity :: int
  ga_acknowledged :: bool
  ga_acknowledge_time :: u64

text \<open>What the adapter hands to the platform; the last two with the text of the status and of the code.\<close>

datatype gnma_event =
    EvAlarm gnma_alarm
  | EvLink int "string option" int
  | EvPoeStatus int "string option" string
  | EvPoeFault int "string option" string

section \<open>Alarms\<close>

definition severity_str2int :: "string option \<Rightarrow> int" where
  "severity_str2int s =
     (if s = Some ''CRITICAL'' then 0 else if s = Some ''MAJOR'' then 1 else if s = Some ''MINOR'' then 2
      else if s = Some ''WARNING'' then 3 else if s = Some ''INFORMATIONAL'' then 4 else - 1)"

definition strnonull :: "string option \<Rightarrow> string" where
  "strnonull s = (case s of None \<Rightarrow> [] | Some s \<Rightarrow> s)"

text \<open>One update of an alarm. The first element of a path is looked at before its length; the text and
  the resource are read as strings whatever the type of the value is.\<close>

definition alarm_update :: "gnmi_subscribe_update \<Rightarrow> gnma_alarm \<Rightarrow> gnma_alarm option" where
  "alarm_update u a =
     (case (upd_path u, upd_val u) of
        (Some p, Some v) \<Rightarrow>
          (case p of
             [] \<Rightarrow> None
           | [_] \<Rightarrow> Some a
           | e0 # e1 # _ \<Rightarrow>
               if elem_name e0 \<noteq> ''state'' then Some a
               else if elem_name e1 = ''text'' then
                 (case v of VALUE_STRING s \<Rightarrow> Some (a\<lparr>ga_text := strnonull s\<rparr>) | _ \<Rightarrow> None)
               else if elem_name e1 = ''resource'' then
                 (case v of VALUE_STRING s \<Rightarrow> Some (a\<lparr>ga_resource := strnonull s\<rparr>) | _ \<Rightarrow> None)
               else if elem_name e1 = ''type-id'' then
                 Some (case v of VALUE_STRING s \<Rightarrow> a\<lparr>ga_type_id := strnonull s\<rparr> | _ \<Rightarrow> a)
               else if elem_name e1 = ''severity'' then
                 Some (case v of
                     VALUE_STRING s \<Rightarrow> if 0 \<le> severity_str2int s then a\<lparr>ga_severity := severity_str2int s\<rparr> else a
                   | _ \<Rightarrow> a)
               else if elem_name e1 = ''acknowledged'' then
                 Some (case v of VALUE_BOOL b \<Rightarrow> a\<lparr>ga_acknowledged := (b \<noteq> 0)\<rparr> | _ \<Rightarrow> a)
               else if elem_name e1 = ''acknowledge-time'' then
                 Some (case v of VALUE_UINT t \<Rightarrow> a\<lparr>ga_acknowledge_time := t\<rparr> | _ \<Rightarrow> a)
               else if elem_name e1 = ''time-created'' then
                 Some (case v of VALUE_UINT t \<Rightarrow> a\<lparr>ga_time_created := t\<rparr> | _ \<Rightarrow> a)
               else Some a)
      | _ \<Rightarrow> Some a)"

fun alarm_updates :: "gnmi_subscribe_update list \<Rightarrow> gnma_alarm \<Rightarrow> gnma_alarm option" where
  "alarm_updates [] a = Some a"
| "alarm_updates (u # us) a = do { a \<leftarrow> alarm_update u a; alarm_updates us a }"

text \<open>The event handed over, and the alarm that is acknowledged to the switch.\<close>

definition alarm_gnmi_cb :: "gnmi_notification \<Rightarrow> (gnma_event option \<times> string option) option" where
  "alarm_gnmi_cb n =
     (case notif_prefix n of
        _ # _ # e2 # _ \<Rightarrow>
          (case elem_key e2 of
             [(key, val)] \<Rightarrow>
               if strnonull key \<noteq> ''id'' then Some (None, None)
               else do {
                 i \<leftarrow> val;
                 if i = [] then Some (None, None)
                 else do {
                   a \<leftarrow> alarm_updates (notif_update n) \<lparr>ga_id = Some i, ga_resource = [], ga_text = [], ga_time_created = 0,
                     ga_type_id = [], ga_severity = 0, ga_acknowledged = False, ga_acknowledge_time = 0\<rparr>;
                   Some (if ga_acknowledged a then (None, None) else (Some (EvAlarm a), Some i))
                 }
               }
           | _ \<Rightarrow> Some (None, None))
      | _ \<Rightarrow> Some (None, None))"

section \<open>Links and power\<close>

text \<open>The checks that the three callbacks share: a key of the interface, a first update whose value is a
  string, and the name of an ethernet port; null pointers are undefined.\<close>

definition iface_value :: "gnmi_notification \<Rightarrow> (string \<times> string) option option" where
  "iface_value n =
     (case (map elem_key (take 1 (drop 1 (notif_prefix n))), notif_update n) of
        ([(_, ifname) # _], u # _) \<Rightarrow>
          (case upd_val u of
             Some (VALUE_STRING s) \<Rightarrow> do {
               name \<leftarrow> ifname;
               if take 8 name \<noteq> ''Ethernet'' then Some None
               else do { s \<leftarrow> s; Some (Some (name, s)) }
             }
           | _ \<Rightarrow> Some None)
      | _ \<Rightarrow> Some None)"

definition linkstatus_gnmi_cb :: "gnmi_notification \<Rightarrow> gnma_event option option" where
  "linkstatus_gnmi_cb n = do {
     v \<leftarrow> iface_value n;
     Some (case v of
         None \<Rightarrow> None
       | Some (name, s) \<Rightarrow>
           if s = ''DOWN'' then Some (EvLink (notif_timestamp n) (Some name) 0)
           else if s = ''UP'' then Some (EvLink (notif_timestamp n) (Some name) 1)
           else None)
   }"

definition poe_linkstatus_gnmi_cb :: "gnmi_notification \<Rightarrow> gnma_event option option" where
  "poe_linkstatus_gnmi_cb n = do {
     v \<leftarrow> iface_value n;
     Some (map_option (\<lambda>(name, s). EvPoeStatus (notif_timestamp n) (Some name) (take 31 s)) v)
   }"

definition poe_link_faultcode_gnmi_cb :: "gnmi_notification \<Rightarrow> gnma_event option option" where
  "poe_link_faultcode_gnmi_cb n = do {
     v \<leftarrow> iface_value n;
     Some (map_option (\<lambda>(name, s). EvPoeFault (notif_timestamp n) (Some name) (take 31 s)) v)
   }"

definition no_ack :: "gnma_event option option \<Rightarrow> (gnma_event option \<times> string option) option" where
  "no_ack e = map_option (\<lambda>e. (e, None)) e"

text \<open>The dispatcher; \<open>None\<close> as argument is a response without an update.\<close>

definition subscribe_gnmi_cb :: "gnmi_notification option \<Rightarrow> (gnma_event option \<times> string option) option" where
  "subscribe_gnmi_cb r =
     (case r of
        None \<Rightarrow> Some (None, None)
      | Some n \<Rightarrow>
          (case notif_prefix n of
             _ # e1 # es \<Rightarrow>
               if elem_name e1 = ''alarms'' then alarm_gnmi_cb n
               else if elem_name e1 = ''interface'' then
                 (case es of
                    [] \<Rightarrow> Some (None, None)
                  | e2 # _ \<Rightarrow>
                      if elem_name e2 = ''state'' then no_ack (linkstatus_gnmi_cb n)
                      else (case notif_update n of
                          [] \<Rightarrow> Some (None, None)
                        | u # _ \<Rightarrow>
                            (case upd_path u of
                               Some (p # _) \<Rightarrow>
                                 if elem_name p = ''status'' then no_ack (poe_linkstatus_gnmi_cb n)
                                 else if elem_name p = ''fault-code'' then no_ack (poe_link_faultcode_gnmi_cb n)
                                 else Some (None, None)
                             | _ \<Rightarrow> Some (None, None))))
               else Some (None, None)
           | _ \<Rightarrow> Some (None, None)))"

section \<open>Subscribing\<close>

text \<open>The paths that are subscribed to. \<open>adds\<close> answers for each of them, \<open>ok\<close> for the memory, the
  subscription and its start.\<close>

definition subscribe_paths :: "string list" where
  "subscribe_paths =
     [''/openconfig-system:system/alarms/alarm'',
      ''/openconfig-interfaces:interfaces/interface[name=*]/state/oper-status'',
      ''/openconfig-interfaces:interfaces/interface[name=*]/openconfig-if-ethernet:ethernet/openconfig-if-poe:poe/state/openconfig-if-poe-ext:status'',
      ''/openconfig-interfaces:interfaces/interface[name=*]/openconfig-if-ethernet:ethernet/openconfig-if-poe:poe/state/openconfig-if-poe-ext:fault-code'']"

definition gnma_subscribe :: "bool \<Rightarrow> (string \<Rightarrow> int) \<Rightarrow> int" where
  "gnma_subscribe ok adds = (if ok \<and> (\<forall>p \<in> set subscribe_paths. adds p = 0) then 0 else - 1)"

text \<open>Whether there is a handle, and whether the callbacks are set.\<close>

record subscription =
  subscribe_hdl :: bool
  events_cbs :: bool

definition plat_event_subscribe_gnma :: "int \<Rightarrow> subscription \<Rightarrow> int \<times> subscription" where
  "plat_event_subscribe_gnma ret s =
     (if subscribe_hdl s then (- 1, s)
      else (ret, s\<lparr>events_cbs := True, subscribe_hdl := (ret = 0)\<rparr>))"

definition plat_event_unsubscribe_gnma :: "subscription \<Rightarrow> subscription" where
  "plat_event_unsubscribe_gnma s = s\<lparr>subscribe_hdl := False, events_cbs := False\<rparr>"

section \<open>The platform\<close>

text \<open>Division of a signed number rounds toward zero.\<close>

definition nanos_to_seconds :: "int \<Rightarrow> int" where
  "nanos_to_seconds t = (if t < 0 then - ((- t) div 1000000000) else t div 1000000000)"

definition alarm_gnma_cb :: "gnma_alarm \<Rightarrow> plat_alarm" where
  "alarm_gnma_cb a = \<lparr>al_id = ga_id a, al_resource = Some (ga_resource a), al_text = Some (ga_text a),
     al_time_created = ga_time_created a, al_type_id = Some (ga_type_id a), al_severity = ga_severity a\<rparr>"

definition poe_status_of :: "string \<Rightarrow> poe_linkstatus option" where
  "poe_status_of s =
     (if s = ''DISABLED'' then Some POE_DISABLED
      else if s = ''SEARCHING'' then Some POE_SEARCHING
      else if s = ''DELIVERING_POWER'' then Some POE_DELIVERING_POWER
      else if s = ''OVERLOAD'' then Some POE_OVERLOAD
      else if s = ''OTHER_FAULT'' then Some POE_FAULT
      else None)"

text \<open>The codes in the order of their enumeration, after \<open>NO_ERROR\<close>, which is not reported.\<close>

definition fault_strings :: "string list" where
  "fault_strings =
     [''OVLO'', ''MPS_ABSENT'', ''SHORT'', ''OVERLOAD'', ''POWER_DENIED'', ''THERMAL_SHUTDOWN'', ''STARTUP_FAILURE'',
      ''UVLO'', ''HW_PIN_DISABLE'', ''PORT_UNDEFINED'', ''INTERNAL_HW_FAULT'', ''USER_SETTING'', ''NON_STANDARD_PD'',
      ''UNDERLOAD'', ''PWR_BUDGET_EXCEEDED'', ''OOR_CAPACITOR_VALUE'', ''CLASS_ERROR'']"

definition poe_fault_of :: "string \<Rightarrow> nat option" where
  "poe_fault_of s =
     (if s \<in> set fault_strings then Some (Suc (ARR_FIND_VALUE_IDX fault_strings s)) else None)"

text \<open>The callbacks of the platform and of the protocol, one after the other.\<close>

definition plat_event :: "('j, 'p) env \<Rightarrow> gnma_event \<Rightarrow> 'p proto_state \<Rightarrow> 'p proto_state" where
  "plat_event E e s =
     (case e of
        EvAlarm a \<Rightarrow> alarm_plat_cb E (alarm_gnma_cb a) s
      | EvLink t ifname up \<Rightarrow> linkstatus_plat_cb E (nanos_to_seconds t) ifname up s
      | EvPoeStatus t ifname st \<Rightarrow>
          (case poe_status_of st of
             None \<Rightarrow> s
           | Some k \<Rightarrow> poe_linkstatus_plat_cb E (nanos_to_seconds t) ifname k s)
      | EvPoeFault t ifname f \<Rightarrow>
          (case poe_fault_of f of
             None \<Rightarrow> s
           | Some k \<Rightarrow> poe_link_faultcode_plat_cb E (nanos_to_seconds t) ifname k s))"

text \<open>A notification from the switch, up to the message of the protocol and the acknowledged alarm.\<close>

definition deliver ::
  "('j, 'p) env \<Rightarrow> gnmi_notification option \<Rightarrow> 'p proto_state \<Rightarrow> ('p proto_state \<times> string option) option" where
  "deliver E r s = do {
     (e, ack) \<leftarrow> subscribe_gnmi_cb r;
     Some (case e of None \<Rightarrow> s | Some e \<Rightarrow> plat_event E e s, ack)
   }"

section \<open>The cause of the last restart\<close>

fun strstr :: "string \<Rightarrow> string \<Rightarrow> bool" where
  "strstr [] needle \<longleftrightarrow> needle = []"
| "strstr (c # cs) needle \<longleftrightarrow> take (length needle) (c # cs) = needle \<or> strstr cs needle"

definition reboot_cause_of :: "string \<Rightarrow> int \<times> string" where
  "reboot_cause_of str =
     (if strstr str ''not yet available'' then (3, ''uCentral SW failed to fetch reboot cause string (not available)'')
      else if strstr str ''Unknown'' then (1, ''Powerloss detected.'')
      else if strstr str ''reboot'' then (0, ''Reboot command's been executed.'')
      else (2, ''Device's (kernel) crashed (kernelpanic caused device to reboot).''))"

definition reboot_cause_buf_parse :: "'j state_reads \<Rightarrow> string \<Rightarrow> plat_reboot_cause step" where
  "reboot_cause_buf_parse R buf c =
     (let J = sr_json R in
      case cJSON_GetStringValue J (cJSON_GetObjectItemCaseSensitive J (sr_parse R buf) ''openconfig-system-ext:reboot-cause'') of
        None \<Rightarrow> Some (- 1, c)
      | Some str \<Rightarrow>
          let (cause, desc) = reboot_cause_of str in
          Some (0, c\<lparr>rc_ts := sr_time R - si_uptime (sr_sysinfo R), rc_cause := cause, rc_desc := take 127 desc\<rparr>))"

definition plat_reboot_cause_get_gnma ::
  "'j state_reads \<Rightarrow> (nat \<Rightarrow> bool) \<Rightarrow> int \<times> string \<Rightarrow> nat \<Rightarrow> plat_reboot_cause \<Rightarrow> (int \<times> plat_reboot_cause \<times> nat) option" where
  "plat_reboot_cause_get_gnma R mem answer = read_buf mem answer (reboot_cause_buf_parse R)"

section \<open>What is reported\<close>

lemma fault_reported:
  "v \<in> set fault_strings \<Longrightarrow>
     \<exists>k. poe_fault_of v = Some k \<and> poe_fault_type k = Some (''wired.poe.fault.'' @ map ascii_lower v)"
proof -
  have "list_all (\<lambda>v. \<exists>k \<in> set [0..<18]. poe_fault_of v = Some k \<and>
      poe_fault_type k = Some (''wired.poe.fault.'' @ map ascii_lower v)) fault_strings"
    by code_simp
  then show "v \<in> set fault_strings \<Longrightarrow> ?thesis" by (auto simp: list_all_iff)
qed

lemma fault_short: "v \<in> set fault_strings \<Longrightarrow> take 31 v = v"
proof -
  have "list_all (\<lambda>v. length v \<le> 31) fault_strings" by code_simp
  then show "v \<in> set fault_strings \<Longrightarrow> ?thesis" by (auto simp: list_all_iff)
qed

definition plain_statuses :: "string list" where
  "plain_statuses = [''DISABLED'', ''SEARCHING'', ''DELIVERING_POWER'', ''OVERLOAD'']"

lemma status_reported:
  "v \<in> set plain_statuses \<Longrightarrow> take 31 v = v \<and>
     (\<exists>k. poe_status_of v = Some k \<and> poe_status_type k = ''wired.poe.status.'' @ map ascii_lower v)"
proof -
  have "list_all (\<lambda>v. length v \<le> 31) plain_statuses" by code_simp
  moreover have "map ascii_lower ''DISABLED'' = ''disabled''" "map ascii_lower ''SEARCHING'' = ''searching''"
    "map ascii_lower ''DELIVERING_POWER'' = ''delivering_power''" "map ascii_lower ''OVERLOAD'' = ''overload''"
    by code_simp+
  ultimately show "v \<in> set plain_statuses \<Longrightarrow> ?thesis"
    by (auto simp: list_all_iff plain_statuses_def poe_status_of_def)
qed

lemma event_delivered:
  assumes "can_reply E"
  shows "only_sends [event_doc E (DRaw ts) ty [(''name'', DStr (Some name))]] s
    (send_doc E (event_doc E (DRaw ts) ty [(''name'', DStr (Some name))]) s)"
  using assms by (intro send_doc_delivers) (auto simp: can_reply_def event_doc_def jdoc_wf)

text \<open>A notification about a value of an ethernet port.\<close>

definition port_notification :: "gnmi_notification \<Rightarrow> string \<Rightarrow> string \<Rightarrow> string \<Rightarrow> string \<Rightarrow> bool" where
  "port_notification n name container leaf v \<longleftrightarrow>
     (\<exists>e0 e1 e2 es u us. notif_prefix n = e0 # e1 # e2 # es \<and> elem_name e1 = ''interface'' \<and>
        elem_key e1 = [(Some ''name'', Some name)] \<and> take 8 name = ''Ethernet'' \<and> elem_name e2 = container \<and>
        notif_update n = u # us \<and> upd_val u = Some (VALUE_STRING (Some v)) \<and>
        (\<exists>p ps. upd_path u = Some (p # ps) \<and> elem_name p = leaf))"

lemma port_value: "port_notification n name c leaf v \<Longrightarrow> iface_value n = Some (Some (name, v))"
  by (auto simp: port_notification_def iface_value_def)

lemma link_dispatched:
  "port_notification n name ''state'' leaf v \<Longrightarrow> subscribe_gnmi_cb (Some n) = no_ack (linkstatus_gnmi_cb n)"
  by (auto simp: port_notification_def subscribe_gnmi_cb_def)

lemma poe_dispatched:
  "port_notification n name c leaf v \<Longrightarrow> c \<noteq> ''state'' \<Longrightarrow> leaf = ''status'' \<Longrightarrow>
     subscribe_gnmi_cb (Some n) = no_ack (poe_linkstatus_gnmi_cb n)"
  "port_notification n name c leaf v \<Longrightarrow> c \<noteq> ''state'' \<Longrightarrow> leaf = ''fault-code'' \<Longrightarrow>
     subscribe_gnmi_cb (Some n) = no_ack (poe_link_faultcode_gnmi_cb n)"
  by (auto simp: port_notification_def subscribe_gnmi_cb_def)

definition sends_event :: "('j, 'p) env \<Rightarrow> gnmi_notification \<Rightarrow> string \<Rightarrow> string \<Rightarrow> 'p proto_state \<Rightarrow> bool" where
  "sends_event E n name ty s \<longleftrightarrow>
     (\<exists>s'. deliver E (Some n) s = Some (s', None) \<and>
        only_sends [event_doc E (DRaw (sdec (nanos_to_seconds (notif_timestamp n)))) ty [(''name'', DStr (Some name))]] s s')"

lemma link_event:
  assumes "can_reply E" "port_notification n name ''state'' leaf v" "v = ''UP'' \<or> v = ''DOWN''"
  shows "sends_event E n name (if v = ''UP'' then ''wired.carrier-up'' else ''wired.carrier-down'') s"
  using assms(3) event_delivered[OF assms(1)]
  by (auto simp: sends_event_def deliver_def link_dispatched[OF assms(2)] no_ack_def linkstatus_gnmi_cb_def
      port_value[OF assms(2)] plat_event_def linkstatus_plat_cb_def)

lemma status_event:
  assumes E: "can_reply E" and n: "port_notification n name c ''status'' v" "c \<noteq> ''state''" and v: "v \<in> set plain_statuses"
  shows "sends_event E n name (''wired.poe.status.'' @ map ascii_lower v) s"
proof -
  obtain k where k: "take 31 v = v" "poe_status_of v = Some k" "poe_status_type k = ''wired.poe.status.'' @ map ascii_lower v"
    using status_reported[OF v] by blast
  show ?thesis using event_delivered[OF E]
    by (simp add: sends_event_def deliver_def poe_dispatched(1)[OF n refl] no_ack_def poe_linkstatus_gnmi_cb_def
        port_value[OF n(1)] k plat_event_def poe_linkstatus_plat_cb_def del: append.simps)
qed

lemma fault_event:
  assumes E: "can_reply E" and n: "port_notification n name c ''fault-code'' v" "c \<noteq> ''state''" and v: "v \<in> set fault_strings"
  shows "sends_event E n name (''wired.poe.fault.'' @ map ascii_lower v) s"
proof -
  obtain k where k: "poe_fault_of v = Some k" "poe_fault_type k = Some (''wired.poe.fault.'' @ map ascii_lower v)"
    using fault_reported[OF v] by blast
  show ?thesis using event_delivered[OF E]
    by (simp add: sends_event_def deliver_def poe_dispatched(2)[OF n refl] no_ack_def poe_link_faultcode_gnmi_cb_def
        port_value[OF n(1)] fault_short[OF v] k plat_event_def poe_link_faultcode_plat_cb_def del: append.simps)
qed


definition demo_fault :: gnmi_notification where
  "demo_fault = \<lparr>notif_timestamp = 7000000001,
     notif_prefix = [\<lparr>elem_name = ''interfaces'', elem_key = []\<rparr>,
       \<lparr>elem_name = ''interface'', elem_key = [(Some ''name'', Some ''Ethernet3'')]\<rparr>, \<lparr>elem_name = ''ethernet'', elem_key = []\<rparr>],
     notif_update = [\<lparr>upd_path = Some [\<lparr>elem_name = ''fault-code'', elem_key = []\<rparr>], upd_val = Some (VALUE_STRING (Some ''SHORT''))\<rparr>]\<rparr>"


end
