(* ===== verification/Plat_Upgrade.thy ===== *)
theory Plat_Upgrade
  imports State_Props Plat_Poll
begin

text \<open>
  Image upgrade and remote terminals of the SONiC platform (\<open>plat-gnma.c\<close>). An upgrade is a download in a
  thread of its own, whose task the periodic thread reads; afterwards a package is handed to a script
  through a pipe and a full image to the switch's installer. The answers of curl, of the file
  system and of the installer are parameters. Remote terminals are kept in an array of process
  identifiers.
\<close>

section \<open>The task\<close>

text \<open>\<open>dl_state\<close> is a value of \<open>enum upgrade_status\<close>: idle, download, install, fail, success.\<close>

record img_dl_task =
  dl_active :: bool
  dl_full :: bool
  dl_percentage :: u8
  dl_state :: nat

definition UPGRADE_IDLE :: nat where "UPGRADE_IDLE = 0"
definition UPGRADE_DOWNLOAD :: nat where "UPGRADE_DOWNLOAD = 1"
definition UPGRADE_INSTALL :: nat where "UPGRADE_INSTALL = 2"
definition UPGRADE_FAIL :: nat where "UPGRADE_FAIL = 3"
definition UPGRADE_SUCCESS :: nat where "UPGRADE_SUCCESS = 4"

lemmas upgrade_states = UPGRADE_IDLE_def UPGRADE_DOWNLOAD_def UPGRADE_INSTALL_def UPGRADE_FAIL_def UPGRADE_SUCCESS_def

definition task_zero :: img_dl_task where
  "task_zero = \<lparr>dl_active = False, dl_full = False, dl_percentage = 0, dl_state = UPGRADE_IDLE\<rparr>"

text \<open>\<open>ok\<close>: the file could be opened, curl initialised and the thread created. A failure leaves the task
  as it is set up before.\<close>

definition plat_img_dl_start :: "bool \<Rightarrow> img_dl_task \<Rightarrow> int \<times> img_dl_task" where
  "plat_img_dl_start ok t =
     (if ok then 0 else - 1, task_zero\<lparr>dl_state := UPGRADE_DOWNLOAD, dl_active := True\<rparr>)"

definition plat_upgrade_gnma :: "bool \<Rightarrow> string \<Rightarrow> string option \<Rightarrow> img_dl_task \<Rightarrow> int \<times> img_dl_task" where
  "plat_upgrade_gnma ok uri signature t = plat_img_dl_start ok t"

text \<open>The progress callback of curl; the sizes are 0 as long as they are not known.\<close>

definition img_dl_progress_cb :: "rat \<Rightarrow> rat \<Rightarrow> img_dl_task \<Rightarrow> img_dl_task option" where
  "img_dl_progress_cb dltotal dlnow t =
     (if dltotal = 0 then None
      else do { w \<leftarrow> dbl_to_word (Fin (dlnow / dltotal * 100)); Some (t\<lparr>dl_percentage := w\<rparr>) })"

section \<open>The end of a download\<close>

definition IMG_DL_DEB_FILE_SIGNATURE :: string where
  "IMG_DL_DEB_FILE_SIGNATURE = ''!<arch>''"

definition IMG_DL_FILE_PATH :: string where
  "IMG_DL_FILE_PATH = ''/var/lib/ucentral/img''"

text \<open>The file is mapped; behind its end the page is zero, and an empty file cannot be read at all.
  \<open>file\<close> is \<open>None\<close> when it cannot be opened or mapped.\<close>

definition img_dl_get_type :: "string option \<Rightarrow> img_dl_task \<Rightarrow> (int \<times> img_dl_task) option" where
  "img_dl_get_type file t =
     (case file of
        None \<Rightarrow> Some (- 1, t)
      | Some f \<Rightarrow>
          if f = [] then None
          else Some (0, t\<lparr>dl_full := (take (length IMG_DL_DEB_FILE_SIGNATURE) (f @ replicate 7 (CHR 0x00)) \<noteq> IMG_DL_DEB_FILE_SIGNATURE)\<rparr>))"

text \<open>Writing the command to the pipe: the results of the calls of \<open>write\<close> in order. The outcome is
  \<open>None\<close> while the loop is still running, and what went into the pipe.\<close>

fun pipe_loop :: "int list \<Rightarrow> string \<Rightarrow> int option \<times> string" where
  "pipe_loop rs [] = (Some 0, [])"
| "pipe_loop [] (c # cs) = (None, [])"
| "pipe_loop (r # rs) (c # cs) =
     (if r < 0 then (Some (- 1), [])
      else let (ret, out) = pipe_loop rs (drop (nat r) (c # cs)) in (ret, take (nat r) (c # cs) @ out))"

text \<open>\<open>pipe\<close> is \<open>None\<close> when it cannot be opened.\<close>

definition img_dl_start_partial_upgrade :: "int list option \<Rightarrow> string \<Rightarrow> int option \<times> string" where
  "img_dl_start_partial_upgrade pipe uri =
     (case pipe of
        None \<Rightarrow> (Some (- 1), [])
      | Some rs \<Rightarrow> pipe_loop rs (''upgrade '' @ uri))"

text \<open>What the thread meets: the result of the transfer, the file, the pipe and the installer's answer.\<close>

record dl_world =
  curl_ok :: bool
  dl_file :: "string option"
  dl_pipe :: "int list option"
  dl_install :: int

definition task_failed :: "img_dl_task \<Rightarrow> img_dl_task" where
  "task_failed t = t\<lparr>dl_state := UPGRADE_FAIL, dl_percentage := 0\<rparr>"

text \<open>The end of the thread, with what went into the pipe; the task is \<open>None\<close> while the pipe is written.\<close>

definition img_dl_entrypoint :: "dl_world \<Rightarrow> img_dl_task \<Rightarrow> (img_dl_task option \<times> string) option" where
  "img_dl_entrypoint w t =
     (if \<not> curl_ok w then Some (Some (task_failed t), [])
      else do {
        (ret, t) \<leftarrow> img_dl_get_type (dl_file w) t;
        Some (if ret \<noteq> 0 then (Some (task_failed t), [])
          else if \<not> dl_full t then
            let (r, out) = img_dl_start_partial_upgrade (dl_pipe w) IMG_DL_FILE_PATH in
            (map_option (\<lambda>r. if r \<noteq> 0 then task_failed t else t\<lparr>dl_state := UPGRADE_SUCCESS\<rparr>) r, out)
          else if dl_install w \<noteq> 0 then (Some (task_failed t), [])
          else (Some (t\<lparr>dl_state := UPGRADE_INSTALL, dl_percentage := 0, dl_active := False\<rparr>), []))
      })"

section \<open>Reporting\<close>

text \<open>The state of the switch's installer: a JSON text with a name and a percentage.\<close>

definition plat_upgrade_state_gnmi :: "'j state_reads \<Rightarrow> int \<times> string \<Rightarrow> (int \<times> nat \<times> int) option" where
  "plat_upgrade_state_gnmi R answer =
     (let J = sr_json R; (ret, buf) = answer; json = sr_parse R buf;
          st = cJSON_GetObjectItemCaseSensitive J json ''global_state'';
          perc = cJSON_GetObjectItemCaseSensitive J json ''percentage''
      in if ret \<noteq> 0 \<or> st = None \<or> perc = None then Some (- 1, 0, 0)
         else do {
           percentage \<leftarrow> dbl_to_int 32 (cJSON_GetNumberValue J perc);
           name \<leftarrow> cJSON_GetStringValue J st;
           Some (if name = ''GLOBAL_STATE_FAILED'' then (0, UPGRADE_FAIL, 0)
             else if name = ''GLOBAL_STATE_DOWNLOAD'' then (0, UPGRADE_DOWNLOAD, percentage)
             else if name = ''GLOBAL_STATE_INSTALL'' then (0, UPGRADE_INSTALL, 0)
             else if name = ''GLOBAL_STATE_SUCCESS'' then (0, UPGRADE_SUCCESS, 0)
             else (0, UPGRADE_IDLE, 0))
         })"

definition plat_upgrade_state :: "'j state_reads \<Rightarrow> int \<times> string \<Rightarrow> img_dl_task \<Rightarrow> (int \<times> nat \<times> int) option" where
  "plat_upgrade_state R answer t =
     (if dl_active t then Some (0, dl_state t, uint (dl_percentage t)) else plat_upgrade_state_gnmi R answer)"

text \<open>The periodic callback: -1 ends the thread.\<close>

definition upgrade_periodic_cb ::
  "'j state_reads \<Rightarrow> int \<times> string \<Rightarrow> (nat \<Rightarrow> int \<Rightarrow> 's \<Rightarrow> int \<times> 's) \<Rightarrow> img_dl_task \<Rightarrow> 's \<Rightarrow> (int \<times> 's) option" where
  "upgrade_periodic_cb R answer cb t s =
     do {
       (ret, operation, percentage) \<leftarrow> plat_upgrade_state R answer t;
       Some (if ret \<noteq> 0 then (0, s)
         else let (r, s) = cb operation percentage s in (if r \<noteq> 0 then - 1 else 0, s))
     }"

section \<open>Remote terminals\<close>

definition RTTY_SESS_MAX :: nat where "RTTY_SESS_MAX = 10"

text \<open>Waiting for dead children: \<open>wait pid\<close> is the result of \<open>waitpid\<close>, positive for a dead child. A dead
  child is taken out of the array and the last place is free.\<close>

definition remove_child :: "nat \<Rightarrow> int list \<Rightarrow> int list" where
  "remove_child i child = take i child @ drop (Suc i) child @ [- 1]"

lemma remove_child_count:
  assumes "i < length child" "child ! i > 0"
  shows "length (filter (\<lambda>p. p > 0) (remove_child i child)) < length (filter (\<lambda>p. p > 0) child)"
proof -
  have c: "child = take i child @ child ! i # drop (Suc i) child" using assms(1) by (rule id_take_nth_drop)
  have "filter (\<lambda>p. p > 0) child = filter (\<lambda>p. p > 0) (take i child) @ child ! i # filter (\<lambda>p. p > 0) (drop (Suc i) child)"
    using assms(2) by (subst c) simp
  then show ?thesis by (simp add: remove_child_def)
qed

lemma length_remove_child [simp]: "i < length child \<Longrightarrow> length (remove_child i child) = length child"
  by (simp add: remove_child_def)

function reap_loop :: "(int \<Rightarrow> int) \<Rightarrow> nat \<Rightarrow> int list \<Rightarrow> int list" where
  "reap_loop wait i child =
     (if i < length child then
        let n = (if child ! i > 0 then wait (child ! i) else 0) in
        if n \<le> 0 then reap_loop wait (Suc i) child else reap_loop wait i (remove_child i child)
      else child)"
  by pat_completeness auto
termination
  by (relation "measure (\<lambda>(_, i, child). (length child - i) + length (filter (\<lambda>p. p > 0) child))")
     (use remove_child_count in \<open>fastforce simp: Let_def split: if_splits\<close>)+

declare reap_loop.simps [simp del]

text \<open>The first place without a session.\<close>

definition free_place :: "int list \<Rightarrow> nat" where
  "free_place child = length (takeWhile (\<lambda>p. p > 0) child)"

text \<open>The new array, the session that was killed, and the code. \<open>pid\<close> is what \<open>fork\<close> returns to the parent.\<close>

definition plat_rtty_gnma :: "(int \<Rightarrow> int) \<Rightarrow> int \<Rightarrow> int list \<Rightarrow> int \<times> int list \<times> int option" where
  "plat_rtty_gnma wait pid child =
     (let child = reap_loop wait 0 child; i = free_place child;
          (child, killed, i) =
            (if i = length child then (tl child @ [last child], Some (hd child), length child - 1) else (child, None, i));
          child = child[i := pid]
      in (if pid < 0 then - 1 else 0, child, killed))"

section \<open>An upgrade from start to end\<close>

lemma pipe_loop_written:
  "pipe_loop rs cmd = (Some r, out) \<Longrightarrow> (if r = 0 then out = cmd else \<exists>rest. rest \<noteq> [] \<and> cmd = out @ rest)"
proof (induction rs cmd arbitrary: out rule: pipe_loop.induct)
  case (3 q rs c cs)
  show ?case
  proof (cases "q < 0")
    case False
    then obtain o1 where o1: "pipe_loop rs (drop (nat q) (c # cs)) = (Some r, o1)" "out = take (nat q) (c # cs) @ o1"
      using "3.prems" by (auto simp: Let_def split: prod.splits)
    have "if r = 0 then o1 = drop (nat q) (c # cs) else \<exists>rest. rest \<noteq> [] \<and> drop (nat q) (c # cs) = o1 @ rest"
      by (rule "3.IH"[OF False o1(1)])
    then show ?thesis unfolding o1(2) by (metis append_assoc append_take_drop_id)
  qed (use "3.prems" in auto)
qed auto

fun progress_all :: "(rat \<times> rat) list \<Rightarrow> img_dl_task \<Rightarrow> img_dl_task option" where
  "progress_all [] t = Some t"
| "progress_all ((tot, got) # ps) t = do { t \<leftarrow> img_dl_progress_cb tot got t; progress_all ps t }"

definition progress_ok :: "(rat \<times> rat) list \<Rightarrow> bool" where
  "progress_ok ps \<longleftrightarrow> (\<forall>(tot, got) \<in> set ps. 0 < tot \<and> 0 \<le> got \<and> got \<le> tot)"

definition downloading :: "img_dl_task \<Rightarrow> bool" where
  "downloading t \<longleftrightarrow> dl_active t \<and> dl_state t = UPGRADE_DOWNLOAD \<and> unat (dl_percentage t) \<le> 100"

lemma progress_step:
  assumes "0 < tot" "0 \<le> got" "got \<le> tot" "downloading t"
  shows "\<exists>t'. img_dl_progress_cb tot got t = Some t' \<and> downloading t'"
proof -
  let ?q = "got / tot * 100"
  have q: "0 \<le> ?q" "?q \<le> 100" using assms by (auto simp: field_simps)
  then have "0 \<le> \<lfloor>?q\<rfloor>" "\<lfloor>?q\<rfloor> \<le> 100" by (auto simp: floor_le_iff)
  then have "0 \<le> trunc_rat ?q" "trunc_rat ?q \<le> 100" using q(1) by (auto simp: trunc_rat_def)
  then have "dbl_to_word (Fin ?q) = Some (word_of_int (trunc_rat ?q) :: u8)"
    "unat (word_of_int (trunc_rat ?q) :: u8) \<le> 100"
    by (auto simp: dbl_to_word_def unat_eq_nat_uint uint_word_of_int)
  then show ?thesis using assms(1,4) by (auto simp: img_dl_progress_cb_def downloading_def)
qed

lemma progress_all_downloading: "progress_ok ps \<Longrightarrow> downloading t \<Longrightarrow> \<exists>t'. progress_all ps t = Some t' \<and> downloading t'"
proof (induction ps t rule: progress_all.induct)
  case (2 tot got ps t)
  then obtain t1 where "img_dl_progress_cb tot got t = Some t1" "downloading t1"
    using progress_step[of tot got t] by (auto simp: progress_ok_def)
  then show ?case using "2.IH"[of t1] "2.prems"(1) by (auto simp: progress_ok_def)
qed auto

text \<open>What the report has to be after the download: the file is a package, or an image, or there is none.\<close>

definition is_package :: "string \<Rightarrow> bool" where
  "is_package f \<longleftrightarrow> take 7 f = IMG_DL_DEB_FILE_SIGNATURE"

definition final_report :: "'j state_reads \<Rightarrow> int \<times> string \<Rightarrow> dl_world \<Rightarrow> string \<Rightarrow> int \<Rightarrow> (int \<times> nat \<times> int) option" where
  "final_report R answer w out perc =
     (case dl_file w of
        Some f \<Rightarrow>
          if \<not> curl_ok w then Some (0, UPGRADE_FAIL, 0)
          else if is_package f then
            if out = ''upgrade /var/lib/ucentral/img'' then Some (0, UPGRADE_SUCCESS, perc) else Some (0, UPGRADE_FAIL, 0)
          else if dl_install w \<noteq> 0 then Some (0, UPGRADE_FAIL, 0)
          else plat_upgrade_state_gnmi R answer
      | None \<Rightarrow> Some (0, UPGRADE_FAIL, 0))"

lemma package_type:
  "f \<noteq> [] \<Longrightarrow> img_dl_get_type (Some f) t = Some (0, t\<lparr>dl_full := \<not> is_package f\<rparr>)"
proof -
  have "take 7 (f @ replicate 7 (CHR 0x00)) = ''!<arch>'' \<longleftrightarrow> take 7 f = ''!<arch>''" for f :: string
  proof (cases "length f < 7")
    case True
    then have "take 7 (f @ replicate 7 (CHR 0x00)) ! length f = CHR 0x00" by (simp add: nth_append)
    moreover have "''!<arch>'' ! length f \<noteq> CHR 0x00"
      using True by (auto simp: less_Suc_eq numeral_eq_Suc)
    ultimately have "take 7 (f @ replicate 7 (CHR 0x00)) \<noteq> ''!<arch>''" by metis
    moreover have "length (take 7 f) \<noteq> length ''!<arch>''" using True by simp
    then have "take 7 f \<noteq> ''!<arch>''" by metis
    ultimately show ?thesis by blast
  qed simp
  then have "take 7 (f @ replicate 7 (CHR 0x00)) = IMG_DL_DEB_FILE_SIGNATURE \<longleftrightarrow> is_package f"
    unfolding IMG_DL_DEB_FILE_SIGNATURE_def is_package_def .
  moreover have "length IMG_DL_DEB_FILE_SIGNATURE = 7" by code_simp
  ultimately show "f \<noteq> [] \<Longrightarrow> ?thesis" unfolding img_dl_get_type_def by (simp del: take_append)
qed

lemma entry_report:
  assumes d: "downloading t" and run: "img_dl_entrypoint w t = Some (Some t', out)"
  shows "plat_upgrade_state R answer t' = final_report R answer w out (uint (dl_percentage t))"
proof (cases "curl_ok w")
  case True
  show ?thesis
  proof (cases "dl_file w")
    case (Some f)
    have f: "f \<noteq> []" using run True Some by (auto simp: img_dl_entrypoint_def img_dl_get_type_def)
    let ?t = "t\<lparr>dl_full := \<not> is_package f\<rparr>"
    show ?thesis
    proof (cases "is_package f")
      case True
      let ?cmd = "''upgrade /var/lib/ucentral/img''"
      obtain r where r: "img_dl_start_partial_upgrade (dl_pipe w) IMG_DL_FILE_PATH = (Some r, out)"
        and t': "t' = (if r \<noteq> 0 then task_failed ?t else ?t\<lparr>dl_state := UPGRADE_SUCCESS\<rparr>)"
        using run \<open>curl_ok w\<close> Some True by (auto simp: img_dl_entrypoint_def package_type[OF f] split: prod.splits)
      have "r = 0 \<longleftrightarrow> out = ?cmd"
      proof (cases "dl_pipe w")
        case (Some rs)
        then have "pipe_loop rs ?cmd = (Some r, out)" using r by (simp add: img_dl_start_partial_upgrade_def IMG_DL_FILE_PATH_def)
        from pipe_loop_written[OF this] show ?thesis by (cases "r = 0") auto
      qed (use r in \<open>auto simp: img_dl_start_partial_upgrade_def\<close>)
      then show ?thesis using t' d True Some \<open>curl_ok w\<close>
        by (auto simp: plat_upgrade_state_def final_report_def task_failed_def downloading_def)
    qed (use run \<open>curl_ok w\<close> Some d in
      \<open>auto simp: img_dl_entrypoint_def package_type[OF f] plat_upgrade_state_def final_report_def task_failed_def downloading_def split: if_splits\<close>)
  qed (use run True d in \<open>auto simp: img_dl_entrypoint_def img_dl_get_type_def plat_upgrade_state_def final_report_def task_failed_def downloading_def\<close>)
qed (use run d in \<open>auto simp: img_dl_entrypoint_def plat_upgrade_state_def final_report_def task_failed_def downloading_def split: option.splits\<close>)


definition demo_world :: dl_world where
  "demo_world = \<lparr>curl_ok = True, dl_file = Some ''!<arch>data'', dl_pipe = Some [10, 100], dl_install = 0\<rparr>"


text \<open>A start that fails leaves the task active: the download is reported, at 0 percent, until the next request.\<close>

lemma failed_start_reports_download:
  "plat_upgrade_gnma False uri signature t0 = (ret, t) \<Longrightarrow>
     ret = - 1 \<and> plat_upgrade_state R answer t = Some (0, UPGRADE_DOWNLOAD, 0)"
  by (auto simp: plat_upgrade_gnma_def plat_img_dl_start_def task_zero_def plat_upgrade_state_def)

text \<open>Progress that curl reports before the size is known is undefined.\<close>

lemma progress_of_unknown_size: "img_dl_progress_cb 0 0 t = None"
  by (simp add: img_dl_progress_cb_def)

section \<open>Terminals are a bounded queue\<close>

definition sessions_of :: "int list \<Rightarrow> int list" where
  "sessions_of child = takeWhile (\<lambda>p. p > 0) child"

text \<open>The sessions are at the front of the array.\<close>

definition rtty_inv :: "int list \<Rightarrow> bool" where
  "rtty_inv child \<longleftrightarrow> length child = RTTY_SESS_MAX \<and> (\<forall>p \<in> set (drop (length (sessions_of child)) child). p \<le> 0)"

lemma sessions_split:
  "\<forall>p \<in> set l. p > 0 \<Longrightarrow> \<forall>p \<in> set r. p \<le> 0 \<Longrightarrow> sessions_of (l @ r) = l"
  unfolding sessions_of_def by (induction l) (auto simp: takeWhile_eq_Nil_iff dest: bspec[OF _ hd_in_set])

lemma rtty_inv_split:
  "rtty_inv child \<longleftrightarrow> length child = RTTY_SESS_MAX \<and>
     (\<exists>l r. child = l @ r \<and> (\<forall>p \<in> set l. p > 0) \<and> (\<forall>p \<in> set r. p \<le> 0))"
proof (intro iffI conjI; (elim conjE exE)?)
  assume "rtty_inv child"
  then have "length child = RTTY_SESS_MAX" and r: "\<forall>p \<in> set (dropWhile (\<lambda>p. p > 0) child). p \<le> 0"
    by (auto simp: rtty_inv_def sessions_of_def simp flip: dropWhile_eq_drop)
  then show "length child = RTTY_SESS_MAX" by simp
  show "\<exists>l r. child = l @ r \<and> (\<forall>p \<in> set l. p > 0) \<and> (\<forall>p \<in> set r. p \<le> 0)"
    using r by (intro exI[of _ "takeWhile (\<lambda>p. p > 0) child"] exI[of _ "dropWhile (\<lambda>p. p > 0) child"])
      (auto dest: set_takeWhileD)
next
  fix l r assume "length child = RTTY_SESS_MAX" "child = l @ r" "\<forall>p \<in> set l. p > 0" "\<forall>p \<in> set r. p \<le> 0"
  then show "rtty_inv child" by (simp add: rtty_inv_def sessions_split)
qed

lemma reap_front:
  assumes "\<forall>p \<in> set l. p > 0" "\<forall>p \<in> set r. p \<le> 0"
  shows "\<exists>r'. reap_loop wait i (l @ r) = take i l @ filter (\<lambda>p. wait p \<le> 0) (drop i l) @ r' \<and>
    (\<forall>p \<in> set r'. p \<le> 0) \<and> length (reap_loop wait i (l @ r)) = length (l @ r)"
  using assms
proof (induction "length l + length (l @ r) - i" arbitrary: l r i rule: less_induct)
  case less
  show ?case
  proof (cases "i < length (l @ r)")
    case inside: True
    show ?thesis
    proof (cases "i < length l")
      case True
      then have p: "(l @ r) ! i = l ! i" "l ! i > 0" "drop i l = l ! i # drop (Suc i) l" "take (Suc i) l = take i l @ [l ! i]"
        using less.prems(1) by (auto simp: nth_append Cons_nth_drop_Suc take_Suc_conv_app_nth)
      show ?thesis
      proof (cases "wait (l ! i) \<le> 0")
        case alive: True
        have "reap_loop wait i (l @ r) = reap_loop wait (Suc i) (l @ r)"
          using inside p alive by (subst reap_loop.simps) (simp add: Let_def)
        then show ?thesis using less.hyps[of l r "Suc i"] less.prems inside p alive by auto
      next
        case False
        let ?l = "take i l @ drop (Suc i) l" and ?r = "r @ [- 1]"
        have "reap_loop wait i (l @ r) = reap_loop wait i (?l @ ?r)"
          using inside p False True by (subst reap_loop.simps) (simp add: Let_def remove_child_def)
        moreover have "\<forall>q \<in> set ?l. q > 0" "\<forall>q \<in> set ?r. q \<le> 0"
          using less.prems by (auto dest: in_set_takeD in_set_dropD)
        moreover have "length ?l + length (?l @ ?r) - i < length l + length (l @ r) - i"
          "take i ?l = take i l" "drop i ?l = drop (Suc i) l" "length (?l @ ?r) = length (l @ r)" using True by auto
        ultimately show ?thesis using less.hyps[of ?l ?r i] p False by simp
      qed
    next
      case False
      then have "(l @ r) ! i \<le> 0" using less.prems(2) inside by (auto simp: nth_append)
      then have "reap_loop wait i (l @ r) = reap_loop wait (Suc i) (l @ r)"
        using inside by (subst reap_loop.simps) (simp add: Let_def)
      then show ?thesis using less.hyps[of l r "Suc i"] less.prems inside False by auto
    qed
  qed (use less.prems in \<open>auto simp: reap_loop.simps[of wait i]\<close>)
qed

text \<open>What a request does to the queue of sessions, oldest first.\<close>

definition rtty_spec :: "(int \<Rightarrow> int) \<Rightarrow> int \<Rightarrow> int list \<Rightarrow> int list \<times> int option" where
  "rtty_spec wait pid q =
     (let alive = filter (\<lambda>p. wait p \<le> 0) q; new = (if pid > 0 then [pid] else [])
      in if length alive = RTTY_SESS_MAX then (tl alive @ new, Some (hd alive)) else (alive @ new, None))"

lemma rtty_place:
  assumes "\<forall>p \<in> set l. p > 0" "\<forall>p \<in> set r. p \<le> 0" "length (l @ r) = RTTY_SESS_MAX" "r \<noteq> []"
  shows "rtty_inv ((l @ r)[length l := pid]) \<and> sessions_of ((l @ r)[length l := pid]) = l @ (if pid > 0 then [pid] else [])"
proof -
  obtain x xs where r: "r = x # xs" using assms(4) by (cases r) auto
  let ?new = "if pid > 0 then [pid] else []" and ?rest = "if pid > 0 then xs else pid # xs"
  have e: "(l @ r)[length l := pid] = (l @ ?new) @ ?rest" by (simp add: r list_update_append)
  have parts: "\<forall>p \<in> set (l @ ?new). p > 0" "\<forall>p \<in> set ?rest. p \<le> 0" using assms(1,2) by (auto simp: r)
  have "length ((l @ ?new) @ ?rest) = RTTY_SESS_MAX" using assms(3) by (simp add: r)
  then show ?thesis unfolding e rtty_inv_split using parts sessions_split[OF parts] by blast
qed

text \<open>C23. The array of remote terminals is a bounded queue. From an array with its sessions in front,
  a request removes the sessions that ended, keeps the others in their order, kills the oldest when
  all ten places are taken, and appends the new session; a fork that fails is reported and adds none,
  and the sessions are in front again.\<close>

theorem rtty_bounded_queue:
  assumes "rtty_inv child" "plat_rtty_gnma wait pid child = (ret, child', killed)"
  shows "rtty_inv child' \<and> (sessions_of child', killed) = rtty_spec wait pid (sessions_of child) \<and>
    ret = (if pid < 0 then - 1 else 0) \<and> length (sessions_of child') \<le> RTTY_SESS_MAX"
proof -
  obtain l r where lr: "child = l @ r" "\<forall>p \<in> set l. p > 0" "\<forall>p \<in> set r. p \<le> 0" and len: "length child = RTTY_SESS_MAX"
    using assms(1) by (auto simp: rtty_inv_split)
  let ?a = "filter (\<lambda>p. wait p \<le> 0) l"
  obtain r' where reap: "reap_loop wait 0 child = ?a @ r'" "\<forall>p \<in> set r'. p \<le> 0" "length (?a @ r') = RTTY_SESS_MAX"
    using reap_front[OF lr(2,3), of wait 0] lr(1) len by auto
  have a: "\<forall>p \<in> set ?a. p > 0" using lr(2) by simp
  have place: "free_place (?a @ r') = length ?a" using sessions_split[OF a reap(2)] by (simp add: free_place_def sessions_of_def)
  have q: "sessions_of child = l" using sessions_split[OF lr(2,3)] lr(1) by simp
  have main: "rtty_inv child' \<and> (sessions_of child', killed) = rtty_spec wait pid l \<and> ret = (if pid < 0 then - 1 else 0)"
  proof (cases "r' = []")
    case False
    then show ?thesis using assms(2) rtty_place[OF a reap(2,3) False, of pid] reap(3)
      by (auto simp: plat_rtty_gnma_def reap(1) place rtty_spec_def Let_def)
  next
    case True
    then have n: "length ?a = RTTY_SESS_MAX" "?a \<noteq> []" using reap(3) by (auto simp: RTTY_SESS_MAX_def)
    let ?t = "tl ?a" and ?x = "last ?a"
    have e: "(?t @ [?x])[length ?a - 1 := pid] = (?t @ [- 1])[length ?t := pid]" using n(2) by (simp add: list_update_append)
    have t: "\<forall>p \<in> set ?t. p > 0" "\<forall>p \<in> set [- 1 :: int]. p \<le> 0" "length (?t @ [- 1]) = RTTY_SESS_MAX"
      using a n by (auto dest: list.set_sel(2) simp: RTTY_SESS_MAX_def)
    have f: "free_place ?a = length ?a" using place True by simp
    have "child' = (?t @ [- 1])[length ?t := pid]" "killed = Some (hd ?a)" "ret = (if pid < 0 then - 1 else 0)"
      using assms(2) unfolding plat_rtty_gnma_def reap(1) True append_Nil2 Let_def f e[symmetric] by auto
    then show ?thesis using rtty_place[OF t, of pid] n(1) by (simp add: rtty_spec_def Let_def)
  qed
  moreover have "length (sessions_of child') \<le> RTTY_SESS_MAX"
    using main length_takeWhile_le[of "\<lambda>p. p > 0" child'] by (simp add: rtty_inv_def sessions_of_def)
  ultimately show ?thesis using q by simp
qed

text \<open>The second of three sessions ended; the new one is the last.\<close>

theorem rtty_bounded_queue_witness:
  "\<exists>child'. plat_rtty_gnma (\<lambda>p. if p = 12 then 12 else 0) 14 [11, 12, 13, 0, 0, 0, 0, 0, 0, 0] = (0, child', None) \<and>
     sessions_of child' = [11, 13, 14]"
proof -
  let ?w = "\<lambda>p. if p = 12 then 12 else (0 :: int)" and ?c = "[11, 12, 13, 0, 0, 0, 0, 0, 0, 0] :: int list"
  obtain ret child' killed where run: "plat_rtty_gnma ?w 14 ?c = (ret, child', killed)" by (metis prod_cases3)
  have "sessions_of ?c = [11, 12, 13]" by (simp add: sessions_of_def)
  moreover have "rtty_inv ?c" by (simp add: rtty_inv_def sessions_of_def RTTY_SESS_MAX_def)
  ultimately show ?thesis using rtty_bounded_queue[OF _ run] run by (simp add: rtty_spec_def RTTY_SESS_MAX_def)
qed

end
