(* ===== verification/Connector.thy ===== *)
theory Connector
  imports Json_Api "HOL-Library.Sublist"
begin

text \<open>
  The connector to the switch operating system (\<open>gnma/gnmi/gnmi_c_connector.cpp\<close>): paths, access
  tokens, and the requests over gNMI and gNOI.

  The remote procedure calls are a parameter (\<open>gnmi\<close>): whether a request ends with status OK, and what
  a query answers, are functions of the requests made so far. The text of a document is a value
  of a type \<open>'t\<close>; printing and parsing it is the JSON library's. \<open>g_calls\<close> is the number of library
  calls that succeed one after another when the adapter prepares its next request, so every place
  where memory can run out is covered.
\<close>

section \<open>Paths\<close>

text \<open>A path is cut at every slash, whatever it stands in, and empty elements are dropped. The first
  argument is the element being read.\<close>

definition add_element :: "string \<Rightarrow> string list \<Rightarrow> string list" where
  "add_element e es = (if e = [] then es else e # es)"

fun yang_loop :: "string \<Rightarrow> string \<Rightarrow> string list" where
  "yang_loop e [] = add_element e []"
| "yang_loop e (c # cs) = (if c = CHR ''/'' then add_element e (yang_loop [] cs) else yang_loop (e @ [c]) cs)"

definition convertYangPath2ProtoPath :: "string \<Rightarrow> string list" where
  "convertYangPath2ProtoPath = yang_loop []"

definition plain_path :: "string \<Rightarrow> bool" where
  "plain_path p \<longleftrightarrow> p \<noteq> [] \<and> hd p = CHR ''/'' \<and> last p \<noteq> CHR ''/'' \<and> \<not> sublist ''//'' p"

definition join_path :: "string list \<Rightarrow> string" where
  "join_path es = concat (map ((#) CHR ''/'') es)"

section \<open>Deadlines and tokens\<close>

text \<open>The deadline that is set for a call at time \<open>now\<close>.\<close>

definition set_deadline_after_us :: "int \<Rightarrow> int \<Rightarrow> int option" where
  "set_deadline_after_us now us = (if 0 \<ge> us then Some (now + us) else None)"

definition DEFAULT_TIMEOUT_US :: int where "DEFAULT_TIMEOUT_US = 90 * 1000000"

text \<open>\<open>f\<close> performs a call with a token, \<open>auth\<close> asks for a new token; both may change the server's state.
  The stored token is empty before the first call.\<close>

definition UNAUTHENTICATED :: nat where "UNAUTHENTICATED = 16"

definition invoke_with_token ::
  "('s \<Rightarrow> string option \<times> 's) \<Rightarrow> (string \<Rightarrow> 's \<Rightarrow> nat \<times> 's) \<Rightarrow> string \<Rightarrow> 's \<Rightarrow> nat \<times> string \<times> 's" where
  "invoke_with_token auth f token s =
     (let (status, s) = (if token \<noteq> [] then f token s else (UNAUTHENTICATED, s)) in
      if token \<noteq> [] \<and> status \<noteq> UNAUTHENTICATED then (status, token, s)
      else case auth s of
        (None, s) \<Rightarrow> (status, token, s)
      | (Some t, s) \<Rightarrow> let (status, s) = f t s in (status, t, s))"

section \<open>Requests\<close>

datatype 't request =
    Set "string list" 't
  | Replace "string list" 't
  | Delete "string list"
  | SetRq "'t request list"
  | Rpc string "string list"

type_synonym 't trace = "'t request list"

type_synonym 't act = "'t trace \<Rightarrow> int \<times> 't trace"

text \<open>The answer to a query is a list of notifications, each with its updates; an update without a JSON
  value is \<open>None\<close>. There is no answer when the status is not OK.\<close>

record ('j, 't) gnmi =
  g_json :: "'j cjson"
  g_parse :: "'t \<Rightarrow> 'j option"
  g_print :: "jdoc \<Rightarrow> 't"
  g_size :: "'t \<Rightarrow> nat"
  g_calls :: "'t trace \<Rightarrow> nat"
  g_ok :: "'t trace \<Rightarrow> 't request \<Rightarrow> bool"
  g_get :: "'t trace \<Rightarrow> string list \<Rightarrow> 't option list list option"

definition call :: "('j, 't) gnmi \<Rightarrow> 't request \<Rightarrow> 't act" where
  "call A q h = (if g_ok A h q then 0 else - 1, h @ [q])"

definition gnmi_jsoni_set :: "('j, 't) gnmi \<Rightarrow> string \<Rightarrow> 't \<Rightarrow> 't act" where
  "gnmi_jsoni_set A path req = call A (Set (convertYangPath2ProtoPath path) req)"

definition gnmi_jsoni_replace :: "('j, 't) gnmi \<Rightarrow> string \<Rightarrow> 't \<Rightarrow> 't act" where
  "gnmi_jsoni_replace A path req = call A (Replace (convertYangPath2ProtoPath path) req)"

definition gnmi_jsoni_del :: "('j, 't) gnmi \<Rightarrow> string \<Rightarrow> 't act" where
  "gnmi_jsoni_del A path = call A (Delete (convertYangPath2ProtoPath path))"

definition gnmi_jsoni_get_internal :: "('j, 't) gnmi \<Rightarrow> string \<Rightarrow> 't trace \<Rightarrow> 't option" where
  "gnmi_jsoni_get_internal A path h =
     (case g_get A h (convertYangPath2ProtoPath path) of
        Some [[Some val]] \<Rightarrow> Some val
      | _ \<Rightarrow> None)"

text \<open>Into a buffer of \<open>n\<close> bytes, and into a new one.\<close>

definition gnmi_jsoni_get :: "('j, 't) gnmi \<Rightarrow> string \<Rightarrow> nat \<Rightarrow> 't trace \<Rightarrow> 't option" where
  "gnmi_jsoni_get A path n h = do { val \<leftarrow> gnmi_jsoni_get_internal A path h; if n > g_size A val then Some val else None }"

definition gnmi_jsoni_get_alloc :: "('j, 't) gnmi \<Rightarrow> string \<Rightarrow> bool \<Rightarrow> 't trace \<Rightarrow> 't option" where
  "gnmi_jsoni_get_alloc A path mem h = do { val \<leftarrow> gnmi_jsoni_get_internal A path h; if mem then Some val else None }"

text \<open>A request that collects updates and deletions. Its execution does not tell whether it succeeded.\<close>

definition gnmi_setrq_add_jsoni_update :: "string \<Rightarrow> 't \<Rightarrow> 't request list \<Rightarrow> int \<times> 't request list" where
  "gnmi_setrq_add_jsoni_update path req rq = (0, rq @ [Set (convertYangPath2ProtoPath path) req])"

definition gnmi_setrq_add_jsoni_replace :: "string \<Rightarrow> 't \<Rightarrow> 't request list \<Rightarrow> int \<times> 't request list" where
  "gnmi_setrq_add_jsoni_replace path req rq = (0, rq @ [Replace (convertYangPath2ProtoPath path) req])"

definition gnmi_setrq_add_delete :: "string \<Rightarrow> 't request list \<Rightarrow> int \<times> 't request list" where
  "gnmi_setrq_add_delete path rq = (0, rq @ [Delete (convertYangPath2ProtoPath path)])"

definition gnmi_setrq_execute :: "('j, 't) gnmi \<Rightarrow> 't request list \<Rightarrow> 't act" where
  "gnmi_setrq_execute A rq h = (0, snd (call A (SetRq rq) h))"

definition gnmi_gnoi_system_reboot :: "('j, 't) gnmi \<Rightarrow> 't act" where
  "gnmi_gnoi_system_reboot A = call A (Rpc ''Reboot'' [])"

definition gnmi_gnoi_sonic_copy :: "('j, 't) gnmi \<Rightarrow> string \<Rightarrow> string \<Rightarrow> string \<Rightarrow> 't act" where
  "gnmi_gnoi_sonic_copy A src dst mode = call A (Rpc ''Copy'' [src, dst, mode])"

definition gnmi_gnoi_sonic_copy_merge :: "('j, 't) gnmi \<Rightarrow> string \<Rightarrow> string \<Rightarrow> 't act" where
  "gnmi_gnoi_sonic_copy_merge A src dst = gnmi_gnoi_sonic_copy A src dst ''MERGE''"

definition gnmi_gnoi_sonic_copy_overwrite :: "('j, 't) gnmi \<Rightarrow> string \<Rightarrow> string \<Rightarrow> 't act" where
  "gnmi_gnoi_sonic_copy_overwrite A src dst = gnmi_gnoi_sonic_copy A src dst ''OVERWRITE''"

definition gnmi_gnoi_sonic_copy_replace :: "('j, 't) gnmi \<Rightarrow> string \<Rightarrow> string \<Rightarrow> 't act" where
  "gnmi_gnoi_sonic_copy_replace A src dst = gnmi_gnoi_sonic_copy A src dst ''REPLACE''"

definition gnmi_gnoi_sonic_cfg_subcmd :: "('j, 't) gnmi \<Rightarrow> string \<Rightarrow> 't act" where
  "gnmi_gnoi_sonic_cfg_subcmd A subcmd = call A (Rpc ''WriteErase'' [subcmd])"

definition gnmi_gnoi_sonic_cfg_erase_boot :: "('j, 't) gnmi \<Rightarrow> 't act" where
  "gnmi_gnoi_sonic_cfg_erase_boot A = gnmi_gnoi_sonic_cfg_subcmd A ''op_write_erase_boot''"

definition gnmi_gnoi_sonic_cfg_erase_boot_cancel :: "('j, 't) gnmi \<Rightarrow> 't act" where
  "gnmi_gnoi_sonic_cfg_erase_boot_cancel A = gnmi_gnoi_sonic_cfg_subcmd A ''op_no_write_erase''"

definition gnmi_gnoi_image_install :: "('j, 't) gnmi \<Rightarrow> string \<Rightarrow> 't act" where
  "gnmi_gnoi_image_install A uri = call A (Rpc ''ImageInstall'' [uri])"

definition gnmi_gnoi_sonic_alarm_acknowledge :: "('j, 't) gnmi \<Rightarrow> string list \<Rightarrow> 't act" where
  "gnmi_gnoi_sonic_alarm_acknowledge A ids = call A (Rpc ''AcknowledgeAlarms'' ids)"

definition gnmi_gnoi_poe_port_reset :: "('j, 't) gnmi \<Rightarrow> string \<Rightarrow> 't act" where
  "gnmi_gnoi_poe_port_reset A port = call A (Rpc ''ResetPoe'' [port])"

section \<open>Properties\<close>

text \<open>The elements are not empty and have no slash.\<close>

lemma yang_loop_elements:
  "CHR ''/'' \<notin> set e \<Longrightarrow> x \<in> set (yang_loop e p) \<Longrightarrow> x \<noteq> [] \<and> CHR ''/'' \<notin> set x"
proof (induction p arbitrary: e)
  case (Cons c p)
  show ?case using Cons.IH[of "[]"] Cons.IH[of "e @ [c]"] Cons.prems by (auto simp: add_element_def split: if_splits)
qed (auto simp: add_element_def split: if_splits)

lemma yang_loop_append:
  "CHR ''/'' \<notin> set e \<Longrightarrow> yang_loop d (e @ r) = yang_loop (d @ e) r"
  by (induction e arbitrary: d) auto

lemma yang_loop_join:
  assumes "\<forall>x \<in> set es. x \<noteq> [] \<and> CHR ''/'' \<notin> set x"
  shows "yang_loop [] (join_path es) = es"
proof -
  have "yang_loop e (join_path es) = add_element e es" if "\<forall>x \<in> set es. x \<noteq> [] \<and> CHR ''/'' \<notin> set x" for e
    using that
  proof (induction es arbitrary: e)
    case (Cons x es)
    then have "yang_loop [] (x @ join_path es) = x # es" by (simp add: yang_loop_append add_element_def)
    then show ?case by (simp add: join_path_def)
  qed (simp add: join_path_def)
  from this[OF assms, of "[]"] show ?thesis by (simp add: add_element_def)
qed

lemma sublist_slashes: "sublist ''//'' (c # cs) \<longleftrightarrow> (c = CHR ''/'' \<and> cs \<noteq> [] \<and> hd cs = CHR ''/'') \<or> sublist ''//'' cs"
  by (cases cs) (auto simp: sublist_Cons_right)

lemma join_yang_loop:
  assumes "e \<noteq> [] \<or> p \<noteq> [] \<and> hd p \<noteq> CHR ''/''" "p = [] \<or> last p \<noteq> CHR ''/''" "\<not> sublist ''//'' p"
  shows "join_path (yang_loop e p) = CHR ''/'' # e @ p"
  using assms
proof (induction p arbitrary: e)
  case (Cons c cs)
  show ?case
  proof (cases "c = CHR ''/''")
    case True
    then have cs: "cs \<noteq> []" "hd cs \<noteq> CHR ''/''" "last cs \<noteq> CHR ''/''" "\<not> sublist ''//'' cs" and e: "e \<noteq> []"
      using Cons.prems by (auto simp: sublist_slashes split: if_splits)
    have "join_path (yang_loop [] cs) = CHR ''/'' # cs" using Cons.IH[of "[]"] cs by simp
    then show ?thesis using True e by (simp add: add_element_def join_path_def)
  next
    case False
    have "join_path (yang_loop (e @ [c]) cs) = CHR ''/'' # (e @ [c]) @ cs"
      by (rule Cons.IH) (use Cons.prems in \<open>auto simp: sublist_slashes split: if_splits\<close>)
    then show ?thesis using False by simp
  qed
qed (simp add: add_element_def join_path_def)

text \<open>Paths lose nothing on the way to the switch: the elements of a path are the only list of non-empty
  elements without a slash that, each after a slash, is the path again, so different paths stay
  different.\<close>

theorem path_roundtrip:
  assumes "plain_path p"
  shows "join_path (convertYangPath2ProtoPath p) = p \<and>
    (\<forall>es. (\<forall>x \<in> set es. x \<noteq> [] \<and> CHR ''/'' \<notin> set x) \<and> join_path es = p \<longleftrightarrow> es = convertYangPath2ProtoPath p)"
proof -
  obtain q where p: "p = CHR ''/'' # q" using assms by (cases p) (auto simp: plain_path_def)
  have q: "q \<noteq> []" "hd q \<noteq> CHR ''/''" "last q \<noteq> CHR ''/''" "\<not> sublist ''//'' q"
    using assms by (auto simp: plain_path_def p sublist_slashes split: if_splits)
  have j: "join_path (convertYangPath2ProtoPath p) = p"
    using join_yang_loop[of "[]" q] q by (simp add: convertYangPath2ProtoPath_def p add_element_def)
  have "\<forall>x \<in> set (convertYangPath2ProtoPath p). x \<noteq> [] \<and> CHR ''/'' \<notin> set x"
    using yang_loop_elements[of "[]"] by (simp add: convertYangPath2ProtoPath_def)
  then show ?thesis using j yang_loop_join by (auto simp: convertYangPath2ProtoPath_def)
qed

theorem path_roundtrip_witness:
  "convertYangPath2ProtoPath ''/a/b[k=1]'' = [''a'', ''b[k=1]''] \<and> join_path [''a'', ''b[k=1]''] = ''/a/b[k=1]''"
proof -
  have "plain_path ''/a/b[k=1]''" by (simp add: plain_path_def sublist_slashes)
  moreover have "convertYangPath2ProtoPath ''/a/b[k=1]'' = [''a'', ''b[k=1]'']"
    by (simp add: convertYangPath2ProtoPath_def add_element_def)
  ultimately show ?thesis using path_roundtrip[of "''/a/b[k=1]''"] by simp
qed

text \<open>A key value with a slash is cut in two.\<close>

lemma path_key_with_slash:
  "convertYangPath2ProtoPath ''/LIST[prefix=10.0.0.0/8]'' = [''LIST[prefix=10.0.0.0'', ''8]'']"
  by (simp add: convertYangPath2ProtoPath_def add_element_def)

text \<open>The adapter's timeout sets no deadline at all.\<close>

lemma no_deadline: "set_deadline_after_us now DEFAULT_TIMEOUT_US = None"
  by (simp add: set_deadline_after_us_def DEFAULT_TIMEOUT_US_def)

text \<open>A server that performs a call only with its valid token.\<close>

definition guarded_server :: "('s \<Rightarrow> string) \<Rightarrow> ('s \<Rightarrow> nat \<times> 's) \<Rightarrow> string \<Rightarrow> 's \<Rightarrow> nat \<times> 's" where
  "guarded_server valid perform token s = (if token = valid s then perform s else (UNAUTHENTICATED, s))"

text \<open>Whatever token is stored (none, an expired one, the valid one), a call is performed exactly once and its
  own status is returned, with a token that was valid for it kept for the next call, provided that
  the server hands out its valid token on request and a performed call does not itself answer
  that it is not authenticated; when no token can be had the server's state is unchanged unless
  the stored token was valid.\<close>

theorem token_exactly_once:
  assumes "valid s \<noteq> []" "fst (perform s) \<noteq> UNAUTHENTICATED"
  shows "invoke_with_token (\<lambda>s. (Some (valid s), s)) (guarded_server valid perform) token s =
      (fst (perform s), valid s, snd (perform s)) \<and>
    invoke_with_token (\<lambda>s. (None, s)) (guarded_server valid perform) token s =
      (if token = valid s then (fst (perform s), token, snd (perform s)) else (UNAUTHENTICATED, token, s))"
  using assms by (auto simp: invoke_with_token_def guarded_server_def split: prod.splits)

text \<open>An expired token; the counter says how often the call was performed.\<close>

theorem token_exactly_once_witness:
  "invoke_with_token (\<lambda>s. (Some ''new'', s)) (guarded_server (\<lambda>_. ''new'') (\<lambda>n. (0, Suc n))) ''old'' (0 :: nat) = (0, ''new'', 1)"
  using token_exactly_once[of "\<lambda>_. ''new''" 0 "\<lambda>n. (0, Suc n)" "''old''"] by (simp add: UNAUTHENTICATED_def)

end
