(* ===== verification/Adapter.thy ===== *)
theory Adapter
  imports Plat_Apply State_Report Connector
begin

text \<open>
  The management adapter (\<open>gnma/gnma_common.c\<close>) over the gNMI connector: what it sends for each
  setting of a port, of power over ethernet and of 802.1x, and how it reads them back.

  A setter builds a path and a document and sends them; a query reads a path and picks a value from
  the answer. Every allocating call is one of \<open>g_calls\<close>: the path where it is allocated, each node of
  the document, its text. An output argument of a query is passed in and returned, so an output
  that is not set shows.
\<close>

section \<open>The shape of setters and queries\<close>

text \<open>\<open>pre\<close> is the number of calls before the document: 1 when the path is allocated. Whatever fails, the
  code is \<open>GNMA_ERR_COMMON\<close>, and only a refused request leaves a trace.\<close>

definition gnmi_json_object_set :: "('j, 't) gnmi \<Rightarrow> nat \<Rightarrow> string \<Rightarrow> jdoc \<Rightarrow> 't act" where
  "gnmi_json_object_set A pre path d h =
     (if g_calls A h \<le> pre + length (jcalls d) then (- 1, h) else gnmi_jsoni_set A path (g_print A d) h)"

definition gnmi_del :: "('j, 't) gnmi \<Rightarrow> nat \<Rightarrow> string \<Rightarrow> 't act" where
  "gnmi_del A pre path h = (if g_calls A h < pre then (- 1, h) else gnmi_jsoni_del A path h)"

text \<open>The parsed answer, or nothing if the path, the request or the parser fails.\<close>

definition fetch :: "('j, 't) gnmi \<Rightarrow> nat \<Rightarrow> string \<Rightarrow> 't trace \<Rightarrow> 'j option" where
  "fetch A pre path h =
     (if g_calls A h < pre then None
      else do { buf \<leftarrow> gnmi_jsoni_get_alloc A path (g_calls A h > pre) h; g_parse A buf })"

definition reads :: "('j, 't) gnmi \<Rightarrow> nat \<Rightarrow> string \<Rightarrow> ('j \<Rightarrow> (int \<times> 'v) option) \<Rightarrow> 't trace \<Rightarrow> 'v \<Rightarrow> (int \<times> 'v) option" where
  "reads A pre path f h old = (case fetch A pre path h of None \<Rightarrow> Some (- 1, old) | Some j \<Rightarrow> f j)"

text \<open>A member of the answer: \<open>otherwise\<close> is what the code does when it is missing or of another type.\<close>

definition string_leaf :: "('j, 't) gnmi \<Rightarrow> string \<Rightarrow> (int \<times> 'v) option \<Rightarrow> (string \<Rightarrow> (int \<times> 'v) option) \<Rightarrow> 'j \<Rightarrow> (int \<times> 'v) option" where
  "string_leaf A leaf otherwise f j =
     (case cJSON_GetStringValue (g_json A) (cJSON_GetObjectItemCaseSensitive (g_json A) (Some j) leaf) of
        None \<Rightarrow> otherwise | Some s \<Rightarrow> f s)"

definition number_leaf :: "('j, 't) gnmi \<Rightarrow> string \<Rightarrow> (int \<times> 'a::len word) option \<Rightarrow> 'j \<Rightarrow> (int \<times> 'a word) option" where
  "number_leaf A leaf otherwise j =
     (let it = cJSON_GetObjectItemCaseSensitive (g_json A) (Some j) leaf in
      if \<not> cJSON_IsNumber (g_json A) it then otherwise
      else map_option (Pair 0) (dbl_to_word (cJSON_GetNumberValue (g_json A) it)))"

section \<open>Ports\<close>

definition gnma_port_admin_state_set :: "('j, 't) gnmi \<Rightarrow> string \<Rightarrow> bool \<Rightarrow> 't act" where
  "gnma_port_admin_state_set A name up =
     gnmi_json_object_set A 1 (''/openconfig-interfaces:interfaces/interface[name='' @ name @ '']/config'')
       (DObj [(''openconfig-interfaces:config'', DObj [(''enabled'', DBool up)])])"

definition gnma_port_speed_set :: "('j, 't) gnmi \<Rightarrow> string \<Rightarrow> string \<Rightarrow> 't act" where
  "gnma_port_speed_set A name speed =
     gnmi_json_object_set A 1 (''/sonic-port:sonic-port/PORT/PORT_LIST[ifname='' @ name @ '']'')
       (DObj [(''sonic-port:PORT_LIST'', DArr [DObj [(''ifname'', DStr (Some name)), (''speed'', DStr (Some speed))]])])"

definition gnma_port_duplex_set :: "('j, 't) gnmi \<Rightarrow> string \<Rightarrow> bool \<Rightarrow> 't act" where
  "gnma_port_duplex_set A name full h = (0, h)"

definition gnma_port_oper_status_get :: "('j, 't) gnmi \<Rightarrow> string \<Rightarrow> 't trace \<Rightarrow> bool \<Rightarrow> (int \<times> bool) option" where
  "gnma_port_oper_status_get A name h old =
     reads A 1 (''/openconfig-interfaces:interfaces/interface[name='' @ name @
         '']/openconfig-if-ethernet:ethernet/state/openconfig-interfaces-ext:reason'')
       (string_leaf A ''openconfig-interfaces-ext:reason'' (Some (0, old)) (\<lambda>s. Some (0, s = ''OPER_UP''))) h old"

definition gnma_port_speed_get :: "('j, 't) gnmi \<Rightarrow> string \<Rightarrow> nat \<Rightarrow> 't trace \<Rightarrow> string \<Rightarrow> (int \<times> string) option" where
  "gnma_port_speed_get A name n h old =
     reads A 1 (''/sonic-port:sonic-port/PORT/PORT_LIST[ifname='' @ name @ '']/speed'')
       (string_leaf A ''sonic-port:speed'' (Some (0, old)) (\<lambda>s. Some (0, take n s))) h old"

definition gnma_port_duplex_get :: "('j, 't) gnmi \<Rightarrow> string \<Rightarrow> 't trace \<Rightarrow> bool \<Rightarrow> (int \<times> bool) option" where
  "gnma_port_duplex_get A name h old = Some (0, True)"

section \<open>Port authentication\<close>

definition authmgr :: "string \<Rightarrow> string \<Rightarrow> string" where
  "authmgr name rest = ''/openconfig-authmgr:authmgr/authmgr-port-config/interface[name='' @ name @ '']'' @ rest"

definition gnma_port_ieee8021x_pae_mode_set :: "('j, 't) gnmi \<Rightarrow> string \<Rightarrow> bool \<Rightarrow> 't act" where
  "gnma_port_ieee8021x_pae_mode_set A name authenticator =
     gnmi_json_object_set A 1 (authmgr name ''/config/port-pae-role'')
       (DObj [(''openconfig-authmgr:port-pae-role'', DStr (Some (if authenticator then ''AUTHENTICATOR'' else ''NONE'')))])"

definition gnma_port_ieee8021x_pae_mode_get :: "('j, 't) gnmi \<Rightarrow> string \<Rightarrow> 't trace \<Rightarrow> bool \<Rightarrow> (int \<times> bool) option" where
  "gnma_port_ieee8021x_pae_mode_get A name h old =
     reads A 1 (authmgr name ''/state/port-pae-role'')
       (string_leaf A ''openconfig-authmgr:port-pae-role'' (Some (0, old)) (\<lambda>s. Some (0, s = ''AUTHENTICATOR''))) h old"

definition ctrl_str :: "control_mode \<Rightarrow> string" where
  "ctrl_str mode =
     (case mode of FORCE_AUTHORIZED \<Rightarrow> ''FORCE_AUTHORIZED'' | FORCE_UNAUTHORIZED \<Rightarrow> ''FORCE_UNAUTHORIZED'' | CONTROL_AUTO \<Rightarrow> ''AUTO'')"

definition gnma_port_ieee8021x_port_ctrl_set :: "('j, 't) gnmi \<Rightarrow> string \<Rightarrow> control_mode \<Rightarrow> 't act" where
  "gnma_port_ieee8021x_port_ctrl_set A name mode =
     gnmi_json_object_set A 1 (authmgr name ''/config/port-control-mode'')
       (DObj [(''openconfig-authmgr:port-control-mode'', DStr (Some (ctrl_str mode)))])"

definition gnma_port_ieee8021x_port_ctrl_get ::
  "('j, 't) gnmi \<Rightarrow> string \<Rightarrow> 't trace \<Rightarrow> control_mode \<Rightarrow> (int \<times> control_mode) option" where
  "gnma_port_ieee8021x_port_ctrl_get A name h old =
     reads A 1 (authmgr name ''/state/port-control-mode'')
       (string_leaf A ''openconfig-authmgr:port-control-mode'' (Some (0, old))
         (\<lambda>s. Some (0, if s = ''FORCE_AUTHORIZED'' then FORCE_AUTHORIZED
                else if s = ''FORCE_UNAUTHORIZED'' then FORCE_UNAUTHORIZED else CONTROL_AUTO))) h old"

definition host_str :: "host_mode \<Rightarrow> string" where
  "host_str mode =
     (case mode of MULTI_AUTH \<Rightarrow> ''MULTI_AUTH'' | MULTI_DOMAIN \<Rightarrow> ''MULTI_DOMAIN'' | MULTI_HOST \<Rightarrow> ''MULTI_HOST''
      | SINGLE_HOST \<Rightarrow> ''SINGLE_HOST'')"

definition gnma_port_ieee8021x_port_host_mode_set :: "('j, 't) gnmi \<Rightarrow> string \<Rightarrow> host_mode \<Rightarrow> 't act" where
  "gnma_port_ieee8021x_port_host_mode_set A name mode =
     gnmi_json_object_set A 1 (authmgr name ''/config/host-control-mode'')
       (DObj [(''openconfig-authmgr:host-control-mode'', DStr (Some (host_str mode)))])"

definition gnma_port_ieee8021x_port_host_mode_get ::
  "('j, 't) gnmi \<Rightarrow> string \<Rightarrow> 't trace \<Rightarrow> host_mode \<Rightarrow> (int \<times> host_mode) option" where
  "gnma_port_ieee8021x_port_host_mode_get A name h old =
     reads A 1 (authmgr name ''/state/host-control-mode'')
       (string_leaf A ''openconfig-authmgr:host-control-mode'' (Some (0, old))
         (\<lambda>s. Some (if s = ''MULTI_AUTH'' then (0, MULTI_AUTH)
                else if s = ''MULTI_DOMAIN'' then (0, MULTI_DOMAIN)
                else if s = ''MULTI_HOST'' then (0, MULTI_HOST)
                else if s = ''SINGLE_HOST'' then (0, SINGLE_HOST)
                else (- 1, old)))) h old"

definition gnma_port_ieee8021x_guest_vlan_set :: "('j, 't) gnmi \<Rightarrow> string \<Rightarrow> u16 \<Rightarrow> 't act" where
  "gnma_port_ieee8021x_guest_vlan_set A name vid =
     gnmi_json_object_set A 1 (authmgr name ''/config/guest-vlan-id'')
       (DObj [(''openconfig-authmgr:guest-vlan-id'', dnum (uint vid))])"

definition gnma_port_ieee8021x_guest_vlan_get :: "('j, 't) gnmi \<Rightarrow> string \<Rightarrow> 't trace \<Rightarrow> u16 \<Rightarrow> (int \<times> u16) option" where
  "gnma_port_ieee8021x_guest_vlan_get A name h old =
     reads A 1 (authmgr name ''/state/guest-vlan-id'') (number_leaf A ''openconfig-authmgr:guest-vlan-id'' (Some (0, old))) h old"

definition gnma_port_ieee8021x_unauthorized_vlan_set :: "('j, 't) gnmi \<Rightarrow> string \<Rightarrow> u16 \<Rightarrow> 't act" where
  "gnma_port_ieee8021x_unauthorized_vlan_set A name vid =
     gnmi_json_object_set A 1 (authmgr name ''/config/auth-fail-vlan-id'')
       (DObj [(''openconfig-authmgr:auth-fail-vlan-id'', dnum (uint vid))])"

definition gnma_port_ieee8021x_unauthorized_vlan_get ::
  "('j, 't) gnmi \<Rightarrow> string \<Rightarrow> 't trace \<Rightarrow> u16 \<Rightarrow> (int \<times> u16) option" where
  "gnma_port_ieee8021x_unauthorized_vlan_get A name h old =
     reads A 1 (authmgr name ''/state/auth-fail-vlan-id'')
       (number_leaf A ''openconfig-authmgr:auth-fail-vlan-id'' (Some (0, old))) h old"

section \<open>Power over ethernet\<close>

definition mgmt_str :: "poe_power_mgmt \<Rightarrow> string" where
  "mgmt_str mode =
     (case mode of POE_MGMT_CLASS \<Rightarrow> ''CLASS'' | POE_MGMT_DYNAMIC \<Rightarrow> ''DYNAMIC'' | POE_MGMT_DYNAMIC_PRIORITY \<Rightarrow> ''DYNAMIC_PRI''
      | POE_MGMT_STATIC \<Rightarrow> ''STATIC'' | POE_MGMT_STATIC_PRIORITY \<Rightarrow> ''STATIC_PRI'')"

definition gnma_poe_power_mgmt_set :: "('j, 't) gnmi \<Rightarrow> poe_power_mgmt \<Rightarrow> 't act" where
  "gnma_poe_power_mgmt_set A mode =
     gnmi_json_object_set A 1 ''/sonic-poe:sonic-poe/POE/POE_LIST[id=GLOBAL]/power_management_model''
       (DObj [(''sonic-poe:power_management_model'', DStr (Some (mgmt_str mode)))])"

definition gnma_poe_power_mgmt_get :: "('j, 't) gnmi \<Rightarrow> 't trace \<Rightarrow> poe_power_mgmt \<Rightarrow> (int \<times> poe_power_mgmt) option" where
  "gnma_poe_power_mgmt_get A h old =
     reads A 1 ''/sonic-poe:sonic-poe/POE/POE_LIST[id=GLOBAL]/power_management_model''
       (string_leaf A ''sonic-poe:power_management_model'' (Some (0, old))
         (\<lambda>s. Some (if s = ''CLASS'' then (0, POE_MGMT_CLASS)
                else if s = ''DYNAMIC'' then (0, POE_MGMT_DYNAMIC)
                else if s = ''DYNAMIC_PRI'' then (0, POE_MGMT_DYNAMIC_PRIORITY)
                else if s = ''STATIC'' then (0, POE_MGMT_STATIC)
                else if s = ''STATIC_PRI'' then (0, POE_MGMT_STATIC_PRIORITY)
                else (- 1, old)))) h old"

definition gnma_poe_usage_threshold_set :: "('j, 't) gnmi \<Rightarrow> u8 \<Rightarrow> 't act" where
  "gnma_poe_usage_threshold_set A threshold =
     gnmi_json_object_set A 1 ''/sonic-poe:sonic-poe/POE/POE_LIST[id=GLOBAL]''
       (DObj [(''sonic-poe:POE_LIST'', DArr [DObj [(''id'', DStr (Some ''GLOBAL'')),
          (''power_usage_threshold'', dnum (uint threshold))]])])"

definition gnma_poe_usage_threshold_get :: "('j, 't) gnmi \<Rightarrow> 't trace \<Rightarrow> u8 \<Rightarrow> (int \<times> u8) option" where
  "gnma_poe_usage_threshold_get A h old =
     reads A 1 ''/sonic-poe:sonic-poe/POE/POE_LIST[id=GLOBAL]/power_usage_threshold''
       (number_leaf A ''sonic-poe:power_usage_threshold'' (Some (0, old))) h old"

definition poe_port_path :: "string \<Rightarrow> string \<Rightarrow> string" where
  "poe_port_path name rest = ''/sonic-poe:sonic-poe/POE_PORT/POE_PORT_LIST[ifname='' @ name @ '']'' @ rest"

definition gnma_poe_port_admin_mode_set :: "('j, 't) gnmi \<Rightarrow> string \<Rightarrow> bool \<Rightarrow> 't act" where
  "gnma_poe_port_admin_mode_set A name enabled =
     gnmi_json_object_set A 1 (poe_port_path name ''/admin_mode'') (DObj [(''sonic-poe:admin_mode'', DBool enabled)])"

definition gnma_poe_port_admin_mode_get :: "('j, 't) gnmi \<Rightarrow> string \<Rightarrow> 't trace \<Rightarrow> bool \<Rightarrow> (int \<times> bool) option" where
  "gnma_poe_port_admin_mode_get A name h old =
     reads A 1 (poe_port_path name ''/admin_mode'')
       (\<lambda>j. let it = cJSON_GetObjectItemCaseSensitive (g_json A) (Some j) ''sonic-poe:admin_mode'' in
            Some (0, if cJSON_IsBool (g_json A) it then cJSON_IsTrue (g_json A) it else old)) h old"

definition detection_str :: "poe_detection \<Rightarrow> string" where
  "detection_str mode =
     (case mode of DETECTION_2PT_DOT3AF \<Rightarrow> ''TWO_PT_DOT3AF'' | DETECTION_2PT_DOT3AF_LEG \<Rightarrow> ''TWO_PT_DOT3AF_LEG''
      | DETECTION_4PT_DOT3AF \<Rightarrow> ''FOUR_PT_DOT3AF'' | DETECTION_4PT_DOT3AF_LEG \<Rightarrow> ''FOUR_PT_DOT3AF_LEG''
      | DETECTION_DOT3BT \<Rightarrow> ''DOT3BT'' | DETECTION_DOT3BT_LEG \<Rightarrow> ''DOT3BT_LEG'' | DETECTION_LEG \<Rightarrow> ''LEGACY'')"

definition gnma_poe_port_detection_mode_set :: "('j, 't) gnmi \<Rightarrow> string \<Rightarrow> poe_detection \<Rightarrow> 't act" where
  "gnma_poe_port_detection_mode_set A name mode =
     gnmi_json_object_set A 1 (poe_port_path name ''/detection_mode'')
       (DObj [(''sonic-poe:detection_mode'', DStr (Some (detection_str mode)))])"

definition gnma_poe_port_detection_mode_get ::
  "('j, 't) gnmi \<Rightarrow> string \<Rightarrow> 't trace \<Rightarrow> poe_detection \<Rightarrow> (int \<times> poe_detection) option" where
  "gnma_poe_port_detection_mode_get A name h old =
     reads A 1 (poe_port_path name ''/detection_mode'')
       (string_leaf A ''sonic-poe:detection_mode'' (Some (0, old))
         (\<lambda>s. Some (if s = ''TWO_PT_DOT3AF'' then (0, DETECTION_2PT_DOT3AF)
                else if s = ''TWO_PT_DOT3AF_LEG'' then (0, DETECTION_2PT_DOT3AF_LEG)
                else if s = ''FOUR_PT_DOT3AF'' then (0, DETECTION_4PT_DOT3AF)
                else if s = ''FOUR_PT_DOT3AF_LEG'' then (0, DETECTION_4PT_DOT3AF_LEG)
                else if s = ''DOT3BT'' then (0, DETECTION_DOT3BT)
                else if s = ''DOT3BT_LEG'' then (0, DETECTION_DOT3BT_LEG)
                else if s = ''LEGACY'' then (0, DETECTION_LEG)
                else (- 1, old)))) h old"

definition gnma_poe_port_power_limit_set :: "('j, 't) gnmi \<Rightarrow> string \<Rightarrow> bool \<Rightarrow> u32 \<Rightarrow> 't act" where
  "gnma_poe_port_power_limit_set A name user milliwatts =
     gnmi_json_object_set A 1 (poe_port_path name [])
       (DObj [(''sonic-poe:POE_PORT_LIST'', DArr [DObj
          ([(''power_limit_type'', DStr (Some (if user then ''USER'' else ''CLASS_BASED''))),
            (''ifname'', DStr (Some name))] @
           (if user then [(''power_limit'', dnum (uint milliwatts))] else []))])])"

definition gnma_poe_port_power_limit_get ::
  "('j, 't) gnmi \<Rightarrow> string \<Rightarrow> 't trace \<Rightarrow> bool \<times> u32 \<Rightarrow> (int \<times> bool \<times> u32) option" where
  "gnma_poe_port_power_limit_get A name h old =
     reads A 1 (poe_port_path name [])
       (\<lambda>j. let J = g_json A; ar = cJSON_GetObjectItemCaseSensitive J (Some j) ''sonic-poe:POE_PORT_LIST'';
               port = cJSON_GetArrayItem J ar 0;
               limit_type = cJSON_GetObjectItemCaseSensitive J port ''power_limit_type'';
               limit = cJSON_GetObjectItemCaseSensitive J port ''power_limit''
           in if \<not> cJSON_IsArray J ar \<or> \<not> cJSON_IsObject J port then Some (0, old)
              else case cJSON_GetStringValue J limit_type of
                None \<Rightarrow> Some (0, old)
              | Some str \<Rightarrow>
                  if \<not> cJSON_IsNumber J limit then Some (0, old)
                  else if str = ''CLASS_BASED'' then Some (0, False, 0)
                  else map_option (\<lambda>w. (0, True, w)) (dbl_to_word (cJSON_GetNumberValue J limit))) h old"

definition priority_str :: "poe_port_priority \<Rightarrow> string" where
  "priority_str p = (case p of POE_LOW \<Rightarrow> ''LOW'' | POE_MEDIUM \<Rightarrow> ''MEDIUM'' | POE_HIGH \<Rightarrow> ''HIGH'' | POE_CRITICAL \<Rightarrow> ''CRITICAL'')"

definition gnma_poe_port_priority_set :: "('j, 't) gnmi \<Rightarrow> string \<Rightarrow> poe_port_priority \<Rightarrow> 't act" where
  "gnma_poe_port_priority_set A name priority =
     gnmi_json_object_set A 1 (poe_port_path name ''/priority'')
       (DObj [(''sonic-poe:priority'', DStr (Some (priority_str priority)))])"

definition gnma_poe_port_priority_get ::
  "('j, 't) gnmi \<Rightarrow> string \<Rightarrow> 't trace \<Rightarrow> poe_port_priority \<Rightarrow> (int \<times> poe_port_priority) option" where
  "gnma_poe_port_priority_get A name h old =
     reads A 1 (poe_port_path name ''/priority'')
       (string_leaf A ''sonic-poe:priority'' (Some (0, old))
         (\<lambda>s. Some (if s = ''LOW'' then (0, POE_LOW)
                else if s = ''MEDIUM'' then (0, POE_MEDIUM)
                else if s = ''HIGH'' then (0, POE_HIGH)
                else if s = ''CRITICAL'' then (0, POE_CRITICAL)
                else (- 1, old)))) h old"

definition gnma_poe_port_reset :: "('j, 't) gnmi \<Rightarrow> string \<Rightarrow> 't act" where
  "gnma_poe_port_reset A name = gnmi_gnoi_poe_port_reset A name"

section \<open>Lists of ports\<close>

text \<open>The names are checked one after the other and stored as long as the caller's array has room; the
  counter has 16 bits. The result is the code, the size that is returned and the array.\<close>

definition GNMA_PORT_KEY_LEN :: nat where "GNMA_PORT_KEY_LEN = 32"

fun fill_ports :: "'j cjson \<Rightarrow> 'j list \<Rightarrow> nat \<Rightarrow> string list \<Rightarrow> bool \<times> nat \<times> string list" where
  "fill_ports J [] k ar = (True, k, ar)"
| "fill_ports J (it # its) k ar =
     (case cJSON_GetStringValue J (cJSON_GetObjectItemCaseSensitive J (Some it) ''ifname'') of
        None \<Rightarrow> (False, k, ar)
      | Some name \<Rightarrow>
          if length name \<ge> GNMA_PORT_KEY_LEN then (False, k, ar)
          else fill_ports J its (Suc k mod 65536) (if k < length ar then ar[k := name] else ar))"

definition adapter_port_list_get :: "('j, 't) gnmi \<Rightarrow> 't trace \<Rightarrow> string list \<Rightarrow> int \<times> nat \<times> string list" where
  "adapter_port_list_get A h ar =
     (let n = length ar; ar = replicate n [] in
      case fetch A 0 ''/sonic-port:sonic-port/PORT/PORT_LIST'' h of
        None \<Rightarrow> (- 1, n, ar)
      | Some j \<Rightarrow>
          let J = g_json A; ports_arr = cJSON_GetObjectItemCaseSensitive J (Some j) ''sonic-port:PORT_LIST'' in
          if \<not> cJSON_IsArray J ports_arr then (0, 0, ar)
          else let (ok, k, ar) = fill_ports J (cJSON_Array J ports_arr) 0 ar in
            if \<not> ok then (- 1, n, ar) else (if k > n then GNMA_ERR_OVERFLOW else 0, k, ar))"

definition gnma_poe_port_list_get :: "('j, 't) gnmi \<Rightarrow> 't trace \<Rightarrow> string list \<Rightarrow> int \<times> nat \<times> string list" where
  "gnma_poe_port_list_get A h ar =
     (let n = length ar in
      case fetch A 1 ''/sonic-poe:sonic-poe/POE_PORT/POE_PORT_LIST'' h of
        None \<Rightarrow> (- 1, n, ar)
      | Some j \<Rightarrow>
          let J = g_json A; ports_arr = cJSON_GetObjectItemCaseSensitive J (Some j) ''sonic-poe:POE_PORT_LIST'' in
          if \<not> cJSON_IsArray J ports_arr then (0, 0, ar)
          else let (ok, k, ar) = fill_ports J (cJSON_Array J ports_arr) 0 ar; size = cJSON_GetArraySize J ports_arr in
            if \<not> ok then (- 1, n, ar) else (if size > n then GNMA_ERR_OVERFLOW else 0, size mod 65536, ar))"

text \<open>What both promise: with valid names, fewer than 65536, the size is that of the list, the names that fit
  are stored in order, and a size that is too small is an overflow.\<close>

definition ports_named :: "'j cjson \<Rightarrow> 'j list \<Rightarrow> string list \<Rightarrow> bool" where
  "ports_named J its names \<longleftrightarrow>
     map (\<lambda>it. cJSON_GetStringValue J (cJSON_GetObjectItemCaseSensitive J (Some it) ''ifname'')) its = map Some names \<and>
     (\<forall>n \<in> set names. length n < GNMA_PORT_KEY_LEN)"

lemma fill_ports_exact:
  assumes "ports_named J its names" "k + length its < 65536" "length done = k"
  shows "fill_ports J its k (take n (done @ replicate n [])) =
    (True, k + length its, take n (done @ names @ replicate n []))"
  using assms
proof (induction its arbitrary: k "done" names)
  case (Cons it its)
  obtain m ms where names: "names = m # ms" using Cons.prems(1) by (cases names) (auto simp: ports_named_def)
  have p: "ports_named J its ms" "cJSON_GetStringValue J (cJSON_GetObjectItemCaseSensitive J (Some it) ''ifname'') = Some m"
    "length m < GNMA_PORT_KEY_LEN" using Cons.prems(1) by (auto simp: ports_named_def names)
  let ?a = "take n (done @ replicate n [])"
  have a: "(if k < length ?a then ?a[k := m] else ?a) = take n ((done @ [m]) @ replicate n [])"
  proof (cases "k < n")
    case True
    then obtain r where r: "replicate n [] = [] # r" "r = replicate (n - 1) []" by (cases n) auto
    show ?thesis using True Cons.prems(3) by (auto simp: r take_update_swap list_update_append intro!: nth_equalityI simp: nth_append nth_Cons')
  next
    case False
    then show ?thesis using Cons.prems(3) by simp
  qed
  have "fill_ports J (it # its) k ?a = fill_ports J its (Suc k) (take n ((done @ [m]) @ replicate n []))"
    unfolding fill_ports.simps p(2) option.case a using p(3) Cons.prems(2) by simp
  then show ?case using Cons.IH[OF p(1), of "Suc k" "done @ [m]"] Cons.prems(2,3) by (simp add: names)
qed (auto simp: ports_named_def)

end
