(* ===== verification/Adapter_Net.thy ===== *)
theory Adapter_Net
  imports Adapter
begin

text \<open>
  The management adapter (\<open>gnma/gnma_common.c\<close>), continued: VLANs and their members, addresses, DHCP
  relay, static routes, spanning tree, 802.1x servers, password, logging and multicast; then
  \<open>perform\<close>, which says for each request of the platform (\<open>gnma_call\<close>) what the adapter does.
\<close>

section \<open>VLANs\<close>

definition gnma_vlan_remove :: "('j, 't) gnmi \<Rightarrow> nat \<Rightarrow> 't act" where
  "gnma_vlan_remove A vid = gnmi_del A 1 (''/sonic-vlan:sonic-vlan/VLAN/VLAN_LIST[name='' @ VLAN_TO_NAME vid @ '']'')"

text \<open>What is added to a change: \<open>rq\<close> is the change so far.\<close>

definition gnmi_setrq_add_object_update ::
  "('j, 't) gnmi \<Rightarrow> nat \<Rightarrow> string \<Rightarrow> jdoc \<Rightarrow> 't trace \<Rightarrow> 't request list \<Rightarrow> int \<times> 't request list" where
  "gnmi_setrq_add_object_update A pre path d h rq =
     (if g_calls A h \<le> pre + length (jcalls d) then (- 1, rq) else gnmi_setrq_add_jsoni_update path (g_print A d) rq)"

definition vlan_doc :: "nat \<Rightarrow> jdoc" where
  "vlan_doc vid = DObj [(''sonic-vlan:VLAN_LIST'',
     DArr [DObj [(''vlanid'', dnum (int vid)), (''name'', DStr (Some (VLAN_TO_NAME vid)))]])]"

definition gnma_vlan_create :: "('j, 't) gnmi \<Rightarrow> nat \<Rightarrow> 't trace \<Rightarrow> 't request list \<Rightarrow> int \<times> 't request list" where
  "gnma_vlan_create A vid = gnmi_setrq_add_object_update A 1 ''/sonic-vlan:sonic-vlan/VLAN/VLAN_LIST'' (vlan_doc vid)"

definition gnma_vlan_member_remove :: "('j, 't) gnmi \<Rightarrow> nat \<Rightarrow> string \<Rightarrow> 't trace \<Rightarrow> 't request list \<Rightarrow> int \<times> 't request list" where
  "gnma_vlan_member_remove A vid name h rq =
     (if g_calls A h < 1 then (- 1, rq)
      else gnmi_setrq_add_delete (''/sonic-vlan:sonic-vlan/VLAN_MEMBER/VLAN_MEMBER_LIST[name='' @ VLAN_TO_NAME vid @
        ''][ifname='' @ name @ '']'') rq)"

definition member_doc :: "nat \<Rightarrow> string \<Rightarrow> bool \<Rightarrow> jdoc" where
  "member_doc vid name tgd = DObj [(''sonic-vlan:VLAN_MEMBER_LIST'', DArr [DObj
     [(''name'', DStr (Some (VLAN_TO_NAME vid))), (''ifname'', DStr (Some name)),
      (''tagging_mode'', DStr (Some (if tgd then ''tagged'' else ''untagged'')))]])]"

definition gnma_vlan_member_create ::
  "('j, 't) gnmi \<Rightarrow> nat \<Rightarrow> string \<Rightarrow> bool \<Rightarrow> 't trace \<Rightarrow> 't request list \<Rightarrow> int \<times> 't request list" where
  "gnma_vlan_member_create A vid name tgd =
     gnmi_setrq_add_object_update A 1 ''/sonic-vlan:sonic-vlan/VLAN_MEMBER/VLAN_MEMBER_LIST'' (member_doc vid name tgd)"

definition change_add :: "('j, 't) gnmi \<Rightarrow> change_op \<Rightarrow> 't trace \<Rightarrow> 't request list \<Rightarrow> int \<times> 't request list" where
  "change_add A c =
     (case c of VlanCreate vid \<Rightarrow> gnma_vlan_create A vid
      | MemberRemove vid name \<Rightarrow> gnma_vlan_member_remove A vid name
      | MemberCreate vid name tgd \<Rightarrow> gnma_vlan_member_create A vid name tgd)"

definition gnma_change_exec :: "('j, 't) gnmi \<Rightarrow> 't request list \<Rightarrow> 't act" where
  "gnma_change_exec A rq = gnmi_setrq_execute A rq"

text \<open>The members of all VLANs. \<open>bm\<close> gives the two bitmaps of each VLAN. Names of other kinds are skipped; a
  member outside the arrays ends the loop with an error, and what was set stays.\<close>

definition GNMA_MAX_PORT_ID :: nat where "GNMA_MAX_PORT_ID = 256"

definition set_member :: "nat \<Rightarrow> nat \<Rightarrow> bool \<Rightarrow> (nat \<Rightarrow> bitmap \<times> bitmap) \<Rightarrow> (nat \<Rightarrow> bitmap \<times> bitmap) option" where
  "set_member vid pid tgd bm =
     do {
       m \<leftarrow> BITMAP_SET_BIT (fst (bm vid)) pid;
       t \<leftarrow> (if tgd then BITMAP_SET_BIT (snd (bm vid)) pid else Some (snd (bm vid)));
       Some (bm(vid := (m, t)))
     }"

fun member_loop :: "'j cjson \<Rightarrow> 'j list \<Rightarrow> (nat \<Rightarrow> bitmap \<times> bitmap) \<Rightarrow> (int \<times> (nat \<Rightarrow> bitmap \<times> bitmap)) option" where
  "member_loop J [] bm = Some (0, bm)"
| "member_loop J (it # its) bm =
     (case cJSON_GetStringValue J (cJSON_GetObjectItemCaseSensitive J (Some it) ''name'') of
        None \<Rightarrow> Some (- 1, bm)
      | Some vlan_name \<Rightarrow>
        (case scan_lit ''Vlan'' 16 vlan_name of
           ScanFail \<Rightarrow> member_loop J its bm
         | ScanEOF \<Rightarrow> member_loop J its bm
         | ScanRange \<Rightarrow> None
         | ScanVal vid \<Rightarrow>
           (case cJSON_GetStringValue J (cJSON_GetObjectItemCaseSensitive J (Some it) ''ifname'') of
              None \<Rightarrow> Some (- 1, bm)
            | Some port_name \<Rightarrow>
                let tgd = cJSON_GetObjectItemCaseSensitive J (Some it) ''tagging_mode'' in
                if \<not> cJSON_IsString J tgd then Some (- 1, bm)
                else (case scan_lit ''Ethernet'' 16 port_name of
                   ScanFail \<Rightarrow> member_loop J its bm
                 | ScanEOF \<Rightarrow> member_loop J its bm
                 | ScanRange \<Rightarrow> None
                 | ScanVal pid \<Rightarrow>
                     if vid \<ge> GNMA_MAX_VLANS \<or> pid \<ge> GNMA_MAX_PORT_ID then Some (- 1, bm)
                     else do {
                       mode \<leftarrow> cJSON_GetStringValue J tgd;
                       bm \<leftarrow> set_member vid pid (mode = ''tagged'') bm;
                       member_loop J its bm
                     }))))"

definition adapter_vlan_member_bmap_get ::
  "('j, 't) gnmi \<Rightarrow> 't trace \<Rightarrow> (nat \<Rightarrow> bitmap \<times> bitmap) \<Rightarrow> (int \<times> (nat \<Rightarrow> bitmap \<times> bitmap)) option" where
  "adapter_vlan_member_bmap_get A h bm =
     (case fetch A 0 ''/sonic-vlan:sonic-vlan/VLAN_MEMBER/VLAN_MEMBER_LIST'' h of
        None \<Rightarrow> Some (- 1, bm)
      | Some j \<Rightarrow>
          let J = g_json A; members = cJSON_GetObjectItemCaseSensitive J (Some j) ''sonic-vlan:VLAN_MEMBER_LIST'' in
          if \<not> cJSON_IsArray J members then Some (0, bm) else member_loop J (cJSON_Array J members) bm)"

fun vlan_loop :: "'j cjson \<Rightarrow> 'j list \<Rightarrow> bitmap \<Rightarrow> bitmap option" where
  "vlan_loop J [] vmap = Some vmap"
| "vlan_loop J (it # its) vmap =
     do {
       vid :: u16 \<leftarrow> dbl_to_word (cJSON_GetNumberValue J (cJSON_GetObjectItemCaseSensitive J (Some it) ''vlanid''));
       vmap \<leftarrow> (if unat vid < GNMA_MAX_VLANS then BITMAP_SET_BIT vmap (unat vid) else Some vmap);
       vlan_loop J its vmap
     }"

definition adapter_vlan_list_get :: "('j, 't) gnmi \<Rightarrow> 't trace \<Rightarrow> bitmap \<Rightarrow> (int \<times> bitmap) option" where
  "adapter_vlan_list_get A h vmap =
     (case fetch A 0 ''/sonic-vlan:sonic-vlan/VLAN/VLAN_LIST'' h of
        None \<Rightarrow> Some (- 1, vmap)
      | Some j \<Rightarrow>
          let J = g_json A; vlan_arr = cJSON_GetObjectItemCaseSensitive J (Some j) ''sonic-vlan:VLAN_LIST'' in
          if vlan_arr \<noteq> None \<and> \<not> cJSON_IsArray J vlan_arr then Some (- 1, vmap)
          else map_option (Pair 0) (vlan_loop J (cJSON_Array J vlan_arr) vmap))"

section \<open>Addresses\<close>

definition erif_address :: "gnma_ip_prefix \<Rightarrow> jdoc" where
  "erif_address p =
     (case p of GnmaV4 a len \<Rightarrow>
        DObj [(''ip'', DStr (Some (inet_ntop a))),
              (''config'', DObj [(''ip'', DStr (Some (inet_ntop a))), (''prefix-length'', dnum len)])])"

definition gnma_vlan_erif_attr_pref_update :: "('j, 't) gnmi \<Rightarrow> nat \<Rightarrow> gnma_ip_prefix list \<Rightarrow> 't act" where
  "gnma_vlan_erif_attr_pref_update A vid pref =
     gnmi_json_object_set A 0
       (''/openconfig-interfaces:interfaces/interface[name='' @ VLAN_TO_NAME vid @ '']/openconfig-vlan:routed-vlan'')
       (DObj [(''openconfig-interfaces:routed-vlan'', DObj [(''openconfig-if-ip:ipv4'', DObj [(''addresses'',
          DObj [(''address'', DArr (map erif_address pref))])])])])"

definition prefix_addr :: "gnma_ip_prefix \<Rightarrow> u32" where
  "prefix_addr p = (case p of GnmaV4 a len \<Rightarrow> a)"

definition gnma_vlan_erif_attr_pref_delete :: "('j, 't) gnmi \<Rightarrow> nat \<Rightarrow> gnma_ip_prefix \<Rightarrow> 't act" where
  "gnma_vlan_erif_attr_pref_delete A vid pref =
     gnmi_del A 0 (''/openconfig-interfaces:interfaces/interface[name='' @ VLAN_TO_NAME vid @
       '']/openconfig-vlan:routed-vlan/openconfig-if-ip:ipv4/addresses/address[ip='' @ inet_ntop (prefix_addr pref) @ '']'')"

definition gnma_portl2_erif_attr_pref_update :: "('j, 't) gnmi \<Rightarrow> string \<Rightarrow> gnma_ip_prefix list \<Rightarrow> 't act" where
  "gnma_portl2_erif_attr_pref_update A name pref =
     gnmi_json_object_set A 0
       (''/openconfig-interfaces:interfaces/interface[name='' @ name @ '']/subinterfaces/subinterface'')
       (DObj [(''openconfig-interfaces:subinterface'', DArr [DObj [(''index'', dnum 0),
          (''openconfig-if-ip:ipv4'', DObj [(''addresses'', DObj [(''address'', DArr (map erif_address pref))])])]])])"

definition gnma_portl2_erif_attr_pref_delete :: "('j, 't) gnmi \<Rightarrow> string \<Rightarrow> gnma_ip_prefix \<Rightarrow> 't act" where
  "gnma_portl2_erif_attr_pref_delete A name pref =
     gnmi_del A 0 (''/openconfig-interfaces:interfaces/interface[name='' @ name @
       '']/subinterfaces/subinterface[index=0]/openconfig-if-ip:ipv4/addresses/address[ip='' @ inet_ntop (prefix_addr pref) @ '']'')"

text \<open>The addresses that are read: \<open>pton\<close> is \<open>inet_pton\<close>. The conversion of a missing length is undefined.\<close>

definition erif_entry :: "'j cjson \<Rightarrow> (string \<Rightarrow> u32 option) \<Rightarrow> 'j \<Rightarrow> gnma_ip_prefix option option" where
  "erif_entry J pton it =
     (let config = cJSON_GetObjectItemCaseSensitive J (Some it) ''config'' in
      case Option.bind (cJSON_GetStringValue J (cJSON_GetObjectItemCaseSensitive J config ''ip'')) pton of
        None \<Rightarrow> Some None
      | Some a \<Rightarrow> do {
          len \<leftarrow> dbl_to_int 32 (cJSON_GetNumberValue J (cJSON_GetObjectItemCaseSensitive J config ''prefix-length''));
          Some (if len > 32 \<or> len < 0 then None else Some (GnmaV4 a len))
        })"

fun erif_entries :: "'j cjson \<Rightarrow> (string \<Rightarrow> u32 option) \<Rightarrow> 'j list \<Rightarrow> gnma_ip_prefix list option" where
  "erif_entries J pton [] = Some []"
| "erif_entries J pton (it # its) =
     do { e \<leftarrow> erif_entry J pton it; es \<leftarrow> erif_entries J pton its; Some (case e of None \<Rightarrow> es | Some p \<Rightarrow> p # es) }"

text \<open>The code, the number of addresses (16 bits) and those that fit into \<open>n\<close> places.\<close>

definition erif_list :: "('j, 't) gnmi \<Rightarrow> (string \<Rightarrow> u32 option) \<Rightarrow> string \<Rightarrow> nat \<Rightarrow> 't trace \<Rightarrow> (int \<times> nat \<times> gnma_ip_prefix list) option" where
  "erif_list A pton path n h =
     (case fetch A 0 path h of
        None \<Rightarrow> Some (- 1, n, [])
      | Some j \<Rightarrow>
          let J = g_json A; addresses = cJSON_GetObjectItemCaseSensitive J (Some j) ''openconfig-if-ip:addresses'' in
          do {
            es \<leftarrow> erif_entries J pton (cJSON_Array J (cJSON_GetObjectItemCaseSensitive J addresses ''address''));
            Some (if length es > n then GNMA_ERR_OVERFLOW else 0, length es, take n es)
          })"

definition adapter_vlan_erif_attr_pref_list_get ::
  "('j, 't) gnmi \<Rightarrow> (string \<Rightarrow> u32 option) \<Rightarrow> nat \<Rightarrow> nat \<Rightarrow> 't trace \<Rightarrow> (int \<times> nat \<times> gnma_ip_prefix list) option" where
  "adapter_vlan_erif_attr_pref_list_get A pton vid =
     erif_list A pton (''/openconfig-interfaces:interfaces/interface[name='' @ VLAN_TO_NAME vid @
       '']/openconfig-vlan:routed-vlan/openconfig-if-ip:ipv4/addresses'')"

definition gnma_portl2_erif_attr_pref_list_get ::
  "('j, 't) gnmi \<Rightarrow> (string \<Rightarrow> u32 option) \<Rightarrow> string \<Rightarrow> nat \<Rightarrow> 't trace \<Rightarrow> (int \<times> nat \<times> gnma_ip_prefix list) option" where
  "gnma_portl2_erif_attr_pref_list_get A pton name =
     erif_list A pton (''/openconfig-interfaces:interfaces/interface[name='' @ name @
       '']/subinterfaces/subinterface[index=0]/openconfig-if-ip:ipv4/addresses'')"

section \<open>DHCP relay\<close>

text \<open>These setters forget to set the code when the root object cannot be created, the document cannot be printed
  or the request fails: the result is then the length of the path that \<open>asprintf\<close> returned.\<close>

definition relay_set :: "('j, 't) gnmi \<Rightarrow> string \<Rightarrow> jdoc \<Rightarrow> 't act" where
  "relay_set A path d h =
     (let n = g_calls A h; k = length (jcalls d); len = int (length path) in
      if n = 0 then (- 1, h)
      else if n = 1 then (len, h)
      else if n \<le> k then (- 1, h)
      else if n = Suc k then (len, h)
      else let (r, h) = gnmi_jsoni_set A path (g_print A d) h in (if r \<noteq> 0 then len else 0, h))"

definition relay_path :: "nat \<Rightarrow> string \<Rightarrow> string" where
  "relay_path vid rest = ''/openconfig-relay-agent:relay-agent/dhcp/interfaces/interface[id='' @ VLAN_TO_NAME vid @ '']'' @ rest"

definition gnma_vlan_dhcp_relay_server_add :: "('j, 't) gnmi \<Rightarrow> nat \<Rightarrow> u32 \<Rightarrow> 't act" where
  "gnma_vlan_dhcp_relay_server_add A vid ip =
     relay_set A (relay_path vid ''/config/helper-address'')
       (DObj [(''openconfig-relay-agent:helper-address'', DArr [DStr (Some (inet_ntop ip))])])"

definition gnma_vlan_dhcp_relay_server_remove :: "('j, 't) gnmi \<Rightarrow> nat \<Rightarrow> u32 \<Rightarrow> 't act" where
  "gnma_vlan_dhcp_relay_server_remove A vid ip =
     gnmi_del A 1 (relay_path vid (''/config/helper-address[helper-address='' @ inet_ntop ip @ '']''))"

definition circuit_str :: "relay_circuit \<Rightarrow> string" where
  "circuit_str c = (case c of CIRCUIT_ID_H_P \<Rightarrow> ''%h:%p'' | CIRCUIT_ID_I \<Rightarrow> ''%i'' | CIRCUIT_ID_P \<Rightarrow> ''%p'')"

definition gnma_vlan_dhcp_relay_ciruit_id_set :: "('j, 't) gnmi \<Rightarrow> nat \<Rightarrow> relay_circuit \<Rightarrow> 't act" where
  "gnma_vlan_dhcp_relay_ciruit_id_set A vid c =
     relay_set A (relay_path vid ''/agent-information-option/config/circuit-id'')
       (DObj [(''openconfig-relay-agent:circuit-id'', DStr (Some (circuit_str c)))])"

text \<open>A member that has a string value is a string.\<close>

definition checked_leaf :: "('j, 't) gnmi \<Rightarrow> string \<Rightarrow> (string \<Rightarrow> 'v option) \<Rightarrow> 'v \<Rightarrow> 'j \<Rightarrow> (int \<times> 'v) option" where
  "checked_leaf A leaf f old j =
     (let it = cJSON_GetObjectItemCaseSensitive (g_json A) (Some j) leaf in
      Some (if \<not> cJSON_IsString (g_json A) it then (- 1, old)
        else case Option.bind (cJSON_GetStringValue (g_json A) it) f of None \<Rightarrow> (- 1, old) | Some v \<Rightarrow> (0, v)))"

definition gnma_vlan_dhcp_relay_ciruit_id_get ::
  "('j, 't) gnmi \<Rightarrow> nat \<Rightarrow> 't trace \<Rightarrow> relay_circuit \<Rightarrow> (int \<times> relay_circuit) option" where
  "gnma_vlan_dhcp_relay_ciruit_id_get A vid h old =
     reads A 1 (relay_path vid ''/agent-information-option/config/circuit-id'')
       (checked_leaf A ''openconfig-relay-agent:circuit-id''
         (\<lambda>s. if s = ''%h:%p'' then Some CIRCUIT_ID_H_P
              else if s = ''%u'' then Some CIRCUIT_ID_I
              else if s = ''%p'' then Some CIRCUIT_ID_P
              else None) old) h old"

definition policy_str :: "relay_policy \<Rightarrow> string" where
  "policy_str p = (case p of RELAY_DISCARD \<Rightarrow> ''DISCARD'' | RELAY_APPEND \<Rightarrow> ''APPEND'' | RELAY_REPLACE \<Rightarrow> ''REPLACE'')"

definition gnma_vlan_dhcp_relay_policy_action_set :: "('j, 't) gnmi \<Rightarrow> nat \<Rightarrow> relay_policy \<Rightarrow> 't act" where
  "gnma_vlan_dhcp_relay_policy_action_set A vid p =
     relay_set A (relay_path vid ''/config/openconfig-relay-agent-ext:policy-action'')
       (DObj [(''openconfig-relay-agent-ext:policy-action'', DStr (Some (policy_str p)))])"

definition gnma_vlan_dhcp_relay_policy_action_get ::
  "('j, 't) gnmi \<Rightarrow> nat \<Rightarrow> 't trace \<Rightarrow> relay_policy \<Rightarrow> (int \<times> relay_policy) option" where
  "gnma_vlan_dhcp_relay_policy_action_get A vid h old =
     reads A 1 (relay_path vid ''/config/openconfig-relay-agent-ext:policy-action'')
       (checked_leaf A ''openconfig-relay-agent-ext:policy-action''
         (\<lambda>s. if s = ''DISCARD'' then Some RELAY_DISCARD
              else if s = ''APPEND'' then Some RELAY_APPEND
              else if s = ''REPLACE'' then Some RELAY_REPLACE
              else None) old) h old"

definition gnma_vlan_dhcp_relay_max_hop_cnt_set :: "('j, 't) gnmi \<Rightarrow> nat \<Rightarrow> u8 \<Rightarrow> 't act" where
  "gnma_vlan_dhcp_relay_max_hop_cnt_set A vid hops =
     relay_set A (relay_path vid ''/config/openconfig-relay-agent-ext:max-hop-count'')
       (DObj [(''openconfig-relay-agent-ext:max-hop-count'', dnum (uint hops))])"

definition gnma_vlan_dhcp_relay_max_hop_cnt_get :: "('j, 't) gnmi \<Rightarrow> nat \<Rightarrow> 't trace \<Rightarrow> u8 \<Rightarrow> (int \<times> u8) option" where
  "gnma_vlan_dhcp_relay_max_hop_cnt_get A vid h old =
     reads A 1 (relay_path vid ''/config/openconfig-relay-agent-ext:max-hop-count'')
       (number_leaf A ''openconfig-relay-agent-ext:max-hop-count'' (Some (- 1, old))) h old"

section \<open>Static routes\<close>

definition route_key :: "gnma_ip_prefix \<Rightarrow> string" where
  "route_key p = (case p of GnmaV4 a len \<Rightarrow> inet_ntop a @ ''/'' @ sdec len)"

definition route_doc :: "gnma_ip_prefix \<Rightarrow> gnma_route_attrs \<Rightarrow> jdoc" where
  "route_doc p attr = DObj [(''sonic-static-route:sonic-static-route'', DObj [(''STATIC_ROUTE'', DObj [(''STATIC_ROUTE_LIST'',
     DArr [DObj ([(''prefix'', DStr (Some (route_key p))), (''vrf-name'', DStr (Some ''default''))] @
       (case attr of
          GNMA_ROUTE_TYPE_BLACKHOLE \<Rightarrow> [(''blackhole'', DStr (Some ''true,false''))]
        | GNMA_ROUTE_TYPE_CONNECTED vid \<Rightarrow> [(''ifname'', DStr (Some (VLAN_TO_NAME (unat vid))))]
        | GNMA_ROUTE_TYPE_NEXTHOP vid gw \<Rightarrow>
            [(''ifname'', DStr (Some (VLAN_TO_NAME (unat vid)))), (''nexthop'', DStr (Some (inet_ntop gw)))]))])])])]"

definition gnma_route_create :: "('j, 't) gnmi \<Rightarrow> nat \<Rightarrow> gnma_ip_prefix \<Rightarrow> gnma_route_attrs \<Rightarrow> 't act" where
  "gnma_route_create A vr_id p attr h =
     (if vr_id \<noteq> 0 then (- 1, h) else gnmi_json_object_set A 0 ''/sonic-static-route:sonic-static-route/'' (route_doc p attr) h)"

definition gnma_route_remove :: "('j, 't) gnmi \<Rightarrow> nat \<Rightarrow> gnma_ip_prefix \<Rightarrow> 't act" where
  "gnma_route_remove A vr_id p h =
     (if vr_id \<noteq> 0 then (- 1, h)
      else gnmi_del A 0 (''/sonic-static-route:sonic-static-route/STATIC_ROUTE/STATIC_ROUTE_LIST[prefix='' @ route_key p @
        ''][vrf-name=default]'') h)"

text \<open>Only routes that drop packets are read. When the query fails the uninitialised root is deleted. \<open>pton\<close> is
  \<open>inet_net_pton\<close>, with the length and the address.\<close>

definition route_entry :: "'j cjson \<Rightarrow> (string \<Rightarrow> (int \<times> u32) option) \<Rightarrow> 'j \<Rightarrow> gnma_ip_prefix option" where
  "route_entry J pton it =
     (let vrf = cJSON_GetStringValue J (cJSON_GetObjectItemCaseSensitive J (Some it) ''vrf-name'') in
      if vrf \<noteq> None \<and> vrf \<noteq> Some ''default'' then None
      else do {
        buf \<leftarrow> cJSON_GetStringValue J (cJSON_GetObjectItemCaseSensitive J (Some it) ''prefix'');
        (len, a) \<leftarrow> pton buf;
        _ \<leftarrow> cJSON_GetObjectItemCaseSensitive J (Some it) ''blackhole'';
        Some (GnmaV4 a len)
      })"

definition gnma_route_list_get ::
  "('j, 't) gnmi \<Rightarrow> (string \<Rightarrow> (int \<times> u32) option) \<Rightarrow> nat \<Rightarrow> nat \<Rightarrow> 't trace \<Rightarrow> (int \<times> nat \<times> gnma_ip_prefix list) option" where
  "gnma_route_list_get A pton vr_id n h =
     (if vr_id \<noteq> 0 then None
      else do {
        buf \<leftarrow> gnmi_jsoni_get_alloc A ''/sonic-static-route:sonic-static-route/STATIC_ROUTE/STATIC_ROUTE_LIST'' (g_calls A h > 0) h;
        let J = g_json A; es = List.map_filter (route_entry J pton)
          (cJSON_Array J (cJSON_GetObjectItemCaseSensitive J (g_parse A buf) ''sonic-static-route:STATIC_ROUTE_LIST''))
        in Some (if length es > n then GNMA_ERR_OVERFLOW else 0, length es, take n es)
      })"

section \<open>Spanning tree\<close>

definition stp_mode_doc :: "gnma_stp_mode \<Rightarrow> gnma_stp_attr \<Rightarrow> jdoc" where
  "stp_mode_doc mode attr = DObj [(''sonic-spanning-tree:STP_LIST'', DArr [DObj
     ([(''priority'', dnum (uint (sa_priority attr))), (''keyleaf'', DStr (Some ''GLOBAL'')), (''bpdu_filter'', DBool False)] @
      (case mode of
         GNMA_STP_MODE_PVST \<Rightarrow> [(''mode'', DStr (Some ''pvst'')), (''portfast'', DBool False), (''rootguard_timeout'', dnum 30)]
       | GNMA_STP_MODE_RPVST \<Rightarrow> [(''mode'', DStr (Some ''rpvst'')), (''loop_guard'', DBool False), (''rootguard_timeout'', dnum 30)]
       | _ \<Rightarrow> [(''mode'', DStr (Some ''mst'')), (''loop_guard'', DBool False)]))])]"

text \<open>The old configuration is deleted first; whether that worked is not looked at.\<close>

definition gnma_stp_mode_set :: "('j, 't) gnmi \<Rightarrow> gnma_stp_mode \<Rightarrow> gnma_stp_attr option \<Rightarrow> 't act" where
  "gnma_stp_mode_set A mode attr h =
     (let h = snd (gnmi_jsoni_del A ''/sonic-spanning-tree:sonic-spanning-tree/STP/STP_LIST[keyleaf=GLOBAL]'' h) in
      if mode = GNMA_STP_MODE_NONE then (0, h)
      else case attr of
        None \<Rightarrow> (- 1, h)
      | Some a \<Rightarrow> gnmi_json_object_set A 0 ''/sonic-spanning-tree:sonic-spanning-tree/STP/STP_LIST'' (stp_mode_doc mode a) h)"

definition stp_attr_read :: "'j cjson \<Rightarrow> 'j option \<Rightarrow> gnma_stp_attr option" where
  "stp_attr_read J ob =
     do {
       fd \<leftarrow> dbl_to_word (cJSON_GetNumberValue J (cJSON_GetObjectItemCaseSensitive J ob ''forward_delay''));
       ht \<leftarrow> dbl_to_word (cJSON_GetNumberValue J (cJSON_GetObjectItemCaseSensitive J ob ''hello_time''));
       ma \<leftarrow> dbl_to_word (cJSON_GetNumberValue J (cJSON_GetObjectItemCaseSensitive J ob ''max_age''));
       pr \<leftarrow> dbl_to_word (cJSON_GetNumberValue J (cJSON_GetObjectItemCaseSensitive J ob ''priority''));
       Some (stp_attr_zero\<lparr>sa_forward_delay := fd, sa_hello_time := ht, sa_max_age := ma, sa_priority := pr\<rparr>)
     }"

definition gnma_stp_mode_get ::
  "('j, 't) gnmi \<Rightarrow> 't trace \<Rightarrow> gnma_stp_mode \<times> gnma_stp_attr \<Rightarrow> (int \<times> gnma_stp_mode \<times> gnma_stp_attr) option" where
  "gnma_stp_mode_get A h old =
     (case gnmi_jsoni_get_alloc A ''/sonic-spanning-tree:sonic-spanning-tree'' (g_calls A h > 0) h of
        None \<Rightarrow> Some (- 1, old)
      | Some buf \<Rightarrow>
          let J = g_json A;
              ob = cJSON_GetObjectItemCaseSensitive J (g_parse A buf) ''sonic-spanning-tree:sonic-spanning-tree'';
              ob = cJSON_GetObjectItemCaseSensitive J ob ''STP'';
              ob = cJSON_GetObjectItemCaseSensitive J ob ''STP_LIST'';
              ob = cJSON_GetArrayItem J ob 0
          in case cJSON_GetStringValue J (cJSON_GetObjectItemCaseSensitive J ob ''mode'') of
            None \<Rightarrow> Some (0, GNMA_STP_MODE_NONE, stp_attr_zero)
          | Some m \<Rightarrow>
              if m = ''rpvst'' then map_option (\<lambda>a. (0, GNMA_STP_MODE_RPVST, a)) (stp_attr_read J ob)
              else if m = ''pvst'' then map_option (\<lambda>a. (0, GNMA_STP_MODE_PVST, a)) (stp_attr_read J ob)
              else Some (- 1, old))"

definition stp_list_doc :: "string \<Rightarrow> string \<Rightarrow> jdoc list \<Rightarrow> jdoc" where
  "stp_list_doc outer list ds = DObj [(outer, DObj [(list, DArr ds)])]"

definition gnma_stp_port_set :: "('j, 't) gnmi \<Rightarrow> (string \<times> bool) list \<Rightarrow> 't act" where
  "gnma_stp_port_set A ps =
     gnmi_json_object_set A 0 ''/sonic-spanning-tree:sonic-spanning-tree/STP_PORT''
       (stp_list_doc ''sonic-spanning-tree:STP_PORT'' ''STP_PORT_LIST''
         (map (\<lambda>(n, e). DObj [(''ifname'', DStr (Some n)), (''enabled'', DBool e)]) ps))"

definition gnma_stp_ports_enable :: "('j, 't) gnmi \<Rightarrow> string list \<Rightarrow> 't act" where
  "gnma_stp_ports_enable A ps =
     gnmi_json_object_set A 0 ''/sonic-spanning-tree:sonic-spanning-tree/STP_PORT''
       (stp_list_doc ''sonic-spanning-tree:STP_PORT'' ''STP_PORT_LIST''
         (map (\<lambda>n. DObj [(''ifname'', DStr (Some n)), (''enabled'', DBool True)]) ps))"

definition gnma_stp_instance_set :: "('j, 't) gnmi \<Rightarrow> u16 \<Rightarrow> u16 \<Rightarrow> u16 list \<Rightarrow> 't act" where
  "gnma_stp_instance_set A inst prio vids =
     gnmi_json_object_set A 0 ''/sonic-spanning-tree:sonic-spanning-tree/STP_MST_INST''
       (stp_list_doc ''sonic-spanning-tree:STP_MST_INST'' ''STP_MST_INST_LIST''
         [DObj [(''instance'', dnum (uint inst)), (''bridge_priority'', dnum (uint prio)),
           (''vlan'', DArr (map (\<lambda>v. DStr (Some (dec (unat v)))) vids))]])"

definition gnma_stp_vids_set :: "('j, 't) gnmi \<Rightarrow> nat list \<Rightarrow> bool \<Rightarrow> 't act" where
  "gnma_stp_vids_set A vids enable =
     gnmi_json_object_set A 0 ''/sonic-spanning-tree:sonic-spanning-tree/STP_VLAN''
       (stp_list_doc ''sonic-spanning-tree:STP_VLAN'' ''STP_VLAN_LIST''
         (map (\<lambda>v. DObj [(''name'', DStr (Some (VLAN_TO_NAME v))), (''enabled'', DBool enable)]) vids))"

definition gnma_stp_vid_enable :: "('j, 't) gnmi \<Rightarrow> nat \<Rightarrow> gnma_stp_attr \<Rightarrow> 't act" where
  "gnma_stp_vid_enable A vid attr =
     gnmi_json_object_set A 0 ''/sonic-spanning-tree:sonic-spanning-tree/STP_VLAN''
       (stp_list_doc ''sonic-spanning-tree:STP_VLAN'' ''STP_VLAN_LIST''
         [DObj [(''name'', DStr (Some (VLAN_TO_NAME vid))), (''enabled'', DBool True),
           (''priority'', dnum (uint (sa_priority attr))), (''forward_delay'', dnum (uint (sa_forward_delay attr))),
           (''hello_time'', dnum (uint (sa_hello_time attr))), (''max_age'', dnum (uint (sa_max_age attr)))]])"

definition gnma_stp_vid_disable :: "('j, 't) gnmi \<Rightarrow> nat \<Rightarrow> 't act" where
  "gnma_stp_vid_disable A vid h = (0, snd (gnma_stp_vids_set A [vid] False h))"

definition gnma_stp_vid_set :: "('j, 't) gnmi \<Rightarrow> nat \<Rightarrow> gnma_stp_attr \<Rightarrow> 't act" where
  "gnma_stp_vid_set A vid attr = (if sa_enabled attr then gnma_stp_vid_enable A vid attr else gnma_stp_vid_disable A vid)"

text \<open>The attributes of all VLANs. A name without number leaves the number of the entry before, which is not
  initialised at first (\<open>None\<close>).\<close>

fun stp_vid_loop :: "'j cjson \<Rightarrow> nat \<Rightarrow> 'j list \<Rightarrow> nat option \<Rightarrow> (nat \<Rightarrow> gnma_stp_attr) \<Rightarrow> (int \<times> (nat \<Rightarrow> gnma_stp_attr)) option" where
  "stp_vid_loop J sz [] parsed l = Some (0, l)"
| "stp_vid_loop J sz (it # its) parsed l =
     do {
       buf \<leftarrow> cJSON_GetStringValue J (cJSON_GetObjectItemCaseSensitive J (Some it) ''name'');
       (case scan_lit ''Vlan'' 32 buf of
          ScanEOF \<Rightarrow> Some (- 1, l)
        | ScanRange \<Rightarrow> None
        | r \<Rightarrow> do {
            v \<leftarrow> (case r of ScanVal v \<Rightarrow> Some v | _ \<Rightarrow> parsed);
            if v \<ge> sz then Some (- 1, l)
            else do {
              p \<leftarrow> dbl_to_word (cJSON_GetNumberValue J (cJSON_GetObjectItemCaseSensitive J (Some it) ''priority''));
              stp_vid_loop J sz its (Some v) (l(v := (l v)\<lparr>sa_enabled := True, sa_priority := p\<rparr>))
            }
          })
     }"

definition gnma_stp_vid_bulk_get :: "('j, 't) gnmi \<Rightarrow> nat \<Rightarrow> 't trace \<Rightarrow> (int \<times> (nat \<Rightarrow> gnma_stp_attr)) option" where
  "gnma_stp_vid_bulk_get A sz h =
     (case gnmi_jsoni_get_alloc A ''/sonic-spanning-tree:sonic-spanning-tree/STP_VLAN/STP_VLAN_LIST'' (g_calls A h > 0) h of
        None \<Rightarrow> Some (- 1, \<lambda>_. stp_attr_zero)
      | Some buf \<Rightarrow>
          let J = g_json A in
          stp_vid_loop J sz (cJSON_Array J (cJSON_GetObjectItemCaseSensitive J (g_parse A buf) ''sonic-spanning-tree:STP_VLAN_LIST''))
            None (\<lambda>_. stp_attr_zero))"

section \<open>802.1x servers\<close>

definition gnma_ieee8021x_system_auth_control_set :: "('j, 't) gnmi \<Rightarrow> bool \<Rightarrow> 't act" where
  "gnma_ieee8021x_system_auth_control_set A b =
     gnmi_json_object_set A 1 ''/openconfig-hostapd:hostapd/hostapd-global-config/config/dot1x-system-auth-control''
       (DObj [(''openconfig-hostapd:dot1x-system-auth-control'', DBool b)])"

text \<open>A flag that is missing counts as false.\<close>

definition flag_leaf :: "('j, 't) gnmi \<Rightarrow> string \<Rightarrow> 'j \<Rightarrow> (int \<times> bool) option" where
  "flag_leaf A leaf j = Some (0, cJSON_IsTrue (g_json A) (cJSON_GetObjectItemCaseSensitive (g_json A) (Some j) leaf))"

definition gnma_ieee8021x_system_auth_control_get :: "('j, 't) gnmi \<Rightarrow> 't trace \<Rightarrow> bool \<Rightarrow> (int \<times> bool) option" where
  "gnma_ieee8021x_system_auth_control_get A =
     reads A 1 ''/openconfig-hostapd:hostapd/hostapd-global-config/config/dot1x-system-auth-control''
       (flag_leaf A ''openconfig-hostapd:dot1x-system-auth-control'')"

definition das_path :: "string \<Rightarrow> string" where
  "das_path rest = ''/openconfig-das:das/das-global-config-table'' @ rest"

definition gnma_ieee8021x_das_bounce_port_ignore_set :: "('j, 't) gnmi \<Rightarrow> bool \<Rightarrow> 't act" where
  "gnma_ieee8021x_das_bounce_port_ignore_set A b =
     gnmi_json_object_set A 0 (das_path ''/config/ignore-bounce-port'') (DObj [(''openconfig-das:ignore-bounce-port'', DBool b)])"

definition gnma_ieee8021x_das_bounce_port_ignore_get :: "('j, 't) gnmi \<Rightarrow> 't trace \<Rightarrow> bool \<Rightarrow> (int \<times> bool) option" where
  "gnma_ieee8021x_das_bounce_port_ignore_get A =
     reads A 1 (das_path ''/config/ignore-bounce-port'') (flag_leaf A ''openconfig-das:ignore-bounce-port'')"

definition gnma_ieee8021x_das_disable_port_ignore_set :: "('j, 't) gnmi \<Rightarrow> bool \<Rightarrow> 't act" where
  "gnma_ieee8021x_das_disable_port_ignore_set A b =
     gnmi_json_object_set A 0 (das_path ''/config/ignore-disable-port'') (DObj [(''openconfig-das:ignore-disable-port'', DBool b)])"

definition gnma_ieee8021x_das_disable_port_ignore_get :: "('j, 't) gnmi \<Rightarrow> 't trace \<Rightarrow> bool \<Rightarrow> (int \<times> bool) option" where
  "gnma_ieee8021x_das_disable_port_ignore_get A =
     reads A 1 (das_path ''/config/ignore-disable-port'') (flag_leaf A ''openconfig-das:ignore-disable-port'')"

definition gnma_ieee8021x_das_ignore_server_key_set :: "('j, 't) gnmi \<Rightarrow> bool \<Rightarrow> 't act" where
  "gnma_ieee8021x_das_ignore_server_key_set A b =
     gnmi_json_object_set A 0 (das_path ''/config/ignore-server-key'') (DObj [(''openconfig-das:ignore-server-key'', DBool b)])"

definition gnma_ieee8021x_das_ignore_server_key_get :: "('j, 't) gnmi \<Rightarrow> 't trace \<Rightarrow> bool \<Rightarrow> (int \<times> bool) option" where
  "gnma_ieee8021x_das_ignore_server_key_get A =
     reads A 1 (das_path ''/config/ignore-server-key'') (flag_leaf A ''openconfig-das:ignore-server-key'')"

definition gnma_ieee8021x_das_ignore_session_key_set :: "('j, 't) gnmi \<Rightarrow> bool \<Rightarrow> 't act" where
  "gnma_ieee8021x_das_ignore_session_key_set A b =
     gnmi_json_object_set A 0 (das_path ''/config/ignore-session-key'') (DObj [(''openconfig-das:ignore-session-key'', DBool b)])"

definition gnma_ieee8021x_das_ignore_session_key_get :: "('j, 't) gnmi \<Rightarrow> 't trace \<Rightarrow> bool \<Rightarrow> (int \<times> bool) option" where
  "gnma_ieee8021x_das_ignore_session_key_get A =
     reads A 1 (das_path ''/config/ignore-session-key'') (flag_leaf A ''openconfig-das:ignore-session-key'')"

datatype das_auth_type = DAS_AUTH_ANY | DAS_AUTH_ALL | DAS_AUTH_SESSION_KEY

definition das_auth_str :: "das_auth_type \<Rightarrow> string" where
  "das_auth_str t = (case t of DAS_AUTH_ANY \<Rightarrow> ''ANY'' | DAS_AUTH_ALL \<Rightarrow> ''ALL'' | DAS_AUTH_SESSION_KEY \<Rightarrow> ''SESSION_KEY'')"

text \<open>The setter writes below \<open>state\<close>, the query reads below \<open>config\<close>.\<close>

definition gnma_ieee8021x_das_auth_type_key_set :: "('j, 't) gnmi \<Rightarrow> das_auth_type \<Rightarrow> 't act" where
  "gnma_ieee8021x_das_auth_type_key_set A t =
     gnmi_json_object_set A 0 (das_path ''/state/das-auth-type'')
       (DObj [(''openconfig-das:das-auth-type'', DStr (Some (das_auth_str t)))])"

definition gnma_ieee8021x_das_auth_type_key_get :: "('j, 't) gnmi \<Rightarrow> 't trace \<Rightarrow> das_auth_type \<Rightarrow> (int \<times> das_auth_type) option" where
  "gnma_ieee8021x_das_auth_type_key_get A h old =
     reads A 1 (das_path ''/config/das-auth-type'')
       (string_leaf A ''openconfig-das:das-auth-type'' (Some (0, old))
         (\<lambda>s. Some (if s = ''ANY'' then (0, DAS_AUTH_ANY)
                else if s = ''ALL'' then (0, DAS_AUTH_ALL)
                else if s = ''SESSION_KEY'' then (0, DAS_AUTH_SESSION_KEY)
                else (- 1, old)))) h old"

text \<open>The lists of hosts: the number of elements has 16 bits; a name is copied without a test of its type or
  length (\<open>strcpy\<close> into 64 bytes). The code, the size and the names stored.\<close>

fun host_loop :: "'j cjson \<Rightarrow> string \<Rightarrow> 'j list \<Rightarrow> string list \<Rightarrow> (int \<times> string list) option" where
  "host_loop J member [] names = Some (0, names)"
| "host_loop J member (it # its) names =
     (case cJSON_GetObjectItemCaseSensitive J (Some it) member of
        None \<Rightarrow> Some (- 1, names)
      | Some addr \<Rightarrow> do { name \<leftarrow> strcpy 64 (cJSON_GetStringValue J (Some addr)); host_loop J member its (names @ [name]) })"

definition hosts_get :: "'j cjson \<Rightarrow> string \<Rightarrow> 'j list \<Rightarrow> nat \<Rightarrow> (int \<times> nat \<times> string list) option" where
  "hosts_get J member its n =
     (let arr_len = length its mod 65536 in
      if arr_len > n then Some (GNMA_ERR_OVERFLOW, arr_len, [])
      else if length its > n then None
      else map_option (\<lambda>(r, names). (r, length names, names)) (host_loop J member its []))"

definition gnma_ieee8021x_das_dac_hosts_list_get :: "('j, 't) gnmi \<Rightarrow> nat \<Rightarrow> 't trace \<Rightarrow> (int \<times> nat \<times> string list) option" where
  "gnma_ieee8021x_das_dac_hosts_list_get A n h =
     (case fetch A 1 ''/openconfig-das:das/das-client-config-table/das-client-config-table-entry'' h of
        None \<Rightarrow> Some (- 1, n, [])
      | Some j \<Rightarrow>
          let J = g_json A in
          hosts_get J ''clientaddress''
            (cJSON_Array J (cJSON_GetObjectItemCaseSensitive J (Some j) ''openconfig-das:das-client-config-table-entry'')) n)"

definition gnma_ieee8021x_das_dac_host_add :: "('j, 't) gnmi \<Rightarrow> string \<Rightarrow> string \<Rightarrow> 't act" where
  "gnma_ieee8021x_das_dac_host_add A host secret =
     gnmi_json_object_set A 1 ''/openconfig-das:das/das-client-config-table/das-client-config-table-entry''
       (DObj [(''openconfig-das:das-client-config-table-entry'', DArr [DObj
          [(''config'', DObj ([(''encrypted'', DBool False), (''clientaddress'', DStr (Some host))] @
              (if secret \<noteq> [] then [(''server-key'', DStr (Some secret))] else []))),
           (''clientaddress'', DStr (Some host))]])])"

definition gnma_ieee8021x_das_dac_host_remove :: "('j, 't) gnmi \<Rightarrow> string \<Rightarrow> 't act" where
  "gnma_ieee8021x_das_dac_host_remove A host =
     gnmi_del A 1 (''/openconfig-das:das/das-client-config-table/das-client-config-table-entry[clientaddress='' @ host @ '']/'')"

definition adapter_radius_hosts_list_get :: "('j, 't) gnmi \<Rightarrow> nat \<Rightarrow> 't trace \<Rightarrow> (int \<times> nat \<times> string list) option" where
  "adapter_radius_hosts_list_get A n h =
     (case fetch A 1 ''/openconfig-system:system/aaa/server-groups/server-group[name=RADIUS]/servers'' h of
        None \<Rightarrow> Some (- 1, n, [])
      | Some j \<Rightarrow>
          let J = g_json A; servers = cJSON_GetObjectItemCaseSensitive J (Some j) ''openconfig-system:servers'' in
          hosts_get J ''address'' (cJSON_Array J (cJSON_GetObjectItemCaseSensitive J servers ''server'')) n)"

definition gnma_radius_host_add :: "('j, 't) gnmi \<Rightarrow> string \<Rightarrow> string \<Rightarrow> u16 \<Rightarrow> u8 \<Rightarrow> 't act" where
  "gnma_radius_host_add A host secret aport prio =
     gnmi_json_object_set A 1 ''/openconfig-system:system/aaa/server-groups/server-group[name=RADIUS]/servers''
       (DObj [(''openconfig-system:servers'', DObj [(''server'', DArr [DObj
          [(''config'', DObj [(''priority'', dnum (uint prio))]), (''address'', DStr (Some host)),
           (''radius'', DObj [(''config'', DObj ([(''auth-port'', dnum (uint aport)),
              (''openconfig-aaa-radius-ext:encrypted'', DBool False)] @
              (if secret \<noteq> [] then [(''secret-key'', DStr (Some secret))] else [])))])]])])])"

text \<open>The path is that of the other list.\<close>

definition gnma_radius_host_remove :: "('j, 't) gnmi \<Rightarrow> string \<Rightarrow> 't act" where
  "gnma_radius_host_remove A host =
     gnmi_del A 1 (''/openconfig-das:das/das-client-config-table/das-client-config-table-entry[clientaddress='' @ host @ '']/'')"

section \<open>Password and logging\<close>

definition gnma_system_password_set :: "('j, 't) gnmi \<Rightarrow> string \<Rightarrow> 't act" where
  "gnma_system_password_set A pw =
     gnmi_json_object_set A 0 ''/openconfig-system:system/aaa/authentication/users/user[username=admin]/config/password''
       (DObj [(''role'', DStr (Some ''admin'')), (''password'', DStr (Some pw))])"

definition syslog_path :: string where
  "syslog_path = ''/sonic-system-logging:sonic-system-logging/SYSLOG_SERVER/SYSLOG_SERVER_LIST''"

definition gnma_syslog_cfg_clear :: "('j, 't) gnmi \<Rightarrow> 't act" where
  "gnma_syslog_cfg_clear A = gnmi_del A 0 syslog_path"

text \<open>Address, port and severity; the platform sets no other member.\<close>

definition gnma_syslog_cfg_set :: "('j, 't) gnmi \<Rightarrow> (string \<times> int \<times> string) list \<Rightarrow> 't act" where
  "gnma_syslog_cfg_set A cfg =
     gnmi_json_object_set A 0 syslog_path
       (DObj [(''sonic-system-logging:SYSLOG_SERVER_LIST'', DArr (map (\<lambda>(ip, port, sev).
          DObj ([(''ipaddress'', DStr (Some ip))] @ (if port \<ge> 0 then [(''remote-port'', dnum port)] else []) @
            [(''severity'', DStr (Some sev))])) cfg))])"

section \<open>Multicast\<close>

definition igmp_ip_path :: "nat \<Rightarrow> string" where
  "igmp_ip_path vid = ''/openconfig-interfaces:interfaces/interface[name='' @ VLAN_TO_NAME vid @
     '']/subinterfaces/subinterface[index=0]/openconfig-if-ip:ipv4/openconfig-igmp-ext:igmp''"

definition igmp_snooping_path :: string where
  "igmp_snooping_path = ''/openconfig-network-instance:network-instances/network-instance[name=default]/protocols/'' @
     ''protocol[identifier=IGMP_SNOOPING][name=IGMP-SNOOPING]/openconfig-network-instance-deviation:igmp-snooping''"

definition igmp_iface_path :: "nat \<Rightarrow> string" where
  "igmp_iface_path vid = igmp_snooping_path @ ''/interfaces/interface[name='' @ VLAN_TO_NAME vid @ '']''"

definition gnma_igmp_disable :: "('j, 't) gnmi \<Rightarrow> nat \<Rightarrow> 't act" where
  "gnma_igmp_disable A vid h =
     (0, fold (\<lambda>path h. snd (gnmi_jsoni_del A path h))
           [igmp_ip_path vid, igmp_iface_path vid @ ''/staticgrps'', igmp_iface_path vid] h)"

definition igmp_number :: "gnma_igmp_version \<Rightarrow> (string \<times> jdoc) list" where
  "igmp_number v =
     (case v of GNMA_IGMP_NA \<Rightarrow> []
      | GNMA_IGMP w \<Rightarrow> [(''version'', dnum (case w of IGMP_VERSION_1 \<Rightarrow> 1 | IGMP_VERSION_2 \<Rightarrow> 2 | IGMP_VERSION_3 \<Rightarrow> 3))])"

definition gnma_ip_igmp_set :: "('j, 't) gnmi \<Rightarrow> nat \<Rightarrow> gnma_igmp_snoop_attr \<Rightarrow> 't act" where
  "gnma_ip_igmp_set A vid attr =
     gnmi_json_object_set A 1 (igmp_ip_path vid)
       (DObj [(''openconfig-igmp-ext:igmp'', DObj [(''config'', DObj ((''enabled'', DBool (ig_querier attr)) #
          (if ig_querier attr then
             [(''query-interval'', dnum (uint (ig_query_interval attr))),
              (''query-max-response-time'', dnum (uint (ig_max_response attr))),
              (''last-member-query-interval'', dnum (uint (ig_last_member attr)))] @ igmp_number (ig_version attr)
           else [])))])])"

text \<open>The document of an interface with further members of its configuration and of the interface itself.\<close>

definition igmp_root :: "nat \<Rightarrow> (string \<times> jdoc) list \<Rightarrow> (string \<times> jdoc) list \<Rightarrow> jdoc" where
  "igmp_root vid cfg rest = DObj [(''openconfig-network-instance-deviation:igmp-snooping'', DObj [(''interfaces'',
     DObj [(''interface'', DArr [DObj ([(''config'', DObj ((''name'', DStr (Some (VLAN_TO_NAME vid))) # cfg)),
       (''name'', DStr (Some (VLAN_TO_NAME vid)))] @ rest)])])])]"

text \<open>When memory runs out while the optional members are added, the code is still 0: nothing is sent and success
  is reported. The optional members are the last ones before the text.\<close>

definition igmp_optional :: "gnma_igmp_snoop_attr \<Rightarrow> (string \<times> jdoc) list" where
  "igmp_optional attr = (if ig_enabled attr then (''fast-leave'', DBool (ig_fast_leave attr)) # igmp_number (ig_version attr) else [])"

definition gnma_igmp_snooping_set :: "('j, 't) gnmi \<Rightarrow> nat \<Rightarrow> gnma_igmp_snoop_attr \<Rightarrow> 't act" where
  "gnma_igmp_snooping_set A vid attr h =
     (if \<not> ig_enabled attr \<and> \<not> ig_querier attr then (0, snd (gnma_igmp_disable A vid h))
      else let (r, h) = gnma_ip_igmp_set A vid attr h in
        if r \<noteq> 0 then (r, h)
        else if vid \<ge> 4096 then (- 1, h)
        else
          let fixed = [(''enabled'', DBool (ig_enabled attr)), (''querier'', DBool (ig_querier attr))];
              d = igmp_root vid (fixed @ igmp_optional attr) [];
              k = length (jcalls (igmp_root vid fixed []))
          in if k \<le> g_calls A h \<and> g_calls A h < length (jcalls d) then (0, h) else gnmi_json_object_set A 0 igmp_snooping_path d h)"

definition gnma_igmp_static_groups_set :: "('j, 't) gnmi \<Rightarrow> nat \<Rightarrow> (u32 \<times> string list) list \<Rightarrow> 't act" where
  "gnma_igmp_static_groups_set A vid gs h =
     (if vid \<ge> 4096 then (- 1, h)
      else gnmi_json_object_set A 0 igmp_snooping_path
        (igmp_root vid [] [(''staticgrps'', DObj [(''static-multicast-group'', DArr (map (\<lambda>(a, names).
           DObj [(''group'', DStr (Some (inet_ntop a))), (''source-addr'', DStr (Some ''0.0.0.0'')),
             (''config'', DObj [(''outgoing-interface'', DArr (map (\<lambda>n. DStr (Some n)) names))])]) gs))])]) h)"

section \<open>The requests of the platform\<close>

definition request_of :: "('j, 't) gnmi \<Rightarrow> change_op \<Rightarrow> 't request" where
  "request_of A c =
     (case c of
        VlanCreate vid \<Rightarrow> Set (convertYangPath2ProtoPath ''/sonic-vlan:sonic-vlan/VLAN/VLAN_LIST'') (g_print A (vlan_doc vid))
      | MemberRemove vid name \<Rightarrow> Delete (convertYangPath2ProtoPath (''/sonic-vlan:sonic-vlan/VLAN_MEMBER/VLAN_MEMBER_LIST[name='' @
          VLAN_TO_NAME vid @ ''][ifname='' @ name @ '']''))
      | MemberCreate vid name tgd \<Rightarrow> Set (convertYangPath2ProtoPath ''/sonic-vlan:sonic-vlan/VLAN_MEMBER/VLAN_MEMBER_LIST'')
          (g_print A (member_doc vid name tgd)))"

definition perform :: "('j, 't) gnmi \<Rightarrow> gnma_call \<Rightarrow> 't act" where
  "perform A c =
     (case c of
        PortAdminState n b \<Rightarrow> gnma_port_admin_state_set A n b
      | PortSpeed n s \<Rightarrow> gnma_port_speed_set A n s
      | PortDuplex n b \<Rightarrow> gnma_port_duplex_set A n b
      | PaeMode n b \<Rightarrow> gnma_port_ieee8021x_pae_mode_set A n b
      | PortCtrl n m \<Rightarrow> gnma_port_ieee8021x_port_ctrl_set A n m
      | PortHostMode n m \<Rightarrow> gnma_port_ieee8021x_port_host_mode_set A n m
      | GuestVlan n v \<Rightarrow> gnma_port_ieee8021x_guest_vlan_set A n v
      | UnauthVlan n v \<Rightarrow> gnma_port_ieee8021x_unauthorized_vlan_set A n v
      | PoeDetection n m \<Rightarrow> gnma_poe_port_detection_mode_set A n m
      | PoePriority n p \<Rightarrow> gnma_poe_port_priority_set A n p
      | PoePowerLimit n u l \<Rightarrow> gnma_poe_port_power_limit_set A n u l
      | PoeAdmin n b \<Rightarrow> gnma_poe_port_admin_mode_set A n b
      | PoeReset n \<Rightarrow> gnma_poe_port_reset A n
      | PoePowerMgmt m \<Rightarrow> gnma_poe_power_mgmt_set A m
      | PoeThreshold t \<Rightarrow> gnma_poe_usage_threshold_set A t
      | StpMode m a \<Rightarrow> gnma_stp_mode_set A m a
      | StpPortsEnable ns \<Rightarrow> gnma_stp_ports_enable A ns
      | StpVid v a \<Rightarrow> gnma_stp_vid_set A v a
      | VlanRemove v \<Rightarrow> gnma_vlan_remove A v
      | ChangeExec cs \<Rightarrow> gnma_change_exec A (map (request_of A) cs)
      | ErifDelete v p \<Rightarrow> gnma_vlan_erif_attr_pref_delete A v p
      | ErifUpdate v p \<Rightarrow> gnma_vlan_erif_attr_pref_update A v [p]
      | Portl2Delete n p \<Rightarrow> gnma_portl2_erif_attr_pref_delete A n p
      | Portl2Update n p \<Rightarrow> gnma_portl2_erif_attr_pref_update A n [p]
      | RelayAdd v ip \<Rightarrow> gnma_vlan_dhcp_relay_server_add A v ip
      | RelayRemove v ip \<Rightarrow> gnma_vlan_dhcp_relay_server_remove A v ip
      | RelayMaxHop v n \<Rightarrow> gnma_vlan_dhcp_relay_max_hop_cnt_set A v n
      | RelayPolicy v p \<Rightarrow> gnma_vlan_dhcp_relay_policy_action_set A v p
      | RelayCircuit v c \<Rightarrow> gnma_vlan_dhcp_relay_ciruit_id_set A v c
      | IgmpSnooping v a \<Rightarrow> gnma_igmp_snooping_set A v a
      | IgmpGroups v gs \<Rightarrow> gnma_igmp_static_groups_set A v gs
      | AuthControl b \<Rightarrow> gnma_ieee8021x_system_auth_control_set A b
      | DacRemove host \<Rightarrow> gnma_ieee8021x_das_dac_host_remove A host
      | DacAdd host key \<Rightarrow> gnma_ieee8021x_das_dac_host_add A host key
      | RadiusRemove host \<Rightarrow> gnma_radius_host_remove A host
      | RadiusAdd host key port prio \<Rightarrow> gnma_radius_host_add A host key port prio
      | RouteCall (RouteRemove p) \<Rightarrow> gnma_route_remove A 0 p
      | RouteCall (RouteCreate p a) \<Rightarrow> gnma_route_create A 0 p a
      | PasswordSet pw \<Rightarrow> gnma_system_password_set A pw
      | SyslogClear \<Rightarrow> gnma_syslog_cfg_clear A
      | SyslogSet l \<Rightarrow> gnma_syslog_cfg_set A l)"

end
