(* ===== verification/Adapter_Props.thy ===== *)
theory Adapter_Props
  imports Adapter_Net
begin

text \<open>
  Properties of the management adapter: what is set is read back, a request of the platform is one
  request to the switch, and the lists and member bitmaps that are read are those of the switch.
\<close>

section \<open>One call, one request\<close>

text \<open>The number of requests a call can make.\<close>

definition max_requests :: "gnma_call \<Rightarrow> nat" where
  "max_requests c = (case c of PortDuplex _ _ \<Rightarrow> 0 | StpMode _ _ \<Rightarrow> 2 | IgmpSnooping _ _ \<Rightarrow> 3 | _ \<Rightarrow> 1)"

text \<open>The calls whose code 0 says that the switch took the request: not those that ignore a failure.\<close>

definition honest :: "gnma_call \<Rightarrow> bool" where
  "honest c = (case c of PortDuplex _ _ \<Rightarrow> False | StpMode _ _ \<Rightarrow> False | IgmpSnooping _ _ \<Rightarrow> False | ChangeExec _ \<Rightarrow> False
     | StpVid _ a \<Rightarrow> sa_enabled a | _ \<Rightarrow> True)"

definition at_most :: "nat \<Rightarrow> 't act \<Rightarrow> bool" where
  "at_most n f \<longleftrightarrow> (\<forall>h. \<exists>qs. snd (f h) = h @ qs \<and> length qs \<le> n)"

definition tells :: "('j, 't) gnmi \<Rightarrow> 't act \<Rightarrow> bool" where
  "tells A f \<longleftrightarrow> (\<forall>h. fst (f h) = 0 \<longrightarrow> (\<exists>q. snd (f h) = h @ [q] \<and> g_ok A h q))"

lemma at_most_mono: "at_most m f \<Longrightarrow> m \<le> n \<Longrightarrow> at_most n f"
  unfolding at_most_def by (meson order_trans)

lemma at_mostD: "at_most n f \<Longrightarrow> \<exists>qs. snd (f h) = h @ qs \<and> length qs \<le> n"
  by (simp add: at_most_def)

lemma skip_requests [simp]: "at_most n (\<lambda>h. (r, h))" "r \<noteq> 0 \<Longrightarrow> tells A (\<lambda>h. (r, h))"
  by (simp_all add: at_most_def tells_def)

lemma set_requests [simp, intro]: "at_most (Suc 0) (gnmi_json_object_set A pre path d)" "tells A (gnmi_json_object_set A pre path d)"
  by (auto simp: at_most_def tells_def gnmi_json_object_set_def gnmi_jsoni_set_def call_def split: if_splits)

lemma del_requests [simp, intro]: "at_most (Suc 0) (gnmi_del A pre path)" "tells A (gnmi_del A pre path)"
  by (auto simp: at_most_def tells_def gnmi_del_def gnmi_jsoni_del_def call_def split: if_splits)

lemma relay_requests [simp, intro]: "path \<noteq> [] \<Longrightarrow> tells A (relay_set A path d)" "at_most (Suc 0) (relay_set A path d)"
  by (auto simp: at_most_def tells_def relay_set_def gnmi_jsoni_set_def call_def Let_def split: if_splits)

lemma rpc_requests [simp, intro]: "at_most (Suc 0) (call A q)" "tells A (call A q)"
  by (auto simp: at_most_def tells_def call_def split: if_splits)

lemma change_requests [simp, intro]: "at_most (Suc 0) (gnma_change_exec A rq)"
  by (auto simp: at_most_def gnma_change_exec_def gnmi_setrq_execute_def call_def)

lemma relay_path_nonempty [simp]: "relay_path vid rest \<noteq> []"
  by (simp add: relay_path_def)

lemma route_requests [simp, intro]:
  "at_most (Suc 0) (gnma_route_create A 0 p a)" "tells A (gnma_route_create A 0 p a)"
  "at_most (Suc 0) (gnma_route_remove A 0 p)" "tells A (gnma_route_remove A 0 p)"
  using set_requests del_requests by (simp_all add: gnma_route_create_def gnma_route_remove_def at_most_def tells_def)

lemma ignoring_requests [simp]: "at_most n f \<Longrightarrow> at_most n (\<lambda>h. (r, snd (f h)))"
  by (simp add: at_most_def)

lemma stp_vid_requests [simp, intro]:
  "at_most (Suc 0) (gnma_stp_vid_set A v a)" "sa_enabled a \<Longrightarrow> tells A (gnma_stp_vid_set A v a)"
  by (simp_all add: gnma_stp_vid_set_def gnma_stp_vid_enable_def gnma_stp_vid_disable_def[abs_def] gnma_stp_vids_set_def)

lemma stp_mode_requests [simp, intro]: "at_most 2 (gnma_stp_mode_set A m a)"
proof -
  have "\<exists>qs. snd (gnma_stp_mode_set A m a h) = h @ qs \<and> length qs \<le> 2" for h
  proof -
    let ?d = "Delete (convertYangPath2ProtoPath ''/sonic-spanning-tree:sonic-spanning-tree/STP/STP_LIST[keyleaf=GLOBAL]'')"
    let ?set = "\<lambda>x. gnmi_json_object_set A 0 ''/sonic-spanning-tree:sonic-spanning-tree/STP/STP_LIST'' (stp_mode_doc m x)"
    have "\<exists>qs. snd (gnma_stp_mode_set A m a h) = (h @ [?d]) @ qs \<and> length qs \<le> 1"
    proof (cases "m = GNMA_STP_MODE_NONE \<or> a = None")
      case False
      then obtain x where x: "a = Some x" "m \<noteq> GNMA_STP_MODE_NONE" by auto
      have e: "gnma_stp_mode_set A m a h = ?set x (h @ [?d])"
        using x by (simp add: gnma_stp_mode_set_def gnmi_jsoni_del_def call_def)
      show ?thesis unfolding e One_nat_def by (rule at_mostD[OF set_requests(1)])
    qed (auto simp: gnma_stp_mode_set_def gnmi_jsoni_del_def call_def Let_def)
    then obtain qs where "snd (gnma_stp_mode_set A m a h) = h @ (?d # qs)" "length (?d # qs) \<le> 2" by auto
    then show ?thesis by blast
  qed
  then show ?thesis by (simp add: at_most_def)
qed

lemma igmp_requests [simp, intro]: "at_most 3 (gnma_igmp_snooping_set A v a)"
proof -
  have "\<exists>qs. snd (gnma_igmp_snooping_set A v a h) = h @ qs \<and> length qs \<le> 3" for h
  proof (cases "\<not> ig_enabled a \<and> \<not> ig_querier a")
    case True
    then show ?thesis by (auto simp: gnma_igmp_snooping_set_def gnma_igmp_disable_def gnmi_jsoni_del_def call_def)
  next
    case False
    obtain r h1 where ip: "gnma_ip_igmp_set A v a h = (r, h1)" by fastforce
    obtain q1 where q1: "h1 = h @ q1" "length q1 \<le> 1"
      using at_mostD[OF set_requests(1), of A 1 "igmp_ip_path v" _ h] ip unfolding gnma_ip_igmp_set_def by (metis One_nat_def snd_conv)
    let ?set = "gnmi_json_object_set A 0 igmp_snooping_path
      (igmp_root v ([(''enabled'', DBool (ig_enabled a)), (''querier'', DBool (ig_querier a))] @ igmp_optional a) [])"
    have "snd (gnma_igmp_snooping_set A v a h) \<in> {h1, snd (?set h1)}"
      unfolding gnma_igmp_snooping_set_def if_not_P[OF False] ip Let_def prod.case by simp
    then obtain q2 where "snd (gnma_igmp_snooping_set A v a h) = h1 @ q2" "length q2 \<le> 1"
      using at_mostD[OF set_requests(1), of A 0 igmp_snooping_path _ h1] by (elim insertE) fastforce+
    then show ?thesis using q1 by (intro exI[of _ "q1 @ q2"]) auto
  qed
  then show ?thesis by (simp add: at_most_def)
qed

lemma groups_requests [simp, intro]:
  "at_most (Suc 0) (gnma_igmp_static_groups_set A v gs)" "tells A (gnma_igmp_static_groups_set A v gs)"
  by (cases "v \<ge> 4096"; simp add: gnma_igmp_static_groups_set_def[abs_def])+

lemmas plain_setters = gnma_port_admin_state_set_def gnma_port_speed_set_def gnma_port_ieee8021x_pae_mode_set_def
  gnma_port_ieee8021x_port_ctrl_set_def gnma_port_ieee8021x_port_host_mode_set_def gnma_port_ieee8021x_guest_vlan_set_def
  gnma_port_ieee8021x_unauthorized_vlan_set_def gnma_poe_port_detection_mode_set_def gnma_poe_port_priority_set_def
  gnma_poe_port_power_limit_set_def gnma_poe_port_admin_mode_set_def gnma_poe_port_reset_def gnmi_gnoi_poe_port_reset_def
  gnma_poe_power_mgmt_set_def gnma_poe_usage_threshold_set_def gnma_stp_ports_enable_def gnma_vlan_remove_def
  gnma_vlan_erif_attr_pref_delete_def gnma_vlan_erif_attr_pref_update_def gnma_portl2_erif_attr_pref_delete_def
  gnma_portl2_erif_attr_pref_update_def gnma_vlan_dhcp_relay_server_add_def gnma_vlan_dhcp_relay_server_remove_def
  gnma_vlan_dhcp_relay_max_hop_cnt_set_def gnma_vlan_dhcp_relay_policy_action_set_def gnma_vlan_dhcp_relay_ciruit_id_set_def
  gnma_ieee8021x_system_auth_control_set_def gnma_ieee8021x_das_dac_host_remove_def gnma_ieee8021x_das_dac_host_add_def
  gnma_radius_host_remove_def gnma_radius_host_add_def gnma_system_password_set_def gnma_syslog_cfg_clear_def gnma_syslog_cfg_set_def

lemma perform_requests: "at_most (max_requests c) (perform A c)"
proof (cases c)
  case (PortDuplex n b)
  then show ?thesis by (simp add: perform_def max_requests_def at_most_def gnma_port_duplex_set_def)
next
  case (RouteCall r)
  then show ?thesis by (cases r) (simp_all add: perform_def max_requests_def)
qed (simp_all add: perform_def max_requests_def plain_setters)

lemma perform_tells: "honest c \<Longrightarrow> tells A (perform A c)"
proof (cases c)
  case (RouteCall r)
  then show ?thesis by (cases r) (simp_all add: perform_def)
qed (simp_all add: perform_def honest_def plain_setters)

text \<open>C13. A call of the platform becomes at most one request to the switch (none for the duplex mode, up to two
  for the spanning tree mode and three for multicast snooping), whatever memory is available, and
  for all calls but those that ignore failures the code 0 means that exactly this request was sent
  and taken.\<close>

theorem one_request_per_call:
  assumes "perform A c h = (r, h')"
  shows "(\<exists>qs. h' = h @ qs \<and> length qs \<le> max_requests c) \<and> (r = 0 \<and> honest c \<longrightarrow> (\<exists>q. h' = h @ [q] \<and> g_ok A h q))"
  using perform_requests[of c A] perform_tells[of c A] assms unfolding at_most_def tells_def by (metis fst_conv snd_conv)

section \<open>What is set is read back\<close>

text \<open>A scalar of a document, and a node of the parser that stands for it.\<close>

fun scalar :: "jdoc \<Rightarrow> bool" where
  "scalar (DStr s) \<longleftrightarrow> s \<noteq> None"
| "scalar (DNum x) \<longleftrightarrow> (case x of Fin _ \<Rightarrow> True | _ \<Rightarrow> False)"
| "scalar (DBool _) \<longleftrightarrow> True"
| "scalar _ \<longleftrightarrow> False"

fun represents :: "'j cjson \<Rightarrow> 'j \<Rightarrow> jdoc \<Rightarrow> bool" where
  "represents J v (DStr s) \<longleftrightarrow> is_string J v \<and> string_value J v = s"
| "represents J v (DNum x) \<longleftrightarrow> is_number J v \<and> number_value J v = x"
| "represents J v (DBool b) \<longleftrightarrow> is_bool J v \<and> is_true J v = b"
| "represents J v _ \<longleftrightarrow> False"

text \<open>The switch answers at \<open>st\<close> with the value that was set last at \<open>cfg\<close>.\<close>

definition answers :: "('j, 't) gnmi \<Rightarrow> 't trace \<Rightarrow> string \<Rightarrow> string \<Rightarrow> jdoc \<Rightarrow> bool" where
  "answers A h st leaf d \<longleftrightarrow>
     (\<exists>t j v. g_get A h (convertYangPath2ProtoPath st) = Some [[Some t]] \<and> g_parse A t = Some j \<and>
        obj_item (g_json A) j leaf = Some v \<and> represents (g_json A) v d)"

definition keeps_leaf :: "('j, 't) gnmi \<Rightarrow> string \<times> string \<times> string \<Rightarrow> bool" where
  "keeps_leaf A x = (case x of (cfg, st, leaf) \<Rightarrow>
     \<forall>h d. scalar d \<longrightarrow> answers A (h @ [Set (convertYangPath2ProtoPath cfg) (g_print A (DObj [(leaf, d)]))]) st leaf d)"

definition takes_all :: "('j, 't) gnmi \<Rightarrow> bool" where
  "takes_all A \<longleftrightarrow> (\<forall>h q. g_ok A h q) \<and> (\<forall>h. 4 \<le> g_calls A h)"

text \<open>Where each setting is written and read, and the name of its value.\<close>

definition leaf_paths :: "string \<Rightarrow> nat \<Rightarrow> (string \<times> string \<times> string) list" where
  "leaf_paths name vid =
     [(authmgr name ''/config/port-pae-role'', authmgr name ''/state/port-pae-role'', ''openconfig-authmgr:port-pae-role''),
      (authmgr name ''/config/port-control-mode'', authmgr name ''/state/port-control-mode'', ''openconfig-authmgr:port-control-mode''),
      (authmgr name ''/config/host-control-mode'', authmgr name ''/state/host-control-mode'', ''openconfig-authmgr:host-control-mode''),
      (authmgr name ''/config/guest-vlan-id'', authmgr name ''/state/guest-vlan-id'', ''openconfig-authmgr:guest-vlan-id''),
      (authmgr name ''/config/auth-fail-vlan-id'', authmgr name ''/state/auth-fail-vlan-id'', ''openconfig-authmgr:auth-fail-vlan-id'')] @
     map (\<lambda>(p, l). (p, p, l))
      [(poe_port_path name ''/admin_mode'', ''sonic-poe:admin_mode''),
       (poe_port_path name ''/detection_mode'', ''sonic-poe:detection_mode''),
       (poe_port_path name ''/priority'', ''sonic-poe:priority''),
       (''/sonic-poe:sonic-poe/POE/POE_LIST[id=GLOBAL]/power_management_model'', ''sonic-poe:power_management_model''),
       (relay_path vid ''/config/openconfig-relay-agent-ext:policy-action'', ''openconfig-relay-agent-ext:policy-action''),
       (relay_path vid ''/config/openconfig-relay-agent-ext:max-hop-count'', ''openconfig-relay-agent-ext:max-hop-count''),
       (relay_path vid ''/agent-information-option/config/circuit-id'', ''openconfig-relay-agent:circuit-id''),
       (''/openconfig-hostapd:hostapd/hostapd-global-config/config/dot1x-system-auth-control'',
        ''openconfig-hostapd:dot1x-system-auth-control''),
       (das_path ''/config/ignore-bounce-port'', ''openconfig-das:ignore-bounce-port''),
       (das_path ''/config/ignore-disable-port'', ''openconfig-das:ignore-disable-port''),
       (das_path ''/config/ignore-server-key'', ''openconfig-das:ignore-server-key''),
       (das_path ''/config/ignore-session-key'', ''openconfig-das:ignore-session-key'')]"

definition switch_keeps :: "('j, 't) gnmi \<Rightarrow> string \<Rightarrow> nat \<Rightarrow> bool" where
  "switch_keeps A name vid \<longleftrightarrow> takes_all A \<and> list_all (keeps_leaf A) (leaf_paths name vid)"

text \<open>After the setter, which reports success, the query reports success and the value.\<close>

definition reads_back :: "'t act \<Rightarrow> ('t trace \<Rightarrow> 'v \<Rightarrow> (int \<times> 'v) option) \<Rightarrow> 'v \<Rightarrow> bool" where
  "reads_back S G v \<longleftrightarrow> (\<forall>h. fst (S h) = 0 \<and> (\<forall>old. G (snd (S h)) old = Some (0, v)))"

definition stored_at :: "('j, 't) gnmi \<Rightarrow> 't act \<Rightarrow> string \<Rightarrow> string \<Rightarrow> jdoc \<Rightarrow> bool" where
  "stored_at A S st leaf d \<longleftrightarrow> (\<forall>h. fst (S h) = 0 \<and>
     (\<exists>j v. fetch A 1 st (snd (S h)) = Some j \<and> obj_item (g_json A) j leaf = Some v \<and> represents (g_json A) v d))"

lemma takes_allD: "takes_all A \<Longrightarrow> g_ok A h q" "takes_all A \<Longrightarrow> 4 \<le> g_calls A h"
  by (simp_all add: takes_all_def)

lemma scalar_calls: "scalar d \<Longrightarrow> length (jcalls d) = Suc 0"
  by (cases d) auto

lemma answers_fetch:
  "takes_all A \<Longrightarrow> answers A h st leaf d \<Longrightarrow>
     \<exists>j v. fetch A 1 st h = Some j \<and> obj_item (g_json A) j leaf = Some v \<and> represents (g_json A) v d"
  using takes_allD(2)[of A h] unfolding answers_def
  by (auto simp: fetch_def gnmi_jsoni_get_alloc_def gnmi_jsoni_get_internal_def)

lemma stored_leaf:
  assumes "takes_all A" "keeps_leaf A (cfg, st, leaf)" "scalar d"
  shows "pre \<le> 1 \<Longrightarrow> stored_at A (gnmi_json_object_set A pre cfg (DObj [(leaf, d)])) st leaf d"
    and "stored_at A (relay_set A cfg (DObj [(leaf, d)])) st leaf d"
proof -
  let ?q = "Set (convertYangPath2ProtoPath cfg) (g_print A (DObj [(leaf, d)]))"
  have get: "\<exists>j v. fetch A 1 st (h @ [?q]) = Some j \<and> obj_item (g_json A) j leaf = Some v \<and> represents (g_json A) v d" for h
    using assms by (intro answers_fetch) (auto simp: keeps_leaf_def)
  have "gnmi_json_object_set A pre cfg (DObj [(leaf, d)]) h = (0, h @ [?q])" if "pre \<le> 1" for h
    using takes_allD[OF assms(1), of h] that scalar_calls[OF assms(3)]
    by (auto simp: gnmi_json_object_set_def gnmi_jsoni_set_def call_def)
  then show "pre \<le> 1 \<Longrightarrow> stored_at A (gnmi_json_object_set A pre cfg (DObj [(leaf, d)])) st leaf d"
    using get by (simp add: stored_at_def)
  have "relay_set A cfg (DObj [(leaf, d)]) h = (0, h @ [?q])" for h
    using takes_allD[OF assms(1), of h] scalar_calls[OF assms(3)]
    by (auto simp: relay_set_def gnmi_jsoni_set_def call_def Let_def)
  then show "stored_at A (relay_set A cfg (DObj [(leaf, d)])) st leaf d" using get by (simp add: stored_at_def)
qed

text \<open>Each kind of query on a stored value.\<close>

lemma stored_reads:
  assumes "stored_at A S st leaf d"
    and "\<And>j x old. obj_item (g_json A) j leaf = Some x \<Longrightarrow> represents (g_json A) x d \<Longrightarrow> f old j = Some (0, v)"
    and "\<And>h old. G h old = reads A 1 st (f old) h old"
  shows "reads_back S G v"
  unfolding reads_back_def
proof (intro allI conjI)
  fix h old
  show "fst (S h) = 0" using assms(1) by (simp add: stored_at_def)
  obtain j x where "fetch A 1 st (snd (S h)) = Some j" "obj_item (g_json A) j leaf = Some x" "represents (g_json A) x d"
    using assms(1) unfolding stored_at_def by blast
  then show "G (snd (S h)) old = Some (0, v)" using assms(2)[of j x old] by (simp add: assms(3) reads_def)
qed

lemma dbl_to_word_unsigned [simp]: "dbl_to_word (Fin (unsigned w)) = Some (w :: 'a::len word)"
proof -
  have "dbl_to_word (Fin (of_int (uint w))) = Some w"
    unfolding dbl_to_word_def dbl.case trunc_rat_of_int using uint_bounded[of w] by simp
  then show ?thesis by simp
qed

lemma leaf_values:
  assumes "obj_item (g_json A) j leaf = Some x"
  shows "represents (g_json A) x (DStr (Some s)) \<Longrightarrow> string_leaf A leaf e f j = f s"
    and "represents (g_json A) x (DStr (Some s)) \<Longrightarrow> g s = Some v \<Longrightarrow> checked_leaf A leaf g old j = Some (0, v)"
    and "represents (g_json A) x (dnum (uint w)) \<Longrightarrow> number_leaf A leaf e' j = Some (0, w)"
    and "represents (g_json A) x (DBool b) \<Longrightarrow> flag_leaf A leaf j = Some (0, b)"
  using assms by (auto simp: string_leaf_def checked_leaf_def number_leaf_def flag_leaf_def cjson_access dnum_def Let_def)

lemma switch_keeps_leaf:
  assumes "switch_keeps A name vid" "(cfg, st, leaf) \<in> set (leaf_paths name vid)" "scalar d"
  shows "pre \<le> 1 \<Longrightarrow> stored_at A (gnmi_json_object_set A pre cfg (DObj [(leaf, d)])) st leaf d"
    and "stored_at A (relay_set A cfg (DObj [(leaf, d)])) st leaf d"
  using stored_leaf[of A cfg st leaf d] assms by (auto simp: switch_keeps_def list_all_iff)

lemmas leaf_reads_back = stored_reads[OF switch_keeps_leaf(1)]
lemmas relay_reads_back = stored_reads[OF switch_keeps_leaf(2)]

lemma ieee8021x_read_back:
  assumes "switch_keeps A name vid"
  shows "reads_back (gnma_port_ieee8021x_pae_mode_set A name b) (gnma_port_ieee8021x_pae_mode_get A name) b"
    and "reads_back (gnma_port_ieee8021x_port_ctrl_set A name c) (gnma_port_ieee8021x_port_ctrl_get A name) c"
    and "reads_back (gnma_port_ieee8021x_port_host_mode_set A name m) (gnma_port_ieee8021x_port_host_mode_get A name) m"
    and "reads_back (gnma_port_ieee8021x_guest_vlan_set A name v) (gnma_port_ieee8021x_guest_vlan_get A name) v"
    and "reads_back (gnma_port_ieee8021x_unauthorized_vlan_set A name v) (gnma_port_ieee8021x_unauthorized_vlan_get A name) v"
proof -
  show "reads_back (gnma_port_ieee8021x_pae_mode_set A name b) (gnma_port_ieee8021x_pae_mode_get A name) b"
    unfolding gnma_port_ieee8021x_pae_mode_set_def
    by (rule leaf_reads_back[OF assms])
       (auto simp: leaf_paths_def leaf_values(1) gnma_port_ieee8021x_pae_mode_get_def)
  show "reads_back (gnma_port_ieee8021x_port_ctrl_set A name c) (gnma_port_ieee8021x_port_ctrl_get A name) c"
    unfolding gnma_port_ieee8021x_port_ctrl_set_def
    by (rule leaf_reads_back[OF assms])
       (auto simp: leaf_paths_def leaf_values(1) gnma_port_ieee8021x_port_ctrl_get_def ctrl_str_def split: control_mode.splits)
  show "reads_back (gnma_port_ieee8021x_port_host_mode_set A name m) (gnma_port_ieee8021x_port_host_mode_get A name) m"
    unfolding gnma_port_ieee8021x_port_host_mode_set_def
    by (rule leaf_reads_back[OF assms])
       (auto simp: leaf_paths_def leaf_values(1) gnma_port_ieee8021x_port_host_mode_get_def host_str_def split: host_mode.splits)
  show "reads_back (gnma_port_ieee8021x_guest_vlan_set A name v) (gnma_port_ieee8021x_guest_vlan_get A name) v"
    unfolding gnma_port_ieee8021x_guest_vlan_set_def
    by (rule leaf_reads_back[OF assms])
       (auto simp: leaf_paths_def leaf_values(3) dnum_def gnma_port_ieee8021x_guest_vlan_get_def simp del: of_int_uint)
  show "reads_back (gnma_port_ieee8021x_unauthorized_vlan_set A name v) (gnma_port_ieee8021x_unauthorized_vlan_get A name) v"
    unfolding gnma_port_ieee8021x_unauthorized_vlan_set_def
    by (rule leaf_reads_back[OF assms])
       (auto simp: leaf_paths_def leaf_values(3) dnum_def gnma_port_ieee8021x_unauthorized_vlan_get_def simp del: of_int_uint)
qed

lemma poe_read_back:
  assumes "switch_keeps A name vid"
  shows "reads_back (gnma_poe_port_admin_mode_set A name b) (gnma_poe_port_admin_mode_get A name) b"
    and "reads_back (gnma_poe_port_detection_mode_set A name d) (gnma_poe_port_detection_mode_get A name) d"
    and "reads_back (gnma_poe_port_priority_set A name p) (gnma_poe_port_priority_get A name) p"
    and "reads_back (gnma_poe_power_mgmt_set A m) (gnma_poe_power_mgmt_get A) m"
proof -
  show "reads_back (gnma_poe_port_admin_mode_set A name b) (gnma_poe_port_admin_mode_get A name) b"
    unfolding gnma_poe_port_admin_mode_set_def
    by (rule leaf_reads_back[OF assms]) (auto simp: leaf_paths_def gnma_poe_port_admin_mode_get_def cjson_access Let_def)
  show "reads_back (gnma_poe_port_detection_mode_set A name d) (gnma_poe_port_detection_mode_get A name) d"
    unfolding gnma_poe_port_detection_mode_set_def
    by (rule leaf_reads_back[OF assms])
       (auto simp: leaf_paths_def leaf_values(1) gnma_poe_port_detection_mode_get_def detection_str_def split: poe_detection.splits)
  show "reads_back (gnma_poe_port_priority_set A name p) (gnma_poe_port_priority_get A name) p"
    unfolding gnma_poe_port_priority_set_def
    by (rule leaf_reads_back[OF assms])
       (auto simp: leaf_paths_def leaf_values(1) gnma_poe_port_priority_get_def priority_str_def split: poe_port_priority.splits)
  show "reads_back (gnma_poe_power_mgmt_set A m) (gnma_poe_power_mgmt_get A) m"
    unfolding gnma_poe_power_mgmt_set_def
    by (rule leaf_reads_back[OF assms])
       (auto simp: leaf_paths_def leaf_values(1) gnma_poe_power_mgmt_get_def mgmt_str_def split: poe_power_mgmt.splits)
qed

lemma relay_read_back:
  assumes "switch_keeps A name vid"
  shows "reads_back (gnma_vlan_dhcp_relay_policy_action_set A vid a) (gnma_vlan_dhcp_relay_policy_action_get A vid) a"
    and "reads_back (gnma_vlan_dhcp_relay_max_hop_cnt_set A vid n) (gnma_vlan_dhcp_relay_max_hop_cnt_get A vid) n"
    and "c \<noteq> CIRCUIT_ID_I \<Longrightarrow> reads_back (gnma_vlan_dhcp_relay_ciruit_id_set A vid c) (gnma_vlan_dhcp_relay_ciruit_id_get A vid) c"
proof -
  show "reads_back (gnma_vlan_dhcp_relay_policy_action_set A vid a) (gnma_vlan_dhcp_relay_policy_action_get A vid) a"
    unfolding gnma_vlan_dhcp_relay_policy_action_set_def
    by (rule relay_reads_back[OF assms])
       (auto simp: leaf_paths_def leaf_values(2) gnma_vlan_dhcp_relay_policy_action_get_def policy_str_def split: relay_policy.splits)
  show "reads_back (gnma_vlan_dhcp_relay_max_hop_cnt_set A vid n) (gnma_vlan_dhcp_relay_max_hop_cnt_get A vid) n"
    unfolding gnma_vlan_dhcp_relay_max_hop_cnt_set_def
    by (rule relay_reads_back[OF assms])
       (auto simp: leaf_paths_def leaf_values(3) dnum_def gnma_vlan_dhcp_relay_max_hop_cnt_get_def simp del: of_int_uint)
  show "reads_back (gnma_vlan_dhcp_relay_ciruit_id_set A vid c) (gnma_vlan_dhcp_relay_ciruit_id_get A vid) c" if "c \<noteq> CIRCUIT_ID_I"
    unfolding gnma_vlan_dhcp_relay_ciruit_id_set_def
    by (rule relay_reads_back[OF assms])
       (use that in \<open>auto simp: leaf_paths_def leaf_values(2) gnma_vlan_dhcp_relay_ciruit_id_get_def circuit_str_def split: relay_circuit.splits\<close>)
qed

lemma flags_read_back:
  assumes "switch_keeps A name vid"
  shows "reads_back (gnma_ieee8021x_system_auth_control_set A b) (gnma_ieee8021x_system_auth_control_get A) b"
    and "reads_back (gnma_ieee8021x_das_bounce_port_ignore_set A b) (gnma_ieee8021x_das_bounce_port_ignore_get A) b"
    and "reads_back (gnma_ieee8021x_das_disable_port_ignore_set A b) (gnma_ieee8021x_das_disable_port_ignore_get A) b"
    and "reads_back (gnma_ieee8021x_das_ignore_server_key_set A b) (gnma_ieee8021x_das_ignore_server_key_get A) b"
    and "reads_back (gnma_ieee8021x_das_ignore_session_key_set A b) (gnma_ieee8021x_das_ignore_session_key_get A) b"
proof -
  have flag: "reads_back (gnmi_json_object_set A pre p (DObj [(leaf, DBool b)])) (reads A 1 p (flag_leaf A leaf)) b"
    if "(p, p, leaf) \<in> set (leaf_paths name vid)" "pre \<le> 1" for p leaf pre
    by (rule leaf_reads_back[OF assms that(1)]) (use that(2) in \<open>auto simp: leaf_values(4)\<close>)
  show "reads_back (gnma_ieee8021x_system_auth_control_set A b) (gnma_ieee8021x_system_auth_control_get A) b"
    unfolding gnma_ieee8021x_system_auth_control_set_def gnma_ieee8021x_system_auth_control_get_def
    by (rule flag) (simp_all add: leaf_paths_def)
  show "reads_back (gnma_ieee8021x_das_bounce_port_ignore_set A b) (gnma_ieee8021x_das_bounce_port_ignore_get A) b"
    unfolding gnma_ieee8021x_das_bounce_port_ignore_set_def gnma_ieee8021x_das_bounce_port_ignore_get_def
    by (rule flag) (simp_all add: leaf_paths_def)
  show "reads_back (gnma_ieee8021x_das_disable_port_ignore_set A b) (gnma_ieee8021x_das_disable_port_ignore_get A) b"
    unfolding gnma_ieee8021x_das_disable_port_ignore_set_def gnma_ieee8021x_das_disable_port_ignore_get_def
    by (rule flag) (simp_all add: leaf_paths_def)
  show "reads_back (gnma_ieee8021x_das_ignore_server_key_set A b) (gnma_ieee8021x_das_ignore_server_key_get A) b"
    unfolding gnma_ieee8021x_das_ignore_server_key_set_def gnma_ieee8021x_das_ignore_server_key_get_def
    by (rule flag) (simp_all add: leaf_paths_def)
  show "reads_back (gnma_ieee8021x_das_ignore_session_key_set A b) (gnma_ieee8021x_das_ignore_session_key_get A) b"
    unfolding gnma_ieee8021x_das_ignore_session_key_set_def gnma_ieee8021x_das_ignore_session_key_get_def
    by (rule flag) (simp_all add: leaf_paths_def)
qed


text \<open>The identifier of the interface is set as \<open>%i\<close> and expected as \<open>%u\<close>.\<close>

lemma circuit_interface_refused:
  assumes "switch_keeps A name vid"
  shows "fst (gnma_vlan_dhcp_relay_ciruit_id_set A vid CIRCUIT_ID_I h) = 0 \<and>
    gnma_vlan_dhcp_relay_ciruit_id_get A vid (snd (gnma_vlan_dhcp_relay_ciruit_id_set A vid CIRCUIT_ID_I h)) old = Some (- 1, old)"
proof -
  let ?d = "DStr (Some ''%i'')" and ?p = "relay_path vid ''/agent-information-option/config/circuit-id''"
  let ?leaf = "''openconfig-relay-agent:circuit-id''"
  have "stored_at A (relay_set A ?p (DObj [(?leaf, ?d)])) ?p ?leaf ?d"
    by (rule switch_keeps_leaf(2)[OF assms]) (simp_all add: leaf_paths_def)
  then obtain j v where "fst (relay_set A ?p (DObj [(?leaf, ?d)]) h) = 0"
    "fetch A 1 ?p (snd (relay_set A ?p (DObj [(?leaf, ?d)]) h)) = Some j" "obj_item (g_json A) j ?leaf = Some v"
    "represents (g_json A) v ?d" unfolding stored_at_def by blast
  then show ?thesis
    by (simp add: gnma_vlan_dhcp_relay_ciruit_id_set_def gnma_vlan_dhcp_relay_ciruit_id_get_def circuit_str_def reads_def
        checked_leaf_def cjson_access)
qed

section \<open>A switch that keeps its settings\<close>

text \<open>A text is the document itself; the switch answers a query of the state with the last value of the
  configuration.\<close>

fun json_of :: "jdoc \<Rightarrow> json" where
  "json_of (DStr s) = (case s of None \<Rightarrow> JNull | Some s \<Rightarrow> JStr s)"
| "json_of (DNum x) = (case x of Fin q \<Rightarrow> JNum q | _ \<Rightarrow> JNull)"
| "json_of (DRaw s) = JNull"
| "json_of (DBool b) = JBool b"
| "json_of (DArr ds) = JArr (map json_of ds)"
| "json_of (DObj fs) = JObj (map (\<lambda>(k, d). (k, json_of d)) fs)"

fun last_set :: "'t request list \<Rightarrow> string list \<Rightarrow> 't option" where
  "last_set [] p = None"
| "last_set (Set c t # qs) p = (if c = p then Some t else last_set qs p)"
| "last_set (_ # qs) p = last_set qs p"

definition config_path :: "string list \<Rightarrow> string list" where
  "config_path = map (\<lambda>e. if e = ''state'' then ''config'' else e)"

definition demo_gnmi :: "(json, jdoc) gnmi" where
  "demo_gnmi = \<lparr>g_json = json_api, g_parse = (\<lambda>d. Some (json_of d)), g_print = (\<lambda>d. d), g_size = (\<lambda>_. 0), g_calls = (\<lambda>_. 50),
     g_ok = (\<lambda>h q. True), g_get = (\<lambda>h p. map_option (\<lambda>t. [[Some t]]) (last_set (rev h) (config_path p)))\<rparr>"

lemma json_of_scalar: "scalar d \<Longrightarrow> represents json_api (json_of d) d"
  by (cases d) (auto split: dbl.splits)

lemma demo_keeps:
  assumes "config_path (convertYangPath2ProtoPath st) = convertYangPath2ProtoPath cfg"
  shows "keeps_leaf demo_gnmi (cfg, st, leaf)"
  using json_of_scalar by (auto simp: keeps_leaf_def answers_def demo_gnmi_def assms)

lemma demo_switch_keeps: "switch_keeps demo_gnmi ''Ethernet1'' 7"
proof -
  have "list_all (\<lambda>(cfg, st, leaf). config_path (convertYangPath2ProtoPath st) = convertYangPath2ProtoPath cfg) (leaf_paths ''Ethernet1'' 7)"
    by code_simp
  then have "list_all (keeps_leaf demo_gnmi) (leaf_paths ''Ethernet1'' 7)"
    using demo_keeps by (fastforce simp: list_all_iff)
  then show ?thesis by (simp add: switch_keeps_def takes_all_def demo_gnmi_def)
qed


theorem one_request_per_call_witness:
  "\<exists>q. perform demo_gnmi (PoeReset ''Ethernet1'') [] = (0, [q]) \<and> g_ok demo_gnmi [] q"
proof -
  have run: "perform demo_gnmi (PoeReset ''Ethernet1'') [] = (0, [Rpc ''ResetPoe'' [''Ethernet1'']])"
    by (simp add: perform_def gnma_poe_port_reset_def gnmi_gnoi_poe_port_reset_def call_def demo_gnmi_def)
  show ?thesis using one_request_per_call[OF run] run by (auto simp: honest_def)
qed

section \<open>Members of VLANs\<close>

text \<open>The entry of a member as it is created: VLAN, port and whether it is tagged.\<close>

definition member_entry :: "'j cjson \<Rightarrow> 'j \<Rightarrow> nat \<times> nat \<times> bool \<Rightarrow> bool" where
  "member_entry J it m = (case m of (v, p, t) \<Rightarrow>
     v < GNMA_MAX_VLANS \<and> p < GNMA_MAX_PORT_ID \<and>
     cJSON_GetStringValue J (cJSON_GetObjectItemCaseSensitive J (Some it) ''name'') = Some (VLAN_TO_NAME v) \<and>
     cJSON_GetStringValue J (cJSON_GetObjectItemCaseSensitive J (Some it) ''ifname'') = Some (PID_TO_NAME p) \<and>
     cJSON_IsString J (cJSON_GetObjectItemCaseSensitive J (Some it) ''tagging_mode'') \<and>
     cJSON_GetStringValue J (cJSON_GetObjectItemCaseSensitive J (Some it) ''tagging_mode'') =
       Some (if t then ''tagged'' else ''untagged''))"

definition bmap_sized :: "(nat \<Rightarrow> bitmap \<times> bitmap) \<Rightarrow> bool" where
  "bmap_sized bm \<longleftrightarrow> (\<forall>v. length (fst (bm v)) = 8 \<and> length (snd (bm v)) = 8)"

lemma set_member_exact:
  assumes "bmap_sized bm" "p < GNMA_MAX_PORT_ID"
  shows "\<exists>bm'. set_member v p t bm = Some bm' \<and> bmap_sized bm' \<and>
    (\<forall>w q. (bm_test (fst (bm' w)) q \<longleftrightarrow> w = v \<and> q = p \<or> bm_test (fst (bm w)) q) \<and>
      (bm_test (snd (bm' w)) q \<longleftrightarrow> t \<and> w = v \<and> q = p \<or> bm_test (snd (bm w)) q))"
proof -
  have len: "length (fst (bm v)) = 8" "length (snd (bm v)) = 8" using assms(1) by (simp_all add: bmap_sized_def)
  have "p < 32 * 8" using assms(2) by (simp add: GNMA_MAX_PORT_ID_def)
  then obtain m n where mn: "BITMAP_SET_BIT (fst (bm v)) p = Some m" "BITMAP_SET_BIT (snd (bm v)) p = Some n"
    using len by (metis set_bit_Some)
  have "length m = 8" "length n = 8" using mn len by (simp_all add: length_set_bit)
  then show ?thesis using assms(1) mn bm_test_set_bit[OF mn(1)] bm_test_set_bit[OF mn(2)]
    by (cases t) (auto simp: set_member_def bmap_sized_def)
qed

lemma member_loop_exact:
  assumes "list_all2 (member_entry J) its ms" "bmap_sized bm"
  shows "\<exists>bm'. member_loop J its bm = Some (0, bm') \<and> bmap_sized bm' \<and>
    (\<forall>w q. (bm_test (fst (bm' w)) q \<longleftrightarrow> (\<exists>t. (w, q, t) \<in> set ms) \<or> bm_test (fst (bm w)) q) \<and>
      (bm_test (snd (bm' w)) q \<longleftrightarrow> (w, q, True) \<in> set ms \<or> bm_test (snd (bm w)) q))"
  using assms
proof (induction its ms arbitrary: bm rule: list_all2_induct)
  case (Cons it its m ms)
  obtain v p t where m: "m = (v, p, t)" by (cases m)
  have e: "member_entry J it (v, p, t)" using Cons.hyps(1) m by simp
  have v: "v < GNMA_MAX_VLANS" and p: "p < GNMA_MAX_PORT_ID" using e by (simp_all add: member_entry_def)
  obtain b1 where b1: "set_member v p t bm = Some b1" "bmap_sized b1" and
    t1: "\<And>w q. (bm_test (fst (b1 w)) q \<longleftrightarrow> w = v \<and> q = p \<or> bm_test (fst (bm w)) q) \<and>
      (bm_test (snd (b1 w)) q \<longleftrightarrow> t \<and> w = v \<and> q = p \<or> bm_test (snd (bm w)) q)"
    using set_member_exact[OF Cons.prems p] by blast
  have scan: "scan_lit ''Vlan'' 16 (VLAN_TO_NAME v) = ScanVal v" "scan_lit ''Ethernet'' 16 (PID_TO_NAME p) = ScanVal p"
    using v p unfolding PID_TO_NAME_def VLAN_TO_NAME_def scan_lit_append
    by (simp_all add: scan_dec GNMA_MAX_VLANS_def GNMA_MAX_PORT_ID_def)
  have "member_loop J (it # its) bm = member_loop J its b1"
    using e v p b1(1) scan by (cases t) (simp_all add: member_entry_def)
  moreover obtain b2 where "member_loop J its b1 = Some (0, b2)" "bmap_sized b2"
    "\<And>w q. (bm_test (fst (b2 w)) q \<longleftrightarrow> (\<exists>t. (w, q, t) \<in> set ms) \<or> bm_test (fst (b1 w)) q) \<and>
      (bm_test (snd (b2 w)) q \<longleftrightarrow> (w, q, True) \<in> set ms \<or> bm_test (snd (b1 w)) q)"
    using Cons.IH[OF b1(2)] by blast
  ultimately show ?case using t1 by (intro exI[of _ b2]) (auto simp: m)
qed simp

definition bmap_zero :: "nat \<Rightarrow> bitmap \<times> bitmap" where
  "bmap_zero = (\<lambda>_. (replicate 8 0, replicate 8 0))"

lemma bmap_zero_empty [simp]: "\<not> bm_test (fst (bmap_zero v)) p" "\<not> bm_test (snd (bmap_zero v)) p" "bmap_sized bmap_zero"
  by (auto simp: bmap_zero_def bm_test_iff bmap_sized_def)

text \<open>C15. The members of the VLANs are read exactly: from a list of members in the form in which they are created,
  with VLANs and ports within the arrays, the query sets for every VLAN the bits of its members
  and among them those of the tagged ones, no other bit, and never writes outside the arrays.\<close>

theorem member_bmap_exact:
  assumes "fetch A 0 ''/sonic-vlan:sonic-vlan/VLAN_MEMBER/VLAN_MEMBER_LIST'' h = Some j"
    and "obj_item (g_json A) j ''sonic-vlan:VLAN_MEMBER_LIST'' = Some a" "is_array (g_json A) a"
    and "list_all2 (member_entry (g_json A)) (children (g_json A) a) ms"
  shows "\<exists>bm. adapter_vlan_member_bmap_get A h bmap_zero = Some (0, bm) \<and>
    (\<forall>v p. (bm_test (fst (bm v)) p \<longleftrightarrow> (\<exists>t. (v, p, t) \<in> set ms)) \<and> (bm_test (snd (bm v)) p \<longleftrightarrow> (v, p, True) \<in> set ms))"
proof -
  have "adapter_vlan_member_bmap_get A h bmap_zero = member_loop (g_json A) (children (g_json A) a) bmap_zero"
    using assms(1-3) by (simp add: adapter_vlan_member_bmap_get_def cjson_access Let_def)
  then show ?thesis using member_loop_exact[OF assms(4), of bmap_zero] by auto
qed

text \<open>Two members as the adapter creates them.\<close>

definition members_answer :: jdoc where
  "members_answer = DObj [(''sonic-vlan:VLAN_MEMBER_LIST'', DArr (map (\<lambda>(v, p, t). DObj
     [(''name'', DStr (Some (VLAN_TO_NAME v))), (''ifname'', DStr (Some (PID_TO_NAME p))),
      (''tagging_mode'', DStr (Some (if t then ''tagged'' else ''untagged'')))]) [(10, 1, True), (20, 2, False)]))]"

lemma members_answer_entries:
  "\<exists>a. obj_item json_api (json_of members_answer) ''sonic-vlan:VLAN_MEMBER_LIST'' = Some a \<and> is_array json_api a \<and>
     list_all2 (member_entry json_api) (children json_api a) [(10, 1, True), (20, 2, False)]"
  by (simp add: members_answer_def member_entry_def cjson_access GNMA_MAX_VLANS_def GNMA_MAX_PORT_ID_def)

theorem member_bmap_exact_witness:
  "\<exists>bm. adapter_vlan_member_bmap_get (demo_gnmi\<lparr>g_get := \<lambda>_ _. Some [[Some members_answer]]\<rparr>) [] bmap_zero = Some (0, bm) \<and>
     bm_test (fst (bm 10)) 1 \<and> bm_test (snd (bm 10)) 1 \<and> bm_test (fst (bm 20)) 2 \<and> \<not> bm_test (snd (bm 20)) 2 \<and> \<not> bm_test (fst (bm 10)) 2"
proof -
  let ?A = "demo_gnmi\<lparr>g_get := \<lambda>_ _. Some [[Some members_answer]]\<rparr>"
  have J: "g_json ?A = json_api" by (simp add: demo_gnmi_def)
  have fetch: "fetch ?A 0 ''/sonic-vlan:sonic-vlan/VLAN_MEMBER/VLAN_MEMBER_LIST'' [] = Some (json_of members_answer)"
    by (simp add: fetch_def gnmi_jsoni_get_alloc_def gnmi_jsoni_get_internal_def demo_gnmi_def)
  obtain a where "obj_item (g_json ?A) (json_of members_answer) ''sonic-vlan:VLAN_MEMBER_LIST'' = Some a" "is_array (g_json ?A) a"
    "list_all2 (member_entry (g_json ?A)) (children (g_json ?A) a) [(10, 1, True), (20, 2, False)]"
    using members_answer_entries unfolding J by blast
  from member_bmap_exact[OF fetch this] show ?thesis by auto
qed

section \<open>Lists of ports\<close>

text \<open>C16. The list of ports is read in two calls. For an answer with valid port names, fewer than 65536, a call with
  \<open>n\<close> places stores the first \<open>n\<close> names in order and reports the number of all of them, with an
  overflow exactly if they do not fit; a call with that number of places returns exactly the
  names.\<close>

theorem port_list_contract:
  assumes "fetch A 0 ''/sonic-port:sonic-port/PORT/PORT_LIST'' h = Some j"
    and "obj_item (g_json A) j ''sonic-port:PORT_LIST'' = Some a" "is_array (g_json A) a"
    and "ports_named (g_json A) (children (g_json A) a) names" "length names < 65536"
  shows "adapter_port_list_get A h ar =
      (if length names > length ar then GNMA_ERR_OVERFLOW else 0, length names,
       take (length ar) (names @ replicate (length ar) [])) \<and>
    (length ar = length names \<longrightarrow> adapter_port_list_get A h ar = (0, length names, names))"
proof -
  have len: "length (children (g_json A) a) = length names" using assms(4) by (metis length_map ports_named_def)
  have "fill_ports (g_json A) (children (g_json A) a) 0 (take (length ar) ([] @ replicate (length ar) [])) =
      (True, 0 + length (children (g_json A) a), take (length ar) ([] @ names @ replicate (length ar) []))"
    by (rule fill_ports_exact[OF assms(4)]) (use len assms(5) in simp_all)
  then have "fill_ports (g_json A) (children (g_json A) a) 0 (replicate (length ar) []) =
      (True, length names, take (length ar) (names @ replicate (length ar) []))" by (simp add: len del: take_append)
  then have "adapter_port_list_get A h ar =
      (if length names > length ar then GNMA_ERR_OVERFLOW else 0, length names,
       take (length ar) (names @ replicate (length ar) []))"
    using assms(1-3) by (simp add: adapter_port_list_get_def cjson_access Let_def del: take_append)
  then show ?thesis by simp
qed

theorem port_list_contract_witness:
  "\<exists>A :: (json, jdoc) gnmi. adapter_port_list_get A [] [] = (GNMA_ERR_OVERFLOW, 2, []) \<and>
     adapter_port_list_get A [] [[], []] = (0, 2, [''Ethernet0'', ''Ethernet1''])"
proof -
  let ?d = "DObj [(''sonic-port:PORT_LIST'', DArr [DObj [(''ifname'', DStr (Some ''Ethernet0''))], DObj [(''ifname'', DStr (Some ''Ethernet1''))]])]"
  let ?A = "demo_gnmi\<lparr>g_get := \<lambda>_ _. Some [[Some ?d]]\<rparr>"
  have fetch: "fetch ?A 0 ''/sonic-port:sonic-port/PORT/PORT_LIST'' [] = Some (json_of ?d)"
    by (simp add: fetch_def gnmi_jsoni_get_alloc_def gnmi_jsoni_get_internal_def demo_gnmi_def)
  have J: "g_json ?A = json_api" by (simp add: demo_gnmi_def)
  let ?a = "JArr [JObj [(''ifname'', JStr ''Ethernet0'')], JObj [(''ifname'', JStr ''Ethernet1'')]]"
  have a: "obj_item (g_json ?A) (json_of ?d) ''sonic-port:PORT_LIST'' = Some ?a" "is_array (g_json ?A) ?a"
    "ports_named (g_json ?A) (children (g_json ?A) ?a) [''Ethernet0'', ''Ethernet1'']"
    unfolding J by (simp_all add: ports_named_def cjson_access GNMA_PORT_KEY_LEN_def)
  have "adapter_port_list_get ?A [] [] = (GNMA_ERR_OVERFLOW, 2, [])"
    using port_list_contract[OF fetch a, of "[]"] by simp
  moreover have "adapter_port_list_get ?A [] [[], []] = (0, 2, [''Ethernet0'', ''Ethernet1''])"
    using port_list_contract[OF fetch a, of "[[], []]"] by simp
  ultimately show ?thesis by blast
qed

end
