(* ===== verification/Adapter_Read.thy ===== *)
theory Adapter_Read
  imports Adapter_Props Plat_Read
begin

text \<open>
  The queries of the management adapter (\<open>gnma/gnma_common.c\<close>) that the platform gathers its state with:
  counters, texts copied into a buffer, the forwarding table, dynamic routes, neighbours, addresses,
  the description of the device; and the adapter's system commands.
\<close>

section \<open>Counters\<close>

definition gnma_port_stats_type_to_string :: "gnma_port_stat_type_t \<Rightarrow> string" where
  "gnma_port_stats_type_to_string c =
     (case c of
        GNMA_PORT_STAT_IN_OCTETS \<Rightarrow> ''in-octets'' | GNMA_PORT_STAT_IN_DISCARDS \<Rightarrow> ''in-discards'' | GNMA_PORT_STAT_IN_ERRORS \<Rightarrow> ''in-errors''
      | GNMA_PORT_STAT_IN_BCAST_PKTS \<Rightarrow> ''in-broadcast-pkts'' | GNMA_PORT_STAT_IN_MCAST_PKTS \<Rightarrow> ''in-multicast-pkts'' | GNMA_PORT_STAT_IN_UCAST_PKTS \<Rightarrow> ''in-unicast-pkts''
      | GNMA_PORT_STAT_OUT_OCTETS \<Rightarrow> ''out-octets'' | GNMA_PORT_STAT_OUT_DISCARDS \<Rightarrow> ''out-discards'' | GNMA_PORT_STAT_OUT_ERRORS \<Rightarrow> ''out-errors''
      | GNMA_PORT_STAT_OUT_BCAST_PKTS \<Rightarrow> ''out-broadcast-pkts'' | GNMA_PORT_STAT_OUT_MCAST_PKTS \<Rightarrow> ''out-multicast-pkts'' | GNMA_PORT_STAT_OUT_UCAST_PKTS \<Rightarrow> ''out-unicast-pkts'')"

text \<open>\<open>strtoull\<close> with base 10: a value that is too large is the largest one, a minus sign negates.\<close>

definition strtoull :: "string \<Rightarrow> u64" where
  "strtoull s =
     (let s = dropWhile is_ws s;
          neg = (s \<noteq> [] \<and> hd s = CHR ''-'');
          s = (if s \<noteq> [] \<and> (hd s = CHR ''-'' \<or> hd s = CHR ''+'') then List.tl s else s);
          n = scan_digits 0 s
      in if n \<ge> 2 ^ 64 then - 1 else if neg then - of_nat n else of_nat n)"

text \<open>The code and the counters; those that are missing are 0. The counters passed in stay when the query fails.\<close>

definition gnma_port_stats_get :: "('j, 't) gnmi \<Rightarrow> string \<Rightarrow> gnma_port_stat_type_t list \<Rightarrow> 't trace \<Rightarrow> u64 list \<Rightarrow> int \<times> u64 list" where
  "gnma_port_stats_get A name ids h old =
     (case fetch A 1 (''/openconfig-interfaces:interfaces/interface[name='' @ name @ '']/state/counters'') h of
        None \<Rightarrow> (- 1, old)
      | Some j \<Rightarrow>
          let J = g_json A; cs = cJSON_GetObjectItemCaseSensitive J (Some j) ''openconfig-interfaces:counters'' in
          if \<not> cJSON_IsObject J cs then (- 1, map (\<lambda>_. 0) ids)
          else (0, map (\<lambda>c. let it = cJSON_GetObjectItemCaseSensitive J cs (gnma_port_stats_type_to_string c) in
                  if cJSON_IsString J it then (case cJSON_GetStringValue J it of None \<Rightarrow> 0 | Some s \<Rightarrow> strtoull s) else 0) ids))"

definition gnma_ieee8021x_das_dac_stats_type_to_string :: "gnma_ieee8021x_das_dac_stat_type_t \<Rightarrow> string" where
  "gnma_ieee8021x_das_dac_stats_type_to_string c =
     (case c of
        DAC_STAT_IN_COA_PKTS \<Rightarrow> ''num_coa_requests_received''
      | DAC_STAT_OUT_COA_ACK_PKTS \<Rightarrow> ''num_coa_ack_responses_sent''
      | DAC_STAT_OUT_COA_NAK_PKTS \<Rightarrow> ''num_coa_nak_responses_sent''
      | DAC_STAT_IN_COA_IGNORED_PKTS \<Rightarrow> ''num_coa_requests_ignored''
      | DAC_STAT_IN_COA_WRONG_ATTR_PKTS \<Rightarrow> ''num_coa_missing_unsupported_attributes_requests''
      | DAC_STAT_IN_COA_WRONG_ATTR_VALUE_PKTS \<Rightarrow> ''num_coa_invalid_attribute_value_requests''
      | DAC_STAT_IN_COA_WRONG_SESSION_CONTEXT_PKTS \<Rightarrow> ''num_coa_session_context_not_found_requests''
      | DAC_STAT_IN_COA_ADMINISTRATIVELY_PROHIBITED_REQ_PKTS \<Rightarrow> ''num_coa_administratively_prohibited_requests'')"

fun dac_counters :: "'j cjson \<Rightarrow> 'j option \<Rightarrow> gnma_ieee8021x_das_dac_stat_type_t list \<Rightarrow> u64 list option" where
  "dac_counters J cs [] = Some []"
| "dac_counters J cs (c # ids) =
     do {
       w \<leftarrow> (let it = cJSON_GetObjectItemCaseSensitive J cs (gnma_ieee8021x_das_dac_stats_type_to_string c) in
             if cJSON_IsNumber J it then dbl_to_word (cJSON_GetNumberValue J it) else Some 0);
       ws \<leftarrow> dac_counters J cs ids;
       Some (w # ws)
     }"

definition gnma_iee8021x_das_dac_global_stats_get ::
  "('j, 't) gnmi \<Rightarrow> gnma_ieee8021x_das_dac_stat_type_t list \<Rightarrow> 't trace \<Rightarrow> u64 list \<Rightarrow> (int \<times> u64 list) option" where
  "gnma_iee8021x_das_dac_global_stats_get A ids h old =
     reads A 1 ''/sonic-das:sonic-das/DAS_GLOBAL_COUNTER_TABLE''
       (\<lambda>j. let J = g_json A; table = cJSON_GetObjectItemCaseSensitive J (Some j) ''sonic-das:DAS_GLOBAL_COUNTER_TABLE'';
               cs = cJSON_GetArrayItem J (cJSON_GetObjectItemCaseSensitive J table ''DAS_GLOBAL_COUNTER_TABLE_LIST'') 0
           in if \<not> cJSON_IsObject J cs then Some (0, map (\<lambda>_. 0) ids) else map_option (Pair 0) (dac_counters J cs ids)) h old"

section \<open>Texts\<close>

text \<open>The answer is read into a buffer of \<open>n\<close> bytes, and a part of it is printed back into the buffer. \<open>render v k\<close>
  is \<open>cJSON_PrintPreallocated\<close> with room for \<open>k\<close> bytes.\<close>

definition buffer_get ::
  "('j, 't) gnmi \<Rightarrow> ('j \<Rightarrow> nat \<Rightarrow> 't option) \<Rightarrow> nat \<Rightarrow> string \<Rightarrow> nat \<Rightarrow> ('j \<Rightarrow> 'j option) \<Rightarrow> 't trace \<Rightarrow> int \<times> 't option" where
  "buffer_get A render pre path n pick h =
     (if g_calls A h < pre then (- 1, None)
      else case gnmi_jsoni_get A path n h of
        None \<Rightarrow> (- 1, None)
      | Some t \<Rightarrow>
          (case Option.bind (g_parse A t) pick of
             None \<Rightarrow> (- 1, Some t)
           | Some v \<Rightarrow> (case render v (n - 1) of None \<Rightarrow> (1, None) | Some t \<Rightarrow> (0, Some t))))"

definition gnma_port_lldp_peer_info_get ::
  "('j, 't) gnmi \<Rightarrow> ('j \<Rightarrow> nat \<Rightarrow> 't option) \<Rightarrow> string \<Rightarrow> nat \<Rightarrow> 't trace \<Rightarrow> int \<times> 't option" where
  "gnma_port_lldp_peer_info_get A render name n =
     buffer_get A render 1 (''/openconfig-lldp:lldp/interfaces/interface[name='' @ name @ '']/neighbors/neighbor[id='' @ name @ '']'') n
       (\<lambda>j. let J = g_json A; neigh = cJSON_GetObjectItemCaseSensitive J (Some j) ''openconfig-lldp:neighbor'' in
            if cJSON_IsArray J neigh then cJSON_GetArrayItem J neigh 0 else None)"

definition gnma_poe_state_get :: "('j, 't) gnmi \<Rightarrow> ('j \<Rightarrow> nat \<Rightarrow> 't option) \<Rightarrow> nat \<Rightarrow> 't trace \<Rightarrow> int \<times> 't option" where
  "gnma_poe_state_get A render n =
     buffer_get A render 1 ''/openconfig-poe:poe/global/state/'' n
       (\<lambda>j. cJSON_GetObjectItemCaseSensitive (g_json A) (Some j) ''openconfig-poe:state'')"

definition gnma_poe_port_state_get ::
  "('j, 't) gnmi \<Rightarrow> ('j \<Rightarrow> nat \<Rightarrow> 't option) \<Rightarrow> string \<Rightarrow> nat \<Rightarrow> 't trace \<Rightarrow> int \<times> 't option" where
  "gnma_poe_port_state_get A render name n =
     buffer_get A render 1 (''/openconfig-interfaces:interfaces/interface[name='' @ name @
         '']/openconfig-if-ethernet:ethernet/openconfig-if-poe:poe/state'') n
       (\<lambda>j. cJSON_GetObjectItemCaseSensitive (g_json A) (Some j) ''openconfig-if-poe:state'')"

definition gnma_rebootcause_get :: "('j, 't) gnmi \<Rightarrow> ('j \<Rightarrow> nat \<Rightarrow> 't option) \<Rightarrow> nat \<Rightarrow> 't trace \<Rightarrow> int \<times> 't option" where
  "gnma_rebootcause_get A render n =
     buffer_get A render 1 ''/openconfig-system:system/openconfig-system-ext:infra/state/reboot-cause'' n
       (\<lambda>j. if cJSON_GetStringValue (g_json A) (cJSON_GetObjectItemCaseSensitive (g_json A) (Some j)
              ''openconfig-system-ext:reboot-cause'') = None then None else Some j)"

definition gnma_ieee8021x_system_auth_clients_get :: "('j, 't) gnmi \<Rightarrow> nat \<Rightarrow> 't trace \<Rightarrow> int \<times> 't option" where
  "gnma_ieee8021x_system_auth_clients_get A n h =
     (case gnmi_jsoni_get A ''/openconfig-authmgr:authmgr/authmgr-authenticated-clients/'' n h of
        None \<Rightarrow> (- 1, None) | Some t \<Rightarrow> (0, Some t))"

section \<open>The forwarding table\<close>

text \<open>The integer value of a JSON number: the library saturates it.\<close>

definition valueint :: "dbl \<Rightarrow> int" where
  "valueint d = (case d of Fin q \<Rightarrow> if q \<ge> 2147483647 then 2147483647 else if q \<le> - 2147483648 then - 2147483648 else trunc_rat q | _ \<Rightarrow> 0)"

definition fdb_entry :: "'j cjson \<Rightarrow> 'j \<Rightarrow> gnma_fdb_entry option" where
  "fdb_entry J it =
     (let state = cJSON_GetObjectItemCaseSensitive J (Some it) ''state'';
          mac = cJSON_GetObjectItemCaseSensitive J state ''mac-address'';
          vlan = cJSON_GetObjectItemCaseSensitive J state ''vlan'';
          type = cJSON_GetObjectItemCaseSensitive J state ''entry-type'';
          f = cJSON_GetObjectItemCaseSensitive J (Some it) ''interface'';
          f = cJSON_GetObjectItemCaseSensitive J f ''interface-ref'';
          f = cJSON_GetObjectItemCaseSensitive J f ''state'';
          port = cJSON_GetObjectItemCaseSensitive J f ''interface''
      in if \<not> cJSON_IsString J mac \<or> \<not> cJSON_IsNumber J vlan \<or> \<not> cJSON_IsString J type \<or> \<not> cJSON_IsString J port then None
         else do {
           m \<leftarrow> cJSON_GetStringValue J mac;
           t \<leftarrow> cJSON_GetStringValue J type;
           p \<leftarrow> cJSON_GetStringValue J port;
           Some \<lparr>fdb_port = take 32 p, fdb_dynamic = (t \<noteq> ''STATIC''), fdb_vid = valueint (cJSON_GetNumberValue J vlan), fdb_mac = take 18 m\<rparr>
         })"

text \<open>The entries are stored one after the other in an array of \<open>n\<close> places; nothing checks that they are as many as
  the counters say.\<close>

fun fdb_loop :: "'j cjson \<Rightarrow> nat \<Rightarrow> 'j list \<Rightarrow> gnma_fdb_entry list \<Rightarrow> nat \<Rightarrow> (int \<times> nat \<times> gnma_fdb_entry list) option" where
  "fdb_loop J n [] es sz = Some (0, sz, es)"
| "fdb_loop J n (it # its) es sz =
     (case fdb_entry J it of
        None \<Rightarrow> Some (- 1, sz, es)
      | Some e \<Rightarrow> if length es \<ge> n then None else fdb_loop J n its (es @ [e]) (Suc (length es)))"

definition fdb_path :: string where
  "fdb_path = ''/openconfig-network-instance:network-instances/network-instance[name=default]/fdb''"

text \<open>\<open>room\<close> is whether an array is passed; the size of the array is \<open>n\<close>.\<close>

definition gnma_mac_address_list_get :: "('j, 't) gnmi \<Rightarrow> bool \<Rightarrow> nat \<Rightarrow> 't trace \<Rightarrow> (int \<times> nat \<times> gnma_fdb_entry list) option" where
  "gnma_mac_address_list_get A room n h =
     (case fetch A 0 fdb_path h of
        None \<Rightarrow> Some (- 1, n, [])
      | Some j \<Rightarrow>
          let J = g_json A; fdb = cJSON_GetObjectItemCaseSensitive J (Some j) ''openconfig-network-instance:fdb'';
              state = cJSON_GetObjectItemCaseSensitive J fdb ''state'';
              dyn = cJSON_GetObjectItemCaseSensitive J state ''dynamic-count'';
              stat = cJSON_GetObjectItemCaseSensitive J state ''static-count'';
              num = nat ((valueint (cJSON_GetNumberValue J dyn) + valueint (cJSON_GetNumberValue J stat)) mod 2 ^ 64);
              l = cJSON_GetObjectItemCaseSensitive J fdb ''mac-table'';
              l = cJSON_GetObjectItemCaseSensitive J l ''entries'';
              l = cJSON_GetObjectItemCaseSensitive J l ''entry''
          in if \<not> cJSON_IsNumber J dyn \<or> \<not> cJSON_IsNumber J stat then Some (- 1, n, [])
             else if n < num then Some (GNMA_ERR_OVERFLOW, num, [])
             else if num = 0 then Some (0, n, [])
             else if \<not> room \<or> l = None then Some (- 1, n, [])
             else fdb_loop J n (cJSON_Array J l) [] n)"

section \<open>Multicast groups\<close>

text \<open>\<open>render\<close> is \<open>cJSON_PrintUnformatted\<close>; \<open>n\<close> is the size of the buffer. The result has the number that is reported and the
  bytes that are copied: their number does not depend on the text, and copying more than the text and
  its terminator reads outside it.\<close>

definition gnma_igmp_iface_groups_get ::
  "('j, 't) gnmi \<Rightarrow> ('j \<Rightarrow> string option) \<Rightarrow> string \<Rightarrow> nat \<Rightarrow> 't trace \<Rightarrow> (int \<times> nat \<times> string) option" where
  "gnma_igmp_iface_groups_get A render name n h =
     (case fetch A 1 (igmp_snooping_path @ ''/interfaces/interface[name='' @ name @ '']'') h of
        None \<Rightarrow> Some (- 1, n, [])
      | Some j \<Rightarrow>
          let J = g_json A;
              gs = cJSON_GetArrayItem J (cJSON_GetObjectItemCaseSensitive J (Some j) ''openconfig-network-instance-deviation:interface'') 0;
              gs = cJSON_GetObjectItemCaseSensitive J gs ''staticgrps'';
              gs = cJSON_GetObjectItemCaseSensitive J gs ''static-multicast-group''
          in if cJSON_Array J gs = [] then Some (0, 0, [])
             else case render (the gs) of
               None \<Rightarrow> Some (- 1, n, [])
             | Some t \<Rightarrow>
                 if n < length t then Some (GNMA_ERR_OVERFLOW, length t + 1, [])
                 else if n - 1 > length t + 1 then None
                 else Some (0, n, take (n - 1) (t @ [CHR 0x00])))"

section \<open>Dynamic routes and neighbours\<close>

text \<open>An entry with a next hop; the outer option is the conversion of the metric.\<close>

definition dyn_entry :: "'j cjson \<Rightarrow> (string \<Rightarrow> (int \<times> u32) option) \<Rightarrow> 'j \<Rightarrow> dyn_route option option" where
  "dyn_entry J pton route =
     (let nh = cJSON_GetObjectItemCaseSensitive J (Some route) ''openconfig-aft-deviation:next-hops'';
          nh = cJSON_GetArrayItem J (cJSON_GetObjectItemCaseSensitive J nh ''next-hop'') 0;
          state = cJSON_GetObjectItemCaseSensitive J nh ''state'';
          port = cJSON_GetObjectItemCaseSensitive J nh ''interface-ref'';
          port = cJSON_GetObjectItemCaseSensitive J (cJSON_GetObjectItemCaseSensitive J port ''state'') ''interface'';
          metric = cJSON_GetObjectItemCaseSensitive J (cJSON_GetObjectItemCaseSensitive J (Some route) ''state'') ''metric''
      in case do {
           buf \<leftarrow> cJSON_GetStringValue J (cJSON_GetObjectItemCaseSensitive J (Some route) ''prefix'');
           (len, a) \<leftarrow> pton buf;
           _ \<leftarrow> (if state = None \<or> cJSON_IsTrue J (cJSON_GetObjectItemCaseSensitive J state ''directly-connected'') then None else Some ());
           gw \<leftarrow> cJSON_GetStringValue J (cJSON_GetObjectItemCaseSensitive J state ''ip-address'');
           (_, g) \<leftarrow> pton gw;
           egress \<leftarrow> cJSON_GetStringValue J port;
           if metric = None then None else Some (GnmaV4 a len, g, egress)
         } of
           None \<Rightarrow> Some None
         | Some (pr, g, egress) \<Rightarrow>
             (case dbl_to_word (cJSON_GetNumberValue J metric) of
                None \<Rightarrow> None
              | Some m \<Rightarrow> Some (Some \<lparr>dr_prefix = pr, dr_gw = g, dr_metric = m, dr_egress = take 32 egress\<rparr>)))"

fun dyn_loop :: "'j cjson \<Rightarrow> (string \<Rightarrow> (int \<times> u32) option) \<Rightarrow> nat \<Rightarrow> 'j list \<Rightarrow> nat \<Rightarrow> dyn_route list \<Rightarrow> (nat \<times> dyn_route list) option" where
  "dyn_loop J pton n [] num rs = Some (num, rs)"
| "dyn_loop J pton n (route # routes) num rs =
     (case dyn_entry J pton route of
        None \<Rightarrow> None
      | Some None \<Rightarrow> dyn_loop J pton n routes num rs
      | Some (Some r) \<Rightarrow> dyn_loop J pton n routes (Suc num) (if num < n then rs @ [r] else rs))"

definition gnma_dyn_route_list_get ::
  "('j, 't) gnmi \<Rightarrow> (string \<Rightarrow> (int \<times> u32) option) \<Rightarrow> nat \<Rightarrow> 't trace \<Rightarrow> (int \<times> nat \<times> dyn_route list) option" where
  "gnma_dyn_route_list_get A pton n h =
     (case fetch A 0 ''/openconfig-network-instance:network-instances/network-instance[name=default]/afts/ipv4-unicast/ipv4-entry'' h of
        None \<Rightarrow> Some (- 1, n, [])
      | Some j \<Rightarrow>
          let J = g_json A; l = cJSON_GetObjectItemCaseSensitive J (Some j) ''openconfig-network-instance:ipv4-entry'' in
          if \<not> cJSON_IsArray J l then Some (- 1, n, [])
          else case dyn_loop J pton n (cJSON_Array J l) 0 [] of
            None \<Rightarrow> None
          | Some (num, rs) \<Rightarrow> Some (if num > n then GNMA_ERR_OVERFLOW else 0, num, rs))"

definition gnma_nei_addr_get :: "('j, 't) gnmi \<Rightarrow> string \<Rightarrow> u32 \<Rightarrow> nat \<Rightarrow> 't trace \<Rightarrow> int \<times> string option" where
  "gnma_nei_addr_get A iface ip n h =
     (case fetch A 1 (''/openconfig-interfaces:interfaces/interface[name='' @ iface @
         (if iface \<noteq> [] \<and> hd iface = CHR ''V'' then '']/openconfig-vlan:routed-vlan/openconfig-if-ip:ipv4/neighbors/neighbor[ip=''
          else '']/subinterfaces/subinterface[index=0]/openconfig-if-ip:ipv4/neighbors/neighbor[ip='') @
         inet_ntop ip @ '']/state/link-layer-address'') h of
        None \<Rightarrow> (- 1, None)
      | Some j \<Rightarrow>
          (case cJSON_GetStringValue (g_json A) (cJSON_GetObjectItemCaseSensitive (g_json A) (Some j) ''openconfig-if-ip:link-layer-address'') of
             None \<Rightarrow> (- 1, None)
           | Some mac \<Rightarrow> if mac = [] then (- 1, None) else (0, Some (take n mac))))"

section \<open>The device\<close>

text \<open>The name of the running image: what counts is whether the last entry has one.\<close>

fun image_loop :: "'j cjson \<Rightarrow> nat \<Rightarrow> 'j list \<Rightarrow> bool \<Rightarrow> string \<Rightarrow> (bool \<times> string) option" where
  "image_loop J n [] found s = Some (found, s)"
| "image_loop J n (it # its) found s =
     (let cur = cJSON_GetObjectItemCaseSensitive J (Some it) ''current'' in
      if cur = None then image_loop J n its False s
      else case cJSON_GetStringValue J cur of None \<Rightarrow> None | Some t \<Rightarrow> image_loop J n its True (take n t))"

definition gnma_image_running_name_get :: "('j, 't) gnmi \<Rightarrow> nat \<Rightarrow> 't trace \<Rightarrow> string \<Rightarrow> (int \<times> string) option" where
  "gnma_image_running_name_get A n h old =
     reads A 0 ''/sonic-image-management:sonic-image-management/IMAGE_GLOBAL/IMAGE_GLOBAL_LIST''
       (\<lambda>j. let J = g_json A; l = cJSON_GetObjectItemCaseSensitive J (Some j) ''sonic-image-management:IMAGE_GLOBAL_LIST'' in
            if \<not> cJSON_IsArray J l then Some (- 1, old)
            else map_option (\<lambda>(found, s). (if found then 0 else - 1, s)) (image_loop J n (cJSON_Array J l) False old)) h old"

record gnma_metadata =
  md_platform :: string
  md_hwsku :: string
  md_mac :: string

definition meta_text :: "('j, 't) gnmi \<Rightarrow> string \<Rightarrow> nat \<Rightarrow> 't trace \<Rightarrow> 't option" where
  "meta_text A leaf k h =
     gnmi_jsoni_get_alloc A (''/sonic-device-metadata:sonic-device-metadata/DEVICE_METADATA/DEVICE_METADATA_LIST[name=localhost]/'' @ leaf)
       (g_calls A h > k) h"

definition meta_leaf :: "('j, 't) gnmi \<Rightarrow> 't \<Rightarrow> string \<Rightarrow> string option" where
  "meta_leaf A t leaf =
     (let J = g_json A; val = cJSON_GetObjectItemCaseSensitive J (g_parse A t) (''sonic-device-metadata:'' @ leaf) in
      if cJSON_IsString J val then cJSON_GetStringValue J val else None)"

definition gnma_metadata_get :: "('j, 't) gnmi \<Rightarrow> 't trace \<Rightarrow> gnma_metadata \<Rightarrow> int \<times> gnma_metadata" where
  "gnma_metadata_get A h md =
     (case (meta_text A ''mac'' 0 h, meta_text A ''hwsku'' 1 h, meta_text A ''platform'' 2 h) of
        (Some mac, Some hwsku, Some platform) \<Rightarrow>
          (case meta_leaf A platform ''platform'' of
             None \<Rightarrow> (- 1, md)
           | Some s \<Rightarrow>
               let md = md\<lparr>md_hwsku := take 95 s\<rparr> in
               (case meta_leaf A hwsku ''hwsku'' of
                  None \<Rightarrow> (- 1, md)
                | Some s \<Rightarrow>
                    let md = md\<lparr>md_platform := take 95 s\<rparr> in
                    (case meta_leaf A mac ''mac'' of None \<Rightarrow> (- 1, md) | Some s \<Rightarrow> (0, md\<lparr>md_mac := take 95 s\<rparr>))))
      | _ \<Rightarrow> (- 1, md))"

section \<open>System commands\<close>

text \<open>\<open>cfg\<close> is the parsed file of the adapter, \<open>create\<close> makes a session from server, login and password.\<close>

definition gnma_switch_create ::
  "'j cjson \<Rightarrow> 'j option \<Rightarrow> (string \<Rightarrow> string option) \<Rightarrow> (string \<Rightarrow> string \<Rightarrow> string \<Rightarrow> 's option) \<Rightarrow> int \<times> 's option" where
  "gnma_switch_create J cfg getenv create =
     (let from_env = (\<lambda>v dflt. case getenv v of None \<Rightarrow> dflt | Some s \<Rightarrow> Some (take 63 s));
          srv = from_env ''UC_GNMI_SERVER'' (Some ''127.0.0.1:8080'');
          login = from_env ''UC_GNMI_LOGIN'' (cJSON_GetStringValue J (cJSON_GetObjectItemCaseSensitive J cfg ''auth_login''));
          passwd = from_env ''UC_GNMI_PASSWD'' (cJSON_GetStringValue J (cJSON_GetObjectItemCaseSensitive J cfg ''auth_passwd''))
      in case (login, passwd) of
           (Some l, Some p) \<Rightarrow> (case create (the srv) l p of None \<Rightarrow> (- 1, None) | Some s \<Rightarrow> (0, Some s))
         | _ \<Rightarrow> (- 1, None))"

definition gnma_reboot :: "('j, 't) gnmi \<Rightarrow> 't act" where
  "gnma_reboot A = gnmi_gnoi_system_reboot A"

definition gnma_config_save :: "('j, 't) gnmi \<Rightarrow> 't act" where
  "gnma_config_save A = gnmi_gnoi_sonic_copy_replace A ''running-configuration'' ''startup-configuration''"

definition gnma_config_restore :: "('j, 't) gnmi \<Rightarrow> 't act" where
  "gnma_config_restore A = gnmi_gnoi_sonic_copy_replace A ''startup-configuration'' ''running-configuration''"

definition gnma_factory_default :: "('j, 't) gnmi \<Rightarrow> 't act" where
  "gnma_factory_default A h =
     (let (r, h) = gnmi_gnoi_sonic_cfg_erase_boot A h in
      if r \<noteq> 0 then (- 1, h)
      else let (r, h) = gnmi_gnoi_system_reboot A h in
        if r \<noteq> 0 then (- 1, snd (gnmi_gnoi_sonic_cfg_erase_boot_cancel A h)) else (0, h))"

definition gnma_image_install :: "('j, 't) gnmi \<Rightarrow> string \<Rightarrow> 't act" where
  "gnma_image_install A uri h = (let (r, h) = gnmi_gnoi_image_install A uri h in (if r \<noteq> 0 then - 1 else 0, h))"

text \<open>The answer to the request for the technical support file is its name and a status; \<open>n\<close> is the size of the place
  for the name.\<close>

definition gnmi_gnoi_techsupport_start :: "nat \<Rightarrow> (string \<times> int) option \<Rightarrow> (int \<times> string) option" where
  "gnmi_gnoi_techsupport_start n answer =
     (case answer of
        None \<Rightarrow> Some (- 1, [])
      | Some (filename, status) \<Rightarrow>
          if length filename > 4096 then Some (- 1, [])
          else if length filename \<ge> n then None
          else Some (status, filename))"

definition gnma_techsupport_start :: "nat \<Rightarrow> (string \<times> int) option \<Rightarrow> (int \<times> string) option" where
  "gnma_techsupport_start n answer = map_option (\<lambda>(r, s). (if r \<noteq> 0 then - 1 else 0, s)) (gnmi_gnoi_techsupport_start n answer)"

text \<open>The status of an installation: the name of the state and, when the answer has it, the progress of the file.\<close>

definition gnmi_gnoi_upgrade_status :: "('j, 't) gnmi \<Rightarrow> nat \<Rightarrow> (string \<times> nat option) option \<Rightarrow> int \<times> 't option" where
  "gnmi_gnoi_upgrade_status A n answer =
     (case answer of
        None \<Rightarrow> (- 1, None)
      | Some (state, progress) \<Rightarrow>
          let pct = (if state = ''GLOBAL_STATE_DOWNLOAD'' then (case progress of None \<Rightarrow> 0 | Some p \<Rightarrow> p) else 0);
              t = g_print A (DObj [(''global_state'', DStr (Some state)), (''percentage'', dnum (int pct))])
          in if \<not> n > g_size A t then (- 1, None) else (0, Some t))"

definition gnma_image_install_status :: "('j, 't) gnmi \<Rightarrow> nat \<Rightarrow> (string \<times> nat option) option \<Rightarrow> int \<times> 't option" where
  "gnma_image_install_status A n answer = (let (r, t) = gnmi_gnoi_upgrade_status A n answer in (if r \<noteq> 0 then - 1 else 0, t))"

section \<open>Lists in two calls\<close>

text \<open>Dynamic routes: every call reports the number of routes with a next hop and stores the first \<open>n\<close> of them, so a
  call with the reported number of places stores all.\<close>

lemma dyn_loop_exact:
  assumes "list_all (\<lambda>r. dyn_entry J pton r \<noteq> None) routes"
  shows "dyn_loop J pton n routes num rs =
    Some (num + length (List.map_filter (\<lambda>r. the (dyn_entry J pton r)) routes),
      rs @ take (n - num) (List.map_filter (\<lambda>r. the (dyn_entry J pton r)) routes))"
  using assms
proof (induction routes arbitrary: num rs)
  case (Cons r routes)
  then obtain e where e: "dyn_entry J pton r = Some e" by auto
  have wf: "list_all (\<lambda>r. dyn_entry J pton r \<noteq> None) routes" using Cons.prems by simp
  show ?case
  proof (cases e)
    case (Some x)
    have "n - num = Suc (n - Suc num)" if "num < n" using that by simp
    then show ?thesis using Cons.IH[OF wf, of "Suc num"] e Some by (simp add: List.map_filter_simps)
  qed (use Cons.IH[OF wf] e in \<open>simp add: List.map_filter_simps\<close>)
qed (simp add: List.map_filter_simps)

lemma dyn_routes_two_calls:
  assumes "fetch A 0 ''/openconfig-network-instance:network-instances/network-instance[name=default]/afts/ipv4-unicast/ipv4-entry'' h = Some j"
    and "obj_item (g_json A) j ''openconfig-network-instance:ipv4-entry'' = Some a" "is_array (g_json A) a"
    and "list_all (\<lambda>r. dyn_entry (g_json A) pton r \<noteq> None) (children (g_json A) a)"
    and "rs = List.map_filter (\<lambda>r. the (dyn_entry (g_json A) pton r)) (children (g_json A) a)"
  shows "gnma_dyn_route_list_get A pton n h = Some (if length rs > n then GNMA_ERR_OVERFLOW else 0, length rs, take n rs)"
  using assms dyn_loop_exact[OF assms(4), of n 0 "[]"] by (simp add: gnma_dyn_route_list_get_def cjson_access Let_def)

text \<open>The forwarding table: with as many places as the counters say the entries are stored if they are no more than
  that; one entry more is written outside the array.\<close>

lemma fdb_loop_exact:
  "map (fdb_entry J) its = map Some es \<Longrightarrow> length es0 + length es \<le> n \<Longrightarrow>
    fdb_loop J n its es0 sz = Some (0, if es = [] then sz else length es0 + length es, es0 @ es)"
proof (induction its arbitrary: es es0 sz)
  case (Cons it its)
  then obtain x xs where "es = x # xs" "fdb_entry J it = Some x" "map (fdb_entry J) its = map Some xs" by (cases es) auto
  then show ?case using Cons.IH[of xs "es0 @ [x]" "Suc (length es0)"] Cons.prems(2) by simp
qed simp

lemma fdb_overrun:
  assumes "map (fdb_entry J) its = map Some es" "length es0 \<le> n" "length es0 + length es > n"
  shows "fdb_loop J n its es0 sz = None"
  using assms
proof (induction its arbitrary: es es0 sz)
  case (Cons it its)
  then obtain x xs where e: "es = x # xs" "fdb_entry J it = Some x" "map (fdb_entry J) its = map Some xs" by (cases es) auto
  show ?case using Cons.IH[OF e(3), of "es0 @ [x]"] Cons.prems(2,3) e by simp
qed simp

text \<open>Multicast groups: the number that is reported for a buffer that is too small is the one that gives the text; a
  buffer of exactly the length of the text loses its last byte, and one that is larger by more than two bytes
  reads outside the text.\<close>

lemma igmp_groups_two_calls:
  assumes "fetch A 1 (igmp_snooping_path @ ''/interfaces/interface[name='' @ name @ '']'') h = Some j"
    and "cJSON_Array (g_json A) gs \<noteq> []" "render (the gs) = Some t" "t \<noteq> []"
    and "gs = cJSON_GetObjectItemCaseSensitive (g_json A) (cJSON_GetObjectItemCaseSensitive (g_json A)
      (cJSON_GetArrayItem (g_json A) (cJSON_GetObjectItemCaseSensitive (g_json A) (Some j) ''openconfig-network-instance-deviation:interface'') 0)
      ''staticgrps'') ''static-multicast-group''"
  shows "gnma_igmp_iface_groups_get A render name 0 h = Some (GNMA_ERR_OVERFLOW, length t + 1, [])"
    and "gnma_igmp_iface_groups_get A render name (length t + 1) h = Some (0, length t + 1, t)"
    and "gnma_igmp_iface_groups_get A render name (length t) h = Some (0, length t, butlast t)"
    and "n > length t + 2 \<Longrightarrow> gnma_igmp_iface_groups_get A render name n h = None"
  using assms by (simp_all add: gnma_igmp_iface_groups_get_def Let_def butlast_conv_take)

section \<open>Reset and description\<close>

text \<open>A factory reset that returns 0 erased and restarted; when the restart is refused the erasure is cancelled.\<close>

lemma factory_default_outcome:
  "gnma_factory_default A h =
     (let e = Rpc ''WriteErase'' [''op_write_erase_boot'']; r = Rpc ''Reboot'' []; c = Rpc ''WriteErase'' [''op_no_write_erase''] in
      if \<not> g_ok A h e then (- 1, h @ [e])
      else if \<not> g_ok A (h @ [e]) r then (- 1, h @ [e, r, c])
      else (0, h @ [e, r]))"
  by (simp add: gnma_factory_default_def gnmi_gnoi_sonic_cfg_erase_boot_def gnmi_gnoi_sonic_cfg_erase_boot_cancel_def
      gnmi_gnoi_sonic_cfg_subcmd_def gnmi_gnoi_system_reboot_def call_def Let_def)

text \<open>The platform's place for the name of the technical support file, one byte more than the longest path, is
  always enough.\<close>

lemma techsupport_in_bounds: "gnma_techsupport_start 4097 answer \<noteq> None"
  by (auto simp: gnma_techsupport_start_def gnmi_gnoi_techsupport_start_def split: option.split)

text \<open>The platform's name is stored as the SKU and the SKU as the platform's name.\<close>

lemma metadata_swapped:
  assumes "meta_text A ''mac'' 0 h = Some m" "meta_text A ''hwsku'' 1 h = Some k" "meta_text A ''platform'' 2 h = Some p"
    and "meta_leaf A m ''mac'' = Some mac" "meta_leaf A k ''hwsku'' = Some sku" "meta_leaf A p ''platform'' = Some pname"
  shows "gnma_metadata_get A h md = (0, \<lparr>md_platform = take 95 sku, md_hwsku = take 95 pname, md_mac = take 95 mac\<rparr>)"
  using assms by (simp add: gnma_metadata_get_def)

end
