(* ===== verification/Netlink.thy ===== *)
theory Netlink
  imports Plat_Read
begin

text \<open>
  The query of the addresses of VLAN interfaces: \<open>netlink/netlink_common.c\<close>, which asks the kernel over a
  netlink socket and walks its messages in a buffer of 4096 bytes, and
  \<open>gnma_ip_iface_addr_get\<close>, the call of the management adapter that is made of it.

  The model works on the bytes of the buffer, little endian as on the switches. The buffer is not
  initialised and keeps the bytes of earlier datagrams, so its first contents are a parameter. The kernel
  is the list of datagrams it sends on one socket; \<open>None\<close> is a failing \<open>recvmsg\<close>, and
  receiving after the last datagram waits forever. Whether the socket could be opened and the request sent
  are parameters, as is \<open>name\<close>, the kernel's table of interface names.
\<close>

section \<open>Bytes and outcomes\<close>

text \<open>A run is undefined when it reads or writes outside an array.\<close>

datatype 'a outcome = Undefined | Forever | Returns 'a

fun le_val :: "u8 list \<Rightarrow> nat" where
  "le_val [] = 0"
| "le_val (b # bs) = unat b + 256 * le_val bs"

definition rd :: "nat \<Rightarrow> u8 list \<Rightarrow> nat \<Rightarrow> nat option" where
  "rd k buf off = (if off + k \<le> length buf then Some (le_val (take k (drop off buf))) else None)"

text \<open>\<open>NLMSG_ALIGN\<close> and \<open>RTA_ALIGN\<close> at 32 bits, and the subtraction of a \<open>size_t\<close>.\<close>

definition align4 :: "nat \<Rightarrow> nat" where
  "align4 n = (n + 3) mod 2 ^ 32 div 4 * 4"

definition minus_size :: "nat \<Rightarrow> nat \<Rightarrow> nat" where
  "minus_size n k = (n + 2 ^ 64 - k) mod 2 ^ 64"

definition BUFFER_SIZE :: nat where "BUFFER_SIZE = 4096"

definition EOVERFLOW :: int where "EOVERFLOW = 75"

definition ENODATA :: int where "ENODATA = 61"

record nl_vid_addr =
  na_vid :: u16
  na_prefixlen :: u16
  na_address :: u32

section \<open>Attributes of an address\<close>

text \<open>The loop over the attributes from \<open>off\<close> on, with \<open>len\<close> bytes left: the entry that is stored, if there is a
  local address.\<close>

function nl_iface_addr_parse :: "u32 \<Rightarrow> u8 list \<Rightarrow> nat \<Rightarrow> nat \<Rightarrow> nat \<Rightarrow> nl_vid_addr option outcome" where
  "nl_iface_addr_parse vid buf off len prefixlen =
     (if len < 4 then Returns None
      else case rd 2 buf off of
        None \<Rightarrow> Undefined
      | Some l \<Rightarrow>
          if l < 4 \<or> l > len then Returns None
          else case rd 2 buf (off + 2) of
            None \<Rightarrow> Undefined
          | Some type \<Rightarrow>
              if type = 2
              then (case rd 4 buf (off + 4) of None \<Rightarrow> Undefined
                    | Some a \<Rightarrow> Returns (Some \<lparr>na_vid = ucast vid, na_prefixlen = of_nat prefixlen, na_address = of_nat a\<rparr>))
              else nl_iface_addr_parse vid buf (off + (l + 3) div 4 * 4) (minus_size len ((l + 3) div 4 * 4)) prefixlen)"
  by pat_completeness auto
termination
  by (relation "measure (\<lambda>(vid, buf, off, len, p). length buf - off)") (auto simp: rd_def split: if_splits)

section \<open>Messages of a datagram\<close>

text \<open>What follows the loop: \<open>off\<close> is where the loop stopped.\<close>

definition nl_finish :: "u8 list \<Rightarrow> nat \<Rightarrow> nl_vid_addr list option \<Rightarrow> nat \<Rightarrow> nat \<Rightarrow> (int \<times> nat \<times> nl_vid_addr list option) outcome" where
  "nl_finish buf off dst size_in num =
     (if num > size_in then Returns (- EOVERFLOW, num, dst)
      else case rd 2 buf (off + 4) of
        None \<Rightarrow> Undefined
      | Some type \<Rightarrow> Returns (if type = 3 then - ENODATA else 0, num, dst))"

text \<open>One address: \<open>dst\<close> is the array, \<open>num\<close> the next place of it.\<close>

definition nl_store :: "u8 list \<Rightarrow> nat \<Rightarrow> nat \<Rightarrow> u32 \<Rightarrow> nl_vid_addr list \<Rightarrow> nat \<Rightarrow> nl_vid_addr list outcome" where
  "nl_store buf off l vid xs num =
     (case rd 1 buf (off + 17) of
        None \<Rightarrow> Undefined
      | Some prefixlen \<Rightarrow>
          (case nl_iface_addr_parse vid buf (off + 24) (nat ((int l - 24) mod 2 ^ 32)) prefixlen of
             Undefined \<Rightarrow> Undefined | Forever \<Rightarrow> Forever
           | Returns None \<Rightarrow> Returns xs
           | Returns (Some x) \<Rightarrow> if num < length xs then Returns (xs[num := x]) else Undefined))"

text \<open>The effect of a message of type \<open>RTM_NEWADDR\<close>: it ends the walk with a code, or the walk goes on with another
  number of addresses and other contents of the array.\<close>

datatype msg_result = Stop int | Next nat "nl_vid_addr list option"

definition nl_newaddr ::
  "(u32 \<Rightarrow> string option) \<Rightarrow> u8 list \<Rightarrow> nat \<Rightarrow> nat \<Rightarrow> nl_vid_addr list option \<Rightarrow> nat \<Rightarrow> nat \<Rightarrow> msg_result outcome" where
  "nl_newaddr name buf off l dst size_in num =
     (case rd 4 buf (off + 20) of
        None \<Rightarrow> Undefined
      | Some index \<Rightarrow>
          (case name (of_nat index) of
             None \<Rightarrow> Returns (Stop (- 1))
           | Some ifname \<Rightarrow>
               (case scan_lit ''Vlan'' 32 ifname of
                  ScanRange \<Rightarrow> Undefined
                | ScanVal vid \<Rightarrow>
                    (case dst of
                       None \<Rightarrow> Returns (Next (Suc num) dst)
                     | Some xs \<Rightarrow>
                         if size_in = 0 then Returns (Next (Suc num) dst)
                         else if num > size_in then Returns (Stop (- EOVERFLOW))
                         else (case nl_store buf off l (of_nat vid) xs num of
                                 Undefined \<Rightarrow> Undefined | Forever \<Rightarrow> Forever | Returns ys \<Rightarrow> Returns (Next (Suc num) (Some ys))))
                | _ \<Rightarrow> Returns (Next num dst))))"

lemma nl_newaddr_next:
  "nl_newaddr name buf off l dst size_in num = Returns (Next k ys) \<Longrightarrow>
     k = num \<or> k = Suc num \<and> (dst = None \<or> size_in = 0 \<or> num \<le> size_in)"
  by (auto simp: nl_newaddr_def split: option.splits scan.splits if_splits outcome.splits)

text \<open>The walk from \<open>off\<close> on with \<open>len\<close> bytes left. A length that the alignment wraps to 0 does not move it: then only
  the array that is filled can end it.\<close>

function nl_walk ::
  "(u32 \<Rightarrow> string option) \<Rightarrow> u8 list \<Rightarrow> nat \<Rightarrow> nat \<Rightarrow> nl_vid_addr list option \<Rightarrow> nat \<Rightarrow> nat \<Rightarrow> (int \<times> nat \<times> nl_vid_addr list option) outcome" where
  "nl_walk name buf off len dst size_in num =
     (if len mod 2 ^ 32 < 16 then nl_finish buf off dst size_in num
      else case rd 4 buf off of
        None \<Rightarrow> Undefined
      | Some l \<Rightarrow>
          if l < 16 \<or> l > len mod 2 ^ 32 then nl_finish buf off dst size_in num
          else case rd 2 buf (off + 4) of
            None \<Rightarrow> Undefined
          | Some type \<Rightarrow>
              if type = 3 then nl_finish buf off dst size_in num
              else if type = 2 then Returns (- 1, size_in, dst)
              else
                (case (if type = 20 then nl_newaddr name buf off l dst size_in num else Returns (Next num dst)) of
                   Undefined \<Rightarrow> Undefined | Forever \<Rightarrow> Forever
                 | Returns (Stop e) \<Rightarrow> Returns (e, size_in, dst)
                 | Returns (Next k ys) \<Rightarrow>
                     if align4 l = 0 \<and> (dst = None \<or> size_in = 0 \<or> k = num) then Forever
                     else nl_walk name buf (off + align4 l) (minus_size len (align4 l)) ys size_in k))"
  by pat_completeness auto
termination
  by (relation "measures [\<lambda>(name, buf, off, len, dst, n, k). length buf - off, \<lambda>(name, buf, off, len, dst, n, k). Suc n - k]")
    (auto simp: rd_def split: if_splits dest: nl_newaddr_next)

definition nl_response_addr_parse ::
  "(u32 \<Rightarrow> string option) \<Rightarrow> u8 list \<Rightarrow> nat \<Rightarrow> nl_vid_addr list option \<Rightarrow> nat \<Rightarrow> (int \<times> nat \<times> nl_vid_addr list option) outcome" where
  "nl_response_addr_parse name buf len dst size_in = nl_walk name buf 0 len dst size_in 0"

section \<open>The dialogue\<close>

text \<open>\<open>recvmsg\<close> takes as many bytes as the length says and leaves the rest of the buffer.\<close>

definition overlay :: "u8 list \<Rightarrow> u8 list \<Rightarrow> u8 list" where
  "overlay d buf = d @ drop (length d) buf"

text \<open>\<open>buf_len\<close> is both the room for a datagram and the length of the last one.\<close>

definition nl_end :: "nat \<Rightarrow> nl_vid_addr list option \<Rightarrow> nat \<Rightarrow> (int \<times> nat \<times> nl_vid_addr list option) outcome" where
  "nl_end size_in dst num = Returns (if num > size_in then - EOVERFLOW else 0, num, dst)"

fun nl_loop ::
  "(u32 \<Rightarrow> string option) \<Rightarrow> u8 list option list \<Rightarrow> u8 list \<Rightarrow> nat \<Rightarrow> nl_vid_addr list option \<Rightarrow> nat \<Rightarrow> nat \<Rightarrow> nat \<Rightarrow>
     (int \<times> nat \<times> nl_vid_addr list option) outcome" where
  "nl_loop name [] buf buf_len dst size_in batch num = Forever"
| "nl_loop name (None # ds) buf buf_len dst size_in batch num = Returns (- 1, size_in, dst)"
| "nl_loop name (Some d # ds) buf buf_len dst size_in batch num =
     (let d = take buf_len d; buf = overlay d buf in
      case nl_response_addr_parse name buf (length d) None batch of
        Undefined \<Rightarrow> Undefined | Forever \<Rightarrow> Forever
      | Returns (err, batch, _) \<Rightarrow>
          if err = - ENODATA then nl_end size_in dst num
          else if err \<noteq> 0 \<and> err \<noteq> - EOVERFLOW then Returns (err, size_in, dst)
          else
            (case dst of
               None \<Rightarrow> nl_loop name ds buf (length d) dst size_in batch (num + batch)
             | Some xs \<Rightarrow>
                 if size_in = 0 then nl_loop name ds buf (length d) dst size_in batch (num + batch)
                 else if num + batch > size_in then nl_end size_in dst (num + batch)
                 else
                   (case nl_response_addr_parse name buf (length d) (Some (drop num xs)) batch of
                      Undefined \<Rightarrow> Undefined | Forever \<Rightarrow> Forever
                    | Returns (err, batch', ys) \<Rightarrow>
                        let dst = Some (take num xs @ the ys) in
                        if err = - ENODATA then nl_end size_in dst (num + batch)
                        else if err \<noteq> 0 then Returns (err, size_in, dst)
                        else nl_loop name ds buf (length d) dst size_in batch' (num + batch))))"

record nl_kernel =
  nk_socket :: bool
  nk_send :: bool
  nk_name :: "u32 \<Rightarrow> string option"
  nk_datagrams :: "u8 list option list"
  nk_stack :: "u8 list"

definition nl_get_ip_list :: "nl_kernel \<Rightarrow> nl_vid_addr list option \<Rightarrow> nat \<Rightarrow> (int \<times> nat \<times> nl_vid_addr list option) outcome" where
  "nl_get_ip_list K dst size_in =
     (if \<not> nk_socket K \<or> \<not> nk_send K then Returns (- 1, size_in, dst)
      else nl_loop (nk_name K) (nk_datagrams K) (nk_stack K) BUFFER_SIZE dst size_in 0 0)"

section \<open>The adapter's call\<close>

text \<open>\<open>K\<close> and \<open>K'\<close> are the two dialogues; \<open>mem\<close> is whether the list can be allocated. Entries are copied over the first
  ones of the caller's array.\<close>

definition to_vlan_ip :: "nl_vid_addr \<Rightarrow> gnma_vlan_ip_t" where
  "to_vlan_ip x = \<lparr>ip_vid = na_vid x, ip_prefixlen = na_prefixlen x, ip_address = na_address x\<rparr>"

definition gnma_ip_iface_addr_get ::
  "nl_kernel \<Rightarrow> nl_kernel \<Rightarrow> bool \<Rightarrow> gnma_vlan_ip_t list option \<Rightarrow> nat \<Rightarrow> (int \<times> nat \<times> gnma_vlan_ip_t list option) outcome" where
  "gnma_ip_iface_addr_get K K' mem address_list n =
     (case nl_get_ip_list K None 0 of
        Undefined \<Rightarrow> Undefined | Forever \<Rightarrow> Forever
      | Returns (ret, len, _) \<Rightarrow>
          if ret \<noteq> 0 \<and> ret \<noteq> - EOVERFLOW then Returns (- 1, n, address_list)
          else (case address_list of
            None \<Rightarrow> Returns (GNMA_ERR_OVERFLOW, len, None)
          | Some al \<Rightarrow>
              if len > n then Returns (GNMA_ERR_OVERFLOW, len, Some al)
              else if len = 0 then Returns (0, 0, Some al)
              else if \<not> mem then Returns (- 1, n, Some al)
              else
                (case nl_get_ip_list K' (Some (replicate len \<lparr>na_vid = 0, na_prefixlen = 0, na_address = 0\<rparr>)) len of
                   Undefined \<Rightarrow> Undefined | Forever \<Rightarrow> Forever
                 | Returns (ret, len, xs) \<Rightarrow>
                     if ret \<noteq> 0 then Returns (- 1, len, Some al)
                     else if len \<le> length al \<and> len \<le> length (the xs)
                     then Returns (0, len, Some (map to_vlan_ip (take len (the xs)) @ drop len al))
                     else Undefined)))"

section \<open>Messages of the kernel\<close>

text \<open>An address with its attributes (type and payload), or another message. Three bytes of the address (family,
  flags, scope) and the rest of the header (flags, sequence number, sender) are not looked at.\<close>

datatype nlm =
    NewAddr "u8 list" u8 "u8 list" u32 "(nat \<times> u8 list) list"
  | OtherMsg "u8 list" nat "u8 list"

fun le :: "nat \<Rightarrow> nat \<Rightarrow> u8 list" where
  "le 0 n = []"
| "le (Suc k) n = of_nat (n mod 256) # le k (n div 256)"

definition enc_attr :: "nat \<times> u8 list \<Rightarrow> u8 list" where
  "enc_attr a = (case a of (t, p) \<Rightarrow> le 2 (4 + length p) @ le 2 t @ p @ replicate ((4 - length p mod 4) mod 4) 0)"

definition enc_body :: "nlm \<Rightarrow> u8 list" where
  "enc_body m = (case m of
     NewAddr h pl fl i as \<Rightarrow> [2, pl] @ fl @ le 4 (unat i) @ concat (map enc_attr as)
   | OtherMsg h t b \<Rightarrow> b)"

definition enc_msg :: "nlm \<Rightarrow> u8 list" where
  "enc_msg m = le 4 (16 + length (enc_body m)) @
     (case m of NewAddr h pl fl i as \<Rightarrow> le 2 20 @ h | OtherMsg h t b \<Rightarrow> le 2 t @ h) @ enc_body m"

definition enc_msgs :: "nlm list \<Rightarrow> u8 list" where
  "enc_msgs ms = concat (map enc_msg ms)"

text \<open>The kernel's messages: attributes fit their length fields, a local address has four bytes and every address
  message has one; other messages are aligned and are neither an error nor the end.\<close>

definition wf_attr :: "nat \<times> u8 list \<Rightarrow> bool" where
  "wf_attr a = (case a of (t, p) \<Rightarrow> t < 65536 \<and> 4 + length p < 65536 \<and> (t = 2 \<longrightarrow> length p = 4))"

definition wf_nlm :: "(u32 \<Rightarrow> string option) \<Rightarrow> nlm \<Rightarrow> bool" where
  "wf_nlm name m = (case m of
     NewAddr h pl fl i as \<Rightarrow> length h = 10 \<and> length fl = 2 \<and> list_all wf_attr as \<and> 2 \<in> fst ` set as \<and>
       (case name i of None \<Rightarrow> False | Some s \<Rightarrow> scan_lit ''Vlan'' 32 s \<noteq> ScanRange)
   | OtherMsg h t b \<Rightarrow> length h = 10 \<and> t < 65536 \<and> t \<notin> {2, 3, 20} \<and> length b mod 4 = 0)"

text \<open>What a message says about VLAN interfaces.\<close>

fun local_address :: "(nat \<times> u8 list) list \<Rightarrow> u32" where
  "local_address [] = 0"
| "local_address ((t, p) # as) = (if t = 2 then of_nat (le_val p) else local_address as)"

definition vlan_addr :: "(u32 \<Rightarrow> string option) \<Rightarrow> nlm \<Rightarrow> nl_vid_addr option" where
  "vlan_addr name m = (case m of
     NewAddr h pl fl i as \<Rightarrow>
       (case scan_lit ''Vlan'' 32 (the (name i)) of
          ScanVal vid \<Rightarrow> Some \<lparr>na_vid = ucast (of_nat vid :: u32), na_prefixlen = of_nat (unat pl), na_address = local_address as\<rparr>
        | _ \<Rightarrow> None)
   | OtherMsg h t b \<Rightarrow> None)"

definition vlan_addrs :: "(u32 \<Rightarrow> string option) \<Rightarrow> nlm list \<Rightarrow> nl_vid_addr list" where
  "vlan_addrs name ms = List.map_filter (vlan_addr name) ms"

section \<open>Reading what was encoded\<close>

declare nl_walk.simps [simp del] nl_iface_addr_parse.simps [simp del]

lemma length_le [simp]: "length (le k n) = k"
  by (induction k arbitrary: n) simp_all

lemma le_val_le: "n < 256 ^ k \<Longrightarrow> le_val (le k n) = n"
proof (induction k arbitrary: n)
  case (Suc k)
  have "n div 256 < 256 ^ k" using Suc.prems by (simp add: less_mult_imp_div_less mult.commute)
  then have "le_val (le k (n div 256)) = n div 256" by (rule Suc.IH)
  moreover have "unat (of_nat (n mod 256) :: u8) = n mod 256" by (simp add: unat_of_nat)
  ultimately show ?case by simp
qed simp

text \<open>Reading behind a prefix of the buffer.\<close>

lemma rd_at: "buf = pre @ x @ post \<Longrightarrow> off = length pre \<Longrightarrow> length x = k \<Longrightarrow> rd k buf off = Some (le_val x)"
  by (simp add: rd_def)

lemma rd_le: "buf = pre @ le k n @ post \<Longrightarrow> off = length pre \<Longrightarrow> n < 256 ^ k \<Longrightarrow> rd k buf off = Some n"
  using rd_at[of buf pre "le k n" post off k] by (simp add: le_val_le)

lemma minus_size_simp: "k \<le> n \<Longrightarrow> n < 2 ^ 64 \<Longrightarrow> minus_size n k = n - k"
proof -
  assume "k \<le> n" "n < 2 ^ 64"
  then have "n + 2 ^ 64 - k = (n - k) + 2 ^ 64" by simp
  then show ?thesis using \<open>n < 2 ^ 64\<close> by (simp add: minus_size_def del: add_diff_assoc2)
qed

lemma align4_id: "n mod 4 = 0 \<Longrightarrow> n + 3 < 2 ^ 32 \<Longrightarrow> align4 n = n"
proof -
  assume "n mod 4 = 0" "n + 3 < 2 ^ 32"
  moreover obtain q where "n = 4 * q" using \<open>n mod 4 = 0\<close> by (metis mod_0_imp_dvd dvd_def)
  ultimately show ?thesis by (simp add: align4_def)
qed

lemma pad_align: "(4 + n + 3) div 4 * 4 = 4 + n + (4 - n mod 4) mod (4 :: nat)"
proof -
  obtain q r where n: "n = 4 * q + r" and "r < 4" by (metis mod_less_divisor mult_div_mod_eq zero_less_numeral)
  then have m: "n mod 4 = r" and "(4 + n + 3) div 4 = q + (7 + r) div 4" by simp_all
  moreover have "r = 0 \<or> r = 1 \<or> r = 2 \<or> r = 3" using \<open>r < 4\<close> by linarith
  then have "(7 + r) div 4 * 4 = 4 + r + (4 - r) mod 4" by (elim disjE) simp_all
  ultimately show ?thesis unfolding m using n by (simp add: algebra_simps)
qed

lemma length_enc_attr: "length (enc_attr (t, p)) = (4 + length p + 3) div 4 * 4"
  unfolding pad_align by (simp add: enc_attr_def)

lemma attr_parse_exact:
  assumes "list_all wf_attr as" "2 \<in> fst ` set as" "length (concat (map enc_attr as)) < 2 ^ 32"
  shows "nl_iface_addr_parse vid (pre @ concat (map enc_attr as) @ post) (length pre) (length (concat (map enc_attr as))) pl =
    Returns (Some \<lparr>na_vid = ucast vid, na_prefixlen = of_nat pl, na_address = local_address as\<rparr>)"
  using assms
proof (induction as arbitrary: pre)
  case (Cons a as)
  obtain t p where a: "a = (t, p)" by (cases a)
  let ?rest = "concat (map enc_attr as) @ post" and ?pad = "replicate ((4 - length p mod 4) mod 4) (0 :: u8)"
  have tp: "t < 65536" "4 + length p < 65536" "t = 2 \<Longrightarrow> length p = 4" using Cons.prems(1) by (auto simp: a wf_attr_def)
  let ?n = "length (concat (map enc_attr (a # as)))"
  have n: "?n = (4 + length p + 3) div 4 * 4 + length (concat (map enc_attr as))" by (simp add: a length_enc_attr)
  have ge: "4 + length p \<le> (4 + length p + 3) div 4 * 4" unfolding pad_align by simp
  let ?buf = "pre @ concat (map enc_attr (a # as)) @ post"
  have buf: "?buf = pre @ le 2 (4 + length p) @ (le 2 t @ p @ ?pad @ ?rest)" by (simp add: a enc_attr_def)
  have rds: "rd 2 ?buf (length pre) = Some (4 + length p)" "rd 2 ?buf (length pre + 2) = Some t"
    by (rule rd_le[OF buf], use tp in simp_all) (rule rd_le[of _ "pre @ le 2 (4 + length p)"], use buf tp in simp_all)
  have val: "rd 4 ?buf (length pre + 4) = Some (le_val p)" if "length p = 4"
    by (rule rd_at[of _ "pre @ le 2 (4 + length p) @ le 2 t" p "?pad @ ?rest"]) (use buf that in simp_all)
  show ?case
  proof (cases "t = 2")
    case True
    then show ?thesis using rds val n ge tp(3) by (subst nl_iface_addr_parse.simps) (simp add: a)
  next
    case False
    have "?buf = (pre @ enc_attr a) @ concat (map enc_attr as) @ post" by simp
    moreover have "length (pre @ enc_attr a) = length pre + (4 + length p + 3) div 4 * 4" by (simp only: a length_append length_enc_attr)
    ultimately have "nl_iface_addr_parse vid ?buf (length pre + (4 + length p + 3) div 4 * 4) (length (concat (map enc_attr as))) pl =
      Returns (Some \<lparr>na_vid = ucast vid, na_prefixlen = of_nat pl, na_address = local_address as\<rparr>)"
      using Cons.IH[of "pre @ enc_attr a"] Cons.prems False by (simp add: a n)
    moreover have "minus_size ?n ((4 + length p + 3) div 4 * 4) = length (concat (map enc_attr as))"
      using Cons.prems(3) n by (simp add: minus_size_simp)
    ultimately show ?thesis using rds n ge False tp(1)
      by (subst nl_iface_addr_parse.simps) (simp add: a)
  qed
qed simp

section \<open>The walk over encoded messages\<close>

definition msg_type :: "nlm \<Rightarrow> nat" where
  "msg_type m = (case m of NewAddr h pl fl i as \<Rightarrow> 20 | OtherMsg h t b \<Rightarrow> t)"

lemma length_enc_msg: "wf_nlm name m \<Longrightarrow> length (enc_msg m) = 16 + length (enc_body m)"
  by (auto simp: enc_msg_def wf_nlm_def split: nlm.splits)

lemma length_attrs_mod4: "length (concat (map enc_attr as)) mod 4 = 0"
proof (induction as)
  case (Cons a as)
  obtain t p where a: "a = (t, p)" by (cases a)
  have "length (concat (map enc_attr (a # as))) = (4 + length p + 3) div 4 * 4 + length (concat (map enc_attr as))"
    by (simp add: a length_enc_attr)
  then show ?case using Cons.IH by (metis mod_mult_self3)
qed simp

lemma length_enc_body_mod4: "wf_nlm name m \<Longrightarrow> length (enc_body m) mod 4 = 0"
proof (cases m)
  case (NewAddr h pl fl i as)
  assume "wf_nlm name m"
  then have "length (enc_body m) = 8 + length (concat (map enc_attr as))" by (simp add: NewAddr wf_nlm_def enc_body_def del: length_concat)
  then show ?thesis using length_attrs_mod4[of as] by (simp add: mod_add_eq[symmetric] del: length_concat)
qed (simp add: wf_nlm_def enc_body_def)

text \<open>The header of a message behind a prefix.\<close>

lemma rd_header:
  assumes "wf_nlm name m" "buf = pre @ enc_msg m @ post" "length (enc_msg m) < 2 ^ 32"
  shows "rd 4 buf (length pre) = Some (length (enc_msg m))" "rd 2 buf (length pre + 4) = Some (msg_type m)"
proof -
  obtain h where e: "enc_msg m = le 4 (length (enc_msg m)) @ le 2 (msg_type m) @ h @ enc_body m" and t: "msg_type m < 65536"
    using length_enc_msg[OF assms(1)] assms(1) by (cases m) (auto simp: enc_msg_def msg_type_def wf_nlm_def)
  let ?tail = "h @ enc_body m @ post"
  have b: "buf = pre @ le 4 (length (enc_msg m)) @ (le 2 (msg_type m) @ ?tail)" unfolding assms(2) by (subst e) simp
  show "rd 4 buf (length pre) = Some (length (enc_msg m))" by (rule rd_le[OF b]) (use assms(3) in simp_all)
  show "rd 2 buf (length pre + 4) = Some (msg_type m)"
    by (rule rd_le[of _ "pre @ le 4 (length (enc_msg m))" _ _ ?tail]) (use b t in simp_all)
qed

text \<open>The index, prefix length and attributes of an address.\<close>

lemma rd_newaddr:
  assumes "wf_nlm name m" "m = NewAddr h pl fl i as" "buf = pre @ enc_msg m @ post" "length (enc_msg m) < 2 ^ 32"
  shows "rd 4 buf (length pre + 20) = Some (unat i)" "rd 1 buf (length pre + 17) = Some (unat pl)"
    "nl_iface_addr_parse vid buf (length pre + 24) (length (enc_msg m) - 24) k =
      Returns (Some \<lparr>na_vid = ucast vid, na_prefixlen = of_nat k, na_address = local_address as\<rparr>)"
proof -
  let ?hd = "le 4 (16 + length (enc_body m)) @ le 2 20 @ h" and ?as = "concat (map enc_attr as)"
  have h: "length h = 10" "length fl = 2" "list_all wf_attr as" "2 \<in> fst ` set as" using assms(1) by (auto simp: wf_nlm_def assms(2))
  have buf: "buf = pre @ ?hd @ [2, pl] @ fl @ le 4 (unat i) @ ?as @ post"
    by (simp add: assms(3) enc_msg_def enc_body_def assms(2))
  have len: "length (enc_msg m) = 24 + length ?as"
    using length_enc_msg[OF assms(1)] h by (simp add: assms(2) enc_body_def del: length_concat)
  have "unat i < 256 ^ 4" using unsigned_less[of i, where 'a = nat] by simp
  then show "rd 4 buf (length pre + 20) = Some (unat i)"
    by (intro rd_le[of _ "pre @ ?hd @ [2, pl] @ fl" _ _ "?as @ post"]) (use buf h in simp_all)
  show "rd 1 buf (length pre + 17) = Some (unat pl)"
    using rd_at[of buf "pre @ ?hd @ [2]" "[pl]" "fl @ le 4 (unat i) @ ?as @ post" "length pre + 17" 1] buf h by simp
  have "nl_iface_addr_parse vid ((pre @ ?hd @ [2, pl] @ fl @ le 4 (unat i)) @ ?as @ post)
      (length (pre @ ?hd @ [2, pl] @ fl @ le 4 (unat i))) (length ?as) k =
      Returns (Some \<lparr>na_vid = ucast vid, na_prefixlen = of_nat k, na_address = local_address as\<rparr>)"
    by (rule attr_parse_exact) (use h len assms(4) in simp_all)
  moreover have "length (pre @ ?hd @ [2, pl] @ fl @ le 4 (unat i)) = length pre + 24" using h by simp
  ultimately show "nl_iface_addr_parse vid buf (length pre + 24) (length (enc_msg m) - 24) k =
      Returns (Some \<lparr>na_vid = ucast vid, na_prefixlen = of_nat k, na_address = local_address as\<rparr>)"
    by (simp add: buf len)
qed

text \<open>Entries \<open>ys\<close> stored from place \<open>num\<close> on when the array is filled, and the room they need.\<close>

definition stored_from :: "nl_vid_addr list option \<Rightarrow> nat \<Rightarrow> nat \<Rightarrow> nl_vid_addr list \<Rightarrow> nl_vid_addr list option" where
  "stored_from dst size_in num ys =
     (case dst of None \<Rightarrow> None | Some xs \<Rightarrow> if size_in = 0 then dst else Some (take num xs @ ys @ drop (num + length ys) xs))"

definition room :: "nl_vid_addr list option \<Rightarrow> nat \<Rightarrow> nat \<Rightarrow> bool" where
  "room dst size_in num = (case dst of None \<Rightarrow> True | Some xs \<Rightarrow> size_in = 0 \<or> num \<le> size_in \<and> num \<le> length xs)"

lemma stored_from_simps:
  "stored_from dst size_in num [] = dst"
  "room dst size_in (num + Suc (length ys)) \<Longrightarrow>
    stored_from (stored_from dst size_in num [x]) size_in (Suc num) ys = stored_from dst size_in num (x # ys)"
  "room (stored_from dst size_in num [x]) size_in k = room dst size_in k \<or> \<not> room dst size_in (Suc num)"
  by (auto simp: stored_from_def room_def min_def add.commute split: option.splits)

lemma newaddr_exact:
  assumes "wf_nlm name m" "m = NewAddr h pl fl i as" "buf = pre @ enc_msg m @ post" "length (enc_msg m) < 2 ^ 32"
    and "vlan_addr name m \<noteq> None \<Longrightarrow> room dst size_in (Suc num)"
  shows "nl_newaddr name buf (length pre) (length (enc_msg m)) dst size_in num =
    Returns (case vlan_addr name m of None \<Rightarrow> Next num dst | Some x \<Rightarrow> Next (Suc num) (stored_from dst size_in num [x]))"
proof -
  note r = rd_newaddr[OF assms(1-4)]
  obtain s where s: "name i = Some s" "scan_lit ''Vlan'' 32 s \<noteq> ScanRange"
    using assms(1) by (auto simp: wf_nlm_def assms(2) split: option.splits)
  have "24 \<le> length (enc_msg m)" using length_enc_msg[OF assms(1)] assms(1) by (simp add: assms(2) enc_body_def wf_nlm_def)
  then have l: "nat ((int (length (enc_msg m)) - 24) mod 2 ^ 32) = length (enc_msg m) - 24" using assms(4) by (simp add: nat_diff_distrib')
  have st: "nl_store buf (length pre) (length (enc_msg m)) vid xs num =
      Returns (xs[num := \<lparr>na_vid = ucast vid, na_prefixlen = of_nat (unat pl), na_address = local_address as\<rparr>])"
    if "num < length xs" for vid xs using that r(2,3) l by (simp add: nl_store_def del: One_nat_def)
  show ?thesis
  proof (cases "scan_lit ''Vlan'' 32 s")
    case (ScanVal vid)
    let ?x = "\<lparr>na_vid = ucast (of_nat vid :: u32), na_prefixlen = of_nat (unat pl), na_address = local_address as\<rparr>"
    have v: "vlan_addr name m = Some ?x" by (simp add: vlan_addr_def assms(2) s ScanVal)
    then have "room dst size_in (Suc num)" using assms(5) by simp
    then show ?thesis using st
      by (auto simp: nl_newaddr_def r s ScanVal v stored_from_def room_def upd_conv_take_nth_drop split: option.splits)
  qed (use s in \<open>simp_all add: nl_newaddr_def r vlan_addr_def assms(2)\<close>)
qed

lemma walk_step:
  assumes "wf_nlm name m" "buf = pre @ enc_msg m @ post" "length (enc_msg m) \<le> len" "len < 2 ^ 32 - 4"
    and "vlan_addr name m \<noteq> None \<Longrightarrow> room dst size_in (Suc num)"
  shows "nl_walk name buf (length pre) len dst size_in num =
    (case vlan_addr name m of
       None \<Rightarrow> nl_walk name buf (length pre + length (enc_msg m)) (len - length (enc_msg m)) dst size_in num
     | Some x \<Rightarrow> nl_walk name buf (length pre + length (enc_msg m)) (len - length (enc_msg m)) (stored_from dst size_in num [x]) size_in (Suc num))"
proof -
  have lt: "length (enc_msg m) < 2 ^ 32" using assms(3,4) by simp
  note h = rd_header[OF assms(1,2) lt]
  have n: "16 \<le> length (enc_msg m)" "length (enc_msg m) mod 4 = 0"
    using length_enc_msg[OF assms(1)] length_enc_body_mod4[OF assms(1)] by (simp_all add: mod_add_eq[symmetric])
  have al: "align4 (length (enc_msg m)) = length (enc_msg m)" using n(2) assms(3,4) by (simp add: align4_id)
  have mi: "minus_size len (length (enc_msg m)) = len - length (enc_msg m)" using assms(3,4) by (simp add: minus_size_simp)
  have t: "msg_type m \<noteq> 2" "msg_type m \<noteq> 3" using assms(1) by (auto simp: wf_nlm_def msg_type_def split: nlm.splits)
  have b: "(if msg_type m = 20 then nl_newaddr name buf (length pre) (length (enc_msg m)) dst size_in num else Returns (Next num dst)) =
      Returns (case vlan_addr name m of None \<Rightarrow> Next num dst | Some x \<Rightarrow> Next (Suc num) (stored_from dst size_in num [x]))"
  proof (cases m)
    case (NewAddr h pl fl i as)
    then show ?thesis using newaddr_exact[OF assms(1) NewAddr assms(2) lt assms(5)] by (simp add: msg_type_def)
  next
    case (OtherMsg h t b)
    then show ?thesis using assms(1) by (simp add: msg_type_def wf_nlm_def vlan_addr_def)
  qed
  have "len mod 2 ^ 32 = len" using assms(4) by simp
  moreover have "enc_msg m \<noteq> []" using n(1) by auto
  ultimately show ?thesis using assms(3) n(1) t
    by (subst nl_walk.simps) (simp add: h al mi b split: option.split)
qed

lemma enc_msgs_simps [simp]: "enc_msgs [] = []" "enc_msgs (m # ms) = enc_msg m @ enc_msgs ms"
  by (simp_all add: enc_msgs_def)

lemma vlan_addrs_Cons:
  "vlan_addrs name (m # ms) = (case vlan_addr name m of None \<Rightarrow> vlan_addrs name ms | Some x \<Rightarrow> x # vlan_addrs name ms)"
  by (simp add: vlan_addrs_def List.map_filter_simps split: option.split)

lemma walk_exact:
  assumes "list_all (wf_nlm name) ms" "length (enc_msgs ms) + k < 2 ^ 32 - 4"
    and "room dst size_in (num + length (vlan_addrs name ms))"
  shows "nl_walk name (pre @ enc_msgs ms @ post) (length pre) (length (enc_msgs ms) + k) dst size_in num =
    nl_walk name (pre @ enc_msgs ms @ post) (length pre + length (enc_msgs ms)) k (stored_from dst size_in num (vlan_addrs name ms)) size_in
      (num + length (vlan_addrs name ms))"
  using assms
proof (induction ms arbitrary: pre dst num)
  case Nil
  then show ?case by (simp add: vlan_addrs_def List.map_filter_simps stored_from_simps)
next
  case (Cons m ms)
  let ?buf = "pre @ enc_msgs (m # ms) @ post"
  have buf: "?buf = pre @ enc_msg m @ (enc_msgs ms @ post)" "?buf = (pre @ enc_msg m) @ enc_msgs ms @ post" by simp_all
  have wf: "wf_nlm name m" "list_all (wf_nlm name) ms" and len: "length (enc_msgs ms) + k < 2 ^ 32 - 4"
    using Cons.prems(1,2) by simp_all
  have r: "vlan_addr name m \<noteq> None \<Longrightarrow> room dst size_in (Suc num)"
    using Cons.prems(3) by (auto simp: vlan_addrs_Cons room_def split: option.splits)
  have step: "nl_walk name ?buf (length pre) (length (enc_msgs (m # ms)) + k) dst size_in num =
    (case vlan_addr name m of
       None \<Rightarrow> nl_walk name ?buf (length (pre @ enc_msg m)) (length (enc_msgs ms) + k) dst size_in num
     | Some x \<Rightarrow> nl_walk name ?buf (length (pre @ enc_msg m)) (length (enc_msgs ms) + k) (stored_from dst size_in num [x]) size_in (Suc num))"
    using walk_step[OF wf(1) buf(1) _ Cons.prems(2) r] by (simp split: option.split)
  show ?case
  proof (cases "vlan_addr name m")
    case None
    then show ?thesis using Cons.IH[OF wf(2) len, of dst num "pre @ enc_msg m"] Cons.prems(3) step
      by (simp add: vlan_addrs_Cons add.assoc)
  next
    case (Some x)
    have rm: "room dst size_in (num + Suc (length (vlan_addrs name ms)))" using Cons.prems(3) Some by (simp add: vlan_addrs_Cons)
    then have "room (stored_from dst size_in num [x]) size_in (Suc num + length (vlan_addrs name ms))"
      by (auto simp: stored_from_def room_def split: option.splits)
    then show ?thesis using Cons.IH[OF wf(2) len, of "stored_from dst size_in num [x]" "Suc num" "pre @ enc_msg m"] step Some rm
      by (simp add: vlan_addrs_Cons stored_from_simps add.assoc)
  qed
qed

text \<open>A datagram at the start of the buffer, with what the walk finds behind it.\<close>

lemma response_exact:
  assumes "list_all (wf_nlm name) ms" "length (enc_msgs ms) + 6 \<le> length buf" "length buf = BUFFER_SIZE"
    and "room dst size_in (length (vlan_addrs name ms))"
    and "rd 2 (overlay (enc_msgs ms) buf) (length (enc_msgs ms) + 4) \<noteq> Some 3"
  shows "nl_response_addr_parse name (overlay (enc_msgs ms) buf) (length (enc_msgs ms)) dst size_in =
    Returns (if length (vlan_addrs name ms) > size_in then - EOVERFLOW else 0, length (vlan_addrs name ms),
      stored_from dst size_in 0 (vlan_addrs name ms))"
proof -
  have "length (enc_msgs ms) + 0 < 2 ^ 32 - 4" using assms(2,3) by (simp add: BUFFER_SIZE_def)
  from walk_exact[OF assms(1) this, of dst size_in 0 "[]"] assms(4)
  have "nl_response_addr_parse name (overlay (enc_msgs ms) buf) (length (enc_msgs ms)) dst size_in =
      nl_finish (overlay (enc_msgs ms) buf) (length (enc_msgs ms)) (stored_from dst size_in 0 (vlan_addrs name ms)) size_in
        (length (vlan_addrs name ms))"
    by (simp add: nl_response_addr_parse_def overlay_def nl_walk.simps[of name _ _ 0])
  moreover obtain t where "rd 2 (overlay (enc_msgs ms) buf) (length (enc_msgs ms) + 4) = Some t"
    using assms(2) by (simp add: rd_def overlay_def)
  ultimately show ?thesis using assms(5) by (simp add: nl_finish_def)
qed

text \<open>The last datagram.\<close>

definition done_msg :: "u8 list \<Rightarrow> u8 list \<Rightarrow> u8 list" where
  "done_msg h b = le 4 (16 + length b) @ le 2 3 @ h @ b"

lemma response_done:
  assumes "length h = 10" "length b < 4000"
  shows "nl_response_addr_parse name (overlay (done_msg h b) buf) (length (done_msg h b)) dst size_in = Returns (- ENODATA, 0, dst)"
proof -
  let ?buf = "overlay (done_msg h b) buf"
  have len: "length (done_msg h b) = 16 + length b" using assms by (simp add: done_msg_def)
  have "rd 4 ?buf 0 = Some (16 + length b)"
    by (rule rd_le[of _ "[]" _ _ "le 2 3 @ h @ b @ drop (length (done_msg h b)) buf"]) (use assms in \<open>simp_all add: overlay_def done_msg_def\<close>)
  moreover have "rd 2 ?buf 4 = Some 3"
    by (rule rd_le[of _ "le 4 (16 + length b)" _ _ "h @ b @ drop (length (done_msg h b)) buf"]) (use assms in \<open>simp_all add: overlay_def done_msg_def\<close>)
  ultimately show ?thesis using assms
    by (subst nl_response_addr_parse_def, subst nl_walk.simps) (simp add: len nl_finish_def)
qed

section \<open>The whole list\<close>

text \<open>The datagrams \<open>ds\<close> and the last one \<open>e\<close> are received whole, with the bytes that the walk reads behind a datagram
  not looking like the end: every datagram fits into the length of the one before it.\<close>

fun received_whole :: "u8 list \<Rightarrow> nat \<Rightarrow> u8 list \<Rightarrow> u8 list list \<Rightarrow> bool" where
  "received_whole buf n e [] \<longleftrightarrow> length e \<le> n"
| "received_whole buf n e (d # ds) \<longleftrightarrow>
     length d \<le> n \<and> length d + 6 \<le> length buf \<and> rd 2 (overlay d buf) (length d + 4) \<noteq> Some 3 \<and>
     received_whole (overlay d buf) (length d) e ds"

definition dialogue :: "nlm list list \<Rightarrow> u8 list \<Rightarrow> u8 list \<Rightarrow> u8 list option list" where
  "dialogue bs h b = map (Some \<circ> enc_msgs) bs @ [Some (done_msg h b)]"

lemma length_overlay: "length d \<le> length buf \<Longrightarrow> length (overlay d buf) = length buf"
  by (simp add: overlay_def)

lemma vlan_addrs_append: "vlan_addrs name (ms @ ns) = vlan_addrs name ms @ vlan_addrs name ns"
  by (induction ms) (simp_all add: vlan_addrs_Cons vlan_addrs_def[of name "[]"] List.map_filter_simps split: option.split)

lemma stored_from_count: "k = length ys \<Longrightarrow> k \<le> length xs \<Longrightarrow> stored_from (Some xs) k 0 ys = Some (ys @ drop k xs)"
  by (simp add: stored_from_def)

lemma count_loop:
  assumes "list_all (list_all (wf_nlm name)) bs" "length buf = BUFFER_SIZE" "length h = 10" "length b < 4000"
    and "received_whole buf n (done_msg h b) (map enc_msgs bs)"
  shows "nl_loop name (dialogue bs h b) buf n None size_in batch num =
    nl_end size_in None (num + length (vlan_addrs name (concat bs)))"
  using assms
proof (induction bs arbitrary: buf n batch num)
  case Nil
  then show ?case
    by (simp add: dialogue_def Let_def response_done vlan_addrs_def List.map_filter_simps)
next
  case (Cons ms bs)
  let ?k = "length (vlan_addrs name ms)"
  have wf: "list_all (wf_nlm name) ms" "list_all (list_all (wf_nlm name)) bs" using Cons.prems(1) by simp_all
  have q: "length (enc_msgs ms) \<le> n" "length (enc_msgs ms) + 6 \<le> length buf"
    "rd 2 (overlay (enc_msgs ms) buf) (length (enc_msgs ms) + 4) \<noteq> Some 3"
    "received_whole (overlay (enc_msgs ms) buf) (length (enc_msgs ms)) (done_msg h b) (map enc_msgs bs)" using Cons.prems(5) by simp_all
  have len: "length (overlay (enc_msgs ms) buf) = BUFFER_SIZE" using q(2) Cons.prems(2) by (simp add: length_overlay)
  have r: "nl_response_addr_parse name (overlay (enc_msgs ms) buf) (length (enc_msgs ms)) None batch =
      Returns (if ?k > batch then - EOVERFLOW else 0, ?k, None)"
    using response_exact[OF wf(1) q(2) Cons.prems(2) _ q(3), of None batch] by (simp add: room_def stored_from_def)
  show ?case using Cons.IH[OF wf(2) len Cons.prems(3,4) q(4), of ?k "num + ?k"]
    by (simp add: dialogue_def q(1) r Let_def vlan_addrs_append add.assoc EOVERFLOW_def ENODATA_def)
qed

lemma fill_loop:
  assumes "list_all (list_all (wf_nlm name)) bs" "length buf = BUFFER_SIZE" "length h = 10" "length b < 4000"
    and "received_whole buf n (done_msg h b) (map enc_msgs bs)"
    and "num + length (vlan_addrs name (concat bs)) \<le> size_in" "size_in \<le> length xs" "size_in \<noteq> 0"
  shows "nl_loop name (dialogue bs h b) buf n (Some xs) size_in batch num =
    nl_end size_in (Some (take num xs @ vlan_addrs name (concat bs) @ drop (num + length (vlan_addrs name (concat bs))) xs))
      (num + length (vlan_addrs name (concat bs)))"
  using assms
proof (induction bs arbitrary: buf n xs batch num)
  case Nil
  then show ?case
    by (simp add: dialogue_def Let_def response_done vlan_addrs_def List.map_filter_simps)
next
  case (Cons ms bs)
  let ?ys = "vlan_addrs name ms" and ?zs = "vlan_addrs name (concat bs)"
  let ?buf = "overlay (enc_msgs ms) buf"
  have wf: "list_all (wf_nlm name) ms" "list_all (list_all (wf_nlm name)) bs" using Cons.prems(1) by simp_all
  have q: "length (enc_msgs ms) \<le> n" "length (enc_msgs ms) + 6 \<le> length buf" "rd 2 ?buf (length (enc_msgs ms) + 4) \<noteq> Some 3"
    "received_whole ?buf (length (enc_msgs ms)) (done_msg h b) (map enc_msgs bs)" using Cons.prems(5) by simp_all
  have len: "length ?buf = BUFFER_SIZE" using q(2) Cons.prems(2) by (simp add: length_overlay)
  have le: "num + length ?ys + length ?zs \<le> size_in" using Cons.prems(6) by (simp add: vlan_addrs_append)
  have count: "nl_response_addr_parse name ?buf (length (enc_msgs ms)) None batch =
      Returns (if length ?ys > batch then - EOVERFLOW else 0, length ?ys, None)"
    using response_exact[OF wf(1) q(2) Cons.prems(2) _ q(3), of None batch] by (simp add: room_def stored_from_def)
  have room: "length ?ys \<le> length xs - num" and num: "num \<le> length xs" using le Cons.prems(7) by linarith+
  have fill: "nl_response_addr_parse name ?buf (length (enc_msgs ms)) (Some (drop num xs)) (length ?ys) =
      Returns (0, length ?ys, Some (?ys @ drop (num + length ?ys) xs))"
    using response_exact[OF wf(1) q(2) Cons.prems(2) _ q(3), of "Some (drop num xs)" "length ?ys"] room
    by (simp add: room_def stored_from_count add.commute)
  let ?xs = "take num xs @ ?ys @ drop (num + length ?ys) xs"
  have "length ?xs = length xs" using le Cons.prems(7) by simp
  then have "nl_loop name (dialogue bs h b) ?buf (length (enc_msgs ms)) (Some ?xs) size_in (length ?ys) (num + length ?ys) =
      nl_end size_in (Some (take (num + length ?ys) ?xs @ ?zs @ drop (num + length ?ys + length ?zs) ?xs)) (num + length ?ys + length ?zs)"
    using Cons.IH[OF wf(2) len Cons.prems(3,4) q(4), of "num + length ?ys" ?xs] le Cons.prems(7,8) by simp
  moreover have "take (num + length ?ys) ?xs = take num xs @ ?ys" "drop (num + length ?ys + length ?zs) ?xs = drop (num + length ?ys + length ?zs) xs"
    using num by (simp_all add: add.commute add.left_commute)
  ultimately show ?case using le num Cons.prems(8)
    by (simp add: dialogue_def q(1) count fill Let_def vlan_addrs_append add.assoc EOVERFLOW_def ENODATA_def)
qed

text \<open>A dialogue in which the kernel lists the addresses \<open>xs\<close> of VLAN interfaces.\<close>

definition lists_addresses :: "nl_kernel \<Rightarrow> nl_vid_addr list \<Rightarrow> bool" where
  "lists_addresses K xs \<longleftrightarrow> nk_socket K \<and> nk_send K \<and> length (nk_stack K) = BUFFER_SIZE \<and>
     (\<exists>bs h b. nk_datagrams K = dialogue bs h b \<and> list_all (list_all (wf_nlm (nk_name K))) bs \<and> length h = 10 \<and> length b < 4000 \<and>
        received_whole (nk_stack K) BUFFER_SIZE (done_msg h b) (map enc_msgs bs) \<and> vlan_addrs (nk_name K) (concat bs) = xs)"

lemma ip_list_exact:
  assumes "lists_addresses K xs"
  shows "nl_get_ip_list K None 0 = Returns (if xs = [] then 0 else - EOVERFLOW, length xs, None)"
    and "xs \<noteq> [] \<Longrightarrow> length ys = length xs \<Longrightarrow> nl_get_ip_list K (Some ys) (length xs) = Returns (0, length xs, Some xs)"
proof -
  obtain bs h b where k: "nk_socket K" "nk_send K" "nk_datagrams K = dialogue bs h b" "vlan_addrs (nk_name K) (concat bs) = xs"
    and p: "list_all (list_all (wf_nlm (nk_name K))) bs" "length (nk_stack K) = BUFFER_SIZE" "length h = 10" "length b < 4000"
      "received_whole (nk_stack K) BUFFER_SIZE (done_msg h b) (map enc_msgs bs)"
    using assms unfolding lists_addresses_def by blast
  show "nl_get_ip_list K None 0 = Returns (if xs = [] then 0 else - EOVERFLOW, length xs, None)"
    using count_loop[OF p, of 0 0 0] k by (simp add: nl_get_ip_list_def nl_end_def)
  show "nl_get_ip_list K (Some ys) (length xs) = Returns (0, length xs, Some xs)" if "xs \<noteq> []" "length ys = length xs"
    using fill_loop[OF p, of 0 "length xs" ys 0] k that by (simp add: nl_get_ip_list_def nl_end_def)
qed


text \<open>One address of the interface \<open>Vlan7\<close>.\<close>

definition demo_kernel :: nl_kernel where
  "demo_kernel = \<lparr>nk_socket = True, nk_send = True, nk_name = (\<lambda>i. if i = 5 then Some ''Vlan7'' else Some ''eth0''),
     nk_datagrams = dialogue [[NewAddr (replicate 10 0) 24 [0, 0] 5 [(1, [10, 0, 0, 1]), (2, [10, 0, 0, 1])]]] (replicate 10 0) (replicate 4 0),
     nk_stack = replicate BUFFER_SIZE 0\<rparr>"

lemma demo_kernel_lists: "lists_addresses demo_kernel [\<lparr>na_vid = 7, na_prefixlen = 24, na_address = 16777226\<rparr>]"
proof -
  let ?m = "NewAddr (replicate 10 0) 24 [0, 0] 5 [(1, [10, 0, 0, 1]), (2, [10, 0, 0, 1])]"
  have s: "scan_lit ''Vlan'' 32 ''Vlan7'' = ScanVal 7" by (simp add: c_defs)
  have "wf_nlm (nk_name demo_kernel) ?m" using s by (simp add: wf_nlm_def wf_attr_def demo_kernel_def)
  moreover have "vlan_addrs (nk_name demo_kernel) [?m] = [\<lparr>na_vid = 7, na_prefixlen = 24, na_address = 16777226\<rparr>]"
    using s by (simp add: vlan_addrs_def List.map_filter_simps vlan_addr_def demo_kernel_def)
  moreover have "received_whole (replicate BUFFER_SIZE 0) BUFFER_SIZE (done_msg (replicate 10 0) (replicate 4 0)) [enc_msgs [?m]]"
    by (simp add: BUFFER_SIZE_def done_msg_def enc_msg_def enc_body_def enc_attr_def rd_def overlay_def numeral_2_eq_2)
  ultimately show ?thesis unfolding lists_addresses_def
    by (intro conjI exI[of _ "[[?m]]"] exI[of _ "replicate 10 0"] exI[of _ "replicate 4 0"]) (simp_all add: demo_kernel_def)
qed


section \<open>Datagrams that are not handled\<close>

text \<open>A kernel that puts the end into the last datagram with addresses makes the counting query wait forever: the
  overflow of the count hides the end.\<close>

lemma end_with_addresses_waits:
  assumes "list_all (wf_nlm name) ms" "vlan_addrs name ms \<noteq> []" "length h = 10" "length buf = BUFFER_SIZE"
    and "length (enc_msgs ms @ done_msg h b) \<le> BUFFER_SIZE"
  shows "nl_loop name [Some (enc_msgs ms @ done_msg h b)] buf BUFFER_SIZE None 0 0 0 = Forever"
proof -
  let ?d = "enc_msgs ms @ done_msg h b" and ?e = "length (enc_msgs ms)" and ?n = "length (vlan_addrs name ms)"
  let ?post = "done_msg h b @ drop (length ?d) buf"
  have len: "length (done_msg h b) = 16 + length b" using assms(3) by (simp add: done_msg_def)
  have o: "overlay ?d buf = enc_msgs ms @ ?post" by (simp add: overlay_def)
  have lt: "?e + length (done_msg h b) < 2 ^ 32 - 4" "16 + length b < 2 ^ 32" using assms(5) len by (simp_all add: BUFFER_SIZE_def)
  have "rd 4 (enc_msgs ms @ ?post) ?e = Some (16 + length b)"
    by (rule rd_le[of _ "enc_msgs ms" _ _ "le 2 3 @ h @ b @ drop (length ?d) buf"]) (use lt in \<open>simp_all add: done_msg_def\<close>)
  moreover have "rd 2 (enc_msgs ms @ ?post) (?e + 4) = Some 3"
    by (rule rd_le[of _ "enc_msgs ms @ le 4 (16 + length b)" _ _ "h @ b @ drop (length ?d) buf"]) (simp_all add: done_msg_def)
  ultimately have "nl_walk name (enc_msgs ms @ ?post) ?e (length (done_msg h b)) None 0 ?n = nl_finish (enc_msgs ms @ ?post) ?e None 0 ?n"
    using lt by (subst nl_walk.simps) (simp add: len)
  then have "nl_response_addr_parse name (overlay ?d buf) (length ?d) None 0 = Returns (- EOVERFLOW, ?n, None)"
    using walk_exact[OF assms(1) lt(1), of None 0 0 "[]" ?post] assms(2)
    by (simp add: nl_response_addr_parse_def o room_def stored_from_def nl_finish_def)
  then show ?thesis using assms(5) by (simp add: Let_def EOVERFLOW_def ENODATA_def)
qed

text \<open>The room for a datagram is the length of the one before it: what is longer is cut, and the messages behind
  the cut are lost without an error.\<close>

lemma longer_datagram_cut:
  "nl_loop name (Some (enc_msgs (ms @ ms')) # ds) buf (length (enc_msgs ms)) dst size_in batch num =
   nl_loop name (Some (enc_msgs ms) # ds) buf (length (enc_msgs ms)) dst size_in batch num"
  by (simp add: enc_msgs_def)

end
