(* ===== verification/Subscribe.thy ===== *)
theory Subscribe
  imports Plat_Events Connector
begin

text \<open>
  The subscription of the gNMI connector (\<open>gnma/gnmi/gnmi_c_connector.cpp\<close>): the request, the thread that keeps
  a stream open and reads from it (\<open>RpcStreamReader\<close>), and the conversion of what is read into the
  notification that the adapter's callback gets (\<open>RpcGnmiSubscribe\<close>).

  The thread waits for completions of the operations it started, one attempt to connect after the other.
  It is a step relation: a step completes an operation that is under way with any result, asks the
  thread to stop, or delivers that request. Of the gRPC library it is assumed that an operation
  completes at most once and that the final operation of a stream does not fail.
\<close>

section \<open>The request\<close>

datatype gnmi_subscribe_method = METHOD_STREAM | METHOD_POLL | METHOD_ONCE

datatype gnmi_subscribe_mode = MODE_TARGET_DEFINED | MODE_ON_CHANGE | MODE_SAMPLE

record subscribe_request =
  rq_method :: gnmi_subscribe_method
  rq_updates_only :: bool
  rq_paths :: "(string list \<times> gnmi_subscribe_mode) list"

definition gnmi_subscribe_create :: "gnmi_subscribe_method \<Rightarrow> int \<Rightarrow> subscribe_request" where
  "gnmi_subscribe_create m updates_only = \<lparr>rq_method = m, rq_updates_only = (updates_only \<noteq> 0), rq_paths = []\<rparr>"

definition gnmi_subscribe_add :: "string \<Rightarrow> gnmi_subscribe_mode \<Rightarrow> subscribe_request \<Rightarrow> int \<times> subscribe_request" where
  "gnmi_subscribe_add path mode rq = (0, rq\<lparr>rq_paths := rq_paths rq @ [(convertYangPath2ProtoPath path, mode)]\<rparr>)"

section \<open>Responses\<close>

text \<open>Messages of the library; a key of an element is a map, so the order of its entries is the library's.\<close>

datatype proto_value = UintVal u64 | JsonIetfVal string | StringVal string | BoolVal bool | OtherVal

type_synonym proto_path = "(string \<times> (string \<times> string) list) list"

record proto_update =
  pu_val :: "proto_value option"
  pu_path :: "proto_path option"

record proto_notification =
  pn_timestamp :: int
  pn_prefix :: "proto_path option"
  pn_update :: "proto_update list"

record proto_response =
  pr_sync :: "bool option"
  pr_update :: "proto_notification option"

definition gnmi2connector_typed_value :: "proto_value \<Rightarrow> gnmi_typed_value option" where
  "gnmi2connector_typed_value v =
     (case v of
        UintVal n \<Rightarrow> Some (VALUE_UINT n)
      | JsonIetfVal s \<Rightarrow> Some VALUE_OTHER
      | StringVal s \<Rightarrow> Some (VALUE_STRING (Some s))
      | BoolVal b \<Rightarrow> Some (VALUE_BOOL (if b then 1 else 0))
      | OtherVal \<Rightarrow> None)"

definition gnmi2connector_path :: "proto_path \<Rightarrow> gnmi_path_elem list" where
  "gnmi2connector_path p = map (\<lambda>(n, ks). \<lparr>elem_name = n, elem_key = map (\<lambda>(k, v). (Some k, Some v)) ks\<rparr>) p"

text \<open>An update whose value cannot be converted is left out.\<close>

definition on_read_update :: "proto_update \<Rightarrow> gnmi_subscribe_update option" where
  "on_read_update u =
     (case pu_val u of
        None \<Rightarrow> Some \<lparr>upd_path = map_option gnmi2connector_path (pu_path u), upd_val = None\<rparr>
      | Some v \<Rightarrow>
          (case gnmi2connector_typed_value v of
             None \<Rightarrow> None
           | Some w \<Rightarrow> Some \<lparr>upd_path = map_option gnmi2connector_path (pu_path u), upd_val = Some w\<rparr>))"

text \<open>The callback's argument; \<open>None\<close> is a response without an update.\<close>

definition on_read :: "proto_response \<Rightarrow> gnmi_notification option" where
  "on_read resp =
     map_option (\<lambda>n. \<lparr>notif_timestamp = pn_timestamp n,
       notif_prefix = (case pn_prefix n of None \<Rightarrow> [] | Some p \<Rightarrow> gnmi2connector_path p),
       notif_update = List.map_filter on_read_update (pn_update n)\<rparr>) (pr_update resp)"

text \<open>The final status of a stream that ends the subscription; after any other one the thread connects again. The
  numbers are those of gRPC: UNKNOWN 2, INVALID\_ARGUMENT 3, NOT\_FOUND 5, OUT\_OF\_RANGE 11, UNIMPLEMENTED 12,
  UNAUTHENTICATED 16.\<close>

definition on_finish :: "nat \<Rightarrow> bool" where
  "on_finish status \<longleftrightarrow> status \<in> set [12, 3, 2, 5, 11, UNAUTHENTICATED]"

section \<open>The thread\<close>

datatype tag = STATE_CHANGE | STREAM_START_CALL | STREAM_READ | STREAM_WRITE | STREAM_WRITES_DONE | STREAM_FINISH

datatype channel = CH_IDLE | CH_CONNECTING | CH_READY | CH_FAILURE | CH_SHUTDOWN

text \<open>\<open>r_ops\<close> are the operations of this attempt, \<open>r_pending\<close> those under way, \<open>r_cb\<close> the calls of the callback (a null
  pointer at the exit), \<open>r_stop\<close> whether the alarm of \<open>stop\<close> is set.\<close>

record 'r reader =
  r_attempt :: nat
  r_ops :: "tag list"
  r_pending :: "tag list"
  r_cb :: "'r option list"
  r_stop :: bool
  r_exited :: bool

definition start_op :: "tag \<Rightarrow> 'r reader \<Rightarrow> 'r reader" where
  "start_op t s = s\<lparr>r_ops := r_ops s @ [t], r_pending := r_pending s @ [t]\<rparr>"

definition new_attempt :: "'r reader \<Rightarrow> 'r reader" where
  "new_attempt s = start_op STATE_CHANGE (s\<lparr>r_attempt := Suc (r_attempt s), r_ops := []\<rparr>)"

definition end_attempt :: "bool \<Rightarrow> 'r reader \<Rightarrow> 'r reader" where
  "end_attempt stop s = (if stop then s\<lparr>r_exited := True, r_cb := r_cb s @ [None]\<rparr> else new_attempt s)"

definition reader_start :: "'r reader" where
  "reader_start = new_attempt \<lparr>r_attempt = 0, r_ops = [], r_pending = [], r_cb = [], r_stop = False, r_exited = False\<rparr>"

definition thread_event :: "('m \<Rightarrow> 'r) \<Rightarrow> tag \<Rightarrow> bool \<Rightarrow> 'm \<Rightarrow> nat \<Rightarrow> channel \<Rightarrow> 'r reader \<Rightarrow> 'r reader" where
  "thread_event f t ok resp status state s =
     (if \<not> ok \<and> t \<noteq> STATE_CHANGE then start_op STREAM_FINISH s
      else case t of
        STREAM_FINISH \<Rightarrow> end_attempt (on_finish status) s
      | STATE_CHANGE \<Rightarrow>
          if state = CH_SHUTDOWN then end_attempt True s
          else if state \<noteq> CH_READY then start_op STATE_CHANGE s
          else start_op STREAM_START_CALL s
      | STREAM_START_CALL \<Rightarrow> start_op STREAM_WRITE s
      | STREAM_WRITE \<Rightarrow> start_op STREAM_WRITES_DONE s
      | STREAM_WRITES_DONE \<Rightarrow> start_op STREAM_READ s
      | STREAM_READ \<Rightarrow> start_op STREAM_READ (s\<lparr>r_cb := r_cb s @ [Some (f resp)]\<rparr>))"

text \<open>The states the thread can reach, with the responses it has read so far.\<close>

inductive reached :: "('m \<Rightarrow> 'r) \<Rightarrow> 'm list \<Rightarrow> 'r reader \<Rightarrow> bool" for f where
  start: "reached f [] reader_start"
| complete: "reached f ms s \<Longrightarrow> \<not> r_exited s \<Longrightarrow> t \<in> set (r_pending s) \<Longrightarrow> t = STREAM_FINISH \<longrightarrow> ok \<Longrightarrow>
    reached f (ms @ (if t = STREAM_READ \<and> ok then [resp] else []))
      (thread_event f t ok resp status state (s\<lparr>r_pending := remove1 t (r_pending s)\<rparr>))"
| request_stop: "reached f ms s \<Longrightarrow> reached f ms (s\<lparr>r_stop := True\<rparr>)"
| shutdown: "reached f ms s \<Longrightarrow> r_stop s \<Longrightarrow> \<not> r_exited s \<Longrightarrow> reached f ms (end_attempt True s)"

section \<open>Order of operations\<close>

text \<open>What the library allows to follow an operation of a stream.\<close>

fun follows :: "tag \<Rightarrow> tag \<Rightarrow> bool" where
  "follows STATE_CHANGE t \<longleftrightarrow> t = STATE_CHANGE \<or> t = STREAM_START_CALL"
| "follows STREAM_START_CALL t \<longleftrightarrow> t = STREAM_WRITE \<or> t = STREAM_FINISH"
| "follows STREAM_WRITE t \<longleftrightarrow> t = STREAM_WRITES_DONE \<or> t = STREAM_FINISH"
| "follows STREAM_WRITES_DONE t \<longleftrightarrow> t = STREAM_READ \<or> t = STREAM_FINISH"
| "follows STREAM_READ t \<longleftrightarrow> t = STREAM_READ \<or> t = STREAM_FINISH"
| "follows STREAM_FINISH t \<longleftrightarrow> False"

definition ordered :: "tag list \<Rightarrow> bool" where
  "ordered ops \<longleftrightarrow> ops \<noteq> [] \<and> hd ops = STATE_CHANGE \<and> successively follows ops"

lemma ordered_snoc: "ordered ops \<Longrightarrow> follows (last ops) t \<Longrightarrow> ordered (ops @ [t])"
  by (simp add: ordered_def successively_append_iff)

lemma nothing_follows_finish [simp]: "successively follows (STREAM_FINISH # ops) \<longleftrightarrow> ops = []"
  by (cases ops) simp_all

text \<open>The request is written at most once, and before anything is read.\<close>

lemma written_once:
  assumes "successively follows ops"
  shows "count_list ops STREAM_WRITE \<le> 1 \<and> (STREAM_WRITE \<in> set ops \<longrightarrow> hd ops \<in> {STATE_CHANGE, STREAM_START_CALL, STREAM_WRITE})"
  using assms
proof (induction ops)
  case (Cons a ops)
  then show ?case by (cases ops; cases a) (auto simp: count_list_0_iff)
qed simp

lemma read_after_write:
  assumes "successively follows ops" "STREAM_READ \<in> set ops" "hd ops = STATE_CHANGE \<or> hd ops = STREAM_START_CALL \<or> hd ops = STREAM_WRITE"
  shows "STREAM_WRITE \<in> set ops"
  using assms
proof (induction ops)
  case (Cons a ops)
  then show ?case by (cases ops; cases a) auto
qed simp

definition reader_inv :: "('m \<Rightarrow> 'r) \<Rightarrow> 'm list \<Rightarrow> 'r reader \<Rightarrow> bool" where
  "reader_inv f ms s \<longleftrightarrow> ordered (r_ops s) \<and> (\<not> r_exited s \<longrightarrow> r_pending s = [last (r_ops s)]) \<and>
     r_cb s = map (Some \<circ> f) ms @ (if r_exited s then [None] else [])"

lemma thread_event_inv:
  assumes "reader_inv f ms s" "\<not> r_exited s" "t = last (r_ops s)" "t = STREAM_FINISH \<longrightarrow> ok"
  shows "reader_inv f (ms @ (if t = STREAM_READ \<and> ok then [resp] else []))
    (thread_event f t ok resp status state (s\<lparr>r_pending := []\<rparr>))"
proof -
  have o: "ordered (r_ops s)" and cb: "r_cb s = map (Some \<circ> f) ms" using assms(1,2) by (simp_all add: reader_inv_def)
  have op: "follows t u \<Longrightarrow> reader_inv f (ms @ xs) (start_op u (s\<lparr>r_pending := [], r_cb := map (Some \<circ> f) (ms @ xs)\<rparr>))" for u xs
    using o assms(2,3) by (simp add: reader_inv_def start_op_def ordered_snoc)
  have op': "follows t u \<Longrightarrow> reader_inv f ms (start_op u (s\<lparr>r_pending := []\<rparr>))" for u
    using o assms(2,3) cb by (simp add: reader_inv_def start_op_def ordered_snoc)
  have en: "reader_inv f ms (end_attempt b (s\<lparr>r_pending := []\<rparr>))" for b
    using o assms(2) cb by (simp add: reader_inv_def end_attempt_def new_attempt_def start_op_def ordered_def)
  show ?thesis
    using assms(4) op[of STREAM_READ "[resp]"] op' en cb by (cases t; cases ok) (auto simp: thread_event_def)
qed

lemma reached_inv: "reached f ms s \<Longrightarrow> reader_inv f ms s"
proof (induction rule: reached.induct)
  case start
  show ?case by (simp add: reader_inv_def reader_start_def new_attempt_def start_op_def ordered_def)
next
  case (complete ms s t ok resp status state)
  then have "r_pending s = [last (r_ops s)]" by (simp add: reader_inv_def)
  then have t: "t = last (r_ops s)" "remove1 t (r_pending s) = []" using complete.hyps by simp_all
  show ?case using thread_event_inv[OF complete.IH complete.hyps(2) t(1) complete.hyps(4)] t(2) by simp
next
  case (request_stop ms s)
  then show ?case by (simp add: reader_inv_def)
next
  case (shutdown ms s)
  then show ?case by (simp add: reader_inv_def end_attempt_def)
qed

text \<open>C18. In every state the subscription's thread can reach, whatever completions arrive and whenever it is asked to
  stop: while it runs exactly one operation is under way; the operations of an attempt follow each other in
  the order the library asks for, with the request written at most once and before anything is
  read; and the adapter's callback has been called with every response that was read, converted, in
  order, then at the exit once with a null pointer and never again.\<close>

theorem stream_reader_safe:
  assumes "reached on_read ms s"
  shows "(\<not> r_exited s \<longrightarrow> r_pending s = [last (r_ops s)]) \<and> ordered (r_ops s) \<and>
    count_list (r_ops s) STREAM_WRITE \<le> 1 \<and> (STREAM_READ \<in> set (r_ops s) \<longrightarrow> STREAM_WRITE \<in> set (r_ops s)) \<and>
    r_cb s = map (Some \<circ> on_read) ms @ (if r_exited s then [None] else [])"
proof -
  have i: "reader_inv on_read ms s" using assms by (rule reached_inv)
  then have "ordered (r_ops s)" by (simp add: reader_inv_def)
  then have "count_list (r_ops s) STREAM_WRITE \<le> 1" "STREAM_READ \<in> set (r_ops s) \<longrightarrow> STREAM_WRITE \<in> set (r_ops s)"
    using written_once[of "r_ops s"] read_after_write[of "r_ops s"] by (auto simp: ordered_def)
  then show ?thesis using i by (simp add: reader_inv_def)
qed

text \<open>One attempt with one response, a carrier change of \<open>Ethernet1\<close>.\<close>

definition demo_response :: proto_response where
  "demo_response = \<lparr>pr_sync = None, pr_update = Some \<lparr>pn_timestamp = 5000000000,
     pn_prefix = Some [(''interfaces'', []), (''interface'', [(''name'', ''Ethernet1'')]), (''state'', [])],
     pn_update = [\<lparr>pu_val = Some (StringVal ''UP''), pu_path = None\<rparr>, \<lparr>pu_val = Some OtherVal, pu_path = None\<rparr>]\<rparr>\<rparr>"

text \<open>The thread after it read \<open>ms\<close> in its first attempt.\<close>

lemma reached_reading:
  "reached f ms (start_op STREAM_READ \<lparr>r_attempt = 1, r_ops = [STATE_CHANGE, STREAM_START_CALL, STREAM_WRITE, STREAM_WRITES_DONE] @
     replicate (length ms) STREAM_READ, r_pending = [], r_cb = map (Some \<circ> f) ms, r_stop = False, r_exited = False\<rparr>)"
proof (induction ms rule: rev_induct)
  case Nil
  let ?s = "\<lambda>ops t. \<lparr>r_attempt = 1, r_ops = ops @ [t], r_pending = [t], r_cb = [], r_stop = False, r_exited = False\<rparr>"
  note c = reached.complete[where f = f and ok = True and state = CH_READY and status = 0]
  note d = reader_start_def new_attempt_def start_op_def thread_event_def
  have "reached f [] (?s [] STATE_CHANGE)" using reached.start[of f] by (simp add: d)
  from c[OF this, of STATE_CHANGE] have "reached f [] (?s [STATE_CHANGE] STREAM_START_CALL)" by (simp add: d)
  from c[OF this, of STREAM_START_CALL] have "reached f [] (?s [STATE_CHANGE, STREAM_START_CALL] STREAM_WRITE)" by (simp add: d)
  from c[OF this, of STREAM_WRITE] have "reached f [] (?s [STATE_CHANGE, STREAM_START_CALL, STREAM_WRITE] STREAM_WRITES_DONE)" by (simp add: d)
  from c[OF this, of STREAM_WRITES_DONE] show ?case by (simp add: d)
next
  case (snoc m ms)
  show ?case using reached.complete[OF snoc.IH, of STREAM_READ True m 0 CH_READY]
    by (simp add: start_op_def thread_event_def replicate_app_Cons_same)
qed

theorem stream_reader_safe_witness:
  "\<exists>s. reached on_read [demo_response] s \<and> \<not> r_exited s \<and> r_pending s = [STREAM_READ] \<and> count_list (r_ops s) STREAM_WRITE \<le> 1 \<and>
     r_cb s = [Some (Some \<lparr>notif_timestamp = 5000000000, notif_prefix =
       [\<lparr>elem_name = ''interfaces'', elem_key = []\<rparr>, \<lparr>elem_name = ''interface'', elem_key = [(Some ''name'', Some ''Ethernet1'')]\<rparr>,
        \<lparr>elem_name = ''state'', elem_key = []\<rparr>], notif_update = [\<lparr>upd_path = None, upd_val = Some (VALUE_STRING (Some ''UP''))\<rparr>]\<rparr>)]"
proof (intro exI conjI)
  show r: "reached on_read [demo_response] (start_op STREAM_READ \<lparr>r_attempt = 1, r_ops = [STATE_CHANGE, STREAM_START_CALL, STREAM_WRITE,
     STREAM_WRITES_DONE] @ replicate 1 STREAM_READ, r_pending = [], r_cb = map (Some \<circ> on_read) [demo_response], r_stop = False, r_exited = False\<rparr>)"
    (is "reached _ _ ?s") using reached_reading[of on_read "[demo_response]"] by simp
  show "\<not> r_exited ?s" by (simp add: start_op_def)
  then show "r_pending ?s = [STREAM_READ]" using stream_reader_safe[OF r] by (simp add: start_op_def)
  show "count_list (r_ops ?s) STREAM_WRITE \<le> 1" using stream_reader_safe[OF r] by blast
  show "r_cb ?s = [Some (Some \<lparr>notif_timestamp = 5000000000, notif_prefix =
       [\<lparr>elem_name = ''interfaces'', elem_key = []\<rparr>, \<lparr>elem_name = ''interface'', elem_key = [(Some ''name'', Some ''Ethernet1'')]\<rparr>,
        \<lparr>elem_name = ''state'', elem_key = []\<rparr>], notif_update = [\<lparr>upd_path = None, upd_val = Some (VALUE_STRING (Some ''UP''))\<rparr>]\<rparr>)]"
    by (simp add: start_op_def on_read_def demo_response_def on_read_update_def gnmi2connector_typed_value_def gnmi2connector_path_def
        List.map_filter_simps)
qed

text \<open>The response of the example is the carrier event of the adapter.\<close>

lemma demo_response_event:
  "subscribe_gnmi_cb (on_read demo_response) = Some (Some (EvLink 5000000000 (Some ''Ethernet1'') 1), None)"
  by (simp add: on_read_def demo_response_def on_read_update_def gnmi2connector_typed_value_def gnmi2connector_path_def
      List.map_filter_simps subscribe_gnmi_cb_def linkstatus_gnmi_cb_def iface_value_def no_ack_def)

text \<open>A thread that was asked to stop can always end, and the status of a stream decides whether it connects again.\<close>

lemma stop_ends: "reached f ms s \<Longrightarrow> r_stop s \<Longrightarrow> \<exists>s'. reached f ms s' \<and> r_exited s'"
  using reached.shutdown[of f ms s] by (cases "r_exited s") (auto simp: end_attempt_def)

lemma reconnects:
  "\<not> on_finish status \<Longrightarrow> r_ops (thread_event f STREAM_FINISH True m status ch s) = [STATE_CHANGE] \<and>
     r_attempt (thread_event f STREAM_FINISH True m status ch s) = Suc (r_attempt s)"
  by (simp add: thread_event_def end_attempt_def new_attempt_def start_op_def)

text \<open>A thread that is stopped while it reads leaves the read under way, although its stream and the place for the
  response are then destroyed.\<close>

lemma stop_leaves_read: "\<exists>s. reached f ms s \<and> r_exited s \<and> r_pending s = [STREAM_READ]"
  using reached.shutdown[OF reached.request_stop[OF reached_reading[of f ms]]] by (force simp: end_attempt_def start_op_def)

end
