(* ===== verification/Json_Stream.thy ===== *)
theory Json_Stream
  imports Json_Api
begin

text \<open>
  The streaming parser \<open>ucentral-json-parser.c\<close>, which turns the callbacks of the tokenizer of libwebsockets into
  a document of cJSON. The nodes of the document under construction live in a store, because a
  container is attached to its parent when it begins and filled through the parser's stack
  afterwards. The tokenizer is a parameter: its callbacks are events, and \<open>feed\<close> is given the effect
  of passing one character to it.
\<close>

section \<open>State\<close>

datatype jnode = NTrue | NFalse | NNull | NNum rat | NStr string | NArr "nat list" | NObj "(string \<times> nat) list"

datatype lejp_event =
    CONSTRUCTED | DESTRUCTED | START | COMPLETE | FAILED | PAIR_NAME string | VAL_TRUE | VAL_FALSE | VAL_NULL
  | VAL_NUM string | VAL_STR_START | VAL_STR_CHUNK string | VAL_STR_END string
  | ARRAY_START | ARRAY_END | OBJECT_START | OBJECT_END | OTHER_REASON

text \<open>What the caller of the parser sees: a document (\<open>None\<close> for a null pointer) or an error.\<close>

datatype parser_call = Document "json option" | ParseError

text \<open>\<open>up_str\<close> are the allocated bytes of the string (empty for a null pointer), \<open>up_stack\<close> has \<open>LEJP_MAX_DEPTH\<close> places,
  \<open>up_calls\<close> counts allocations.\<close>

record uc_json_parser =
  up_heap :: "nat \<rightharpoonup> jnode"
  up_next :: nat
  up_root :: "nat option"
  up_str :: string
  up_strsz :: nat
  up_sp :: nat
  up_stack :: "nat option list"
  up_name :: string
  up_calls :: nat
  up_out :: "parser_call list"

fun read_tree :: "nat \<Rightarrow> (nat \<rightharpoonup> jnode) \<Rightarrow> nat \<Rightarrow> json option" where
  "read_tree 0 H a = None"
| "read_tree (Suc k) H a =
     (case H a of
        None \<Rightarrow> None
      | Some NTrue \<Rightarrow> Some (JBool True) | Some NFalse \<Rightarrow> Some (JBool False) | Some NNull \<Rightarrow> Some JNull
      | Some (NNum q) \<Rightarrow> Some (JNum q) | Some (NStr s) \<Rightarrow> Some (JStr s)
      | Some (NArr as) \<Rightarrow> map_option JArr (those (map (read_tree k H) as))
      | Some (NObj ms) \<Rightarrow> map_option JObj (those (map (\<lambda>(n, a). map_option (Pair n) (read_tree k H a)) ms)))"

section \<open>The callback\<close>

text \<open>\<open>mem\<close> says which allocations succeed; \<open>None\<close> is undefined behaviour.\<close>

type_synonym parser_step = "uc_json_parser \<Rightarrow> (int \<times> uc_json_parser) option"

definition cleanup :: "uc_json_parser \<Rightarrow> uc_json_parser" where
  "cleanup s = s\<lparr>up_sp := 0, up_str := [], up_strsz := 0, up_heap := Map.empty, up_root := None\<rparr>"

definition fails :: parser_step where
  "fails s = Some (- 1, cleanup s)"

text \<open>The end of the callback: the new node is attached to the parent, or is the root. Adding to an object copies
  the name, and its failure is not looked at.\<close>

definition attach :: "(nat \<Rightarrow> bool) \<Rightarrow> nat option \<Rightarrow> nat \<Rightarrow> parser_step" where
  "attach mem parent cur s =
     (let root = (\<lambda>s. s\<lparr>up_root := (if up_root s = None then Some cur else up_root s)\<rparr>) in
      case parent of
        None \<Rightarrow> Some (0, root s)
      | Some p \<Rightarrow>
          (case up_heap s p of
             None \<Rightarrow> None
           | Some (NObj ms) \<Rightarrow>
               Some (0, root (s\<lparr>up_calls := Suc (up_calls s),
                 up_heap := (if mem (up_calls s) then (up_heap s)(p \<mapsto> NObj (ms @ [(up_name s, cur)])) else up_heap s)\<rparr>))
           | Some (NArr as) \<Rightarrow> Some (0, root (s\<lparr>up_heap := (up_heap s)(p \<mapsto> NArr (as @ [cur]))\<rparr>))
           | Some _ \<Rightarrow> fails s))"

definition create :: "(nat \<Rightarrow> bool) \<Rightarrow> jnode \<Rightarrow> uc_json_parser \<Rightarrow> (nat \<times> uc_json_parser) option" where
  "create mem x s =
     (if mem (up_calls s)
      then Some (up_next s, s\<lparr>up_calls := Suc (up_calls s), up_heap := (up_heap s)(up_next s \<mapsto> x), up_next := Suc (up_next s)\<rparr>)
      else None)"

definition scalar_node :: "(nat \<Rightarrow> bool) \<Rightarrow> nat option \<Rightarrow> jnode \<Rightarrow> parser_step" where
  "scalar_node mem parent x s =
     (case create mem x s of None \<Rightarrow> fails (s\<lparr>up_calls := Suc (up_calls s)\<rparr>) | Some (cur, s) \<Rightarrow> attach mem parent cur s)"

definition container_node :: "(nat \<Rightarrow> bool) \<Rightarrow> nat option \<Rightarrow> jnode \<Rightarrow> parser_step" where
  "container_node mem parent x s =
     (case create mem x s of
        None \<Rightarrow> fails (s\<lparr>up_calls := Suc (up_calls s)\<rparr>)
      | Some (cur, s) \<Rightarrow>
          if Suc (up_sp s) \<ge> length (up_stack s) then fails s
          else attach mem parent cur (s\<lparr>up_sp := Suc (up_sp s), up_stack := (up_stack s)[Suc (up_sp s) := Some cur]\<rparr>))"

definition container_end :: parser_step where
  "container_end s = (if up_sp s = 0 then fails s else Some (0, s\<lparr>up_sp := up_sp s - 1\<rparr>))"

text \<open>A piece of a string is copied behind the first \<open>up_strsz - 1\<close> bytes.\<close>

definition append_str :: "(nat \<Rightarrow> bool) \<Rightarrow> string \<Rightarrow> uc_json_parser \<Rightarrow> (bool \<times> uc_json_parser) option" where
  "append_str mem t s =
     (let s' = s\<lparr>up_calls := Suc (up_calls s)\<rparr> in
      if \<not> mem (up_calls s) then Some (False, s')
      else if up_strsz s = 0 \<or> up_strsz s - 1 > length (up_str s) then None
      else Some (True, s'\<lparr>up_str := take (up_strsz s - 1) (up_str s) @ t, up_strsz := up_strsz s + length t\<rparr>))"

definition uc_lejp_parse :: "(nat \<Rightarrow> bool) \<Rightarrow> (string \<Rightarrow> rat option) \<Rightarrow> lejp_event \<Rightarrow> parser_step" where
  "uc_lejp_parse mem scan ev s =
     (if up_sp s \<ge> length (up_stack s) then None
      else let parent = up_stack s ! up_sp s in
      case ev of
        CONSTRUCTED \<Rightarrow> Some (0, s)
      | DESTRUCTED \<Rightarrow> Some (0, cleanup s)
      | START \<Rightarrow> Some (0, s)
      | COMPLETE \<Rightarrow>
          Some (0, cleanup (s\<lparr>up_out := up_out s @ [Document (Option.bind (up_root s) (read_tree (up_next s) (up_heap s)))]\<rparr>))
      | FAILED \<Rightarrow> fails (s\<lparr>up_out := up_out s @ [ParseError]\<rparr>)
      | PAIR_NAME path \<Rightarrow> Some (0, s\<lparr>up_name := path\<rparr>)
      | VAL_TRUE \<Rightarrow> scalar_node mem parent NTrue s
      | VAL_FALSE \<Rightarrow> scalar_node mem parent NFalse s
      | VAL_NULL \<Rightarrow> scalar_node mem parent NNull s
      | VAL_NUM t \<Rightarrow> (case scan t of None \<Rightarrow> fails s | Some q \<Rightarrow> scalar_node mem parent (NNum q) s)
      | VAL_STR_START \<Rightarrow> Some (0, s\<lparr>up_strsz := 1\<rparr>)
      | VAL_STR_CHUNK t \<Rightarrow>
          (case append_str mem t s of None \<Rightarrow> None | Some (ok, s) \<Rightarrow> if ok then Some (0, s) else fails s)
      | VAL_STR_END t \<Rightarrow>
          (case append_str mem t s of
             None \<Rightarrow> None
           | Some (ok, s) \<Rightarrow>
               if \<not> ok then fails s
               else (case create mem (NStr (takeWhile (\<lambda>c. c \<noteq> CHR 0x00) (take (up_strsz s - 1) (up_str s)))) s of
                 None \<Rightarrow> fails (s\<lparr>up_calls := Suc (up_calls s)\<rparr>)
               | Some (cur, s) \<Rightarrow> attach mem parent cur (s\<lparr>up_str := [], up_strsz := 0\<rparr>)))
      | ARRAY_START \<Rightarrow> container_node mem parent (NArr []) s
      | ARRAY_END \<Rightarrow> container_end s
      | OBJECT_START \<Rightarrow> container_node mem parent (NObj []) s
      | OBJECT_END \<Rightarrow> container_end s
      | OTHER_REASON \<Rightarrow> fails s)"

text \<open>A sequence of callbacks that all return 0.\<close>

fun callbacks :: "(nat \<Rightarrow> bool) \<Rightarrow> (string \<Rightarrow> rat option) \<Rightarrow> lejp_event list \<Rightarrow> uc_json_parser \<Rightarrow> uc_json_parser option" where
  "callbacks mem scan [] s = Some s"
| "callbacks mem scan (e # es) s =
     (case uc_lejp_parse mem scan e s of Some (r, s) \<Rightarrow> if r = 0 then callbacks mem scan es s else None | None \<Rightarrow> None)"

section \<open>Feeding characters\<close>

definition LEJP_CONTINUE :: int where "LEJP_CONTINUE = - 1"

definition uc_json_parser_init :: "nat \<Rightarrow> uc_json_parser" where
  "uc_json_parser_init depth = \<lparr>up_heap = Map.empty, up_next = 0, up_root = None, up_str = [], up_strsz = 0, up_sp = 0,
     up_stack = replicate depth None, up_name = [], up_calls = 0, up_out = []\<rparr>"

text \<open>\<open>lejp\<close> passes a character to the tokenizer, with its return code and everything its callbacks do; \<open>again\<close> destructs
  and constructs it. The state has the flag \<open>is_continue\<close>. A character that ends a document with an error is
  passed once more, as the first one of a new document.\<close>

function uc_json_parser_feed :: "(char \<Rightarrow> 's \<Rightarrow> int \<times> 's) \<Rightarrow> ('s \<Rightarrow> 's) \<Rightarrow> string \<Rightarrow> bool \<times> 's \<Rightarrow> bool \<times> 's" where
  "uc_json_parser_feed lejp again [] st = st"
| "uc_json_parser_feed lejp again (c # cs) st =
     (let (rc, s) = lejp c (snd st) in
      if rc = LEJP_CONTINUE then uc_json_parser_feed lejp again cs (True, s)
      else if rc \<ge> 0 \<or> \<not> fst st then uc_json_parser_feed lejp again cs (False, again s)
      else uc_json_parser_feed lejp again (c # cs) (False, again s))"
  by pat_completeness auto
termination
  by (relation "measure (\<lambda>(lejp, again, cs, st). 2 * length cs + (if fst st then 1 else 0))") auto

section \<open>The events of a document\<close>

text \<open>A tokenizer cuts strings into pieces and passes on the text of numbers.\<close>

fun events :: "(string \<Rightarrow> string list \<times> string) \<Rightarrow> (rat \<Rightarrow> string) \<Rightarrow> json \<Rightarrow> lejp_event list" where
  "events pieces num JNull = [VAL_NULL]"
| "events pieces num (JBool b) = [if b then VAL_TRUE else VAL_FALSE]"
| "events pieces num (JNum q) = [VAL_NUM (num q)]"
| "events pieces num (JStr s) = VAL_STR_START # map VAL_STR_CHUNK (fst (pieces s)) @ [VAL_STR_END (snd (pieces s))]"
| "events pieces num (JArr vs) = ARRAY_START # concat (map (events pieces num) vs) @ [ARRAY_END]"
| "events pieces num (JObj ms) = OBJECT_START # concat (map (\<lambda>(k, v). PAIR_NAME k # events pieces num v) ms) @ [OBJECT_END]"

text \<open>At most \<open>n\<close> containers inside each other, no null byte in a string, numbers that pass \<open>ok\<close>.\<close>

fun acceptable :: "(rat \<Rightarrow> bool) \<Rightarrow> nat \<Rightarrow> json \<Rightarrow> bool" where
  "acceptable ok n (JNum q) \<longleftrightarrow> ok q"
| "acceptable ok n (JStr s) \<longleftrightarrow> CHR 0x00 \<notin> set s"
| "acceptable ok n (JArr vs) \<longleftrightarrow> n > 0 \<and> (\<forall>v \<in> set vs. acceptable ok (n - 1) v)"
| "acceptable ok n (JObj ms) \<longleftrightarrow> n > 0 \<and> (\<forall>m \<in> set ms. acceptable ok (n - 1) (snd m))"
| "acceptable ok n _ \<longleftrightarrow> True"

text \<open>The node at \<open>a\<close> stands for a document; the nodes of its parts come behind it.\<close>

fun rep :: "(nat \<rightharpoonup> jnode) \<Rightarrow> nat \<Rightarrow> json \<Rightarrow> bool" where
  "rep H a JNull \<longleftrightarrow> H a = Some NNull"
| "rep H a (JBool b) \<longleftrightarrow> H a = Some (if b then NTrue else NFalse)"
| "rep H a (JNum q) \<longleftrightarrow> H a = Some (NNum q)"
| "rep H a (JStr s) \<longleftrightarrow> H a = Some (NStr s)"
| "rep H a (JArr vs) \<longleftrightarrow> (\<exists>as. H a = Some (NArr as) \<and> list_all2 (\<lambda>c v. a < c \<and> rep H c v) as vs)"
| "rep H a (JObj ms) \<longleftrightarrow>
     (\<exists>as. H a = Some (NObj as) \<and> list_all2 (\<lambda>c m. fst c = fst m \<and> a < snd c \<and> rep H (snd c) (snd m)) as ms)"

lemma rep_frame:
  "rep H a v \<Longrightarrow> lo \<le> a \<Longrightarrow> (\<And>x. lo \<le> x \<Longrightarrow> x \<in> dom H \<Longrightarrow> H' x = H x) \<Longrightarrow> rep H' a v"
proof (induction H a v rule: rep.induct)
  case arr: (5 H a vs)
  then obtain as where as: "H a = Some (NArr as)" "list_all2 (\<lambda>c v. a < c \<and> rep H c v) as vs" by auto
  have "list_all2 (\<lambda>c v. a < c \<and> rep H' c v) as vs"
    using as(2) by (rule list.rel_mono_strong) (use arr in \<open>force\<close>)
  moreover have "H' a = H a" using as(1) arr.prems(2,3) by (simp add: domI)
  ultimately show ?case using as(1) by auto
next
  case obj: (6 H a ms)
  then obtain as where as: "H a = Some (NObj as)"
    "list_all2 (\<lambda>c m. fst c = fst m \<and> a < snd c \<and> rep H (snd c) (snd m)) as ms" by auto
  have "list_all2 (\<lambda>c m. fst c = fst m \<and> a < snd c \<and> rep H' (snd c) (snd m)) as ms"
    using as(2) by (rule list.rel_mono_strong) (use obj in \<open>force\<close>)
  moreover have "H' a = H a" using as(1) obj.prems(2,3) by (simp add: domI)
  ultimately show ?case using as(1) by auto
qed (auto simp: domI)

lemma those_map: "list_all2 (\<lambda>x y. f x = Some y) xs ys \<Longrightarrow> those (map f xs) = Some ys"
  by (induction rule: list_all2_induct) simp_all

lemma rep_read: "rep H a v \<Longrightarrow> dom H \<subseteq> {..<n} \<Longrightarrow> n - a \<le> k \<Longrightarrow> read_tree k H a = Some v"
proof (induction H a v arbitrary: k rule: rep.induct)
  case (5 H a vs)
  then obtain as where as: "H a = Some (NArr as)" "list_all2 (\<lambda>c v. a < c \<and> rep H c v) as vs" by auto
  then have "a < n" using 5 by auto
  then obtain j where j: "k = Suc j" using 5 by (cases k) auto
  have "list_all2 (\<lambda>c v. read_tree j H c = Some v) as vs"
    using as(2) by (rule list.rel_mono_strong) (use 5 j \<open>a < n\<close> in \<open>auto\<close>)
  then show ?case using as j those_map by fastforce
next
  case (6 H a ms)
  then obtain as where as: "H a = Some (NObj as)"
    "list_all2 (\<lambda>c m. fst c = fst m \<and> a < snd c \<and> rep H (snd c) (snd m)) as ms" by auto
  then have "a < n" using 6 by auto
  then obtain j where j: "k = Suc j" using 6 by (cases k) auto
  have "list_all2 (\<lambda>c m. (\<lambda>(n, a). map_option (Pair n) (read_tree j H a)) c = Some m) as ms"
    using as(2) by (rule list.rel_mono_strong) (use 6 j \<open>a < n\<close> in \<open>auto split: prod.splits\<close>)
  then show ?case using as j those_map by fastforce
qed (use lessThan_iff in \<open>(case_tac k; fastforce split: if_splits)+\<close>)

section \<open>Building a document\<close>

definition all_mem :: "nat \<Rightarrow> bool" where
  "all_mem k = True"

text \<open>A parser between two values inside a container.\<close>

definition ready :: "uc_json_parser \<Rightarrow> bool" where
  "ready s \<longleftrightarrow> dom (up_heap s) \<subseteq> {..<up_next s} \<and> up_root s \<noteq> None \<and> up_str s = [] \<and> up_strsz s = 0"

fun add_child :: "string \<Rightarrow> nat \<Rightarrow> jnode \<Rightarrow> jnode option" where
  "add_child n a (NArr as) = Some (NArr (as @ [a]))"
| "add_child n a (NObj ms) = Some (NObj (ms @ [(n, a)]))"
| "add_child n a _ = None"

text \<open>What a value leaves of the state: the stack below it, and the nodes other than the parent \<open>p\<close>.\<close>

definition kept :: "nat \<Rightarrow> uc_json_parser \<Rightarrow> uc_json_parser \<Rightarrow> bool" where
  "kept p s s' \<longleftrightarrow> ready s' \<and> up_root s' = up_root s \<and> up_sp s' = up_sp s \<and> up_out s' = up_out s \<and> up_next s \<le> up_next s' \<and>
     length (up_stack s') = length (up_stack s) \<and> take (Suc (up_sp s)) (up_stack s') = take (Suc (up_sp s)) (up_stack s) \<and>
     (\<forall>x \<in> dom (up_heap s). x \<noteq> p \<longrightarrow> up_heap s' x = up_heap s x)"

lemma kept_trans: "kept p s s' \<Longrightarrow> kept p s' s'' \<Longrightarrow> kept p s s''"
  unfolding kept_def by (metis domD domI le_trans)

text \<open>In a parser with room for \<open>n\<close> more containers and a container at \<open>p\<close> on top of its stack, the events append a node
  that stands for \<open>v\<close> to the container.\<close>

definition builds :: "(string \<Rightarrow> rat option) \<Rightarrow> nat \<Rightarrow> lejp_event list \<Rightarrow> json \<Rightarrow> bool" where
  "builds scan n evs v \<longleftrightarrow> (\<forall>s p c. ready s \<and> up_sp s + n < length (up_stack s) \<and> up_stack s ! up_sp s = Some p \<and>
     up_heap s p = Some c \<and> add_child (up_name s) 0 c \<noteq> None \<longrightarrow>
     (\<exists>s' a. callbacks all_mem scan evs s = Some s' \<and> kept p s s' \<and> up_next s \<le> a \<and> rep (up_heap s') a v \<and>
        up_heap s' p = add_child (up_name s) a c))"

lemma callbacks_append:
  "callbacks mem scan (xs @ ys) s = Option.bind (callbacks mem scan xs s) (callbacks mem scan ys)"
  by (induction xs arbitrary: s) (auto split: option.split)

lemma attach_exact:
  assumes "up_heap s p = Some c" "add_child (up_name s) a c = Some c'" "up_root s \<noteq> None"
  shows "\<exists>k. attach all_mem (Some p) a s = Some (0, s\<lparr>up_calls := k, up_heap := (up_heap s)(p \<mapsto> c')\<rparr>)"
  using assms by (cases s; cases c) (auto simp: attach_def all_mem_def)

lemma builds_scalar:
  assumes "\<And>s. up_sp s < length (up_stack s) \<Longrightarrow> uc_lejp_parse all_mem scan e s = scalar_node all_mem (up_stack s ! up_sp s) x s"
    and "\<And>H a. H a = Some x \<Longrightarrow> rep H a v"
  shows "builds scan n [e] v"
  unfolding builds_def
proof (intro allI impI, elim conjE)
  fix s p c
  assume a: "ready s" "up_sp s + n < length (up_stack s)" "up_stack s ! up_sp s = Some p" "up_heap s p = Some c" "add_child (up_name s) 0 c \<noteq> None"
  have p: "p < up_next s" using a(1,4) by (auto simp: ready_def)
  obtain c' where c: "add_child (up_name s) (up_next s) c = Some c'" using a(5) by (cases c) auto
  let ?h = "(up_heap s)(up_next s \<mapsto> x, p \<mapsto> c')"
  let ?s = "s\<lparr>up_calls := Suc (up_calls s), up_heap := (up_heap s)(up_next s \<mapsto> x), up_next := Suc (up_next s)\<rparr>"
  have "\<exists>k. attach all_mem (Some p) (up_next s) ?s = Some (0, ?s\<lparr>up_calls := k, up_heap := (up_heap ?s)(p \<mapsto> c')\<rparr>)"
    by (rule attach_exact) (use a p c in \<open>simp_all add: ready_def\<close>)
  then obtain k where "callbacks all_mem scan [e] s = Some (s\<lparr>up_next := Suc (up_next s), up_calls := k, up_heap := ?h\<rparr>)"
    using assms(1)[of s] a by (auto simp: scalar_node_def create_def all_mem_def)
  moreover have "rep ?h (up_next s) v" using assms(2)[of ?h "up_next s"] p by simp
  ultimately show "\<exists>s' a. callbacks all_mem scan [e] s = Some s' \<and> kept p s s' \<and> up_next s \<le> a \<and> rep (up_heap s') a v \<and>
      up_heap s' p = add_child (up_name s) a c"
    using a p c by (auto simp: kept_def ready_def intro!: exI[of _ "up_next s"] split: if_splits)
qed

lemma builds_str:
  assumes "\<And>s. concat (fst (pieces s)) @ snd (pieces s) = s" "CHR 0x00 \<notin> set t"
  shows "builds scan n (events pieces num (JStr t)) (JStr t)"
  unfolding builds_def
proof (intro allI impI, elim conjE)
  fix s p c
  assume a: "ready s" "up_sp s + n < length (up_stack s)" "up_stack s ! up_sp s = Some p" "up_heap s p = Some c" "add_child (up_name s) 0 c \<noteq> None"
  have p: "p < up_next s" using a(1,4) by (auto simp: ready_def)
  obtain c' where c: "add_child (up_name s) (up_next s) c = Some c'" using a(5) by (cases c) auto
  have ch: "\<exists>k. callbacks all_mem scan (map VAL_STR_CHUNK ts) (s\<lparr>up_calls := j, up_str := u, up_strsz := Suc (length u)\<rparr>) =
      Some (s\<lparr>up_calls := k, up_str := u @ concat ts, up_strsz := Suc (length (u @ concat ts))\<rparr>)" for ts u j
  proof (induction ts arbitrary: u j)
    case (Cons x ts)
    from Cons.IH[of "u @ x" "Suc j"] show ?case using a(2) by (simp add: uc_lejp_parse_def append_str_def all_mem_def)
  qed auto
  let ?u = "concat (fst (pieces t))"
  obtain k where k: "callbacks all_mem scan (map VAL_STR_CHUNK (fst (pieces t))) (s\<lparr>up_strsz := 1\<rparr>) =
      Some (s\<lparr>up_calls := k, up_str := ?u, up_strsz := Suc (length ?u)\<rparr>)"
  proof -
    have "s\<lparr>up_strsz := 1\<rparr> = s\<lparr>up_calls := up_calls s, up_str := [], up_strsz := Suc (length [])\<rparr>"
      using a(1) by (cases s) (simp add: ready_def)
    then show ?thesis using ch[of "fst (pieces t)" "[]" "up_calls s"] that by auto
  qed
  let ?t = "s\<lparr>up_calls := Suc (Suc k), up_heap := (up_heap s)(up_next s \<mapsto> NStr t), up_next := Suc (up_next s), up_str := [], up_strsz := 0\<rparr>"
  have "\<exists>k. attach all_mem (Some p) (up_next s) ?t = Some (0, ?t\<lparr>up_calls := k, up_heap := (up_heap ?t)(p \<mapsto> c')\<rparr>)"
    by (rule attach_exact) (use a p c in \<open>simp_all add: ready_def\<close>)
  then obtain k' where k': "attach all_mem (Some p) (up_next s) ?t = Some (0, ?t\<lparr>up_calls := k', up_heap := (up_heap ?t)(p \<mapsto> c')\<rparr>)" by blast
  have len: "length ?u + length (snd (pieces t)) = length t" using arg_cong[OF assms(1)[of t], of length] by simp
  have nul: "takeWhile (\<lambda>c. c \<noteq> CHR 0x00) t = t" using assms(2) by (simp add: takeWhile_eq_all_conv) metis
  have "uc_lejp_parse all_mem scan (VAL_STR_END (snd (pieces t))) (s\<lparr>up_calls := k, up_str := ?u, up_strsz := Suc (length ?u)\<rparr>) =
      attach all_mem (Some p) (up_next s) ?t"
    using a(2,3) assms(1)[of t] len by (simp add: uc_lejp_parse_def append_str_def create_def all_mem_def nul)
  then have "callbacks all_mem scan (events pieces num (JStr t)) s = Some (?t\<lparr>up_calls := k', up_heap := (up_heap ?t)(p \<mapsto> c')\<rparr>)"
    using k k' a(2) by (simp add: uc_lejp_parse_def[of _ _ VAL_STR_START] callbacks_append)
  then show "\<exists>s' a. callbacks all_mem scan (events pieces num (JStr t)) s = Some s' \<and> kept p s s' \<and> up_next s \<le> a \<and> rep (up_heap s') a (JStr t) \<and>
      up_heap s' p = add_child (up_name s) a c"
    using a p c by (intro exI[of _ "?t\<lparr>up_calls := k', up_heap := (up_heap ?t)(p \<mapsto> c')\<rparr>"] exI[of _ "up_next s"])
      (auto simp: kept_def ready_def split: if_splits)
qed

lemma kept_top: "kept p s s' \<Longrightarrow> up_sp s < length (up_stack s) \<Longrightarrow> up_stack s' ! up_sp s' = up_stack s ! up_sp s"
  unfolding kept_def by (metis lessI nth_take)

lemma kept_refl: "ready s \<Longrightarrow> kept p s s"
  by (simp add: kept_def)

text \<open>Values that are built one after the other in an array, and members in an object.\<close>

lemma array_items:
  assumes "\<forall>v \<in> set vs. builds scan n (ev v) v"
    and "ready s" "up_sp s + n < length (up_stack s)" "up_stack s ! up_sp s = Some a" "up_heap s a = Some (NArr cs)"
  shows "\<exists>s' as. callbacks all_mem scan (concat (map ev vs)) s = Some s' \<and> kept a s s' \<and> up_heap s' a = Some (NArr (cs @ as)) \<and>
    list_all2 (\<lambda>c v. up_next s \<le> c \<and> rep (up_heap s') c v) as vs"
  using assms
proof (induction vs arbitrary: s cs)
  case Nil
  then show ?case by (auto simp: kept_refl)
next
  case (Cons v vs)
  have "builds scan n (ev v) v" using Cons.prems(1) by simp
  then obtain s1 c where 1: "callbacks all_mem scan (ev v) s = Some s1" "kept a s s1" "up_next s \<le> c" "rep (up_heap s1) c v"
    "up_heap s1 a = Some (NArr (cs @ [c]))" unfolding builds_def using Cons.prems(2-5) by fastforce
  have r: "ready s1" "up_sp s1 + n < length (up_stack s1)" "up_next s \<le> up_next s1" using 1(2) Cons.prems(3) by (simp_all add: kept_def)
  have "up_stack s1 ! up_sp s1 = Some a" using kept_top[OF 1(2)] Cons.prems(3,4) by simp
  then obtain s' as where 2: "callbacks all_mem scan (concat (map ev vs)) s1 = Some s'" "kept a s1 s'" "up_heap s' a = Some (NArr ((cs @ [c]) @ as))"
    "list_all2 (\<lambda>c v. up_next s1 \<le> c \<and> rep (up_heap s') c v) as vs"
    using Cons.IH[of s1 "cs @ [c]"] Cons.prems(1) r(1,2) 1(5) by auto
  have "a < up_next s" using Cons.prems(2,5) by (auto simp: ready_def)
  then have "rep (up_heap s') c v" using rep_frame[OF 1(4), of c "up_heap s'"] 2(2) 1(3) by (auto simp: kept_def)
  moreover have "list_all2 (\<lambda>c v. up_next s \<le> c \<and> rep (up_heap s') c v) as vs"
    using 2(4) by (rule list.rel_mono_strong) (use r(3) in auto)
  ultimately show ?case using 1(1,3) 2(1,3) kept_trans[OF 1(2) 2(2)]
    by (intro exI[of _ s'] exI[of _ "c # as"]) (simp add: callbacks_append)
qed

lemma object_items:
  assumes "\<forall>m \<in> set ms. builds scan n (ev (snd m)) (snd m)"
    and "ready s" "up_sp s + n < length (up_stack s)" "up_stack s ! up_sp s = Some a" "up_heap s a = Some (NObj cs)"
  shows "\<exists>s' as. callbacks all_mem scan (concat (map (\<lambda>(k, v). PAIR_NAME k # ev v) ms)) s = Some s' \<and> kept a s s' \<and>
    up_heap s' a = Some (NObj (cs @ as)) \<and>
    list_all2 (\<lambda>c m. fst c = fst m \<and> up_next s \<le> snd c \<and> rep (up_heap s') (snd c) (snd m)) as ms"
  using assms
proof (induction ms arbitrary: s cs)
  case Nil
  then show ?case by (auto simp: kept_refl)
next
  case (Cons m ms)
  obtain k v where m: "m = (k, v)" by (cases m)
  let ?s = "s\<lparr>up_name := k\<rparr>"
  have name: "uc_lejp_parse all_mem scan (PAIR_NAME k) s = Some (0, ?s)" using Cons.prems(3) by (simp add: uc_lejp_parse_def)
  have "builds scan n (ev v) v" using Cons.prems(1) m by simp
  moreover have "ready ?s" using Cons.prems(2) by (simp add: ready_def)
  ultimately obtain s1 c where 1: "callbacks all_mem scan (ev v) ?s = Some s1" "kept a ?s s1" "up_next s \<le> c" "rep (up_heap s1) c v"
    "up_heap s1 a = Some (NObj (cs @ [(k, c)]))" unfolding builds_def using Cons.prems(3-5) by fastforce
  have k1: "kept a s s1" using 1(2) by (simp add: kept_def)
  have r: "ready s1" "up_sp s1 + n < length (up_stack s1)" "up_next s \<le> up_next s1" using k1 Cons.prems(3) by (simp_all add: kept_def)
  have "up_stack s1 ! up_sp s1 = Some a" using kept_top[OF k1] Cons.prems(3,4) by simp
  then obtain s' as where 2: "callbacks all_mem scan (concat (map (\<lambda>(k, v). PAIR_NAME k # ev v) ms)) s1 = Some s'" "kept a s1 s'"
    "up_heap s' a = Some (NObj ((cs @ [(k, c)]) @ as))"
    "list_all2 (\<lambda>c m. fst c = fst m \<and> up_next s1 \<le> snd c \<and> rep (up_heap s') (snd c) (snd m)) as ms"
    using Cons.IH[of s1 "cs @ [(k, c)]"] Cons.prems(1) r(1,2) 1(5) by auto
  have "a < up_next s" using Cons.prems(2,5) by (auto simp: ready_def)
  then have "rep (up_heap s') c v" using rep_frame[OF 1(4), of c "up_heap s'"] 2(2) 1(3) by (auto simp: kept_def)
  moreover have "list_all2 (\<lambda>c m. fst c = fst m \<and> up_next s \<le> snd c \<and> rep (up_heap s') (snd c) (snd m)) as ms"
    using 2(4) by (rule list.rel_mono_strong) (use r(3) in auto)
  ultimately show ?case using 1(1,3) 2(1,3) kept_trans[OF k1 2(2)] name m
    by (intro exI[of _ s'] exI[of _ "(k, c) # as"]) (simp add: callbacks_append)
qed

text \<open>The contents of a container: \<open>x\<close> is its empty node.\<close>

definition fills :: "(string \<Rightarrow> rat option) \<Rightarrow> nat \<Rightarrow> jnode \<Rightarrow> lejp_event list \<Rightarrow> json \<Rightarrow> bool" where
  "fills scan n x evs v \<longleftrightarrow> (\<forall>s a. ready s \<and> up_sp s + n < length (up_stack s) \<and> up_stack s ! up_sp s = Some a \<and> up_heap s a = Some x \<longrightarrow>
     (\<exists>s'. callbacks all_mem scan evs s = Some s' \<and> kept a s s' \<and> rep (up_heap s') a v))"

lemma builds_container:
  assumes start: "\<And>s. up_sp s < length (up_stack s) \<Longrightarrow> uc_lejp_parse all_mem scan e s = container_node all_mem (up_stack s ! up_sp s) x s"
    and fin: "\<And>s. up_sp s < length (up_stack s) \<Longrightarrow> uc_lejp_parse all_mem scan e' s = container_end s"
    and items: "fills scan n x evs v"
  shows "builds scan (Suc n) (e # evs @ [e']) v"
  unfolding builds_def
proof (intro allI impI, elim conjE)
  fix s p c
  assume a: "ready s" "up_sp s + Suc n < length (up_stack s)" "up_stack s ! up_sp s = Some p" "up_heap s p = Some c" "add_child (up_name s) 0 c \<noteq> None"
  have p: "p < up_next s" using a(1,4) by (auto simp: ready_def)
  obtain c' where c: "add_child (up_name s) (up_next s) c = Some c'" using a(5) by (cases c) auto
  let ?a = "up_next s"
  let ?t = "s\<lparr>up_calls := Suc (up_calls s), up_heap := (up_heap s)(?a \<mapsto> x), up_next := Suc ?a, up_sp := Suc (up_sp s),
      up_stack := (up_stack s)[Suc (up_sp s) := Some ?a]\<rparr>"
  have "\<exists>k. attach all_mem (Some p) ?a ?t = Some (0, ?t\<lparr>up_calls := k, up_heap := (up_heap ?t)(p \<mapsto> c')\<rparr>)"
    by (rule attach_exact) (use a p c in \<open>simp_all add: ready_def\<close>)
  then obtain k where k: "attach all_mem (Some p) ?a ?t = Some (0, ?t\<lparr>up_calls := k, up_heap := (up_heap ?t)(p \<mapsto> c')\<rparr>)" by blast
  define s1 where "s1 = ?t\<lparr>up_calls := k, up_heap := (up_heap ?t)(p \<mapsto> c')\<rparr>"
  have b: "uc_lejp_parse all_mem scan e s = Some (0, s1)"
    using start[of s] a(2,3) k by (simp add: container_node_def create_def all_mem_def s1_def)
  have r: "ready s1" "up_sp s1 + n < length (up_stack s1)" "up_stack s1 ! up_sp s1 = Some ?a" "up_heap s1 ?a = Some x"
    using a p by (auto simp: s1_def ready_def split: if_splits)
  then obtain s2 where 2: "callbacks all_mem scan evs s1 = Some s2" "kept ?a s1 s2" "rep (up_heap s2) ?a v"
    using items unfolding fills_def by blast
  let ?s' = "s2\<lparr>up_sp := up_sp s2 - 1\<rparr>"
  have e: "uc_lejp_parse all_mem scan e' s2 = Some (0, ?s')"
    using fin[of s2] 2(2) r(2) by (simp add: container_end_def kept_def s1_def)
  have tk: "take (Suc (up_sp s)) (up_stack s2) = take (Suc (up_sp s)) (up_stack s)"
  proof -
    have "take (Suc (Suc (up_sp s))) (up_stack s2) = take (Suc (Suc (up_sp s))) (up_stack s1)" using 2(2) by (simp add: kept_def s1_def)
    then have "take (Suc (up_sp s)) (up_stack s2) = take (Suc (up_sp s)) (up_stack s1)" by (metis lessI min.strict_order_iff min_def take_take)
    then show ?thesis by (simp add: s1_def)
  qed
  have h: "up_heap s2 y = up_heap s1 y" if "y \<in> dom (up_heap s1)" "y \<noteq> ?a" for y using 2(2) that by (simp add: kept_def)
  have h': "up_heap s2 y = up_heap s y" if "y \<in> dom (up_heap s)" "y \<noteq> p" for y
  proof -
    have "y \<noteq> ?a" using that a(1) by (auto simp: ready_def)
    then show ?thesis using h[of y] that by (auto simp: s1_def)
  qed
  have "kept p s ?s'" using 2(2) a(1) tk h' by (simp add: kept_def ready_def s1_def)
  moreover have "up_heap s2 p = add_child (up_name s) ?a c" using h[of p] p c by (simp add: s1_def)
  ultimately show "\<exists>s' a. callbacks all_mem scan (e # evs @ [e']) s = Some s' \<and> kept p s s' \<and> up_next s \<le> a \<and> rep (up_heap s') a v \<and>
      up_heap s' p = add_child (up_name s) a c"
    using b 2 e by (intro exI[of _ ?s'] exI[of _ ?a]) (simp add: callbacks_append)
qed

lemma fills_array:
  assumes "\<forall>v \<in> set vs. builds scan n (ev v) v"
  shows "fills scan n (NArr []) (concat (map ev vs)) (JArr vs)"
  unfolding fills_def
proof (intro allI impI, elim conjE)
  fix s a
  assume s: "ready s" "up_sp s + n < length (up_stack s)" "up_stack s ! up_sp s = Some a" "up_heap s a = Some (NArr [])"
  from array_items[OF assms s] obtain s' as where "callbacks all_mem scan (concat (map ev vs)) s = Some s'" "kept a s s'"
    "up_heap s' a = Some (NArr as)" "list_all2 (\<lambda>c v. up_next s \<le> c \<and> rep (up_heap s') c v) as vs" by auto
  moreover have "a < up_next s" using s(1,4) by (auto simp: ready_def)
  ultimately show "\<exists>s'. callbacks all_mem scan (concat (map ev vs)) s = Some s' \<and> kept a s s' \<and> rep (up_heap s') a (JArr vs)"
    by (intro exI[of _ s']) (auto elim!: list.rel_mono_strong)
qed

lemma fills_object:
  assumes "\<forall>m \<in> set ms. builds scan n (ev (snd m)) (snd m)"
  shows "fills scan n (NObj []) (concat (map (\<lambda>(k, v). PAIR_NAME k # ev v) ms)) (JObj ms)"
  unfolding fills_def
proof (intro allI impI, elim conjE)
  fix s a
  assume s: "ready s" "up_sp s + n < length (up_stack s)" "up_stack s ! up_sp s = Some a" "up_heap s a = Some (NObj [])"
  from object_items[OF assms s] obtain s' as where "callbacks all_mem scan (concat (map (\<lambda>(k, v). PAIR_NAME k # ev v) ms)) s = Some s'" "kept a s s'"
    "up_heap s' a = Some (NObj as)" "list_all2 (\<lambda>c m. fst c = fst m \<and> up_next s \<le> snd c \<and> rep (up_heap s') (snd c) (snd m)) as ms" by auto
  moreover have "a < up_next s" using s(1,4) by (auto simp: ready_def)
  ultimately show "\<exists>s'. callbacks all_mem scan (concat (map (\<lambda>(k, v). PAIR_NAME k # ev v) ms)) s = Some s' \<and> kept a s s' \<and> rep (up_heap s') a (JObj ms)"
    by (intro exI[of _ s']) (auto elim!: list.rel_mono_strong)
qed

lemma array_event:
  "up_sp s < length (up_stack s) \<Longrightarrow> uc_lejp_parse mem scan ARRAY_START s = container_node mem (up_stack s ! up_sp s) (NArr []) s"
  "up_sp s < length (up_stack s) \<Longrightarrow> uc_lejp_parse mem scan ARRAY_END s = container_end s"
  "up_sp s < length (up_stack s) \<Longrightarrow> uc_lejp_parse mem scan OBJECT_START s = container_node mem (up_stack s ! up_sp s) (NObj []) s"
  "up_sp s < length (up_stack s) \<Longrightarrow> uc_lejp_parse mem scan OBJECT_END s = container_end s"
  by (simp_all add: uc_lejp_parse_def)

text \<open>A tokenizer whose pieces of a string are the string; the text of a number is read back.\<close>

definition whole :: "(string \<Rightarrow> string list \<times> string) \<Rightarrow> bool" where
  "whole pieces \<longleftrightarrow> (\<forall>s. concat (fst (pieces s)) @ snd (pieces s) = s)"

definition read_back :: "(rat \<Rightarrow> string) \<Rightarrow> (string \<Rightarrow> rat option) \<Rightarrow> rat \<Rightarrow> bool" where
  "read_back num scan q \<longleftrightarrow> scan (num q) = Some q"

lemma value_built:
  assumes "whole pieces" "acceptable (read_back num scan) n v"
  shows "builds scan n (events pieces num v) v"
  using assms(2)
proof (induction v arbitrary: n)
  case JNull
  show ?case by (simp, rule builds_scalar[of scan _ NNull]) (simp_all add: uc_lejp_parse_def)
next
  case (JBool b)
  show ?case by (simp only: events.simps, rule builds_scalar[of scan _ "if b then NTrue else NFalse"]) (simp_all add: uc_lejp_parse_def)
next
  case (JNum q)
  then show ?case
    by (simp only: events.simps, intro builds_scalar[of scan _ "NNum q"]) (simp_all add: uc_lejp_parse_def read_back_def)
next
  case (JStr t)
  then show ?case using assms(1) builds_str[of pieces t scan n num] by (simp add: whole_def)
next
  case (JArr vs)
  then obtain m where n: "n = Suc m" "\<forall>v \<in> set vs. acceptable (read_back num scan) m v" by (cases n) auto
  then have "fills scan m (NArr []) (concat (map (events pieces num) vs)) (JArr vs)" using JArr.IH by (intro fills_array) blast
  from builds_container[OF array_event(1) array_event(2) this] show ?case using n(1) by simp
next
  case (JObj ms)
  then obtain m where n: "n = Suc m" "\<forall>x \<in> set ms. acceptable (read_back num scan) m (snd x)" by (cases n) auto
  then have "\<forall>x \<in> set ms. builds scan m (events pieces num (snd x)) (snd x)" using JObj.IH by (metis prod.collapse snds.intros)
  then have "fills scan m (NObj []) (concat (map (\<lambda>(k, v). PAIR_NAME k # events pieces num v) ms)) (JObj ms)" by (rule fills_object)
  from builds_container[OF array_event(3) array_event(4) this] show ?case using n(1) by simp
qed

text \<open>A parser that waits for a document.\<close>

definition idle :: "uc_json_parser \<Rightarrow> bool" where
  "idle s \<longleftrightarrow> up_heap s = Map.empty \<and> up_root s = None \<and> up_str s = [] \<and> up_strsz s = 0 \<and> up_sp s = 0 \<and>
     up_stack s \<noteq> [] \<and> up_stack s ! 0 = None"

lemma document_built:
  assumes start: "\<And>s. up_sp s < length (up_stack s) \<Longrightarrow> uc_lejp_parse all_mem scan e s = container_node all_mem (up_stack s ! up_sp s) x s"
    and fin: "\<And>s. up_sp s < length (up_stack s) \<Longrightarrow> uc_lejp_parse all_mem scan e' s = container_end s"
    and items: "fills scan n x evs v" and s: "idle s" "Suc n < length (up_stack s)"
  shows "\<exists>s'. callbacks all_mem scan (START # (e # evs @ [e']) @ [COMPLETE]) s = Some s' \<and> idle s' \<and>
    length (up_stack s') = length (up_stack s) \<and> up_out s' = up_out s @ [Document (Some v)]"
proof -
  let ?a = "up_next s"
  define s1 where "s1 = s\<lparr>up_calls := Suc (up_calls s), up_heap := [?a \<mapsto> x], up_next := Suc ?a, up_sp := 1,
      up_stack := (up_stack s)[1 := Some ?a], up_root := Some ?a\<rparr>"
  have b: "uc_lejp_parse all_mem scan START s = Some (0, s)" "uc_lejp_parse all_mem scan e s = Some (0, s1)"
    using start[of s] s by (auto simp: uc_lejp_parse_def idle_def container_node_def create_def attach_def all_mem_def s1_def)
  have "ready s1" "up_sp s1 + n < length (up_stack s1)" "up_stack s1 ! up_sp s1 = Some ?a" "up_heap s1 ?a = Some x"
    using s by (auto simp: s1_def ready_def idle_def)
  then obtain s2 where 2: "callbacks all_mem scan evs s1 = Some s2" "kept ?a s1 s2" "rep (up_heap s2) ?a v"
    using items unfolding fills_def by blast
  have k: "dom (up_heap s2) \<subseteq> {..<up_next s2}" "up_root s2 = Some ?a" "up_sp s2 = 1" "length (up_stack s2) = length (up_stack s)"
    "up_out s2 = up_out s" using 2(2) by (auto simp: kept_def ready_def s1_def)
  have top: "up_stack s2 ! 0 = None"
  proof -
    have t: "take (Suc 1) (up_stack s2) = take (Suc 1) (up_stack s1)" using 2(2) by (simp add: kept_def s1_def)
    have "up_stack s2 ! 0 = take (Suc 1) (up_stack s2) ! 0" by simp
    also have "\<dots> = None" unfolding t using s by (simp add: s1_def idle_def)
    finally show ?thesis .
  qed
  have "read_tree (up_next s2) (up_heap s2) ?a = Some v" by (rule rep_read[OF 2(3) k(1)]) simp
  then have c: "uc_lejp_parse all_mem scan e' s2 = Some (0, s2\<lparr>up_sp := 0\<rparr>)"
    "uc_lejp_parse all_mem scan COMPLETE (s2\<lparr>up_sp := 0\<rparr>) = Some (0, cleanup (s2\<lparr>up_sp := 0, up_out := up_out s @ [Document (Some v)]\<rparr>))"
    using fin[of s2] k s(2) by (auto simp: container_end_def uc_lejp_parse_def)
  show ?thesis using b 2(1) c k(4) s(2) top
    by (intro exI[of _ "cleanup (s2\<lparr>up_sp := 0, up_out := up_out s @ [Document (Some v)]\<rparr>)"])
      (auto simp: callbacks_append idle_def cleanup_def)
qed

text \<open>The events of a stream of documents, each with a tokenizer of its own.\<close>

definition document_events :: "(string \<Rightarrow> string list \<times> string) \<Rightarrow> (rat \<Rightarrow> string) \<Rightarrow> json \<Rightarrow> lejp_event list" where
  "document_events pieces num v = [CONSTRUCTED] @ (START # events pieces num v @ [COMPLETE]) @ [DESTRUCTED]"

fun top_level :: "json \<Rightarrow> bool" where
  "top_level (JArr vs) \<longleftrightarrow> True"
| "top_level (JObj ms) \<longleftrightarrow> True"
| "top_level _ \<longleftrightarrow> False"

lemma one_document:
  assumes "whole pieces" "top_level v" "acceptable (read_back num scan) (length (up_stack s) - 1) v" "idle s"
  shows "\<exists>s'. callbacks all_mem scan (document_events pieces num v) s = Some s' \<and> idle s' \<and>
    length (up_stack s') = length (up_stack s) \<and> up_out s' = up_out s @ [Document (Some v)]"
proof -
  have "1 < length (up_stack s)" using assms(2,3) by (cases v) auto
  then have "length (up_stack s) = Suc (Suc (length (up_stack s) - 2))" by simp
  then obtain n where n: "length (up_stack s) = Suc (Suc n)" by blast
  have "\<exists>s'. callbacks all_mem scan (START # events pieces num v @ [COMPLETE]) s = Some s' \<and> idle s' \<and>
    length (up_stack s') = length (up_stack s) \<and> up_out s' = up_out s @ [Document (Some v)]"
  proof (cases v)
    case (JArr vs)
    have "\<forall>x \<in> set vs. builds scan n (events pieces num x) x" using assms(1,3) JArr n by (auto intro: value_built)
    from document_built[OF array_event(1) array_event(2) fills_array[OF this] assms(4)] show ?thesis using n JArr by simp
  next
    case (JObj ms)
    have "\<forall>x \<in> set ms. builds scan n (events pieces num (snd x)) (snd x)" using assms(1,3) JObj n by (auto intro: value_built)
    from document_built[OF array_event(3) array_event(4) fills_object[OF this] assms(4)] show ?thesis using n JObj by simp
  qed (use assms(2) in simp_all)
  then obtain s' where s': "callbacks all_mem scan (START # events pieces num v @ [COMPLETE]) s = Some s'" "idle s'"
    "length (up_stack s') = length (up_stack s)" "up_out s' = up_out s @ [Document (Some v)]" by blast
  have "callbacks all_mem scan [CONSTRUCTED] s = Some s" "callbacks all_mem scan [DESTRUCTED] s' = Some (cleanup s')"
    using assms(4) s'(2) by (auto simp: uc_lejp_parse_def idle_def)
  then have "callbacks all_mem scan (document_events pieces num v) s = Some (cleanup s')"
    unfolding document_events_def by (simp only: callbacks_append Option.bind.simps s'(1))
  moreover have "idle (cleanup s')" using s'(2) by (simp add: idle_def cleanup_def)
  ultimately show ?thesis using s'(3,4) by (simp add: cleanup_def)
qed



text \<open>When the name of a member cannot be copied, the document is handed over without the member.\<close>

lemma lost_member:
  "\<exists>s. callbacks (\<lambda>k. k \<noteq> 2) scan [START, OBJECT_START, PAIR_NAME ''a'', VAL_TRUE, OBJECT_END, COMPLETE] (uc_json_parser_init 12) = Some s \<and>
     up_out s = [Document (Some (JObj []))]"
  by (simp add: uc_lejp_parse_def uc_json_parser_init_def container_node_def scalar_node_def create_def attach_def container_end_def cleanup_def
      eval_nat_numeral)

section \<open>Chunks\<close>

lemma feed_append: "uc_json_parser_feed lejp again (xs @ ys) st = uc_json_parser_feed lejp again ys (uc_json_parser_feed lejp again xs st)"
  by (induction lejp again xs st rule: uc_json_parser_feed.induct) (simp_all split: prod.split)

text \<open>The tokenizer with a counter of the characters that are passed to it.\<close>

definition counted :: "(char \<Rightarrow> 's \<Rightarrow> int \<times> 's) \<Rightarrow> char \<Rightarrow> nat \<times> 's \<Rightarrow> int \<times> nat \<times> 's" where
  "counted lejp c st = (let (rc, s) = lejp c (snd st) in (rc, Suc (fst st), s))"

lemma feed_calls:
  assumes P: "\<And>c s. fst (snd (P c s)) = Suc (fst s)" and A: "\<And>s. fst (A s) = fst s"
  shows "fst (snd (uc_json_parser_feed P A cs st)) + (if fst st \<or> cs = [] then 0 else 1) \<le> fst (snd st) + 2 * length cs"
proof (induction cs arbitrary: st)
  case (Cons c cs)
  have IH: "fst (snd (uc_json_parser_feed P A cs st)) \<le> fst (snd st) + 2 * length cs" for st using Cons.IH[of st] by linarith
  have one: "fst (snd (uc_json_parser_feed P A (c # cs) (False, s))) + 1 \<le> fst s + 2 * length (c # cs)" for s
    using IH[of "(True, snd (P c s))"] IH[of "(False, A (snd (P c s)))"] P[of c s] A[of "snd (P c s)"] by (auto split: prod.splits)
  show ?case
  proof (cases "fst st")
    case True
    show ?thesis
      using True IH[of "(True, snd (P c (snd st)))"] IH[of "(False, A (snd (P c (snd st))))"] one[of "A (snd (P c (snd st)))"]
        P[of c "snd st"] A[of "snd (P c (snd st))"]
      by (subst uc_json_parser_feed.simps) (auto simp del: uc_json_parser_feed.simps split: prod.splits)
  next
    case False
    then show ?thesis using one[of "snd st"] by (cases st) simp
  qed
qed simp

text \<open>C27. Feeding a stream ends, with at most two calls of the tokenizer per character, and its effect does not depend
  on how the stream is cut into chunks, for any tokenizer.\<close>

theorem feed_chunks:
  "uc_json_parser_feed lejp again (concat chunks) st = fold (uc_json_parser_feed lejp again) chunks st \<and>
   fst (snd (uc_json_parser_feed (counted lejp) (map_prod id again) cs (b, 0, s))) \<le> 2 * length cs"
proof
  show "uc_json_parser_feed lejp again (concat chunks) st = fold (uc_json_parser_feed lejp again) chunks st"
    by (induction chunks arbitrary: st) (simp_all add: feed_append)
  show "fst (snd (uc_json_parser_feed (counted lejp) (map_prod id again) cs (b, 0, s))) \<le> 2 * length cs"
  proof -
    have "fst (snd (uc_json_parser_feed (counted lejp) (map_prod id again) cs (b, 0, s))) + (if fst (b, 0 :: nat, s) \<or> cs = [] then 0 else 1)
        \<le> fst (snd (b, 0, s)) + 2 * length cs"
      by (rule feed_calls) (simp_all add: counted_def split: prod.split)
    then show ?thesis by (simp split: if_splits)
  qed
qed

end
