(* ===== verification/Spec2Isabelle.thy ===== *)
theory Spec2Isabelle
  imports Base64 Uc_Log Client_Loop Apply_Order Plat_Script Plat_Files Plat_Poll State_Props Plat_Events Plat_Upgrade Adapter_Read Netlink Subscribe Json_Stream
begin

text \<open>
  A verification development of the OpenLAN switching client of the repository
  (\<open>src/src/ucentral-client\<close>): the program on a switch that keeps a websocket to its cloud
  gateway open, answers JSON-RPC requests, turns configuration documents into the platform's
  structures, and has the platform bring them to the switch.

  \<^bold>\<open>The program and the theories.\<close>

  \<^item> \<open>Prelude\<close>: C conventions shared by all: loops with an early return (\<open>loop_ret\<close>), strings in
    fixed arrays, \<open>strcpy\<close>, \<open>snprintf\<close>, \<open>sscanf\<close> of decimal numbers. \<open>Bitmap\<close>: \<open>include/bitmap.h\<close>.
    \<open>Base64\<close>: \<open>base64.c\<close>. \<open>Router_Utils\<close>: \<open>router-utils.c\<close>.
  \<^item> \<open>Json_Api\<close>: the JSON values and the calls of cJSON the protocol uses, with allocations that may
    fail. \<open>Plat_Types\<close>: the structures of \<open>include/ucentral-platform.h\<close> and the platform functions the
    protocol calls, as fields of a record of functions. \<open>Plat_Example\<close>: the platform of stubs.
  \<^item> \<open>Proto_Msgs\<close>, \<open>Proto_Tables\<close>, \<open>Cfg_Ports\<close>, \<open>Cfg_Vlans\<close>, \<open>Cfg_Switch\<close>, \<open>Cfg_Parse\<close>, \<open>Proto_Handlers\<close>,
    \<open>State_Report\<close>, \<open>Connect\<close>: \<open>proto.c\<close>: messages, name tables, the configuration parser section by
    section (\<open>cfg_parse\<close>), the JSON-RPC handlers and their dispatcher (\<open>proto_handle_blob\<close>), state and
    telemetry reports, the connect message. \<open>Cfg_Wf\<close> and \<open>Handler_Props\<close> hold their properties.
  \<^item> \<open>Est_Client\<close>: \<open>est-client.c\<close>. \<open>Client_Setup\<close>, \<open>Tx_Queue\<close>, \<open>Client_Loop\<close>: \<open>ucentral-client.c\<close>: start
    (identifiers, certificates, gateway address), the transmit queue as linked nodes in a store, the
    websocket callback and the main loop as a step relation. \<open>Uc_Log\<close>: \<open>ucentral-log.c\<close>.
    \<open>Json_Stream\<close>: \<open>ucentral-json-parser.c\<close>, the streaming parser over a store of nodes.
  \<^item> \<open>Plat_Router\<close>, \<open>Plat_Log\<close>, \<open>Plat_Gnma\<close>, \<open>Plat_Ports\<close>, \<open>Plat_Vlans\<close>, \<open>Plat_Apply\<close>: the SONiC
    platform \<open>platform/brcm-sonic/plat-gnma.c\<close>: the routes, the log ring buffer, the cached state, and
    \<open>plat_config_apply\<close> with all its parts. \<open>Apply_Props\<close> and \<open>Apply_Order\<close> hold their properties.
    \<open>Plat_Init\<close>: \<open>plat_init\<close>, which fills the cached state from the switch. \<open>Plat_Script\<close>: \<open>plat_run_script\<close>,
    the runner's thread, the splitting of lines and the lock. \<open>Plat_Files\<close>: the files of the identifier
    and the metrics. \<open>Plat_Poll\<close>: the periodic threads and the health report. \<open>Plat_Read\<close> and
    \<open>Plat_State\<close>: \<open>plat_state_get\<close>, which gathers what a state report tells about the switch;
    \<open>State_Props\<close> holds the properties. \<open>Plat_Events\<close>: notifications from the switch, from the management
    adapter's callback (\<open>gnma/gnma_common.c\<close>) to the protocol's event, and the cause of the last restart.
    \<open>Plat_Upgrade\<close>: the download and installation of an image, and remote terminals.
  \<^item> \<open>Connector\<close>: \<open>gnma/gnmi/gnmi_c_connector.cpp\<close>: how a path becomes elements, tokens, the requests to
    the switch. \<open>Adapter\<close>, \<open>Adapter_Net\<close>, \<open>Adapter_Read\<close>: the management adapter \<open>gnma/gnma_common.c\<close>: the path and
    the document of every setting (ports, 802.1x, power, VLANs, addresses, relay, routes, spanning tree,
    servers, multicast) and how the queries read the answers; \<open>perform\<close> carries out a call of the
    platform. \<open>Adapter_Props\<close> holds the properties. \<open>Subscribe\<close>: the connector's subscription, its thread as a
    step relation. \<open>Netlink\<close>: \<open>netlink/netlink_common.c\<close>, the walk over the kernel's messages on bytes.

  \<^bold>\<open>Conventions.\<close> A function of the code is a function with the state it reads and writes as an
  argument and a result. \<open>None\<close> is undefined behaviour (an access outside an array, a null
  pointer, an uninitialised value that is used); errors of the code are return codes as in the
  code. A C array of characters is a string; doubles of JSON numbers are rationals. Library and
  system calls (cJSON allocations, the websocket library, OpenSSL, curl, files, the management
  adapter of the switch) are parameters; which allocation fails is a parameter as well, so the
  theorems hold for every pattern of failures. The adapter's answers are functions of the
  history of requests. Diagnostic log lines are events of their own where their order matters.
  Loops over data are recursive functions that terminate; \<open>BITMAP_FOR_EACH_BIT_SET\<close> and the log
  callback, whose ends are not obvious, have their termination proved. The loops of the script runner that
  wait for the system take a number of turns as fuel and say when it is used up: the results hold
  at every moment of the run, so no bound on the fuel is needed. The walk over kernel messages may wait
  forever, which is an outcome of its own; it is shown to end.

  \<^bold>\<open>What is shown.\<close>

  \<^item> Configuration: what \<open>cfg_parse\<close> accepts is well-formed; \<open>configure\<close> is applied and recorded or
    leaves everything as it was; every request gets its reply; other requests never change the
    identifiers; the routes, port selections, instances and sessions are exactly the document's.
  \<^item> Platform: the caches that are kept attribute by attribute mirror the switch after every run
    and a successful run puts the configuration in force; VLANs, members and routes are
    reconciled; the password comes last. After a successful start the caches hold what the switch reports,
    and they mirror it through any sequence of configurations. Scripts start only allowed commands, in
    order, one script at a time; stored identifiers and metrics are read back. What is gathered is what
    the switch answers, and it arrives in the report to the server; so do link and power events. An
    upgrade is reported as it went, and remote terminals are a bounded queue.
  \<^item> Adapter: a call of the platform is at most one request and success means that the switch took it;
    settings are read back as they were set; members of VLANs and lists of ports are read exactly;
    a request is performed once whatever token is stored. The subscription's thread keeps the order of its
    operations and hands on every response; addresses in the kernel's messages are read exactly.
  \<^item> Transport: the linked queue refines a list; what is written to the server is what the protocol
    produced, in order; a writable event empties the queue. The streaming parser rebuilds the documents of
    its stream, whatever chunks it is fed.
  \<^item> Reports, connection, certificates: messages are sent whole or not at all, with the right
    content; enrolment and the choice of certificates.
  \<^item> Errors of the code that modelling brought to light are theorems too; each is also listed
    as a finding of the project.

  \<^bold>\<open>Not modelled.\<close> The signal thread and the interruption of the event loop; the redirector code that
  nothing calls; the transfers done by curl; of
  the connector the creation of the session and the list of alarms, which nothing calls; getters of the platform
  that only copy an answer, and the freeing of results.
\<close>

end

